(* ===== verification/Prelude.thy ===== *)
theory Prelude
  imports Main
begin

text \<open>The shared vocabulary of the development: the collections of proof rules the components
declare their facts into, and the generic facts on sums, options and lists that several components
use.  A fallible Rust function is modelled by a value of a sum type, \<^verbatim>\<open>Inl\<close> holding the error
and \<^verbatim>\<open>Inr\<close> the result; a function that also changes a state returns the pair of that value and
the new state, also on the error branch, because a Rust \<^verbatim>\<open>&mut\<close> argument keeps the changes
made before an early return.\<close>

named_theorems wf_rules \<open>preservation of the configuration well-formedness\<close>
named_theorems secret_simps \<open>evaluation of the secret-carrying operations\<close>
named_theorems text_simps \<open>evaluation of the string operations\<close>
named_theorems path_simps \<open>evaluation of the path operations\<close>

section \<open>Results\<close>

text \<open>The \<^verbatim>\<open>?\<close> operator on a pure result.\<close>

fun and_then :: "'e + 'a \<Rightarrow> ('a \<Rightarrow> 'e + 'b) \<Rightarrow> 'e + 'b" where
  "and_then (Inl e) f = Inl e"
| "and_then (Inr x) f = f x"

fun map_err :: "('e \<Rightarrow> 'f) \<Rightarrow> 'e + 'a \<Rightarrow> 'f + 'a" where
  "map_err f (Inl e) = Inl (f e)"
| "map_err f (Inr x) = Inr x"

fun ok_or :: "'e \<Rightarrow> 'a option \<Rightarrow> 'e + 'a" where
  "ok_or e None = Inl e"
| "ok_or e (Some x) = Inr x"

fun is_ok :: "'e + 'a \<Rightarrow> bool" where
  "is_ok (Inl _) = False"
| "is_ok (Inr _) = True"

lemma and_then_Inr [simp]:
  "and_then r f = Inr y \<longleftrightarrow> (\<exists>x. r = Inr x \<and> f x = Inr y)"
  by (cases r) auto

lemma and_then_Inl:
  "and_then r f = Inl e \<longleftrightarrow> r = Inl e \<or> (\<exists>x. r = Inr x \<and> f x = Inl e)"
  by (cases r) auto

lemma ok_or_Inr [simp]: "ok_or e r = Inr y \<longleftrightarrow> r = Some y"
  by (cases r) auto

lemma ok_or_Inl [simp]: "ok_or e r = Inl e' \<longleftrightarrow> r = None \<and> e' = e"
  by (cases r) auto

lemma is_ok_iff: "is_ok r \<longleftrightarrow> (\<exists>x. r = Inr x)"
  by (cases r) auto

section \<open>Lists\<close>

text \<open>\<^verbatim>\<open>find\<close> on a list whose keys are distinct returns the element itself.\<close>

lemma find_key_iff:
  assumes "distinct (map f xs)"
  shows "List.find (\<lambda>x. f x = k) xs = Some y \<longleftrightarrow> y \<in> set xs \<and> f y = k"
  using assms by (induction xs) auto

lemma find_None_key:
  "List.find (\<lambda>x. f x = k) xs = None \<longleftrightarrow> k \<notin> f ` set xs"
  by (auto simp: find_None_iff)

lemma find_Some_sat: "List.find P xs = Some y \<Longrightarrow> P y \<and> y \<in> set xs"
  by (induction xs) (auto split: if_splits)

lemma find_append:
  "List.find P (xs @ ys) = (case List.find P xs of None \<Rightarrow> List.find P ys | Some x \<Rightarrow> Some x)"
  by (induction xs) auto

lemma find_cong_map:
  "(\<And>x. x \<in> set xs \<Longrightarrow> P (g x) = P x) \<Longrightarrow>
   List.find P (map g xs) = map_option g (List.find P xs)"
  by (induction xs) auto

lemma distinct_map_filter_keys:
  "distinct (map f xs) \<Longrightarrow> distinct (map f (List.filter P xs))"
  by (induction xs) auto

text \<open>The position of the first element with a property (Rust's \<^verbatim>\<open>iter().position\<close>).\<close>

fun position :: "('a \<Rightarrow> bool) \<Rightarrow> 'a list \<Rightarrow> nat option" where
  "position P [] = None"
| "position P (x # xs) = (if P x then Some 0 else map_option Suc (position P xs))"

lemma position_Some:
  "position P xs = Some i \<Longrightarrow> i < length xs \<and> P (xs ! i) \<and> (\<forall>j<i. \<not> P (xs ! j))"
proof (induction xs arbitrary: i)
  case (Cons x xs)
  then show ?case
    by (auto split: if_splits option.splits simp: nth_Cons split: nat.splits)
qed simp

lemma position_None: "position P xs = None \<longleftrightarrow> (\<forall>x\<in>set xs. \<not> P x)"
  by (induction xs) auto

lemma position_find: "position P xs = Some i \<Longrightarrow> List.find P xs = Some (xs ! i)"
proof (induction xs arbitrary: i)
  case (Cons x xs)
  then show ?case by (cases "P x") auto
qed simp

lemma distinct_map_update_same:
  "distinct (map f xs) \<Longrightarrow> i < length xs \<Longrightarrow> f x = f (xs ! i) \<Longrightarrow> distinct (map f (xs[i := x]))"
  by (metis list_update_id map_update nth_map)

lemma list_all2_map_eq: "list_all2 P xs ys \<Longrightarrow> (\<And>x y. P x y \<Longrightarrow> g y = f x) \<Longrightarrow> map g ys = map f xs"
  by (induction rule: list_all2_induct) auto

lemma list_all2_all: "list_all2 P xs ys \<Longrightarrow> (\<And>x y. P x y \<Longrightarrow> Q y) \<Longrightarrow> list_all Q ys"
  by (induction rule: list_all2_induct) auto

end
