(* ===== verification/Ids.thy ===== *)
theory Ids
  imports Prelude
begin

text \<open>Identities (\<^verbatim>\<open>id.rs\<close>).  A \<^verbatim>\<open>Ulid\<close> is represented by its canonical text, the 26
Crockford base-32 characters that its \<^verbatim>\<open>Display\<close> prints and that stand in bijection with its
128-bit value; equality of ids is equality of these texts.  \<^verbatim>\<open>ulid_ok\<close> says that a text is such a canonical
one: Ulids made by the \<^verbatim>\<open>ulid\<close> crate satisfy it.  A fresh id (\<^verbatim>\<open>new_id\<close>) is an argument
of the operations that draw one.\<close>

type_synonym ulid = string

definition crockford :: string where
  "crockford = ''0123456789ABCDEFGHJKMNPQRSTVWXYZ''"

definition ulid_ok :: "ulid \<Rightarrow> bool" where
  "ulid_ok u \<longleftrightarrow> length u = 26 \<and> list_all (\<lambda>c. c \<in> set crockford) u \<and> hd u \<in> set ''01234567''"

datatype owner_kind = OwnerHost | OwnerCredential

fun keyring_key :: "owner_kind \<Rightarrow> ulid \<Rightarrow> string" where
  "keyring_key OwnerHost u = ''host:'' @ u"
| "keyring_key OwnerCredential u = ''cred:'' @ u"

definition keyring_key_inline_priv :: "owner_kind \<Rightarrow> ulid \<Rightarrow> string" where
  "keyring_key_inline_priv k u = keyring_key k u @ ''#ikpriv''"

definition keyring_key_inline_cert :: "owner_kind \<Rightarrow> ulid \<Rightarrow> string" where
  "keyring_key_inline_cert k u = keyring_key k u @ ''#ikcert''"

section \<open>The slots of an owner\<close>

text \<open>An owner has three slots; \<^verbatim>\<open>slot_key\<close> names them uniformly, which is what the proofs
about the keyring use.\<close>

datatype slot = PasswordSlot | PrivateSlot | CertificateSlot

fun slot_key :: "owner_kind \<Rightarrow> ulid \<Rightarrow> slot \<Rightarrow> string" where
  "slot_key k u PasswordSlot = keyring_key k u"
| "slot_key k u PrivateSlot = keyring_key_inline_priv k u"
| "slot_key k u CertificateSlot = keyring_key_inline_cert k u"

lemma keyring_key_conv_slot: "keyring_key k u = slot_key k u PasswordSlot"
  by simp

lemma keyring_key_inline_priv_conv_slot: "keyring_key_inline_priv k u = slot_key k u PrivateSlot"
  by simp

lemma keyring_key_inline_cert_conv_slot: "keyring_key_inline_cert k u = slot_key k u CertificateSlot"
  by simp

lemmas slot_convs = keyring_key_conv_slot keyring_key_inline_priv_conv_slot
  keyring_key_inline_cert_conv_slot

lemma keyring_key_inj [simp]: "keyring_key k u = keyring_key k' u' \<longleftrightarrow> k = k' \<and> u = u'"
  by (cases k; cases k') auto

lemma keyring_key_length: "length (keyring_key k u) = 5 + length u"
  by (cases k) auto

lemma ulid_ok_length: "ulid_ok u \<Longrightarrow> length u = 26"
  by (simp add: ulid_ok_def)

text \<open>Two slots of legal owners have the same account key only when they are the same slot of the
same owner: the lengths separate the password slot, the suffixes the other two.\<close>

lemma slot_key_inj:
  assumes "ulid_ok u" "ulid_ok u'"
  shows "slot_key k u s = slot_key k' u' s' \<longleftrightarrow> k = k' \<and> u = u' \<and> s = s'"
proof -
  have len: "length (keyring_key k u) = length (keyring_key k' u')"
    using assms by (simp add: keyring_key_length ulid_ok_length)
  show ?thesis
    using len keyring_key_inj[of k u k' u']
    by (cases s; cases s')
       (auto simp: keyring_key_inline_priv_def keyring_key_inline_cert_def dest!: arg_cong[of _ _ length])
qed

end
