(* ===== verification/Errors.thy ===== *)
theory Errors
  imports Prelude
begin

text \<open>The crate-wide error type of \<^verbatim>\<open>error.rs\<close>.  An \<^verbatim>\<open>std::io::Error\<close> is kept as its
kind (the only part the code looks at) with a detail text.\<close>

datatype io_error = IoNotFound | IoInterrupted | IoOther string

text \<open>\<^verbatim>\<open>DidYouMean\<close> and its \<^verbatim>\<open>Display\<close>.\<close>

datatype did_you_mean = DidYouMean "string option"

fun did_you_mean_display :: "did_you_mean \<Rightarrow> string" where
  "did_you_mean_display (DidYouMean (Some s)) = '' (did you mean '' @ [CHR 0x27] @ s @ [CHR 0x27] @ ''?)''"
| "did_you_mean_display (DidYouMean None) = ''''"

datatype (plugins only: code size) sshrack_error =
    NoCommand
  | Interrupted
  | MissingRequiredField string
  | HostNotFound string did_you_mean
  | InvalidNameChar string char
  | InvalidSshArgs string
  | AddressNeedsUser string
  | TargetHasPort string nat
  | InvalidTarget string string
  | HostAlreadyExists string
  | NameTaken string
  | CredentialNotFound string did_you_mean
  | CredentialAlreadyExists string
  | InvalidCredentialBody string
  | ConfigRead string io_error
  | ConfigParse string
  | ConfigSerialize string
  | ConfigWrite string io_error
  | AskpassNoFile string
  | AskpassRead string io_error
  | AskpassEncoding
  | AskpassWrite string io_error
  | AskpassBadHostId string
  | AskpassHostMissing string
  | AskpassNoPlaintextPassword string
  | AskpassNoConfigPath
  | AskpassDenied
  | SelfExe io_error
  | NoKnownHostsPath
  | HostKeyNotConfirmed string
  | HostKeyScanFailed string
  | HostKeyScanEmpty string
  | VaultLocked
  | VaultUnlockFailed
  | EncryptionFailed
  | DecryptionFailed string
  | VaultNotEnabled
  | StoreModeNotDecided
  | UnknownVaultField string
  | InvalidVaultFieldValue string string string
  | UnknownField string string
  | CacheIo string io_error
  | KeyringUnavailable
  | KeyringIo string
  | KeyringNoEntry string
  | Io io_error
  | SftpOpenFailed string

text \<open>\<^verbatim>\<open>SshrackError::from_prompt_io\<close>: a Ctrl+C at a prompt is the silent cancel.\<close>

fun from_prompt_io :: "io_error \<Rightarrow> sshrack_error" where
  "from_prompt_io e = (if e = IoInterrupted then Interrupted else Io e)"

end
