(* ===== verification/Rust_Text.thy ===== *)
theory Rust_Text
  imports Prelude
begin

text \<open>The parts of Rust's \<^verbatim>\<open>str\<close> that the program uses.  A Rust string is read as a list of
characters whose scalar values are below 256 (Latin-1), so a \<^verbatim>\<open>char\<close> predicate of Rust is a
predicate of the code: \<^verbatim>\<open>char::is_whitespace\<close> and \<^verbatim>\<open>char::is_control\<close> are written out
for these scalars.  \<^verbatim>\<open>utf8\<close> is the byte sequence of such a text (\<^verbatim>\<open>str::as_bytes\<close>), a
list of bytes again represented by characters, and \<^verbatim>\<open>from_utf8\<close> reads it back.\<close>

type_synonym bytes = string

section \<open>Characters\<close>

definition char_is_whitespace :: "char \<Rightarrow> bool" where
  "char_is_whitespace c \<longleftrightarrow>
     (let n = (of_char c :: nat) in 9 \<le> n \<and> n \<le> 13 \<or> n = 32 \<or> n = 133 \<or> n = 160)"

definition char_is_control :: "char \<Rightarrow> bool" where
  "char_is_control c \<longleftrightarrow> (let n = (of_char c :: nat) in n \<le> 31 \<or> 127 \<le> n \<and> n \<le> 159)"

definition char_is_ascii_digit :: "char \<Rightarrow> bool" where
  "char_is_ascii_digit c \<longleftrightarrow> (let n = (of_char c :: nat) in 48 \<le> n \<and> n \<le> 57)"

definition char_to_lowercase :: "char \<Rightarrow> char" where
  "char_to_lowercase c =
     (let n = (of_char c :: nat)
      in if 65 \<le> n \<and> n \<le> 90 \<or> 192 \<le> n \<and> n \<le> 222 \<and> n \<noteq> 215 then char_of (n + 32) else c)"

definition to_lowercase :: "string \<Rightarrow> string" where
  "to_lowercase s = map char_to_lowercase s"

section \<open>Trimming and splitting\<close>

definition trim_start :: "string \<Rightarrow> string" where
  "trim_start s = dropWhile char_is_whitespace s"

definition trim_end :: "string \<Rightarrow> string" where
  "trim_end s = rev (dropWhile char_is_whitespace (rev s))"

definition trim :: "string \<Rightarrow> string" where
  "trim s = trim_end (trim_start s)"

fun strip_prefix :: "string \<Rightarrow> string \<Rightarrow> string option" where
  "strip_prefix [] s = Some s"
| "strip_prefix (c # p) [] = None"
| "strip_prefix (c # p) (d # s) = (if c = d then strip_prefix p s else None)"

definition starts_with :: "string \<Rightarrow> string \<Rightarrow> bool" where
  "starts_with p s \<longleftrightarrow> strip_prefix p s \<noteq> None"

definition ends_with :: "string \<Rightarrow> string \<Rightarrow> bool" where
  "ends_with p s \<longleftrightarrow> strip_prefix (rev p) (rev s) \<noteq> None"

text \<open>\<^verbatim>\<open>split_once\<close> and \<^verbatim>\<open>rsplit_once\<close> on one character.\<close>

fun split_once :: "char \<Rightarrow> string \<Rightarrow> (string \<times> string) option" where
  "split_once d [] = None"
| "split_once d (c # s) =
     (if c = d then Some ([], s) else map_option (\<lambda>(a, b). (c # a, b)) (split_once d s))"

definition rsplit_once :: "char \<Rightarrow> string \<Rightarrow> (string \<times> string) option" where
  "rsplit_once d s = map_option (\<lambda>(a, b). (rev b, rev a)) (split_once d (rev s))"

text \<open>\<^verbatim>\<open>str::contains\<close> for a substring.\<close>

fun contains_str :: "string \<Rightarrow> string \<Rightarrow> bool" where
  "contains_str p [] = starts_with p []"
| "contains_str p (c # s) = (starts_with p (c # s) \<or> contains_str p s)"

text \<open>\<^verbatim>\<open>split_whitespace\<close>: the maximal runs without whitespace.\<close>

fun split_ws_from :: "string \<Rightarrow> string \<Rightarrow> string list" where
  "split_ws_from cur [] = (if cur = [] then [] else [rev cur])"
| "split_ws_from cur (c # s) =
     (if char_is_whitespace c
      then (if cur = [] then split_ws_from [] s else rev cur # split_ws_from [] s)
      else split_ws_from (c # cur) s)"

definition split_whitespace :: "string \<Rightarrow> string list" where
  "split_whitespace s = split_ws_from [] s"

text \<open>\<^verbatim>\<open>str::lines\<close>: split at line feeds, one trailing carriage return dropped, no empty last
line.\<close>

definition strip_cr :: "string \<Rightarrow> string" where
  "strip_cr l = (if l \<noteq> [] \<and> last l = CHR 0x0D then butlast l else l)"

fun lines_from :: "string \<Rightarrow> string \<Rightarrow> string list" where
  "lines_from cur [] = (if cur = [] then [] else [rev cur])"
| "lines_from cur (c # s) =
     (if c = CHR 0x0A then strip_cr (rev cur) # lines_from [] s else lines_from (c # cur) s)"

definition lines :: "string \<Rightarrow> string list" where
  "lines s = lines_from [] s"

text \<open>\<^verbatim>\<open>str::split(char)\<close>: every field, empty ones included.\<close>

fun split_char_from :: "char \<Rightarrow> string \<Rightarrow> string \<Rightarrow> string list" where
  "split_char_from d cur [] = [rev cur]"
| "split_char_from d cur (c # s) =
     (if c = d then rev cur # split_char_from d [] s else split_char_from d (c # cur) s)"

definition split_char :: "char \<Rightarrow> string \<Rightarrow> string list" where
  "split_char d s = split_char_from d [] s"

fun join :: "string \<Rightarrow> string list \<Rightarrow> string" where
  "join sep [] = []"
| "join sep [x] = x"
| "join sep (x # y # xs) = x @ sep @ join sep (y # xs)"

section \<open>Numbers\<close>

definition digit_val :: "char \<Rightarrow> nat" where
  "digit_val c = (of_char c :: nat) - 48"

definition dec_value :: "string \<Rightarrow> nat" where
  "dec_value s = foldl (\<lambda>n c. 10 * n + digit_val c) 0 s"

text \<open>\<^verbatim>\<open>str::parse\<close> into an unsigned integer type of a given number of bits: an optional plus
sign, at least one digit, no overflow.\<close>

definition parse_unsigned :: "nat \<Rightarrow> string \<Rightarrow> nat option" where
  "parse_unsigned w s =
     (let ds = (case s of c # r \<Rightarrow> if c = CHR ''+'' then r else s | [] \<Rightarrow> s)
      in if ds \<noteq> [] \<and> list_all char_is_ascii_digit ds \<and> dec_value ds < 2 ^ w
         then Some (dec_value ds) else None)"

text \<open>For evaluation the value is computed in binary.\<close>

definition dec_int :: "string \<Rightarrow> int" where
  "dec_int s = foldl (\<lambda>n c. 10 * n + int (digit_val c)) 0 s"

lemma dec_int_value: "dec_int s = int (dec_value s)"
proof -
  have "foldl (\<lambda>n c. 10 * n + int (digit_val c)) (int k) s = int (foldl (\<lambda>n c. 10 * n + digit_val c) k s)" for k
  proof (induction s arbitrary: k)
    case (Cons c s)
    have "10 * int k + int (digit_val c) = int (10 * k + digit_val c)" by simp
    then show ?case using Cons by (simp only: foldl_Cons)
  qed simp
  from this[of 0] show ?thesis by (simp add: dec_int_def dec_value_def)
qed

lemma parse_unsigned_code [code]:
  "parse_unsigned w s =
     (let ds = (case s of c # r \<Rightarrow> if c = CHR ''+'' then r else s | [] \<Rightarrow> s); n = dec_int ds
      in if ds \<noteq> [] \<and> list_all char_is_ascii_digit ds \<and> n < 2 ^ w then Some (nat n) else None)"
proof -
  have "(int n < 2 ^ w) = (n < 2 ^ w)" for n by simp
  then show ?thesis by (simp add: parse_unsigned_def dec_int_value Let_def)
qed

fun show_nat :: "nat \<Rightarrow> string" where
  "show_nat n = (if n < 10 then [char_of (48 + n)] else show_nat (n div 10) @ [char_of (48 + n mod 10)])"

declare show_nat.simps [simp del]

section \<open>UTF-8\<close>

definition utf8_char :: "char \<Rightarrow> bytes" where
  "utf8_char c =
     (let n = (of_char c :: nat)
      in if n < 128 then [c] else [char_of (192 + n div 64), char_of (128 + n mod 64)])"

definition utf8 :: "string \<Rightarrow> bytes" where
  "utf8 s = concat (map utf8_char s)"

fun from_utf8 :: "bytes \<Rightarrow> string option" where
  "from_utf8 [] = Some []"
| "from_utf8 (c # r) =
     (if (of_char c :: nat) < 128 then map_option ((#) c) (from_utf8 r)
      else if (of_char c :: nat) = 194 \<or> (of_char c :: nat) = 195
      then (case r of
              [] \<Rightarrow> None
            | d # r' \<Rightarrow>
                if 128 \<le> (of_char d :: nat) \<and> (of_char d :: nat) < 192
                then map_option ((#) (char_of (64 * ((of_char c :: nat) - 192) + ((of_char d :: nat) - 128))))
                       (from_utf8 r')
                else None)
      else None)"

lemma of_char_lt: "(of_char c :: nat) < 256"
  by simp

lemma of_char_of_small [simp]: "n < 256 \<Longrightarrow> (of_char (char_of n :: char) :: nat) = n"
  by simp

lemma from_utf8_utf8 [simp]: "from_utf8 (utf8 s) = Some s"
proof (induction s)
  case (Cons c s)
  define n where "n = (of_char c :: nat)"
  have n: "n < 256" unfolding n_def by simp
  have c: "char_of n = c" unfolding n_def by simp
  show ?case
  proof (cases "n < 128")
    case True
    then show ?thesis using Cons n_def by (simp add: utf8_def utf8_char_def)
  next
    case False
    have d: "n div 64 = 2 \<or> n div 64 = 3" using n False by auto
    have r: "64 * (n div 64) + n mod 64 = n" by simp
    have u: "utf8 (c # s) = char_of (192 + n div 64) # char_of (128 + n mod 64) # utf8 s"
      using False unfolding n_def by (simp add: utf8_def utf8_char_def Let_def)
    have h1: "(of_char (char_of (192 + n div 64) :: char) :: nat) = 192 + n div 64"
      by (rule of_char_of_small) (use d in auto)
    have h2: "(of_char (char_of (128 + n mod 64) :: char) :: nat) = 128 + n mod 64"
    proof (rule of_char_of_small)
      have "n mod 64 < 64" by simp
      then show "128 + n mod 64 < 256" by linarith
    qed
    have b: "192 + n div 64 = 194 \<or> 192 + n div 64 = 195" using d by auto
    have lt: "128 + n mod 64 < 192" by simp
    show ?thesis
      unfolding u from_utf8.simps(2) h1 list.case h2 Cons.IH
      using b lt r c by simp
  qed
qed (simp add: utf8_def)

lemma utf8_inj: "utf8 s = utf8 t \<longleftrightarrow> s = t"
  by (metis from_utf8_utf8 option.inject)

section \<open>Facts on the string functions\<close>

lemma strip_prefix_Some [simp]: "strip_prefix p s = Some r \<longleftrightarrow> s = p @ r"
  by (induction p s rule: strip_prefix.induct) auto

lemma strip_prefix_append [simp]: "strip_prefix p (p @ r) = Some r"
  by simp

lemma strip_prefix_append2 [simp]: "strip_prefix (p @ q) (p @ q @ r) = Some r"
  by simp

lemma starts_with_iff: "starts_with p s \<longleftrightarrow> (\<exists>r. s = p @ r)"
  by (auto simp: starts_with_def)

lemma split_once_Some: "split_once d s = Some (a, b) \<Longrightarrow> s = a @ d # b \<and> d \<notin> set a"
  by (induction s arbitrary: a) (auto split: if_splits)

lemma split_once_None: "split_once d s = None \<longleftrightarrow> d \<notin> set s"
  by (induction s) auto

lemma split_once_append [simp]: "d \<notin> set a \<Longrightarrow> split_once d (a @ d # b) = Some (a, b)"
  by (induction a) auto

lemma rsplit_once_Some: "rsplit_once d s = Some (a, b) \<Longrightarrow> s = a @ d # b \<and> d \<notin> set b"
proof -
  assume "rsplit_once d s = Some (a, b)"
  then have "split_once d (rev s) = Some (rev b, rev a)" by (auto simp: rsplit_once_def)
  from split_once_Some[OF this] have "rev s = rev b @ d # rev a" "d \<notin> set b" by auto
  then show ?thesis by (metis append.assoc append_Cons append_Nil rev.simps(2) rev_append rev_rev_ident)
qed

lemma rsplit_once_None: "rsplit_once d s = None \<longleftrightarrow> d \<notin> set s"
  by (simp add: rsplit_once_def split_once_None)

lemma rsplit_once_append [simp]: "d \<notin> set b \<Longrightarrow> rsplit_once d (a @ d # b) = Some (a, b)"
  by (simp add: rsplit_once_def)

end
