(* ===== verification/Schema.thy ===== *)
theory Schema
  imports Ids Errors Rust_Text "HOL-Library.Word"
begin

text \<open>The configuration data model of \<^verbatim>\<open>config/schema.rs\<close>: secrets, credential bodies, hosts,
the whole configuration, and the operations on them that do no input or output.  A Rust path is its
text.  The validity of a body (\<^verbatim>\<open>CredentialBody::validate\<close>) is characterised by the
exclusion of secrets that it means to enforce.\<close>

section \<open>Secrets and bodies\<close>

record encrypted_secret =
  nonce :: string
  cipher :: string

datatype secret = Plain string | Encrypted encrypted_secret

fun as_plain :: "secret \<Rightarrow> string option" where
  "as_plain (Plain p) = Some p"
| "as_plain (Encrypted _) = None"

fun is_encrypted :: "secret \<Rightarrow> bool" where
  "is_encrypted (Encrypted _) = True"
| "is_encrypted (Plain _) = False"

record vault_meta =
  kdf :: string
  salt :: string
  m_cost :: "32 word"
  t_cost :: "32 word"
  p_cost :: "32 word"
  cache_ttl_secs :: "64 word"
  verifier :: "encrypted_secret option"

definition DEFAULT_CACHE_TTL_SECS :: "64 word" where
  "DEFAULT_CACHE_TTL_SECS = 1800"

definition default_argon2id :: "string \<Rightarrow> vault_meta" where
  "default_argon2id salt_b64 =
     \<lparr>kdf = ''argon2id'', salt = salt_b64, m_cost = 65536, t_cost = 3, p_cost = 4,
      cache_ttl_secs = DEFAULT_CACHE_TTL_SECS, verifier = None\<rparr>"

definition supports_kdf :: "vault_meta \<Rightarrow> bool" where
  "supports_kdf meta \<longleftrightarrow> kdf meta = ''argon2id''"

datatype secret_store = StorePlaintext | StoreVault vault_meta | StoreKeyring

record inline_key =
  ik_private_key :: "secret option"
  ik_certificate :: "secret option"
  ik_keyring :: bool

datatype key_source = KeyPath string | KeyInline inline_key

fun as_path :: "key_source \<Rightarrow> string option" where
  "as_path (KeyPath p) = Some p"
| "as_path (KeyInline _) = None"

record credential_body =
  b_user :: string
  b_password :: "secret option"
  b_key :: "key_source option"
  b_keyring :: bool

datatype secret_kind = KindPassword | KindKey | KindKeyringPassword | KindDefault

datatype auth_choice =
  ChoiceCredential string | ChoiceInlinePassword | ChoiceInlineKey | ChoiceDefault

definition body_new :: "string \<Rightarrow> credential_body" where
  "body_new user = \<lparr>b_user = user, b_password = None, b_key = None, b_keyring = False\<rparr>"

definition with_password :: "string \<Rightarrow> credential_body \<Rightarrow> credential_body" where
  "with_password p b = b\<lparr>b_password := Some (Plain p), b_key := None, b_keyring := False\<rparr>"

definition with_key :: "string \<Rightarrow> credential_body \<Rightarrow> credential_body" where
  "with_key path b = b\<lparr>b_key := Some (KeyPath path), b_password := None, b_keyring := False\<rparr>"

definition with_inline_key :: "secret \<Rightarrow> secret option \<Rightarrow> credential_body \<Rightarrow> credential_body" where
  "with_inline_key priv cert b =
     b\<lparr>b_key := Some (KeyInline \<lparr>ik_private_key = Some priv, ik_certificate = cert, ik_keyring = False\<rparr>),
       b_password := None, b_keyring := False\<rparr>"

definition secret_kind_of :: "credential_body \<Rightarrow> secret_kind" where
  "secret_kind_of b =
     (if b_keyring b then KindKeyringPassword
      else if b_key b \<noteq> None then KindKey
      else if b_password b \<noteq> None then KindPassword
      else KindDefault)"

text \<open>\<^verbatim>\<open>CredentialBody::validate\<close>, its three checks in order.\<close>

definition validate_body :: "credential_body \<Rightarrow> sshrack_error + unit" where
  "validate_body b =
     (if 1 < length (List.filter id [b_password b \<noteq> None, b_key b \<noteq> None, b_keyring b])
      then Inl (InvalidCredentialBody (b_user b))
      else case b_key b of
        Some (KeyInline ik) \<Rightarrow>
          if ik_keyring ik \<and> (ik_private_key ik \<noteq> None \<or> ik_certificate ik \<noteq> None)
          then Inl (InvalidCredentialBody (b_user b))
          else if \<not> ik_keyring ik \<and> ik_private_key ik = None
          then Inl (InvalidCredentialBody (b_user b))
          else Inr ()
      | _ \<Rightarrow> Inr ())"

definition password_plain :: "credential_body \<Rightarrow> string option" where
  "password_plain b = Option.bind (b_password b) as_plain"

definition inline_key_in_keyring :: "credential_body \<Rightarrow> bool" where
  "inline_key_in_keyring b =
     (case b_key b of Some (KeyInline ik) \<Rightarrow> ik_keyring ik | _ \<Rightarrow> False)"

section \<open>Owners and the configuration\<close>

record credential =
  c_id :: ulid
  c_name :: string
  c_body :: credential_body

datatype auth = AuthRef ulid | AuthInline credential_body

fun credential_id :: "auth \<Rightarrow> ulid option" where
  "credential_id (AuthRef u) = Some u"
| "credential_id (AuthInline _) = None"

fun inline_body :: "auth \<Rightarrow> credential_body option" where
  "inline_body (AuthRef _) = None"
| "inline_body (AuthInline b) = Some b"

text \<open>Writing through \<^verbatim>\<open>inline_body_mut\<close>.\<close>

fun map_inline_body :: "(credential_body \<Rightarrow> credential_body) \<Rightarrow> auth \<Rightarrow> auth" where
  "map_inline_body f (AuthRef u) = AuthRef u"
| "map_inline_body f (AuthInline b) = AuthInline (f b)"

record host =
  h_id :: ulid
  h_name :: string
  h_host :: string
  h_port :: "16 word"
  h_ssh_args :: "string option"
  h_auth :: auth

definition default_port :: "16 word" where
  "default_port = 22"

definition default_format_version :: "32 word" where
  "default_format_version = 1"

record sshrack_config =
  format_version :: "32 word"
  hosts :: "host list"
  credentials :: "credential list"
  store :: "secret_store option"

definition default_config :: sshrack_config where
  "default_config = \<lparr>format_version = 1, hosts = [], credentials = [], store = None\<rparr>"

definition find_host_by_name :: "sshrack_config \<Rightarrow> string \<Rightarrow> host option" where
  "find_host_by_name cfg n = List.find (\<lambda>h. h_name h = n) (hosts cfg)"

definition find_host_by_id :: "sshrack_config \<Rightarrow> ulid \<Rightarrow> host option" where
  "find_host_by_id cfg u = List.find (\<lambda>h. h_id h = u) (hosts cfg)"

definition find_credential_by_name :: "sshrack_config \<Rightarrow> string \<Rightarrow> credential option" where
  "find_credential_by_name cfg n = List.find (\<lambda>c. c_name c = n) (credentials cfg)"

definition find_credential_by_id :: "sshrack_config \<Rightarrow> ulid \<Rightarrow> credential option" where
  "find_credential_by_id cfg u = List.find (\<lambda>c. c_id c = u) (credentials cfg)"

definition is_vault :: "sshrack_config \<Rightarrow> bool" where
  "is_vault cfg = (case store cfg of Some (StoreVault _) \<Rightarrow> True | _ \<Rightarrow> False)"

definition vault_meta_of :: "sshrack_config \<Rightarrow> vault_meta option" where
  "vault_meta_of cfg = (case store cfg of Some (StoreVault meta) \<Rightarrow> Some meta | _ \<Rightarrow> None)"

definition is_keyring :: "sshrack_config \<Rightarrow> bool" where
  "is_keyring cfg \<longleftrightarrow> store cfg = Some StoreKeyring"

definition is_plaintext :: "sshrack_config \<Rightarrow> bool" where
  "is_plaintext cfg \<longleftrightarrow> store cfg = Some StorePlaintext"

definition mode_chosen :: "sshrack_config \<Rightarrow> bool" where
  "mode_chosen cfg \<longleftrightarrow> store cfg \<noteq> None"

section \<open>What a valid body is\<close>

text \<open>The specification of validity, free of the order of the checks: no two of password, key and
keyring marker; an inline key carries its text in the body or, when marked, only in the
keyring.\<close>

definition inline_key_wf :: "inline_key \<Rightarrow> bool" where
  "inline_key_wf ik \<longleftrightarrow>
     (if ik_keyring ik then ik_private_key ik = None \<and> ik_certificate ik = None
      else ik_private_key ik \<noteq> None)"

definition body_wf :: "credential_body \<Rightarrow> bool" where
  "body_wf b \<longleftrightarrow>
     (b_keyring b \<longrightarrow> b_password b = None \<and> b_key b = None)
     \<and> (b_password b = None \<or> b_key b = None)
     \<and> (\<forall>ik. b_key b = Some (KeyInline ik) \<longrightarrow> inline_key_wf ik)"

lemma validate_body_iff: "validate_body b = Inr () \<longleftrightarrow> body_wf b"
  by (auto simp: validate_body_def body_wf_def inline_key_wf_def
      split: option.splits key_source.splits if_splits)

lemma validate_body_cases:
  "validate_body b = (if body_wf b then Inr () else Inl (InvalidCredentialBody (b_user b)))"
  by (auto simp: validate_body_def body_wf_def inline_key_wf_def
      split: option.splits key_source.splits if_splits)

text \<open>The builders produce valid bodies from any body.\<close>

lemma body_new_wf [wf_rules, simp]: "body_wf (body_new u)"
  by (simp add: body_new_def body_wf_def)

lemma with_password_wf [wf_rules, simp]: "body_wf (with_password p b)"
  by (simp add: with_password_def body_wf_def)

lemma with_key_wf [wf_rules, simp]: "body_wf (with_key p b)"
  by (simp add: with_key_def body_wf_def)

lemma with_inline_key_wf [wf_rules, simp]: "body_wf (with_inline_key s c b)"
  by (simp add: with_inline_key_def body_wf_def inline_key_wf_def)

lemma secret_kind_of_wf:
  assumes "body_wf b"
  shows "secret_kind_of b = KindKeyringPassword \<longleftrightarrow> b_keyring b"
    and "secret_kind_of b = KindKey \<longleftrightarrow> b_key b \<noteq> None"
    and "secret_kind_of b = KindPassword \<longleftrightarrow> b_password b \<noteq> None"
  using assms by (auto simp: secret_kind_of_def body_wf_def split: if_splits)

section \<open>Well-formed configurations\<close>

text \<open>The invariant the operations on a configuration keep: ids and names are unique per kind, ids are
legal, and every body is valid.\<close>

definition host_wf :: "host \<Rightarrow> bool" where
  "host_wf h \<longleftrightarrow> ulid_ok (h_id h) \<and> (\<forall>b. h_auth h = AuthInline b \<longrightarrow> body_wf b)"

definition credential_wf :: "credential \<Rightarrow> bool" where
  "credential_wf c \<longleftrightarrow> ulid_ok (c_id c) \<and> body_wf (c_body c)"

definition config_wf :: "sshrack_config \<Rightarrow> bool" where
  "config_wf cfg \<longleftrightarrow>
     distinct (map h_id (hosts cfg)) \<and> distinct (map h_name (hosts cfg)) \<and> list_all host_wf (hosts cfg)
     \<and> distinct (map c_id (credentials cfg)) \<and> distinct (map c_name (credentials cfg))
     \<and> list_all credential_wf (credentials cfg)"

lemma config_wfI [intro?]:
  assumes "distinct (map h_id (hosts cfg))" "distinct (map h_name (hosts cfg))"
    "\<And>h. h \<in> set (hosts cfg) \<Longrightarrow> host_wf h"
    "distinct (map c_id (credentials cfg))" "distinct (map c_name (credentials cfg))"
    "\<And>c. c \<in> set (credentials cfg) \<Longrightarrow> credential_wf c"
  shows "config_wf cfg"
  using assms by (auto simp: config_wf_def list_all_iff)

lemma config_wfD:
  assumes "config_wf cfg"
  shows "distinct (map h_id (hosts cfg))" "distinct (map h_name (hosts cfg))"
    "h \<in> set (hosts cfg) \<Longrightarrow> host_wf h"
    "distinct (map c_id (credentials cfg))" "distinct (map c_name (credentials cfg))"
    "c \<in> set (credentials cfg) \<Longrightarrow> credential_wf c"
  using assms by (auto simp: config_wf_def list_all_iff)

lemma default_config_wf [wf_rules, simp]: "config_wf default_config"
  by (simp add: config_wf_def default_config_def)

lemma config_wf_store [simp]: "config_wf (cfg\<lparr>store := st\<rparr>) = config_wf cfg"
  by (simp add: config_wf_def)

lemma host_by_id_iff:
  "config_wf cfg \<Longrightarrow> find_host_by_id cfg u = Some h \<longleftrightarrow> h \<in> set (hosts cfg) \<and> h_id h = u"
  by (simp add: find_host_by_id_def find_key_iff config_wf_def)

lemma host_by_name_iff:
  "config_wf cfg \<Longrightarrow> find_host_by_name cfg n = Some h \<longleftrightarrow> h \<in> set (hosts cfg) \<and> h_name h = n"
  by (simp add: find_host_by_name_def find_key_iff config_wf_def)

lemma credential_by_id_iff:
  "config_wf cfg \<Longrightarrow> find_credential_by_id cfg u = Some c \<longleftrightarrow> c \<in> set (credentials cfg) \<and> c_id c = u"
  by (simp add: find_credential_by_id_def find_key_iff config_wf_def)

lemma credential_by_name_iff:
  "config_wf cfg \<Longrightarrow> find_credential_by_name cfg n = Some c \<longleftrightarrow> c \<in> set (credentials cfg) \<and> c_name c = n"
  by (simp add: find_credential_by_name_def find_key_iff config_wf_def)

lemmas mode_defs = is_vault_def vault_meta_of_def is_keyring_def is_plaintext_def mode_chosen_def

end
