(* ===== verification/Secret_Backend.thy ===== *)
theory Secret_Backend
  imports Schema
begin

text \<open>The storage seam of \<^verbatim>\<open>secret/mod.rs\<close> and the OS keyring behind it
(\<^verbatim>\<open>secret/keyring.rs\<close>).  The trait \<^verbatim>\<open>SecretBackend\<close> is a record of operations over a
backend state; its contract is the locale \<^verbatim>\<open>secret_backend\<close>, with the abstract contents of the
backend as a map from account keys to secrets, and \<^verbatim>\<open>reliable_backend\<close> is the extension of it in
which no operation fails.  The repository's \<^verbatim>\<open>FakeBackend\<close> interprets the second, the OS
keyring over the third-party \<^verbatim>\<open>keyring\<close> crate satisfies the first.\<close>

section \<open>The trait\<close>

record 'b backend =
  bk_set_at :: "string \<Rightarrow> string \<Rightarrow> 'b \<Rightarrow> (sshrack_error + unit) \<times> 'b"
  bk_get :: "string \<Rightarrow> 'b \<Rightarrow> sshrack_error + string option"
  bk_delete_at :: "string \<Rightarrow> 'b \<Rightarrow> (sshrack_error + unit) \<times> 'b"
  bk_available :: "'b \<Rightarrow> bool \<times> 'b"

definition bk_set :: "'b backend \<Rightarrow> owner_kind \<Rightarrow> ulid \<Rightarrow> string \<Rightarrow> 'b \<Rightarrow> (sshrack_error + unit) \<times> 'b" where
  "bk_set be k u pw = bk_set_at be (keyring_key k u) pw"

definition bk_delete :: "'b backend \<Rightarrow> owner_kind \<Rightarrow> ulid \<Rightarrow> 'b \<Rightarrow> (sshrack_error + unit) \<times> 'b" where
  "bk_delete be k u = bk_delete_at be (keyring_key k u)"

text \<open>A delete whose result is ignored (\<^verbatim>\<open>let _ = ...\<close>).\<close>

definition bk_forget_at :: "'b backend \<Rightarrow> string \<Rightarrow> 'b \<Rightarrow> 'b" where
  "bk_forget_at be key s = snd (bk_delete_at be key s)"

section \<open>Keeping the slots in step with their owners\<close>

definition forget_keyring_secret :: "'b backend \<Rightarrow> owner_kind \<Rightarrow> ulid \<Rightarrow> bool \<Rightarrow> 'b \<Rightarrow> 'b" where
  "forget_keyring_secret be k u marked s =
     (if marked then snd (bk_delete be k u s) else s)"

definition forget_inline_keyring_slots :: "'b backend \<Rightarrow> owner_kind \<Rightarrow> ulid \<Rightarrow> bool \<Rightarrow> 'b \<Rightarrow> 'b" where
  "forget_inline_keyring_slots be k u marked s =
     (if marked
      then bk_forget_at be (keyring_key_inline_cert k u) (bk_forget_at be (keyring_key_inline_priv k u) s)
      else s)"

definition copy_keyring_secret ::
  "'b backend \<Rightarrow> owner_kind \<Rightarrow> ulid \<Rightarrow> ulid \<Rightarrow> 'b \<Rightarrow> (sshrack_error + bool) \<times> 'b" where
  "copy_keyring_secret be k src dst s =
     (case bk_get be (keyring_key k src) s of
        Inl e \<Rightarrow> (Inl e, s)
      | Inr None \<Rightarrow> (Inr False, s)
      | Inr (Some pw) \<Rightarrow>
          (case bk_set be k dst pw s of
             (Inl e, s') \<Rightarrow> (Inl e, s')
           | (Inr _, s') \<Rightarrow> (Inr True, s')))"

text \<open>One slot of \<^verbatim>\<open>copy_inline_keyring_slots\<close>: read, write under the other owner, report
whether there was something to copy.\<close>

definition copy_slot_at ::
  "'b backend \<Rightarrow> string \<Rightarrow> string \<Rightarrow> 'b \<Rightarrow> (sshrack_error + bool) \<times> 'b" where
  "copy_slot_at be src_key dst_key s =
     (case bk_get be src_key s of
        Inl e \<Rightarrow> (Inl e, s)
      | Inr None \<Rightarrow> (Inr False, s)
      | Inr (Some p) \<Rightarrow>
          (case bk_set_at be dst_key p s of
             (Inl e, s') \<Rightarrow> (Inl e, s')
           | (Inr _, s') \<Rightarrow> (Inr True, s')))"

definition copy_inline_keyring_slots ::
  "'b backend \<Rightarrow> owner_kind \<Rightarrow> ulid \<Rightarrow> ulid \<Rightarrow> 'b \<Rightarrow> (sshrack_error + bool) \<times> 'b" where
  "copy_inline_keyring_slots be k src dst s =
     (case copy_slot_at be (keyring_key_inline_priv k src) (keyring_key_inline_priv k dst) s of
        (Inl e, s1) \<Rightarrow> (Inl e, s1)
      | (Inr copied, s1) \<Rightarrow>
          (case copy_slot_at be (keyring_key_inline_cert k src) (keyring_key_inline_cert k dst) s1 of
             (Inl e, s2) \<Rightarrow> (Inl e, s2)
           | (Inr copied2, s2) \<Rightarrow> (Inr (copied \<or> copied2), s2)))"

section \<open>The contract\<close>

locale secret_backend =
  fixes be :: "'b backend"
    and entries :: "'b \<Rightarrow> string \<rightharpoonup> string"
  assumes get_ok: "bk_get be key s = Inr r \<Longrightarrow> r = entries s key"
    and set_ok: "bk_set_at be key v s = (Inr u, s') \<Longrightarrow> entries s' = (entries s)(key \<mapsto> v)"
    and set_err: "bk_set_at be key v s = (Inl e, s') \<Longrightarrow> entries s' = entries s"
    and delete_ok: "bk_delete_at be key s = (Inr u, s') \<Longrightarrow> entries s' = (entries s)(key := None)"
    and delete_err: "bk_delete_at be key s = (Inl e, s') \<Longrightarrow> entries s' = entries s"
begin

lemma forget_at_other: "key \<noteq> key' \<Longrightarrow> entries (bk_forget_at be key s) key' = entries s key'"
  using delete_ok[of key s "()"] delete_err[of key s]
  by (cases "bk_delete_at be key s"; cases "fst (bk_delete_at be key s)")
     (auto simp: bk_forget_at_def dest: delete_ok delete_err)

lemma forget_secret_other:
  "key \<noteq> keyring_key k u \<Longrightarrow> entries (forget_keyring_secret be k u m s) key = entries s key"
  using forget_at_other[of "keyring_key k u" key s]
  by (simp add: forget_keyring_secret_def bk_delete_def bk_forget_at_def)

lemma forget_inline_other:
  "key \<noteq> keyring_key_inline_priv k u \<Longrightarrow> key \<noteq> keyring_key_inline_cert k u \<Longrightarrow>
   entries (forget_inline_keyring_slots be k u m s) key = entries s key"
  by (auto simp: forget_inline_keyring_slots_def forget_at_other)

lemma copy_slot_entries:
  assumes "copy_slot_at be src dst s = (Inr c, s')"
  shows "entries s' = (case entries s src of None \<Rightarrow> entries s | Some v \<Rightarrow> (entries s)(dst \<mapsto> v))"
    and "c \<longleftrightarrow> entries s src \<noteq> None"
proof -
  consider "bk_get be src s = Inr None" "c = False" "s' = s"
    | v where "bk_get be src s = Inr (Some v)" "bk_set_at be dst v s = (Inr (), s')" "c = True"
    using assms by (auto simp: copy_slot_at_def split: sum.splits option.splits prod.splits)
  then have "entries s' = (case entries s src of None \<Rightarrow> entries s | Some v \<Rightarrow> (entries s)(dst \<mapsto> v))
      \<and> (c \<longleftrightarrow> entries s src \<noteq> None)"
  proof cases
    case 1
    then show ?thesis using get_ok[of src s None] by simp
  next
    case 2
    then show ?thesis using get_ok[OF 2(1), symmetric] set_ok[OF 2(2)] by simp
  qed
  then show "entries s' = (case entries s src of None \<Rightarrow> entries s | Some v \<Rightarrow> (entries s)(dst \<mapsto> v))"
    and "c \<longleftrightarrow> entries s src \<noteq> None" by auto
qed

lemma copy_slot_err: "copy_slot_at be src dst s = (Inl e, s') \<Longrightarrow> entries s' = entries s"
  by (auto simp: copy_slot_at_def split: sum.splits option.splits prod.splits dest!: get_ok dest: set_err)

lemma copy_secret_is_slot:
  "copy_keyring_secret be k src dst s = copy_slot_at be (keyring_key k src) (keyring_key k dst) s"
  unfolding copy_keyring_secret_def copy_slot_at_def bk_set_def by (rule refl)

end

locale reliable_backend = secret_backend +
  assumes get_total: "bk_get be key s = Inr (entries s key)"
    and set_total: "\<exists>s'. bk_set_at be key v s = (Inr (), s')"
    and delete_total: "\<exists>s'. bk_delete_at be key s = (Inr (), s')"
begin

lemma set_entries: "entries (snd (bk_set_at be key v s)) = (entries s)(key \<mapsto> v)"
  using set_total[of key v s] by (auto dest: set_ok)

lemma set_fst: "fst (bk_set_at be key v s) = Inr ()"
  using set_total[of key v s] by auto

lemma delete_entries: "entries (bk_forget_at be key s) = (entries s)(key := None)"
  using delete_total[of key s] by (auto simp: bk_forget_at_def dest: delete_ok)

lemma forget_secret_entries:
  "entries (forget_keyring_secret be k u m s) =
     (if m then (entries s)(keyring_key k u := None) else entries s)"
  using delete_entries[of "keyring_key k u" s]
  by (simp add: forget_keyring_secret_def bk_delete_def bk_forget_at_def)

lemma forget_inline_entries:
  "entries (forget_inline_keyring_slots be k u m s) =
     (if m then (entries s)(keyring_key_inline_priv k u := None, keyring_key_inline_cert k u := None)
      else entries s)"
  by (simp add: forget_inline_keyring_slots_def delete_entries)

end

section \<open>The test double\<close>

text \<open>\<^verbatim>\<open>FakeBackend\<close>: a hash map that never fails.\<close>

record fake_state =
  fk_entries :: "(string \<times> string) list"
  fk_available :: bool

definition fake_new :: fake_state where
  "fake_new = \<lparr>fk_entries = [], fk_available = True\<rparr>"

fun kv_insert :: "string \<Rightarrow> string \<Rightarrow> (string \<times> string) list \<Rightarrow> (string \<times> string) list" where
  "kv_insert k v [] = [(k, v)]"
| "kv_insert k v ((k', v') # xs) = (if k = k' then (k, v) # xs else (k', v') # kv_insert k v xs)"

definition kv_remove :: "string \<Rightarrow> (string \<times> string) list \<Rightarrow> (string \<times> string) list" where
  "kv_remove k xs = List.filter (\<lambda>p. fst p \<noteq> k) xs"

definition fake_backend :: "fake_state backend" where
  "fake_backend =
     \<lparr>bk_set_at = (\<lambda>k v s. (Inr (), s\<lparr>fk_entries := kv_insert k v (fk_entries s)\<rparr>)),
      bk_get = (\<lambda>k s. Inr (map_of (fk_entries s) k)),
      bk_delete_at = (\<lambda>k s. (Inr (), s\<lparr>fk_entries := kv_remove k (fk_entries s)\<rparr>)),
      bk_available = (\<lambda>s. (fk_available s, s))\<rparr>"

definition fake_view :: "fake_state \<Rightarrow> string \<rightharpoonup> string" where
  "fake_view s = map_of (fk_entries s)"

lemma map_of_kv_insert: "map_of (kv_insert k v xs) = (map_of xs)(k \<mapsto> v)"
  by (induction k v xs rule: kv_insert.induct) (auto simp: fun_eq_iff)

lemma map_of_kv_remove: "map_of (kv_remove k xs) = (map_of xs)(k := None)"
  by (induction xs) (auto simp: kv_remove_def fun_eq_iff)

lemmas fake_simps = fake_backend_def fake_view_def map_of_kv_insert map_of_kv_remove

interpretation fake: reliable_backend fake_backend fake_view
  by unfold_locales (auto simp: fake_simps)

section \<open>The OS keyring\<close>

text \<open>The \<^verbatim>\<open>keyring\<close> crate, a parameter: whether an entry can be constructed, and the three
operations on an entry.  Of its errors the code tells only \<^verbatim>\<open>NoEntry\<close> from the others.\<close>

datatype kr_error = KrNoEntry | KrOther

record 's keyring_crate =
  kc_entry_new :: "string \<Rightarrow> string \<Rightarrow> 's \<Rightarrow> bool"
  kc_set_password :: "string \<Rightarrow> string \<Rightarrow> string \<Rightarrow> 's \<Rightarrow> (kr_error + unit) \<times> 's"
  kc_get_password :: "string \<Rightarrow> string \<Rightarrow> 's \<Rightarrow> kr_error + string"
  kc_delete_credential :: "string \<Rightarrow> string \<Rightarrow> 's \<Rightarrow> (kr_error + unit) \<times> 's"

definition SERVICE :: string where
  "SERVICE = ''sshrack''"

definition KEYRING_KEY_ENV :: string where
  "KEYRING_KEY_ENV = ''SSHRACK_KEYRING_KEY''"

definition entry_for :: "'s keyring_crate \<Rightarrow> string \<Rightarrow> 's \<Rightarrow> sshrack_error + unit" where
  "entry_for kc key s = (if kc_entry_new kc SERVICE key s then Inr () else Inl KeyringUnavailable)"

definition set_by_key :: "'s keyring_crate \<Rightarrow> string \<Rightarrow> string \<Rightarrow> 's \<Rightarrow> (sshrack_error + unit) \<times> 's" where
  "set_by_key kc key pw s =
     (case entry_for kc key s of
        Inl e \<Rightarrow> (Inl e, s)
      | Inr _ \<Rightarrow>
          (case kc_set_password kc SERVICE key pw s of
             (Inl _, s') \<Rightarrow> (Inl (KeyringIo ''write''), s')
           | (Inr _, s') \<Rightarrow> (Inr (), s')))"

definition keyring_get :: "'s keyring_crate \<Rightarrow> string \<Rightarrow> 's \<Rightarrow> sshrack_error + string option" where
  "keyring_get kc key s =
     (case entry_for kc key s of
        Inl e \<Rightarrow> Inl e
      | Inr _ \<Rightarrow>
          (case kc_get_password kc SERVICE key s of
             Inr p \<Rightarrow> Inr (Some p)
           | Inl KrNoEntry \<Rightarrow> Inr None
           | Inl KrOther \<Rightarrow> Inl (KeyringIo ''read'')))"

definition delete_by_key :: "'s keyring_crate \<Rightarrow> string \<Rightarrow> 's \<Rightarrow> (sshrack_error + unit) \<times> 's" where
  "delete_by_key kc key s =
     (case entry_for kc key s of
        Inl e \<Rightarrow> (Inl e, s)
      | Inr _ \<Rightarrow>
          (case kc_delete_credential kc SERVICE key s of
             (Inr _, s') \<Rightarrow> (Inr (), s')
           | (Inl KrNoEntry, s') \<Rightarrow> (Inr (), s')
           | (Inl KrOther, s') \<Rightarrow> (Inl (KeyringIo ''delete''), s')))"

definition PROBE_KEY :: string where
  "PROBE_KEY = ''__sshrack_probe__''"

definition daemon_available :: "'s keyring_crate \<Rightarrow> 's \<Rightarrow> bool \<times> 's" where
  "daemon_available kc s =
     (if kc_entry_new kc SERVICE PROBE_KEY s
      then (case kc_set_password kc SERVICE PROBE_KEY '''' s of
              (Inr _, s') \<Rightarrow> (True, snd (kc_delete_credential kc SERVICE PROBE_KEY s'))
            | (Inl _, s') \<Rightarrow> (False, s'))
      else (False, s))"

definition os_keyring :: "'s keyring_crate \<Rightarrow> 's backend" where
  "os_keyring kc =
     \<lparr>bk_set_at = set_by_key kc, bk_get = keyring_get kc, bk_delete_at = delete_by_key kc,
      bk_available = daemon_available kc\<rparr>"

text \<open>The documented behaviour of the crate: a read returns the stored secret or
\<^verbatim>\<open>NoEntry\<close> exactly when there is none, a successful write or delete changes that entry of
that service and nothing else, a failed one changes nothing.\<close>

definition keyring_crate_ok :: "'s keyring_crate \<Rightarrow> ('s \<Rightarrow> string \<Rightarrow> string \<rightharpoonup> string) \<Rightarrow> bool" where
  "keyring_crate_ok kc ent \<longleftrightarrow>
     (\<forall>srv key s p. kc_get_password kc srv key s = Inr p \<longrightarrow> ent s srv key = Some p)
     \<and> (\<forall>srv key s. kc_get_password kc srv key s = Inl KrNoEntry \<longrightarrow> ent s srv key = None)
     \<and> (\<forall>srv key p s u s'. kc_set_password kc srv key p s = (Inr u, s') \<longrightarrow>
           ent s' = (ent s)(srv := (ent s srv)(key \<mapsto> p)))
     \<and> (\<forall>srv key p s e s'. kc_set_password kc srv key p s = (Inl e, s') \<longrightarrow> ent s' = ent s)
     \<and> (\<forall>srv key s u s'. kc_delete_credential kc srv key s = (Inr u, s') \<longrightarrow>
           ent s' = (ent s)(srv := (ent s srv)(key := None)))
     \<and> (\<forall>srv key s s'. kc_delete_credential kc srv key s = (Inl KrNoEntry, s') \<longrightarrow>
           ent s' = ent s \<and> ent s srv key = None)
     \<and> (\<forall>srv key s s'. kc_delete_credential kc srv key s = (Inl KrOther, s') \<longrightarrow> ent s' = ent s)"

lemma keyring_crate_set:
  "keyring_crate_ok kc ent \<Longrightarrow> kc_set_password kc srv key p s = (Inr (), s') \<Longrightarrow>
   ent s' = (ent s)(srv := (ent s srv)(key \<mapsto> p))"
  by (simp add: keyring_crate_ok_def)

lemma keyring_crate_delete:
  "keyring_crate_ok kc ent \<Longrightarrow> kc_delete_credential kc srv key s = (Inr (), s') \<Longrightarrow>
   ent s' = (ent s)(srv := (ent s srv)(key := None))"
  by (simp add: keyring_crate_ok_def)

lemma keyring_crate_delete_none:
  "keyring_crate_ok kc ent \<Longrightarrow> kc_delete_credential kc srv key s = (Inl KrNoEntry, s') \<Longrightarrow>
   ent s' = ent s \<and> ent s srv key = None"
  by (simp add: keyring_crate_ok_def)

lemma os_keyring_lawful:
  assumes kc: "keyring_crate_ok kc ent"
  shows "secret_backend (os_keyring kc) (\<lambda>s. ent s SERVICE)"
proof
  fix key s v
  assume "bk_get (os_keyring kc) key s = Inr v"
  then show "v = ent s SERVICE key"
    using kc by (auto simp: os_keyring_def keyring_get_def keyring_crate_ok_def
        split: sum.splits kr_error.splits)
next
  fix key v s u s'
  assume "bk_set_at (os_keyring kc) key v s = (Inr u, s')"
  then obtain u' where "kc_set_password kc SERVICE key v s = (Inr u', s')"
    by (auto simp: os_keyring_def set_by_key_def split: sum.splits prod.splits)
  then have "ent s' = (ent s)(SERVICE := (ent s SERVICE)(key \<mapsto> v))"
    using keyring_crate_set[OF kc] by simp
  then show "ent s' SERVICE = (ent s SERVICE)(key \<mapsto> v)" by simp
next
  fix key v s e s'
  assume "bk_set_at (os_keyring kc) key v s = (Inl e, s')"
  then show "ent s' SERVICE = ent s SERVICE"
    using kc by (auto simp: os_keyring_def set_by_key_def keyring_crate_ok_def
        split: sum.splits prod.splits)
next
  fix key s u s'
  assume d: "bk_delete_at (os_keyring kc) key s = (Inr u, s')"
  show "ent s' SERVICE = (ent s SERVICE)(key := None)"
  proof (cases "kc_delete_credential kc SERVICE key s")
    case (Pair r s1)
    have "s1 = s'" and r: "r = Inl KrNoEntry \<or> (\<exists>u. r = Inr u)"
      using d Pair by (auto simp: os_keyring_def delete_by_key_def
          split: sum.splits prod.splits kr_error.splits)
    then consider "kc_delete_credential kc SERVICE key s = (Inl KrNoEntry, s')"
      | u' where "kc_delete_credential kc SERVICE key s = (Inr u', s')"
      using Pair by auto
    then show ?thesis
    proof cases
      case 1
      then have "ent s' = ent s \<and> ent s SERVICE key = None"
        using keyring_crate_delete_none[OF kc] by blast
      then show ?thesis by auto
    next
      case 2
      then have "ent s' = (ent s)(SERVICE := (ent s SERVICE)(key := None))"
        using keyring_crate_delete[OF kc] by simp
      then show ?thesis by simp
    qed
  qed
next
  fix key s e s'
  assume "bk_delete_at (os_keyring kc) key s = (Inl e, s')"
  then show "ent s' SERVICE = ent s SERVICE"
    using kc by (auto simp: os_keyring_def delete_by_key_def keyring_crate_ok_def
        split: sum.splits prod.splits kr_error.splits)
qed

end
