(* ===== verification/Vault_Crypto.thy ===== *)
theory Vault_Crypto
  imports Secret_Backend
begin

text \<open>Key derivation and authenticated encryption (\<^verbatim>\<open>secret/vault/crypto.rs\<close>) and the master-key
cache (\<^verbatim>\<open>secret/vault/cache.rs\<close>).  The third-party crates (base64, argon2, chacha20poly1305,
getrandom) are the fields of \<^verbatim>\<open>crates\<close>, an argument of the definitions; \<^verbatim>\<open>crates_ok\<close> states
the documented behaviour the program relies on.  The operating system's random source is numbered by
a draw counter of the state, so two encryptions take different draws.\<close>

section \<open>The crates\<close>

record crates =
  x_b64_encode :: "bytes \<Rightarrow> string"
  x_b64_decode :: "string \<Rightarrow> bytes option"
  x_argon2_params :: "32 word \<Rightarrow> 32 word \<Rightarrow> 32 word \<Rightarrow> bool"
  x_argon2_hash :: "32 word \<Rightarrow> 32 word \<Rightarrow> 32 word \<Rightarrow> bytes \<Rightarrow> bytes \<Rightarrow> bytes option"
  x_aead_encrypt :: "bytes \<Rightarrow> bytes \<Rightarrow> bytes \<Rightarrow> bytes option"
  x_aead_decrypt :: "bytes \<Rightarrow> bytes \<Rightarrow> bytes \<Rightarrow> bytes option"
  x_getrandom :: "nat \<Rightarrow> nat \<Rightarrow> bytes option"

definition crates_ok :: "crates \<Rightarrow> bool" where
  "crates_ok X \<longleftrightarrow>
     (\<forall>b. x_b64_decode X (x_b64_encode X b) = Some b)
     \<and> (\<forall>i n r. x_getrandom X i n = Some r \<longrightarrow> length r = n)
     \<and> (\<forall>k n p c. x_aead_encrypt X k n p = Some c \<longrightarrow> x_aead_decrypt X k n c = Some p)"

lemma crates_okD:
  assumes "crates_ok X"
  shows "x_b64_decode X (x_b64_encode X b) = Some b"
    and "x_getrandom X i n = Some r \<Longrightarrow> length r = n"
    and "x_aead_encrypt X k nn p = Some c \<Longrightarrow> x_aead_decrypt X k nn c = Some p"
  using assms by (auto simp: crates_ok_def)

text \<open>A concrete choice of the crates that satisfies the laws: base64 is the identity, the cipher text
names its key and nonce.\<close>

definition demo_crates :: crates where
  "demo_crates =
     \<lparr>x_b64_encode = id, x_b64_decode = Some, x_argon2_params = (\<lambda>m t p. 0 < p),
      x_argon2_hash = (\<lambda>m t p pw s. Some (take 32 (pw @ replicate 32 (CHR ''k'')))),
      x_aead_encrypt = (\<lambda>k n p. Some (k @ n @ p)),
      x_aead_decrypt = (\<lambda>k n c. strip_prefix (k @ n) c),
      x_getrandom = (\<lambda>i n. Some (replicate n (char_of i)))\<rparr>"

lemma demo_crates_ok: "crates_ok demo_crates"
  by (simp add: crates_ok_def demo_crates_def)

section \<open>Cryptography\<close>

type_synonym vault_key = bytes

definition derive_key :: "crates \<Rightarrow> string \<Rightarrow> vault_meta \<Rightarrow> sshrack_error + vault_key" where
  "derive_key X passphrase meta =
     (if \<not> supports_kdf meta then Inl VaultUnlockFailed
      else case x_b64_decode X (salt meta) of
        None \<Rightarrow> Inl VaultUnlockFailed
      | Some sb \<Rightarrow>
          if \<not> x_argon2_params X (m_cost meta) (t_cost meta) (p_cost meta) then Inl VaultUnlockFailed
          else ok_or VaultUnlockFailed
                 (x_argon2_hash X (m_cost meta) (t_cost meta) (p_cost meta) (utf8 passphrase) sb))"

text \<open>\<^verbatim>\<open>encrypt\<close> draws a fresh nonce.  The state is the draw counter.\<close>

definition encrypt :: "crates \<Rightarrow> bytes \<Rightarrow> vault_key \<Rightarrow> nat \<Rightarrow> (sshrack_error + encrypted_secret) \<times> nat" where
  "encrypt X plain key d =
     (case x_getrandom X d 24 of
        None \<Rightarrow> (Inl EncryptionFailed, Suc d)
      | Some nb \<Rightarrow>
          (case x_aead_encrypt X key nb plain of
             None \<Rightarrow> (Inl EncryptionFailed, Suc d)
           | Some ct \<Rightarrow> (Inr \<lparr>nonce = x_b64_encode X nb, cipher = x_b64_encode X ct\<rparr>, Suc d)))"

text \<open>\<^verbatim>\<open>decrypt\<close>: every failure is the fieldless \<^verbatim>\<open>DecryptError\<close>, here
\<^verbatim>\<open>None\<close>.\<close>

definition decrypt :: "crates \<Rightarrow> encrypted_secret \<Rightarrow> vault_key \<Rightarrow> string option" where
  "decrypt X es key =
     (case x_b64_decode X (nonce es) of
        None \<Rightarrow> None
      | Some nb \<Rightarrow>
          (case x_b64_decode X (cipher es) of
             None \<Rightarrow> None
           | Some ct \<Rightarrow>
               if length nb \<noteq> 24 then None
               else case x_aead_decrypt X key nb ct of
                 None \<Rightarrow> None
               | Some pb \<Rightarrow> from_utf8 pb))"

lemma decrypt_encrypt:
  assumes "crates_ok X" "encrypt X (utf8 p) key d = (Inr es, d')"
  shows "decrypt X es key = Some p"
  using assms crates_okD[OF assms(1)]
  by (auto simp: encrypt_def decrypt_def split: option.splits)

lemma encrypt_draws: "encrypt X plain key d = (r, d') \<Longrightarrow> d' = Suc d"
  by (auto simp: encrypt_def split: option.splits)

lemma encrypt_err: "encrypt X plain key d = (Inl e, d') \<Longrightarrow> e = EncryptionFailed"
  by (auto simp: encrypt_def split: option.splits)

section \<open>The state of the vault operations\<close>

text \<open>The world the vault layer acts on: the secret backend, the draw counter, the files of the cache
directory, and the wall clock in seconds after the epoch (\<^verbatim>\<open>None\<close> for a clock before it).\<close>

record 'b world =
  w_backend :: 'b
  w_draws :: nat
  w_files :: "string \<Rightarrow> bytes option"
  w_now :: "64 word option"

definition encrypt_w ::
  "crates \<Rightarrow> string \<Rightarrow> vault_key \<Rightarrow> 'b world \<Rightarrow> (sshrack_error + encrypted_secret) \<times> 'b world" where
  "encrypt_w X plain key w =
     (case encrypt X (utf8 plain) key (w_draws w) of (r, d) \<Rightarrow> (r, w\<lparr>w_draws := d\<rparr>))"

definition set_at_w ::
  "'b backend \<Rightarrow> string \<Rightarrow> string \<Rightarrow> 'b world \<Rightarrow> (sshrack_error + unit) \<times> 'b world" where
  "set_at_w be key v w =
     (case bk_set_at be key v (w_backend w) of (r, s) \<Rightarrow> (r, w\<lparr>w_backend := s\<rparr>))"

definition forget_at_w :: "'b backend \<Rightarrow> string \<Rightarrow> 'b world \<Rightarrow> 'b world" where
  "forget_at_w be key w = w\<lparr>w_backend := bk_forget_at be key (w_backend w)\<rparr>"

lemma encrypt_w_Inr:
  assumes "crates_ok X" "encrypt_w X p key w = (Inr es, w')"
  shows "decrypt X es key = Some p" "w_backend w' = w_backend w"
  using assms decrypt_encrypt[OF assms(1), of p key "w_draws w" es]
  by (auto simp: encrypt_w_def split: prod.splits)

lemma encrypt_w_backend: "encrypt_w X p key w = (r, w') \<Longrightarrow> w_backend w' = w_backend w"
  by (auto simp: encrypt_w_def split: prod.splits)

lemma encrypt_w_err: "encrypt_w X p key w = (Inl e, w') \<Longrightarrow> e = EncryptionFailed"
  by (auto simp: encrypt_w_def split: prod.splits dest: encrypt_err)

section \<open>The master-key cache\<close>

definition KEY_LEN :: nat where "KEY_LEN = 32"
definition TS_LEN :: nat where "TS_LEN = 8"
definition RECORD_LEN :: nat where "RECORD_LEN = KEY_LEN + TS_LEN"

definition to_le_bytes :: "64 word \<Rightarrow> bytes" where
  "to_le_bytes t = map (\<lambda>i. char_of ((unat t div 256 ^ i) mod 256)) [0..<8]"

definition from_le_bytes :: "bytes \<Rightarrow> 64 word" where
  "from_le_bytes bs = of_nat (foldr (\<lambda>c n. of_char c + 256 * n) bs 0)"

definition saturating_sub :: "64 word \<Rightarrow> 64 word \<Rightarrow> 64 word" where
  "saturating_sub a b = (if b \<le> a then a - b else 0)"

definition read_cache :: "string \<Rightarrow> 64 word \<Rightarrow> 'b world \<Rightarrow> vault_key option" where
  "read_cache path ttl w =
     (if ttl = 0 then None
      else case w_files w path of
        None \<Rightarrow> None
      | Some bs \<Rightarrow>
          if length bs \<noteq> RECORD_LEN then None
          else case w_now w of
            None \<Rightarrow> None
          | Some now \<Rightarrow>
              if ttl \<le> saturating_sub now (from_le_bytes (drop KEY_LEN bs)) then None
              else Some (take KEY_LEN bs))"

text \<open>\<^verbatim>\<open>write_cache\<close>: whether the file can be written is a parameter of the file system.\<close>

definition write_cache ::
  "(string \<Rightarrow> io_error option) \<Rightarrow> string \<Rightarrow> vault_key \<Rightarrow> 64 word \<Rightarrow> 'b world \<Rightarrow> (sshrack_error + unit) \<times> 'b world" where
  "write_cache fails path key ttl w =
     (if ttl = 0 then (Inr (), w)
      else case fails path of
        Some e \<Rightarrow> (Inl (CacheIo path e), w)
      | None \<Rightarrow>
          (Inr (), w\<lparr>w_files := (w_files w)
             (path := Some (key @ to_le_bytes (case w_now w of Some n \<Rightarrow> n | None \<Rightarrow> 0)))\<rparr>))"

definition clear_cache ::
  "(string \<Rightarrow> io_error option) \<Rightarrow> string \<Rightarrow> 'b world \<Rightarrow> (sshrack_error + unit) \<times> 'b world" where
  "clear_cache fails path w =
     (case fails path of
        Some IoNotFound \<Rightarrow> (Inr (), w)
      | Some e \<Rightarrow> (Inl (CacheIo path e), w)
      | None \<Rightarrow> (Inr (), w\<lparr>w_files := (w_files w)(path := None)\<rparr>))"

lemma length_to_le_bytes [simp]: "length (to_le_bytes t) = 8"
  by (simp add: to_le_bytes_def)

lemma foldr_bytes_sum:
  "foldr (\<lambda>c n. of_char c + 256 * n) (map (\<lambda>i. char_of ((x div 256 ^ i) mod 256)) [k..<k + m]) (0 :: nat)
     = (x div 256 ^ k) mod 256 ^ m"
proof (induction m arbitrary: k)
  case (Suc m)
  have u: "[k..<k + Suc m] = k # [Suc k..<Suc k + m]" by (simp add: upt_rec)
  have "foldr (\<lambda>c n. of_char c + 256 * n) (map (\<lambda>i. char_of ((x div 256 ^ i) mod 256)) [k..<k + Suc m]) 0
      = (x div 256 ^ k) mod 256 + 256 * ((x div 256 ^ Suc k) mod 256 ^ m)"
    unfolding u list.map foldr.simps comp_def Suc.IH by simp
  also have "(x div 256 ^ Suc k) = (x div 256 ^ k) div 256"
    by (metis div_mult2_eq power_Suc2)
  also have "(x div 256 ^ k) mod 256 + 256 * (((x div 256 ^ k) div 256) mod 256 ^ m)
      = (x div 256 ^ k) mod 256 ^ Suc m"
    by (simp add: mod_mult2_eq)
  finally show ?case .
qed simp

lemma from_to_le_bytes [simp]: "from_le_bytes (to_le_bytes t) = t"
proof -
  have "foldr (\<lambda>c n. of_char c + 256 * n) (to_le_bytes t) 0 = unat t mod 256 ^ 8"
    using foldr_bytes_sum[of "unat t" 0 8] by (simp add: to_le_bytes_def)
  also have "\<dots> = unat t" using unsigned_less[of t, where 'a = nat] by simp
  finally show ?thesis by (simp add: from_le_bytes_def)
qed

text \<open>A key written at one instant is read back at a later one inside the window and not after
it.\<close>

lemma read_write_cache:
  assumes "length key = KEY_LEN" "fails path = None" "ttl \<noteq> 0" "w_now w = Some t0"
    and "write_cache fails path key ttl w = (r, w1)"
  shows "read_cache path ttl (w1\<lparr>w_now := Some t1\<rparr>)
           = (if ttl \<le> saturating_sub t1 t0 then None else Some key)"
  using assms by (auto simp: write_cache_def read_cache_def RECORD_LEN_def KEY_LEN_def TS_LEN_def)

end
