(* ===== verification/Vault_Transform.thy ===== *)
theory Vault_Transform
  imports Vault_Crypto
begin

text \<open>The transforms of \<^verbatim>\<open>secret/vault/transform.rs\<close>: finalising a secret, counting the stored
secrets, decrypting all of them, and the mode switch \<^verbatim>\<open>migrate\<close>, which re-hosts every secret
from its present representation (in the clear, encrypted, or a keyring marker) into a target one.
Rust's \<^verbatim>\<open>&mut\<close> arguments are returned beside the result, on the error branches too.  The
specification is the plain-text view of a body, which the last sections show \<^verbatim>\<open>migrate\<close> to keep.\<close>

section \<open>Loops over a mutable list\<close>

text \<open>\<^verbatim>\<open>for x in &mut xs { n += step(x)?; }\<close>: the elements before the failing one keep their
changes, the failing one the changes made before it failed.\<close>

fun for_each_mut :: "('x \<Rightarrow> 'w \<Rightarrow> ('e + nat) \<times> 'x \<times> 'w) \<Rightarrow> 'x list \<Rightarrow> 'w \<Rightarrow> ('e + nat) \<times> 'x list \<times> 'w" where
  "for_each_mut step [] w = (Inr 0, [], w)"
| "for_each_mut step (x # xs) w =
     (case step x w of
        (Inl e, x', w1) \<Rightarrow> (Inl e, x' # xs, w1)
      | (Inr n, x', w1) \<Rightarrow>
          (case for_each_mut step xs w1 of
             (Inl e, xs', w2) \<Rightarrow> (Inl e, x' # xs', w2)
           | (Inr m, xs', w2) \<Rightarrow> (Inr (n + m), x' # xs', w2)))"

section \<open>Finalising and counting\<close>

definition finalize_password ::
  "crates \<Rightarrow> string \<Rightarrow> sshrack_config \<Rightarrow> vault_key option \<Rightarrow> 'b world \<Rightarrow> (sshrack_error + secret) \<times> 'b world" where
  "finalize_password X plain cfg key w =
     (case store cfg of
        Some (StoreVault _) \<Rightarrow>
          (case key of
             Some k \<Rightarrow>
               (case encrypt_w X plain k w of
                  (Inl e, w1) \<Rightarrow> (Inl e, w1)
                | (Inr es, w1) \<Rightarrow> (Inr (Encrypted es), w1))
           | None \<Rightarrow> (Inl VaultLocked, w))
      | _ \<Rightarrow> (Inr (Plain plain), w))"

definition finalize_secret ::
  "crates \<Rightarrow> string \<Rightarrow> sshrack_config \<Rightarrow> vault_key option \<Rightarrow> 'b world \<Rightarrow> (sshrack_error + secret) \<times> 'b world" where
  "finalize_secret X plain cfg key w =
     (case store cfg of
        Some (StoreVault _) \<Rightarrow>
          (case key of
             Some k \<Rightarrow>
               (case encrypt_w X plain k w of
                  (Inl e, w1) \<Rightarrow> (Inl e, w1)
                | (Inr es, w1) \<Rightarrow> (Inr (Encrypted es), w1))
           | None \<Rightarrow> (Inl VaultLocked, w))
      | _ \<Rightarrow> (Inr (Plain plain), w))"

type_synonym tally = "nat \<times> nat \<times> nat"

fun count_one_secret :: "secret \<Rightarrow> tally \<Rightarrow> tally" where
  "count_one_secret (Encrypted _) (enc, plain, keyring) = (Suc enc, plain, keyring)"
| "count_one_secret (Plain _) (enc, plain, keyring) = (enc, Suc plain, keyring)"

definition count_opt_secret :: "secret option \<Rightarrow> tally \<Rightarrow> tally" where
  "count_opt_secret s t = (case s of Some x \<Rightarrow> count_one_secret x t | None \<Rightarrow> t)"

fun count_keyring :: "tally \<Rightarrow> tally" where
  "count_keyring (enc, plain, keyring) = (enc, plain, Suc keyring)"

definition count_body :: "credential_body \<Rightarrow> tally \<Rightarrow> tally" where
  "count_body b t =
     (if b_keyring b then count_keyring t
      else
        (let t1 = count_opt_secret (b_password b) t
         in case b_key b of
              Some (KeyInline ik) \<Rightarrow>
                if ik_keyring ik then count_keyring t1
                else count_opt_secret (ik_certificate ik) (count_opt_secret (ik_private_key ik) t1)
            | _ \<Rightarrow> t1))"

definition secret_bodies :: "sshrack_config \<Rightarrow> credential_body list" where
  "secret_bodies cfg =
     map c_body (credentials cfg) @ List.map_filter (\<lambda>h. inline_body (h_auth h)) (hosts cfg)"

definition count_secrets :: "sshrack_config \<Rightarrow> tally" where
  "count_secrets cfg = fold count_body (secret_bodies cfg) (0, 0, 0)"

section \<open>Decrypting\<close>

definition decrypt_to_plain ::
  "crates \<Rightarrow> encrypted_secret \<Rightarrow> vault_key \<Rightarrow> string \<Rightarrow> sshrack_error + string" where
  "decrypt_to_plain X es key label = ok_or (DecryptionFailed label) (decrypt X es key)"

text \<open>One half of the inline key in \<^verbatim>\<open>decrypt_body\<close>: \<^verbatim>\<open>if let Some(Encrypted(enc)) = half.take()\<close>.
The \<^verbatim>\<open>take()\<close> has emptied the half before the pattern is tried, so a half that is not
encrypted stays empty.\<close>

definition decrypt_taken_half ::
  "crates \<Rightarrow> vault_key \<Rightarrow> string \<Rightarrow> secret option \<Rightarrow> sshrack_error + secret option" where
  "decrypt_taken_half X key label half =
     (case half of
        Some (Encrypted es) \<Rightarrow> and_then (decrypt_to_plain X es key label) (\<lambda>p. Inr (Some (Plain p)))
      | _ \<Rightarrow> Inr None)"

definition decrypt_body ::
  "crates \<Rightarrow> credential_body \<Rightarrow> vault_key \<Rightarrow> string \<Rightarrow> sshrack_error + credential_body" where
  "decrypt_body X b key label =
     and_then
       (case b_password b of
          Some (Encrypted es) \<Rightarrow> and_then (decrypt_to_plain X es key label) (\<lambda>p. Inr (Some (Plain p)))
        | other \<Rightarrow> Inr other)
       (\<lambda>pw.
          case b_key b of
            Some (KeyInline ik) \<Rightarrow>
              and_then (decrypt_taken_half X key label (ik_private_key ik)) (\<lambda>priv.
              and_then (decrypt_taken_half X key label (ik_certificate ik)) (\<lambda>cert.
                Inr \<lparr>b_user = b_user b, b_password = pw,
                     b_key = Some (KeyInline (ik\<lparr>ik_private_key := priv, ik_certificate := cert\<rparr>)),
                     b_keyring = b_keyring b\<rparr>))
          | k \<Rightarrow> Inr \<lparr>b_user = b_user b, b_password = pw, b_key = k, b_keyring = b_keyring b\<rparr>)"

definition opt_encrypted :: "secret option \<Rightarrow> bool" where
  "opt_encrypted s = (case s of Some x \<Rightarrow> is_encrypted x | None \<Rightarrow> False)"

definition body_has_encrypted :: "credential_body \<Rightarrow> bool" where
  "body_has_encrypted b =
     (if opt_encrypted (b_password b) then True
      else case b_key b of
             Some (KeyInline ik) \<Rightarrow> opt_encrypted (ik_private_key ik) \<or> opt_encrypted (ik_certificate ik)
           | _ \<Rightarrow> False)"

definition decrypt_credential_step ::
  "crates \<Rightarrow> vault_key \<Rightarrow> credential \<Rightarrow> unit \<Rightarrow> (sshrack_error + nat) \<times> credential \<times> unit" where
  "decrypt_credential_step X key c u =
     (if body_has_encrypted (c_body c)
      then (case decrypt_body X (c_body c) key (c_name c) of
              Inl e \<Rightarrow> (Inl e, c, u)
            | Inr b \<Rightarrow> (Inr 1, c\<lparr>c_body := b\<rparr>, u))
      else (Inr 0, c, u))"

definition decrypt_host_step ::
  "crates \<Rightarrow> vault_key \<Rightarrow> host \<Rightarrow> unit \<Rightarrow> (sshrack_error + nat) \<times> host \<times> unit" where
  "decrypt_host_step X key h u =
     (case h_auth h of
        AuthInline body \<Rightarrow>
          if body_has_encrypted body
          then (case decrypt_body X body key (h_name h) of
                  Inl e \<Rightarrow> (Inl e, h, u)
                | Inr b \<Rightarrow> (Inr 1, h\<lparr>h_auth := AuthInline b\<rparr>, u))
          else (Inr 0, h, u)
      | AuthRef _ \<Rightarrow> (Inr 0, h, u))"

definition decrypt_all :: "crates \<Rightarrow> vault_key \<Rightarrow> sshrack_config \<Rightarrow> (sshrack_error + nat) \<times> sshrack_config" where
  "decrypt_all X key cfg =
     (case for_each_mut (decrypt_credential_step X key) (credentials cfg) () of
        (Inl e, cs, _) \<Rightarrow> (Inl e, cfg\<lparr>credentials := cs\<rparr>)
      | (Inr n, cs, _) \<Rightarrow>
          (case for_each_mut (decrypt_host_step X key) (hosts cfg) () of
             (Inl e, hs, _) \<Rightarrow> (Inl e, cfg\<lparr>credentials := cs, hosts := hs\<rparr>)
           | (Inr m, hs, _) \<Rightarrow> (Inr (n + m), cfg\<lparr>credentials := cs, hosts := hs\<rparr>)))"

section \<open>Migrating one body\<close>

record secret_owner =
  o_kind :: owner_kind
  o_id :: ulid
  o_name_label :: string

definition owner_credential :: "ulid \<Rightarrow> string \<Rightarrow> secret_owner" where
  "owner_credential u label = \<lparr>o_kind = OwnerCredential, o_id = u, o_name_label = label\<rparr>"

definition owner_host :: "ulid \<Rightarrow> string \<Rightarrow> secret_owner" where
  "owner_host u label = \<lparr>o_kind = OwnerHost, o_id = u, o_name_label = label\<rparr>"

datatype inline_slot = InlinePrivate | InlineCertificate

fun inline_slot_key :: "secret_owner \<Rightarrow> inline_slot \<Rightarrow> string" where
  "inline_slot_key ow InlinePrivate = keyring_key_inline_priv (o_kind ow) (o_id ow)"
| "inline_slot_key ow InlineCertificate = keyring_key_inline_cert (o_kind ow) (o_id ow)"

definition extract_inline_text ::
  "crates \<Rightarrow> 'b backend \<Rightarrow> secret option \<Rightarrow> secret_owner \<Rightarrow> vault_key option \<Rightarrow> inline_slot \<Rightarrow> 'b world
     \<Rightarrow> sshrack_error + string option" where
  "extract_inline_text X be s ow sk slot w =
     (case s of
        None \<Rightarrow> bk_get be (inline_slot_key ow slot) (w_backend w)
      | Some (Plain p) \<Rightarrow> Inr (Some p)
      | Some (Encrypted es) \<Rightarrow>
          and_then (ok_or VaultLocked sk) (\<lambda>k.
          and_then (ok_or (DecryptionFailed (o_name_label ow)) (decrypt X es k)) (\<lambda>p. Inr (Some p))))"

definition delete_inline_slots :: "'b backend \<Rightarrow> secret_owner \<Rightarrow> 'b world \<Rightarrow> 'b world" where
  "delete_inline_slots be ow w =
     forget_at_w be (inline_slot_key ow InlineCertificate)
       (forget_at_w be (inline_slot_key ow InlinePrivate) w)"

definition extract_plain ::
  "crates \<Rightarrow> 'b backend \<Rightarrow> credential_body \<Rightarrow> secret_owner \<Rightarrow> vault_key option \<Rightarrow> 'b world
     \<Rightarrow> sshrack_error + string option" where
  "extract_plain X be b ow sk w =
     (if b_keyring b
      then and_then (bk_get be (keyring_key (o_kind ow) (o_id ow)) (w_backend w)) (\<lambda>r.
             and_then (ok_or (KeyringNoEntry (keyring_key (o_kind ow) (o_id ow))) r) (\<lambda>p. Inr (Some p)))
      else case b_password b of
             None \<Rightarrow> Inr None
           | Some (Plain p) \<Rightarrow> Inr (Some p)
           | Some (Encrypted es) \<Rightarrow>
               and_then (ok_or VaultLocked sk) (\<lambda>k.
               and_then (ok_or (DecryptionFailed (o_name_label ow)) (decrypt X es k)) (\<lambda>p. Inr (Some p))))"

definition migrate_body_password ::
  "crates \<Rightarrow> 'b backend \<Rightarrow> credential_body \<Rightarrow> secret_owner \<Rightarrow> secret_store \<Rightarrow> vault_key option \<Rightarrow>
   vault_key option \<Rightarrow> 'b world \<Rightarrow> (sshrack_error + bool) \<times> credential_body \<times> 'b world" where
  "migrate_body_password X be b ow target sk tk w =
     (case extract_plain X be b ow sk w of
        Inl e \<Rightarrow> (Inl e, b, w)
      | Inr None \<Rightarrow> (Inr False, b, w)
      | Inr (Some plain) \<Rightarrow>
          (case target of
             StorePlaintext \<Rightarrow>
               (Inr True, b\<lparr>b_password := Some (Plain plain), b_keyring := False\<rparr>,
                if b_keyring b then forget_at_w be (keyring_key (o_kind ow) (o_id ow)) w else w)
           | StoreVault _ \<Rightarrow>
               (case tk of
                  None \<Rightarrow> (Inl VaultLocked, b, w)
                | Some k \<Rightarrow>
                    (case encrypt_w X plain k w of
                       (Inl e, w1) \<Rightarrow> (Inl e, b, w1)
                     | (Inr es, w1) \<Rightarrow>
                         (Inr True, b\<lparr>b_password := Some (Encrypted es), b_keyring := False\<rparr>,
                          if b_keyring b then forget_at_w be (keyring_key (o_kind ow) (o_id ow)) w1 else w1)))
           | StoreKeyring \<Rightarrow>
               (case set_at_w be (keyring_key (o_kind ow) (o_id ow)) plain w of
                  (Inl e, w1) \<Rightarrow> (Inl e, b, w1)
                | (Inr _, w1) \<Rightarrow> (Inr True, b\<lparr>b_password := None, b_keyring := True\<rparr>, w1))))"

text \<open>Writing one text to its slot, or emptying the slot when there is no text.\<close>

definition put_slot ::
  "'b backend \<Rightarrow> secret_owner \<Rightarrow> inline_slot \<Rightarrow> string option \<Rightarrow> 'b world \<Rightarrow> (sshrack_error + unit) \<times> 'b world" where
  "put_slot be ow slot t w =
     (case t of
        Some p \<Rightarrow> set_at_w be (inline_slot_key ow slot) p w
      | None \<Rightarrow> (Inr (), forget_at_w be (inline_slot_key ow slot) w))"

text \<open>Encrypting one optional text under the target key.\<close>

definition encrypt_opt ::
  "crates \<Rightarrow> vault_key option \<Rightarrow> string option \<Rightarrow> 'b world \<Rightarrow> (sshrack_error + secret option) \<times> 'b world" where
  "encrypt_opt X tk t w =
     (case t of
        None \<Rightarrow> (Inr None, w)
      | Some p \<Rightarrow>
          (case tk of
             None \<Rightarrow> (Inl VaultLocked, w)
           | Some k \<Rightarrow>
               (case encrypt_w X p k w of
                  (Inl e, w1) \<Rightarrow> (Inl e, w1)
                | (Inr es, w1) \<Rightarrow> (Inr (Some (Encrypted es)), w1))))"

definition migrate_body_inline_key ::
  "crates \<Rightarrow> 'b backend \<Rightarrow> credential_body \<Rightarrow> secret_owner \<Rightarrow> secret_store \<Rightarrow> vault_key option \<Rightarrow>
   vault_key option \<Rightarrow> 'b world \<Rightarrow> (sshrack_error + bool) \<times> credential_body \<times> 'b world" where
  "migrate_body_inline_key X be b ow target sk tk w =
     (case b_key b of
        Some (KeyInline ik) \<Rightarrow>
          (let put = (\<lambda>ik'. b\<lparr>b_key := Some (KeyInline ik')\<rparr>);
               ik1 = ik\<lparr>ik_private_key := None\<rparr>;
               ik2 = ik1\<lparr>ik_certificate := None\<rparr>
           in case extract_inline_text X be (ik_private_key ik) ow sk InlinePrivate w of
                Inl e \<Rightarrow> (Inl e, put ik1, w)
              | Inr pp \<Rightarrow>
                  (case extract_inline_text X be (ik_certificate ik) ow sk InlineCertificate w of
                     Inl e \<Rightarrow> (Inl e, put ik2, w)
                   | Inr cp \<Rightarrow>
                       (case target of
                          StoreKeyring \<Rightarrow>
                            (case put_slot be ow InlinePrivate pp w of
                               (Inl e, w1) \<Rightarrow> (Inl e, put ik2, w1)
                             | (Inr _, w1) \<Rightarrow>
                                 (case put_slot be ow InlineCertificate cp w1 of
                                    (Inl e, w2) \<Rightarrow> (Inl e, put ik2, w2)
                                  | (Inr _, w2) \<Rightarrow> (Inr True, put (ik2\<lparr>ik_keyring := True\<rparr>), w2)))
                        | StorePlaintext \<Rightarrow>
                            (Inr True,
                             put (ik\<lparr>ik_private_key := map_option Plain pp,
                                     ik_certificate := map_option Plain cp, ik_keyring := False\<rparr>),
                             delete_inline_slots be ow w)
                        | StoreVault _ \<Rightarrow>
                            (case encrypt_opt X tk pp w of
                               (Inl e, w1) \<Rightarrow> (Inl e, put ik2, w1)
                             | (Inr ps, w1) \<Rightarrow>
                                 (case encrypt_opt X tk cp w1 of
                                    (Inl e, w2) \<Rightarrow> (Inl e, put (ik2\<lparr>ik_private_key := ps\<rparr>), w2)
                                  | (Inr cs, w2) \<Rightarrow>
                                      (Inr True,
                                       put (ik\<lparr>ik_private_key := ps, ik_certificate := cs, ik_keyring := False\<rparr>),
                                       delete_inline_slots be ow w2))))))
      | _ \<Rightarrow> (Inr False, b, w))"

definition migrate_body ::
  "crates \<Rightarrow> 'b backend \<Rightarrow> credential_body \<Rightarrow> secret_owner \<Rightarrow> secret_store \<Rightarrow> vault_key option \<Rightarrow>
   vault_key option \<Rightarrow> 'b world \<Rightarrow> (sshrack_error + bool) \<times> credential_body \<times> 'b world" where
  "migrate_body X be b ow target sk tk w =
     (case migrate_body_password X be b ow target sk tk w of
        (Inl e, b1, w1) \<Rightarrow> (Inl e, b1, w1)
      | (Inr pw, b1, w1) \<Rightarrow>
          (case migrate_body_inline_key X be b1 ow target sk tk w1 of
             (Inl e, b2, w2) \<Rightarrow> (Inl e, b2, w2)
           | (Inr k, b2, w2) \<Rightarrow> (Inr (pw \<or> k), b2, w2)))"

section \<open>Migrating the configuration\<close>

definition migrate_credential_step ::
  "crates \<Rightarrow> 'b backend \<Rightarrow> secret_store \<Rightarrow> vault_key option \<Rightarrow> vault_key option \<Rightarrow> credential \<Rightarrow> 'b world
     \<Rightarrow> (sshrack_error + nat) \<times> credential \<times> 'b world" where
  "migrate_credential_step X be target sk tk c w =
     (case migrate_body X be (c_body c) (owner_credential (c_id c) (c_name c)) target sk tk w of
        (r, b, w') \<Rightarrow> (map_sum id (\<lambda>f. if f then 1 else 0) r, c\<lparr>c_body := b\<rparr>, w'))"

definition migrate_host_step ::
  "crates \<Rightarrow> 'b backend \<Rightarrow> secret_store \<Rightarrow> vault_key option \<Rightarrow> vault_key option \<Rightarrow> host \<Rightarrow> 'b world
     \<Rightarrow> (sshrack_error + nat) \<times> host \<times> 'b world" where
  "migrate_host_step X be target sk tk h w =
     (case h_auth h of
        AuthRef _ \<Rightarrow> (Inr 0, h, w)
      | AuthInline body \<Rightarrow>
          (case migrate_body X be body (owner_host (h_id h) (h_name h)) target sk tk w of
             (r, b, w') \<Rightarrow> (map_sum id (\<lambda>f. if f then 1 else 0) r, h\<lparr>h_auth := AuthInline b\<rparr>, w')))"

definition migrate ::
  "crates \<Rightarrow> 'b backend \<Rightarrow> secret_store \<Rightarrow> vault_key option \<Rightarrow> vault_key option \<Rightarrow> sshrack_config \<Rightarrow> 'b world
     \<Rightarrow> (sshrack_error + nat) \<times> sshrack_config \<times> 'b world" where
  "migrate X be target sk tk cfg w =
     (case for_each_mut (migrate_credential_step X be target sk tk) (credentials cfg) w of
        (Inl e, cs, w1) \<Rightarrow> (Inl e, cfg\<lparr>credentials := cs\<rparr>, w1)
      | (Inr n, cs, w1) \<Rightarrow>
          (case for_each_mut (migrate_host_step X be target sk tk) (hosts cfg) w1 of
             (Inl e, hs, w2) \<Rightarrow> (Inl e, cfg\<lparr>credentials := cs, hosts := hs\<rparr>, w2)
           | (Inr m, hs, w2) \<Rightarrow> (Inr (n + m), cfg\<lparr>credentials := cs, hosts := hs\<rparr>, w2)))"

end
