(* ===== verification/Vault_Facts.thy ===== *)
theory Vault_Facts
  imports Vault_Transform
begin

text \<open>The contract of the transforms: the plain-text view of a body, what it means for a body to be
sealed for a mode, the invariant that ties the bodies to the slots of the backend, and the lemmas that
one body's migration keeps the view and the invariant and touches no slot but its owner's.\<close>

section \<open>The plain-text view\<close>

fun secret_text :: "crates \<Rightarrow> vault_key option \<Rightarrow> secret \<Rightarrow> string option" where
  "secret_text X key (Plain p) = Some p"
| "secret_text X key (Encrypted es) = Option.bind key (decrypt X es)"

definition password_view ::
  "crates \<Rightarrow> vault_key option \<Rightarrow> (string \<rightharpoonup> string) \<Rightarrow> owner_kind \<Rightarrow> ulid \<Rightarrow> credential_body \<Rightarrow> string option" where
  "password_view X key m k u b =
     (if b_keyring b then m (keyring_key k u) else Option.bind (b_password b) (secret_text X key))"

definition private_view ::
  "crates \<Rightarrow> vault_key option \<Rightarrow> (string \<rightharpoonup> string) \<Rightarrow> owner_kind \<Rightarrow> ulid \<Rightarrow> credential_body \<Rightarrow> string option" where
  "private_view X key m k u b =
     (case b_key b of
        Some (KeyInline ik) \<Rightarrow>
          if ik_keyring ik then m (keyring_key_inline_priv k u)
          else Option.bind (ik_private_key ik) (secret_text X key)
      | _ \<Rightarrow> None)"

definition certificate_view ::
  "crates \<Rightarrow> vault_key option \<Rightarrow> (string \<rightharpoonup> string) \<Rightarrow> owner_kind \<Rightarrow> ulid \<Rightarrow> credential_body \<Rightarrow> string option" where
  "certificate_view X key m k u b =
     (case b_key b of
        Some (KeyInline ik) \<Rightarrow>
          if ik_keyring ik then m (keyring_key_inline_cert k u)
          else Option.bind (ik_certificate ik) (secret_text X key)
      | _ \<Rightarrow> None)"

definition key_path_of :: "credential_body \<Rightarrow> string option" where
  "key_path_of b = (case b_key b of Some (KeyPath p) \<Rightarrow> Some p | _ \<Rightarrow> None)"

record plain_view =
  v_user :: string
  v_password :: "string option"
  v_private :: "string option"
  v_certificate :: "string option"
  v_path :: "string option"

definition body_view ::
  "crates \<Rightarrow> vault_key option \<Rightarrow> (string \<rightharpoonup> string) \<Rightarrow> owner_kind \<Rightarrow> ulid \<Rightarrow> credential_body \<Rightarrow> plain_view" where
  "body_view X key m k u b =
     \<lparr>v_user = b_user b, v_password = password_view X key m k u b,
      v_private = private_view X key m k u b, v_certificate = certificate_view X key m k u b,
      v_path = key_path_of b\<rparr>"

section \<open>Sealed bodies\<close>

fun sealed_opt :: "secret_store \<Rightarrow> secret option \<Rightarrow> bool" where
  "sealed_opt StorePlaintext s = (\<not> opt_encrypted s)"
| "sealed_opt (StoreVault _) s = (s = None \<or> opt_encrypted s)"
| "sealed_opt StoreKeyring s = (s = None)"

definition body_sealed :: "secret_store \<Rightarrow> credential_body \<Rightarrow> bool" where
  "body_sealed target b \<longleftrightarrow>
     sealed_opt target (b_password b) \<and> (b_keyring b \<longrightarrow> target = StoreKeyring)
     \<and> (case b_key b of
          Some (KeyInline ik) \<Rightarrow>
            sealed_opt target (ik_private_key ik) \<and> sealed_opt target (ik_certificate ik)
            \<and> (ik_keyring ik \<longleftrightarrow> target = StoreKeyring)
        | _ \<Rightarrow> True)"

definition carries_secret :: "credential_body \<Rightarrow> bool" where
  "carries_secret b \<longleftrightarrow>
     b_keyring b \<or> b_password b \<noteq> None \<or> (case b_key b of Some (KeyInline _) \<Rightarrow> True | _ \<Rightarrow> False)"

section \<open>Bodies and slots\<close>

text \<open>The invariant between one body and the backend: a marked inline key has its private text in its
slot, and an unmarked one without a certificate has no stale certificate there.\<close>

definition slots_ok :: "(string \<rightharpoonup> string) \<Rightarrow> owner_kind \<Rightarrow> ulid \<Rightarrow> credential_body \<Rightarrow> bool" where
  "slots_ok m k u b \<longleftrightarrow>
     (case b_key b of
        Some (KeyInline ik) \<Rightarrow>
          (if ik_keyring ik then m (keyring_key_inline_priv k u) \<noteq> None
           else ik_certificate ik = None \<longrightarrow> m (keyring_key_inline_cert k u) = None)
      | _ \<Rightarrow> True)"

definition owner_slots :: "owner_kind \<Rightarrow> ulid \<Rightarrow> string set" where
  "owner_slots k u = {keyring_key k u, keyring_key_inline_priv k u, keyring_key_inline_cert k u}"

lemma own_slots_distinct [simp]:
  "keyring_key k u \<noteq> keyring_key_inline_priv k u" "keyring_key_inline_priv k u \<noteq> keyring_key k u"
  "keyring_key k u \<noteq> keyring_key_inline_cert k u" "keyring_key_inline_cert k u \<noteq> keyring_key k u"
  "keyring_key_inline_priv k u \<noteq> keyring_key_inline_cert k u"
  "keyring_key_inline_cert k u \<noteq> keyring_key_inline_priv k u"
  by (auto simp: keyring_key_inline_priv_def keyring_key_inline_cert_def)

lemma owner_slots_disjoint:
  assumes "ulid_ok u" "ulid_ok u'" "(k, u) \<noteq> (k', u')"
  shows "owner_slots k u \<inter> owner_slots k' u' = {}"
  using slot_key_inj[OF assms(1,2), of k _ k' _] assms(3)
  by (auto simp: owner_slots_def slot_convs simp del: slot_key.simps)

lemma body_view_local:
  assumes "\<And>key. key \<in> owner_slots k u \<Longrightarrow> m' key = m key"
  shows "body_view X vk m' k u b = body_view X vk m k u b"
  using assms by (auto simp: body_view_def password_view_def private_view_def certificate_view_def
      owner_slots_def split: option.splits key_source.splits)

lemma slots_ok_local:
  assumes "\<And>key. key \<in> owner_slots k u \<Longrightarrow> m' key = m key"
  shows "slots_ok m' k u b = slots_ok m k u b"
  using assms by (auto simp: slots_ok_def owner_slots_def split: option.splits key_source.splits)

text \<open>A body whose own slots are kept, written as a frame on the whole backend.\<close>

definition frame :: "string set \<Rightarrow> (string \<rightharpoonup> string) \<Rightarrow> (string \<rightharpoonup> string) \<Rightarrow> bool" where
  "frame S m m' \<longleftrightarrow> (\<forall>key. key \<notin> S \<longrightarrow> m' key = m key)"

lemma frame_refl [simp]: "frame S m m"
  by (simp add: frame_def)

lemma frame_trans: "frame S m m1 \<Longrightarrow> frame S m1 m2 \<Longrightarrow> frame S m m2"
  by (simp add: frame_def)

lemma frame_mono: "frame S m m' \<Longrightarrow> S \<subseteq> T \<Longrightarrow> frame T m m'"
  by (auto simp: frame_def)

lemma view_of_put [simp]:
  "private_view X key m k u (b\<lparr>b_key := Some (KeyInline ik)\<rparr>) =
     (if ik_keyring ik then m (keyring_key_inline_priv k u)
      else Option.bind (ik_private_key ik) (secret_text X key))"
  "certificate_view X key m k u (b\<lparr>b_key := Some (KeyInline ik)\<rparr>) =
     (if ik_keyring ik then m (keyring_key_inline_cert k u)
      else Option.bind (ik_certificate ik) (secret_text X key))"
  "slots_ok m k u (b\<lparr>b_key := Some (KeyInline ik)\<rparr>) =
     (if ik_keyring ik then m (keyring_key_inline_priv k u) \<noteq> None
      else ik_certificate ik = None \<longrightarrow> m (keyring_key_inline_cert k u) = None)"
  by (simp_all add: private_view_def certificate_view_def slots_ok_def)

lemma bind_map_Plain [simp]: "Option.bind (map_option Plain t) (secret_text X key) = t"
  by (cases t) auto

lemma opt_encrypted_simps [simp]:
  "\<not> opt_encrypted None" "\<not> opt_encrypted (Some (Plain p))" "opt_encrypted (Some (Encrypted es))"
  by (simp_all add: opt_encrypted_def)

lemma not_encrypted_map_Plain [simp]: "\<not> opt_encrypted (map_option Plain t)"
  by (cases t) (auto simp: opt_encrypted_def)

section \<open>The world's operations on the contents of the backend\<close>

context secret_backend
begin

definition contents :: "'b world \<Rightarrow> string \<rightharpoonup> string" where
  "contents w = entries (w_backend w)"

lemma forget_at_w_frame: "frame {key} (contents w) (contents (forget_at_w be key w))"
  by (simp add: frame_def contents_def forget_at_w_def forget_at_other)

lemma forget_at_w_cases:
  "contents (forget_at_w be key w) = contents w
   \<or> contents (forget_at_w be key w) = (contents w)(key := None)"
proof (cases "bk_delete_at be key (w_backend w)")
  case (Pair r s')
  then show ?thesis
    by (cases r) (auto simp: contents_def forget_at_w_def bk_forget_at_def dest: delete_ok delete_err)
qed

lemma forget_at_w_keeps_None: "contents w key' = None \<Longrightarrow> contents (forget_at_w be key w) key' = None"
  using forget_at_w_cases[of key w] by auto

lemma set_at_w_ok: "set_at_w be key v w = (Inr u, w') \<Longrightarrow> contents w' = (contents w)(key \<mapsto> v)"
  by (auto simp: set_at_w_def contents_def split: prod.splits dest: set_ok)

lemma encrypt_w_contents: "encrypt_w X p key w = (r, w') \<Longrightarrow> contents w' = contents w"
  by (simp add: contents_def encrypt_w_backend)

lemma extract_plain_view:
  assumes "extract_plain X be b ow sk w = Inr r"
  shows "r = password_view X sk (contents w) (o_kind ow) (o_id ow) b"
    and "r = None \<longleftrightarrow> \<not> b_keyring b \<and> b_password b = None"
  using assms
  by (auto simp: extract_plain_def password_view_def contents_def
      split: if_splits option.splits secret.splits dest: get_ok)

lemma migrate_password_ok:
  assumes X: "crates_ok X"
    and run: "migrate_body_password X be b ow target sk tk w = (Inr f, b', w')"
  shows "frame {keyring_key (o_kind ow) (o_id ow)} (contents w) (contents w')"
    and "password_view X tk (contents w') (o_kind ow) (o_id ow) b'
           = password_view X sk (contents w) (o_kind ow) (o_id ow) b"
    and "f \<longleftrightarrow> b_keyring b \<or> b_password b \<noteq> None"
    and "b_key b' = b_key b" and "b_user b' = b_user b"
    and "b_keyring b' \<longleftrightarrow> f \<and> target = StoreKeyring"
    and "b_password b' \<noteq> None \<longleftrightarrow> f \<and> target \<noteq> StoreKeyring"
    and "sealed_opt target (b_password b')"
proof -
  let ?k = "o_kind ow" and ?u = "o_id ow"
  have all: "frame {keyring_key ?k ?u} (contents w) (contents w')
      \<and> password_view X tk (contents w') ?k ?u b' = password_view X sk (contents w) ?k ?u b
      \<and> (f \<longleftrightarrow> b_keyring b \<or> b_password b \<noteq> None) \<and> b_key b' = b_key b \<and> b_user b' = b_user b
      \<and> (b_keyring b' \<longleftrightarrow> f \<and> target = StoreKeyring)
      \<and> (b_password b' \<noteq> None \<longleftrightarrow> f \<and> target \<noteq> StoreKeyring) \<and> sealed_opt target (b_password b')"
  proof (cases "extract_plain X be b ow sk w")
    case (Inl e)
    then show ?thesis using run by (simp add: migrate_body_password_def)
  next
    case (Inr r)
    note ev = extract_plain_view[OF Inr]
    show ?thesis
    proof (cases r)
      case None
      then show ?thesis
        using run Inr ev
        by (cases target) (auto simp: migrate_body_password_def password_view_def opt_encrypted_def)
    next
      case (Some plain)
      show ?thesis
      proof (cases target)
        case StorePlaintext
        then show ?thesis
          using run Inr Some ev forget_at_w_frame[of "keyring_key ?k ?u" w]
          by (auto simp: migrate_body_password_def password_view_def opt_encrypted_def)
      next
        case (StoreVault meta)
        then obtain k es w1 where e: "tk = Some k" "encrypt_w X plain k w = (Inr es, w1)"
          using run Inr Some
          by (auto simp: migrate_body_password_def split: option.splits sum.splits prod.splits)
        note enc = encrypt_w_Inr(1)[OF X e(2)] encrypt_w_contents[OF e(2)]
        show ?thesis
          using run Inr Some ev StoreVault e enc forget_at_w_frame[of "keyring_key ?k ?u" w1]
          by (auto simp: migrate_body_password_def password_view_def opt_encrypted_def)
      next
        case StoreKeyring
        then obtain w1 where e: "set_at_w be (keyring_key ?k ?u) plain w = (Inr (), w1)"
          using run Inr Some
          by (auto simp: migrate_body_password_def split: sum.splits prod.splits)
        note st = set_at_w_ok[OF e]
        show ?thesis
          using run Inr Some ev StoreKeyring e st
          by (auto simp: migrate_body_password_def password_view_def frame_def)
      qed
    qed
  qed
  show "frame {keyring_key ?k ?u} (contents w) (contents w')"
    and "password_view X tk (contents w') ?k ?u b' = password_view X sk (contents w) ?k ?u b"
    and "f \<longleftrightarrow> b_keyring b \<or> b_password b \<noteq> None"
    and "b_key b' = b_key b" and "b_user b' = b_user b"
    and "b_keyring b' \<longleftrightarrow> f \<and> target = StoreKeyring"
    and "b_password b' \<noteq> None \<longleftrightarrow> f \<and> target \<noteq> StoreKeyring"
    and "sealed_opt target (b_password b')"
    using all by blast+
qed

lemma extract_inline_view:
  assumes "extract_inline_text X be s ow sk slot w = Inr r"
  shows "r = (case s of None \<Rightarrow> contents w (inline_slot_key ow slot) | Some x \<Rightarrow> secret_text X sk x)"
    and "s \<noteq> None \<Longrightarrow> r \<noteq> None"
  using assms
  by (auto simp: extract_inline_text_def contents_def split: option.splits secret.splits dest: get_ok)

lemma put_slot_contents:
  assumes "put_slot be ow slot t w = (Inr u, w')"
  shows "frame {inline_slot_key ow slot} (contents w) (contents w')"
    and "t = Some p \<Longrightarrow> contents w' (inline_slot_key ow slot) = Some p"
    and "t = None \<Longrightarrow> contents w (inline_slot_key ow slot) = None \<Longrightarrow>
         contents w' (inline_slot_key ow slot) = None"
  using assms forget_at_w_frame[of "inline_slot_key ow slot" w]
  by (auto simp: put_slot_def frame_def split: option.splits
      dest!: set_at_w_ok intro: forget_at_w_keeps_None)

lemma encrypt_opt_ok:
  assumes "crates_ok X" "encrypt_opt X tk t w = (Inr s, w')"
  shows "contents w' = contents w"
    and "Option.bind s (secret_text X tk) = t"
    and "s = None \<longleftrightarrow> t = None"
    and "s = None \<or> opt_encrypted s"
  using assms
  by (auto simp: encrypt_opt_def opt_encrypted_def split: option.splits sum.splits prod.splits
      dest: encrypt_w_contents encrypt_w_Inr)

lemma delete_inline_slots_keeps_None:
  "contents w key = None \<Longrightarrow> contents (delete_inline_slots be ow w) key = None"
  by (simp add: delete_inline_slots_def forget_at_w_keeps_None)

lemma delete_inline_slots_frame:
  "frame {inline_slot_key ow InlinePrivate, inline_slot_key ow InlineCertificate}
     (contents w) (contents (delete_inline_slots be ow w))"
  using forget_at_w_frame[of "inline_slot_key ow InlinePrivate" w]
    forget_at_w_frame[of "inline_slot_key ow InlineCertificate"
      "forget_at_w be (inline_slot_key ow InlinePrivate) w"]
  by (auto simp: delete_inline_slots_def frame_def)

text \<open>The texts that \<^verbatim>\<open>migrate_body_inline_key\<close> extracts are the views of the body.\<close>

lemma extract_inline_is_view:
  assumes wf: "body_wf b" "slots_ok (contents w) (o_kind ow) (o_id ow) b"
    and ik: "b_key b = Some (KeyInline ik)"
    and pp: "extract_inline_text X be (ik_private_key ik) ow sk InlinePrivate w = Inr pp"
    and cp: "extract_inline_text X be (ik_certificate ik) ow sk InlineCertificate w = Inr cp"
  shows "private_view X sk (contents w) (o_kind ow) (o_id ow) b = pp"
    and "certificate_view X sk (contents w) (o_kind ow) (o_id ow) b = cp"
    and "pp \<noteq> None" and "cp = None \<Longrightarrow> contents w (inline_slot_key ow InlineCertificate) = None"
proof -
  note p = extract_inline_view[OF pp] and c = extract_inline_view[OF cp]
  have iw: "inline_key_wf ik" using wf(1) ik by (auto simp: body_wf_def)
  show "private_view X sk (contents w) (o_kind ow) (o_id ow) b = pp"
    using p iw ik by (auto simp: private_view_def inline_key_wf_def split: option.splits if_splits)
  show "certificate_view X sk (contents w) (o_kind ow) (o_id ow) b = cp"
    using c iw ik wf(2)
    by (auto simp: certificate_view_def inline_key_wf_def slots_ok_def split: option.splits if_splits)
  show "pp \<noteq> None"
    using p iw ik wf(2) by (auto simp: inline_key_wf_def slots_ok_def split: option.splits if_splits)
  show "contents w (inline_slot_key ow InlineCertificate) = None" if "cp = None"
    using c that by (auto split: option.splits)
qed

lemma migrate_inline_ok:
  assumes X: "crates_ok X" and wf: "body_wf b" "slots_ok (contents w) (o_kind ow) (o_id ow) b"
    and ik: "b_key b = Some (KeyInline ik)"
    and run: "migrate_body_inline_key X be b ow target sk tk w = (Inr f, b', w')"
  obtains ik' where "f" and "b' = b\<lparr>b_key := Some (KeyInline ik')\<rparr>"
    and "frame {inline_slot_key ow InlinePrivate, inline_slot_key ow InlineCertificate} (contents w) (contents w')"
    and "private_view X tk (contents w') (o_kind ow) (o_id ow) b'
           = private_view X sk (contents w) (o_kind ow) (o_id ow) b"
    and "certificate_view X tk (contents w') (o_kind ow) (o_id ow) b'
           = certificate_view X sk (contents w) (o_kind ow) (o_id ow) b"
    and "inline_key_wf ik'" and "slots_ok (contents w') (o_kind ow) (o_id ow) b'"
    and "sealed_opt target (ik_private_key ik')" and "sealed_opt target (ik_certificate ik')"
    and "ik_keyring ik' \<longleftrightarrow> target = StoreKeyring"
proof -
  obtain pp cp where
    pp: "extract_inline_text X be (ik_private_key ik) ow sk InlinePrivate w = Inr pp" and
    cp: "extract_inline_text X be (ik_certificate ik) ow sk InlineCertificate w = Inr cp"
    using run ik by (auto simp: migrate_body_inline_key_def Let_def split: sum.splits)
  note v = extract_inline_is_view[OF wf ik pp cp]
  obtain p where p: "pp = Some p" using v(3) by auto
  note run' = run[unfolded migrate_body_inline_key_def ik option.case key_source.case Let_def pp cp sum.case]
  show thesis
  proof (cases target)
    case StorePlaintext
    note d = delete_inline_slots_frame[of ow w] delete_inline_slots_keeps_None[of w _ ow]
    from run'[unfolded StorePlaintext secret_store.case] have
      r: "f" "b' = b\<lparr>b_key := Some (KeyInline (ik\<lparr>ik_private_key := map_option Plain pp,
            ik_certificate := map_option Plain cp, ik_keyring := False\<rparr>))\<rparr>"
         "w' = delete_inline_slots be ow w" by auto
    show thesis
      by (rule that[OF r(1) r(2)])
         (use v p d StorePlaintext in \<open>auto simp: r inline_key_wf_def\<close>)
  next
    case (StoreVault meta)
    from run'[unfolded StoreVault secret_store.case] obtain ps cs w1 w2 where
      e1: "encrypt_opt X tk pp w = (Inr ps, w1)" and e2: "encrypt_opt X tk cp w1 = (Inr cs, w2)"
      and r: "f" "b' = b\<lparr>b_key := Some (KeyInline (ik\<lparr>ik_private_key := ps,
            ik_certificate := cs, ik_keyring := False\<rparr>))\<rparr>"
         "w' = delete_inline_slots be ow w2" by (auto split: sum.splits prod.splits)
    note o1 = encrypt_opt_ok[OF X e1] and o2 = encrypt_opt_ok[OF X e2]
    note d = delete_inline_slots_frame[of ow w2] delete_inline_slots_keeps_None[of w2 _ ow]
    show thesis
      by (rule that[OF r(1) r(2)])
         (use v p d o1 o2 StoreVault in \<open>auto simp: r inline_key_wf_def\<close>)
  next
    case StoreKeyring
    from run'[unfolded StoreKeyring secret_store.case] obtain u1 u2 w1 where
      e1: "put_slot be ow InlinePrivate pp w = (Inr u1, w1)"
      and e2: "put_slot be ow InlineCertificate cp w1 = (Inr u2, w')"
      and r: "f" "b' = b\<lparr>b_key := Some (KeyInline (ik\<lparr>ik_private_key := None,
            ik_certificate := None, ik_keyring := True\<rparr>))\<rparr>"
      by (auto split: sum.splits prod.splits)
    note o1 = put_slot_contents[OF e1] and o2 = put_slot_contents[OF e2]
    have f: "frame {inline_slot_key ow InlinePrivate, inline_slot_key ow InlineCertificate}
        (contents w) (contents w')"
      using o1(1) o2(1) by (auto simp: frame_def)
    have kp: "contents w' (keyring_key_inline_priv (o_kind ow) (o_id ow)) = pp"
      using o1(2)[OF p] o2(1) p by (auto simp: frame_def)
    have kc: "contents w' (keyring_key_inline_cert (o_kind ow) (o_id ow)) = cp"
    proof (cases cp)
      case None
      have "contents w1 (inline_slot_key ow InlineCertificate) = None"
        using v(4)[OF None] o1(1) by (auto simp: frame_def)
      then show ?thesis using o2(3)[OF None] None by simp
    next
      case (Some c)
      then show ?thesis using o2(2)[OF Some] by simp
    qed
    show thesis
      by (rule that[OF r(1) r(2) f])
         (use v p kp kc StoreKeyring in \<open>auto simp: r inline_key_wf_def\<close>)
  qed
qed

lemma migrate_body_password_none:
  "\<not> b_keyring b \<Longrightarrow> b_password b = None \<Longrightarrow>
   migrate_body_password X be b ow target sk tk w = (Inr False, b, w)"
  by (simp add: migrate_body_password_def extract_plain_def)

lemma migrate_body_inline_none:
  "\<nexists>ik. b_key b = Some (KeyInline ik) \<Longrightarrow>
   migrate_body_inline_key X be b ow target sk tk w = (Inr False, b, w)"
  by (auto simp: migrate_body_inline_key_def split: option.splits key_source.splits)

text \<open>What a successful migration of one body establishes.\<close>

definition migrated ::
  "crates \<Rightarrow> secret_store \<Rightarrow> vault_key option \<Rightarrow> vault_key option \<Rightarrow> owner_kind \<Rightarrow> ulid \<Rightarrow>
   credential_body \<Rightarrow> (string \<rightharpoonup> string) \<Rightarrow> credential_body \<Rightarrow> (string \<rightharpoonup> string) \<Rightarrow> bool" where
  "migrated X target sk tk k u b m b' m' \<longleftrightarrow>
     body_view X tk m' k u b' = body_view X sk m k u b
     \<and> body_sealed target b' \<and> body_wf b' \<and> slots_ok m' k u b'"

lemma migrate_body_ok:
  assumes X: "crates_ok X" and wf: "body_wf b" "slots_ok (contents w) (o_kind ow) (o_id ow) b"
    and run: "migrate_body X be b ow target sk tk w = (Inr f, b', w')"
  shows "frame (owner_slots (o_kind ow) (o_id ow)) (contents w) (contents w')"
    and "migrated X target sk tk (o_kind ow) (o_id ow) b (contents w) b' (contents w')"
    and "f \<longleftrightarrow> carries_secret b"
proof -
  have "frame (owner_slots (o_kind ow) (o_id ow)) (contents w) (contents w')
      \<and> migrated X target sk tk (o_kind ow) (o_id ow) b (contents w) b' (contents w')
      \<and> (f \<longleftrightarrow> carries_secret b)"
  proof (cases "\<exists>ik. b_key b = Some (KeyInline ik)")
    case True
    then obtain ik where ik: "b_key b = Some (KeyInline ik)" by auto
    have no: "\<not> b_keyring b" "b_password b = None" using wf(1) ik by (auto simp: body_wf_def)
    have run': "migrate_body_inline_key X be b ow target sk tk w = (Inr f, b', w')"
      using run migrate_body_password_none[OF no, of X ow target sk tk w]
      by (auto simp: migrate_body_def split: sum.splits prod.splits)
    from migrate_inline_ok[OF X wf ik run'] show ?thesis
    proof cases
      case (1 ik')
      have "frame (owner_slots (o_kind ow) (o_id ow)) (contents w) (contents w')"
        by (rule frame_mono[OF 1(3)]) (auto simp: owner_slots_def)
      then show ?thesis
        using 1 ik no
        by (auto simp: migrated_def body_view_def password_view_def key_path_of_def body_sealed_def
            body_wf_def carries_secret_def opt_encrypted_def intro: secret_store.exhaust[of target])
    qed
  next
    case False
    from run obtain f1 b1 w1 f2 where
      r1: "migrate_body_password X be b ow target sk tk w = (Inr f1, b1, w1)" and
      r2: "migrate_body_inline_key X be b1 ow target sk tk w1 = (Inr f2, b', w')" and f: "f = (f1 \<or> f2)"
      by (auto simp: migrate_body_def split: sum.splits prod.splits)
    note p = migrate_password_ok[OF X r1]
    have r: "f2 = False" "b' = b1" "w' = w1"
      using r2 migrate_body_inline_none[of b1 X ow target sk tk w1] False p(4) by auto
    have "frame (owner_slots (o_kind ow) (o_id ow)) (contents w) (contents w')"
      using frame_mono[OF p(1)] r by (auto simp: owner_slots_def)
    moreover have "body_view X tk (contents w') (o_kind ow) (o_id ow) b'
        = body_view X sk (contents w) (o_kind ow) (o_id ow) b"
      using p r False by (auto simp: body_view_def private_view_def certificate_view_def
          key_path_of_def split: option.splits key_source.splits)
    moreover have "body_sealed target b'" "body_wf b'" "slots_ok (contents w') (o_kind ow) (o_id ow) b'"
      using p r False wf(1)
      by (auto simp: body_sealed_def body_wf_def slots_ok_def split: option.splits key_source.splits)
    moreover have "f \<longleftrightarrow> carries_secret b"
      using p f r False by (auto simp: carries_secret_def split: option.splits key_source.splits)
    ultimately show ?thesis by (simp add: migrated_def)
  qed
  then show "frame (owner_slots (o_kind ow) (o_id ow)) (contents w) (contents w')"
    and "migrated X target sk tk (o_kind ow) (o_id ow) b (contents w) b' (contents w')"
    and "f \<longleftrightarrow> carries_secret b" by auto
qed

end

section \<open>From one element to the list\<close>

text \<open>A loop whose steps each touch only the slots of their own element, on a list of elements with
disjoint slots: the post-condition of every step holds of the whole run.\<close>

lemma for_each_mut_rule:
  fixes c :: "'w \<Rightarrow> string \<rightharpoonup> string"
  assumes step: "\<And>x w n x' w'. x \<in> set xs \<Longrightarrow> pre x (c w) \<Longrightarrow> step x w = (Inr n, x', w') \<Longrightarrow>
        frame (own x) (c w) (c w') \<and> post x (c w) x' (c w') \<and> n = cnt x"
    and pre_local: "\<And>x m m'. (\<And>k. k \<in> own x \<Longrightarrow> m' k = m k) \<Longrightarrow> pre x m' = pre x m"
    and post_local: "\<And>x x' m n m' n'. (\<And>k. k \<in> own x \<Longrightarrow> n k = m k) \<Longrightarrow> (\<And>k. k \<in> own x \<Longrightarrow> n' k = m' k) \<Longrightarrow>
        post x m x' m' \<Longrightarrow> post x n x' n'"
    and disj: "sorted_wrt (\<lambda>x y. own x \<inter> own y = {}) xs"
    and pre: "\<And>x. x \<in> set xs \<Longrightarrow> pre x (c w)"
    and run: "for_each_mut step xs w = (Inr n, xs', w')"
  shows "frame (\<Union>x\<in>set xs. own x) (c w) (c w') \<and> list_all2 (\<lambda>x x'. post x (c w) x' (c w')) xs xs'
         \<and> n = sum_list (map cnt xs)"
  using step disj pre run
proof (induction xs arbitrary: w n xs')
  case (Cons x xs)
  from Cons.prems(4) obtain n1 x1 w1 n2 xs1 where
    r: "step x w = (Inr n1, x1, w1)" "for_each_mut step xs w1 = (Inr n2, xs1, w')"
       "n = n1 + n2" "xs' = x1 # xs1"
    by (auto split: sum.splits prod.splits)
  have s: "frame (own x) (c w) (c w1)" "post x (c w) x1 (c w1)" "n1 = cnt x"
    using Cons.prems(1)[of x w n1 x1 w1] Cons.prems(3)[of x] r(1) by auto
  have dj: "\<And>y. y \<in> set xs \<Longrightarrow> own x \<inter> own y = {}" using Cons.prems(2) by auto
  have sameown: "\<And>y k. y \<in> set xs \<Longrightarrow> k \<in> own y \<Longrightarrow> c w1 k = c w k"
    using s(1) dj by (auto simp: frame_def)
  have "frame (\<Union>x\<in>set xs. own x) (c w1) (c w') \<and> list_all2 (\<lambda>x x'. post x (c w1) x' (c w')) xs xs1
         \<and> n2 = sum_list (map cnt xs)"
  proof (rule Cons.IH)
    show "pre y (c w1)" if "y \<in> set xs" for y
      using pre_local[of y "c w1" "c w"] Cons.prems(3)[of y] sameown[OF that] that by auto
  qed (use Cons.prems r in auto)
  then have ih: "frame (\<Union>x\<in>set xs. own x) (c w1) (c w')"
    "list_all2 (\<lambda>x x'. post x (c w1) x' (c w')) xs xs1" "n2 = sum_list (map cnt xs)" by auto
  have head: "post x (c w) x1 (c w')"
  proof (rule post_local[OF _ _ s(2)])
    show "c w' k = c w1 k" if "k \<in> own x" for k
      using ih(1) dj that by (auto simp: frame_def)
  qed simp
  have tail: "list_all2 (\<lambda>x x'. post x (c w) x' (c w')) xs xs1"
    unfolding list_all2_conv_all_nth
  proof (intro conjI allI impI)
    show "length xs = length xs1" using ih(2) by (rule list_all2_lengthD)
    fix i assume i: "i < length xs"
    show "post (xs ! i) (c w) (xs1 ! i) (c w')"
    proof (rule post_local[rotated 2])
      show "post (xs ! i) (c w1) (xs1 ! i) (c w')" using ih(2) i by (rule list_all2_nthD)
    qed (use sameown[OF nth_mem[OF i]] in auto)
  qed
  show ?case
    using s(1,3) ih head tail r by (auto simp: frame_def)
qed simp

end
