(* ===== verification/Vault_Migrate.thy ===== *)
theory Vault_Migrate
  imports Vault_Facts
begin

text \<open>The mode switch on a whole configuration: the plain-text view of a configuration is the
specification that \<^verbatim>\<open>migrate\<close> refines, for any lawful backend, from any mixture of source
representations into any target mode; with a backend and a cipher that do not fail it also
succeeds.\<close>

section \<open>The view of a configuration\<close>

definition credential_view ::
  "crates \<Rightarrow> vault_key option \<Rightarrow> (string \<rightharpoonup> string) \<Rightarrow> credential \<Rightarrow> ulid \<times> string \<times> plain_view" where
  "credential_view X key m c = (c_id c, c_name c, body_view X key m OwnerCredential (c_id c) (c_body c))"

definition host_view ::
  "crates \<Rightarrow> vault_key option \<Rightarrow> (string \<rightharpoonup> string) \<Rightarrow> host
     \<Rightarrow> (ulid \<times> string \<times> string \<times> 16 word \<times> string option) \<times> (ulid + plain_view)" where
  "host_view X key m h =
     ((h_id h, h_name h, h_host h, h_port h, h_ssh_args h),
      case h_auth h of AuthRef u \<Rightarrow> Inl u | AuthInline b \<Rightarrow> Inr (body_view X key m OwnerHost (h_id h) b))"

definition config_view where
  "config_view X key m cfg =
     (map (host_view X key m) (hosts cfg), map (credential_view X key m) (credentials cfg))"

definition config_sealed :: "secret_store \<Rightarrow> sshrack_config \<Rightarrow> bool" where
  "config_sealed target cfg \<longleftrightarrow> list_all (body_sealed target) (secret_bodies cfg)"

definition slots_in_step :: "(string \<rightharpoonup> string) \<Rightarrow> sshrack_config \<Rightarrow> bool" where
  "slots_in_step m cfg \<longleftrightarrow>
     list_all (\<lambda>c. slots_ok m OwnerCredential (c_id c) (c_body c)) (credentials cfg)
     \<and> list_all (\<lambda>h. case h_auth h of AuthRef _ \<Rightarrow> True | AuthInline b \<Rightarrow> slots_ok m OwnerHost (h_id h) b)
         (hosts cfg)"

definition credential_slots :: "credential \<Rightarrow> string set" where
  "credential_slots c = owner_slots OwnerCredential (c_id c)"

definition host_slots :: "host \<Rightarrow> string set" where
  "host_slots h = owner_slots OwnerHost (h_id h)"

lemma set_secret_bodies:
  "set (secret_bodies cfg) = c_body ` set (credentials cfg) \<union> {b. \<exists>h\<in>set (hosts cfg). h_auth h = AuthInline b}"
proof -
  have "set (List.map_filter (\<lambda>h. inline_body (h_auth h)) hs) = {b. \<exists>h\<in>set hs. h_auth h = AuthInline b}" for hs
  proof (induction hs)
    case (Cons h hs)
    then show ?case by (cases "h_auth h") (auto simp: List.map_filter_def)
  qed (simp add: List.map_filter_def)
  from this[of "hosts cfg"] show ?thesis by (auto simp: secret_bodies_def)
qed

lemma disjoint_slots_list:
  assumes "distinct (map f xs)" "\<And>x. x \<in> set xs \<Longrightarrow> ulid_ok (f x)"
  shows "sorted_wrt (\<lambda>x y. owner_slots k (f x) \<inter> owner_slots k (f y) = {}) xs"
  using assms
proof (induction xs)
  case (Cons x xs)
  have "owner_slots k (f x) \<inter> owner_slots k (f y) = {}" if "y \<in> set xs" for y
    by (rule owner_slots_disjoint) (use Cons.prems that in auto)
  then show ?case using Cons by simp
qed simp

section \<open>One step of each loop\<close>

definition credential_pre :: "credential \<Rightarrow> (string \<rightharpoonup> string) \<Rightarrow> bool" where
  "credential_pre c m \<longleftrightarrow> credential_wf c \<and> slots_ok m OwnerCredential (c_id c) (c_body c)"

definition credential_post where
  "credential_post X target sk tk c m c' m' \<longleftrightarrow>
     credential_view X tk m' c' = credential_view X sk m c \<and> credential_pre c' m' \<and> body_sealed target (c_body c')"

definition host_pre :: "host \<Rightarrow> (string \<rightharpoonup> string) \<Rightarrow> bool" where
  "host_pre h m \<longleftrightarrow>
     host_wf h \<and> (\<forall>b. h_auth h = AuthInline b \<longrightarrow> slots_ok m OwnerHost (h_id h) b)"

definition host_post where
  "host_post X target sk tk h m h' m' \<longleftrightarrow>
     host_view X tk m' h' = host_view X sk m h \<and> host_pre h' m'
     \<and> (\<forall>b. h_auth h' = AuthInline b \<longrightarrow> body_sealed target b)"

definition host_secrets :: "host \<Rightarrow> nat" where
  "host_secrets h = (case h_auth h of AuthInline b \<Rightarrow> of_bool (carries_secret b) | AuthRef _ \<Rightarrow> 0)"

lemma credential_pre_local:
  "(\<And>k. k \<in> credential_slots c \<Longrightarrow> m' k = m k) \<Longrightarrow> credential_pre c m' = credential_pre c m"
  using slots_ok_local[of OwnerCredential "c_id c" m' m]
  by (auto simp: credential_pre_def credential_slots_def)

lemma credential_post_local:
  assumes "\<And>k. k \<in> credential_slots c \<Longrightarrow> n k = m k" "\<And>k. k \<in> credential_slots c \<Longrightarrow> n' k = m' k"
    and "credential_post X target sk tk c m c' m'"
  shows "credential_post X target sk tk c n c' n'"
proof -
  have i: "c_id c' = c_id c" using assms(3) by (auto simp: credential_post_def credential_view_def)
  have "credential_view X sk n c = credential_view X sk m c"
    using body_view_local[of OwnerCredential "c_id c" n m] assms(1)
    by (simp add: credential_view_def credential_slots_def)
  moreover have "credential_view X tk n' c' = credential_view X tk m' c'"
    using body_view_local[of OwnerCredential "c_id c" n' m'] assms(2) i
    by (simp add: credential_view_def credential_slots_def)
  moreover have "credential_pre c' n' = credential_pre c' m'"
    by (rule credential_pre_local) (use assms(2) i in \<open>simp add: credential_slots_def\<close>)
  ultimately show ?thesis using assms(3) by (simp add: credential_post_def)
qed

lemma host_pre_local:
  "(\<And>k. k \<in> host_slots h \<Longrightarrow> m' k = m k) \<Longrightarrow> host_pre h m' = host_pre h m"
  using slots_ok_local[of OwnerHost "h_id h" m' m]
  by (auto simp: host_pre_def host_slots_def)

lemma host_view_local:
  "(\<And>k. k \<in> host_slots h \<Longrightarrow> m' k = m k) \<Longrightarrow> host_view X key m' h = host_view X key m h"
  using body_view_local[of OwnerHost "h_id h" m' m]
  by (auto simp: host_view_def host_slots_def split: auth.splits)

lemma host_post_local:
  assumes "\<And>k. k \<in> host_slots h \<Longrightarrow> n k = m k" "\<And>k. k \<in> host_slots h \<Longrightarrow> n' k = m' k"
    and "host_post X target sk tk h m h' m'"
  shows "host_post X target sk tk h n h' n'"
proof -
  have i: "host_slots h' = host_slots h"
    using assms(3) by (auto simp: host_post_def host_view_def host_slots_def)
  show ?thesis
    using assms(3) host_view_local[of h n m] host_view_local[of h' n' m'] host_pre_local[of h' n' m']
      assms(1,2) unfolding i by (auto simp: host_post_def)
qed

context secret_backend
begin

lemma migrate_credential_step_ok:
  assumes X: "crates_ok X" and pre: "credential_pre c (contents w)"
    and run: "migrate_credential_step X be target sk tk c w = (Inr n, c', w')"
  shows "frame (credential_slots c) (contents w) (contents w')
    \<and> credential_post X target sk tk c (contents w) c' (contents w')
    \<and> n = of_bool (carries_secret (c_body c))"
proof -
  let ?ow = "owner_credential (c_id c) (c_name c)"
  have ow: "o_kind ?ow = OwnerCredential" "o_id ?ow = c_id c" by (simp_all add: owner_credential_def)
  obtain rr b' w1 where rr: "migrate_body X be (c_body c) ?ow target sk tk w = (rr, b', w1)"
    by (metis prod_cases3)
  with run obtain f where r: "migrate_body X be (c_body c) ?ow target sk tk w = (Inr f, b', w')"
    and c': "c' = c\<lparr>c_body := b'\<rparr>" "n = of_bool f"
    by (cases rr) (auto simp: migrate_credential_step_def)
  have "body_wf (c_body c)" "slots_ok (contents w) (o_kind ?ow) (o_id ?ow) (c_body c)"
    using pre ow by (auto simp: credential_pre_def credential_wf_def)
  note m = migrate_body_ok[OF X this r]
  show ?thesis
    using m c' pre unfolding ow
    by (auto simp: migrated_def credential_slots_def credential_post_def credential_view_def
        credential_pre_def credential_wf_def)
qed

lemma migrate_host_step_ok:
  assumes X: "crates_ok X" and pre: "host_pre h (contents w)"
    and run: "migrate_host_step X be target sk tk h w = (Inr n, h', w')"
  shows "frame (host_slots h) (contents w) (contents w')
    \<and> host_post X target sk tk h (contents w) h' (contents w') \<and> n = host_secrets h"
proof (cases "h_auth h")
  case (AuthRef u)
  then show ?thesis
    using run pre by (auto simp: migrate_host_step_def host_post_def host_view_def host_secrets_def)
next
  case (AuthInline b)
  let ?ow = "owner_host (h_id h) (h_name h)"
  have ow: "o_kind ?ow = OwnerHost" "o_id ?ow = h_id h" by (simp_all add: owner_host_def)
  obtain rr b' w1 where rr: "migrate_body X be b ?ow target sk tk w = (rr, b', w1)"
    by (metis prod_cases3)
  with run AuthInline obtain f where r: "migrate_body X be b ?ow target sk tk w = (Inr f, b', w')"
    and h': "h' = h\<lparr>h_auth := AuthInline b'\<rparr>" "n = of_bool f"
    by (cases rr) (auto simp: migrate_host_step_def)
  have "body_wf b" "slots_ok (contents w) (o_kind ?ow) (o_id ?ow) b"
    using pre ow AuthInline by (auto simp: host_pre_def host_wf_def)
  note m = migrate_body_ok[OF X this r]
  show ?thesis
    using m h' pre AuthInline unfolding ow
    by (auto simp: migrated_def host_slots_def host_post_def host_view_def host_pre_def host_wf_def
        host_secrets_def)
qed

lemma credential_loop_ok:
  assumes X: "crates_ok X"
    and cs: "distinct (map c_id cs)" "\<And>c. c \<in> set cs \<Longrightarrow> credential_pre c (contents w)"
    and run: "for_each_mut (migrate_credential_step X be target sk tk) cs w = (Inr n, cs', w')"
  shows "frame (\<Union>c\<in>set cs. credential_slots c) (contents w) (contents w')
    \<and> list_all2 (\<lambda>c c'. credential_post X target sk tk c (contents w) c' (contents w')) cs cs'
    \<and> n = sum_list (map (\<lambda>c. of_bool (carries_secret (c_body c))) cs)"
proof (rule for_each_mut_rule[where pre = credential_pre, OF _ _ _ _ _ run])
  show "sorted_wrt (\<lambda>x y. credential_slots x \<inter> credential_slots y = {}) cs"
    unfolding credential_slots_def
    by (rule disjoint_slots_list[OF cs(1)]) (use cs(2) in \<open>auto simp: credential_pre_def credential_wf_def\<close>)
next
  fix c and m m' :: "string \<rightharpoonup> string"
  assume "\<And>k. k \<in> credential_slots c \<Longrightarrow> m' k = m k"
  then show "credential_pre c m' = credential_pre c m" by (rule credential_pre_local)
next
  fix c c' and m n m' n' :: "string \<rightharpoonup> string"
  assume "\<And>k. k \<in> credential_slots c \<Longrightarrow> n k = m k" "\<And>k. k \<in> credential_slots c \<Longrightarrow> n' k = m' k"
    and "credential_post X target sk tk c m c' m'"
  then show "credential_post X target sk tk c n c' n'" by (rule credential_post_local)
qed (use cs(2) migrate_credential_step_ok[OF X] in blast)+

lemma host_loop_ok:
  assumes X: "crates_ok X"
    and hs: "distinct (map h_id hs)" "\<And>h. h \<in> set hs \<Longrightarrow> host_pre h (contents w)"
    and run: "for_each_mut (migrate_host_step X be target sk tk) hs w = (Inr n, hs', w')"
  shows "frame (\<Union>h\<in>set hs. host_slots h) (contents w) (contents w')
    \<and> list_all2 (\<lambda>h h'. host_post X target sk tk h (contents w) h' (contents w')) hs hs'
    \<and> n = sum_list (map host_secrets hs)"
proof (rule for_each_mut_rule[where pre = host_pre, OF _ _ _ _ _ run])
  show "sorted_wrt (\<lambda>x y. host_slots x \<inter> host_slots y = {}) hs"
    unfolding host_slots_def
    by (rule disjoint_slots_list[OF hs(1)]) (use hs(2) in \<open>auto simp: host_pre_def host_wf_def\<close>)
next
  fix h and m m' :: "string \<rightharpoonup> string"
  assume "\<And>k. k \<in> host_slots h \<Longrightarrow> m' k = m k"
  then show "host_pre h m' = host_pre h m" by (rule host_pre_local)
next
  fix h h' and m n m' n' :: "string \<rightharpoonup> string"
  assume "\<And>k. k \<in> host_slots h \<Longrightarrow> n k = m k" "\<And>k. k \<in> host_slots h \<Longrightarrow> n' k = m' k"
    and "host_post X target sk tk h m h' m'"
  then show "host_post X target sk tk h n h' n'" by (rule host_post_local)
qed (use hs(2) migrate_host_step_ok[OF X] in blast)+

text \<open>The mode switch on a configuration: same plain view, everything sealed for the target, the
invariants kept, and the number of bodies that carried a secret returned.\<close>

lemma migrate_ok:
  assumes X: "crates_ok X" and cfg: "config_wf cfg" "slots_in_step (contents w) cfg"
    and run: "migrate X be target sk tk cfg w = (Inr n, cfg', w')"
  shows "config_view X tk (contents w') cfg' = config_view X sk (contents w) cfg"
    and "config_sealed target cfg'"
    and "config_wf cfg'" and "slots_in_step (contents w') cfg'"
    and "n = sum_list (map (\<lambda>c. of_bool (carries_secret (c_body c))) (credentials cfg))
           + sum_list (map host_secrets (hosts cfg))"
    and "store cfg' = store cfg"
proof -
  obtain n1 cs w1 n2 hs where
    r1: "for_each_mut (migrate_credential_step X be target sk tk) (credentials cfg) w = (Inr n1, cs, w1)" and
    r2: "for_each_mut (migrate_host_step X be target sk tk) (hosts cfg) w1 = (Inr n2, hs, w')" and
    cfg': "cfg' = cfg\<lparr>credentials := cs, hosts := hs\<rparr>" and n: "n = n1 + n2"
    using run by (auto simp: migrate_def split: sum.splits prod.splits)
  have cpre: "credential_pre c (contents w)" if "c \<in> set (credentials cfg)" for c
    using cfg that by (auto simp: credential_pre_def slots_in_step_def list_all_iff dest: config_wfD)
  have c: "frame (\<Union>c\<in>set (credentials cfg). credential_slots c) (contents w) (contents w1)
    \<and> list_all2 (\<lambda>c c'. credential_post X target sk tk c (contents w) c' (contents w1)) (credentials cfg) cs
    \<and> n1 = sum_list (map (\<lambda>c. of_bool (carries_secret (c_body c))) (credentials cfg))"
    by (rule credential_loop_ok[OF X config_wfD(4)[OF cfg(1)] cpre r1])
  have id_ok: "ulid_ok (c_id c)" if "c \<in> set (credentials cfg)" for c
    using cpre[OF that] by (auto simp: credential_pre_def credential_wf_def)
  have hid_ok: "ulid_ok (h_id h)" if "h \<in> set (hosts cfg)" for h
    using config_wfD(3)[OF cfg(1) that] by (auto simp: host_wf_def)
  have hkeep: "contents w1 k = contents w k" if "h \<in> set (hosts cfg)" "k \<in> host_slots h" for h k
  proof -
    have "k \<notin> (\<Union>c\<in>set (credentials cfg). credential_slots c)"
      using owner_slots_disjoint[OF hid_ok[OF that(1)] id_ok, of _ OwnerHost OwnerCredential] that(2)
      by (fastforce simp: host_slots_def credential_slots_def)
    then show ?thesis using c by (auto simp: frame_def)
  qed
  have hpre: "host_pre h (contents w1)" if "h \<in> set (hosts cfg)" for h
    using config_wfD(3)[OF cfg(1) that] cfg(2) that
      slots_ok_local[of OwnerHost "h_id h" "contents w1" "contents w"] hkeep[OF that]
    by (auto simp: host_pre_def slots_in_step_def list_all_iff host_slots_def split: auth.splits)
  have h: "frame (\<Union>h\<in>set (hosts cfg). host_slots h) (contents w1) (contents w')
    \<and> list_all2 (\<lambda>h h'. host_post X target sk tk h (contents w1) h' (contents w')) (hosts cfg) hs
    \<and> n2 = sum_list (map host_secrets (hosts cfg))"
    by (rule host_loop_ok[OF X config_wfD(1)[OF cfg(1)] hpre r2])
  have ckeep: "contents w' k = contents w1 k" if "c \<in> set (credentials cfg)" "k \<in> credential_slots c" for c k
  proof -
    have "k \<notin> (\<Union>h\<in>set (hosts cfg). host_slots h)"
      using owner_slots_disjoint[OF id_ok[OF that(1)] hid_ok, of _ OwnerCredential OwnerHost] that(2)
      by (fastforce simp: host_slots_def credential_slots_def)
    then show ?thesis using h by (auto simp: frame_def)
  qed
  have cp: "list_all2 (\<lambda>c c'. credential_post X target sk tk c (contents w) c' (contents w')) (credentials cfg) cs"
    using c[THEN conjunct2, THEN conjunct1]
    by (rule list.rel_mono_strong) (erule credential_post_local[rotated 2]; simp add: ckeep)
  have hp: "list_all2 (\<lambda>h h'. host_post X target sk tk h (contents w) h' (contents w')) (hosts cfg) hs"
    using h[THEN conjunct2, THEN conjunct1]
    by (rule list.rel_mono_strong) (erule host_post_local[rotated 2]; simp add: hkeep)
  have cv: "map (credential_view X tk (contents w')) cs = map (credential_view X sk (contents w)) (credentials cfg)"
    using cp by (rule list_all2_map_eq) (simp add: credential_post_def)
  have hv: "map (host_view X tk (contents w')) hs = map (host_view X sk (contents w)) (hosts cfg)"
    using hp by (rule list_all2_map_eq) (simp add: host_post_def)
  show "config_view X tk (contents w') cfg' = config_view X sk (contents w) cfg"
    by (simp add: config_view_def cfg' cv hv)
  have co: "list_all (\<lambda>c'. credential_pre c' (contents w') \<and> body_sealed target (c_body c')) cs"
    using cp by (rule list_all2_all) (auto simp: credential_post_def)
  have ho: "list_all (\<lambda>h'. host_pre h' (contents w')
      \<and> (\<forall>b. h_auth h' = AuthInline b \<longrightarrow> body_sealed target b)) hs"
    using hp by (rule list_all2_all) (auto simp: host_post_def)
  show "config_sealed target cfg'"
    using co ho by (auto simp: config_sealed_def list_all_iff set_secret_bodies cfg')
  have names: "map c_id cs = map c_id (credentials cfg)" "map c_name cs = map c_name (credentials cfg)"
    "map h_id hs = map h_id (hosts cfg)" "map h_name hs = map h_name (hosts cfg)"
    by (rule list_all2_map_eq[OF cp], simp add: credential_post_def credential_view_def)
       (rule list_all2_map_eq[OF cp] list_all2_map_eq[OF hp],
        simp add: credential_post_def credential_view_def host_post_def host_view_def)+
  show "config_wf cfg'"
    using cfg(1) co ho by (auto simp: config_wf_def cfg' names list_all_iff credential_pre_def host_pre_def)
  show "slots_in_step (contents w') cfg'"
    using co ho by (auto simp: slots_in_step_def cfg' list_all_iff credential_pre_def host_pre_def
        split: auth.splits)
  show "n = sum_list (map (\<lambda>c. of_bool (carries_secret (c_body c))) (credentials cfg))
           + sum_list (map host_secrets (hosts cfg))"
    using c h n by simp
  show "store cfg' = store cfg" by (simp add: cfg')
qed

end

section \<open>When a migration cannot fail\<close>

text \<open>A cipher and a random source that never fail.\<close>

definition cipher_total :: "crates \<Rightarrow> bool" where
  "cipher_total X \<longleftrightarrow> (\<forall>i n. x_getrandom X i n \<noteq> None) \<and> (\<forall>k n p. x_aead_encrypt X k n p \<noteq> None)"

definition opt_readable :: "crates \<Rightarrow> vault_key option \<Rightarrow> secret option \<Rightarrow> bool" where
  "opt_readable X sk s \<longleftrightarrow> s = None \<or> Option.bind s (secret_text X sk) \<noteq> None"

text \<open>Every secret of the body can be read: a marked password is in its slot, an encrypted text
decrypts under the source key.\<close>

definition body_readable ::
  "crates \<Rightarrow> vault_key option \<Rightarrow> (string \<rightharpoonup> string) \<Rightarrow> owner_kind \<Rightarrow> ulid \<Rightarrow> credential_body \<Rightarrow> bool" where
  "body_readable X sk m k u b \<longleftrightarrow>
     (b_keyring b \<longrightarrow> m (keyring_key k u) \<noteq> None) \<and> opt_readable X sk (b_password b)
     \<and> (\<forall>ik. b_key b = Some (KeyInline ik) \<longrightarrow>
           opt_readable X sk (ik_private_key ik) \<and> opt_readable X sk (ik_certificate ik))"

definition config_readable :: "crates \<Rightarrow> vault_key option \<Rightarrow> (string \<rightharpoonup> string) \<Rightarrow> sshrack_config \<Rightarrow> bool" where
  "config_readable X sk m cfg \<longleftrightarrow>
     list_all (\<lambda>c. body_readable X sk m OwnerCredential (c_id c) (c_body c)) (credentials cfg)
     \<and> list_all (\<lambda>h. \<forall>b. h_auth h = AuthInline b \<longrightarrow> body_readable X sk m OwnerHost (h_id h) b) (hosts cfg)"

definition target_key_ok :: "secret_store \<Rightarrow> vault_key option \<Rightarrow> bool" where
  "target_key_ok target tk \<longleftrightarrow> (case target of StoreVault _ \<Rightarrow> tk \<noteq> None | _ \<Rightarrow> True)"

lemma encrypt_w_total:
  assumes "cipher_total X"
  shows "\<exists>es w'. encrypt_w X p k w = (Inr es, w')"
proof -
  have "x_getrandom X (w_draws w) 24 \<noteq> None" using assms unfolding cipher_total_def by blast
  then obtain nb where "x_getrandom X (w_draws w) 24 = Some nb" by blast
  moreover have "x_aead_encrypt X k nb (utf8 p) \<noteq> None" using assms unfolding cipher_total_def by blast
  then obtain ct where "x_aead_encrypt X k nb (utf8 p) = Some ct" by blast
  ultimately show ?thesis by (simp add: encrypt_w_def encrypt_def)
qed

lemma encrypt_opt_total:
  assumes "cipher_total X" "tk \<noteq> None"
  shows "\<exists>s w'. encrypt_opt X tk t w = (Inr s, w')"
proof (cases t)
  case (Some p)
  obtain k where k: "tk = Some k" using assms by auto
  obtain es w' where "encrypt_w X p k w = (Inr es, w')" using encrypt_w_total[OF assms(1)] by blast
  then show ?thesis by (simp add: encrypt_opt_def Some k)
qed (simp add: encrypt_opt_def)

lemma for_each_mut_total:
  fixes c :: "'w \<Rightarrow> string \<rightharpoonup> string"
  assumes step: "\<And>x w. x \<in> set xs \<Longrightarrow> pre x (c w) \<Longrightarrow>
        \<exists>n x' w'. step x w = (Inr n, x', w') \<and> frame (own x) (c w) (c w')"
    and pre_local: "\<And>x m m'. (\<And>k. k \<in> own x \<Longrightarrow> m' k = m k) \<Longrightarrow> pre x m \<Longrightarrow> pre x m'"
    and disj: "sorted_wrt (\<lambda>x y. own x \<inter> own y = {}) xs"
    and pre: "\<And>x. x \<in> set xs \<Longrightarrow> pre x (c w)"
  shows "\<exists>n xs' w'. for_each_mut step xs w = (Inr n, xs', w') \<and> frame (\<Union>x\<in>set xs. own x) (c w) (c w')"
  using step disj pre
proof (induction xs arbitrary: w)
  case (Cons x xs)
  obtain n x' w1 where s: "step x w = (Inr n, x', w1)" "frame (own x) (c w) (c w1)"
    using Cons.prems(1)[of x w] Cons.prems(3)[of x] by auto
  have "\<exists>n xs' w'. for_each_mut step xs w1 = (Inr n, xs', w') \<and> frame (\<Union>x\<in>set xs. own x) (c w1) (c w')"
  proof (rule Cons.IH)
    fix y assume y: "y \<in> set xs"
    have "own x \<inter> own y = {}" using Cons.prems(2) y by auto
    then have "\<And>k. k \<in> own y \<Longrightarrow> c w1 k = c w k" using s(2) by (auto simp: frame_def)
    then show "pre y (c w1)" using Cons.prems(3)[of y] y by (intro pre_local[of y "c w1" "c w"]) auto
  qed (use Cons.prems in auto)
  then show ?case using s by (fastforce simp: frame_def)
qed simp

definition credential_ready where
  "credential_ready X sk c m \<longleftrightarrow> credential_pre c m \<and> body_readable X sk m OwnerCredential (c_id c) (c_body c)"

definition host_ready where
  "host_ready X sk h m \<longleftrightarrow>
     host_pre h m \<and> (\<forall>b. h_auth h = AuthInline b \<longrightarrow> body_readable X sk m OwnerHost (h_id h) b)"

lemma body_readable_local:
  "(\<And>key. key \<in> owner_slots k u \<Longrightarrow> m' key = m key) \<Longrightarrow> body_readable X sk m' k u b = body_readable X sk m k u b"
  by (simp add: body_readable_def owner_slots_def)

lemma credential_ready_local:
  assumes "\<And>k. k \<in> credential_slots c \<Longrightarrow> m' k = m k" "credential_ready X sk c m"
  shows "credential_ready X sk c m'"
  using assms credential_pre_local[of c m' m] body_readable_local[of OwnerCredential "c_id c" m' m]
  by (simp add: credential_ready_def credential_slots_def)

lemma host_ready_local:
  assumes "\<And>k. k \<in> host_slots h \<Longrightarrow> m' k = m k" "host_ready X sk h m"
  shows "host_ready X sk h m'"
  using assms host_pre_local[of h m' m] body_readable_local[of OwnerHost "h_id h" m' m]
  by (auto simp: host_ready_def host_slots_def)

context reliable_backend
begin

lemma set_at_w_total: "\<exists>w'. set_at_w be key v w = (Inr (), w')"
  using set_total[of key v "w_backend w"] by (auto simp: set_at_w_def)

lemma put_slot_total: "\<exists>w'. put_slot be ow slot t w = (Inr (), w')"
  using set_at_w_total by (cases t) (auto simp: put_slot_def)

lemma extract_plain_total:
  assumes "body_readable X sk (contents w) (o_kind ow) (o_id ow) b"
  shows "\<exists>r. extract_plain X be b ow sk w = Inr r"
  using assms get_total[of "keyring_key (o_kind ow) (o_id ow)" "w_backend w"]
  by (auto simp: extract_plain_def body_readable_def opt_readable_def contents_def bind_eq_Some_conv
      split: option.splits secret.splits)

lemma extract_inline_total:
  assumes "opt_readable X sk s"
  shows "\<exists>r. extract_inline_text X be s ow sk slot w = Inr r"
  using assms get_total
  by (auto simp: extract_inline_text_def opt_readable_def bind_eq_Some_conv
      split: option.splits secret.splits)

lemma migrate_password_total:
  assumes "cipher_total X" "target_key_ok target tk"
    and "body_readable X sk (contents w) (o_kind ow) (o_id ow) b"
  shows "\<exists>f b' w'. migrate_body_password X be b ow target sk tk w = (Inr f, b', w')"
proof -
  obtain r where r: "extract_plain X be b ow sk w = Inr r" using extract_plain_total[OF assms(3)] by blast
  show ?thesis
  proof (cases r)
    case (Some plain)
    show ?thesis
    proof (cases target)
      case (StoreVault meta)
      then obtain k where k: "tk = Some k" using assms(2) by (auto simp: target_key_ok_def)
      obtain es w1 where "encrypt_w X plain k w = (Inr es, w1)" using encrypt_w_total[OF assms(1)] by blast
      then show ?thesis by (auto simp: migrate_body_password_def r Some StoreVault k)
    next
      case StoreKeyring
      obtain w1 where "set_at_w be (keyring_key (o_kind ow) (o_id ow)) plain w = (Inr (), w1)"
        using set_at_w_total by blast
      then show ?thesis by (auto simp: migrate_body_password_def r Some StoreKeyring)
    qed (auto simp: migrate_body_password_def r Some)
  qed (auto simp: migrate_body_password_def r)
qed

lemma migrate_inline_total:
  assumes X: "cipher_total X" "target_key_ok target tk"
    and rd: "body_readable X sk m (o_kind ow) (o_id ow) b"
  shows "\<exists>f b' w'. migrate_body_inline_key X be b ow target sk tk w = (Inr f, b', w')"
proof (cases "\<exists>ik. b_key b = Some (KeyInline ik)")
  case True
  then obtain ik where ik: "b_key b = Some (KeyInline ik)" by auto
  have rr: "opt_readable X sk (ik_private_key ik)" "opt_readable X sk (ik_certificate ik)"
    using rd ik by (auto simp: body_readable_def)
  obtain pp where e1: "extract_inline_text X be (ik_private_key ik) ow sk InlinePrivate w = Inr pp"
    using extract_inline_total[OF rr(1)] by blast
  obtain cp where e2: "extract_inline_text X be (ik_certificate ik) ow sk InlineCertificate w = Inr cp"
    using extract_inline_total[OF rr(2)] by blast
  note e = e1 e2
  show ?thesis
  proof (cases target)
    case (StoreVault meta)
    have tk: "tk \<noteq> None" using X(2) StoreVault by (auto simp: target_key_ok_def)
    obtain ps w1 where 1: "encrypt_opt X tk pp w = (Inr ps, w1)" using encrypt_opt_total[OF X(1) tk] by blast
    obtain cs w2 where 2: "encrypt_opt X tk cp w1 = (Inr cs, w2)" using encrypt_opt_total[OF X(1) tk] by blast
    show ?thesis by (auto simp: migrate_body_inline_key_def ik e StoreVault 1 2)
  next
    case StoreKeyring
    obtain w1 where 1: "put_slot be ow InlinePrivate pp w = (Inr (), w1)" using put_slot_total by blast
    obtain w2 where 2: "put_slot be ow InlineCertificate cp w1 = (Inr (), w2)" using put_slot_total by blast
    show ?thesis by (auto simp: migrate_body_inline_key_def ik e StoreKeyring 1 2)
  qed (auto simp: migrate_body_inline_key_def ik e)
qed (use migrate_body_inline_none in blast)

lemma migrate_body_total:
  assumes X: "cipher_total X" "target_key_ok target tk" "crates_ok X"
    and rd: "body_readable X sk (contents w) (o_kind ow) (o_id ow) b" and wf: "body_wf b"
  shows "\<exists>f b' w'. migrate_body X be b ow target sk tk w = (Inr f, b', w')"
proof -
  obtain f1 b1 w1 where 1: "migrate_body_password X be b ow target sk tk w = (Inr f1, b1, w1)"
    using migrate_password_total[OF X(1,2) rd] by blast
  have k: "b_key b1 = b_key b" by (rule migrate_password_ok(4)[OF X(3) 1])
  have "body_readable X sk (contents w) (o_kind ow) (o_id ow) (b1\<lparr>b_password := None, b_keyring := False\<rparr>)"
    using rd k by (auto simp: body_readable_def opt_readable_def)
  then obtain f2 b2 w2 where
    "migrate_body_inline_key X be (b1\<lparr>b_password := None, b_keyring := False\<rparr>) ow target sk tk w1 = (Inr f2, b2, w2)"
    using migrate_inline_total[OF X(1,2)] by blast
  show ?thesis
  proof (cases "\<exists>ik. b_key b1 = Some (KeyInline ik)")
    case True
    then have none: "\<not> b_keyring b" "b_password b = None" using wf k by (auto simp: body_wf_def)
    then have "b1 = b" using 1 migrate_body_password_none[OF none] by auto
    then obtain f3 b3 w3 where "migrate_body_inline_key X be b1 ow target sk tk w1 = (Inr f3, b3, w3)"
      using migrate_inline_total[OF X(1,2) rd] by blast
    then show ?thesis using 1 by (auto simp: migrate_body_def)
  next
    case False
    then show ?thesis using 1 migrate_body_inline_none[OF False] by (auto simp: migrate_body_def)
  qed
qed

lemma migrate_credential_step_total:
  assumes X: "cipher_total X" "target_key_ok target tk" "crates_ok X"
    and pre: "credential_ready X sk c (contents w)"
  shows "\<exists>n c' w'. migrate_credential_step X be target sk tk c w = (Inr n, c', w')
    \<and> frame (credential_slots c) (contents w) (contents w')"
proof -
  let ?ow = "owner_credential (c_id c) (c_name c)"
  have "body_readable X sk (contents w) (o_kind ?ow) (o_id ?ow) (c_body c)" "body_wf (c_body c)"
    using pre by (auto simp: credential_ready_def owner_credential_def credential_pre_def credential_wf_def)
  from migrate_body_total[OF X this] obtain f b' w' where
    "migrate_body X be (c_body c) ?ow target sk tk w = (Inr f, b', w')" by blast
  then have r: "migrate_credential_step X be target sk tk c w = (Inr (if f then 1 else 0), c\<lparr>c_body := b'\<rparr>, w')"
    by (simp add: migrate_credential_step_def)
  moreover have "credential_pre c (contents w)" using pre by (simp add: credential_ready_def)
  ultimately show ?thesis using migrate_credential_step_ok[OF X(3)] by blast
qed

lemma migrate_host_step_total:
  assumes X: "cipher_total X" "target_key_ok target tk" "crates_ok X"
    and pre: "host_ready X sk h (contents w)"
  shows "\<exists>n h' w'. migrate_host_step X be target sk tk h w = (Inr n, h', w')
    \<and> frame (host_slots h) (contents w) (contents w')"
proof (cases "h_auth h")
  case (AuthInline b)
  let ?ow = "owner_host (h_id h) (h_name h)"
  have "body_readable X sk (contents w) (o_kind ?ow) (o_id ?ow) b" "body_wf b"
    using pre AuthInline by (auto simp: host_ready_def owner_host_def host_pre_def host_wf_def)
  from migrate_body_total[OF X this] obtain f b' w' where
    "migrate_body X be b ?ow target sk tk w = (Inr f, b', w')" by blast
  then have r: "migrate_host_step X be target sk tk h w
      = (Inr (if f then 1 else 0), h\<lparr>h_auth := AuthInline b'\<rparr>, w')"
    by (simp add: migrate_host_step_def AuthInline)
  moreover have "host_pre h (contents w)" using pre by (simp add: host_ready_def)
  ultimately show ?thesis using migrate_host_step_ok[OF X(3)] by blast
qed (simp add: migrate_host_step_def)

lemma migrate_total:
  assumes X: "cipher_total X" "target_key_ok target tk" "crates_ok X"
    and cfg: "config_wf cfg" "slots_in_step (contents w) cfg" "config_readable X sk (contents w) cfg"
  shows "\<exists>n cfg' w'. migrate X be target sk tk cfg w = (Inr n, cfg', w')"
proof -
  have cpre: "credential_ready X sk c (contents w)" if "c \<in> set (credentials cfg)" for c
    using cfg that by (auto simp: credential_ready_def credential_pre_def slots_in_step_def list_all_iff
        config_readable_def dest: config_wfD)
  have hpre0: "host_ready X sk h (contents w)" if "h \<in> set (hosts cfg)" for h
    using cfg that by (auto simp: host_ready_def host_pre_def slots_in_step_def list_all_iff
        config_readable_def dest!: config_wfD(3) split: auth.splits)
  have cid: "ulid_ok (c_id c)" if "c \<in> set (credentials cfg)" for c
    using config_wfD(6)[OF cfg(1) that] by (simp add: credential_wf_def)
  have hid: "ulid_ok (h_id h)" if "h \<in> set (hosts cfg)" for h
    using config_wfD(3)[OF cfg(1) that] by (simp add: host_wf_def)
  have cdisj: "sorted_wrt (\<lambda>x y. credential_slots x \<inter> credential_slots y = {}) (credentials cfg)"
    unfolding credential_slots_def by (rule disjoint_slots_list[OF config_wfD(4)[OF cfg(1)] cid])
  have hdisj: "sorted_wrt (\<lambda>x y. host_slots x \<inter> host_slots y = {}) (hosts cfg)"
    unfolding host_slots_def by (rule disjoint_slots_list[OF config_wfD(1)[OF cfg(1)] hid])
  have "\<exists>n cs w1. for_each_mut (migrate_credential_step X be target sk tk) (credentials cfg) w = (Inr n, cs, w1)
      \<and> frame (\<Union>c\<in>set (credentials cfg). credential_slots c) (contents w) (contents w1)"
    by (rule for_each_mut_total[where pre = "credential_ready X sk" and c = contents, OF _ _ cdisj cpre],
        erule migrate_credential_step_total[OF X], rule credential_ready_local)
  then obtain n cs w1 where
    r1: "for_each_mut (migrate_credential_step X be target sk tk) (credentials cfg) w = (Inr n, cs, w1)" and
    f1: "frame (\<Union>c\<in>set (credentials cfg). credential_slots c) (contents w) (contents w1)" by blast
  have hpre: "host_ready X sk h (contents w1)" if h: "h \<in> set (hosts cfg)" for h
  proof (rule host_ready_local[OF _ hpre0[OF h]])
    fix k assume "k \<in> host_slots h"
    then have "k \<notin> (\<Union>c\<in>set (credentials cfg). credential_slots c)"
      using owner_slots_disjoint[OF hid[OF h] cid, of _ OwnerHost OwnerCredential]
      by (fastforce simp: host_slots_def credential_slots_def)
    then show "contents w1 k = contents w k" using f1 by (auto simp: frame_def)
  qed
  have "\<exists>n hs w2. for_each_mut (migrate_host_step X be target sk tk) (hosts cfg) w1 = (Inr n, hs, w2)
      \<and> frame (\<Union>h\<in>set (hosts cfg). host_slots h) (contents w1) (contents w2)"
    by (rule for_each_mut_total[where pre = "host_ready X sk" and c = contents, OF _ _ hdisj hpre],
        erule migrate_host_step_total[OF X], rule host_ready_local)
  then obtain m hs w2 where
    r2: "for_each_mut (migrate_host_step X be target sk tk) (hosts cfg) w1 = (Inr m, hs, w2)" by blast
  show ?thesis using r1 r2 by (simp add: migrate_def)
qed

end

section \<open>A configuration to run on\<close>

definition demo_ids :: "ulid list" where
  "demo_ids = [''01ARZ3NDEKTSV4RRFFQ69G5FAV'', ''01BX5ZZKBKACTAV9WEVGEMMVRZ'',
               ''01BX5ZZKBKACTAV9WEVGEMMVS0'', ''01BX5ZZKBKACTAV9WEVGEMMVS1'']"

definition demo_key :: vault_key where
  "demo_key = replicate 32 (CHR ''k'')"

text \<open>A credential with a password in the clear, one with a pasted key and an encrypted certificate, a
host whose password is in the keyring, and a host that refers to the first credential.\<close>

definition demo_encrypted :: encrypted_secret where
  "demo_encrypted = \<lparr>nonce = replicate 24 (CHR ''n''),
     cipher = demo_key @ replicate 24 (CHR ''n'') @ ''CERT''\<rparr>"

definition demo_config :: sshrack_config where
  "demo_config =
     \<lparr>format_version = 1,
      hosts =
        [\<lparr>h_id = demo_ids ! 2, h_name = ''web'', h_host = ''10.0.0.1'', h_port = 22, h_ssh_args = None,
          h_auth = AuthInline ((body_new ''root'')\<lparr>b_keyring := True\<rparr>)\<rparr>,
         \<lparr>h_id = demo_ids ! 3, h_name = ''db'', h_host = ''10.0.0.2'', h_port = 2222, h_ssh_args = None,
          h_auth = AuthRef (demo_ids ! 0)\<rparr>],
      credentials =
        [\<lparr>c_id = demo_ids ! 0, c_name = ''ops'', c_body = with_password ''hunter2'' (body_new ''ops'')\<rparr>,
         \<lparr>c_id = demo_ids ! 1, c_name = ''ci'',
          c_body = with_inline_key (Plain ''KEY'') (Some (Encrypted demo_encrypted)) (body_new ''ci'')\<rparr>],
      store = Some StorePlaintext\<rparr>"

definition demo_world :: "fake_state world" where
  "demo_world =
     \<lparr>w_backend = \<lparr>fk_entries = [(keyring_key OwnerHost (demo_ids ! 2), ''s3cret'')], fk_available = True\<rparr>,
      w_draws = 0, w_files = (\<lambda>_. None), w_now = Some 0\<rparr>"

definition demo_vault :: secret_store where
  "demo_vault = StoreVault (default_argon2id ''salt'')"

lemma demo_config_wf: "config_wf demo_config"
  by (simp add: config_wf_def demo_config_def host_wf_def credential_wf_def ulid_ok_def demo_ids_def
      crockford_def with_password_def with_inline_key_def body_new_def body_wf_def inline_key_wf_def)

lemma demo_slots_in_step: "slots_in_step (fake_view (w_backend demo_world)) demo_config"
  by (simp add: slots_in_step_def slots_ok_def demo_config_def demo_world_def with_password_def
      with_inline_key_def body_new_def)

lemma demo_readable:
  "config_readable demo_crates (Some demo_key) (fake_view (w_backend demo_world)) demo_config"
  by (simp add: config_readable_def body_readable_def opt_readable_def demo_config_def demo_world_def
      with_password_def with_inline_key_def body_new_def fake_view_def decrypt_def demo_crates_def
      demo_encrypted_def demo_key_def)

lemma demo_cipher_total: "cipher_total demo_crates"
  by (simp add: cipher_total_def demo_crates_def)

section \<open>Properties of the mode switch\<close>

text \<open>C1: switching the storage mode never changes what any owner's secrets are.  For every backend
that honours the contract, every configuration whose bodies are valid and in step with their keyring
slots, and every source and target mode, a migration that returns normally leaves the plain-text view
of every credential and host (user, password, private key, certificate, key path) as it was, puts
every body in the representation of the target mode, keeps the invariants, and reports the number of
bodies that carried a secret.\<close>

theorem migrate_preserves_secrets:
  assumes "secret_backend be ent" "crates_ok X"
    and "config_wf cfg" "slots_in_step (ent (w_backend w)) cfg"
    and "migrate X be target sk tk cfg w = (Inr n, cfg', w')"
  shows "config_view X tk (ent (w_backend w')) cfg' = config_view X sk (ent (w_backend w)) cfg
    \<and> config_sealed target cfg' \<and> config_wf cfg' \<and> slots_in_step (ent (w_backend w')) cfg'
    \<and> n = sum_list (map (\<lambda>c. of_bool (carries_secret (c_body c))) (credentials cfg))
          + sum_list (map host_secrets (hosts cfg))"
  using secret_backend.migrate_ok[OF assms(1,2,3) _ assms(5)] assms(4)
  by (simp add: secret_backend.contents_def[OF assms(1)])

text \<open>C13: with a backend and a cipher that do not fail and a key for the target when it is a vault, a migration of
a well-formed configuration in step with its keyring slots, whose secrets are all readable, succeeds, whatever the
target mode.\<close>

theorem migrate_succeeds:
  assumes "reliable_backend be ent" "cipher_total X" "crates_ok X" "target_key_ok target tk"
    and "config_wf cfg" "slots_in_step (ent (w_backend w)) cfg"
    and "config_readable X sk (ent (w_backend w)) cfg"
  shows "\<exists>n cfg' w'. migrate X be target sk tk cfg w = (Inr n, cfg', w')"
proof -
  have b: "secret_backend be ent" using assms(1) by (rule reliable_backend.axioms(1))
  show ?thesis
    using reliable_backend.migrate_total[OF assms(1,2,4,3,5)] assms(6,7)
    by (simp add: secret_backend.contents_def[OF b])
qed

theorem migrate_succeeds_witness:
  "\<exists>n cfg' w'. migrate demo_crates fake_backend demo_vault (Some demo_key) (Some demo_key) demo_config
     demo_world = (Inr n, cfg', w')"
  by (rule migrate_succeeds[OF fake.reliable_backend_axioms demo_cipher_total demo_crates_ok _
        demo_config_wf demo_slots_in_step demo_readable])
     (simp add: target_key_ok_def demo_vault_def)

lemma demo_migrate_runs:
  "is_ok (fst (migrate demo_crates fake_backend demo_vault (Some demo_key) (Some demo_key) demo_config
     demo_world))"
  by code_simp

theorem migrate_preserves_secrets_witness:
  "let r = migrate demo_crates fake_backend demo_vault (Some demo_key) (Some demo_key) demo_config demo_world;
       cfg' = fst (snd r); w' = snd (snd r)
   in is_ok (fst r)
      \<and> config_view demo_crates (Some demo_key) (fake_view (w_backend w')) cfg'
          = config_view demo_crates (Some demo_key) (fake_view (w_backend demo_world)) demo_config
      \<and> config_sealed demo_vault cfg'"
proof -
  obtain n cfg' w' where r: "migrate demo_crates fake_backend demo_vault (Some demo_key) (Some demo_key)
      demo_config demo_world = (Inr n, cfg', w')"
    using demo_migrate_runs by (metis is_ok_iff prod.collapse)
  show ?thesis
    using migrate_preserves_secrets[OF fake.secret_backend_axioms demo_crates_ok demo_config_wf
        demo_slots_in_step r]
    by (simp add: Let_def r)
qed

end
