(* ===== verification/Vault_Decrypt.thy ===== *)
theory Vault_Decrypt
  imports Vault_Migrate
begin

text \<open>Decrypting everything before a rekey (\<^verbatim>\<open>decrypt_all\<close>), and what the error paths of the
transforms leave behind.\<close>

section \<open>One body\<close>

text \<open>A pasted key with one half encrypted and the other in the clear.\<close>

definition mixed_body :: "credential_body \<Rightarrow> bool" where
  "mixed_body b =
     (case b_key b of
        Some (KeyInline ik) \<Rightarrow>
          (\<exists>p. ik_private_key ik = Some (Plain p)) \<or> (\<exists>p. ik_certificate ik = Some (Plain p))
      | _ \<Rightarrow> False)"

lemma decrypt_taken_half_ok:
  assumes "decrypt_taken_half X key label h = Inr r"
  shows "\<not> opt_encrypted r"
    and "Option.bind r (secret_text X vk) = (if opt_encrypted h then Option.bind h (secret_text X (Some key)) else None)"
  using assms
  by (auto simp: decrypt_taken_half_def decrypt_to_plain_def split: option.splits secret.splits)

lemma half_view_kept:
  "(\<And>p. h \<noteq> Some (Plain p)) \<Longrightarrow>
   (if opt_encrypted h then Option.bind h (secret_text X k) else None) = Option.bind h (secret_text X k)"
  by (cases h) (auto simp: opt_encrypted_def split: secret.splits, metis secret.exhaust is_encrypted.simps)

lemma decrypt_body_ok:
  assumes "decrypt_body X b key label = Inr b'"
  shows "\<not> body_has_encrypted b'"
    and "b_user b' = b_user b" "b_keyring b' = b_keyring b"
    and "password_view X vk m k u b' = password_view X (Some key) m k u b"
    and "key_path_of b' = key_path_of b"
proof -
  obtain pw where pw: "(case b_password b of
          Some (Encrypted es) \<Rightarrow> and_then (decrypt_to_plain X es key label) (\<lambda>p. Inr (Some (Plain p)))
        | other \<Rightarrow> Inr other) = Inr pw"
    using assms by (auto simp: decrypt_body_def)
  have p: "\<not> opt_encrypted pw"
    "Option.bind pw (secret_text X vk) = Option.bind (b_password b) (secret_text X (Some key))"
    using pw by (cases "b_password b"; auto simp: decrypt_to_plain_def split: secret.splits)+
  note run = assms[unfolded decrypt_body_def pw and_then.simps]
  show "\<not> body_has_encrypted b'"
    and "b_user b' = b_user b" "b_keyring b' = b_keyring b"
    and "password_view X vk m k u b' = password_view X (Some key) m k u b"
    and "key_path_of b' = key_path_of b"
    using run p
    by (auto simp: body_has_encrypted_def password_view_def key_path_of_def
        split: option.splits key_source.splits)
      (use decrypt_taken_half_ok(1) in blast)+
qed

lemma decrypt_body_view:
  assumes "decrypt_body X b key label = Inr b'" "\<not> mixed_body b"
  shows "body_view X vk m k u b' = body_view X (Some key) m k u b"
proof (cases "\<exists>ik. b_key b = Some (KeyInline ik)")
  case True
  then obtain ik where ik: "b_key b = Some (KeyInline ik)" by auto
  obtain priv cert pw where h: "decrypt_taken_half X key label (ik_private_key ik) = Inr priv"
    "decrypt_taken_half X key label (ik_certificate ik) = Inr cert"
    and b': "b' = \<lparr>b_user = b_user b, b_password = pw,
       b_key = Some (KeyInline (ik\<lparr>ik_private_key := priv, ik_certificate := cert\<rparr>)), b_keyring = b_keyring b\<rparr>"
    using assms(1) ik by (auto simp: decrypt_body_def)
  have nm: "\<And>p. ik_private_key ik \<noteq> Some (Plain p)" "\<And>p. ik_certificate ik \<noteq> Some (Plain p)"
    using assms(2) ik by (auto simp: mixed_body_def)
  have v: "Option.bind priv (secret_text X vk) = Option.bind (ik_private_key ik) (secret_text X (Some key))"
    "Option.bind cert (secret_text X vk) = Option.bind (ik_certificate ik) (secret_text X (Some key))"
    unfolding decrypt_taken_half_ok(2)[OF h(1)] decrypt_taken_half_ok(2)[OF h(2)]
    by (rule half_view_kept[OF nm(1)], rule half_view_kept[OF nm(2)])
  show ?thesis
    using decrypt_body_ok(2-5)[OF assms(1)] ik b' v
    by (auto simp: body_view_def private_view_def certificate_view_def)
next
  case False
  have "b_key b' = b_key b"
  proof (cases "b_key b")
    case (Some k)
    then show ?thesis using assms(1) False by (cases k) (auto simp: decrypt_body_def)
  qed (use assms(1) in \<open>auto simp: decrypt_body_def\<close>)
  then show ?thesis
    using decrypt_body_ok(2-5)[OF assms(1)] False
    by (auto simp: body_view_def private_view_def certificate_view_def split: option.splits key_source.splits)
qed

section \<open>The configuration\<close>

lemma for_each_mut_list_all2:
  assumes "\<And>x w n x' w'. x \<in> set xs \<Longrightarrow> step x w = (Inr n, x', w') \<Longrightarrow> P x x' \<and> n = cnt x"
    and "for_each_mut step xs w = (Inr n, xs', w')"
  shows "list_all2 P xs xs' \<and> n = sum_list (map cnt xs)"
  using assms
proof (induction xs arbitrary: w n xs')
  case (Cons x xs)
  from Cons.prems(2) obtain n1 x1 w1 n2 xs1 where
    r: "step x w = (Inr n1, x1, w1)" "for_each_mut step xs w1 = (Inr n2, xs1, w')"
       "n = n1 + n2" "xs' = x1 # xs1"
    by (auto split: sum.splits prod.splits)
  have "list_all2 P xs xs1 \<and> n2 = sum_list (map cnt xs)"
    by (rule Cons.IH[OF _ r(2)]) (use Cons.prems(1) in auto)
  then show ?case using Cons.prems(1)[of x w n1 x1 w1] r by auto
qed simp

definition credential_decrypted where
  "credential_decrypted X key m c c' \<longleftrightarrow>
     \<not> body_has_encrypted (c_body c')
     \<and> (mixed_body (c_body c) \<and> body_has_encrypted (c_body c)
        \<or> credential_view X None m c' = credential_view X (Some key) m c)"

definition host_decrypted where
  "host_decrypted X key m h h' \<longleftrightarrow>
     (\<forall>b. h_auth h' = AuthInline b \<longrightarrow> \<not> body_has_encrypted b)
     \<and> ((\<exists>b. h_auth h = AuthInline b \<and> mixed_body b \<and> body_has_encrypted b)
        \<or> host_view X None m h' = host_view X (Some key) m h)"

lemma not_encrypted_view:
  assumes "\<not> body_has_encrypted b"
  shows "body_view X vk m k u b = body_view X vk' m k u b"
proof -
  have t: "Option.bind s (secret_text X vk) = Option.bind s (secret_text X vk')" if "\<not> opt_encrypted s" for s
    using that by (cases s) (auto simp: opt_encrypted_def split: secret.splits,
        metis is_encrypted.simps(1) secret.exhaust secret_text.simps(1))
  show ?thesis
    using assms by (auto simp: body_view_def password_view_def private_view_def certificate_view_def
        body_has_encrypted_def t split: option.splits key_source.splits if_splits)
qed

lemma decrypt_credential_step_ok:
  assumes "decrypt_credential_step X key c u = (Inr n, c', u')"
  shows "credential_decrypted X key m c c' \<and> n = of_bool (body_has_encrypted (c_body c))"
  using assms not_encrypted_view[of "c_body c" X None m OwnerCredential "c_id c" "Some key"]
  by (auto simp: decrypt_credential_step_def credential_decrypted_def credential_view_def
      split: if_splits sum.splits dest: decrypt_body_ok(1) decrypt_body_view)

lemma decrypt_host_step_ok:
  assumes "decrypt_host_step X key h u = (Inr n, h', u')"
  shows "host_decrypted X key m h h'
    \<and> n = (case h_auth h of AuthInline b \<Rightarrow> of_bool (body_has_encrypted b) | AuthRef _ \<Rightarrow> 0)"
proof (cases "h_auth h")
  case (AuthInline b)
  then show ?thesis
    using assms not_encrypted_view[of b X None m OwnerHost "h_id h" "Some key"]
    by (auto simp: decrypt_host_step_def host_decrypted_def host_view_def
        split: if_splits sum.splits dest: decrypt_body_ok(1) decrypt_body_view)
qed (use assms in \<open>auto simp: decrypt_host_step_def host_decrypted_def host_view_def\<close>)

text \<open>A body that the rekey would damage.\<close>

definition config_unmixed :: "sshrack_config \<Rightarrow> bool" where
  "config_unmixed cfg \<longleftrightarrow> list_all (\<lambda>b. \<not> (mixed_body b \<and> body_has_encrypted b)) (secret_bodies cfg)"

definition config_has_encrypted :: "sshrack_config \<Rightarrow> bool" where
  "config_has_encrypted cfg \<longleftrightarrow> list_ex body_has_encrypted (secret_bodies cfg)"

definition encrypted_bodies :: "sshrack_config \<Rightarrow> nat" where
  "encrypted_bodies cfg =
     sum_list (map (\<lambda>c. of_bool (body_has_encrypted (c_body c))) (credentials cfg))
     + sum_list (map (\<lambda>h. case h_auth h of AuthInline b \<Rightarrow> of_bool (body_has_encrypted b) | AuthRef _ \<Rightarrow> 0)
         (hosts cfg))"

lemma decrypt_all_loops:
  assumes "decrypt_all X key cfg = (Inr n, cfg')"
  obtains cs hs where "cfg' = cfg\<lparr>credentials := cs, hosts := hs\<rparr>" "n = encrypted_bodies cfg"
    "\<And>m. list_all2 (credential_decrypted X key m) (credentials cfg) cs"
    "\<And>m. list_all2 (host_decrypted X key m) (hosts cfg) hs"
proof -
  obtain n1 cs n2 hs u1 u2 where
    r1: "for_each_mut (decrypt_credential_step X key) (credentials cfg) () = (Inr n1, cs, u1)" and
    r2: "for_each_mut (decrypt_host_step X key) (hosts cfg) () = (Inr n2, hs, u2)" and
    f: "cfg' = cfg\<lparr>credentials := cs, hosts := hs\<rparr>" "n = n1 + n2"
    using assms by (auto simp: decrypt_all_def split: sum.splits prod.splits)
  note c = for_each_mut_list_all2[OF decrypt_credential_step_ok r1]
  note h = for_each_mut_list_all2[OF decrypt_host_step_ok r2]
  show thesis
    by (rule that[OF f(1)]) (use c h f(2) in \<open>auto simp: encrypted_bodies_def\<close>)
qed

lemma decrypted_views:
  assumes "list_all2 (credential_decrypted X key m) cs cs'"
    and "list_all (\<lambda>c. \<not> (mixed_body (c_body c) \<and> body_has_encrypted (c_body c))) cs"
  shows "map (credential_view X None m) cs' = map (credential_view X (Some key) m) cs"
  using assms by (induction rule: list_all2_induct) (auto simp: credential_decrypted_def)

lemma decrypted_host_views:
  assumes "list_all2 (host_decrypted X key m) hs hs'"
    and "list_all (\<lambda>h. \<forall>b. h_auth h = AuthInline b \<longrightarrow> \<not> (mixed_body b \<and> body_has_encrypted b)) hs"
  shows "map (host_view X None m) hs' = map (host_view X (Some key) m) hs"
  using assms by (induction rule: list_all2_induct) (auto simp: host_decrypted_def)

text \<open>The invariants survive as well.\<close>

lemma decrypt_taken_half_None [simp]: "decrypt_taken_half X key label None = Inr None"
  by (simp add: decrypt_taken_half_def)

lemma decrypt_taken_half_Some:
  "decrypt_taken_half X key label (Some y) = Inr r \<Longrightarrow> \<forall>p. y \<noteq> Plain p \<Longrightarrow> \<exists>z. r = Some z"
  by (auto simp: decrypt_taken_half_def decrypt_to_plain_def split: secret.splits)

lemma decrypt_body_wf:
  assumes "decrypt_body X b key label = Inr b'" "\<not> mixed_body b" "body_wf b"
  shows "body_wf b'" and "slots_ok m k u b' = slots_ok m k u b"
  using assms
  by (auto simp: decrypt_body_def body_wf_def inline_key_wf_def mixed_body_def slots_ok_def decrypt_to_plain_def
      split: option.splits key_source.splits secret.splits if_splits dest!: decrypt_taken_half_Some)

lemma decrypt_credential_step_kept:
  assumes "decrypt_credential_step X key c u = (Inr n, c', u')" "\<not> (mixed_body (c_body c) \<and> body_has_encrypted (c_body c))"
  shows "c_id c' = c_id c" "c_name c' = c_name c" "credential_wf c \<Longrightarrow> credential_wf c'"
    "credential_wf c \<Longrightarrow> slots_ok m k i (c_body c') = slots_ok m k i (c_body c)"
  using assms
  by (auto simp: decrypt_credential_step_def credential_wf_def decrypt_body_wf
      split: if_splits sum.splits)

lemma decrypt_host_step_kept:
  assumes "decrypt_host_step X key h u = (Inr n, h', u')"
    "\<And>b. h_auth h = AuthInline b \<Longrightarrow> \<not> (mixed_body b \<and> body_has_encrypted b)"
  shows "h_id h' = h_id h" "h_name h' = h_name h" "host_wf h \<Longrightarrow> host_wf h'"
    "host_wf h \<Longrightarrow> (case h_auth h' of AuthInline b \<Rightarrow> slots_ok m k i b | AuthRef _ \<Rightarrow> True) =
       (case h_auth h of AuthInline b \<Rightarrow> slots_ok m k i b | AuthRef _ \<Rightarrow> True)"
  using assms
  by (auto simp: decrypt_host_step_def host_wf_def decrypt_body_wf
      split: if_splits sum.splits auth.splits)

lemma decrypt_all_kept:
  assumes "decrypt_all X key cfg = (Inr n, cfg')" "config_unmixed cfg" "config_wf cfg" "slots_in_step m cfg"
  shows "config_wf cfg' \<and> slots_in_step m cfg'"
proof -
  obtain n1 cs n2 hs u1 u2 where
    r1: "for_each_mut (decrypt_credential_step X key) (credentials cfg) () = (Inr n1, cs, u1)" and
    r2: "for_each_mut (decrypt_host_step X key) (hosts cfg) () = (Inr n2, hs, u2)" and
    f: "cfg' = cfg\<lparr>credentials := cs, hosts := hs\<rparr>"
    using assms(1) by (auto simp: decrypt_all_def split: sum.splits prod.splits)
  have um: "\<not> (mixed_body (c_body c) \<and> body_has_encrypted (c_body c))" "credential_wf c"
    "slots_ok m OwnerCredential (c_id c) (c_body c)" if "c \<in> set (credentials cfg)" for c
    using assms(2-4) that by (auto simp: config_unmixed_def list_all_iff set_secret_bodies config_wf_def slots_in_step_def)
  have hm: "\<And>b. h_auth h = AuthInline b \<Longrightarrow> \<not> (mixed_body b \<and> body_has_encrypted b)" "host_wf h"
    "(case h_auth h of AuthInline b \<Rightarrow> slots_ok m OwnerHost (h_id h) b | AuthRef _ \<Rightarrow> True)"
    if "h \<in> set (hosts cfg)" for h
    using assms(2-4) that
    by (auto simp: config_unmixed_def list_all_iff set_secret_bodies config_wf_def slots_in_step_def)
  have c: "list_all2 (\<lambda>c c'. (c_id c' = c_id c \<and> c_name c' = c_name c) \<and> credential_wf c'
      \<and> slots_ok m OwnerCredential (c_id c') (c_body c')) (credentials cfg) cs"
  proof (rule for_each_mut_list_all2[where cnt = "\<lambda>c. of_bool (body_has_encrypted (c_body c))",
        OF _ r1, THEN conjunct1], goal_cases)
    case (1 c w n c' w')
    then show ?case
      using decrypt_credential_step_kept[OF 1(2) um(1)[OF 1(1)]] um(2,3)[OF 1(1)] decrypt_credential_step_ok[OF 1(2)]
      by simp
  qed
  have h: "list_all2 (\<lambda>h h'. (h_id h' = h_id h \<and> h_name h' = h_name h) \<and> host_wf h'
      \<and> (case h_auth h' of AuthInline b \<Rightarrow> slots_ok m OwnerHost (h_id h') b | AuthRef _ \<Rightarrow> True)) (hosts cfg) hs"
  proof (rule for_each_mut_list_all2[where cnt =
        "\<lambda>h. case h_auth h of AuthInline b \<Rightarrow> of_bool (body_has_encrypted b) | AuthRef _ \<Rightarrow> 0",
        OF _ r2, THEN conjunct1], goal_cases)
    case (1 h w n h' w')
    then show ?case
      using decrypt_host_step_kept[OF 1(2) hm(1)[OF 1(1)]] hm(2,3)[OF 1(1)] decrypt_host_step_ok[OF 1(2)]
      by (simp cong: auth.case_cong)
  qed
  have "map c_id cs = map c_id (credentials cfg)" by (rule list_all2_map_eq[OF c]) simp
  moreover have "map c_name cs = map c_name (credentials cfg)" by (rule list_all2_map_eq[OF c]) simp
  moreover have "map h_id hs = map h_id (hosts cfg)" by (rule list_all2_map_eq[OF h]) simp
  moreover have "map h_name hs = map h_name (hosts cfg)" by (rule list_all2_map_eq[OF h]) simp
  moreover have "list_all (\<lambda>c'. credential_wf c' \<and> slots_ok m OwnerCredential (c_id c') (c_body c')) cs"
    using c by (rule list_all2_all) auto
  moreover have "list_all (\<lambda>h'. host_wf h'
      \<and> (case h_auth h' of AuthInline b \<Rightarrow> slots_ok m OwnerHost (h_id h') b | AuthRef _ \<Rightarrow> True)) hs"
    using h by (rule list_all2_all) auto
  ultimately show ?thesis
    using assms(3) by (auto simp: f config_wf_def slots_in_step_def list_all_iff)
qed

lemma decrypt_all_views:
  assumes "decrypt_all X key cfg = (Inr n, cfg')" "config_unmixed cfg"
  shows "config_view X None m cfg' = config_view X (Some key) m cfg"
proof -
  from assms(1) obtain cs hs where r: "cfg' = cfg\<lparr>credentials := cs, hosts := hs\<rparr>"
    "\<And>m. list_all2 (credential_decrypted X key m) (credentials cfg) cs"
    "\<And>m. list_all2 (host_decrypted X key m) (hosts cfg) hs" by (rule decrypt_all_loops) blast
  show ?thesis
    using decrypted_views[OF r(2)] decrypted_host_views[OF r(3)] assms(2)
    by (auto simp: config_view_def r(1) config_unmixed_def list_all_iff set_secret_bodies)
qed

section \<open>Properties\<close>

text \<open>Decrypting everything before a rekey leaves no ciphertext behind, so no secret stays on the old
vault key, and it returns the number of bodies it converted; the plain-text view of every owner is kept
for configurations in which no pasted key has one half encrypted and the other in the clear.\<close>

theorem decrypt_all_complete:
  assumes "decrypt_all X key cfg = (Inr n, cfg')" and "config_unmixed cfg"
  shows "\<not> config_has_encrypted cfg' \<and> n = encrypted_bodies cfg
    \<and> config_view X None m cfg' = config_view X (Some key) m cfg"
proof -
  from assms(1) obtain cs hs where r: "cfg' = cfg\<lparr>credentials := cs, hosts := hs\<rparr>" "n = encrypted_bodies cfg"
    "\<And>m. list_all2 (credential_decrypted X key m) (credentials cfg) cs"
    "\<And>m. list_all2 (host_decrypted X key m) (hosts cfg) hs" by (rule decrypt_all_loops) blast
  have "list_all (\<lambda>c. \<not> body_has_encrypted (c_body c)) cs"
    using r(3)[of m] by (rule list_all2_all) (auto simp: credential_decrypted_def)
  moreover have "list_all (\<lambda>h. \<forall>b. h_auth h = AuthInline b \<longrightarrow> \<not> body_has_encrypted b) hs"
    using r(4)[of m] by (rule list_all2_all) (auto simp: host_decrypted_def)
  ultimately have "\<not> config_has_encrypted cfg'"
    by (auto simp: config_has_encrypted_def list_ex_iff list_all_iff set_secret_bodies r(1))
  then show ?thesis using r(2) decrypt_all_views[OF assms] by simp
qed

definition demo_vault_config :: sshrack_config where
  "demo_vault_config = demo_config\<lparr>credentials :=
     [\<lparr>c_id = demo_ids ! 1, c_name = ''ci'',
       c_body = with_inline_key (Encrypted demo_encrypted) (Some (Encrypted demo_encrypted)) (body_new ''ci'')\<rparr>]\<rparr>"

lemma demo_vault_unmixed: "config_unmixed demo_vault_config"
  by (simp add: config_unmixed_def secret_bodies_def demo_vault_config_def demo_config_def
      List.map_filter_def mixed_body_def with_inline_key_def body_new_def)

theorem decrypt_all_complete_witness:
  "let r = decrypt_all demo_crates demo_key demo_vault_config
   in fst r = Inr 1 \<and> \<not> config_has_encrypted (snd r)
      \<and> config_view demo_crates None Map.empty (snd r)
          = config_view demo_crates (Some demo_key) Map.empty demo_vault_config"
proof -
  have run: "fst (decrypt_all demo_crates demo_key demo_vault_config) = Inr 1" by code_simp
  obtain cfg' where r: "decrypt_all demo_crates demo_key demo_vault_config = (Inr 1, cfg')"
    using run by (metis prod.collapse)
  show ?thesis
    using decrypt_all_complete[OF r demo_vault_unmixed, of Map.empty] by (simp add: Let_def r)
qed

text \<open>What happens to the other bodies. When a pasted key has its private half in the clear and only
its certificate encrypted, decrypting the body empties the private half, although the documentation says
that material in the clear passes through; the resulting body is not valid any more.\<close>

theorem decrypt_body_drops_plain_half:
  assumes "b_key b = Some (KeyInline ik)" "ik_private_key ik = Some (Plain p)" "\<not> ik_keyring ik"
    and "decrypt_body X b key label = Inr b'"
  shows "private_view X (Some key) m k u b = Some p \<and> private_view X vk m k u b' = None
    \<and> validate_body b' = Inl (InvalidCredentialBody (b_user b))"
proof -
  obtain ik' pw where b': "b' = \<lparr>b_user = b_user b, b_password = pw, b_key = Some (KeyInline ik'), b_keyring = b_keyring b\<rparr>"
    and ik': "ik_private_key ik' = None" "\<not> ik_keyring ik'"
    using assms by (auto simp: decrypt_body_def decrypt_taken_half_def)
  show ?thesis
    using assms(1-3) ik' b'
    by (auto simp: private_view_def validate_body_cases body_wf_def inline_key_wf_def)
qed

theorem decrypt_body_drops_plain_half_witness:
  "let b = with_inline_key (Plain ''KEY'') (Some (Encrypted demo_encrypted)) (body_new ''ci'');
       b' = (with_inline_key (Plain ''KEY'') (Some (Plain ''CERT'')) (body_new ''ci''))
            \<lparr>b_key := Some (KeyInline \<lparr>ik_private_key = None, ik_certificate = Some (Plain ''CERT''), ik_keyring = False\<rparr>)\<rparr>
   in decrypt_body demo_crates b demo_key ''ci'' = Inr b'
      \<and> private_view demo_crates (Some demo_key) Map.empty OwnerCredential (demo_ids ! 1) b = Some ''KEY''
      \<and> private_view demo_crates None Map.empty OwnerCredential (demo_ids ! 1) b' = None"
proof -
  let ?b = "with_inline_key (Plain ''KEY'') (Some (Encrypted demo_encrypted)) (body_new ''ci'')"
  let ?b' = "(with_inline_key (Plain ''KEY'') (Some (Plain ''CERT'')) (body_new ''ci''))
     \<lparr>b_key := Some (KeyInline \<lparr>ik_private_key = None, ik_certificate = Some (Plain ''CERT''), ik_keyring = False\<rparr>)\<rparr>"
  have r: "decrypt_body demo_crates ?b demo_key ''ci'' = Inr ?b'" by code_simp
  have k: "b_key ?b = Some (KeyInline \<lparr>ik_private_key = Some (Plain ''KEY''),
      ik_certificate = Some (Encrypted demo_encrypted), ik_keyring = False\<rparr>)"
    by (simp add: with_inline_key_def)
  show ?thesis
    using decrypt_body_drops_plain_half[OF k _ _ r, of "''KEY''" Map.empty OwnerCredential "demo_ids ! 1" None] r
    by (simp add: Let_def)
qed

text \<open>Two credentials whose passwords are in the keyring, the entry of the second one missing.\<close>

definition demo_marked_config :: sshrack_config where
  "demo_marked_config = default_config\<lparr>store := Some StoreKeyring,
     credentials :=
       [\<lparr>c_id = demo_ids ! 0, c_name = ''ops'', c_body = (body_new ''ops'')\<lparr>b_keyring := True\<rparr>\<rparr>,
        \<lparr>c_id = demo_ids ! 1, c_name = ''ci'', c_body = (body_new ''ci'')\<lparr>b_keyring := True\<rparr>\<rparr>]\<rparr>"

definition demo_marked_world :: "fake_state world" where
  "demo_marked_world = demo_world\<lparr>w_backend :=
     \<lparr>fk_entries = [(keyring_key OwnerCredential (demo_ids ! 0), ''hunter2'')], fk_available = True\<rparr>\<rparr>"

text \<open>The clean-up of the source representation is not atomic over the configuration. Leaving keyring
mode fails on the second credential, whose entry is missing, after the only copy of the first one's
password has been deleted from the keyring; the configuration with the re-sealed password is what the
caller throws away on the error.\<close>

theorem migrate_failure_deletes_entry:
  "let r = migrate demo_crates fake_backend StorePlaintext None None demo_marked_config demo_marked_world
   in fst r = Inl (KeyringNoEntry (keyring_key OwnerCredential (demo_ids ! 1)))
      \<and> fake_view (w_backend demo_marked_world) (keyring_key OwnerCredential (demo_ids ! 0)) = Some ''hunter2''
      \<and> fake_view (w_backend (snd (snd r))) (keyring_key OwnerCredential (demo_ids ! 0)) = None"
  by code_simp

end
