(* ===== verification/Vault.thy ===== *)
theory Vault
  imports Vault_Decrypt
begin

text \<open>The orchestration of the vault (\<^verbatim>\<open>secret/vault/mod.rs\<close>): unlocking through cache,
environment and prompt, enabling the vault, and sealing freshly collected secrets for the active
mode.\<close>

section \<open>Unlocking\<close>

record passphrase_provider =
  pp_passphrase :: "sshrack_error + string"
  pp_passphrase_confirm :: "sshrack_error + string"
  pp_confirm :: "string \<Rightarrow> sshrack_error + bool"

text \<open>What the vault code takes from the operating system: the default cache path and which writes
fail.\<close>

record vault_env =
  ve_default_cache :: "string option"
  ve_fails :: "string \<Rightarrow> io_error option"

definition PASSPHRASE_ENV :: string where
  "PASSPHRASE_ENV = ''SSHRACK_PASSPHRASE''"

definition VERIFIER_PLAINTEXT :: string where
  "VERIFIER_PLAINTEXT = ''sshrack-vault-v1''"

definition passphrase_from :: "string option \<Rightarrow> string option" where
  "passphrase_from raw = (case raw of Some s \<Rightarrow> if s = [] then None else Some s | None \<Rightarrow> None)"

definition passphrase_from_env :: "(string \<rightharpoonup> string) \<Rightarrow> string option" where
  "passphrase_from_env env = passphrase_from (env PASSPHRASE_ENV)"

definition cache_path_or_default :: "vault_env \<Rightarrow> string option \<Rightarrow> string option" where
  "cache_path_or_default ve p = (case p of Some x \<Rightarrow> Some x | None \<Rightarrow> ve_default_cache ve)"

definition unlock_with_passphrase ::
  "crates \<Rightarrow> vault_env \<Rightarrow> vault_meta \<Rightarrow> string \<Rightarrow> string option \<Rightarrow> 'b world \<Rightarrow>
   (sshrack_error + vault_key) \<times> 'b world" where
  "unlock_with_passphrase X ve meta passphrase cache_path w =
     (case derive_key X passphrase meta of
        Inl e \<Rightarrow> (Inl e, w)
      | Inr key \<Rightarrow>
          (case verifier meta of
             None \<Rightarrow> (Inl VaultUnlockFailed, w)
           | Some v \<Rightarrow>
               if decrypt X v key = None then (Inl VaultUnlockFailed, w)
               else case cache_path_or_default ve cache_path of
                 Some p \<Rightarrow> (Inr key, snd (write_cache (ve_fails ve) p key (cache_ttl_secs meta) w))
               | None \<Rightarrow> (Inr key, w)))"

definition cached_key_is_valid :: "crates \<Rightarrow> vault_key \<Rightarrow> vault_meta \<Rightarrow> bool" where
  "cached_key_is_valid X key meta =
     (case verifier meta of Some v \<Rightarrow> decrypt X v key \<noteq> None | None \<Rightarrow> False)"

definition cached_key ::
  "crates \<Rightarrow> vault_env \<Rightarrow> vault_meta \<Rightarrow> string option \<Rightarrow> 'b world \<Rightarrow> vault_key option" where
  "cached_key X ve meta cache_path w =
     (case cache_path_or_default ve cache_path of
        None \<Rightarrow> None
      | Some p \<Rightarrow>
          (case read_cache p (cache_ttl_secs meta) w of
             None \<Rightarrow> None
           | Some key \<Rightarrow> if cached_key_is_valid X key meta then Some key else None))"

definition unlock ::
  "crates \<Rightarrow> vault_env \<Rightarrow> sshrack_config \<Rightarrow> string option \<Rightarrow> string option \<Rightarrow> passphrase_provider \<Rightarrow>
   'b world \<Rightarrow> (sshrack_error + vault_key option) \<times> 'b world" where
  "unlock X ve cfg cache_path env_passphrase provider w =
     (case vault_meta_of cfg of
        None \<Rightarrow> (Inr None, w)
      | Some meta \<Rightarrow>
          (case cached_key X ve meta cache_path w of
             Some key \<Rightarrow> (Inr (Some key), w)
           | None \<Rightarrow>
               (case (case env_passphrase of Some p \<Rightarrow> Inr p | None \<Rightarrow> pp_passphrase provider) of
                  Inl e \<Rightarrow> (Inl e, w)
                | Inr passphrase \<Rightarrow>
                    (case unlock_with_passphrase X ve meta passphrase cache_path w of
                       (Inl e, w') \<Rightarrow> (Inl e, w')
                     | (Inr key, w') \<Rightarrow> (Inr (Some key), w')))))"

definition ensure_unlocked_vault_key ::
  "crates \<Rightarrow> vault_env \<Rightarrow> sshrack_config \<Rightarrow> string option \<Rightarrow> passphrase_provider \<Rightarrow>
   'b world \<Rightarrow> (sshrack_error + vault_key option) \<times> 'b world" where
  "ensure_unlocked_vault_key X ve cfg env_passphrase provider w =
     (if \<not> is_vault cfg then (Inr None, w)
      else case unlock X ve cfg None env_passphrase provider w of
        (Inl e, w') \<Rightarrow> (Inl e, w')
      | (Inr (Some k), w') \<Rightarrow> (Inr (Some k), w')
      | (Inr None, w') \<Rightarrow> (Inl VaultLocked, w'))"

section \<open>Enabling\<close>

definition enable ::
  "crates \<Rightarrow> 'b backend \<Rightarrow> string \<Rightarrow> 64 word option \<Rightarrow> sshrack_config \<Rightarrow> 'b world \<Rightarrow>
   (sshrack_error + vault_key) \<times> sshrack_config \<times> 'b world" where
  "enable X be passphrase ttl cfg w =
     (case x_getrandom X (w_draws w) 16 of
        None \<Rightarrow> (Inl EncryptionFailed, cfg, w\<lparr>w_draws := Suc (w_draws w)\<rparr>)
      | Some sb \<Rightarrow>
          (let w1 = w\<lparr>w_draws := Suc (w_draws w)\<rparr>;
               meta0 = default_argon2id (x_b64_encode X sb);
               meta1 = (case ttl of Some secs \<Rightarrow> meta0\<lparr>cache_ttl_secs := secs\<rparr> | None \<Rightarrow> meta0)
           in case derive_key X passphrase meta1 of
                Inl e \<Rightarrow> (Inl e, cfg, w1)
              | Inr key \<Rightarrow>
                  (case encrypt_w X VERIFIER_PLAINTEXT key w1 of
                     (Inl e, w2) \<Rightarrow> (Inl e, cfg, w2)
                   | (Inr v, w2) \<Rightarrow>
                       (let target = StoreVault (meta1\<lparr>verifier := Some v\<rparr>)
                        in case migrate X be target None (Some key) cfg w2 of
                             (Inl e, cfg', w3) \<Rightarrow> (Inl e, cfg', w3)
                           | (Inr _, cfg', w3) \<Rightarrow> (Inr key, cfg'\<lparr>store := Some target\<rparr>, w3)))))"

section \<open>Sealing\<close>

definition seal_password ::
  "crates \<Rightarrow> 'b backend \<Rightarrow> string \<Rightarrow> owner_kind \<Rightarrow> ulid \<Rightarrow> sshrack_config \<Rightarrow> vault_key option \<Rightarrow>
   'b world \<Rightarrow> (sshrack_error + secret option) \<times> 'b world" where
  "seal_password X be plain k u cfg vk w =
     (case store cfg of
        Some (StoreVault _) \<Rightarrow>
          (case finalize_password X plain cfg vk w of
             (Inl e, w1) \<Rightarrow> (Inl e, w1) | (Inr s, w1) \<Rightarrow> (Inr (Some s), w1))
      | Some StoreKeyring \<Rightarrow>
          (case set_at_w be (keyring_key k u) plain w of
             (Inl e, w1) \<Rightarrow> (Inl e, w1) | (Inr _, w1) \<Rightarrow> (Inr None, w1))
      | _ \<Rightarrow>
          (case finalize_password X plain cfg None w of
             (Inl e, w1) \<Rightarrow> (Inl e, w1) | (Inr s, w1) \<Rightarrow> (Inr (Some s), w1)))"

text \<open>One half of a pasted key outside keyring mode: a text in the clear is finalised, anything else is
kept.\<close>

definition finalize_half ::
  "crates \<Rightarrow> secret option \<Rightarrow> sshrack_config \<Rightarrow> vault_key option \<Rightarrow> 'b world \<Rightarrow>
   (sshrack_error + secret option) \<times> 'b world" where
  "finalize_half X h cfg vk w =
     (case h of
        Some (Plain p) \<Rightarrow>
          (case finalize_secret X p cfg vk w of
             (Inl e, w1) \<Rightarrow> (Inl e, w1) | (Inr s, w1) \<Rightarrow> (Inr (Some s), w1))
      | _ \<Rightarrow> (Inr h, w))"

text \<open>One half in keyring mode: a text in the clear moves to its slot.\<close>

definition store_half ::
  "'b backend \<Rightarrow> string \<Rightarrow> secret option \<Rightarrow> 'b world \<Rightarrow> (sshrack_error + secret option) \<times> 'b world" where
  "store_half be key h w =
     (case h of
        Some (Plain p) \<Rightarrow>
          (case set_at_w be key p w of
             (Inl e, w1) \<Rightarrow> (Inl e, w1) | (Inr _, w1) \<Rightarrow> (Inr None, w1))
      | _ \<Rightarrow> (Inr h, w))"

definition seal_inline_key ::
  "crates \<Rightarrow> 'b backend \<Rightarrow> inline_key \<Rightarrow> owner_kind \<Rightarrow> ulid \<Rightarrow> sshrack_config \<Rightarrow> vault_key option \<Rightarrow>
   'b world \<Rightarrow> (sshrack_error + inline_key) \<times> 'b world" where
  "seal_inline_key X be ik k u cfg vk w =
     (if is_keyring cfg
      then (case store_half be (keyring_key_inline_priv k u) (ik_private_key ik) w of
              (Inl e, w1) \<Rightarrow> (Inl e, w1)
            | (Inr priv, w1) \<Rightarrow>
                (case store_half be (keyring_key_inline_cert k u) (ik_certificate ik) w1 of
                   (Inl e, w2) \<Rightarrow> (Inl e, w2)
                 | (Inr cert, w2) \<Rightarrow>
                     (Inr (ik\<lparr>ik_private_key := priv, ik_certificate := cert, ik_keyring := True\<rparr>), w2)))
      else (case finalize_half X (ik_private_key ik) cfg vk w of
              (Inl e, w1) \<Rightarrow> (Inl e, w1)
            | (Inr priv, w1) \<Rightarrow>
                (case finalize_half X (ik_certificate ik) cfg vk w1 of
                   (Inl e, w2) \<Rightarrow> (Inl e, w2)
                 | (Inr cert, w2) \<Rightarrow> (Inr (ik\<lparr>ik_private_key := priv, ik_certificate := cert\<rparr>), w2))))"

definition seal_body ::
  "crates \<Rightarrow> 'b backend \<Rightarrow> credential_body \<Rightarrow> owner_kind \<Rightarrow> ulid \<Rightarrow> sshrack_config \<Rightarrow> vault_key option \<Rightarrow>
   'b world \<Rightarrow> (sshrack_error + credential_body) \<times> 'b world" where
  "seal_body X be b k u cfg vk w =
     (case (case b_password b of
              Some (Plain p) \<Rightarrow> seal_password X be p k u cfg vk w
            | other \<Rightarrow> (Inr other, w)) of
        (Inl e, w1) \<Rightarrow> (Inl e, w1)
      | (Inr pw, w1) \<Rightarrow>
          (case (case b_key b of
                   Some (KeyInline ik) \<Rightarrow>
                     (case seal_inline_key X be ik k u cfg vk w1 of
                        (Inl e, w2) \<Rightarrow> (Inl e, w2)
                      | (Inr ik', w2) \<Rightarrow> (Inr (Some (KeyInline ik')), w2))
                 | other \<Rightarrow> (Inr other, w1)) of
             (Inl e, w2) \<Rightarrow> (Inl e, w2)
           | (Inr key, w2) \<Rightarrow>
               (Inr \<lparr>b_user = b_user b, b_password = pw, b_key = key,
                     b_keyring = is_keyring cfg \<and> b_key b = None \<and> pw = None
                       \<and> ((case b_password b of Some (Plain _) \<Rightarrow> True | _ \<Rightarrow> False) \<or> b_keyring b)\<rparr>, w2)))"

definition seal_auth ::
  "crates \<Rightarrow> 'b backend \<Rightarrow> auth \<Rightarrow> owner_kind \<Rightarrow> ulid \<Rightarrow> sshrack_config \<Rightarrow> vault_key option \<Rightarrow>
   'b world \<Rightarrow> (sshrack_error + auth) \<times> 'b world" where
  "seal_auth X be a k u cfg vk w =
     (case a of
        AuthInline b \<Rightarrow>
          (case seal_body X be b k u cfg vk w of
             (Inl e, w1) \<Rightarrow> (Inl e, w1) | (Inr b', w1) \<Rightarrow> (Inr (AuthInline b'), w1))
      | AuthRef r \<Rightarrow> (Inr (AuthRef r), w))"

section \<open>What sealing establishes\<close>

text \<open>A freshly collected body: no marker and nothing encrypted.\<close>

definition fresh_body :: "credential_body \<Rightarrow> bool" where
  "fresh_body b \<longleftrightarrow>
     \<not> b_keyring b \<and> \<not> opt_encrypted (b_password b)
     \<and> (case b_key b of
          Some (KeyInline ik) \<Rightarrow>
            \<not> ik_keyring ik \<and> \<not> opt_encrypted (ik_private_key ik) \<and> \<not> opt_encrypted (ik_certificate ik)
        | _ \<Rightarrow> True)"

text \<open>The mode in effect: an undecided configuration stores in the clear.\<close>

definition mode_of :: "sshrack_config \<Rightarrow> secret_store" where
  "mode_of cfg = (case store cfg of Some t \<Rightarrow> t | None \<Rightarrow> StorePlaintext)"

lemma is_keyring_mode: "is_keyring cfg \<longleftrightarrow> mode_of cfg = StoreKeyring"
  by (auto simp: is_keyring_def mode_of_def split: option.splits)

lemma opt_plain_cases:
  "\<not> opt_encrypted h \<Longrightarrow> h = None \<or> (\<exists>p. h = Some (Plain p))"
  by (cases h) (auto simp: opt_encrypted_def split: secret.splits, metis is_encrypted.simps(1) secret.exhaust)

context secret_backend
begin

lemma finalize_secret_ok:
  assumes "crates_ok X" "finalize_secret X p cfg vk w = (Inr s, w')" "\<not> is_keyring cfg"
  shows "contents w' = contents w" and "secret_text X vk s = Some p"
    and "sealed_opt (mode_of cfg) (Some s)"
  using assms
  by (auto simp: finalize_secret_def mode_of_def is_keyring_def
      split: option.splits secret_store.splits sum.splits prod.splits
      dest: encrypt_w_contents encrypt_w_Inr)

lemma finalize_half_ok:
  assumes "crates_ok X" "finalize_half X h cfg vk w = (Inr h', w')" "\<not> is_keyring cfg" "\<not> opt_encrypted h"
  shows "contents w' = contents w"
    and "Option.bind h' (secret_text X vk) = Option.bind h (secret_text X vk')"
    and "sealed_opt (mode_of cfg) h'" and "h' = None \<longleftrightarrow> h = None"
proof -
  have "contents w' = contents w \<and> Option.bind h' (secret_text X vk) = Option.bind h (secret_text X vk')
      \<and> sealed_opt (mode_of cfg) h' \<and> (h' = None \<longleftrightarrow> h = None)"
  proof (cases h)
    case None
    then show ?thesis using assms(2,3) by (cases "mode_of cfg") (auto simp: finalize_half_def is_keyring_mode)
  next
    case (Some x)
    then obtain p where h: "h = Some (Plain p)" using opt_plain_cases[OF assms(4)] by auto
    then obtain s where s: "finalize_secret X p cfg vk w = (Inr s, w')" "h' = Some s"
      using assms(2) by (auto simp: finalize_half_def split: sum.splits prod.splits)
    show ?thesis using finalize_secret_ok[OF assms(1) s(1) assms(3)] s(2) h by simp
  qed
  then show "contents w' = contents w"
    and "Option.bind h' (secret_text X vk) = Option.bind h (secret_text X vk')"
    and "sealed_opt (mode_of cfg) h'" and "h' = None \<longleftrightarrow> h = None" by blast+
qed

lemma store_half_ok:
  assumes "store_half be key h w = (Inr h', w')" "\<not> opt_encrypted h"
  shows "h' = None"
    and "contents w' = (case h of Some (Plain p) \<Rightarrow> (contents w)(key \<mapsto> p) | _ \<Rightarrow> contents w)"
  using assms opt_plain_cases[OF assms(2)]
  by (auto simp: store_half_def split: sum.splits prod.splits dest: set_at_w_ok)

lemma finalize_password_is_secret: "finalize_password X p cfg vk w = finalize_secret X p cfg vk w"
  unfolding finalize_password_def finalize_secret_def by (rule refl)

lemma seal_password_ok:
  assumes "crates_ok X" "seal_password X be p k u cfg vk w = (Inr s, w')"
  shows "frame {keyring_key k u} (contents w) (contents w')"
    and "is_keyring cfg \<Longrightarrow> s = None \<and> contents w' (keyring_key k u) = Some p"
    and "\<not> is_keyring cfg \<Longrightarrow> Option.bind s (secret_text X vk) = Some p"
    and "sealed_opt (mode_of cfg) s"
proof -
  consider (kr) "store cfg = Some StoreKeyring" | (vault) meta where "store cfg = Some (StoreVault meta)"
    | (plain) "store cfg = None \<or> store cfg = Some StorePlaintext"
    by (cases "store cfg") (auto intro: secret_store.exhaust)
  then have "frame {keyring_key k u} (contents w) (contents w')
     \<and> (is_keyring cfg \<longrightarrow> s = None \<and> contents w' (keyring_key k u) = Some p)
     \<and> (\<not> is_keyring cfg \<longrightarrow> Option.bind s (secret_text X vk) = Some p) \<and> sealed_opt (mode_of cfg) s"
  proof cases
    case kr
    then show ?thesis
      using assms(2) by (auto simp: seal_password_def is_keyring_def mode_of_def frame_def
          split: sum.splits prod.splits dest!: set_at_w_ok)
  next
    case (vault meta)
    then obtain x where x: "finalize_secret X p cfg vk w = (Inr x, w')" "s = Some x"
      using assms(2) by (auto simp: seal_password_def finalize_password_is_secret split: sum.splits prod.splits)
    have "\<not> is_keyring cfg" using vault by (simp add: is_keyring_def)
    then show ?thesis using finalize_secret_ok[OF assms(1) x(1)] x(2) by simp
  next
    case plain
    then obtain x where x: "finalize_secret X p cfg None w = (Inr x, w')" "s = Some x"
      using assms(2) by (auto simp: seal_password_def finalize_password_is_secret split: sum.splits prod.splits)
    then have "x = Plain p" "w' = w" using plain by (auto simp: finalize_secret_def)
    then show ?thesis using plain x(2) by (auto simp: is_keyring_def mode_of_def)
  qed
  then show "frame {keyring_key k u} (contents w) (contents w')"
    and "is_keyring cfg \<Longrightarrow> s = None \<and> contents w' (keyring_key k u) = Some p"
    and "\<not> is_keyring cfg \<Longrightarrow> Option.bind s (secret_text X vk) = Some p"
    and "sealed_opt (mode_of cfg) s" by blast+
qed

text \<open>A fresh pasted key is readable after sealing, provided that no stale certificate sits in the slot
of a key without one.\<close>

lemma seal_inline_key_ok:
  assumes X: "crates_ok X"
    and fresh: "\<not> ik_keyring ik" "\<not> opt_encrypted (ik_private_key ik)" "\<not> opt_encrypted (ik_certificate ik)"
    and wf: "ik_private_key ik \<noteq> None"
    and stale: "ik_certificate ik = None \<Longrightarrow> contents w (keyring_key_inline_cert k u) = None"
    and run: "seal_inline_key X be ik k u cfg vk w = (Inr ik', w')"
    and b: "b_key b = Some (KeyInline ik)" and b': "b_key b' = Some (KeyInline ik')"
  shows "frame {keyring_key_inline_priv k u, keyring_key_inline_cert k u} (contents w) (contents w')"
    and "private_view X vk (contents w') k u b' = private_view X vk' (contents w) k u b"
    and "certificate_view X vk (contents w') k u b' = certificate_view X vk' (contents w) k u b"
    and "inline_key_wf ik'" and "ik_keyring ik' \<longleftrightarrow> is_keyring cfg"
    and "sealed_opt (mode_of cfg) (ik_private_key ik')" "sealed_opt (mode_of cfg) (ik_certificate ik')"
    and "slots_ok (contents w') k u b'"
proof -
  obtain p where p: "ik_private_key ik = Some (Plain p)" using opt_plain_cases[OF fresh(2)] wf by auto
  have all: "frame {keyring_key_inline_priv k u, keyring_key_inline_cert k u} (contents w) (contents w')
      \<and> private_view X vk (contents w') k u b' = private_view X vk' (contents w) k u b
      \<and> certificate_view X vk (contents w') k u b' = certificate_view X vk' (contents w) k u b
      \<and> inline_key_wf ik' \<and> (ik_keyring ik' \<longleftrightarrow> is_keyring cfg)
      \<and> sealed_opt (mode_of cfg) (ik_private_key ik') \<and> sealed_opt (mode_of cfg) (ik_certificate ik')
      \<and> slots_ok (contents w') k u b'"
  proof (cases "is_keyring cfg")
    case True
    obtain priv w1 cert where
      1: "store_half be (keyring_key_inline_priv k u) (ik_private_key ik) w = (Inr priv, w1)" and
      2: "store_half be (keyring_key_inline_cert k u) (ik_certificate ik) w1 = (Inr cert, w')" and
      ik': "ik' = ik\<lparr>ik_private_key := priv, ik_certificate := cert, ik_keyring := True\<rparr>"
      using run True by (auto simp: seal_inline_key_def split: sum.splits prod.splits)
    note s1 = store_half_ok[OF 1 fresh(2)] and s2 = store_half_ok[OF 2 fresh(3)]
    have m: "mode_of cfg = StoreKeyring" using True by (simp add: is_keyring_mode)
    show ?thesis
      using s1 s2 p ik' b b' True m stale fresh opt_plain_cases[OF fresh(3)]
      by (auto simp: frame_def private_view_def certificate_view_def inline_key_wf_def slots_ok_def)
  next
    case False
    obtain priv w1 cert where
      1: "finalize_half X (ik_private_key ik) cfg vk w = (Inr priv, w1)" and
      2: "finalize_half X (ik_certificate ik) cfg vk w1 = (Inr cert, w')" and
      ik': "ik' = ik\<lparr>ik_private_key := priv, ik_certificate := cert\<rparr>"
      using run False by (auto simp: seal_inline_key_def split: sum.splits prod.splits)
    note s1 = finalize_half_ok(1,3,4)[OF X 1 False fresh(2)] finalize_half_ok(2)[OF X 1 False fresh(2), of vk']
      and s2 = finalize_half_ok(1,3,4)[OF X 2 False fresh(3)] finalize_half_ok(2)[OF X 2 False fresh(3), of vk']
    show ?thesis
      using s1 s2 p ik' b b' False stale fresh
      by (auto simp: private_view_def certificate_view_def inline_key_wf_def slots_ok_def)
  qed
  then show "frame {keyring_key_inline_priv k u, keyring_key_inline_cert k u} (contents w) (contents w')"
    and "private_view X vk (contents w') k u b' = private_view X vk' (contents w) k u b"
    and "certificate_view X vk (contents w') k u b' = certificate_view X vk' (contents w) k u b"
    and "inline_key_wf ik'" and "ik_keyring ik' \<longleftrightarrow> is_keyring cfg"
    and "sealed_opt (mode_of cfg) (ik_private_key ik')" "sealed_opt (mode_of cfg) (ik_certificate ik')"
    and "slots_ok (contents w') k u b'" by blast+
qed

lemma seal_body_inline_ok:
  assumes X: "crates_ok X" and b: "body_wf b" "fresh_body b" "slots_ok (contents w) k u b"
    and ik: "b_key b = Some (KeyInline ik)"
    and run: "seal_body X be b k u cfg vk w = (Inr b', w')"
  shows "body_view X vk (contents w') k u b' = body_view X vk' (contents w) k u b \<and> body_wf b'
    \<and> body_sealed (mode_of cfg) b' \<and> slots_ok (contents w') k u b'
    \<and> frame (owner_slots k u) (contents w) (contents w')"
proof -
  have no: "b_password b = None" "\<not> b_keyring b" using b(1) ik by (auto simp: body_wf_def)
  have nb: "b_password b = None \<and> \<not> b_keyring b" using no by simp
  obtain ik' where r: "seal_inline_key X be ik k u cfg vk w = (Inr ik', w')"
    and b': "b' = \<lparr>b_user = b_user b, b_password = None, b_key = Some (KeyInline ik'), b_keyring = False\<rparr>"
    using run ik no by (auto simp: seal_body_def split: sum.splits prod.splits)
  have f: "\<not> ik_keyring ik" "\<not> opt_encrypted (ik_private_key ik)" "\<not> opt_encrypted (ik_certificate ik)"
    using b(2) ik by (auto simp: fresh_body_def)
  have "ik_private_key ik \<noteq> None" using b(1) ik f(1) by (auto simp: body_wf_def inline_key_wf_def)
  moreover have "ik_certificate ik = None \<Longrightarrow> contents w (keyring_key_inline_cert k u) = None"
    using b(3) ik f(1) by (auto simp: slots_ok_def)
  ultimately have s:
    "frame {keyring_key_inline_priv k u, keyring_key_inline_cert k u} (contents w) (contents w')"
    "private_view X vk (contents w') k u b' = private_view X vk' (contents w) k u b"
    "certificate_view X vk (contents w') k u b' = certificate_view X vk' (contents w) k u b"
    "inline_key_wf ik'" "ik_keyring ik' \<longleftrightarrow> is_keyring cfg"
    "sealed_opt (mode_of cfg) (ik_private_key ik')" "sealed_opt (mode_of cfg) (ik_certificate ik')"
    "slots_ok (contents w') k u b'"
    using seal_inline_key_ok[OF X f _ _ r ik, of b'] b' by simp_all
  have "frame (owner_slots k u) (contents w) (contents w')"
    by (rule frame_mono[OF s(1)]) (auto simp: owner_slots_def)
  moreover have "sealed_opt (mode_of cfg) None" by (cases "mode_of cfg") auto
  ultimately show ?thesis
    using s b' ik no
    by (auto simp: body_view_def password_view_def key_path_of_def body_wf_def body_sealed_def is_keyring_mode)
qed

lemma seal_body_no_inline_ok:
  assumes X: "crates_ok X" and b: "body_wf b" "fresh_body b"
    and nik: "\<nexists>ik. b_key b = Some (KeyInline ik)"
    and run: "seal_body X be b k u cfg vk w = (Inr b', w')"
  shows "body_view X vk (contents w') k u b' = body_view X vk' (contents w) k u b \<and> body_wf b'
    \<and> body_sealed (mode_of cfg) b' \<and> slots_ok (contents w') k u b'
    \<and> frame (owner_slots k u) (contents w) (contents w')"
proof (cases "b_password b")
  case None
  have nk: "\<not> b_keyring b" using b(2) by (simp add: fresh_body_def)
  have "b' = b\<lparr>b_keyring := False\<rparr>" "w' = w"
    using run None nk nik by (auto simp: seal_body_def split: option.splits key_source.splits)
  moreover have "sealed_opt (mode_of cfg) None" by (cases "mode_of cfg") auto
  ultimately show ?thesis
    using None nk nik b(1)
    by (auto simp: body_view_def password_view_def private_view_def certificate_view_def key_path_of_def
        body_wf_def body_sealed_def slots_ok_def split: option.splits key_source.splits)
next
  case (Some x)
  have ne: "\<not> opt_encrypted (b_password b)" using b(2) by (simp add: fresh_body_def)
  obtain p where p: "b_password b = Some (Plain p)" using opt_plain_cases[OF ne] Some by auto
  have k: "b_key b = None" "\<not> b_keyring b" using b(1) p by (auto simp: body_wf_def)
  obtain pw where r: "seal_password X be p k u cfg vk w = (Inr pw, w')"
    and b': "b' = \<lparr>b_user = b_user b, b_password = pw, b_key = None, b_keyring = is_keyring cfg \<and> pw = None\<rparr>"
    using run p k by (auto simp: seal_body_def split: sum.splits prod.splits)
  note s = seal_password_ok[OF X r]
  have "frame (owner_slots k u) (contents w) (contents w')"
    by (rule frame_mono[OF s(1)]) (auto simp: owner_slots_def)
  then show ?thesis
    using s b' p k
    by (auto simp: body_view_def password_view_def private_view_def certificate_view_def key_path_of_def
        body_wf_def body_sealed_def slots_ok_def is_keyring_mode)
qed

end

section \<open>Sealing what is already sealed\<close>

lemma seal_password_sealed:
  assumes "sealed_opt (mode_of cfg) s"
  shows "(case s of Some (Plain p) \<Rightarrow> seal_password X be p k u cfg vk w | other \<Rightarrow> (Inr other, w)) = (Inr s, w)"
  using assms
  by (cases "mode_of cfg")
     (auto simp: mode_of_def seal_password_def finalize_password_def split: option.splits secret.splits)

lemma finalize_half_sealed:
  assumes "sealed_opt (mode_of cfg) h"
  shows "finalize_half X h cfg vk w = (Inr h, w)"
  using assms
  by (cases "mode_of cfg")
     (auto simp: mode_of_def finalize_half_def finalize_secret_def split: option.splits secret.splits)

lemma seal_inline_sealed:
  assumes "sealed_opt (mode_of cfg) (ik_private_key ik)" "sealed_opt (mode_of cfg) (ik_certificate ik)"
    and "ik_keyring ik \<longleftrightarrow> mode_of cfg = StoreKeyring"
  shows "seal_inline_key X be ik k u cfg vk w = (Inr ik, w)"
proof (cases "is_keyring cfg")
  case True
  then have "ik_private_key ik = None" "ik_certificate ik = None" "ik_keyring ik"
    using assms by (auto simp: is_keyring_mode)
  then show ?thesis using True by (simp add: seal_inline_key_def store_half_def)
next
  case False
  then show ?thesis
    by (simp add: seal_inline_key_def finalize_half_sealed[OF assms(1)] finalize_half_sealed[OF assms(2)])
qed

lemma derive_key_verifier [simp]: "derive_key X pw (meta\<lparr>verifier := v\<rparr>) = derive_key X pw meta"
  by (simp add: derive_key_def supports_kdf_def cong: option.case_cong if_cong)

section \<open>Properties of sealing and unlocking\<close>

text \<open>C14: sealing a freshly collected secret loses nothing.  Take a valid body that the caller collected in the
clear, for an owner whose keyring slots hold no certificate left over from an older key when the body pastes a key
without one (keyring mode would read that certificate together with the new key).  Then, whatever the storage
mode, the sealed body has the same plain-text view under the vault key, is valid, in the representation of the
mode and in step with its slots, and no slot of another owner was touched.\<close>

theorem seal_body_roundtrip:
  assumes "secret_backend be ent" "crates_ok X"
    and "body_wf b" "fresh_body b" "slots_ok (ent (w_backend w)) k u b"
    and "seal_body X be b k u cfg vk w = (Inr b', w')"
  shows "body_view X vk (ent (w_backend w')) k u b' = body_view X vk' (ent (w_backend w)) k u b
    \<and> body_wf b' \<and> body_sealed (mode_of cfg) b' \<and> slots_ok (ent (w_backend w')) k u b'
    \<and> frame (owner_slots k u) (ent (w_backend w)) (ent (w_backend w'))"
  using secret_backend.seal_body_inline_ok[OF assms(1-4) _ _ assms(6)]
    secret_backend.seal_body_no_inline_ok[OF assms(1-4) _ assms(6)] assms(5)
  by (cases "\<exists>ik. b_key b = Some (KeyInline ik)") (auto simp: secret_backend.contents_def[OF assms(1)])

definition demo_inline_body :: credential_body where
  "demo_inline_body = with_inline_key (Plain ''KEY'') (Some (Plain ''CERT'')) (body_new ''ci'')"

theorem seal_body_roundtrip_witness:
  "let cfg = default_config\<lparr>store := Some StoreKeyring\<rparr>;
       r = seal_body demo_crates fake_backend demo_inline_body OwnerCredential (demo_ids ! 1) cfg None demo_world;
       b' = projr (fst r)
   in is_ok (fst r)
      \<and> body_view demo_crates None (fake_view (w_backend (snd r))) OwnerCredential (demo_ids ! 1) b'
          = body_view demo_crates None (fake_view (w_backend demo_world)) OwnerCredential (demo_ids ! 1)
              demo_inline_body
      \<and> body_sealed StoreKeyring b'"
proof -
  let ?cfg = "default_config\<lparr>store := Some StoreKeyring\<rparr>"
  have "is_ok (fst (seal_body demo_crates fake_backend demo_inline_body OwnerCredential (demo_ids ! 1) ?cfg None
      demo_world))" by code_simp
  then obtain b' w' where r: "seal_body demo_crates fake_backend demo_inline_body OwnerCredential
      (demo_ids ! 1) ?cfg None demo_world = (Inr b', w')" by (metis is_ok_iff prod.collapse)
  have "body_wf demo_inline_body" "fresh_body demo_inline_body"
    "slots_ok (fake_view (w_backend demo_world)) OwnerCredential (demo_ids ! 1) demo_inline_body"
    by (simp_all add: demo_inline_body_def fresh_body_def with_inline_key_def slots_ok_def
        body_wf_def inline_key_wf_def)
  from seal_body_roundtrip[OF fake.secret_backend_axioms demo_crates_ok this r, of None]
  show ?thesis by (simp add: Let_def r mode_of_def del: One_nat_def)
qed

text \<open>Sealing in keyring mode does not clear the certificate slot of a pasted key that has no
certificate. An owner whose slot still holds the certificate of an earlier key therefore pairs the new
key with the old certificate.\<close>

theorem seal_keyring_keeps_old_certificate:
  assumes "reliable_backend be ent" "is_keyring cfg"
    and "b_key b = Some (KeyInline ik)" "ik_private_key ik = Some (Plain p)" "ik_certificate ik = None"
    and "b_password b = None"
    and "ent (w_backend w) (keyring_key_inline_cert k u) = Some old"
  shows "\<exists>b' w'. seal_body X be b k u cfg vk w = (Inr b', w')
    \<and> private_view X vk (ent (w_backend w')) k u b' = Some p
    \<and> certificate_view X vk (ent (w_backend w')) k u b' = Some old"
proof -
  have sb: "secret_backend be ent" using assms(1) by (rule reliable_backend.axioms(1))
  obtain w' where s: "set_at_w be (keyring_key_inline_priv k u) p w = (Inr (), w')"
    using reliable_backend.set_at_w_total[OF assms(1)] by blast
  have c: "ent (w_backend w') = (ent (w_backend w))(keyring_key_inline_priv k u \<mapsto> p)"
    using secret_backend.set_at_w_ok[OF sb s] by (simp add: secret_backend.contents_def[OF sb])
  let ?b' = "\<lparr>b_user = b_user b, b_password = None,
     b_key = Some (KeyInline (ik\<lparr>ik_private_key := None, ik_certificate := None, ik_keyring := True\<rparr>)),
     b_keyring = False\<rparr>"
  have "seal_body X be b k u cfg vk w = (Inr ?b', w')"
    using assms(2-6) s by (simp add: seal_body_def seal_inline_key_def store_half_def)
  then show ?thesis
    using c assms(7) by (auto simp: private_view_def certificate_view_def)
qed

definition demo_stale_world :: "fake_state world" where
  "demo_stale_world = demo_world\<lparr>w_backend :=
     \<lparr>fk_entries = [(keyring_key_inline_cert OwnerCredential (demo_ids ! 1), ''OLDCERT'')], fk_available = True\<rparr>\<rparr>"

theorem seal_keyring_keeps_old_certificate_witness:
  "\<exists>b' w'. seal_body demo_crates fake_backend (with_inline_key (Plain ''KEY'') None (body_new ''ci''))
       OwnerCredential (demo_ids ! 1) (default_config\<lparr>store := Some StoreKeyring\<rparr>) None demo_stale_world
       = (Inr b', w')
     \<and> private_view demo_crates None (fake_view (w_backend w')) OwnerCredential (demo_ids ! 1) b' = Some ''KEY''
     \<and> certificate_view demo_crates None (fake_view (w_backend w')) OwnerCredential (demo_ids ! 1) b' = Some ''OLDCERT''"
  by (rule seal_keyring_keeps_old_certificate[OF fake.reliable_backend_axioms, of _ _
        "\<lparr>ik_private_key = Some (Plain ''KEY''), ik_certificate = None, ik_keyring = False\<rparr>"])
     (simp_all add: is_keyring_def with_inline_key_def body_new_def demo_stale_world_def fake_view_def)

text \<open>Saving an entry that was not touched is a no-op: a valid body that is already in the
representation of the storage mode comes back unchanged and nothing is written.\<close>

theorem seal_body_idempotent:
  assumes "body_wf b" "body_sealed (mode_of cfg) b"
  shows "seal_body X be b k u cfg vk w = (Inr b, w)"
proof -
  have pw: "(case b_password b of Some (Plain p) \<Rightarrow> seal_password X be p k u cfg vk w | other \<Rightarrow> (Inr other, w))
      = (Inr (b_password b), w)"
    by (rule seal_password_sealed) (use assms in \<open>auto simp: body_sealed_def\<close>)
  have kr: "(is_keyring cfg \<and> b_key b = None \<and> b_password b = None
      \<and> ((case b_password b of Some (Plain _) \<Rightarrow> True | _ \<Rightarrow> False) \<or> b_keyring b)) = b_keyring b"
    using assms by (auto simp: body_sealed_def body_wf_def is_keyring_mode)
  show ?thesis
  proof (cases "\<exists>ik. b_key b = Some (KeyInline ik)")
    case True
    then obtain ik where ik: "b_key b = Some (KeyInline ik)" by auto
    have "seal_inline_key X be ik k u cfg vk w = (Inr ik, w)"
      by (rule seal_inline_sealed) (use assms ik in \<open>auto simp: body_sealed_def body_wf_def\<close>)
    then show ?thesis using ik kr by (simp add: seal_body_def pw)
  next
    case False
    then show ?thesis
      using kr by (cases "b_key b") (auto simp: seal_body_def pw split: key_source.splits)
  qed
qed

theorem seal_body_idempotent_witness:
  "seal_body demo_crates fake_backend (with_password ''hunter2'' (body_new ''ops'')) OwnerCredential
     (demo_ids ! 0) demo_config None demo_world = (Inr (with_password ''hunter2'' (body_new ''ops'')), demo_world)"
  by (rule seal_body_idempotent)
     (simp, simp add: body_sealed_def mode_of_def demo_config_def with_password_def body_new_def)

text \<open>C10: no key leaves the vault unverified. A key that unlocking returns, from the cache or from a
passphrase, decrypts the verifier of the configuration's vault; no key is returned only when no vault is
active; and a valid cached key is returned as it is, whatever the environment and the prompt would
say.\<close>

theorem unlock_key_verified:
  "(case fst (unlock X ve cfg cp env_pw provider w) of
      Inl _ \<Rightarrow> vault_meta_of cfg \<noteq> None
    | Inr None \<Rightarrow> vault_meta_of cfg = None
    | Inr (Some key) \<Rightarrow>
        \<exists>meta v. vault_meta_of cfg = Some meta \<and> verifier meta = Some v \<and> decrypt X v key \<noteq> None)
   \<and> (case vault_meta_of cfg of
        None \<Rightarrow> unlock X ve cfg cp env_pw provider w = (Inr None, w)
      | Some meta \<Rightarrow>
          cached_key X ve meta cp w = None
          \<or> unlock X ve cfg cp env_pw provider w = (Inr (cached_key X ve meta cp w), w))"
  by (auto simp: unlock_def unlock_with_passphrase_def cached_key_def cached_key_is_valid_def
      split: option.splits sum.splits prod.splits if_splits)

lemma enable_ok:
  assumes "secret_backend be ent" "crates_ok X"
    and "config_wf cfg" "slots_in_step (ent (w_backend w)) cfg"
    and "enable X be pass ttl cfg w = (Inr key, cfg', w')"
  obtains meta v where "store cfg' = Some (StoreVault meta)" "verifier meta = Some v" "decrypt X v key \<noteq> None"
    and "derive_key X pass meta = Inr key"
    and "config_view X (Some key) (ent (w_backend w')) cfg' = config_view X None (ent (w_backend w)) cfg"
    and "config_sealed (StoreVault meta) cfg'" "config_wf cfg'" "slots_in_step (ent (w_backend w')) cfg'"
    and "\<forall>s. ttl = Some s \<longrightarrow> cache_ttl_secs meta = s"
proof -
  obtain sb where sb: "x_getrandom X (w_draws w) 16 = Some sb"
    using assms(5) by (auto simp: enable_def split: option.splits)
  define w1 where "w1 = w\<lparr>w_draws := Suc (w_draws w)\<rparr>"
  define meta1 where "meta1 = (case ttl of Some secs \<Rightarrow> (default_argon2id (x_b64_encode X sb))\<lparr>cache_ttl_secs := secs\<rparr>
       | None \<Rightarrow> default_argon2id (x_b64_encode X sb))"
  note run = assms(5)[unfolded enable_def sb option.case Let_def, folded w1_def meta1_def]
  obtain v w2' n cfg1 where
    k: "derive_key X pass meta1 = Inr key" and
    v: "encrypt_w X VERIFIER_PLAINTEXT key w1 = (Inr v, w2')" and
    m: "migrate X be (StoreVault (meta1\<lparr>verifier := Some v\<rparr>)) None (Some key) cfg w2' = (Inr n, cfg1, w')" and
    c: "cfg' = cfg1\<lparr>store := Some (StoreVault (meta1\<lparr>verifier := Some v\<rparr>))\<rparr>"
    using run by (auto split: sum.splits prod.splits)
  have b: "w_backend w2' = w_backend w" using encrypt_w_Inr(2)[OF assms(2) v] by (simp add: w1_def)
  have dk: "derive_key X pass (meta1\<lparr>verifier := Some v\<rparr>) = Inr key"
    using k by simp
  have dv: "decrypt X v key \<noteq> None" using encrypt_w_Inr(1)[OF assms(2) v] by simp
  have st: "slots_in_step (secret_backend.contents ent w2') cfg"
    using assms(4) b by (simp add: secret_backend.contents_def[OF assms(1)])
  note mo = secret_backend.migrate_ok[OF assms(1,2,3) st m]
  have "config_view X (Some key) (ent (w_backend w')) cfg' = config_view X None (ent (w_backend w)) cfg"
    using mo(1) b by (simp add: c config_view_def secret_backend.contents_def[OF assms(1)])
  moreover have "config_sealed (StoreVault (meta1\<lparr>verifier := Some v\<rparr>)) cfg'"
    using mo(2) by (simp add: c config_sealed_def secret_bodies_def)
  moreover have "config_wf cfg'" using mo(3) by (simp add: c)
  moreover have "slots_in_step (ent (w_backend w')) cfg'"
    using mo(4) by (simp add: c slots_in_step_def secret_backend.contents_def[OF assms(1)])
  ultimately show thesis
    by (intro that[of "meta1\<lparr>verifier := Some v\<rparr>" v]) (use dk dv in \<open>simp_all add: c meta1_def\<close>)
qed

text \<open>C12: enabling the vault and unlocking it agree.  For a well-formed configuration in step with its keyring
slots, the key that \<^verbatim>\<open>enable\<close> returns is the one
that unlocking with the same passphrase derives and verifies from the new configuration, and every
secret of the old configuration reads back under it.\<close>

theorem enable_then_unlock:
  assumes "secret_backend be ent" "crates_ok X"
    and "config_wf cfg" "slots_in_step (ent (w_backend w)) cfg"
    and "enable X be pass ttl cfg w = (Inr key, cfg', w')"
  shows "\<exists>meta. vault_meta_of cfg' = Some meta
    \<and> fst (unlock_with_passphrase X ve meta pass cp w2) = Inr key
    \<and> config_view X (Some key) (ent (w_backend w')) cfg' = config_view X None (ent (w_backend w)) cfg
    \<and> config_sealed (StoreVault meta) cfg' \<and> config_wf cfg'"
proof -
  obtain meta v where m: "store cfg' = Some (StoreVault meta)" "verifier meta = Some v" "decrypt X v key \<noteq> None"
    "derive_key X pass meta = Inr key" and rest:
    "config_view X (Some key) (ent (w_backend w')) cfg' = config_view X None (ent (w_backend w)) cfg"
    "config_sealed (StoreVault meta) cfg'" "config_wf cfg'"
    by (rule enable_ok[OF assms])
  have "fst (unlock_with_passphrase X ve meta pass cp w2) = Inr key"
    using m(2-4) by (simp add: unlock_with_passphrase_def split: option.splits)
  then show ?thesis using m(1) rest by (simp add: vault_meta_of_def)
qed

definition demo_plain_config :: sshrack_config where
  "demo_plain_config = demo_config\<lparr>credentials := take 1 (credentials demo_config)\<rparr>"

lemma demo_plain_config_ok:
  "config_wf demo_plain_config" "slots_in_step (fake_view (w_backend demo_world)) demo_plain_config"
  using demo_config_wf demo_slots_in_step
  by (auto simp: demo_plain_config_def config_wf_def slots_in_step_def list_all_iff
      dest: in_set_takeD)
     (auto simp: demo_config_def)

theorem enable_then_unlock_witness:
  "let r = enable demo_crates fake_backend ''passphrase'' (Some 60) demo_plain_config demo_world;
       key = projr (fst r); cfg' = fst (snd r); w' = snd (snd r)
   in is_ok (fst r) \<and> (\<exists>meta. vault_meta_of cfg' = Some meta
      \<and> fst (unlock_with_passphrase demo_crates \<lparr>ve_default_cache = None, ve_fails = (\<lambda>_. None)\<rparr> meta
               ''passphrase'' None demo_world) = Inr key
      \<and> config_view demo_crates (Some key) (fake_view (w_backend w')) cfg'
          = config_view demo_crates None (fake_view (w_backend demo_world)) demo_plain_config)"
proof -
  have "is_ok (fst (enable demo_crates fake_backend ''passphrase'' (Some 60) demo_plain_config demo_world))"
    by code_simp
  then obtain key cfg' w' where r: "enable demo_crates fake_backend ''passphrase'' (Some 60)
      demo_plain_config demo_world = (Inr key, cfg', w')" by (metis is_ok_iff prod.collapse)
  from enable_then_unlock[OF fake.secret_backend_axioms demo_crates_ok demo_plain_config_ok r,
      of "\<lparr>ve_default_cache = None, ve_fails = (\<lambda>_. None)\<rparr>" None demo_world]
  show ?thesis by (auto simp: Let_def r)
qed

end
