(* ===== verification/Sshargs.thy ===== *)
theory Sshargs
  imports Errors Rust_Text "HOL-Library.Sublist"
begin

text \<open>Raw ssh option flags of a host (\<^verbatim>\<open>sshargs.rs\<close>).  The shell splitter
\<^verbatim>\<open>shlex::split\<close> is a third-party function and an argument here.\<close>

type_synonym splitter = "string \<Rightarrow> string list option"

definition normalize_ssh_args :: "string option \<Rightarrow> string option" where
  "normalize_ssh_args raw =
     (case raw of None \<Rightarrow> None | Some r \<Rightarrow> if trim r = [] then None else Some (trim r))"

definition VALUE_TAKING_FLAGS :: "string list" where
  "VALUE_TAKING_FLAGS = [''-o'', ''-l'', ''-W'', ''-J'', ''-b'', ''-D'', ''-L'', ''-R'', ''-e'', ''-I'']"

definition validate_ssh_args :: "splitter \<Rightarrow> string \<Rightarrow> sshrack_error + unit" where
  "validate_ssh_args sh raw =
     (if list_ex char_is_control raw then Inl (InvalidSshArgs ''control characters are not allowed'')
      else case sh raw of
        None \<Rightarrow> Inl (InvalidSshArgs ''unterminated quote'')
      | Some ts \<Rightarrow>
          if list_ex (\<lambda>t. t = []) ts then Inl (InvalidSshArgs ''empty argument'')
          else if list_ex (starts_with ''--'') ts
          then Inl (InvalidSshArgs ''long options (--...) are not valid ssh flags'')
          else if ts \<noteq> [] \<and> last ts \<in> set VALUE_TAKING_FLAGS
          then Inl (InvalidSshArgs (''option requires a value: '' @ last ts))
          else Inr ())"

definition ssh_args_tokens :: "splitter \<Rightarrow> string \<Rightarrow> string list" where
  "ssh_args_tokens sh raw = (case sh raw of None \<Rightarrow> [] | Some ts \<Rightarrow> ts)"

fun o_options :: "string list \<Rightarrow> string list" where
  "o_options [] = []"
| "o_options [t] =
     (if t = ''-o'' then [] else if starts_with ''-o'' t \<and> 2 < length t then [t] else [])"
| "o_options (t # v # ts) =
     (if t = ''-o'' then t # v # o_options ts
      else if starts_with ''-o'' t \<and> 2 < length t then t # o_options (v # ts)
      else o_options (v # ts))"

definition o_option_tokens :: "splitter \<Rightarrow> string \<Rightarrow> string list" where
  "o_option_tokens sh raw = o_options (ssh_args_tokens sh raw)"

section \<open>What is forwarded\<close>

text \<open>A well-formed option list: pairs \<^verbatim>\<open>-o X\<close> and combined \<^verbatim>\<open>-oX=Y\<close> tokens, no dangling
\<^verbatim>\<open>-o\<close>.\<close>

fun o_groups :: "string list \<Rightarrow> bool" where
  "o_groups [] = True"
| "o_groups (t # ts) =
     (if t = ''-o'' then (case ts of [] \<Rightarrow> False | v # r \<Rightarrow> o_groups r)
      else starts_with ''-o'' t \<and> 2 < length t \<and> o_groups ts)"

lemma o_options_groups: "o_groups (o_options ts)"
  by (induction ts rule: o_options.induct) auto

lemma o_options_subseq: "subseq (o_options ts) ts"
  by (induction ts rule: o_options.induct) auto

lemma o_options_id: "o_groups ts \<Longrightarrow> o_options ts = ts"
  by (induction ts rule: o_options.induct) (auto split: if_splits)

text \<open>Of a host's raw flags scp is given exactly options it accepts. The forwarded tokens are, in
order, among the host's tokens, they form complete \<^verbatim>\<open>-o X\<close> pairs and combined \<^verbatim>\<open>-oX=Y\<close> tokens, and
forwarding them again changes nothing.\<close>

theorem o_option_tokens_safe:
  "o_groups (o_option_tokens sh raw)
   \<and> subseq (o_option_tokens sh raw) (ssh_args_tokens sh raw)
   \<and> o_options (o_option_tokens sh raw) = o_option_tokens sh raw"
  by (simp add: o_option_tokens_def o_options_groups o_options_subseq o_options_id)

text \<open>What the save-time validation accepts.\<close>

lemma validate_ssh_args_iff:
  "validate_ssh_args sh raw = Inr () \<longleftrightarrow>
     (\<exists>ts. sh raw = Some ts \<and> ssh_args_tokens sh raw = ts \<and> list_all (\<lambda>c. \<not> char_is_control c) raw
        \<and> list_all (\<lambda>t. t \<noteq> [] \<and> \<not> starts_with ''--'' t) ts
        \<and> (ts = [] \<or> list_all (\<lambda>f. last ts \<noteq> f) VALUE_TAKING_FLAGS))"
  by (auto simp: validate_ssh_args_def ssh_args_tokens_def list_ex_iff list_all_iff
      split: option.splits if_splits)

lemma trim_nonempty_normalize: "normalize_ssh_args (Some r) = Some t \<Longrightarrow> t \<noteq> []"
  by (auto simp: normalize_ssh_args_def split: if_splits)

end
