(* ===== verification/Suggest.thy ===== *)
theory Suggest
  imports Complex_Main Prelude
begin

text \<open>The did-you-mean lookup (\<^verbatim>\<open>suggest.rs\<close>).  The similarity \<^verbatim>\<open>strsim::jaro_winkler\<close> is a
third-party function and an argument; its scores are compared only, so they are read as rationals.\<close>

type_synonym similarity = "string \<Rightarrow> string \<Rightarrow> rat"

definition SUGGESTION_THRESHOLD :: rat where
  "SUGGESTION_THRESHOLD = 7 / 10"

definition better :: "(string \<times> rat) option \<Rightarrow> string \<times> rat \<Rightarrow> (string \<times> rat) option" where
  "better best cs =
     (case best of
        Some b \<Rightarrow> if snd cs \<le> snd b then best else Some cs
      | None \<Rightarrow> Some cs)"

definition closest :: "similarity \<Rightarrow> string list \<Rightarrow> string \<Rightarrow> string option" where
  "closest jw candidates input =
     (if input = [] \<or> candidates = [] then None
      else map_option fst
             (foldl better None
                (List.filter (\<lambda>cs. SUGGESTION_THRESHOLD \<le> snd cs)
                   (map (\<lambda>c. (c, jw input c)) candidates))))"

text \<open>The fold keeps the first maximum.\<close>

definition first_best :: "(string \<Rightarrow> rat) \<Rightarrow> string list \<Rightarrow> string \<Rightarrow> bool" where
  "first_best f cs c \<longleftrightarrow>
     (\<exists>pre post. cs = pre @ c # post \<and> SUGGESTION_THRESHOLD \<le> f c
        \<and> list_all (\<lambda>d. f d < f c) pre \<and> list_all (\<lambda>d. f d \<le> f c) post)"

lemma first_best_snoc_below:
  "first_best f cs c \<Longrightarrow> f x \<le> f c \<Longrightarrow> first_best f (cs @ [x]) c"
proof -
  assume "first_best f cs c" "f x \<le> f c"
  then obtain pre post where "cs @ [x] = pre @ c # (post @ [x])" "SUGGESTION_THRESHOLD \<le> f c"
    "list_all (\<lambda>d. f d < f c) pre" "list_all (\<lambda>d. f d \<le> f c) (post @ [x])"
    by (auto simp: first_best_def)
  then show ?thesis unfolding first_best_def by blast
qed

lemma first_best_snoc_above:
  "\<forall>d\<in>set cs. f d < f x \<Longrightarrow> SUGGESTION_THRESHOLD \<le> f x \<Longrightarrow> first_best f (cs @ [x]) x"
  unfolding first_best_def by (intro exI[of _ cs] exI[of _ "[]"]) (simp add: list_all_iff)

lemma first_best_bounds:
  "first_best f cs c \<Longrightarrow> c \<in> set cs \<and> SUGGESTION_THRESHOLD \<le> f c \<and> (\<forall>d\<in>set cs. f d \<le> f c)"
  unfolding first_best_def by (auto simp: list_all_iff less_imp_le)

lemma fold_first_best:
  "case foldl better None (List.filter (\<lambda>cs. SUGGESTION_THRESHOLD \<le> snd cs) (map (\<lambda>c. (c, f c)) cs)) of
     Some m \<Rightarrow> snd m = f (fst m) \<and> first_best f cs (fst m)
   | None \<Rightarrow> list_all (\<lambda>c. f c < SUGGESTION_THRESHOLD) cs"
proof (induction cs rule: rev_induct)
  case (snoc x cs)
  let ?r = "foldl better None (List.filter (\<lambda>cs. SUGGESTION_THRESHOLD \<le> snd cs) (map (\<lambda>c. (c, f c)) cs))"
  show ?case
  proof (cases ?r)
    case None
    then have "list_all (\<lambda>c. f c < SUGGESTION_THRESHOLD) cs" using snoc.IH by simp
    then show ?thesis
      using None by (fastforce simp: better_def not_le list_all_iff intro!: first_best_snoc_above)
  next
    case (Some m)
    then have m: "snd m = f (fst m)" "first_best f cs (fst m)" using snoc.IH by simp_all
    have below: "f x \<le> f (fst m) \<Longrightarrow> first_best f (cs @ [x]) (fst m)"
      by (rule first_best_snoc_below[OF m(2)])
    have above: "f (fst m) < f x \<Longrightarrow> first_best f (cs @ [x]) x"
      using first_best_bounds[OF m(2)] by (intro first_best_snoc_above) fastforce+
    show ?thesis
      using Some m(1) m(2) below above first_best_bounds[OF m(2)] by (auto simp: better_def[of "Some m"] not_le)
  qed
qed simp

text \<open>A suggestion is the best one. The suggested name is among the candidates, clears the
threshold, is at least as similar as every other candidate and strictly more than every earlier one (a tie
goes to the earlier name), and there is none exactly when the input is empty or no candidate clears the
threshold.\<close>

theorem closest_best:
  "case closest jw cs input of
     Some c \<Rightarrow> input \<noteq> [] \<and>
       (\<exists>pre post. cs = pre @ c # post \<and> SUGGESTION_THRESHOLD \<le> jw input c
          \<and> list_all (\<lambda>d. jw input d < jw input c) pre \<and> list_all (\<lambda>d. jw input d \<le> jw input c) post)
   | None \<Rightarrow> input = [] \<or> list_all (\<lambda>c. jw input c < SUGGESTION_THRESHOLD) cs"
  using fold_first_best[of "jw input" cs]
  by (auto simp: closest_def first_best_def split: option.splits)

end
