(* ===== verification/Rust_Net.thy ===== *)
theory Rust_Net
  imports Rust_Text
begin

text \<open>Rust's \<^verbatim>\<open>str::parse::<std::net::IpAddr>\<close>: whether a text is an IPv4 or IPv6 address.  The
parser of the standard library reads numbers greedily up to a limit of digits, forbids leading zeros in
IPv4 octets, allows one \<^verbatim>\<open>::\<close> and a trailing embedded IPv4 address; only success and the unread rest
matter here.\<close>

definition hex_val :: "char \<Rightarrow> nat option" where
  "hex_val c =
     (let n = (of_char c :: nat)
      in if 48 \<le> n \<and> n \<le> 57 then Some (n - 48)
         else if 97 \<le> n \<and> n \<le> 102 then Some (n - 87)
         else if 65 \<le> n \<and> n \<le> 70 then Some (n - 55) else None)"

definition digit_of :: "nat \<Rightarrow> char \<Rightarrow> nat option" where
  "digit_of radix c = (case hex_val c of Some d \<Rightarrow> if d < radix then Some d else None | None \<Rightarrow> None)"

definition read_number :: "nat \<Rightarrow> nat \<Rightarrow> bool \<Rightarrow> nat \<Rightarrow> string \<Rightarrow> (nat \<times> string) option" where
  "read_number radix max_digits zero_prefix bound s =
     (let ds = takeWhile (\<lambda>c. digit_of radix c \<noteq> None) s;
          v = foldl (\<lambda>n c. radix * n + the (digit_of radix c)) 0 ds
      in if ds = [] \<or> max_digits < length ds \<or> bound < v
            \<or> (\<not> zero_prefix \<and> hd ds = CHR ''0'' \<and> 1 < length ds)
         then None else Some (v, drop (length ds) s))"

fun read_given_char :: "char \<Rightarrow> string \<Rightarrow> string option" where
  "read_given_char c [] = None"
| "read_given_char c (d # s) = (if c = d then Some s else None)"

text \<open>\<^verbatim>\<open>read_separator\<close>: the separator is read before every element but the first.\<close>

definition read_sep :: "char \<Rightarrow> nat \<Rightarrow> string \<Rightarrow> string option" where
  "read_sep c i s = (if i = 0 then Some s else read_given_char c s)"

definition read_octet :: "nat \<Rightarrow> string \<Rightarrow> string option" where
  "read_octet i s =
     Option.bind (read_sep (CHR ''.'') i s) (\<lambda>s1. map_option snd (read_number 10 3 False 255 s1))"

definition read_ipv4 :: "string \<Rightarrow> string option" where
  "read_ipv4 s =
     Option.bind (read_octet 0 s) (\<lambda>s1. Option.bind (read_octet 1 s1) (\<lambda>s2.
     Option.bind (read_octet 2 s2) (read_octet 3)))"

text \<open>\<^verbatim>\<open>read_groups\<close>: at group \<^verbatim>\<open>i\<close> of at most \<^verbatim>\<open>i + n\<close>; the result is the number of groups read,
whether they end in an embedded IPv4 address, and the rest.\<close>

fun read_groups :: "nat \<Rightarrow> nat \<Rightarrow> string \<Rightarrow> nat \<times> bool \<times> string" where
  "read_groups 0 i s = (i, False, s)"
| "read_groups (Suc n) i s =
     (case (if n = 0 then None else Option.bind (read_sep (CHR '':'') i s) read_ipv4) of
        Some r \<Rightarrow> (i + 2, True, r)
      | None \<Rightarrow>
          (case Option.bind (read_sep (CHR '':'') i s) (\<lambda>s1. map_option snd (read_number 16 4 True 65535 s1)) of
             Some r \<Rightarrow> read_groups n (Suc i) r
           | None \<Rightarrow> (i, False, s)))"

definition read_ipv6 :: "string \<Rightarrow> string option" where
  "read_ipv6 s =
     (case read_groups 8 0 s of
        (n, v4, r) \<Rightarrow>
          if n = 8 then Some r
          else if v4 then None
          else Option.bind (read_given_char (CHR '':'') r) (\<lambda>r1.
               Option.bind (read_given_char (CHR '':'') r1) (\<lambda>r2.
                 case read_groups (7 - n) 0 r2 of (_, _, r3) \<Rightarrow> Some r3)))"

definition parses_ip_addr :: "string \<Rightarrow> bool" where
  "parses_ip_addr s \<longleftrightarrow>
     (case read_ipv4 s of
        Some r \<Rightarrow> r = []
      | None \<Rightarrow> read_ipv6 s = Some [])"

end
