(* ===== verification/Host.thy ===== *)
theory Host
  imports Vault Sshargs Suggest Rust_Net
begin

text \<open>Host management (\<^verbatim>\<open>host.rs\<close>): name rules, the pure configuration transforms behind
\<^verbatim>\<open>host add/edit/rm/cp\<close>, the resolution of a connect target, and the keyring clean-up and copy.
The third-party shell splitter and similarity are arguments.\<close>

section \<open>Names\<close>

definition FORBIDDEN_NAME_CHARS :: string where
  "FORBIDDEN_NAME_CHARS = [CHR '':'', CHR ''@'', CHR '' '', CHR 0x09, CHR 0x0A, CHR 0x0D]"

definition forbidden_char_in :: "string \<Rightarrow> char option" where
  "forbidden_char_in name = List.find (\<lambda>c. c \<in> set FORBIDDEN_NAME_CHARS) name"

definition validate_name_chars :: "string \<Rightarrow> sshrack_error + unit" where
  "validate_name_chars name =
     (case forbidden_char_in name of Some ch \<Rightarrow> Inl (InvalidNameChar name ch) | None \<Rightarrow> Inr ())"

definition host_not_found :: "similarity \<Rightarrow> sshrack_config \<Rightarrow> string \<Rightarrow> sshrack_error" where
  "host_not_found jw cfg name =
     HostNotFound name (DidYouMean (closest jw (map h_name (hosts cfg)) name))"

definition validate_no_duplicate :: "sshrack_config \<Rightarrow> string \<Rightarrow> bool \<Rightarrow> sshrack_error + unit" where
  "validate_no_duplicate cfg name force =
     (if find_host_by_name cfg name \<noteq> None \<and> \<not> force then Inl (HostAlreadyExists name) else Inr ())"

definition validate_rename :: "sshrack_config \<Rightarrow> string \<Rightarrow> string \<Rightarrow> sshrack_error + unit" where
  "validate_rename cfg current new_name =
     and_then (validate_name_chars new_name) (\<lambda>_.
       if list_ex (\<lambda>h. h_name h = new_name \<and> h_name h \<noteq> current) (hosts cfg)
       then Inl (NameTaken new_name) else Inr ())"

definition validate_dst :: "sshrack_config \<Rightarrow> string \<Rightarrow> sshrack_error + unit" where
  "validate_dst cfg dst =
     and_then (validate_name_chars dst) (\<lambda>_. validate_no_duplicate cfg dst False)"

section \<open>Adding, removing, copying\<close>

definition check_ssh_args :: "splitter \<Rightarrow> string option \<Rightarrow> sshrack_error + unit" where
  "check_ssh_args sh raw = (case raw of Some r \<Rightarrow> validate_ssh_args sh r | None \<Rightarrow> Inr ())"

definition add_host ::
  "splitter \<Rightarrow> sshrack_config \<Rightarrow> ulid \<Rightarrow> string \<Rightarrow> string \<Rightarrow> 16 word \<Rightarrow> string option \<Rightarrow> auth \<Rightarrow>
   sshrack_error + sshrack_config" where
  "add_host sh cfg u name addr port args au =
     and_then (validate_name_chars name) (\<lambda>_.
     and_then (check_ssh_args sh args) (\<lambda>_.
       Inr (cfg\<lparr>hosts := hosts cfg @
         [\<lparr>h_id = u, h_name = name, h_host = addr, h_port = port,
           h_ssh_args = normalize_ssh_args args, h_auth = au\<rparr>]\<rparr>)))"

definition remove_host :: "sshrack_config \<Rightarrow> string \<Rightarrow> sshrack_config option" where
  "remove_host cfg name =
     (if \<not> list_ex (\<lambda>h. h_name h = name) (hosts cfg) then None
      else Some (cfg\<lparr>hosts := List.filter (\<lambda>h. h_name h \<noteq> name) (hosts cfg)\<rparr>))"

definition clone_host_as :: "host \<Rightarrow> ulid \<Rightarrow> string \<Rightarrow> host" where
  "clone_host_as src dst_id dst_name = src\<lparr>h_id := dst_id, h_name := dst_name\<rparr>"

section \<open>Resolving a connect target\<close>

record resolve_overrides =
  ro_credential :: "ulid option"
  ro_port :: "16 word option"
  ro_user :: "string option"
  ro_identity :: "string option"

definition HOST_DEFAULT_PORT :: "16 word" where
  "HOST_DEFAULT_PORT = 22"

record resolved_target =
  rt_host :: host
  rt_target_user :: "string option"
  rt_ephemeral :: bool

definition strip_suffix_char :: "char \<Rightarrow> string \<Rightarrow> string option" where
  "strip_suffix_char c s = (if s \<noteq> [] \<and> last s = c then Some (butlast s) else None)"

definition opt_or :: "'a option \<Rightarrow> 'a \<Rightarrow> 'a" where
  "opt_or x d = (case x of Some v \<Rightarrow> v | None \<Rightarrow> d)"

definition is_address_literal :: "string \<Rightarrow> bool" where
  "is_address_literal s0 =
     (let s1 = opt_or (strip_prefix ''['' s0) s0;
          s2 = opt_or (strip_suffix_char (CHR '']'') s1) s1;
          s3 = (case rsplit_once (CHR ''%'') s2 of Some (head, _) \<Rightarrow> head | None \<Rightarrow> s2)
      in parses_ip_addr s3)"

definition with_overrides :: "host \<Rightarrow> resolve_overrides \<Rightarrow> resolved_target" where
  "with_overrides h ov =
     \<lparr>rt_host = (case ro_credential ov of Some c \<Rightarrow> h\<lparr>h_auth := AuthRef c\<rparr> | None \<Rightarrow> h),
      rt_target_user = None, rt_ephemeral = False\<rparr>"

definition address_auth :: "string \<Rightarrow> resolve_overrides \<Rightarrow> sshrack_error + auth" where
  "address_auth target ov =
     (case ro_credential ov of
        Some c \<Rightarrow> Inr (AuthRef c)
      | None \<Rightarrow>
          (case ro_user ov of
             None \<Rightarrow> Inl (AddressNeedsUser target)
           | Some user \<Rightarrow>
               Inr (AuthInline (case ro_identity ov of
                                  Some key \<Rightarrow> with_key key (body_new user)
                                | None \<Rightarrow> body_new user))))"

definition address_host :: "ulid \<Rightarrow> string \<Rightarrow> 16 word \<Rightarrow> auth \<Rightarrow> host" where
  "address_host fresh address port au =
     \<lparr>h_id = fresh, h_name = address, h_host = address, h_port = port, h_ssh_args = None, h_auth = au\<rparr>"

text \<open>The test for \<^verbatim>\<open>ip:port\<close>, used on the whole target and on the host part of
\<^verbatim>\<open>user@host\<close>.\<close>

definition host_port_of :: "string \<Rightarrow> (string \<times> nat) option" where
  "host_port_of s =
     (case rsplit_once (CHR '':'') s of
        None \<Rightarrow> None
      | Some (left, right) \<Rightarrow>
          (case parse_unsigned 16 right of
             Some port \<Rightarrow> if is_address_literal left then Some (left, port) else None
           | None \<Rightarrow> None))"

definition unbracket :: "string \<Rightarrow> string" where
  "unbracket s =
     opt_or (Option.bind (strip_prefix ''['' s) (strip_suffix_char (CHR '']''))) s"

definition resolve_target ::
  "similarity \<Rightarrow> ulid \<Rightarrow> sshrack_config \<Rightarrow> string \<Rightarrow> resolve_overrides \<Rightarrow> sshrack_error + resolved_target" where
  "resolve_target jw fresh cfg target ov =
     (case find_host_by_name cfg target of
        Some found \<Rightarrow> Inr (with_overrides found ov)
      | None \<Rightarrow>
          (case rsplit_once (CHR ''@'') target of
             Some (user, host_part0) \<Rightarrow>
               if user = [] \<or> host_part0 = []
               then Inl (InvalidTarget target
                      ((if user = [] then ''the user before '' else ''the host after '')
                        @ [CHR 0x27, CHR ''@'', CHR 0x27] @ '' is empty''))
               else
                 (let host_part = unbracket host_part0
                  in case host_port_of host_part of
                       Some (left, port) \<Rightarrow> Inl (TargetHasPort left port)
                     | None \<Rightarrow>
                         (case find_host_by_name cfg host_part of
                            Some found \<Rightarrow> Inr ((with_overrides found ov)\<lparr>rt_target_user := Some user\<rparr>)
                          | None \<Rightarrow>
                              Inr \<lparr>rt_host = address_host fresh host_part (opt_or (ro_port ov) HOST_DEFAULT_PORT)
                                              (case ro_credential ov of
                                                 Some c \<Rightarrow> AuthRef c | None \<Rightarrow> AuthInline (body_new user)),
                                   rt_target_user = Some user, rt_ephemeral = True\<rparr>))
           | None \<Rightarrow>
               (case host_port_of target of
                  Some (left, port) \<Rightarrow> Inl (TargetHasPort left port)
                | None \<Rightarrow>
                    if is_address_literal target
                    then and_then (address_auth target ov) (\<lambda>au.
                           Inr \<lparr>rt_host = address_host fresh target (opt_or (ro_port ov) HOST_DEFAULT_PORT) au,
                                rt_target_user = None, rt_ephemeral = True\<rparr>)
                    else Inl (host_not_found jw cfg target))))"

section \<open>Options of add and edit\<close>

record add_options =
  ao_host :: "string option"
  ao_port :: "16 word option"
  ao_credential :: "ulid option"
  ao_user :: "string option"
  ao_identity :: "string option"
  ao_ssh_args :: "string option"
  ao_force :: bool

definition build_auth :: "add_options \<Rightarrow> auth" where
  "build_auth opts =
     (case ao_credential opts of
        Some c \<Rightarrow> AuthRef c
      | None \<Rightarrow>
          (let body = body_new (opt_or (ao_user opts) ''root'')
           in AuthInline (case ao_identity opts of Some k \<Rightarrow> with_key k body | None \<Rightarrow> body)))"

definition auth_supplied_by_flags :: "add_options \<Rightarrow> bool" where
  "auth_supplied_by_flags opts \<longleftrightarrow>
     ao_credential opts \<noteq> None \<or> ao_user opts \<noteq> None \<or> ao_identity opts \<noteq> None"

definition merge_fields :: "splitter \<Rightarrow> ulid \<Rightarrow> string \<Rightarrow> add_options \<Rightarrow> sshrack_error + host" where
  "merge_fields sh u name opts =
     and_then (validate_name_chars name) (\<lambda>_.
     and_then (ok_or (MissingRequiredField ''host'') (ao_host opts)) (\<lambda>addr.
     and_then (check_ssh_args sh (ao_ssh_args opts)) (\<lambda>_.
       Inr \<lparr>h_id = u, h_name = name, h_host = addr, h_port = opt_or (ao_port opts) HOST_DEFAULT_PORT,
            h_ssh_args = normalize_ssh_args (ao_ssh_args opts), h_auth = build_auth opts\<rparr>)))"

record edit_options =
  eo_host :: "string option"
  eo_port :: "16 word option"
  eo_credential :: "ulid option"
  eo_user :: "string option"
  eo_identity :: "string option"
  eo_rename :: "string option"
  eo_clear_identity :: bool
  eo_clear_password :: bool
  eo_ssh_args :: "string option"
  eo_clear_ssh_args :: bool
  eo_clear_credential :: bool

definition patch_body :: "credential_body \<Rightarrow> edit_options \<Rightarrow> sshrack_error + credential_body" where
  "patch_body body opts =
     (let new_body =
        \<lparr>b_user = opt_or (eo_user opts) (b_user body),
         b_password = (if eo_clear_password opts then None else b_password body),
         b_key = (if eo_clear_identity opts then None
                  else case eo_identity opts of Some p \<Rightarrow> Some (KeyPath p) | None \<Rightarrow> b_key body),
         b_keyring = (if eo_clear_password opts then False else b_keyring body)\<rparr>
      in and_then (validate_body new_body) (\<lambda>_. Inr new_body))"

definition patch_ssh_args :: "splitter \<Rightarrow> host \<Rightarrow> edit_options \<Rightarrow> sshrack_error + string option" where
  "patch_ssh_args sh orig opts =
     (if eo_clear_ssh_args opts then Inr None
      else case eo_ssh_args opts of
        Some raw \<Rightarrow> and_then (validate_ssh_args sh raw) (\<lambda>_. Inr (normalize_ssh_args (Some raw)))
      | None \<Rightarrow> Inr (h_ssh_args orig))"

definition patch_auth :: "host \<Rightarrow> edit_options \<Rightarrow> sshrack_error + auth" where
  "patch_auth orig opts =
     (case eo_credential opts of
        Some c \<Rightarrow> Inr (AuthRef c)
      | None \<Rightarrow>
          if eo_clear_credential opts
          then Inr (AuthInline (body_new (opt_or (eo_user opts) ''root'')))
          else case h_auth orig of
            AuthRef r \<Rightarrow> Inr (AuthRef r)
          | AuthInline body \<Rightarrow> and_then (patch_body body opts) (\<lambda>b. Inr (AuthInline b)))"

definition apply_patch :: "splitter \<Rightarrow> host \<Rightarrow> edit_options \<Rightarrow> sshrack_error + host" where
  "apply_patch sh orig opts =
     and_then (patch_ssh_args sh orig opts) (\<lambda>args.
     and_then (patch_auth orig opts) (\<lambda>au.
       Inr \<lparr>h_id = h_id orig, h_name = opt_or (eo_rename opts) (h_name orig),
            h_host = opt_or (eo_host opts) (h_host orig), h_port = opt_or (eo_port opts) (h_port orig),
            h_ssh_args = args, h_auth = au\<rparr>))"

definition finalize_host :: "ulid \<Rightarrow> string \<Rightarrow> string \<Rightarrow> 16 word \<Rightarrow> string option \<Rightarrow> auth \<Rightarrow> host" where
  "finalize_host orig_id name addr port args au =
     \<lparr>h_id = orig_id, h_name = name, h_host = addr, h_port = port, h_ssh_args = args, h_auth = au\<rparr>"

definition edit_has_any_flag :: "edit_options \<Rightarrow> bool" where
  "edit_has_any_flag opts \<longleftrightarrow>
     eo_host opts \<noteq> None \<or> eo_port opts \<noteq> None \<or> eo_credential opts \<noteq> None \<or> eo_user opts \<noteq> None
     \<or> eo_identity opts \<noteq> None \<or> eo_rename opts \<noteq> None \<or> eo_ssh_args opts \<noteq> None
     \<or> eo_clear_identity opts \<or> eo_clear_password opts \<or> eo_clear_ssh_args opts \<or> eo_clear_credential opts"

section \<open>Removal and copy with the keyring\<close>

definition inline_marked :: "host \<Rightarrow> bool" where
  "inline_marked h = (case h_auth h of AuthInline b \<Rightarrow> b_keyring b | AuthRef _ \<Rightarrow> False)"

definition inline_key_marked :: "host \<Rightarrow> bool" where
  "inline_key_marked h = (case h_auth h of AuthInline b \<Rightarrow> inline_key_in_keyring b | AuthRef _ \<Rightarrow> False)"

definition forget_host_slots :: "'b backend \<Rightarrow> host \<Rightarrow> 'b \<Rightarrow> 'b" where
  "forget_host_slots be h s =
     forget_inline_keyring_slots be OwnerHost (h_id h) (inline_key_marked h)
       (forget_keyring_secret be OwnerHost (h_id h) (inline_marked h) s)"

definition delete_host_with_secret ::
  "similarity \<Rightarrow> 'b backend \<Rightarrow> sshrack_config \<Rightarrow> string \<Rightarrow> 'b \<Rightarrow> (sshrack_error + sshrack_config) \<times> 'b" where
  "delete_host_with_secret jw be cfg name s =
     (case find_host_by_name cfg name of
        None \<Rightarrow> (Inl (host_not_found jw cfg name), s)
      | Some h \<Rightarrow>
          (case remove_host cfg name of
             None \<Rightarrow> (Inl (host_not_found jw cfg name), s)
           | Some next_cfg \<Rightarrow> (Inr next_cfg, forget_host_slots be h s)))"

definition forget_keyring_on_overwrite :: "'b backend \<Rightarrow> sshrack_config \<Rightarrow> string \<Rightarrow> 'b \<Rightarrow> 'b" where
  "forget_keyring_on_overwrite be cfg name s =
     (case find_host_by_name cfg name of None \<Rightarrow> s | Some old \<Rightarrow> forget_host_slots be old s)"

definition copy_slots_if ::
  "'b backend \<Rightarrow> owner_kind \<Rightarrow> ulid \<Rightarrow> ulid \<Rightarrow> bool \<Rightarrow> bool \<Rightarrow> 'b \<Rightarrow> (sshrack_error + unit) \<times> 'b" where
  "copy_slots_if be k src dst pw_marked ik_marked s =
     (case (if pw_marked then copy_keyring_secret be k src dst s else (Inr False, s)) of
        (Inl e, s1) \<Rightarrow> (Inl e, s1)
      | (Inr _, s1) \<Rightarrow>
          (case (if ik_marked then copy_inline_keyring_slots be k src dst s1 else (Inr False, s1)) of
             (Inl e, s2) \<Rightarrow> (Inl e, s2)
           | (Inr _, s2) \<Rightarrow> (Inr (), s2)))"

definition copy_host_keyring_entry :: "'b backend \<Rightarrow> host \<Rightarrow> host \<Rightarrow> 'b \<Rightarrow> (sshrack_error + unit) \<times> 'b" where
  "copy_host_keyring_entry be src dst s =
     (case (inline_body (h_auth src), inline_body (h_auth dst)) of
        (Some sb, Some _) \<Rightarrow>
          copy_slots_if be OwnerHost (h_id src) (h_id dst) (b_keyring sb) (inline_key_in_keyring sb) s
      | _ \<Rightarrow> (Inr (), s))"

end
