(* ===== verification/Credential.thy ===== *)
theory Credential
  imports Host
begin

text \<open>Credentials (\<^verbatim>\<open>credential.rs\<close>): the pure transforms behind \<^verbatim>\<open>cred add/edit/rm/cp\<close>, the
decryption of a stored secret, and the resolution of a host's authentication into a concrete
identity.\<close>

section \<open>Resolved identities\<close>

datatype password_source =
    SourceNone
  | SourceInline string
  | SourceConfig string
  | SourceKeyring string

record inline_key_material =
  im_private :: string
  im_certificate :: "string option"

record resolved_auth =
  ra_user :: string
  ra_key_path :: "string option"
  ra_password :: password_source
  ra_inline_key :: "inline_key_material option"

definition from_plain :: "string \<Rightarrow> string option \<Rightarrow> password_source \<Rightarrow> sshrack_error + resolved_auth" where
  "from_plain user key_path pw =
     (if key_path \<noteq> None \<and> pw \<noteq> SourceNone then Inl (InvalidCredentialBody user)
      else Inr \<lparr>ra_user = user, ra_key_path = key_path, ra_password = pw, ra_inline_key = None\<rparr>)"

section \<open>Managing credentials\<close>

definition credential_not_found :: "similarity \<Rightarrow> sshrack_config \<Rightarrow> string \<Rightarrow> sshrack_error" where
  "credential_not_found jw cfg looked_for =
     CredentialNotFound looked_for (DidYouMean (closest jw (map c_name (credentials cfg)) looked_for))"

definition merge_credential :: "ulid \<Rightarrow> string \<Rightarrow> credential_body \<Rightarrow> sshrack_error + credential" where
  "merge_credential u name body =
     and_then (validate_name_chars name) (\<lambda>_.
     and_then (validate_body body) (\<lambda>_. Inr \<lparr>c_id = u, c_name = name, c_body = body\<rparr>))"

definition validate_no_duplicate_credential :: "sshrack_config \<Rightarrow> string \<Rightarrow> bool \<Rightarrow> sshrack_error + unit" where
  "validate_no_duplicate_credential cfg name force =
     (if find_credential_by_name cfg name \<noteq> None \<and> \<not> force
      then Inl (CredentialAlreadyExists name) else Inr ())"

definition validate_rename_credential :: "sshrack_config \<Rightarrow> string \<Rightarrow> string \<Rightarrow> sshrack_error + unit" where
  "validate_rename_credential cfg current new_name =
     and_then (validate_name_chars new_name) (\<lambda>_.
       if list_ex (\<lambda>c. c_name c = new_name \<and> c_name c \<noteq> current) (credentials cfg)
       then Inl (NameTaken new_name) else Inr ())"

definition remove_credential :: "sshrack_config \<Rightarrow> string \<Rightarrow> sshrack_config option" where
  "remove_credential cfg name =
     (if \<not> list_ex (\<lambda>c. c_name c = name) (credentials cfg) then None
      else Some (cfg\<lparr>credentials := List.filter (\<lambda>c. c_name c \<noteq> name) (credentials cfg)\<rparr>))"

definition find_referrers :: "sshrack_config \<Rightarrow> ulid \<Rightarrow> ulid list" where
  "find_referrers cfg u =
     List.map_filter (\<lambda>h. case h_auth h of AuthRef r \<Rightarrow> if r = u then Some (h_id h) else None
                                   | AuthInline _ \<Rightarrow> None) (hosts cfg)"

definition plaintext_password :: "host \<Rightarrow> sshrack_config \<Rightarrow> string option" where
  "plaintext_password h cfg =
     (case h_auth h of
        AuthInline body \<Rightarrow> password_plain body
      | AuthRef r \<Rightarrow> Option.bind (find_credential_by_id cfg r) (\<lambda>c. password_plain (c_body c)))"

record cred_add_options =
  ca_user :: "string option"
  ca_identity :: "string option"
  ca_force :: bool

record cred_edit_options =
  ce_user :: "string option"
  ce_identity :: "string option"
  ce_clear_identity :: bool
  ce_rename :: "string option"

definition build_body :: "cred_add_options \<Rightarrow> sshrack_error + credential_body" where
  "build_body opts =
     and_then (ok_or (MissingRequiredField ''user'') (ca_user opts)) (\<lambda>user.
       (let body = (case ca_identity opts of
                      Some k \<Rightarrow> with_key k (body_new user) | None \<Rightarrow> body_new user)
        in and_then (validate_body body) (\<lambda>_. Inr body)))"

definition cred_edit_has_any_flag :: "cred_edit_options \<Rightarrow> bool" where
  "cred_edit_has_any_flag opts \<longleftrightarrow>
     ce_user opts \<noteq> None \<or> ce_identity opts \<noteq> None \<or> ce_clear_identity opts \<or> ce_rename opts \<noteq> None"

definition add_credential ::
  "sshrack_config \<Rightarrow> ulid \<Rightarrow> string \<Rightarrow> credential_body \<Rightarrow> sshrack_error + sshrack_config" where
  "add_credential cfg u name body =
     and_then (validate_name_chars name) (\<lambda>_.
     and_then (validate_body body) (\<lambda>_.
       Inr (cfg\<lparr>credentials := credentials cfg @ [\<lparr>c_id = u, c_name = name, c_body = body\<rparr>]\<rparr>)))"

definition upsert_credential :: "sshrack_config \<Rightarrow> credential \<Rightarrow> sshrack_config" where
  "upsert_credential cfg cred =
     (case position (\<lambda>c. c_name c = c_name cred) (credentials cfg) of
        Some i \<Rightarrow> cfg\<lparr>credentials := (credentials cfg)[i := cred]\<rparr>
      | None \<Rightarrow> cfg\<lparr>credentials := credentials cfg @ [cred]\<rparr>)"

definition apply_credential_patch :: "credential \<Rightarrow> cred_edit_options \<Rightarrow> sshrack_error + credential" where
  "apply_credential_patch orig opts =
     (let name = opt_or (ce_rename opts) (c_name orig);
          body =
            \<lparr>b_user = opt_or (ce_user opts) (b_user (c_body orig)),
             b_password = (if ce_identity opts \<noteq> None \<or> ce_clear_identity opts then None
                           else b_password (c_body orig)),
             b_key = (if ce_clear_identity opts then None
                      else case ce_identity opts of
                        Some p \<Rightarrow> Some (KeyPath p) | None \<Rightarrow> b_key (c_body orig)),
             b_keyring = (if ce_identity opts \<noteq> None \<or> ce_clear_identity opts then False
                          else b_keyring (c_body orig))\<rparr>
      in and_then (validate_name_chars name) (\<lambda>_.
         and_then (validate_body body) (\<lambda>_.
           Inr \<lparr>c_id = c_id orig, c_name = name, c_body = body\<rparr>)))"

definition forget_credential_slots :: "'b backend \<Rightarrow> credential \<Rightarrow> 'b \<Rightarrow> 'b" where
  "forget_credential_slots be c s =
     forget_inline_keyring_slots be OwnerCredential (c_id c) (inline_key_in_keyring (c_body c))
       (forget_keyring_secret be OwnerCredential (c_id c) (b_keyring (c_body c)) s)"

definition delete_credential_with_secret ::
  "similarity \<Rightarrow> 'b backend \<Rightarrow> sshrack_config \<Rightarrow> string \<Rightarrow> 'b \<Rightarrow> (sshrack_error + sshrack_config) \<times> 'b" where
  "delete_credential_with_secret jw be cfg name s =
     (case find_credential_by_name cfg name of
        None \<Rightarrow> (Inl (credential_not_found jw cfg name), s)
      | Some c \<Rightarrow>
          (case remove_credential cfg name of
             None \<Rightarrow> (Inl (credential_not_found jw cfg name), s)
           | Some next_cfg \<Rightarrow> (Inr next_cfg, forget_credential_slots be c s)))"

definition copy_credential_keyring_entry ::
  "'b backend \<Rightarrow> credential \<Rightarrow> credential \<Rightarrow> 'b \<Rightarrow> (sshrack_error + unit) \<times> 'b" where
  "copy_credential_keyring_entry be src dst s =
     copy_slots_if be OwnerCredential (c_id src) (c_id dst) (b_keyring (c_body src))
       (inline_key_in_keyring (c_body src)) s"

section \<open>Resolving\<close>

definition decrypt_secret ::
  "crates \<Rightarrow> secret option \<Rightarrow> vault_key option \<Rightarrow> string \<Rightarrow> sshrack_error + string option" where
  "decrypt_secret X s vault label =
     (case s of
        None \<Rightarrow> Inr None
      | Some (Plain p) \<Rightarrow> Inr (Some p)
      | Some (Encrypted es) \<Rightarrow>
          (case vault of
             Some key \<Rightarrow> and_then (ok_or (DecryptionFailed label) (decrypt X es key)) (\<lambda>p. Inr (Some p))
           | None \<Rightarrow> Inl VaultLocked))"

text \<open>The owner whose body is used: the referenced credential, or the host itself.\<close>

definition resolve_owner ::
  "similarity \<Rightarrow> host \<Rightarrow> sshrack_config \<Rightarrow> sshrack_error + (credential_body \<times> owner_kind \<times> ulid \<times> string)" where
  "resolve_owner jw h cfg =
     (case h_auth h of
        AuthRef r \<Rightarrow>
          (case find_credential_by_id cfg r of
             None \<Rightarrow> Inl (credential_not_found jw cfg r)
           | Some c \<Rightarrow> Inr (c_body c, OwnerCredential, c_id c, c_name c))
      | AuthInline body \<Rightarrow>
          and_then (validate_body body) (\<lambda>_. Inr (body, OwnerHost, h_id h, h_name h)))"

definition resolve_key ::
  "crates \<Rightarrow> 'b backend \<Rightarrow> key_source option \<Rightarrow> owner_kind \<Rightarrow> ulid \<Rightarrow> string \<Rightarrow> vault_key option \<Rightarrow> 'b
     \<Rightarrow> sshrack_error + (string option \<times> inline_key_material option)" where
  "resolve_key X be key k u label vault s =
     (case key of
        None \<Rightarrow> Inr (None, None)
      | Some (KeyPath p) \<Rightarrow> Inr (Some p, None)
      | Some (KeyInline ik) \<Rightarrow>
          if ik_keyring ik
          then and_then (bk_get be (keyring_key_inline_priv k u) s) (\<lambda>priv.
               and_then (bk_get be (keyring_key_inline_cert k u) s) (\<lambda>cert.
                 Inr (None, Some \<lparr>im_private = opt_or priv [], im_certificate = cert\<rparr>)))
          else and_then (decrypt_secret X (ik_private_key ik) vault label) (\<lambda>priv.
               and_then (decrypt_secret X (ik_certificate ik) vault label) (\<lambda>cert.
                 Inr (None, Some \<lparr>im_private = opt_or priv [], im_certificate = cert\<rparr>))))"

definition resolve_password ::
  "crates \<Rightarrow> credential_body \<Rightarrow> owner_kind \<Rightarrow> ulid \<Rightarrow> string \<Rightarrow> ulid \<Rightarrow> sshrack_config \<Rightarrow> vault_key option
     \<Rightarrow> sshrack_error + password_source" where
  "resolve_password X b k u label host_id cfg vault =
     (if b_keyring b then Inr (SourceKeyring (keyring_key k u))
      else if is_plaintext cfg \<and> b_password b \<noteq> None then Inr (SourceConfig host_id)
      else and_then (decrypt_secret X (b_password b) vault label) (\<lambda>r.
             Inr (case r of Some p \<Rightarrow> SourceInline p | None \<Rightarrow> SourceNone)))"

definition resolve ::
  "crates \<Rightarrow> similarity \<Rightarrow> host \<Rightarrow> sshrack_config \<Rightarrow> vault_key option \<Rightarrow> 'b backend \<Rightarrow> 'b
     \<Rightarrow> sshrack_error + resolved_auth" where
  "resolve X jw h cfg vault be s =
     and_then (resolve_owner jw h cfg) (\<lambda>(body, k, u, label).
     and_then (resolve_key X be (b_key body) k u label vault s) (\<lambda>(key_path, inline).
     and_then (resolve_password X body k u label (h_id h) cfg vault) (\<lambda>pw.
     and_then (from_plain (b_user body) key_path pw) (\<lambda>r.
       Inr (r\<lparr>ra_inline_key := inline\<rparr>)))))"

end
