(* ===== verification/Temp_Files.thy ===== *)
theory Temp_Files
  imports Schema
begin

text \<open>The file system as the connect path uses it, the private and atomic writes of
\<^verbatim>\<open>fsutil.rs\<close>, the registry of live temporary files (\<^verbatim>\<open>tempfile_registry.rs\<close>) and the
start-up sweep (\<^verbatim>\<open>sweep.rs\<close>).  Which calls fail is decided by the operating system, the
argument \<^verbatim>\<open>os\<close>; a failed write leaves a prefix of the data behind.\<close>

section \<open>Paths\<close>

text \<open>\<^verbatim>\<open>Path::join\<close>, \<^verbatim>\<open>file_name\<close>, \<^verbatim>\<open>parent\<close> and \<^verbatim>\<open>with_file_name\<close> on the text of a
path that does not end in a dot component.\<close>

definition path_join :: "string \<Rightarrow> string \<Rightarrow> string" where
  "path_join dir name =
     (if starts_with ''/'' name \<or> dir = [] then name
      else if last dir = CHR ''/'' then dir @ name else dir @ ''/'' @ name)"

definition strip_slashes :: "string \<Rightarrow> string" where
  "strip_slashes p = rev (dropWhile (\<lambda>c. c = CHR ''/'') (rev p))"

definition file_name :: "string \<Rightarrow> string option" where
  "file_name p =
     (let s = strip_slashes p;
          n = (case rsplit_once (CHR ''/'') s of Some (_, b) \<Rightarrow> b | None \<Rightarrow> s)
      in if n = [] \<or> n = ''.'' \<or> n = ''..'' then None else Some n)"

definition path_parent :: "string \<Rightarrow> string option" where
  "path_parent p =
     (let s = strip_slashes p
      in if s = [] then None
         else Some (case rsplit_once (CHR ''/'') s of
                      None \<Rightarrow> []
                    | Some (a, _) \<Rightarrow> if strip_slashes a = [] then ''/'' else strip_slashes a))"

definition with_file_name :: "string \<Rightarrow> string \<Rightarrow> string" where
  "with_file_name p n =
     path_join (if file_name p \<noteq> None then (case path_parent p of Some d \<Rightarrow> d | None \<Rightarrow> []) else p) n"

text \<open>A plain file path: a directory and a proper last component.\<close>

definition plain_name :: "string \<Rightarrow> bool" where
  "plain_name n \<longleftrightarrow> n \<noteq> [] \<and> n \<noteq> ''.'' \<and> n \<noteq> ''..'' \<and> CHR ''/'' \<notin> set n"

definition plain_dir :: "string \<Rightarrow> bool" where
  "plain_dir d \<longleftrightarrow> d \<noteq> [] \<and> last d \<noteq> CHR ''/''"

lemma strip_slashes_id [simp]: "p \<noteq> [] \<Longrightarrow> last p \<noteq> CHR ''/'' \<Longrightarrow> strip_slashes p = p"
  by (cases p rule: rev_cases) (auto simp: strip_slashes_def)

lemma plain_name_last: "plain_name n \<Longrightarrow> n \<noteq> [] \<and> last n \<noteq> CHR ''/''"
  by (auto simp: plain_name_def dest: last_in_set)

lemma path_join_plain [simp]:
  assumes "plain_dir d" "plain_name n"
  shows "path_join d n = d @ ''/'' @ n"
  using assms by (cases n) (auto simp: path_join_def plain_dir_def plain_name_def starts_with_iff)

lemma plain_path_facts:
  assumes "plain_dir d" "plain_name n"
  shows "file_name (d @ CHR ''/'' # n) = Some n" "path_parent (d @ CHR ''/'' # n) = Some d"
proof -
  have n: "n \<noteq> []" "last n \<noteq> CHR ''/''" "CHR ''/'' \<notin> set n" "n \<noteq> ''.''" "n \<noteq> ''..''"
    using plain_name_last[OF assms(2)] assms(2) by (auto simp: plain_name_def)
  have s: "strip_slashes (d @ CHR ''/'' # n) = d @ CHR ''/'' # n" using n(1,2) by simp
  show "file_name (d @ CHR ''/'' # n) = Some n"
    unfolding file_name_def s Let_def using n by simp
  show "path_parent (d @ CHR ''/'' # n) = Some d"
    unfolding path_parent_def s Let_def using n assms(1) by (simp add: plain_dir_def)
qed

lemma with_file_name_plain [simp]:
  assumes "plain_dir d" "plain_name n" "plain_name n'"
  shows "with_file_name (d @ CHR ''/'' # n) n' = d @ CHR ''/'' # n'"
  using plain_path_facts[OF assms(1,2)] path_join_plain[OF assms(1,3)] by (simp add: with_file_name_def)

lemma file_name_join:
  assumes "plain_name n"
  shows "file_name (path_join d n) = Some n"
proof -
  have n: "n \<noteq> []" "last n \<noteq> CHR ''/''" "CHR ''/'' \<notin> set n" "n \<noteq> ''.''" "n \<noteq> ''..''"
    using plain_name_last[OF assms] assms by (auto simp: plain_name_def)
  obtain pre where p: "path_join d n = pre @ n" "pre = [] \<or> last pre = CHR ''/''"
  proof (cases "starts_with ''/'' n \<or> d = []")
    case True
    then show thesis by (intro that[of "[]"]) (simp_all add: path_join_def)
  next
    case False
    then show thesis
      by (cases "last d = CHR ''/''"; intro that[of "if last d = CHR ''/'' then d else d @ ''/''"])
         (simp_all add: path_join_def)
  qed
  have s: "strip_slashes (pre @ n) = pre @ n" using n(1,2) by simp
  have r: "rsplit_once (CHR ''/'') (pre @ n) = (if pre = [] then None else Some (butlast pre, n))"
  proof (cases "pre = []")
    case True
    then show ?thesis using n(3) by (simp add: rsplit_once_None)
  next
    case False
    then have e: "pre @ n = butlast pre @ CHR ''/'' # n"
      using p(2) append_butlast_last_id[OF False] by (metis append.assoc append_Cons append_Nil)
    show ?thesis unfolding e using False n(3) by (simp del: append_butlast_last_id)
  qed
  show ?thesis unfolding p(1) file_name_def s Let_def r using n by simp
qed

section \<open>Files\<close>

record file_entry =
  fe_mode :: nat
  fe_bytes :: bytes

type_synonym files = "string \<Rightarrow> file_entry option"

record os =
  os_temp_dir :: string
  os_pid :: "32 word"
  os_nanos :: nat
  os_open_error :: "string \<Rightarrow> io_error option"
  os_write_error :: "string \<Rightarrow> (nat \<times> io_error) option"
  os_remove_ok :: "string \<Rightarrow> bool"
  os_rename_error :: "string \<Rightarrow> string \<Rightarrow> io_error option"
  os_mkdir_error :: "string \<Rightarrow> io_error option"

definition MODE_PRIVATE :: nat where
  "MODE_PRIVATE = 6 * 64"

definition show_pid :: "os \<Rightarrow> string" where
  "show_pid os = show_nat (unat (os_pid os))"

text \<open>\<^verbatim>\<open>OpenOptions::create_new(true).mode(0o600)\<close> refuses an existing file.\<close>

definition create_new :: "os \<Rightarrow> string \<Rightarrow> files \<Rightarrow> (io_error + unit) \<times> files" where
  "create_new os path fs =
     (case os_open_error os path of
        Some e \<Rightarrow> (Inl e, fs)
      | None \<Rightarrow>
          if fs path \<noteq> None then (Inl (IoOther ''file exists''), fs)
          else (Inr (), fs(path \<mapsto> \<lparr>fe_mode = MODE_PRIVATE, fe_bytes = []\<rparr>)))"

definition put_bytes :: "string \<Rightarrow> bytes \<Rightarrow> files \<Rightarrow> files" where
  "put_bytes path bs fs = fs(path := map_option (\<lambda>f. f\<lparr>fe_bytes := bs\<rparr>) (fs path))"

definition write_all :: "os \<Rightarrow> string \<Rightarrow> bytes \<Rightarrow> files \<Rightarrow> (io_error + unit) \<times> files" where
  "write_all os path bs fs =
     (case os_write_error os path of
        Some (n, e) \<Rightarrow> (Inl e, put_bytes path (take n bs) fs)
      | None \<Rightarrow> (Inr (), put_bytes path bs fs))"

definition remove_file :: "os \<Rightarrow> string \<Rightarrow> files \<Rightarrow> bool \<times> files" where
  "remove_file os path fs =
     (if fs path \<noteq> None \<and> os_remove_ok os path then (True, fs(path := None)) else (False, fs))"

definition read_file :: "string \<Rightarrow> files \<Rightarrow> io_error + bytes" where
  "read_file path fs = (case fs path of None \<Rightarrow> Inl IoNotFound | Some f \<Rightarrow> Inr (fe_bytes f))"

definition read_to_string :: "string \<Rightarrow> files \<Rightarrow> io_error + string" where
  "read_to_string path fs =
     and_then (read_file path fs) (\<lambda>bs. ok_or (IoOther ''invalid utf-8'') (from_utf8 bs))"

section \<open>Private and atomic writes\<close>

definition write_private :: "os \<Rightarrow> string \<Rightarrow> bytes \<Rightarrow> files \<Rightarrow> (io_error + unit) \<times> files" where
  "write_private os path bs fs =
     (case os_open_error os path of
        Some e \<Rightarrow> (Inl e, fs)
      | None \<Rightarrow>
          (let fs1 = fs(path := Some \<lparr>fe_mode = (case fs path of Some f \<Rightarrow> fe_mode f | None \<Rightarrow> MODE_PRIVATE),
                                     fe_bytes = []\<rparr>)
           in case write_all os path bs fs1 of
                (Inl e, fs2) \<Rightarrow> (Inl e, snd (remove_file os path fs2))
              | (Inr _, fs2) \<Rightarrow> (Inr (), fs2)))"

definition atomic_temp_path :: "os \<Rightarrow> string \<Rightarrow> string" where
  "atomic_temp_path os path =
     (let base = (case file_name path of Some n \<Rightarrow> n | None \<Rightarrow> ''file'')
      in with_file_name path (''.'' @ base @ ''.tmp.'' @ show_pid os @ ''.'' @ show_nat (os_nanos os)))"

definition rename_file :: "os \<Rightarrow> string \<Rightarrow> string \<Rightarrow> files \<Rightarrow> (io_error + unit) \<times> files" where
  "rename_file os src dst fs =
     (case os_rename_error os src dst of
        Some e \<Rightarrow> (Inl e, fs)
      | None \<Rightarrow>
          (case fs src of
             None \<Rightarrow> (Inl IoNotFound, fs)
           | Some f \<Rightarrow> (Inr (), fs(src := None, dst := Some f))))"

definition atomic_write_private :: "os \<Rightarrow> string \<Rightarrow> bytes \<Rightarrow> files \<Rightarrow> (io_error + unit) \<times> files" where
  "atomic_write_private os path bs fs =
     (let tmp = atomic_temp_path os path
      in case write_private os tmp bs fs of
           (Inl e, fs1) \<Rightarrow> (Inl e, fs1)
         | (Inr _, fs1) \<Rightarrow>
             (case rename_file os tmp path fs1 of
                (Inl e, fs2) \<Rightarrow> (Inl e, snd (remove_file os tmp fs2))
              | (Inr _, fs2) \<Rightarrow> (Inr (), fs2)))"

section \<open>The registry of live files\<close>

record temp_state =
  ts_files :: files
  ts_live :: "string list"

definition register :: "string \<Rightarrow> temp_state \<Rightarrow> temp_state" where
  "register path st = st\<lparr>ts_live := ts_live st @ [path]\<rparr>"

definition unregister :: "string \<Rightarrow> temp_state \<Rightarrow> temp_state" where
  "unregister path st = st\<lparr>ts_live := List.filter (\<lambda>p. p \<noteq> path) (ts_live st)\<rparr>"

fun remove_each :: "os \<Rightarrow> string list \<Rightarrow> files \<Rightarrow> nat \<times> files" where
  "remove_each os [] fs = (0, fs)"
| "remove_each os (p # ps) fs =
     (let (ok, fs1) = remove_file os p fs; (n, fs2) = remove_each os ps fs1
      in (if ok then Suc n else n, fs2))"

definition cleanup_all :: "os \<Rightarrow> temp_state \<Rightarrow> nat \<times> temp_state" where
  "cleanup_all os st =
     (let (n, fs) = remove_each os (ts_live st) (ts_files st)
      in (n, \<lparr>ts_files = fs, ts_live = []\<rparr>))"

section \<open>The start-up sweep\<close>

definition STALE_PREFIXES :: "string list" where
  "STALE_PREFIXES = [''sshrack-askpass-'', ''sshrack-key-'']"

definition STALE_THRESHOLD :: nat where
  "STALE_THRESHOLD = 300 * 10 ^ 9"

definition is_sshrack_tempfile :: "string \<Rightarrow> bool" where
  "is_sshrack_tempfile path =
     (case file_name path of None \<Rightarrow> False | Some n \<Rightarrow> list_ex (\<lambda>p. starts_with p n) STALE_PREFIXES)"

text \<open>The listing of the directory is \<^verbatim>\<open>None\<close> when it cannot be read; each entry carries its
modification time in nanoseconds, \<^verbatim>\<open>None\<close> when it has no readable one.\<close>

definition is_stale :: "nat \<Rightarrow> nat \<Rightarrow> nat option \<Rightarrow> bool" where
  "is_stale now max_age mtime =
     (case mtime of None \<Rightarrow> False | Some t \<Rightarrow> t \<le> now \<and> max_age < now - t)"

fun sweep_entries ::
  "os \<Rightarrow> nat \<Rightarrow> nat \<Rightarrow> (string \<times> nat option) list \<Rightarrow> files \<Rightarrow> nat \<times> files" where
  "sweep_entries os now max_age [] fs = (0, fs)"
| "sweep_entries os now max_age ((path, mtime) # es) fs =
     (if \<not> is_sshrack_tempfile path then sweep_entries os now max_age es fs
      else if is_stale now max_age mtime
      then (let (ok, fs1) = remove_file os path fs; (n, fs2) = sweep_entries os now max_age es fs1
            in (if ok then Suc n else n, fs2))
      else sweep_entries os now max_age es fs)"

definition sweep_stale_tempfiles ::
  "os \<Rightarrow> (string \<times> nat option) list option \<Rightarrow> nat \<Rightarrow> nat \<Rightarrow> files \<Rightarrow> nat \<times> files" where
  "sweep_stale_tempfiles os listing now max_age fs =
     (case listing of None \<Rightarrow> (0, fs) | Some es \<Rightarrow> sweep_entries os now max_age es fs)"


section \<open>Owners of temporary files\<close>

text \<open>The contract that the pasted-key artifact and the password file share: acquiring either changes
nothing or creates its files where none were, private and registered; releasing removes exactly
them.\<close>

definition os_removes :: "os \<Rightarrow> bool" where
  "os_removes os \<longleftrightarrow> (\<forall>p. os_remove_ok os p)"

definition live_ok :: "temp_state \<Rightarrow> bool" where
  "live_ok st \<longleftrightarrow> list_all (\<lambda>p. ts_files st p \<noteq> None) (ts_live st)"

lemma remove_file_ok: "os_removes os \<Longrightarrow> snd (remove_file os p fs) = fs(p := None)"
  by (auto simp: remove_file_def os_removes_def)

lemma remove_each_files:
  "os_removes os \<Longrightarrow> snd (remove_each os ps fs) = (\<lambda>p. if p \<in> set ps then None else fs p)"
proof (induction ps arbitrary: fs)
  case (Cons q ps)
  have "snd (remove_each os (q # ps) fs) = snd (remove_each os ps (snd (remove_file os q fs)))"
    by (simp add: Let_def split: prod.splits)
  then show ?case
    using Cons by (auto simp: remove_file_ok[OF Cons.prems])
qed simp

lemma cleanup_all_files:
  "os_removes os \<Longrightarrow>
   snd (cleanup_all os st) = \<lparr>ts_files = (\<lambda>p. if p \<in> set (ts_live st) then None else ts_files st p), ts_live = []\<rparr>"
  using remove_each_files[of os "ts_live st" "ts_files st"] by (auto simp: cleanup_all_def split: prod.splits)

locale temp_owner =
  fixes os :: os
    and acquire :: "temp_state \<Rightarrow> (sshrack_error + 'a) \<times> temp_state"
    and owned :: "'a \<Rightarrow> string list"
    and release :: "'a \<Rightarrow> temp_state \<Rightarrow> temp_state"
  assumes acquire_err: "os_removes os \<Longrightarrow> acquire st = (Inl e, st') \<Longrightarrow> st' = st"
    and acquire_fresh: "acquire st = (Inr a, st') \<Longrightarrow> p \<in> set (owned a) \<Longrightarrow>
        ts_files st p = None \<and> map_option fe_mode (ts_files st' p) = Some MODE_PRIVATE"
    and acquire_frame: "acquire st = (Inr a, st') \<Longrightarrow> p \<notin> set (owned a) \<Longrightarrow> ts_files st' p = ts_files st p"
    and acquire_live: "acquire st = (Inr a, st') \<Longrightarrow> ts_live st' = ts_live st @ owned a"
    and release_files: "os_removes os \<Longrightarrow>
        ts_files (release a st) = (\<lambda>p. if p \<in> set (owned a) then None else ts_files st p)"
    and release_live: "ts_live (release a st) = List.filter (\<lambda>p. p \<notin> set (owned a)) (ts_live st)"
begin

lemma acquire_live_ok:
  assumes "live_ok st" "acquire st = (Inr a, st')"
  shows "live_ok st'"
proof -
  have "ts_files st' p \<noteq> None" if "p \<in> set (ts_live st')" for p
    using that assms acquire_live[OF assms(2)] acquire_fresh[OF assms(2), of p]
      acquire_frame[OF assms(2), of p]
    by (cases "p \<in> set (owned a)") (auto simp: live_ok_def list_all_iff)
  then show ?thesis by (simp add: live_ok_def list_all_iff)
qed

lemma release_restores:
  assumes "os_removes os" "live_ok st" "acquire st = (Inr a, st')"
    and "ts_live st'' = ts_live st'"
  shows "ts_live (release a st'') = ts_live st"
    and "ts_files (release a st'') = (\<lambda>p. if p \<in> set (owned a) then ts_files st p else ts_files st'' p)"
proof -
  have n: "ts_files st p = None" if "p \<in> set (owned a)" for p
    using acquire_fresh[OF assms(3) that] by simp
  have "List.filter (\<lambda>p. p \<notin> set (owned a)) (ts_live st) = ts_live st"
    using assms(2) n by (auto simp: filter_id_conv live_ok_def list_all_iff)
  then show "ts_live (release a st'') = ts_live st"
    using acquire_live[OF assms(3)] assms(4) by (simp add: release_live)
  show "ts_files (release a st'') = (\<lambda>p. if p \<in> set (owned a) then ts_files st p else ts_files st'' p)"
    using release_files[OF assms(1)] n by auto
qed

lemma release_inverse:
  assumes "os_removes os" "live_ok st" "acquire st = (Inr a, st')"
  shows "release a st' = st"
proof -
  have "ts_files (release a st') = ts_files st"
    using release_restores(2)[OF assms refl] acquire_frame[OF assms(3)] by auto
  then show ?thesis using release_restores(1)[OF assms refl] by (intro temp_state.equality) simp_all
qed

lemma cleanup_wipes:
  assumes "os_removes os" "acquire st = (Inr a, st')"
  shows "snd (cleanup_all os st') = snd (cleanup_all os st)"
proof -
  have f: "(if p \<in> set (ts_live st @ owned a) then None else ts_files st' p)
      = (if p \<in> set (ts_live st) then None else ts_files st p)" for p
    using acquire_fresh[OF assms(2), of p] acquire_frame[OF assms(2), of p] by auto
  show ?thesis
    unfolding cleanup_all_files[OF assms(1)] acquire_live[OF assms(2)] by (simp add: f del: set_append)
qed

end

section \<open>The sweep keeps what is not its own\<close>

definition swept :: "(string \<times> nat option) list \<Rightarrow> nat \<Rightarrow> nat \<Rightarrow> string \<Rightarrow> bool" where
  "swept es now max_age p \<longleftrightarrow> is_sshrack_tempfile p \<and> list_ex (\<lambda>(q, t). q = p \<and> is_stale now max_age t) es"

lemma swept_Cons:
  "swept ((q, t) # es) now max_age p \<longleftrightarrow>
     (q = p \<and> is_sshrack_tempfile p \<and> is_stale now max_age t) \<or> swept es now max_age p"
  by (auto simp: swept_def)

lemma sweep_entries_files:
  "os_removes os \<Longrightarrow>
   snd (sweep_entries os now max_age es fs) = (\<lambda>p. if swept es now max_age p then None else fs p)"
proof (induction os now max_age es fs rule: sweep_entries.induct)
  case (2 os now max_age path mtime es fs)
  note r = remove_file_ok[OF "2.prems", of path fs]
  show ?case
  proof (cases "is_sshrack_tempfile path \<and> is_stale now max_age mtime")
    case True
    have "snd (sweep_entries os now max_age ((path, mtime) # es) fs)
        = snd (sweep_entries os now max_age es (fs(path := None)))"
      using True r by (auto simp: Let_def split: prod.splits)
    also have "\<dots> = (\<lambda>p. if swept es now max_age p then None else (fs(path := None)) p)"
      using 2 True r by (metis prod.collapse)
    finally show ?thesis using True by (auto simp: swept_Cons)
  next
    case False
    then show ?thesis using 2 by (auto simp: swept_Cons)
  qed
qed (simp add: swept_def)

lemma sweep_entries_count:
  assumes "os_removes os" "distinct (map fst es)"
  shows "fst (sweep_entries os now max_age es fs)
    = length (List.filter (\<lambda>(p, t). is_sshrack_tempfile p \<and> is_stale now max_age t \<and> fs p \<noteq> None) es)"
  using assms
proof (induction os now max_age es fs rule: sweep_entries.induct)
  case (2 os now max_age path mtime es fs)
  note r = remove_file_ok[OF "2.prems"(1), of path fs]
  have same: "List.filter (\<lambda>(p, t). is_sshrack_tempfile p \<and> is_stale now max_age t \<and> (fs(path := None)) p \<noteq> None) es
      = List.filter (\<lambda>(p, t). is_sshrack_tempfile p \<and> is_stale now max_age t \<and> fs p \<noteq> None) es"
    using 2(4,5) by (intro filter_cong) force+
  have ok: "fst (remove_file os path fs) \<longleftrightarrow> fs path \<noteq> None"
    using "2.prems"(1) by (simp add: remove_file_def os_removes_def)
  show ?case
  proof (cases "is_sshrack_tempfile path \<and> is_stale now max_age mtime")
    case True
    have "fst (sweep_entries os now max_age es (fs(path := None)))
      = length (List.filter (\<lambda>(p, t). is_sshrack_tempfile p \<and> is_stale now max_age t \<and> fs p \<noteq> None) es)"
      using "2.IH"(2)[OF _ _ refl, of True "fs(path := None)"] "2.IH"(2)[OF _ _ refl, of False "fs(path := None)"]
        True r same "2.prems" by (cases "remove_file os path fs"; cases "fst (remove_file os path fs)") auto
    then show ?thesis using True r ok by (auto simp: Let_def split: prod.splits)
  next
    case False
    then show ?thesis using 2 by auto
  qed
qed simp

end
