(* ===== verification/Config_Store.thy ===== *)
theory Config_Store
  imports Temp_Files
begin

text \<open>Loading and saving the configuration (\<^verbatim>\<open>config/store.rs\<close>, \<^verbatim>\<open>config/path.rs\<close>).  The
third-party TOML reader and printer are an argument; a save goes through the atomic write.\<close>

record toml =
  tm_parse :: "string \<Rightarrow> sshrack_config option"
  tm_print :: "sshrack_config \<Rightarrow> string option"

definition toml_ok :: "toml \<Rightarrow> bool" where
  "toml_ok tm \<longleftrightarrow> (\<forall>c s. tm_print tm c = Some s \<longrightarrow> tm_parse tm s = Some c)"

definition config_load :: "toml \<Rightarrow> string \<Rightarrow> files \<Rightarrow> sshrack_error + sshrack_config" where
  "config_load tm path fs =
     (case read_to_string path fs of
        Inr contents \<Rightarrow> ok_or (ConfigParse path) (tm_parse tm contents)
      | Inl IoNotFound \<Rightarrow> Inr default_config
      | Inl e \<Rightarrow> Inl (ConfigRead path e))"

definition config_save :: "toml \<Rightarrow> os \<Rightarrow> string \<Rightarrow> sshrack_config \<Rightarrow> files \<Rightarrow> (sshrack_error + unit) \<times> files" where
  "config_save tm os path cfg fs =
     (case tm_print tm cfg of
        None \<Rightarrow> (Inl (ConfigSerialize path), fs)
      | Some serialized \<Rightarrow>
          (case Option.bind (path_parent path) (os_mkdir_error os) of
             Some e \<Rightarrow> (Inl (ConfigWrite (case path_parent path of Some p \<Rightarrow> p | None \<Rightarrow> []) e), fs)
           | None \<Rightarrow>
               (case atomic_write_private os path (utf8 serialized) fs of
                  (Inl e, fs') \<Rightarrow> (Inl (ConfigWrite path e), fs')
                | (Inr _, fs') \<Rightarrow> (Inr (), fs'))))"

text \<open>\<^verbatim>\<open>config::path::resolve\<close>; the default path comes from the \<^verbatim>\<open>directories\<close> crate.\<close>

definition resolve_config_path :: "string option \<Rightarrow> string option \<Rightarrow> string option" where
  "resolve_config_path default_path override_path =
     (case override_path of Some p \<Rightarrow> Some p | None \<Rightarrow> default_path)"

section \<open>The atomic write\<close>

lemma show_nat_no_slash: "CHR ''/'' \<notin> set (show_nat n)"
proof (induction n rule: show_nat.induct)
  case (1 n)
  have d: "(CHR ''/'' :: char) \<noteq> char_of (48 + k)" if "k < 10" for k :: nat
  proof
    assume "CHR ''/'' = (char_of (48 + k) :: char)"
    then have "(of_char (CHR ''/'' :: char) :: nat) = of_char (char_of (48 + k) :: char)" by simp
    also have "\<dots> = 48 + k" using that by (intro of_char_of_small) simp
    finally show False by simp
  qed
  show ?case
  proof (cases "n < 10")
    case True
    then show ?thesis using d[OF True] by (simp add: show_nat.simps[of n])
  next
    case False
    have "n mod 10 < 10" by simp
    then show ?thesis using 1[OF False] d[of "n mod 10"] False by (simp add: show_nat.simps[of n])
  qed
qed

lemma temp_path_plain:
  assumes "plain_dir d" "plain_name n"
  shows "\<exists>t. atomic_temp_path os (d @ CHR ''/'' # n) = d @ CHR ''/'' # t \<and> plain_name t \<and> length n < length t"
proof -
  define t where "t = ''.'' @ n @ ''.tmp.'' @ show_pid os @ ''.'' @ show_nat (os_nanos os)"
  have "plain_name t"
    using assms(2) by (auto simp: plain_name_def t_def show_pid_def show_nat_no_slash)
  moreover have "length n < length t" by (simp add: t_def)
  moreover have "atomic_temp_path os (d @ CHR ''/'' # n) = with_file_name (d @ CHR ''/'' # n) t"
    by (simp add: atomic_temp_path_def plain_path_facts[OF assms] t_def Let_def)
  ultimately show ?thesis using with_file_name_plain[OF assms] by auto
qed

lemma temp_path_other: "plain_dir d \<Longrightarrow> plain_name n \<Longrightarrow> atomic_temp_path os (d @ CHR ''/'' # n) \<noteq> d @ CHR ''/'' # n"
  using temp_path_plain[of d n os] by auto

lemma write_private_fresh:
  assumes "os_removes os" "fs path = None" "write_private os path bs fs = (r, fs')"
  shows "case r of Inl e \<Rightarrow> fs' = fs
    | Inr _ \<Rightarrow> fs' = fs(path \<mapsto> \<lparr>fe_mode = MODE_PRIVATE, fe_bytes = bs\<rparr>)"
  using assms
  by (auto simp: write_private_def write_all_def put_bytes_def Let_def remove_file_ok fun_upd_idem
      split: option.splits prod.splits if_splits)

lemma atomic_write_fresh:
  assumes "os_removes os" "atomic_temp_path os path \<noteq> path" "fs (atomic_temp_path os path) = None"
    and "atomic_write_private os path bs fs = (r, fs')"
  shows "case r of Inl e \<Rightarrow> fs' = fs
    | Inr _ \<Rightarrow> fs' = fs(path \<mapsto> \<lparr>fe_mode = MODE_PRIVATE, fe_bytes = bs\<rparr>)"
proof (cases "write_private os (atomic_temp_path os path) bs fs")
  case (Pair r1 fs1)
  note w = write_private_fresh[OF assms(1,3) Pair]
  show ?thesis
    using w assms(2,3,4) Pair
    by (auto simp: atomic_write_private_def rename_file_def Let_def remove_file_ok[OF assms(1)]
          fun_upd_idem fun_upd_twist
        split: sum.splits option.splits prod.splits if_splits)
qed

section \<open>Saving\<close>

lemma config_save_outcome:
  assumes "toml_ok tm" "os_removes os" "plain_dir d" "plain_name n"
    and "fs (atomic_temp_path os (d @ CHR ''/'' # n)) = None"
    and "config_save tm os (d @ CHR ''/'' # n) cfg fs = (r, fs')"
  shows "r = Inl e \<Longrightarrow> fs' = fs"
    and "r = Inr () \<Longrightarrow> config_load tm (d @ CHR ''/'' # n) fs' = Inr cfg"
    and "r = Inr () \<Longrightarrow> \<exists>bs. fs' = fs(d @ CHR ''/'' # n \<mapsto> \<lparr>fe_mode = MODE_PRIVATE, fe_bytes = bs\<rparr>)"
proof -
  let ?p = "d @ CHR ''/'' # n"
  have t: "atomic_temp_path os ?p \<noteq> ?p" "fs (atomic_temp_path os ?p) = None"
    using temp_path_other[OF assms(3,4), of os] assms(5) by simp_all
  have "case r of
      Inl e \<Rightarrow> fs' = fs
    | Inr _ \<Rightarrow> config_load tm ?p fs' = Inr cfg
        \<and> (\<exists>bs. fs' = fs(?p \<mapsto> \<lparr>fe_mode = MODE_PRIVATE, fe_bytes = bs\<rparr>))"
  proof (cases "tm_print tm cfg")
    case (Some s)
    have parse: "tm_parse tm s = Some cfg" using assms(1) Some by (simp add: toml_ok_def)
    obtain r1 fs1 where w: "atomic_write_private os ?p (utf8 s) fs = (r1, fs1)" by fastforce
    show ?thesis
      using atomic_write_fresh[OF assms(2) t w] w Some parse assms(6)
      by (auto simp: config_save_def config_load_def read_to_string_def read_file_def
          split: sum.splits option.splits prod.splits)
  qed (use assms(6) in \<open>auto simp: config_save_def\<close>)
  then show "r = Inl e \<Longrightarrow> fs' = fs"
    and "r = Inr () \<Longrightarrow> config_load tm ?p fs' = Inr cfg"
    and "r = Inr () \<Longrightarrow> \<exists>bs. fs' = fs(?p \<mapsto> \<lparr>fe_mode = MODE_PRIVATE, fe_bytes = bs\<rparr>)" by auto
qed

text \<open>C26: a save is all or nothing. Saving to a file either leaves every file as it was, or replaces
exactly the target by an owner-only file from which loading returns the saved configuration; no temporary
file stays behind in either case.\<close>

theorem config_save_atomic:
  assumes "toml_ok tm" "os_removes os" "plain_dir d" "plain_name n"
    and "fs (atomic_temp_path os (d @ ''/'' @ n)) = None"
    and "config_save tm os (d @ ''/'' @ n) cfg fs = (r, fs')"
  shows "case r of
      Inl e \<Rightarrow> fs' = fs
    | Inr _ \<Rightarrow> config_load tm (d @ ''/'' @ n) fs' = Inr cfg
        \<and> (\<exists>bs. fs' = fs(d @ ''/'' @ n \<mapsto> \<lparr>fe_mode = MODE_PRIVATE, fe_bytes = bs\<rparr>))"
  using config_save_outcome[OF assms(1-4), of fs cfg r fs'] assms(5,6) by (cases r) auto

definition demo_os :: os where
  "demo_os = \<lparr>os_temp_dir = ''/tmp'', os_pid = 7, os_nanos = 5, os_open_error = (\<lambda>_. None),
     os_write_error = (\<lambda>_. None), os_remove_ok = (\<lambda>_. True), os_rename_error = (\<lambda>_ _. None),
     os_mkdir_error = (\<lambda>_. None)\<rparr>"

definition demo_toml :: "sshrack_config \<Rightarrow> toml" where
  "demo_toml c = \<lparr>tm_parse = (\<lambda>s. if s = ''c'' then Some c else None),
     tm_print = (\<lambda>c'. if c' = c then Some ''c'' else None)\<rparr>"

lemma demo_toml_ok: "toml_ok (demo_toml c)"
  by (simp add: toml_ok_def demo_toml_def)

lemma demo_os_removes: "os_removes demo_os"
  by (simp add: os_removes_def demo_os_def)

theorem config_save_atomic_witness:
  "\<exists>fs'. config_save (demo_toml default_config) demo_os (''/etc'' @ ''/'' @ ''c.toml'') default_config (\<lambda>_. None) = (Inr (), fs')
     \<and> config_load (demo_toml default_config) (''/etc'' @ ''/'' @ ''c.toml'') fs' = Inr default_config"
proof -
  have p: "plain_dir ''/etc''" "plain_name ''c.toml''" by (simp_all add: plain_dir_def plain_name_def)
  obtain r fs' where r: "config_save (demo_toml default_config) demo_os (''/etc'' @ ''/'' @ ''c.toml'') default_config
      (\<lambda>_. None) = (r, fs')" by fastforce
  have "is_ok (fst (config_save (demo_toml default_config) demo_os (''/etc'' @ ''/'' @ ''c.toml'') default_config
      (\<lambda>_. None)))" by code_simp
  then show ?thesis
    using config_save_atomic[OF demo_toml_ok demo_os_removes p _ r] r by (cases r) auto
qed

end
