(* ===== verification/Connect.thy ===== *)
theory Connect
  imports Credential Config_Store
begin

text \<open>The connect layer (\<^verbatim>\<open>connect/mod.rs\<close>, \<^verbatim>\<open>connect/ssh.rs\<close>): the environment that
makes ssh call the askpass helper, the temporary files for a password and a pasted key, the ssh command
line, and the launch.  The child process is an argument: what it returns and what it does to the
files.\<close>

section \<open>Environment\<close>

definition ASKPASS_FILE_ENV :: string where "ASKPASS_FILE_ENV = ''SSHRACK_ASKPASS_FILE''"
definition HOST_ID_ENV :: string where "HOST_ID_ENV = ''SSHRACK_HOST_ID''"
definition CONFIG_ENV :: string where "CONFIG_ENV = ''SSHRACK_CONFIG''"
definition ASKPASS_DENY_ENV :: string where "ASKPASS_DENY_ENV = ''SSHRACK_ASKPASS_DENY''"

definition askpass_triplet :: "string \<Rightarrow> (string \<times> string) list" where
  "askpass_triplet self_exe =
     [(''SSH_ASKPASS'', self_exe), (''SSH_ASKPASS_REQUIRE'', ''force''), (''DISPLAY'', '':0'')]"

definition askpass_payload ::
  "password_source \<Rightarrow> string option \<Rightarrow> string option \<Rightarrow> (string \<times> string) list" where
  "askpass_payload source pw_file config_path =
     (case source of
        SourceInline _ \<Rightarrow> (case pw_file of Some p \<Rightarrow> [(ASKPASS_FILE_ENV, p)] | None \<Rightarrow> [])
      | SourceConfig host_id \<Rightarrow>
          (HOST_ID_ENV, host_id) # (case config_path of Some p \<Rightarrow> [(CONFIG_ENV, p)] | None \<Rightarrow> [])
      | SourceKeyring key \<Rightarrow> [(KEYRING_KEY_ENV, key)]
      | SourceNone \<Rightarrow> [])"

definition askpass_env_for ::
  "string \<Rightarrow> password_source \<Rightarrow> string option \<Rightarrow> string option \<Rightarrow> (string \<times> string) list" where
  "askpass_env_for self_exe source pw_file config_path =
     (if source = SourceNone then [] else askpass_triplet self_exe @ askpass_payload source pw_file config_path)"

definition askpass_env_for_sftp ::
  "string \<Rightarrow> password_source \<Rightarrow> string option \<Rightarrow> string option \<Rightarrow> (string \<times> string) list" where
  "askpass_env_for_sftp self_exe source pw_file config_path =
     (let env = askpass_env_for self_exe source pw_file config_path
      in if source = SourceNone
         then (if env = [] then askpass_triplet self_exe else env) @ [(ASKPASS_DENY_ENV, ''1'')]
         else env)"

definition env_for :: "password_source \<Rightarrow> string option \<Rightarrow> (string \<times> string) list" where
  "env_for source config_path = askpass_env_for ''/sshrack'' source None config_path"

text \<open>The environment of a child: the inherited one with the given variables set, later entries
last.\<close>

type_synonym env = "string \<Rightarrow> string option"

definition child_env :: "env \<Rightarrow> (string \<times> string) list \<Rightarrow> env" where
  "child_env inherited vars = foldl (\<lambda>e (k, v). e(k \<mapsto> v)) inherited vars"

section \<open>Temporary files\<close>

definition temp_name :: "os \<Rightarrow> string \<Rightarrow> string \<Rightarrow> string" where
  "temp_name os pre suf =
     path_join (os_temp_dir os) (pre @ show_pid os @ ''-'' @ show_nat (os_nanos os) @ suf)"

definition write_password_file :: "os \<Rightarrow> string \<Rightarrow> temp_state \<Rightarrow> (sshrack_error + string) \<times> temp_state" where
  "write_password_file os pw st =
     (let path = temp_name os ''sshrack-askpass-'' ''.pw''
      in case create_new os path (ts_files st) of
           (Inl e, fs) \<Rightarrow> (Inl (AskpassWrite path e), st\<lparr>ts_files := fs\<rparr>)
         | (Inr _, fs) \<Rightarrow>
             (case write_all os path (utf8 pw) fs of
                (Inl e, fs1) \<Rightarrow>
                  (Inl (AskpassWrite path e), st\<lparr>ts_files := snd (remove_file os path fs1)\<rparr>)
              | (Inr _, fs1) \<Rightarrow> (Inr path, register path (st\<lparr>ts_files := fs1\<rparr>))))"

definition ensure_trailing_newline :: "string \<Rightarrow> string" where
  "ensure_trailing_newline s =
     rev (dropWhile (\<lambda>c. c = CHR 0x0A \<or> c = CHR 0x0D) (rev s)) @ [CHR 0x0A]"

record key_artifact =
  ka_private :: string
  ka_cert :: "string option"

definition cert_path_for :: "string \<Rightarrow> string" where
  "cert_path_for private_path =
     with_file_name private_path
       (case file_name private_path of
          Some n \<Rightarrow> n @ ''-cert.pub'' | None \<Rightarrow> ''sshrack-key-cert.pub'')"

text \<open>The certificate file beside the private key; a failure rolls the private file back.\<close>

definition write_cert ::
  "os \<Rightarrow> string \<Rightarrow> string option \<Rightarrow> files \<Rightarrow> (sshrack_error + string option) \<times> files" where
  "write_cert os private_path cert fs =
     (case cert of
        None \<Rightarrow> (Inr None, fs)
      | Some c \<Rightarrow>
          (let cp = cert_path_for private_path
           in case create_new os cp fs of
                (Inl e, fs1) \<Rightarrow> (Inl (AskpassWrite cp e), snd (remove_file os private_path fs1))
              | (Inr _, fs1) \<Rightarrow>
                  (case write_all os cp (utf8 (ensure_trailing_newline c)) fs1 of
                     (Inl e, fs2) \<Rightarrow>
                       (Inl (AskpassWrite cp e),
                        snd (remove_file os cp (snd (remove_file os private_path fs2))))
                   | (Inr _, fs2) \<Rightarrow> (Inr (Some cp), fs2))))"

definition key_artifact_write ::
  "os \<Rightarrow> string \<Rightarrow> string option \<Rightarrow> temp_state \<Rightarrow> (sshrack_error + key_artifact) \<times> temp_state" where
  "key_artifact_write os private certificate st =
     (let path = temp_name os ''sshrack-key-'' ''.pem''
      in case create_new os path (ts_files st) of
           (Inl e, fs) \<Rightarrow> (Inl (AskpassWrite path e), st\<lparr>ts_files := fs\<rparr>)
         | (Inr _, fs) \<Rightarrow>
             (case write_all os path (utf8 (ensure_trailing_newline private)) fs of
                (Inl e, fs1) \<Rightarrow>
                  (Inl (AskpassWrite path e), st\<lparr>ts_files := snd (remove_file os path fs1)\<rparr>)
              | (Inr _, fs1) \<Rightarrow>
                  (case write_cert os path certificate fs1 of
                     (Inl e, fs2) \<Rightarrow> (Inl e, st\<lparr>ts_files := fs2\<rparr>)
                   | (Inr cp, fs2) \<Rightarrow>
                       (let st1 = register path (st\<lparr>ts_files := fs2\<rparr>)
                        in (Inr \<lparr>ka_private = path, ka_cert = cp\<rparr>,
                            case cp of Some c \<Rightarrow> register c st1 | None \<Rightarrow> st1)))))"

definition key_artifact_drop :: "os \<Rightarrow> key_artifact \<Rightarrow> temp_state \<Rightarrow> temp_state" where
  "key_artifact_drop os a st =
     (let st1 = unregister (ka_private a) st;
          st2 = (case ka_cert a of Some c \<Rightarrow> unregister c st1 | None \<Rightarrow> st1);
          fs1 = snd (remove_file os (ka_private a) (ts_files st2));
          fs2 = (case ka_cert a of Some c \<Rightarrow> snd (remove_file os c fs1) | None \<Rightarrow> fs1)
      in st2\<lparr>ts_files := fs2\<rparr>)"

definition materialize_inline_key ::
  "os \<Rightarrow> resolved_auth \<Rightarrow> temp_state \<Rightarrow> (sshrack_error + key_artifact option) \<times> resolved_auth \<times> temp_state" where
  "materialize_inline_key os r st =
     (let r1 = r\<lparr>ra_inline_key := None\<rparr>
      in case ra_inline_key r of
           None \<Rightarrow> (Inr None, r1, st)
         | Some mat \<Rightarrow>
             (case key_artifact_write os (im_private mat) (im_certificate mat) st of
                (Inl e, st1) \<Rightarrow> (Inl e, r1, st1)
              | (Inr a, st1) \<Rightarrow> (Inr (Some a), r1\<lparr>ra_key_path := Some (ka_private a)\<rparr>, st1)))"

section \<open>The ssh command line\<close>

record overrides =
  ov_user :: "string option"
  ov_port :: "16 word option"
  ov_identity :: "string option"
  ov_credential :: "ulid option"

definition effective_user :: "resolved_auth \<Rightarrow> overrides \<Rightarrow> string" where
  "effective_user r ov = opt_or (ov_user ov) (ra_user r)"

definition effective_identity :: "resolved_auth \<Rightarrow> overrides \<Rightarrow> string option" where
  "effective_identity r ov = (case ov_identity ov of Some k \<Rightarrow> Some k | None \<Rightarrow> ra_key_path r)"

definition connect_opts :: "splitter \<Rightarrow> resolved_auth \<Rightarrow> host \<Rightarrow> overrides \<Rightarrow> string list" where
  "connect_opts sh r h ov =
     [''-l'', effective_user r ov, ''-p'', show_nat (unat (opt_or (ov_port ov) (h_port h)))]
     @ (case effective_identity r ov of Some k \<Rightarrow> [''-i'', k] | None \<Rightarrow> [])
     @ (if effective_identity r ov \<noteq> None \<and> ra_password r = SourceNone
        then [''-o'', ''IdentitiesOnly=yes'', ''-o'', ''PasswordAuthentication=no''] else [])
     @ (case h_ssh_args h of Some raw \<Rightarrow> ssh_args_tokens sh raw | None \<Rightarrow> [])"

definition ssh_build :: "splitter \<Rightarrow> resolved_auth \<Rightarrow> host \<Rightarrow> overrides \<Rightarrow> string list \<Rightarrow> string list" where
  "ssh_build sh r h ov remote_command =
     [''ssh''] @ connect_opts sh r h ov @ [h_host h] @ remote_command"

section \<open>Launching\<close>

text \<open>The child: its result (a spawn error, or the exit code when it was not killed by a signal) and the
files after it.\<close>

type_synonym child = "string list \<Rightarrow> env \<Rightarrow> files \<Rightarrow> (io_error + int option) \<times> files"

definition drop_password_file :: "os \<Rightarrow> string \<Rightarrow> temp_state \<Rightarrow> temp_state" where
  "drop_password_file os path st =
     (let st1 = unregister path st
      in st1\<lparr>ts_files := snd (remove_file os path (ts_files st1))\<rparr>)"

text \<open>Only a decrypted password is put in a file.\<close>

definition stage_password ::
  "os \<Rightarrow> password_source \<Rightarrow> temp_state \<Rightarrow> (sshrack_error + string option) \<times> temp_state" where
  "stage_password os source st =
     (case source of
        SourceInline p \<Rightarrow>
          (case write_password_file os p st of
             (Inl e, st1) \<Rightarrow> (Inl e, st1) | (Inr path, st1) \<Rightarrow> (Inr (Some path), st1))
      | _ \<Rightarrow> (Inr None, st))"

definition launch ::
  "os \<Rightarrow> child \<Rightarrow> env \<Rightarrow> string list \<Rightarrow> password_source \<Rightarrow> string \<Rightarrow> string option \<Rightarrow> temp_state \<Rightarrow>
   (sshrack_error + int) \<times> temp_state" where
  "launch os child inherited argv source self_exe config_path st =
     (case stage_password os source st of
        (Inl e, st1) \<Rightarrow> (Inl e, st1)
      | (Inr pw_file, st1) \<Rightarrow>
          (case child argv (child_env inherited (askpass_env_for self_exe source pw_file config_path))
                  (ts_files st1) of
             (Inl e, fs) \<Rightarrow> (Inl (Io e), st1\<lparr>ts_files := fs\<rparr>)
           | (Inr code, fs) \<Rightarrow>
               (let st2 = st1\<lparr>ts_files := fs\<rparr>
                in (Inr (case code of Some c \<Rightarrow> c | None \<Rightarrow> 1),
                    case pw_file of None \<Rightarrow> st2 | Some p \<Rightarrow> drop_password_file os p st2))))"

end
