(* ===== verification/Connect_Files.thy ===== *)
theory Connect_Files
  imports Connect
begin

text \<open>The temporary files of a connection: both owners of \<^verbatim>\<open>connect/mod.rs\<close> satisfy the
contract \<^verbatim>\<open>temp_owner\<close>, and what follows for a launch, a failed spawn, a signal and the start-up
sweep.\<close>

section \<open>The owners\<close>

lemma temp_file_name:
  "CHR ''/'' \<notin> set pre \<Longrightarrow> CHR ''/'' \<notin> set suf \<Longrightarrow> pre \<noteq> [] \<Longrightarrow> hd pre \<noteq> CHR ''.'' \<Longrightarrow>
   file_name (temp_name os pre suf) = Some (pre @ show_pid os @ ''-'' @ show_nat (os_nanos os) @ suf)"
  unfolding temp_name_def
  by (rule file_name_join) (cases pre; auto simp: plain_name_def show_pid_def show_nat_no_slash)

lemma cert_path_other:
  assumes "file_name p = Some n"
  shows "cert_path_for p \<noteq> p"
proof -
  have "plain_name n"
    using assms rsplit_once_Some[of "CHR ''/''" "strip_slashes p"] rsplit_once_None[of "CHR ''/''" "strip_slashes p"]
    by (auto simp: file_name_def plain_name_def Let_def split: option.splits if_splits)
  then have "plain_name (n @ ''-cert.pub'')" by (auto simp: plain_name_def)
  then have "file_name (cert_path_for p) = Some (n @ ''-cert.pub'')"
    using assms by (simp add: cert_path_for_def with_file_name_def file_name_join)
  then show ?thesis using assms by auto
qed

lemma key_cert_other:
  "cert_path_for (temp_name os ''sshrack-key-'' ''.pem'') \<noteq> temp_name os ''sshrack-key-'' ''.pem''"
  by (rule cert_path_other[OF temp_file_name]) simp_all

definition ka_paths :: "key_artifact \<Rightarrow> string list" where
  "ka_paths a = ka_private a # (case ka_cert a of Some c \<Rightarrow> [c] | None \<Rightarrow> [])"

lemma create_new_cases:
  "create_new os p fs = (r, fs') \<longleftrightarrow>
     (case r of Inl e \<Rightarrow> fs' = fs \<and> (os_open_error os p = Some e
                 \<or> os_open_error os p = None \<and> fs p \<noteq> None \<and> e = IoOther ''file exists'')
      | Inr _ \<Rightarrow> os_open_error os p = None \<and> fs p = None
                 \<and> fs' = fs(p \<mapsto> \<lparr>fe_mode = MODE_PRIVATE, fe_bytes = []\<rparr>))"
  by (auto simp: create_new_def split: option.splits sum.splits)

lemma write_all_new:
  "write_all os p bs (fs(p \<mapsto> f)) =
     (case os_write_error os p of
        Some (n, e) \<Rightarrow> (Inl e, fs(p \<mapsto> f\<lparr>fe_bytes := take n bs\<rparr>))
      | None \<Rightarrow> (Inr (), fs(p \<mapsto> f\<lparr>fe_bytes := bs\<rparr>)))"
  by (auto simp: write_all_def put_bytes_def split: option.splits)

lemma write_password_file_ok:
  assumes "write_password_file os pw st = (Inr path, st')"
  shows "path = temp_name os ''sshrack-askpass-'' ''.pw''" "ts_files st path = None"
    and "st' = \<lparr>ts_files = (ts_files st)(path \<mapsto> \<lparr>fe_mode = MODE_PRIVATE, fe_bytes = utf8 pw\<rparr>),
                ts_live = ts_live st @ [path]\<rparr>"
proof -
  let ?p = "temp_name os ''sshrack-askpass-'' ''.pw''"
  obtain r fs where c: "create_new os ?p (ts_files st) = (r, fs)" by fastforce
  have "path = ?p \<and> ts_files st path = None
    \<and> st' = \<lparr>ts_files = (ts_files st)(path \<mapsto> \<lparr>fe_mode = MODE_PRIVATE, fe_bytes = utf8 pw\<rparr>),
                ts_live = ts_live st @ [path]\<rparr>"
    using assms c c[unfolded create_new_cases]
    by (auto simp: write_password_file_def write_all_new register_def Let_def
        split: sum.splits option.splits prod.splits)
  then show "path = ?p" "ts_files st path = None"
    and "st' = \<lparr>ts_files = (ts_files st)(path \<mapsto> \<lparr>fe_mode = MODE_PRIVATE, fe_bytes = utf8 pw\<rparr>),
                ts_live = ts_live st @ [path]\<rparr>" by auto
qed

lemma write_password_file_err:
  assumes "os_removes os" "write_password_file os pw st = (Inl e, st')"
  shows "st' = st"
proof -
  let ?p = "temp_name os ''sshrack-askpass-'' ''.pw''"
  obtain r fs where c: "create_new os ?p (ts_files st) = (r, fs)" by fastforce
  show ?thesis
    using assms(2) c c[unfolded create_new_cases]
    by (auto simp: write_password_file_def write_all_new register_def Let_def remove_file_ok[OF assms(1)]
          fun_upd_idem split: sum.splits option.splits prod.splits)
qed

interpretation pw: temp_owner os "write_password_file os pw" "\<lambda>p. [p]" "drop_password_file os"
  for os pw
proof
  show "st' = st" if "os_removes os" "write_password_file os pw st = (Inl e, st')" for st st' e
    by (rule write_password_file_err[OF that])
  show "ts_files st p = None \<and> map_option fe_mode (ts_files st' p) = Some MODE_PRIVATE"
    if "write_password_file os pw st = (Inr a, st')" "p \<in> set [a]" for st st' a p
    using write_password_file_ok[OF that(1)] that(2) by simp
  show "ts_files st' p = ts_files st p"
    if "write_password_file os pw st = (Inr a, st')" "p \<notin> set [a]" for st st' a p
    using write_password_file_ok[OF that(1)] that(2) by simp
  show "ts_live st' = ts_live st @ [a]" if "write_password_file os pw st = (Inr a, st')" for st st' a
    using write_password_file_ok[OF that] by simp
  show "ts_files (drop_password_file os a st) = (\<lambda>p. if p \<in> set [a] then None else ts_files st p)"
    if "os_removes os" for a st
    using remove_file_ok[OF that] by (auto simp: drop_password_file_def unregister_def Let_def)
  show "ts_live (drop_password_file os a st) = List.filter (\<lambda>p. p \<notin> set [a]) (ts_live st)" for a st
    by (simp add: drop_password_file_def unregister_def Let_def)
qed

definition private_file :: "string \<Rightarrow> file_entry" where
  "private_file s = \<lparr>fe_mode = MODE_PRIVATE, fe_bytes = utf8 (ensure_trailing_newline s)\<rparr>"

lemma write_cert_ok:
  assumes "write_cert os p cert fs = (Inr cp, fs')"
  shows "case cert of
      None \<Rightarrow> cp = None \<and> fs' = fs
    | Some c \<Rightarrow> cp = Some (cert_path_for p) \<and> fs (cert_path_for p) = None
        \<and> fs' = fs(cert_path_for p \<mapsto> private_file c)"
proof (cases cert)
  case (Some c)
  obtain r fs1 where c: "create_new os (cert_path_for p) fs = (r, fs1)" by fastforce
  show ?thesis
    using assms c c[unfolded create_new_cases] Some
    by (cases r) (auto simp: write_cert_def write_all_new Let_def private_file_def split: option.splits prod.splits)
qed (use assms in \<open>simp add: write_cert_def\<close>)

lemma write_cert_err:
  assumes "os_removes os" "cert_path_for p \<noteq> p" "write_cert os p cert (fs(p \<mapsto> f)) = (Inl e, fs')" "fs p = None"
  shows "fs' = fs"
proof (cases cert)
  case (Some c)
  let ?c = "cert_path_for p"
  note rm = remove_file_ok[OF assms(1)]
  obtain r fs1 where c: "create_new os ?c (fs(p \<mapsto> f)) = (r, fs1)" by fastforce
  note cc = c[unfolded create_new_cases]
  show ?thesis
  proof (cases r)
    case (Inl x)
    then have "fs1 = fs(p \<mapsto> f)" using cc by simp
    then show ?thesis using assms(3,4) c Some Inl by (simp add: write_cert_def Let_def rm fun_upd_idem)
  next
    case (Inr x)
    then have n: "fs ?c = None" and f1: "fs1 = (fs(p \<mapsto> f))(?c \<mapsto> \<lparr>fe_mode = MODE_PRIVATE, fe_bytes = []\<rparr>)"
      using cc assms(2) by auto
    obtain m err where "os_write_error os ?c = Some (m, err)"
      using assms(3) c Some Inr by (auto simp: write_cert_def Let_def f1 write_all_new split: option.splits)
    then obtain g where "fs' = (((fs(p \<mapsto> f))(?c \<mapsto> g))(p := None))(?c := None)"
      using assms(3) c Some Inr by (auto simp: write_cert_def Let_def f1 write_all_new rm)
    then show ?thesis using assms(2,4) n by (auto simp: fun_eq_iff)
  qed
qed (use assms in \<open>simp add: write_cert_def\<close>)

text \<open>The steps of a key artifact that was written.\<close>

lemma key_artifact_write_Inr:
  assumes "key_artifact_write os private certificate st = (Inr a, st')"
  obtains fs2 where "ts_files st (ka_private a) = None"
    and "ka_private a = temp_name os ''sshrack-key-'' ''.pem''"
    and "write_cert os (ka_private a) certificate ((ts_files st)(ka_private a \<mapsto> private_file private))
           = (Inr (ka_cert a), fs2)"
    and "st' = \<lparr>ts_files = fs2, ts_live = ts_live st @ ka_paths a\<rparr>"
proof -
  let ?p = "temp_name os ''sshrack-key-'' ''.pem''"
  obtain r fs where c: "create_new os ?p (ts_files st) = (r, fs)" by fastforce
  obtain r2 fs2 where w: "write_cert os ?p certificate ((ts_files st)(?p \<mapsto> private_file private)) = (r2, fs2)"
    by fastforce
  note cc = c[unfolded create_new_cases]
  have "r = Inr ()" using assms c by (cases r) (auto simp: key_artifact_write_def Let_def)
  then have r: "ts_files st ?p = None" "fs = (ts_files st)(?p \<mapsto> \<lparr>fe_mode = MODE_PRIVATE, fe_bytes = []\<rparr>)"
    using cc by auto
  have e: "os_write_error os ?p = None"
    using assms c \<open>r = Inr ()\<close> r(2) by (auto simp: key_artifact_write_def Let_def write_all_new split: option.splits)
  have k: "key_artifact_write os private certificate st =
      (case r2 of Inl e \<Rightarrow> (Inl e, st\<lparr>ts_files := fs2\<rparr>)
       | Inr cp \<Rightarrow> (Inr \<lparr>ka_private = ?p, ka_cert = cp\<rparr>,
            case cp of Some c \<Rightarrow> register c (register ?p (st\<lparr>ts_files := fs2\<rparr>))
            | None \<Rightarrow> register ?p (st\<lparr>ts_files := fs2\<rparr>)))"
    using c \<open>r = Inr ()\<close> e w unfolding r(2)
    by (simp add: key_artifact_write_def Let_def write_all_new private_file_def split: sum.splits)
  obtain cp where cp: "r2 = Inr cp" using assms k by (cases r2) auto
  have a: "a = \<lparr>ka_private = ?p, ka_cert = cp\<rparr>" using assms k cp by auto
  show thesis
    by (rule that[of fs2])
       (use assms k cp w r(1) in \<open>auto simp: a register_def ka_paths_def split: option.splits\<close>)
qed

lemma key_artifact_write_ok:
  assumes "key_artifact_write os private certificate st = (Inr a, st')"
  shows "ka_cert a = map_option (\<lambda>_. cert_path_for (ka_private a)) certificate"
    and "list_all (\<lambda>p. ts_files st p = None) (ka_paths a)"
    and "ts_live st' = ts_live st @ ka_paths a"
    and "ts_files st' (ka_private a) = Some (private_file private)"
    and "\<And>c. certificate = Some c \<Longrightarrow> ts_files st' (cert_path_for (ka_private a)) = Some (private_file c)"
    and "\<And>p. p \<notin> set (ka_paths a) \<Longrightarrow> ts_files st' p = ts_files st p"
proof -
  obtain fs2 where f: "ts_files st (ka_private a) = None"
    and p: "ka_private a = temp_name os ''sshrack-key-'' ''.pem''"
    and w: "write_cert os (ka_private a) certificate ((ts_files st)(ka_private a \<mapsto> private_file private))
           = (Inr (ka_cert a), fs2)"
    and st': "st' = \<lparr>ts_files = fs2, ts_live = ts_live st @ ka_paths a\<rparr>"
    by (rule key_artifact_write_Inr[OF assms])
  have n: "cert_path_for (ka_private a) \<noteq> ka_private a" unfolding p by (rule key_cert_other)
  note facts = write_cert_ok[OF w] f n st'
  show "ka_cert a = map_option (\<lambda>_. cert_path_for (ka_private a)) certificate"
    using facts(1) by (cases certificate) auto
  show "list_all (\<lambda>p. ts_files st p = None) (ka_paths a)"
    using facts by (cases certificate) (auto simp: ka_paths_def)
  show "ts_live st' = ts_live st @ ka_paths a" using st' by simp
  show "ts_files st' (ka_private a) = Some (private_file private)"
    using facts by (cases certificate) auto
  show "ts_files st' (cert_path_for (ka_private a)) = Some (private_file c)" if "certificate = Some c" for c
    using facts that by auto
  show "ts_files st' p = ts_files st p" if "p \<notin> set (ka_paths a)" for p
    using facts that by (cases certificate) (auto simp: ka_paths_def)
qed

lemma key_artifact_write_err:
  assumes "os_removes os" "key_artifact_write os private certificate st = (Inl e, st')"
  shows "st' = st"
proof -
  let ?p = "temp_name os ''sshrack-key-'' ''.pem''"
  obtain r fs where c: "create_new os ?p (ts_files st) = (r, fs)" by fastforce
  obtain r2 fs2 where w: "write_cert os ?p certificate ((ts_files st)(?p \<mapsto> private_file private)) = (r2, fs2)"
    by fastforce
  note cc = c[unfolded create_new_cases]
  show ?thesis
  proof (cases r)
    case (Inl x)
    then show ?thesis using assms(2) c cc by (simp add: key_artifact_write_def Let_def)
  next
    case (Inr x)
    then have f: "ts_files st ?p = None" and fs: "fs = (ts_files st)(?p \<mapsto> \<lparr>fe_mode = MODE_PRIVATE, fe_bytes = []\<rparr>)"
      using cc by auto
    show ?thesis
    proof (cases "os_write_error os ?p")
      case (Some ne)
      obtain n err where "ne = (n, err)" by fastforce
      then show ?thesis
        using assms(2) c Inr Some f
        by (simp add: key_artifact_write_def Let_def fs write_all_new remove_file_ok[OF assms(1)] fun_upd_idem)
    next
      case None
      have "r2 = Inl e \<and> st' = st\<lparr>ts_files := fs2\<rparr>"
        using assms(2) c Inr None w
        by (simp add: key_artifact_write_def Let_def fs write_all_new private_file_def split: sum.splits)
      moreover have "fs2 = ts_files st"
        by (rule write_cert_err[where p = ?p and fs = "ts_files st" and cert = certificate and e = e and os = os
              and f = "private_file private"]) (use assms(1) key_cert_other w f calculation in auto)
      ultimately show ?thesis by simp
    qed
  qed
qed

interpretation key: temp_owner os "key_artifact_write os priv cert" ka_paths "key_artifact_drop os"
  for os priv cert
proof
  show "st' = st" if "os_removes os" "key_artifact_write os priv cert st = (Inl e, st')" for st st' e
    by (rule key_artifact_write_err[OF that])
  show "ts_files st p = None \<and> map_option fe_mode (ts_files st' p) = Some MODE_PRIVATE"
    if "key_artifact_write os priv cert st = (Inr a, st')" "p \<in> set (ka_paths a)" for st st' a p
    using key_artifact_write_ok[OF that(1)] that(2)
    by (cases cert) (auto simp: list_all_iff ka_paths_def private_file_def)
  show "ts_files st' p = ts_files st p"
    if "key_artifact_write os priv cert st = (Inr a, st')" "p \<notin> set (ka_paths a)" for st st' a p
    by (rule key_artifact_write_ok(6)[OF that])
  show "ts_live st' = ts_live st @ ka_paths a" if "key_artifact_write os priv cert st = (Inr a, st')" for st st' a
    by (rule key_artifact_write_ok(3)[OF that])
  show "ts_files (key_artifact_drop os a st) = (\<lambda>p. if p \<in> set (ka_paths a) then None else ts_files st p)"
    if "os_removes os" for a st
    by (auto simp: key_artifact_drop_def unregister_def Let_def ka_paths_def remove_file_ok[OF that]
        split: option.splits)
  show "ts_live (key_artifact_drop os a st) = List.filter (\<lambda>p. p \<notin> set (ka_paths a)) (ts_live st)" for a st
    by (auto simp: key_artifact_drop_def unregister_def Let_def ka_paths_def conj_commute split: option.splits)
qed


section \<open>Properties\<close>

text \<open>C16: staging a pasted key is all or nothing and can always be undone. It either fails and leaves
files and registry as they were, or creates the private key and the certificate as owner-only files, under
names that were free, with exactly one final newline; dropping the artifact then restores the state before,
and so does the cleaning at a signal.\<close>

theorem key_artifact_all_or_nothing:
  assumes "os_removes os" "live_ok st" "key_artifact_write os private cert st = (r, st')"
  shows "case r of
      Inl e \<Rightarrow> st' = st
    | Inr a \<Rightarrow>
        ts_files st' (ka_private a) = Some \<lparr>fe_mode = MODE_PRIVATE, fe_bytes = utf8 (ensure_trailing_newline private)\<rparr>
        \<and> (case cert of
             None \<Rightarrow> ka_cert a = None
           | Some c \<Rightarrow> \<exists>cp. ka_cert a = Some cp \<and> cp \<noteq> ka_private a \<and> ts_files st' cp =
               Some \<lparr>fe_mode = MODE_PRIVATE, fe_bytes = utf8 (ensure_trailing_newline c)\<rparr>)
        \<and> list_all (\<lambda>p. ts_files st p = None) (ka_paths a)
        \<and> live_ok st' \<and> key_artifact_drop os a st' = st
        \<and> snd (cleanup_all os st') = snd (cleanup_all os st)"
proof (cases r)
  case (Inl e)
  then show ?thesis using key.acquire_err[OF assms(1)] assms(3) by simp
next
  case (Inr a)
  note w = assms(3)[unfolded Inr]
  have "ka_private a = temp_name os ''sshrack-key-'' ''.pem''" by (rule key_artifact_write_Inr[OF w])
  then have "cert_path_for (ka_private a) \<noteq> ka_private a" using key_cert_other by simp
  then show ?thesis
    using key_artifact_write_ok[OF w] key.acquire_live_ok[OF assms(2) w] key.release_inverse[OF assms(1,2) w]
      key.cleanup_wipes[OF assms(1) w] Inr
    by (auto simp: private_file_def split: option.splits)
qed

definition empty_state :: temp_state where
  "empty_state = \<lparr>ts_files = (\<lambda>_. None), ts_live = []\<rparr>"

theorem key_artifact_all_or_nothing_witness:
  "\<exists>a st'. key_artifact_write demo_os ''KEY'' (Some ''CERT'') empty_state = (Inr a, st')
     \<and> ka_private a = ''/tmp/sshrack-key-7-5.pem'' \<and> key_artifact_drop demo_os a st' = empty_state
     \<and> map_option fe_bytes (ts_files st' ''/tmp/sshrack-key-7-5.pem'') = Some (''KEY'' @ [CHR 0x0A])"
proof -
  let ?run = "key_artifact_write demo_os ''KEY'' (Some ''CERT'') empty_state"
  have "is_ok (fst ?run)" by code_simp
  then obtain a st' where r: "?run = (Inr a, st')" by (cases ?run; cases "fst ?run") auto
  have l: "live_ok empty_state" by (simp add: live_ok_def empty_state_def)
  have n: "temp_name demo_os ''sshrack-key-'' ''.pem'' = ''/tmp/sshrack-key-7-5.pem''" by code_simp
  have p: "ka_private a = ''/tmp/sshrack-key-7-5.pem''"
    using key_artifact_write_Inr[OF r] n by metis
  have b: "utf8 (ensure_trailing_newline ''KEY'') = ''KEY'' @ [CHR 0x0A]" by code_simp
  show ?thesis using key_artifact_all_or_nothing[OF demo_os_removes l r] r p b by auto
qed

text \<open>A launch that ran its child leaves no password behind. Only a decrypted password is put in a
file, owner-only and under a free name, visible to the child alone: when the launch returns the exit code,
that file is gone, every other file is as the child left it, and the registry is the one before.\<close>

theorem launch_leaves_no_password:
  assumes "os_removes os" "live_ok st" "launch os child inherited argv source self_exe config_path st = (Inr code, st')"
  shows "ts_live st' = ts_live st \<and>
    (case source of
       SourceInline p \<Rightarrow>
         (\<exists>path fs c. ts_files st path = None
            \<and> child argv (child_env inherited (askpass_env_for self_exe source (Some path) config_path))
                ((ts_files st)(path \<mapsto> \<lparr>fe_mode = MODE_PRIVATE, fe_bytes = utf8 p\<rparr>)) = (Inr c, fs)
            \<and> ts_files st' = fs(path := None) \<and> code = (case c of Some n \<Rightarrow> n | None \<Rightarrow> 1))
     | _ \<Rightarrow>
         (\<exists>fs c. child argv (child_env inherited (askpass_env_for self_exe source None config_path)) (ts_files st)
              = (Inr c, fs)
            \<and> ts_files st' = fs \<and> code = (case c of Some n \<Rightarrow> n | None \<Rightarrow> 1)))"
proof (cases "\<exists>p. source = SourceInline p")
  case True
  then obtain p where src: "source = SourceInline p" by blast
  obtain path st1 where w: "write_password_file os p st = (Inr path, st1)"
    using assms(3) src by (auto simp: launch_def stage_password_def split: sum.splits prod.splits)
  let ?env = "child_env inherited (askpass_env_for self_exe source (Some path) config_path)"
  obtain c fs where ch: "child argv ?env (ts_files st1) = (Inr c, fs)"
    and st': "st' = drop_password_file os path (st1\<lparr>ts_files := fs\<rparr>)" "code = (case c of Some n \<Rightarrow> n | None \<Rightarrow> 1)"
    using assms(3) src w by (auto simp: launch_def stage_password_def Let_def split: sum.splits prod.splits)
  have l: "ts_live (st1\<lparr>ts_files := fs\<rparr>) = ts_live st1" by simp
  note rel = pw.release_restores[OF assms(1,2) w l] pw.acquire_fresh[OF w, of path]
  have "ts_files st' = fs(path := None)" using rel by (auto simp: st'(1))
  then show ?thesis using rel write_password_file_ok[OF w] ch src st' by auto
next
  case False
  then show ?thesis
    using assms(3) by (cases source) (auto simp: launch_def stage_password_def Let_def split: sum.splits prod.splits)
qed

theorem launch_leaves_no_password_witness:
  "\<exists>st'. launch demo_os (\<lambda>argv env fs. (Inr (Some 0), fs)) (\<lambda>_. None) [''ssh'', ''h''] (SourceInline ''pw'')
       ''/bin/sshrack'' None empty_state = (Inr 0, st')
     \<and> ts_live st' = [] \<and> ts_files st' = (\<lambda>_. None)"
proof -
  let ?child = "\<lambda>argv env fs. (Inr (Some 0), fs)"
  let ?run = "launch demo_os ?child (\<lambda>_. None) [''ssh'', ''h''] (SourceInline ''pw'') ''/bin/sshrack'' None empty_state"
  have "fst ?run = Inr 0" by code_simp
  then obtain st' where r: "?run = (Inr 0, st')" by (cases ?run) auto
  have l: "live_ok empty_state" by (simp add: live_ok_def empty_state_def)
  have "ts_files st' = (\<lambda>_. None)" "ts_live st' = []"
    using launch_leaves_no_password[OF demo_os_removes l r] by (auto simp: empty_state_def fun_upd_idem)
  then show ?thesis using r by blast
qed

text \<open>A child that cannot be started leaves the decrypted password on disk. When the spawn fails the
launch returns the error at once, before its clean-up, so the password file stays, readable by its owner and
still registered.\<close>

theorem launch_spawn_failure_leaves_password:
  assumes "write_password_file os p st = (Inr path, st1)"
    and "child argv (child_env inherited (askpass_env_for self_exe (SourceInline p) (Some path) config_path))
           (ts_files st1) = (Inl e, ts_files st1)"
  shows "\<exists>st'. launch os child inherited argv (SourceInline p) self_exe config_path st = (Inl (Io e), st')
    \<and> ts_files st' path = Some \<lparr>fe_mode = MODE_PRIVATE, fe_bytes = utf8 p\<rparr> \<and> path \<in> set (ts_live st')"
  using assms write_password_file_ok[OF assms(1)] by (auto simp: launch_def stage_password_def)

theorem launch_spawn_failure_leaves_password_witness:
  "\<exists>st'. launch demo_os (\<lambda>argv env fs. (Inl IoNotFound, fs)) (\<lambda>_. None) [''ssh'', ''h''] (SourceInline ''pw'')
       ''/bin/sshrack'' None empty_state = (Inl (Io IoNotFound), st')
     \<and> map_option fe_bytes (ts_files st' ''/tmp/sshrack-askpass-7-5.pw'') = Some ''pw''"
proof -
  let ?w = "write_password_file demo_os ''pw'' empty_state"
  have "is_ok (fst ?w)" by code_simp
  then obtain path st1 where w: "?w = (Inr path, st1)" by (cases ?w; cases "fst ?w") auto
  have p: "path = ''/tmp/sshrack-askpass-7-5.pw''"
  proof -
    have "temp_name demo_os ''sshrack-askpass-'' ''.pw'' = ''/tmp/sshrack-askpass-7-5.pw''" by code_simp
    then show ?thesis using write_password_file_ok(1)[OF w] by simp
  qed
  have u: "utf8 ''pw'' = ''pw''" by code_simp
  show ?thesis
    using launch_spawn_failure_leaves_password[OF w, of "\<lambda>argv env fs. (Inl IoNotFound, fs)" "[''ssh'', ''h'']"
        "\<lambda>_. None" "''/bin/sshrack''" None IoNotFound] p u by auto
qed

lemma connect_files_recognised:
  "is_sshrack_tempfile (temp_name os ''sshrack-askpass-'' ''.pw'')"
  "is_sshrack_tempfile (temp_name os ''sshrack-key-'' ''.pem'')"
  "is_sshrack_tempfile (cert_path_for (temp_name os ''sshrack-key-'' ''.pem''))"
proof -
  have n: "file_name (temp_name os ''sshrack-key-'' ''.pem'')
      = Some (''sshrack-key-'' @ show_pid os @ ''-'' @ show_nat (os_nanos os) @ ''.pem'')"
    by (rule temp_file_name) simp_all
  show "is_sshrack_tempfile (temp_name os ''sshrack-askpass-'' ''.pw'')"
    by (simp add: is_sshrack_tempfile_def temp_file_name STALE_PREFIXES_def starts_with_iff)
  show "is_sshrack_tempfile (temp_name os ''sshrack-key-'' ''.pem'')"
    by (simp add: is_sshrack_tempfile_def n STALE_PREFIXES_def starts_with_iff)
  have "plain_name (''sshrack-key-'' @ show_pid os @ ''-'' @ show_nat (os_nanos os) @ ''.pem'' @ ''-cert.pub'')"
    by (auto simp: plain_name_def show_pid_def show_nat_no_slash)
  then have "file_name (cert_path_for (temp_name os ''sshrack-key-'' ''.pem''))
      = Some (''sshrack-key-'' @ show_pid os @ ''-'' @ show_nat (os_nanos os) @ ''.pem'' @ ''-cert.pub'')"
    unfolding cert_path_for_def n with_file_name_def by (simp add: file_name_join)
  then show "is_sshrack_tempfile (cert_path_for (temp_name os ''sshrack-key-'' ''.pem''))"
    by (simp add: is_sshrack_tempfile_def STALE_PREFIXES_def starts_with_iff)
qed

text \<open>The start-up sweep removes the stale files of earlier connections and nothing else. A file goes
exactly when it is listed, bears a name of the program and is older than the threshold; the count is the
number of such files; and every file a connection creates bears such a name.\<close>

theorem sweep_removes_only_stale:
  assumes "os_removes os" "distinct (map fst es)"
  shows "(case sweep_stale_tempfiles os (Some es) now max_age fs of (n, fs') \<Rightarrow>
      (\<forall>p. fs' p = (if is_sshrack_tempfile p \<and> list_ex (\<lambda>(q, t). q = p \<and> is_stale now max_age t) es
                    then None else fs p))
      \<and> n = length (List.filter (\<lambda>(p, t). is_sshrack_tempfile p \<and> is_stale now max_age t \<and> fs p \<noteq> None) es))
    \<and> is_sshrack_tempfile (temp_name os' ''sshrack-askpass-'' ''.pw'')
    \<and> is_sshrack_tempfile (temp_name os' ''sshrack-key-'' ''.pem'')
    \<and> is_sshrack_tempfile (cert_path_for (temp_name os' ''sshrack-key-'' ''.pem''))"
  using sweep_entries_files[OF assms(1), of now max_age es fs]
    sweep_entries_count[OF assms, of now max_age fs] connect_files_recognised
  by (auto simp: sweep_stale_tempfiles_def swept_def split: prod.splits)

theorem sweep_removes_only_stale_witness:
  "\<exists>fs'. sweep_stale_tempfiles demo_os
      (Some [(''/tmp/sshrack-key-1-1.pem'', Some 0), (''/tmp/other'', Some 0), (''/tmp/sshrack-key-1-2.pem'', Some 9)])
      10 5 (\<lambda>_. Some \<lparr>fe_mode = 0, fe_bytes = []\<rparr>) = (1, fs')
     \<and> fs' ''/tmp/sshrack-key-1-1.pem'' = None \<and> fs' ''/tmp/other'' \<noteq> None \<and> fs' ''/tmp/sshrack-key-1-2.pem'' \<noteq> None"
proof -
  let ?es = "[(''/tmp/sshrack-key-1-1.pem'', Some 0), (''/tmp/other'', Some 0), (''/tmp/sshrack-key-1-2.pem'', Some 9)]"
  let ?run = "sweep_stale_tempfiles demo_os (Some ?es) 10 5 (\<lambda>_. Some \<lparr>fe_mode = 0, fe_bytes = []\<rparr>)"
  have d: "distinct (map fst ?es)" by simp
  have t: "is_sshrack_tempfile ''/tmp/sshrack-key-1-1.pem''" "\<not> is_sshrack_tempfile ''/tmp/other''"
    "is_sshrack_tempfile ''/tmp/sshrack-key-1-2.pem''" by code_simp+
  obtain n fs' where r: "?run = (n, fs')" by fastforce
  show ?thesis
    using sweep_removes_only_stale[OF demo_os_removes d, of 10 5 "\<lambda>_. Some \<lparr>fe_mode = 0, fe_bytes = []\<rparr>" demo_os] r t
    by (auto simp: is_stale_def)
qed

end
