(* ===== verification/Manage.thy ===== *)
theory Manage
  imports Credential
begin

text \<open>What host and credential management promises: both tables are registries of named entries, an
interface stated once as a locale and interpreted on the two tables of the configuration, and the
transforms of \<^verbatim>\<open>host.rs\<close> and \<^verbatim>\<open>credential.rs\<close> keep the configuration well formed and act on the
named entry only.\<close>

section \<open>Registries of named entries\<close>

locale registry =
  fixes entries_of :: "'c \<Rightarrow> 'e list"
    and name_of :: "'e \<Rightarrow> string"
    and id_of :: "'e \<Rightarrow> ulid"
    and append_entry :: "'e \<Rightarrow> 'c \<Rightarrow> 'c"
    and drop_name :: "string \<Rightarrow> 'c \<Rightarrow> 'c"
    and lookup :: "'c \<Rightarrow> string \<Rightarrow> 'e option"
  assumes entries_append: "entries_of (append_entry e c) = entries_of c @ [e]"
    and entries_drop: "entries_of (drop_name n c) = List.filter (\<lambda>e. name_of e \<noteq> n) (entries_of c)"
    and lookup_find: "lookup c n = List.find (\<lambda>e. name_of e = n) (entries_of c)"
begin

definition keys_ok :: "'c \<Rightarrow> bool" where
  "keys_ok c \<longleftrightarrow> distinct (map id_of (entries_of c)) \<and> distinct (map name_of (entries_of c))"

lemma lookup_None_iff: "lookup c n = None \<longleftrightarrow> n \<notin> name_of ` set (entries_of c)"
  by (auto simp: lookup_find find_None_iff)

lemma lookup_append:
  "lookup c (name_of e) = None \<Longrightarrow>
   lookup (append_entry e c) n = (if n = name_of e then Some e else lookup c n)"
  by (auto simp: lookup_find entries_append find_append split: option.splits)

lemma lookup_drop: "lookup (drop_name n c) n' = (if n' = n then None else lookup c n')"
proof -
  have "List.find (\<lambda>e. name_of e = n') (List.filter (\<lambda>e. name_of e \<noteq> n) es)
      = (if n' = n then None else List.find (\<lambda>e. name_of e = n') es)" for es
    by (induction es) auto
  then show ?thesis by (simp add: lookup_find entries_drop)
qed

lemma keys_ok_append:
  "keys_ok c \<Longrightarrow> lookup c (name_of e) = None \<Longrightarrow> id_of e \<notin> id_of ` set (entries_of c) \<Longrightarrow>
   keys_ok (append_entry e c)"
  by (auto simp: keys_ok_def entries_append lookup_None_iff)

lemma keys_ok_drop: "keys_ok c \<Longrightarrow> keys_ok (drop_name n c)"
  by (simp add: keys_ok_def entries_drop distinct_map_filter_keys)

lemma drop_absent: "lookup c n = None \<Longrightarrow> entries_of (drop_name n c) = entries_of c"
  by (auto simp: entries_drop lookup_None_iff intro!: filter_True)

text \<open>Overwriting: dropping the old entry and appending the new one of the same name.\<close>

lemma lookup_overwrite:
  "lookup (append_entry e (drop_name (name_of e) c)) n = (if n = name_of e then Some e else lookup c n)"
  by (simp add: lookup_append lookup_drop)

lemma keys_ok_overwrite:
  assumes "keys_ok c" "\<And>x. x \<in> set (entries_of c) \<Longrightarrow> name_of x \<noteq> name_of e \<Longrightarrow> id_of x \<noteq> id_of e"
  shows "keys_ok (append_entry e (drop_name (name_of e) c))"
proof (rule keys_ok_append)
  show "keys_ok (drop_name (name_of e) c)" by (rule keys_ok_drop[OF assms(1)])
  show "id_of e \<notin> id_of ` set (entries_of (drop_name (name_of e) c))"
    using assms(2) by (auto simp: entries_drop image_iff) metis
qed (simp add: lookup_drop)

end

definition append_host :: "host \<Rightarrow> sshrack_config \<Rightarrow> sshrack_config" where
  "append_host h cfg = cfg\<lparr>hosts := hosts cfg @ [h]\<rparr>"

definition drop_host :: "string \<Rightarrow> sshrack_config \<Rightarrow> sshrack_config" where
  "drop_host n cfg = cfg\<lparr>hosts := List.filter (\<lambda>h. h_name h \<noteq> n) (hosts cfg)\<rparr>"

definition append_credential :: "credential \<Rightarrow> sshrack_config \<Rightarrow> sshrack_config" where
  "append_credential c cfg = cfg\<lparr>credentials := credentials cfg @ [c]\<rparr>"

definition drop_credential :: "string \<Rightarrow> sshrack_config \<Rightarrow> sshrack_config" where
  "drop_credential n cfg = cfg\<lparr>credentials := List.filter (\<lambda>c. c_name c \<noteq> n) (credentials cfg)\<rparr>"

interpretation hreg: registry hosts h_name h_id append_host drop_host find_host_by_name
  by unfold_locales (auto simp: append_host_def drop_host_def find_host_by_name_def)

interpretation creg: registry credentials c_name c_id append_credential drop_credential find_credential_by_name
  by unfold_locales (auto simp: append_credential_def drop_credential_def find_credential_by_name_def)

lemma config_wf_registries:
  "config_wf cfg \<longleftrightarrow> hreg.keys_ok cfg \<and> list_all host_wf (hosts cfg)
     \<and> creg.keys_ok cfg \<and> list_all credential_wf (credentials cfg)"
  by (auto simp: config_wf_def hreg.keys_ok_def creg.keys_ok_def)

section \<open>The transforms in terms of the registries\<close>

lemma add_host_ok:
  "add_host sh cfg u name addr port args au = Inr cfg' \<longleftrightarrow>
     validate_name_chars name = Inr () \<and> check_ssh_args sh args = Inr ()
     \<and> cfg' = append_host \<lparr>h_id = u, h_name = name, h_host = addr, h_port = port,
          h_ssh_args = normalize_ssh_args args, h_auth = au\<rparr> cfg"
  by (auto simp: add_host_def append_host_def)

lemma remove_host_ok:
  "remove_host cfg name = (if find_host_by_name cfg name = None then None else Some (drop_host name cfg))"
  by (auto simp: remove_host_def drop_host_def find_host_by_name_def find_None_iff list_ex_iff)

lemma remove_credential_ok:
  "remove_credential cfg name =
     (if find_credential_by_name cfg name = None then None else Some (drop_credential name cfg))"
  by (auto simp: remove_credential_def drop_credential_def find_credential_by_name_def find_None_iff list_ex_iff)

lemma add_credential_ok:
  "add_credential cfg u name body = Inr cfg' \<longleftrightarrow>
     validate_name_chars name = Inr () \<and> validate_body body = Inr ()
     \<and> cfg' = append_credential \<lparr>c_id = u, c_name = name, c_body = body\<rparr> cfg"
  by (auto simp: add_credential_def append_credential_def)

lemma validate_name_chars_iff:
  "validate_name_chars name = Inr () \<longleftrightarrow> list_all (\<lambda>c. c \<notin> set FORBIDDEN_NAME_CHARS) name"
  by (auto simp: validate_name_chars_def forbidden_char_in_def find_None_iff list_all_iff
      split: option.splits dest: find_Some_sat)

lemma validate_no_duplicate_iff:
  "validate_no_duplicate cfg name force = Inr () \<longleftrightarrow> force \<or> find_host_by_name cfg name = None"
  by (simp add: validate_no_duplicate_def)

lemma validate_no_duplicate_credential_iff:
  "validate_no_duplicate_credential cfg name force = Inr () \<longleftrightarrow> force \<or> find_credential_by_name cfg name = None"
  by (simp add: validate_no_duplicate_credential_def)

section \<open>Properties of the host table\<close>

text \<open>Adding a host keeps the configuration well formed and inserts exactly one entry. After the
duplicate check and with a fresh id, a successful add accepts a legal name only, the new entry is what a
lookup of the name returns, every other lookup and every credential is as before.\<close>

theorem add_host_inserts:
  assumes "config_wf cfg" "ulid_ok u" "find_host_by_id cfg u = None"
    and "validate_no_duplicate cfg name False = Inr ()"
    and "case inline_body au of Some b \<Rightarrow> body_wf b | None \<Rightarrow> True"
    and "add_host sh cfg u name addr port args au = Inr cfg'"
  shows "config_wf cfg' \<and> forbidden_char_in name = None
    \<and> find_host_by_name cfg' = (find_host_by_name cfg)(name \<mapsto>
         \<lparr>h_id = u, h_name = name, h_host = addr, h_port = port,
          h_ssh_args = normalize_ssh_args args, h_auth = au\<rparr>)
    \<and> credentials cfg' = credentials cfg \<and> store cfg' = store cfg"
proof -
  let ?h = "\<lparr>h_id = u, h_name = name, h_host = addr, h_port = port,
     h_ssh_args = normalize_ssh_args args, h_auth = au\<rparr>"
  have cfg': "cfg' = append_host ?h cfg" and nm: "validate_name_chars name = Inr ()"
    using assms(6) by (simp_all add: add_host_ok)
  have none: "find_host_by_name cfg (h_name ?h) = None"
    using assms(4) by (simp add: validate_no_duplicate_iff)
  have id: "h_id ?h \<notin> h_id ` set (hosts cfg)"
    using assms(3) by (auto simp: find_host_by_id_def find_None_iff)
  have wf: "host_wf ?h" using assms(2,5) by (auto simp: host_wf_def split: option.splits)
  have "config_wf cfg'"
    using assms(1) wf hreg.keys_ok_append[OF _ none id] unfolding config_wf_registries cfg'
    by (simp add: append_host_def creg.keys_ok_def)
  moreover have "find_host_by_name cfg' = (find_host_by_name cfg)(name \<mapsto> ?h)"
    unfolding cfg' using hreg.lookup_append[OF none] by (auto simp: fun_eq_iff)
  ultimately show ?thesis
    using nm by (simp add: cfg' append_host_def validate_name_chars_def split: option.splits)
qed

theorem add_host_inserts_witness:
  "\<exists>cfg'. add_host (\<lambda>_. None) demo_config ''01BX5ZZKBKACTAV9WEVGEMMVS5'' ''new-host'' ''10.0.0.9'' 22 None
       (AuthInline (body_new ''root'')) = Inr cfg' \<and> config_wf cfg'
     \<and> find_host_by_name cfg' ''web'' = find_host_by_name demo_config ''web''"
proof -
  let ?u = "''01BX5ZZKBKACTAV9WEVGEMMVS5''" and ?a = "AuthInline (body_new ''root'')"
  obtain cfg' where r: "add_host (\<lambda>_. None) demo_config ?u ''new-host'' ''10.0.0.9'' 22 None ?a = Inr cfg'"
    by (simp add: add_host_def validate_name_chars_def forbidden_char_in_def FORBIDDEN_NAME_CHARS_def
        check_ssh_args_def)
  have p: "ulid_ok ?u" "find_host_by_id demo_config ?u = None"
    "validate_no_duplicate demo_config ''new-host'' False = Inr ()"
    "case inline_body ?a of Some b \<Rightarrow> body_wf b | None \<Rightarrow> True"
    by (simp_all add: ulid_ok_def crockford_def find_host_by_id_def validate_no_duplicate_def
        find_host_by_name_def demo_config_def demo_ids_def)
  show ?thesis using add_host_inserts[OF demo_config_wf p r] r by simp
qed

text \<open>Removing a host removes the named entry and nothing else: the configuration stays well formed,
the name is gone, every other lookup and every credential is as before; and the removal is refused
exactly when there is no such host.\<close>

theorem remove_host_deletes:
  assumes "config_wf cfg"
  shows "case remove_host cfg name of
     None \<Rightarrow> find_host_by_name cfg name = None
   | Some cfg' \<Rightarrow>
       find_host_by_name cfg name \<noteq> None \<and> config_wf cfg'
       \<and> find_host_by_name cfg' = (find_host_by_name cfg)(name := None)
       \<and> credentials cfg' = credentials cfg \<and> store cfg' = store cfg"
proof (cases "find_host_by_name cfg name")
  case (Some h)
  have "config_wf (drop_host name cfg)"
    using assms hreg.keys_ok_drop[of cfg name] unfolding config_wf_registries
    by (auto simp: drop_host_def creg.keys_ok_def list_all_iff)
  then show ?thesis
    using Some by (simp add: remove_host_ok hreg.lookup_drop fun_eq_iff) (simp add: drop_host_def)
qed (simp add: remove_host_ok)

theorem remove_host_deletes_witness:
  "\<exists>cfg'. remove_host demo_config ''web'' = Some cfg' \<and> config_wf cfg' \<and> find_host_by_name cfg' ''web'' = None
     \<and> find_host_by_name cfg' ''db'' = find_host_by_name demo_config ''db''"
proof -
  obtain cfg' where r: "remove_host demo_config ''web'' = Some cfg'"
    by (simp add: remove_host_def demo_config_def)
  show ?thesis using remove_host_deletes[OF demo_config_wf, of "''web''"] r by simp
qed

section \<open>Properties of the credential table\<close>

lemma upsert_new:
  "find_credential_by_name cfg (c_name c) = None \<Longrightarrow> upsert_credential cfg c = append_credential c cfg"
  by (auto simp: upsert_credential_def append_credential_def find_credential_by_name_def find_None_iff
      split: option.splits dest: position_Some)

lemma find_update_name:
  assumes "i < length xs" "name_of (xs ! i) = name_of c" "distinct (map name_of xs)"
  shows "List.find (\<lambda>x. name_of x = n) (xs[i := c])
    = (if n = name_of c then Some c else List.find (\<lambda>x. name_of x = n) xs)"
  using assms
proof (induction xs arbitrary: i)
  case (Cons x xs)
  show ?case
  proof (cases i)
    case 0
    then show ?thesis using Cons.prems by simp
  next
    case (Suc j)
    have "name_of (xs ! j) \<in> name_of ` set xs" using Cons.prems(1) Suc by simp
    then have "name_of x \<noteq> name_of c" using Cons.prems(2,3) Suc by auto
    then show ?thesis using Cons.IH[of j] Cons.prems Suc by auto
  qed
qed simp

lemma distinct_update_key:
  assumes "distinct (map f xs)" "i < length xs" "\<And>j. j < length xs \<Longrightarrow> j \<noteq> i \<Longrightarrow> f (xs ! j) \<noteq> f c"
  shows "distinct (map f (xs[i := c]))"
  using assms by (auto simp: distinct_conv_nth nth_list_update) blast+

lemma upsert_credential_ok:
  assumes "config_wf cfg" "credential_wf c"
    and "\<And>x. x \<in> set (credentials cfg) \<Longrightarrow> c_name x = c_name c \<or> c_id x \<noteq> c_id c"
  shows "find_credential_by_name (upsert_credential cfg c) = (find_credential_by_name cfg)(c_name c \<mapsto> c)
    \<and> config_wf (upsert_credential cfg c) \<and> hosts (upsert_credential cfg c) = hosts cfg"
proof (cases "position (\<lambda>x. c_name x = c_name c) (credentials cfg)")
  case None
  have keys: "creg.keys_ok cfg" and hk: "hreg.keys_ok cfg" "list_all host_wf (hosts cfg)"
    "list_all credential_wf (credentials cfg)" using assms(1) by (auto simp: config_wf_registries)
  have none: "find_credential_by_name cfg (c_name c) = None"
    using None by (auto simp: position_None find_credential_by_name_def find_None_iff)
  have "c_id c \<notin> c_id ` set (credentials cfg)"
    using assms(3) none by (metis (no_types, lifting) creg.lookup_None_iff imageE imageI)
  then have "creg.keys_ok (append_credential c cfg)" using creg.keys_ok_append[OF keys none] by simp
  then have "config_wf (append_credential c cfg)"
    using hk assms(2) unfolding config_wf_registries by (simp add: append_credential_def hreg.keys_ok_def)
  then show ?thesis
    using upsert_new[OF none] creg.lookup_append[OF none]
    by (auto simp: fun_eq_iff) (simp add: append_credential_def)
next
  case (Some i)
  have keys: "creg.keys_ok cfg" and hk: "hreg.keys_ok cfg" "list_all host_wf (hosts cfg)"
    "list_all credential_wf (credentials cfg)" using assms(1) by (auto simp: config_wf_registries)
  have i: "i < length (credentials cfg)" "c_name (credentials cfg ! i) = c_name c"
    using position_Some[OF Some] by auto
  have u: "upsert_credential cfg c = cfg\<lparr>credentials := (credentials cfg)[i := c]\<rparr>"
    by (simp add: upsert_credential_def Some)
  have dn: "distinct (map c_name (credentials cfg))" "distinct (map c_id (credentials cfg))"
    using keys by (auto simp: creg.keys_ok_def)
  have other: "c_name (credentials cfg ! j) \<noteq> c_name c" if "j < length (credentials cfg)" "j \<noteq> i" for j
    using dn(1) i that by (metis length_map nth_eq_iff_index_eq nth_map)
  have oid: "c_id (credentials cfg ! j) \<noteq> c_id c" if "j < length (credentials cfg)" "j \<noteq> i" for j
    using other[OF that] assms(3)[OF nth_mem[OF that(1)]] by auto
  have "distinct (map c_name ((credentials cfg)[i := c]))" "distinct (map c_id ((credentials cfg)[i := c]))"
    using distinct_update_key[OF dn(1) i(1), of c] distinct_update_key[OF dn(2) i(1), of c] other oid
    by auto
  moreover have "list_all credential_wf ((credentials cfg)[i := c])"
    using hk(3) assms(2) set_update_subset_insert[of "credentials cfg" i c] by (auto simp: list_all_iff)
  ultimately have "config_wf (upsert_credential cfg c)"
    using hk(1,2) unfolding config_wf_registries u by (simp add: hreg.keys_ok_def creg.keys_ok_def)
  then show ?thesis
    using find_update_name[of i "credentials cfg" c_name c, OF i dn(1)]
    by (auto simp: u find_credential_by_name_def fun_eq_iff)
qed

text \<open>The credential table behaves as a map from names to credentials. Upserting a valid credential,
whose id no credential of another name has, replaces the entry of the same name in place or appends it;
adding under a free name is the same operation; removing deletes the name. Each leaves every other entry
and every host as they were and keeps the configuration well formed.\<close>

theorem credential_table_operations:
  assumes "config_wf cfg" "credential_wf c"
    and "list_all (\<lambda>x. c_name x = c_name c \<or> c_id x \<noteq> c_id c) (credentials cfg)"
  shows "find_credential_by_name (upsert_credential cfg c) = (find_credential_by_name cfg)(c_name c \<mapsto> c)
    \<and> config_wf (upsert_credential cfg c) \<and> hosts (upsert_credential cfg c) = hosts cfg
    \<and> (case add_credential cfg (c_id c) (c_name c) (c_body c) of
         Inl e \<Rightarrow> forbidden_char_in (c_name c) \<noteq> None
       | Inr cfg' \<Rightarrow> find_credential_by_name cfg (c_name c) \<noteq> None \<or> cfg' = upsert_credential cfg c)
    \<and> (case remove_credential cfg name of
         None \<Rightarrow> find_credential_by_name cfg name = None
       | Some cfg' \<Rightarrow> find_credential_by_name cfg' = (find_credential_by_name cfg)(name := None)
           \<and> hosts cfg' = hosts cfg \<and> config_wf cfg')"
proof -
  have rec: "\<lparr>c_id = c_id c, c_name = c_name c, c_body = c_body c\<rparr> = c" by simp
  have "case add_credential cfg (c_id c) (c_name c) (c_body c) of
         Inl e \<Rightarrow> forbidden_char_in (c_name c) \<noteq> None
       | Inr cfg' \<Rightarrow> find_credential_by_name cfg (c_name c) \<noteq> None \<or> cfg' = upsert_credential cfg c"
    using assms(2)
    by (cases "find_credential_by_name cfg (c_name c)")
       (auto simp: rec add_credential_def validate_name_chars_def validate_body_cases credential_wf_def
          append_credential_def upsert_new split: option.splits)
  moreover have "case remove_credential cfg name of
         None \<Rightarrow> find_credential_by_name cfg name = None
       | Some cfg' \<Rightarrow> find_credential_by_name cfg' = (find_credential_by_name cfg)(name := None)
           \<and> hosts cfg' = hosts cfg \<and> config_wf cfg'"
  proof (cases "find_credential_by_name cfg name")
    case (Some d)
    have "config_wf (drop_credential name cfg)"
      using assms(1) creg.keys_ok_drop[of cfg name]
      by (auto simp: config_wf_registries drop_credential_def hreg.keys_ok_def list_all_iff)
    then show ?thesis
      using Some by (simp add: remove_credential_ok creg.lookup_drop fun_eq_iff) (simp add: drop_credential_def)
  qed (simp add: remove_credential_ok)
  ultimately show ?thesis
    using upsert_credential_ok[OF assms(1,2)] assms(3) by (auto simp: list_all_iff)
qed

theorem credential_table_operations_witness:
  "find_credential_by_name (upsert_credential demo_config ((credentials demo_config ! 0)\<lparr>c_body := body_new ''new''\<rparr>)) ''ops''
     = Some \<lparr>c_id = demo_ids ! 0, c_name = ''ops'', c_body = body_new ''new''\<rparr>
   \<and> config_wf (upsert_credential demo_config ((credentials demo_config ! 0)\<lparr>c_body := body_new ''new''\<rparr>))"
proof -
  let ?c = "(credentials demo_config ! 0)\<lparr>c_body := body_new ''new''\<rparr>"
  have "credential_wf ?c" "list_all (\<lambda>x. c_name x = c_name ?c \<or> c_id x \<noteq> c_id ?c) (credentials demo_config)"
    by (simp_all add: demo_config_def credential_wf_def ulid_ok_def demo_ids_def crockford_def)
  from credential_table_operations[OF demo_config_wf this, of "''ops''"]
  show ?thesis by (simp add: demo_config_def)
qed

end
