(* ===== verification/Manage_Secrets.thy ===== *)
theory Manage_Secrets
  imports Manage
begin

text \<open>Edits, removals and copies of hosts and credentials together with their secrets: patches keep the
identity and every secret they do not name, removals forget the owner's slots and no other's, copies own
the same secrets as their source.\<close>

section \<open>Patches\<close>

lemma patch_body_fields:
  assumes "patch_body body opts = Inr b"
  shows "body_wf b" "b_user b = opt_or (eo_user opts) (b_user body)"
    and "patch_body b opts = Inr b"
    and "eo_identity opts = None \<Longrightarrow> \<not> eo_clear_identity opts \<Longrightarrow> b_key b = b_key body"
    and "\<not> eo_clear_password opts \<Longrightarrow> b_password b = b_password body \<and> b_keyring b = b_keyring body"
proof -
  let ?b = "\<lparr>b_user = opt_or (eo_user opts) (b_user body),
         b_password = (if eo_clear_password opts then None else b_password body),
         b_key = (if eo_clear_identity opts then None
                  else case eo_identity opts of Some p \<Rightarrow> Some (KeyPath p) | None \<Rightarrow> b_key body),
         b_keyring = (if eo_clear_password opts then False else b_keyring body)\<rparr>"
  have b: "b = ?b" "validate_body ?b = Inr ()"
    using assms by (auto simp: patch_body_def Let_def)
  then show "body_wf b" by (simp add: validate_body_iff)
  show "b_user b = opt_or (eo_user opts) (b_user body)" by (simp add: b(1))
  have v: "validate_body b = Inr ()" using b by (simp only:)
  have e: "\<lparr>b_user = opt_or (eo_user opts) (b_user b),
         b_password = (if eo_clear_password opts then None else b_password b),
         b_key = (if eo_clear_identity opts then None
                  else case eo_identity opts of Some p \<Rightarrow> Some (KeyPath p) | None \<Rightarrow> b_key b),
         b_keyring = (if eo_clear_password opts then False else b_keyring b)\<rparr> = b"
    by (simp add: b(1) opt_or_def split: option.splits)
  show "patch_body b opts = Inr b" unfolding patch_body_def Let_def e v by simp
  show "eo_identity opts = None \<Longrightarrow> \<not> eo_clear_identity opts \<Longrightarrow> b_key b = b_key body" by (simp add: b(1))
  show "\<not> eo_clear_password opts \<Longrightarrow> b_password b = b_password body \<and> b_keyring b = b_keyring body"
    by (simp add: b(1))
qed

text \<open>The secrets of a host's own body, independent of its user.\<close>

definition host_secret_view where
  "host_secret_view X key m h =
     (case h_auth h of
        AuthRef u \<Rightarrow> Inl u
      | AuthInline b \<Rightarrow> Inr (password_view X key m OwnerHost (h_id h) b,
          private_view X key m OwnerHost (h_id h) b, certificate_view X key m OwnerHost (h_id h) b, key_path_of b))"

definition secret_flags :: "edit_options \<Rightarrow> bool" where
  "secret_flags opts \<longleftrightarrow>
     eo_credential opts \<noteq> None \<or> eo_clear_credential opts \<or> eo_identity opts \<noteq> None
     \<or> eo_clear_identity opts \<or> eo_clear_password opts"

lemma patch_auth_ok:
  assumes "patch_auth orig opts = Inr au" "host_wf orig"
  shows "\<And>b. au = AuthInline b \<Longrightarrow> body_wf b"
    and "h_auth h = au \<Longrightarrow> patch_auth h opts = Inr au"
    and "\<not> secret_flags opts \<Longrightarrow> h_auth h = au \<Longrightarrow> h_id h = h_id orig \<Longrightarrow>
         host_secret_view X key m h = host_secret_view X key m orig"
proof -
  consider (cred) c where "eo_credential opts = Some c" "au = AuthRef c"
    | (clear) "eo_credential opts = None" "eo_clear_credential opts"
        "au = AuthInline (body_new (opt_or (eo_user opts) ''root''))"
    | (ref) r where "eo_credential opts = None" "\<not> eo_clear_credential opts" "h_auth orig = AuthRef r" "au = AuthRef r"
    | (inl) b b' where "eo_credential opts = None" "\<not> eo_clear_credential opts" "h_auth orig = AuthInline b"
        "patch_body b opts = Inr b'" "au = AuthInline b'"
    using assms(1) by (auto simp: patch_auth_def split: option.splits if_splits auth.splits)
  then have "(\<forall>b. au = AuthInline b \<longrightarrow> body_wf b)
    \<and> (h_auth h = au \<longrightarrow> patch_auth h opts = Inr au)
    \<and> (\<not> secret_flags opts \<longrightarrow> h_auth h = au \<longrightarrow> h_id h = h_id orig \<longrightarrow>
         host_secret_view X key m h = host_secret_view X key m orig)"
  proof cases
    case (inl b b')
    note p = patch_body_fields[OF inl(4)]
    show ?thesis
      using p inl by (auto simp: patch_auth_def secret_flags_def host_secret_view_def password_view_def
          private_view_def certificate_view_def key_path_of_def)
  qed (auto simp: patch_auth_def secret_flags_def host_secret_view_def)
  then show "\<And>b. au = AuthInline b \<Longrightarrow> body_wf b"
    and "h_auth h = au \<Longrightarrow> patch_auth h opts = Inr au"
    and "\<not> secret_flags opts \<Longrightarrow> h_auth h = au \<Longrightarrow> h_id h = h_id orig \<Longrightarrow>
         host_secret_view X key m h = host_secret_view X key m orig" by blast+
qed

lemma patch_ssh_args_idem:
  "patch_ssh_args sh orig opts = Inr args \<Longrightarrow> h_ssh_args h = args \<Longrightarrow> patch_ssh_args sh h opts = Inr args"
  by (auto simp: patch_ssh_args_def split: if_splits option.splits)

text \<open>An edit never moves a host's identity and never loses a secret it does not name. The patched
host keeps the id (so its keyring entries and its usage history stay its own), is valid again, applying
the same patch once more changes nothing, and unless a flag names the authentication, its password, key
and certificate read exactly as before, wherever they are stored.\<close>

theorem apply_patch_keeps_identity:
  assumes "host_wf orig" "apply_patch sh orig opts = Inr h"
  shows "h_id h = h_id orig \<and> host_wf h \<and> apply_patch sh h opts = Inr h
    \<and> (secret_flags opts \<or> host_secret_view X key m h = host_secret_view X key m orig)"
proof -
  obtain args au where a: "patch_ssh_args sh orig opts = Inr args" "patch_auth orig opts = Inr au"
    and h: "h = \<lparr>h_id = h_id orig, h_name = opt_or (eo_rename opts) (h_name orig),
            h_host = opt_or (eo_host opts) (h_host orig), h_port = opt_or (eo_port opts) (h_port orig),
            h_ssh_args = args, h_auth = au\<rparr>"
    using assms(2) by (auto simp: apply_patch_def)
  note p = patch_auth_ok[OF a(2) assms(1)]
  have "host_wf h" using p(1) assms(1) by (auto simp: host_wf_def h)
  moreover have "apply_patch sh h opts = Inr h"
    using p(2)[of h] patch_ssh_args_idem[OF a(1), of h]
    by (simp add: apply_patch_def h) (simp add: opt_or_def split: option.splits)
  moreover have "secret_flags opts \<or> host_secret_view X key m h = host_secret_view X key m orig"
    using p(3)[of h X key m] by (auto simp: h)
  ultimately show ?thesis by (simp add: h)
qed

definition no_edit :: edit_options where
  "no_edit = \<lparr>eo_host = None, eo_port = None, eo_credential = None, eo_user = None, eo_identity = None,
     eo_rename = None, eo_clear_identity = False, eo_clear_password = False, eo_ssh_args = None,
     eo_clear_ssh_args = False, eo_clear_credential = False\<rparr>"

theorem apply_patch_keeps_identity_witness:
  "\<exists>h. apply_patch (\<lambda>_. None) (hosts demo_config ! 0) (no_edit\<lparr>eo_rename := Some ''www'', eo_port := Some 2200\<rparr>) = Inr h
     \<and> h_id h = demo_ids ! 2
     \<and> host_secret_view demo_crates None (fake_view (w_backend demo_world)) h
         = host_secret_view demo_crates None (fake_view (w_backend demo_world)) (hosts demo_config ! 0)"
proof -
  let ?o = "no_edit\<lparr>eo_rename := Some ''www'', eo_port := Some 2200\<rparr>"
  have w: "host_wf (hosts demo_config ! 0)"
    by (rule config_wfD(3)[OF demo_config_wf]) (simp add: demo_config_def)
  obtain h where r: "apply_patch (\<lambda>_. None) (hosts demo_config ! 0) ?o = Inr h"
    by (simp add: apply_patch_def patch_ssh_args_def patch_auth_def demo_config_def no_edit_def
        patch_body_def validate_body_def body_new_def)
  show ?thesis
    using apply_patch_keeps_identity[OF w r, of demo_crates None "fake_view (w_backend demo_world)"] r
    by (auto simp: secret_flags_def no_edit_def) (auto simp: demo_config_def)
qed

text \<open>A patched credential carries at most one secret and stays the same credential. The id is kept,
so no host reference dangles after a rename; the body is valid; naming or clearing an identity drops the
password and the keyring marker; without such a flag every secret reads as before; a second application
changes nothing.\<close>

theorem credential_patch_keeps_identity:
  assumes "apply_credential_patch orig opts = Inr c"
  shows "c_id c = c_id orig \<and> body_wf (c_body c) \<and> forbidden_char_in (c_name c) = None
    \<and> apply_credential_patch c opts = Inr c
    \<and> (if ce_identity opts \<noteq> None \<or> ce_clear_identity opts
       then b_password (c_body c) = None \<and> \<not> b_keyring (c_body c)
         \<and> (\<forall>ik. b_key (c_body c) \<noteq> Some (KeyInline ik))
       else body_view X key m OwnerCredential (c_id c) ((c_body c)\<lparr>b_user := u\<rparr>)
          = body_view X key m OwnerCredential (c_id orig) ((c_body orig)\<lparr>b_user := u\<rparr>))"
proof -
  let ?b = "\<lparr>b_user = opt_or (ce_user opts) (b_user (c_body orig)),
             b_password = (if ce_identity opts \<noteq> None \<or> ce_clear_identity opts then None
                           else b_password (c_body orig)),
             b_key = (if ce_clear_identity opts then None
                      else case ce_identity opts of
                        Some p \<Rightarrow> Some (KeyPath p) | None \<Rightarrow> b_key (c_body orig)),
             b_keyring = (if ce_identity opts \<noteq> None \<or> ce_clear_identity opts then False
                          else b_keyring (c_body orig))\<rparr>"
  have c: "c = \<lparr>c_id = c_id orig, c_name = opt_or (ce_rename opts) (c_name orig), c_body = ?b\<rparr>"
    and v: "validate_body ?b = Inr ()" "validate_name_chars (opt_or (ce_rename opts) (c_name orig)) = Inr ()"
    using assms by (auto simp: apply_credential_patch_def Let_def)
  have wf: "body_wf (c_body c)" using v(1) by (simp add: c validate_body_iff)
  have idem: "apply_credential_patch c opts = Inr c"
  proof -
    have e: "\<lparr>b_user = opt_or (ce_user opts) (b_user (c_body c)),
             b_password = (if ce_identity opts \<noteq> None \<or> ce_clear_identity opts then None
                           else b_password (c_body c)),
             b_key = (if ce_clear_identity opts then None
                      else case ce_identity opts of
                        Some p \<Rightarrow> Some (KeyPath p) | None \<Rightarrow> b_key (c_body c)),
             b_keyring = (if ce_identity opts \<noteq> None \<or> ce_clear_identity opts then False
                          else b_keyring (c_body c))\<rparr> = c_body c"
      by (simp add: c opt_or_def split: option.splits)
    have n: "opt_or (ce_rename opts) (c_name c) = c_name c"
      by (simp add: c opt_or_def split: option.splits)
    have vn: "validate_name_chars (c_name c) = Inr ()" using v(2) by (simp add: c)
    have vb: "validate_body (c_body c) = Inr ()" using wf by (simp add: validate_body_iff)
    show ?thesis unfolding apply_credential_patch_def Let_def e n vn vb by simp
  qed
  have nm: "forbidden_char_in (c_name c) = None"
    using v(2) by (auto simp: c validate_name_chars_def split: option.splits)
  show ?thesis
    using wf idem nm
    by (auto simp: c body_view_def password_view_def private_view_def certificate_view_def key_path_of_def
        split: option.splits)
qed

theorem credential_patch_keeps_identity_witness:
  "\<exists>c. apply_credential_patch (credentials demo_config ! 0)
        \<lparr>ce_user = None, ce_identity = Some ''/k'', ce_clear_identity = False, ce_rename = Some ''ops2''\<rparr> = Inr c
     \<and> c_id c = demo_ids ! 0 \<and> b_password (c_body c) = None \<and> body_wf (c_body c)"
proof -
  let ?o = "\<lparr>ce_user = None, ce_identity = Some ''/k'', ce_clear_identity = False, ce_rename = Some ''ops2''\<rparr>"
  obtain c where r: "apply_credential_patch (credentials demo_config ! 0) ?o = Inr c"
    by (simp add: apply_credential_patch_def demo_config_def validate_body_def validate_name_chars_def
        forbidden_char_in_def FORBIDDEN_NAME_CHARS_def Let_def opt_or_def)
  show ?thesis
    using credential_patch_keeps_identity[OF r] r by (auto simp: demo_config_def)
qed

section \<open>Removal\<close>

context secret_backend
begin

lemma forget_slots_frame:
  "frame (owner_slots k u) (entries s)
     (entries (forget_inline_keyring_slots be k u m2 (forget_keyring_secret be k u m1 s)))"
  by (auto simp: frame_def owner_slots_def forget_inline_other forget_secret_other)

lemma forget_at_keeps_None:
  "entries s key' = None \<Longrightarrow> entries (bk_forget_at be key s) key' = None"
proof (cases "bk_delete_at be key s")
  case (Pair r s')
  assume "entries s key' = None"
  then show ?thesis using Pair
    by (cases r) (auto simp: bk_forget_at_def dest: delete_ok delete_err)
qed

end

context reliable_backend
begin

lemma forget_slots_gone:
  "m1 \<Longrightarrow> entries (forget_inline_keyring_slots be k u m2 (forget_keyring_secret be k u m1 s)) (keyring_key k u) = None"
  "m2 \<Longrightarrow> entries (forget_inline_keyring_slots be k u m2 (forget_keyring_secret be k u m1 s)) (keyring_key_inline_priv k u) = None"
  "m2 \<Longrightarrow> entries (forget_inline_keyring_slots be k u m2 (forget_keyring_secret be k u m1 s)) (keyring_key_inline_cert k u) = None"
  by (simp_all add: forget_inline_entries forget_secret_entries)

end

text \<open>Slots of other owners are untouched when the configuration's ids are distinct.\<close>

lemma views_kept_by_host_frame:
  assumes "config_wf cfg" "h \<in> set (hosts cfg)" "frame (owner_slots OwnerHost (h_id h)) m m'"
    and sub: "set (hosts cfg') \<subseteq> {x \<in> set (hosts cfg). h_name x \<noteq> h_name h}" "credentials cfg' = credentials cfg"
  shows "config_view X key m' cfg' = config_view X key m cfg'"
proof -
  have uid: "ulid_ok (h_id h)" using config_wfD(3)[OF assms(1,2)] by (simp add: host_wf_def)
  have hv: "host_view X key m' x = host_view X key m x" if x: "x \<in> set (hosts cfg')" for x
  proof (rule host_view_local)
    have x2: "x \<in> set (hosts cfg)" "h_name x \<noteq> h_name h" using sub(1) x by auto
    have "h_id x \<noteq> h_id h"
      using config_wfD(1)[OF assms(1)] x2 assms(2) by (auto simp: distinct_map inj_on_def)
    moreover have "ulid_ok (h_id x)" using config_wfD(3)[OF assms(1) x2(1)] by (simp add: host_wf_def)
    ultimately have d: "owner_slots OwnerHost (h_id x) \<inter> owner_slots OwnerHost (h_id h) = {}"
      by (intro owner_slots_disjoint) (auto simp: uid)
    show "m' k = m k" if "k \<in> host_slots x" for k
      using that d assms(3) by (auto simp: frame_def host_slots_def)
  qed
  have cv: "credential_view X key m' c = credential_view X key m c" if c: "c \<in> set (credentials cfg')" for c
  proof -
    have "ulid_ok (c_id c)" using config_wfD(6)[OF assms(1)] c sub(2) by (auto simp: credential_wf_def)
    then have d: "owner_slots OwnerCredential (c_id c) \<inter> owner_slots OwnerHost (h_id h) = {}"
      by (intro owner_slots_disjoint) (auto simp: uid)
    have "body_view X key m' OwnerCredential (c_id c) (c_body c) = body_view X key m OwnerCredential (c_id c) (c_body c)"
      by (rule body_view_local) (use d assms(3) in \<open>auto simp: frame_def\<close>)
    then show ?thesis by (simp add: credential_view_def)
  qed
  show ?thesis using hv cv by (simp add: config_view_def)
qed

text \<open>C27: removing a host forgets its own secrets and no one else's. With a backend that does not fail the
removed host's marked slots are empty afterwards; every slot of another owner, and so the secrets of every
remaining host and credential, are as before; the rest of the configuration is the removal of the name.\<close>

theorem delete_host_forgets_only_its_slots:
  assumes "reliable_backend be ent" "config_wf cfg" "find_host_by_name cfg name = Some h"
  shows "\<exists>cfg' s'. delete_host_with_secret jw be cfg name s = (Inr cfg', s')
    \<and> remove_host cfg name = Some cfg'
    \<and> frame (owner_slots OwnerHost (h_id h)) (ent s) (ent s')
    \<and> (inline_marked h \<longrightarrow> ent s' (keyring_key OwnerHost (h_id h)) = None)
    \<and> (inline_key_marked h \<longrightarrow> ent s' (keyring_key_inline_priv OwnerHost (h_id h)) = None
         \<and> ent s' (keyring_key_inline_cert OwnerHost (h_id h)) = None)
    \<and> config_view X key (ent s') cfg' = config_view X key (ent s) cfg'"
proof -
  have sb: "secret_backend be ent" using assms(1) by (rule reliable_backend.axioms(1))
  let ?s' = "forget_host_slots be h s"
  have r: "remove_host cfg name = Some (drop_host name cfg)"
    using assms(3) by (simp add: remove_host_ok)
  have run: "delete_host_with_secret jw be cfg name s = (Inr (drop_host name cfg), ?s')"
    using assms(3) r by (simp add: delete_host_with_secret_def)
  have f: "frame (owner_slots OwnerHost (h_id h)) (ent s) (ent ?s')"
    unfolding forget_host_slots_def by (rule secret_backend.forget_slots_frame[OF sb])
  have h: "h \<in> set (hosts cfg)" "h_name h = name" using host_by_name_iff[OF assms(2)] assms(3) by auto
  have "config_view X key (ent ?s') (drop_host name cfg) = config_view X key (ent s) (drop_host name cfg)"
    by (rule views_kept_by_host_frame[OF assms(2) h(1) f]) (use h(2) in \<open>auto simp: drop_host_def\<close>)
  then show ?thesis
    using run r f reliable_backend.forget_slots_gone[OF assms(1)]
    by (auto simp: forget_host_slots_def simp del: keyring_key.simps)
qed

theorem delete_host_forgets_only_its_slots_witness:
  "\<exists>cfg' s'. delete_host_with_secret (\<lambda>_ _. 0) fake_backend demo_config ''web'' (w_backend demo_world) = (Inr cfg', s')
     \<and> fake_view s' (keyring_key OwnerHost (demo_ids ! 2)) = None
     \<and> fake_view (w_backend demo_world) (keyring_key OwnerHost (demo_ids ! 2)) = Some ''s3cret''"
proof -
  have f: "find_host_by_name demo_config ''web'' = Some (hosts demo_config ! 0)"
    by (simp add: find_host_by_name_def demo_config_def)
  have m: "inline_marked (hosts demo_config ! 0)" "h_id (hosts demo_config ! 0) = demo_ids ! 2"
    by (simp_all add: inline_marked_def demo_config_def)
  have "fake_view (w_backend demo_world) (keyring_key OwnerHost (demo_ids ! 2)) = Some ''s3cret''"
    by (simp add: fake_view_def demo_world_def)
  then show ?thesis
    using delete_host_forgets_only_its_slots[OF fake.reliable_backend_axioms demo_config_wf f,
        of "\<lambda>_ _. 0" "w_backend demo_world" demo_crates None] m by auto
qed

section \<open>Copies\<close>

context reliable_backend
begin

lemma copy_slot_total:
  "\<exists>s'. copy_slot_at be src dst s = (Inr (entries s src \<noteq> None), s')
     \<and> entries s' = (case entries s src of None \<Rightarrow> entries s | Some v \<Rightarrow> (entries s)(dst \<mapsto> v))"
proof (cases "entries s src")
  case None
  then show ?thesis using get_total[of src s] by (simp add: copy_slot_at_def)
next
  case (Some v)
  obtain s' where "bk_set_at be dst v s = (Inr (), s')" using set_total by blast
  then show ?thesis using get_total[of src s] Some by (auto simp: copy_slot_at_def dest: set_ok)
qed

lemma copy_slots_if_total:
  assumes "ulid_ok src" "ulid_ok dst" "src \<noteq> dst"
    and "\<And>key. key \<in> owner_slots k dst \<Longrightarrow> entries s key = None"
    and b: "body_wf b"
  shows "\<exists>s'. copy_slots_if be k src dst (b_keyring b) (inline_key_in_keyring b) s = (Inr (), s')
     \<and> frame (owner_slots k dst) (entries s) (entries s')
     \<and> body_view X key (entries s') k dst b = body_view X key (entries s) k src b"
proof -
  have d: "owner_slots k src \<inter> owner_slots k dst = {}"
    by (rule owner_slots_disjoint) (use assms in auto)
  obtain s1 where s1: "(if b_keyring b then copy_keyring_secret be k src dst s else (Inr False, s))
      = (Inr (b_keyring b \<and> entries s (keyring_key k src) \<noteq> None), s1)"
    and e1: "entries s1 = (if b_keyring b then (case entries s (keyring_key k src) of None \<Rightarrow> entries s
        | Some v \<Rightarrow> (entries s)(keyring_key k dst \<mapsto> v)) else entries s)"
    using copy_slot_total[of "keyring_key k src" "keyring_key k dst" s]
    by (cases "b_keyring b") (auto simp: copy_secret_is_slot)
  let ?p = "keyring_key_inline_priv k" and ?c = "keyring_key_inline_cert k"
  obtain s2 where s2: "copy_slot_at be (?p src) (?p dst) s1 = (Inr (entries s1 (?p src) \<noteq> None), s2)"
    and e2: "entries s2 = (case entries s1 (?p src) of None \<Rightarrow> entries s1 | Some v \<Rightarrow> (entries s1)(?p dst \<mapsto> v))"
    using copy_slot_total by blast
  obtain s3 where s3: "copy_slot_at be (?c src) (?c dst) s2 = (Inr (entries s2 (?c src) \<noteq> None), s3)"
    and e3: "entries s3 = (case entries s2 (?c src) of None \<Rightarrow> entries s2 | Some v \<Rightarrow> (entries s2)(?c dst \<mapsto> v))"
    using copy_slot_total by blast
  define sf where "sf = (if inline_key_in_keyring b then s3 else s1)"
  have run: "copy_slots_if be k src dst (b_keyring b) (inline_key_in_keyring b) s = (Inr (), sf)"
    by (simp add: copy_slots_if_def s1 copy_inline_keyring_slots_def s2 s3 sf_def)
  have dst: "entries s (keyring_key k dst) = None" "entries s (?p dst) = None" "entries s (?c dst) = None"
    using assms(4) by (auto simp: owner_slots_def)
  have ne: "keyring_key k dst \<noteq> ?p src" "keyring_key k dst \<noteq> ?c src" "?p dst \<noteq> ?c src"
    using d by (auto simp: owner_slots_def)
  have f: "frame (owner_slots k dst) (entries s) (entries sf)"
    by (auto simp: frame_def owner_slots_def sf_def e1 e2 e3 split: option.splits)
  have v1: "entries sf (keyring_key k dst) = entries s (keyring_key k src)" if "b_keyring b"
    using that dst b by (auto simp: sf_def e1 body_wf_def inline_key_in_keyring_def split: option.splits)
  have v2: "entries sf (?p dst) = entries s (?p src) \<and> entries sf (?c dst) = entries s (?c src)"
    if "inline_key_in_keyring b"
  proof -
    have nk: "\<not> b_keyring b" using that b by (auto simp: body_wf_def inline_key_in_keyring_def)
    then have "entries s1 = entries s" by (simp add: e1)
    then show ?thesis using that dst ne by (auto simp: sf_def e2 e3 split: option.splits)
  qed
  have "body_view X key (entries sf) k dst b = body_view X key (entries s) k src b"
    using v1 v2 by (auto simp: body_view_def password_view_def private_view_def certificate_view_def
        inline_key_in_keyring_def split: option.splits key_source.splits)
  then show ?thesis using run f by blast
qed

end

text \<open>A copy of a host owns the same secrets as its source, and its own copies of them. Cloning under a fresh id and copying the marked keyring slots makes the clone's plain-text view
equal to the source's, while every slot that is not the clone's is untouched.\<close>

theorem copies_own_their_secrets:
  assumes "reliable_backend be ent" "host_wf src" "ulid_ok dst_id" "h_id src \<noteq> dst_id"
    and "h_auth src = AuthInline b"
    and "ent s (keyring_key OwnerHost dst_id) = None" "ent s (keyring_key_inline_priv OwnerHost dst_id) = None"
    and "ent s (keyring_key_inline_cert OwnerHost dst_id) = None"
  shows "\<exists>s'. copy_host_keyring_entry be src (clone_host_as src dst_id dst_name) s = (Inr (), s')
    \<and> frame (owner_slots OwnerHost dst_id) (ent s) (ent s')
    \<and> body_view X key (ent s') OwnerHost dst_id b = body_view X key (ent s) OwnerHost (h_id src) b
    \<and> h_auth (clone_host_as src dst_id dst_name) = AuthInline b"
proof -
  have "ulid_ok (h_id src)" "body_wf b" using assms(2,5) by (auto simp: host_wf_def)
  moreover have "ent s k = None" if "k \<in> owner_slots OwnerHost dst_id" for k
    using that assms(6-8) by (auto simp: owner_slots_def)
  ultimately obtain s' where
    "copy_slots_if be OwnerHost (h_id src) dst_id (b_keyring b) (inline_key_in_keyring b) s = (Inr (), s')"
    "frame (owner_slots OwnerHost dst_id) (ent s) (ent s')"
    "body_view X key (ent s') OwnerHost dst_id b = body_view X key (ent s) OwnerHost (h_id src) b"
    using reliable_backend.copy_slots_if_total[OF assms(1), of "h_id src" dst_id OwnerHost s b X key]
      assms(3,4) by auto
  then show ?thesis using assms(5) by (auto simp: copy_host_keyring_entry_def clone_host_as_def)
qed

theorem copies_own_their_secrets_witness:
  "\<exists>s'. copy_host_keyring_entry fake_backend (hosts demo_config ! 0)
          (clone_host_as (hosts demo_config ! 0) (demo_ids ! 3) ''web2'') (w_backend demo_world) = (Inr (), s')
     \<and> body_view demo_crates None (fake_view s') OwnerHost (demo_ids ! 3) ((body_new ''root'')\<lparr>b_keyring := True\<rparr>)
       = body_view demo_crates None (fake_view (w_backend demo_world)) OwnerHost (demo_ids ! 2)
           ((body_new ''root'')\<lparr>b_keyring := True\<rparr>)"
proof -
  let ?h = "hosts demo_config ! 0" and ?b = "(body_new ''root'')\<lparr>b_keyring := True\<rparr>"
  have w: "host_wf ?h" by (rule config_wfD(3)[OF demo_config_wf]) (simp add: demo_config_def)
  have p: "ulid_ok (demo_ids ! 3)" "h_id ?h \<noteq> demo_ids ! 3" "h_auth ?h = AuthInline ?b"
    "fake_view (w_backend demo_world) (keyring_key OwnerHost (demo_ids ! 3)) = None"
    "fake_view (w_backend demo_world) (keyring_key_inline_priv OwnerHost (demo_ids ! 3)) = None"
    "fake_view (w_backend demo_world) (keyring_key_inline_cert OwnerHost (demo_ids ! 3)) = None"
    by (simp_all add: demo_config_def demo_ids_def ulid_ok_def crockford_def fake_view_def demo_world_def
        keyring_key_inline_priv_def keyring_key_inline_cert_def)
  have i: "h_id ?h = demo_ids ! 2" by (simp add: demo_config_def)
  from copies_own_their_secrets[OF fake.reliable_backend_axioms w p, of "''web2''" demo_crates None]
  show ?thesis unfolding i by blast
qed

end
