(* ===== verification/Askpass.thy ===== *)
theory Askpass
  imports Connect_Files Manage_Secrets
begin

text \<open>The askpass role (\<^verbatim>\<open>askpass.rs\<close>): the helper that ssh forks picks the password from the
channel that the environment names.  The TOML reader, the text form of a Ulid (\<^verbatim>\<open>ulid\<close> crate),
the keyring and the standard output are arguments.\<close>

section \<open>The helper\<close>

definition materialize :: "os \<Rightarrow> string \<Rightarrow> files \<Rightarrow> (sshrack_error + string) \<times> files" where
  "materialize os path fs =
     (case read_file path fs of
        Inl e \<Rightarrow> (Inl (AskpassRead path e), fs)
      | Inr bs \<Rightarrow> (ok_or AskpassEncoding (from_utf8 bs), snd (remove_file os path fs)))"

text \<open>Writing to standard output; an error of it is an input/output error of the helper.\<close>

definition emit :: "io_error option \<Rightarrow> string \<Rightarrow> sshrack_error + bytes" where
  "emit out pw = (case out of Some e \<Rightarrow> Inl (Io e) | None \<Rightarrow> Inr (utf8 pw))"

definition run_config ::
  "toml \<Rightarrow> (string \<Rightarrow> ulid option) \<Rightarrow> string \<Rightarrow> string \<Rightarrow> io_error option \<Rightarrow> files \<Rightarrow> sshrack_error + bytes" where
  "run_config tm ulid_parse config_path host_id out fs =
     and_then (config_load tm config_path fs) (\<lambda>cfg.
     and_then (ok_or (AskpassBadHostId host_id) (ulid_parse host_id)) (\<lambda>u.
     and_then (ok_or (AskpassHostMissing host_id) (find_host_by_id cfg u)) (\<lambda>h.
     and_then (ok_or (AskpassNoPlaintextPassword host_id) (plaintext_password h cfg)) (\<lambda>pw.
       emit out pw))))"

definition askpass_run ::
  "toml \<Rightarrow> (string \<Rightarrow> ulid option) \<Rightarrow> string option \<Rightarrow> 'b backend \<Rightarrow> 'b \<Rightarrow> os \<Rightarrow> io_error option \<Rightarrow> env \<Rightarrow>
   files \<Rightarrow> (sshrack_error + bytes) \<times> files" where
  "askpass_run tm ulid_parse default_path be s os out env fs =
     (if env ASKPASS_DENY_ENV \<noteq> None then (Inl AskpassDenied, fs)
      else case env HOST_ID_ENV of
        Some host_id \<Rightarrow>
          (case (case env CONFIG_ENV of Some p \<Rightarrow> Some p | None \<Rightarrow> default_path) of
             None \<Rightarrow> (Inl AskpassNoConfigPath, fs)
           | Some config_path \<Rightarrow> (run_config tm ulid_parse config_path host_id out fs, fs))
      | None \<Rightarrow>
          (case env KEYRING_KEY_ENV of
             Some key \<Rightarrow>
               (and_then (bk_get be key s) (\<lambda>r. and_then (ok_or (KeyringNoEntry key) r) (emit out)), fs)
           | None \<Rightarrow>
               (case env ASKPASS_FILE_ENV of
                  None \<Rightarrow> (Inl (AskpassNoFile ASKPASS_FILE_ENV), fs)
                | Some path \<Rightarrow>
                    (case materialize os path fs of
                       (Inl e, fs1) \<Rightarrow> (Inl e, fs1)
                     | (Inr pw, fs1) \<Rightarrow> (emit out pw, fs1)))))"

section \<open>What a host's password is\<close>

definition owner_password ::
  "crates \<Rightarrow> vault_key option \<Rightarrow> (string \<rightharpoonup> string) \<Rightarrow> sshrack_config \<Rightarrow> host \<Rightarrow> string option" where
  "owner_password X key m cfg h =
     (case h_auth h of
        AuthInline b \<Rightarrow> password_view X key m OwnerHost (h_id h) b
      | AuthRef r \<Rightarrow>
          (case find_credential_by_id cfg r of
             None \<Rightarrow> None
           | Some c \<Rightarrow> password_view X key m OwnerCredential (c_id c) (c_body c)))"

text \<open>An environment in which no askpass variable is set.\<close>

definition env_clean :: "env \<Rightarrow> bool" where
  "env_clean e \<longleftrightarrow>
     list_all (\<lambda>v. e v = None) [ASKPASS_DENY_ENV, HOST_ID_ENV, CONFIG_ENV, KEYRING_KEY_ENV, ASKPASS_FILE_ENV]"

lemmas env_names = ASKPASS_FILE_ENV_def HOST_ID_ENV_def CONFIG_ENV_def ASKPASS_DENY_ENV_def KEYRING_KEY_ENV_def

lemma child_env_payload:
  assumes "env_clean e" "source \<noteq> SourceNone"
  shows "child_env e (askpass_env_for exe source pw_file cp) ASKPASS_DENY_ENV = None"
    and "child_env e (askpass_env_for exe source pw_file cp) HOST_ID_ENV = (case source of SourceConfig h \<Rightarrow> Some h | _ \<Rightarrow> None)"
    and "child_env e (askpass_env_for exe source pw_file cp) CONFIG_ENV = (case source of SourceConfig h \<Rightarrow> cp | _ \<Rightarrow> None)"
    and "child_env e (askpass_env_for exe source pw_file cp) KEYRING_KEY_ENV = (case source of SourceKeyring k \<Rightarrow> Some k | _ \<Rightarrow> None)"
    and "child_env e (askpass_env_for exe source pw_file cp) ASKPASS_FILE_ENV = (case source of SourceInline p \<Rightarrow> pw_file | _ \<Rightarrow> None)"
  using assms(1,2)
  by (cases source; cases pw_file; cases cp;
      simp add: child_env_def askpass_env_for_def askpass_triplet_def askpass_payload_def
        env_clean_def env_names)+

lemma resolve_owner_password:
  assumes "resolve X jw h cfg vault be s = Inr r"
  obtains b k u label where "resolve_owner jw h cfg = Inr (b, k, u, label)"
    and "resolve_password X b k u label (h_id h) cfg vault = Inr (ra_password r)"
    and "\<And>key m. owner_password X key m cfg h = password_view X key m k u b"
    and "plaintext_password h cfg = password_plain b"
proof -
  obtain b k u label where o: "resolve_owner jw h cfg = Inr (b, k, u, label)"
    using assms by (cases "resolve_owner jw h cfg") (auto simp: resolve_def)
  obtain kp ik where k: "resolve_key X be (b_key b) k u label vault s = Inr (kp, ik)"
    using assms o by (cases "resolve_key X be (b_key b) k u label vault s") (auto simp: resolve_def)
  obtain pw where p: "resolve_password X b k u label (h_id h) cfg vault = Inr pw"
    using assms o k by (cases "resolve_password X b k u label (h_id h) cfg vault") (auto simp: resolve_def)
  have "ra_password r = pw"
    using assms o k p by (auto simp: resolve_def from_plain_def split: if_splits)
  moreover have "owner_password X key m cfg h = password_view X key m k u b \<and> plaintext_password h cfg = password_plain b"
    for key m
    using o by (auto simp: resolve_owner_def owner_password_def plaintext_password_def
        split: auth.splits option.splits)
  ultimately show thesis using that[OF o] p by auto
qed

section \<open>Delivery\<close>

text \<open>The helper in the environment of a launch that staged its password.\<close>

lemma helper_config:
  assumes "env_clean e" "config_load tm cp fs = Inr cfg" "ulid_parse u = Some u"
    and "find_host_by_id cfg u = Some h" "plaintext_password h cfg = Some p"
  shows "askpass_run tm ulid_parse dp be s os out (child_env e (askpass_env_for exe (SourceConfig u) pf (Some cp))) fs
    = (emit out p, fs)"
  using assms child_env_payload[OF assms(1), of "SourceConfig u"]
  by (simp add: askpass_run_def run_config_def)

lemma helper_keyring:
  assumes "env_clean e" "bk_get be key s = Inr r"
  shows "fst (askpass_run tm ulid_parse dp be s os out (child_env e (askpass_env_for exe (SourceKeyring key) pf cp)) fs)
    = (case r of Some p \<Rightarrow> emit out p | None \<Rightarrow> Inl (KeyringNoEntry key))"
  using assms(2) child_env_payload[OF assms(1), of "SourceKeyring key"]
  by (simp add: askpass_run_def split: option.splits)

lemma helper_inline:
  assumes "env_clean e" "fs path = Some \<lparr>fe_mode = m, fe_bytes = utf8 p\<rparr>" "os_removes os"
  shows "askpass_run tm ulid_parse dp be s os out
      (child_env e (askpass_env_for exe (SourceInline q) (Some path) cp)) fs = (emit out p, fs(path := None))"
  using assms(2) child_env_payload[OF assms(1), of "SourceInline q"] remove_file_ok[OF assms(3), of path fs]
  by (simp add: askpass_run_def materialize_def read_file_def)

lemma reliable_get:
  assumes "reliable_backend be ent"
  shows "bk_get be key s = Inr (ent s key)"
proof -
  obtain r where "bk_get be key s = Inr r"
    using reliable_backend.get_total[OF assms] by blast
  then show ?thesis using secret_backend.get_ok[OF reliable_backend.axioms(1)[OF assms]] by blast
qed

lemma resolve_password_cases [consumes 1, case_names keyring config inline none]:
  assumes "resolve_password X b k u label hid cfg vault = Inr src"
  obtains "b_keyring b" "src = SourceKeyring (keyring_key k u)"
    | "\<not> b_keyring b" "is_plaintext cfg" "b_password b \<noteq> None" "src = SourceConfig hid"
    | q where "\<not> b_keyring b" "Option.bind (b_password b) (secret_text X vault) = Some q" "src = SourceInline q"
    | "\<not> b_keyring b" "b_password b = None" "src = SourceNone"
proof (cases "b_keyring b \<or> is_plaintext cfg \<and> b_password b \<noteq> None")
  case True
  then show thesis using assms that(1,2) by (cases "b_keyring b") (auto simp: resolve_password_def simp del: keyring_key.simps)
next
  case False
  then obtain t where t: "decrypt_secret X (b_password b) vault label = Inr t"
    and s: "src = (case t of Some p \<Rightarrow> SourceInline p | None \<Rightarrow> SourceNone)"
    using assms by (auto simp: resolve_password_def)
  show thesis
  proof (cases "b_password b")
    case None
    then show thesis using False t s that(4) by (simp add: decrypt_secret_def)
  next
    case (Some x)
    then show thesis
      using False t s that(3) by (cases x) (auto simp: decrypt_secret_def split: option.splits)
  qed
qed

text \<open>C3: the helper hands ssh the password of the host being connected to. For a host of a well-formed
configuration that is sealed for its mode, whatever channel the resolution chose, the helper started in the
environment of the launch writes exactly the password of the host's owner (the referenced credential or the
host itself); a marked password that is missing from the keyring is an error naming its slot; and without
a password no askpass variable is set at all.\<close>

theorem helper_delivers_password:
  assumes be: "reliable_backend be ent" and wf: "config_wf cfg" "h \<in> set (hosts cfg)"
    and sealed: "is_plaintext cfg \<Longrightarrow> config_sealed StorePlaintext cfg"
    and ulid: "\<And>u. ulid_ok u \<Longrightarrow> ulid_parse u = Some u"
    and run: "resolve X jw h cfg vault be s = Inr r"
    and stage: "os_removes os" "stage_password os (ra_password r) st = (Inr pw_file, st1)"
    and load: "config_load tm config_path (ts_files st1) = Inr cfg" and env: "env_clean inherited"
  shows "(let vars = askpass_env_for self_exe (ra_password r) pw_file (Some config_path);
              helper = fst (askpass_run tm ulid_parse default_path be s os None (child_env inherited vars) (ts_files st1))
          in case owner_password X vault (ent s) cfg h of
               Some p \<Rightarrow> helper = Inr (utf8 p)
             | None \<Rightarrow> (ra_password r = SourceNone \<and> vars = [])
                 \<or> (\<exists>key. ra_password r = SourceKeyring key \<and> helper = Inl (KeyringNoEntry key)))"
proof -
  obtain b k u label where o: "resolve_owner jw h cfg = Inr (b, k, u, label)"
    and p: "resolve_password X b k u label (h_id h) cfg vault = Inr (ra_password r)"
    and v: "owner_password X vault (ent s) cfg h = password_view X vault (ent s) k u b"
    and pp: "plaintext_password h cfg = password_plain b"
    by (rule resolve_owner_password[OF run]) blast
  have hid: "find_host_by_id cfg (h_id h) = Some h" "ulid_parse (h_id h) = Some (h_id h)"
    using wf ulid config_wfD(3)[OF wf] by (auto simp: find_host_by_id_def config_wf_def find_key_iff host_wf_def)
  have bodies: "b \<in> set (secret_bodies cfg)"
    using o wf(2) find_Some_sat[of _ "credentials cfg"]
    by (auto simp: resolve_owner_def set_secret_bodies find_credential_by_id_def split: auth.splits option.splits)
  from p show ?thesis
  proof (cases rule: resolve_password_cases)
    case keyring
    then show ?thesis
      using helper_keyring[OF env reliable_get[OF be], where s = s and key = "keyring_key k u"] v
      by (simp add: password_view_def emit_def Let_def del: keyring_key.simps split: option.splits)
  next
    case config
    have "body_sealed StorePlaintext b"
      using sealed[OF config(2)] bodies by (simp add: config_sealed_def list_all_iff)
    then obtain q where q: "b_password b = Some (Plain q)"
      using config(3) by (cases "the (b_password b)") (auto simp: body_sealed_def)
    then show ?thesis
      using config helper_config[where e = inherited and tm = tm and u = "h_id h" and ulid_parse = ulid_parse and h = h
          and fs = "ts_files st1" and p = q and cp = config_path and cfg = cfg and out = None and be = be and s = s,
            OF env load hid(2,1)] pp v
      by (simp add: password_view_def emit_def Let_def password_plain_def)
  next
    case (inline q)
    obtain path where w: "write_password_file os q st = (Inr path, st1)" "pw_file = Some path"
      using stage(2) inline(3) by (auto simp: stage_password_def split: sum.splits prod.splits)
    show ?thesis
      using helper_inline[where path = path and fs = "ts_files st1" and p = q and be = be and s = s and out = None,
          OF env _ stage(1)]
        write_password_file_ok(3)[OF w(1)] inline v w(2)
      by (simp add: password_view_def emit_def Let_def)
  next
    case none
    then show ?thesis using v by (simp add: password_view_def askpass_env_for_def)
  qed
qed

definition demo_plain :: sshrack_config where
  "demo_plain = demo_config\<lparr>hosts := [hosts demo_config ! 1], credentials := [credentials demo_config ! 0]\<rparr>"

definition demo_plain_state :: temp_state where
  "demo_plain_state = \<lparr>ts_files = (\<lambda>p. if p = ''/c'' then Some \<lparr>fe_mode = MODE_PRIVATE, fe_bytes = ''c''\<rparr> else None),
     ts_live = []\<rparr>"

lemma demo_plain_wf: "config_wf demo_plain"
  by (simp add: demo_plain_def config_wf_def demo_config_def host_wf_def credential_wf_def ulid_ok_def
      demo_ids_def crockford_def with_password_def body_new_def body_wf_def)

lemma demo_plain_sealed: "config_sealed StorePlaintext demo_plain"
  by (simp add: demo_plain_def config_sealed_def demo_config_def secret_bodies_def with_password_def
      body_new_def body_sealed_def List.map_filter_def)

lemma demo_plain_load: "config_load (demo_toml demo_plain) ''/c'' (ts_files demo_plain_state) = Inr demo_plain"
  by (simp add: config_load_def read_to_string_def read_file_def demo_plain_state_def demo_toml_def)

theorem helper_delivers_password_witness:
  "\<exists>r. resolve demo_crates (\<lambda>_ _. 0) (hosts demo_plain ! 0) demo_plain None fake_backend (w_backend demo_world) = Inr r
     \<and> fst (askpass_run (demo_toml demo_plain) Some None fake_backend (w_backend demo_world) demo_os None
          (child_env (\<lambda>_. None) (askpass_env_for ''/bin/sshrack'' (ra_password r) None (Some ''/c'')))
          (ts_files demo_plain_state)) = Inr (utf8 ''hunter2'')"
proof -
  let ?h = "hosts demo_plain ! 0"
  obtain r where r: "resolve demo_crates (\<lambda>_ _. 0) ?h demo_plain None fake_backend (w_backend demo_world) = Inr r"
    and src: "ra_password r = SourceConfig (demo_ids ! 3)"
    by (simp add: resolve_def resolve_owner_def resolve_key_def resolve_password_def from_plain_def
        demo_plain_def demo_config_def find_credential_by_id_def with_password_def body_new_def is_plaintext_def)
  have h: "?h \<in> set (hosts demo_plain)" by (simp add: demo_plain_def)
  have st: "stage_password demo_os (ra_password r) demo_plain_state = (Inr None, demo_plain_state)"
    by (simp add: src stage_password_def)
  have e: "env_clean (\<lambda>_. None)" by (simp add: env_clean_def)
  have o: "owner_password demo_crates None (fake_view (w_backend demo_world)) demo_plain ?h = Some ''hunter2''"
    by (simp add: owner_password_def demo_plain_def demo_config_def find_credential_by_id_def
        password_view_def with_password_def body_new_def)
  show ?thesis
    using helper_delivers_password[OF fake.reliable_backend_axioms demo_plain_wf h demo_plain_sealed _ r
        demo_os_removes st demo_plain_load e, of Some "''/bin/sshrack''" None] r o
    by (simp add: Let_def)
qed

section \<open>A credential override in plain-text mode\<close>

text \<open>C15: overriding the credential of a configured host in plain-text mode sends the wrong password. The
override is kept in memory only, but the helper is pointed at the host by its id and reads the configuration
file, so ssh logs in as the user of the given credential with the host's own password.\<close>

theorem credential_override_sends_host_password:
  assumes "config_wf cfg" "is_plaintext cfg" "find_host_by_name cfg name = Some h"
    and "h_auth h = AuthInline b" "b_password b = Some (Plain own)"
    and "find_credential_by_id cfg cid = Some c" "b_password (c_body c) = Some (Plain wanted)"
    and "ro_credential ov = Some cid" "config_load tm config_path fs = Inr cfg"
    and "ulid_parse (h_id h) = Some (h_id h)" "env_clean inherited"
  shows "\<exists>rt r. resolve_target jw fresh cfg name ov = Inr rt
    \<and> resolve X jw (rt_host rt) cfg vault be s = Inr r
    \<and> ra_user r = b_user (c_body c)
    \<and> askpass_run tm ulid_parse default_path be s os None
         (child_env inherited (askpass_env_for self_exe (ra_password r) None (Some config_path))) fs
       = (Inr (utf8 own), fs)"
proof -
  have h: "h \<in> set (hosts cfg)" "find_host_by_id cfg (h_id h) = Some h"
    using assms(1,3) host_by_name_iff[OF assms(1)]
    by (auto simp: find_host_by_id_def config_wf_def find_key_iff)
  have "c \<in> set (credentials cfg)" using assms(6) find_Some_sat[of _ "credentials cfg"]
    by (auto simp: find_credential_by_id_def)
  then have wf: "body_wf (c_body c)" using assms(1) by (auto simp: config_wf_def credential_wf_def list_all_iff)
  then have c: "b_key (c_body c) = None" "\<not> b_keyring (c_body c)" using assms(7) by (auto simp: body_wf_def)
  have t: "resolve_target jw fresh cfg name ov = Inr \<lparr>rt_host = h\<lparr>h_auth := AuthRef cid\<rparr>, rt_target_user = None, rt_ephemeral = False\<rparr>"
    using assms(3,8) by (simp add: resolve_target_def with_overrides_def)
  let ?r = "\<lparr>ra_user = b_user (c_body c), ra_key_path = None, ra_password = SourceConfig (h_id h), ra_inline_key = None\<rparr>"
  have r: "resolve X jw (h\<lparr>h_auth := AuthRef cid\<rparr>) cfg vault be s = Inr ?r"
    using assms(2,6,7) c
    by (simp add: resolve_def resolve_owner_def resolve_key_def resolve_password_def from_plain_def)
  have "plaintext_password h cfg = Some own" using assms(4,5) by (simp add: plaintext_password_def password_plain_def)
  then show ?thesis
    using t r helper_config[where e = inherited and tm = tm and u = "h_id h" and ulid_parse = ulid_parse and h = h
        and fs = fs and cp = config_path and cfg = cfg and out = None and p = own and be = be and s = s,
          OF assms(11,9,10) h(2)]
    by (auto simp: emit_def)
qed

definition demo_override :: sshrack_config where
  "demo_override = demo_config\<lparr>hosts := [(hosts demo_config ! 0)\<lparr>h_auth :=
     AuthInline (with_password ''web-pw'' (body_new ''root''))\<rparr>], credentials := [credentials demo_config ! 0]\<rparr>"

theorem credential_override_sends_host_password_witness:
  "\<exists>rt r. resolve_target (\<lambda>_ _. 0) ''x'' demo_override ''web''
        \<lparr>ro_credential = Some (demo_ids ! 0), ro_port = None, ro_user = None, ro_identity = None\<rparr> = Inr rt
    \<and> resolve demo_crates (\<lambda>_ _. 0) (rt_host rt) demo_override None fake_backend (w_backend demo_world) = Inr r
    \<and> ra_user r = ''ops''
    \<and> fst (askpass_run \<lparr>tm_parse = \<lambda>_. Some demo_override, tm_print = \<lambda>_. None\<rparr> Some None fake_backend
         (w_backend demo_world) demo_os None
         (child_env (\<lambda>_. None) (askpass_env_for ''/bin/sshrack'' (ra_password r) None (Some ''/c'')))
         (ts_files demo_plain_state)) = Inr (utf8 ''web-pw'')"
proof -
  let ?ov = "\<lparr>ro_credential = Some (demo_ids ! 0), ro_port = None, ro_user = None, ro_identity = None\<rparr>"
  let ?h = "hosts demo_override ! 0" and ?c = "credentials demo_override ! 0"
  have w: "config_wf demo_override"
    by (simp add: demo_override_def config_wf_def demo_config_def host_wf_def credential_wf_def ulid_ok_def
        demo_ids_def crockford_def with_password_def body_new_def body_wf_def)
  have p: "is_plaintext demo_override" "find_host_by_name demo_override ''web'' = Some ?h"
    "h_auth ?h = AuthInline (with_password ''web-pw'' (body_new ''root''))"
    "b_password (with_password ''web-pw'' (body_new ''root'')) = Some (Plain ''web-pw'')"
    "find_credential_by_id demo_override (demo_ids ! 0) = Some ?c" "b_password (c_body ?c) = Some (Plain ''hunter2'')"
    "ro_credential ?ov = Some (demo_ids ! 0)"
    by (simp_all add: demo_override_def demo_config_def is_plaintext_def find_host_by_name_def
        find_credential_by_id_def with_password_def body_new_def)
  have l: "config_load \<lparr>tm_parse = \<lambda>_. Some demo_override, tm_print = \<lambda>_. None\<rparr> ''/c'' (ts_files demo_plain_state)
      = Inr demo_override"
    by (simp add: config_load_def read_to_string_def read_file_def demo_plain_state_def)
  have e: "env_clean (\<lambda>_. None)" by (simp add: env_clean_def)
  have u: "b_user (c_body ?c) = ''ops''"
    by (simp add: demo_override_def demo_config_def with_password_def body_new_def)
  from credential_override_sends_host_password[OF w p l _ e, of Some "\<lambda>_ _. 0" "''x''" demo_crates None
      fake_backend "w_backend demo_world" None demo_os "''/bin/sshrack''"] u
  show ?thesis by auto
qed

text \<open>An address with a credential in plain-text mode cannot log in with its password. The address
is not in the configuration, so the helper that is asked for the password of its fresh id fails, although
the resolution of the same target succeeded.\<close>

theorem address_credential_has_no_password:
  assumes "config_wf cfg" "is_plaintext cfg" "find_host_by_name cfg (user @ ''@'' @ address) = None"
    and "user \<noteq> []" "address \<noteq> []" "CHR ''@'' \<notin> set address" "unbracket address = address"
    and "host_port_of address = None" "find_host_by_name cfg address = None"
    and "find_credential_by_id cfg cid = Some c" "b_password (c_body c) = Some (Plain wanted)"
    and "ro_credential ov = Some cid" "config_load tm config_path fs = Inr cfg"
    and "find_host_by_id cfg fresh = None" "ulid_parse fresh = Some fresh" "env_clean inherited"
  shows "\<exists>rt r. resolve_target jw fresh cfg (user @ ''@'' @ address) ov = Inr rt \<and> rt_ephemeral rt
    \<and> resolve X jw (rt_host rt) cfg vault be s = Inr r
    \<and> askpass_run tm ulid_parse default_path be s os None
         (child_env inherited (askpass_env_for self_exe (ra_password r) None (Some config_path))) fs
       = (Inl (AskpassHostMissing fresh), fs)"
proof -
  have "c \<in> set (credentials cfg)" using assms(10) find_Some_sat[of _ "credentials cfg"]
    by (auto simp: find_credential_by_id_def)
  then have wf: "body_wf (c_body c)" using assms(1) by (auto simp: config_wf_def credential_wf_def list_all_iff)
  then have c: "b_key (c_body c) = None" "\<not> b_keyring (c_body c)" using assms(11) by (auto simp: body_wf_def)
  let ?h = "address_host fresh address (opt_or (ro_port ov) HOST_DEFAULT_PORT) (AuthRef cid)"
  have sp: "rsplit_once (CHR ''@'') (user @ CHR ''@'' # address) = Some (user, address)" using assms(6) by simp
  have t: "resolve_target jw fresh cfg (user @ ''@'' @ address) ov
      = Inr \<lparr>rt_host = ?h, rt_target_user = Some user, rt_ephemeral = True\<rparr>"
    using assms(3-5,7-9,12) sp by (simp add: resolve_target_def Let_def)
  let ?r = "\<lparr>ra_user = b_user (c_body c), ra_key_path = None, ra_password = SourceConfig fresh, ra_inline_key = None\<rparr>"
  have r: "resolve X jw ?h cfg vault be s = Inr ?r"
    using assms(2,10,11) c
    by (simp add: resolve_def resolve_owner_def resolve_key_def resolve_password_def from_plain_def address_host_def)
  show ?thesis
    using t r assms(13-15) child_env_payload[OF assms(16), of "SourceConfig fresh"]
    by (auto simp: askpass_run_def run_config_def)
qed

theorem address_credential_has_no_password_witness:
  "\<exists>rt r. resolve_target (\<lambda>_ _. 0) ''01BX5ZZKBKACTAV9WEVGEMMVS5'' demo_plain ''ops@10.9.9.9''
        \<lparr>ro_credential = Some (demo_ids ! 0), ro_port = None, ro_user = None, ro_identity = None\<rparr> = Inr rt
    \<and> resolve demo_crates (\<lambda>_ _. 0) (rt_host rt) demo_plain None fake_backend (w_backend demo_world) = Inr r
    \<and> fst (askpass_run (demo_toml demo_plain) Some None fake_backend (w_backend demo_world) demo_os None
         (child_env (\<lambda>_. None) (askpass_env_for ''/bin/sshrack'' (ra_password r) None (Some ''/c'')))
         (ts_files demo_plain_state)) = Inl (AskpassHostMissing ''01BX5ZZKBKACTAV9WEVGEMMVS5'')"
proof -
  let ?ov = "\<lparr>ro_credential = Some (demo_ids ! 0), ro_port = None, ro_user = None, ro_identity = None\<rparr>"
  let ?c = "credentials demo_plain ! 0" and ?u = "''01BX5ZZKBKACTAV9WEVGEMMVS5''"
  have p: "is_plaintext demo_plain" "find_host_by_name demo_plain (''ops'' @ ''@'' @ ''10.9.9.9'') = None"
    "''ops'' \<noteq> []" "''10.9.9.9'' \<noteq> []" "CHR ''@'' \<notin> set ''10.9.9.9''"
    by (simp_all add: demo_plain_def demo_config_def is_plaintext_def find_host_by_name_def)
  have q: "unbracket ''10.9.9.9'' = ''10.9.9.9''" "host_port_of ''10.9.9.9'' = None" by code_simp+
  have f: "find_host_by_name demo_plain ''10.9.9.9'' = None" "find_credential_by_id demo_plain (demo_ids ! 0) = Some ?c"
    "b_password (c_body ?c) = Some (Plain ''hunter2'')" "ro_credential ?ov = Some (demo_ids ! 0)"
    "find_host_by_id demo_plain ?u = None"
    by (simp_all add: demo_plain_def demo_config_def find_host_by_name_def find_host_by_id_def demo_ids_def
        find_credential_by_id_def with_password_def body_new_def)
  have e: "env_clean (\<lambda>_. None)" by (simp add: env_clean_def)
  from address_credential_has_no_password[OF demo_plain_wf p q f(1-4) demo_plain_load f(5) _ e, of Some "\<lambda>_ _. 0"
      demo_crates None fake_backend "w_backend demo_world" None demo_os "''/bin/sshrack''"]
  show ?thesis by auto
qed

end
