(* ===== verification/Sftp_Argv.thy ===== *)
theory Sftp_Argv
  imports Askpass
begin

text \<open>The command lines of an SFTP session (\<^verbatim>\<open>connect/sftp/argv.rs\<close>): the master connection,
the batch client that rides on its control socket, the control commands, and the quoting of a path for a
batch line; with the guarantee that the master never prompts on the terminal.\<close>

record sftp_bin =
  sb_ssh :: string
  sb_sftp :: string

definition default_sftp_bin :: sftp_bin where
  "default_sftp_bin = \<lparr>sb_ssh = ''ssh'', sb_sftp = ''sftp''\<rparr>"

definition runtime_dir :: "os \<Rightarrow> string option \<Rightarrow> string" where
  "runtime_dir os xdg = (case xdg of Some p \<Rightarrow> if p \<noteq> [] then p else os_temp_dir os | None \<Rightarrow> os_temp_dir os)"

text \<open>The process-wide counter is passed through.\<close>

definition control_socket_path :: "os \<Rightarrow> string option \<Rightarrow> 64 word \<Rightarrow> string \<times> 64 word" where
  "control_socket_path os xdg counter =
     (path_join (runtime_dir os xdg)
        (''sshrack-mux-'' @ show_pid os @ ''-'' @ show_nat (unat counter) @ ''.sock''), counter + 1)"

definition control_path_opt :: "string \<Rightarrow> string" where
  "control_path_opt sock = ''ControlPath='' @ sock"

definition master_argv :: "splitter \<Rightarrow> resolved_auth \<Rightarrow> host \<Rightarrow> overrides \<Rightarrow> string \<Rightarrow> string list" where
  "master_argv sh r h ov sock =
     [''ssh'', ''-N'', ''-o'', ''ControlMaster=yes'', ''-o'', control_path_opt sock,
      ''-o'', ''ConnectTimeout=10'', ''-o'', ''ServerAliveInterval=15'']
     @ connect_opts sh r h ov @ [h_host h]"

definition sftp_batch_argv :: "string \<Rightarrow> string \<Rightarrow> string list" where
  "sftp_batch_argv target sock = [''sftp'', ''-b'', ''-'', ''-o'', control_path_opt sock, target]"

definition control_check_argv :: "string \<Rightarrow> string \<Rightarrow> string list" where
  "control_check_argv target sock = [''ssh'', ''-o'', control_path_opt sock, ''-O'', ''check'', target]"

definition control_exit_argv :: "string \<Rightarrow> string \<Rightarrow> string list" where
  "control_exit_argv target sock = [''ssh'', ''-o'', control_path_opt sock, ''-O'', ''exit'', target]"

definition sftp_target :: "resolved_auth \<Rightarrow> host \<Rightarrow> overrides \<Rightarrow> string" where
  "sftp_target r h ov = effective_user r ov @ ''@'' @ h_host h"

definition quote_char :: "char \<Rightarrow> string" where
  "quote_char c = (if c = CHR 0x22 \<or> c = CHR 0x5C \<or> c = CHR ''$'' then [CHR 0x5C, c] else [c])"

definition shell_quote :: "string \<Rightarrow> string" where
  "shell_quote path = [CHR 0x22] @ concat (map quote_char path) @ [CHR 0x22]"

section \<open>Quoting\<close>

text \<open>The reading of one double-quoted word: a backslash takes the next character as it is, an unescaped
quote ends the word.  The result is the word and the text after it.\<close>

fun read_quoted_from :: "string \<Rightarrow> (string \<times> string) option" where
  "read_quoted_from [] = None"
| "read_quoted_from (c # s) =
     (if c = CHR 0x22 then Some ([], s)
      else if c = CHR 0x5C
      then (case s of [] \<Rightarrow> None | d # s' \<Rightarrow> map_option (\<lambda>(w, r). (d # w, r)) (read_quoted_from s'))
      else map_option (\<lambda>(w, r). (c # w, r)) (read_quoted_from s))"

definition read_quoted :: "string \<Rightarrow> (string \<times> string) option" where
  "read_quoted s = (case s of c # r \<Rightarrow> if c = CHR 0x22 then read_quoted_from r else None | [] \<Rightarrow> None)"

text \<open>A quoted path is one word of a batch line and stands for the path itself. Reading a
double-quoted word from the quoted path, whatever text follows it, gives back the path and exactly that
text, so a space, a quote, a backslash or a dollar sign in a file name neither ends the word nor changes
it.\<close>

theorem shell_quote_roundtrip:
  "read_quoted (shell_quote path @ rest) = Some (path, rest)"
proof -
  have "read_quoted_from (concat (map quote_char path) @ CHR 0x22 # rest) = Some (path, rest)"
    by (induction path) (simp_all add: quote_char_def)
  then show ?thesis by (simp add: read_quoted_def shell_quote_def)
qed

section \<open>The master never prompts\<close>

text \<open>The master connection of an SFTP session never asks on the terminal. Whatever the password
source and the inherited environment, ssh is told to use the askpass program and nothing else; without a
password the helper refuses, writing nothing, and with one it is not refused unless the inherited
environment says so.\<close>

theorem sftp_master_never_prompts:
  "(let e = child_env inherited (askpass_env_for_sftp self_exe source pw_file config_path) in
     e ''SSH_ASKPASS'' = Some self_exe \<and> e ''SSH_ASKPASS_REQUIRE'' = Some ''force'' \<and> e ''DISPLAY'' = Some '':0''
     \<and> (if source = SourceNone
        then askpass_run tm ulid_parse default_path be s os out e fs = (Inl AskpassDenied, fs)
        else e ASKPASS_DENY_ENV = inherited ASKPASS_DENY_ENV))"
  by (cases source; cases pw_file; cases config_path;
      simp add: Let_def askpass_env_for_sftp_def askpass_env_for_def askpass_triplet_def askpass_payload_def
        child_env_def askpass_run_def env_names)

end
