(* ===== verification/Scp.thy ===== *)
theory Scp
  imports Connect_Files Manage
begin

text \<open>The scp command line (\<^verbatim>\<open>connect/scp.rs\<close>): every remote operand goes through the connect
target table, the first one supplies port, identity and password.  The fresh id of an address target is
drawn per operand.\<close>

section \<open>Operands\<close>

text \<open>\<^verbatim>\<open>str::find\<close>: the text before the first occurrence, and the text from it on.\<close>

fun find_sub :: "string \<Rightarrow> string \<Rightarrow> (string \<times> string) option" where
  "find_sub p [] = (if p = [] then Some ([], []) else None)"
| "find_sub p (c # s) =
     (if starts_with p (c # s) then Some ([], c # s)
      else map_option (\<lambda>(a, b). (c # a, b)) (find_sub p s))"

text \<open>\<^verbatim>\<open>user@[v6]:path\<close>.\<close>

definition bracketed_user_split :: "string \<Rightarrow> (string \<times> string) option" where
  "bracketed_user_split arg =
     (case find_sub ''@['' arg of
        None \<Rightarrow> None
      | Some (before, from_open) \<Rightarrow>
          (case split_once (CHR '']'') from_open of
             None \<Rightarrow> None
           | Some (inner, after) \<Rightarrow>
               map_option (\<lambda>rest. (before @ inner @ '']'', rest)) (strip_prefix '':'' after)))"

definition operand_split :: "string \<Rightarrow> (string \<times> string) option" where
  "operand_split arg =
     (case bracketed_user_split arg of
        Some p \<Rightarrow> Some p
      | None \<Rightarrow>
          (case strip_prefix ''['' arg of
             Some stripped \<Rightarrow>
               (case split_once (CHR '']'') stripped of
                  None \<Rightarrow> None
                | Some (addr, after) \<Rightarrow> map_option (\<lambda>rest. (addr, rest)) (strip_prefix '':'' after))
           | None \<Rightarrow> split_once (CHR '':'') arg))"

definition is_ascii_hexdigit :: "char \<Rightarrow> bool" where
  "is_ascii_hexdigit c \<longleftrightarrow>
     (let n = (of_char c :: nat) in 48 \<le> n \<and> n \<le> 57 \<or> 65 \<le> n \<and> n \<le> 70 \<or> 97 \<le> n \<and> n \<le> 102)"

definition operand_err :: "sshrack_error \<Rightarrow> string \<Rightarrow> string \<Rightarrow> sshrack_error" where
  "operand_err e left arg =
     (case e of
        HostNotFound _ _ \<Rightarrow>
          if \<not> starts_with ''['' arg \<and> contains_str ''::'' arg \<and> left \<noteq> [] \<and> list_all is_ascii_hexdigit left
          then InvalidTarget arg ''this looks like an IPv6 address; write it bracketed as [addr]:path''
          else e
      | _ \<Rightarrow> e)"

definition host_token :: "string \<Rightarrow> string" where
  "host_token address = (if CHR '':'' \<in> set address then ''['' @ address @ '']'' else address)"

definition format_operand :: "string \<Rightarrow> string \<Rightarrow> string \<Rightarrow> string" where
  "format_operand user address rest = user @ ''@'' @ host_token address @ '':'' @ rest"

section \<open>Building the plan\<close>

record scp_plan =
  sp_argv :: "string list"
  sp_host :: "host option"
  sp_password :: password_source
  sp_remote_hosts :: "(string \<times> 16 word) list"
  sp_key_artifact :: "key_artifact option"

text \<open>The loop variables of \<^verbatim>\<open>build\<close>.\<close>

record scp_acc =
  sa_out :: "string list"
  sa_host :: "host option"
  sa_port :: "16 word option"
  sa_identity :: "string option"
  sa_remotes :: "(string \<times> 16 word) list"
  sa_password :: password_source
  sa_artifact :: "key_artifact option"

definition scp_start :: scp_acc where
  "scp_start = \<lparr>sa_out = [], sa_host = None, sa_port = None, sa_identity = None, sa_remotes = [],
     sa_password = SourceNone, sa_artifact = None\<rparr>"

definition target_overrides :: "overrides \<Rightarrow> resolve_overrides" where
  "target_overrides ov = \<lparr>ro_credential = ov_credential ov, ro_port = ov_port ov, ro_user = ov_user ov,
     ro_identity = ov_identity ov\<rparr>"

definition operand_user :: "resolved_target \<Rightarrow> overrides \<Rightarrow> resolved_auth \<Rightarrow> string" where
  "operand_user rt ov au =
     (case rt_target_user rt of
        Some u \<Rightarrow> u
      | None \<Rightarrow> (case ov_user ov of Some u \<Rightarrow> u | None \<Rightarrow> ra_user au))"

text \<open>What the first remote operand supplies.\<close>

definition first_remote ::
  "os \<Rightarrow> overrides \<Rightarrow> host \<Rightarrow> 16 word \<Rightarrow> resolved_auth \<Rightarrow> scp_acc \<Rightarrow> temp_state \<Rightarrow>
   (sshrack_error + scp_acc) \<times> temp_state" where
  "first_remote os ov h port au acc st =
     (if sa_host acc \<noteq> None then (Inr acc, st)
      else case materialize_inline_key os au st of
        (Inl e, _, st1) \<Rightarrow> (Inl e, st1)
      | (Inr art, au1, st1) \<Rightarrow>
          (Inr (acc\<lparr>sa_host := Some h, sa_port := Some port, sa_artifact := art,
             sa_identity := (case ov_identity ov of Some k \<Rightarrow> Some k | None \<Rightarrow> ra_key_path au1),
             sa_password := ra_password au1\<rparr>), st1))"

definition scp_remote ::
  "crates \<Rightarrow> similarity \<Rightarrow> os \<Rightarrow> sshrack_config \<Rightarrow> overrides \<Rightarrow> vault_key option \<Rightarrow> 'b backend \<Rightarrow> 'b \<Rightarrow>
   ulid \<Rightarrow> string \<Rightarrow> string \<Rightarrow> string \<Rightarrow> scp_acc \<Rightarrow> temp_state \<Rightarrow> (sshrack_error + scp_acc) \<times> temp_state" where
  "scp_remote X jw os cfg ov vault be s fresh arg left rest acc st =
     (case resolve_target jw fresh cfg left (target_overrides ov) of
        Inl e \<Rightarrow> (Inl (operand_err e left arg), st)
      | Inr rt \<Rightarrow>
          (case resolve X jw (rt_host rt) cfg vault be s of
             Inl e \<Rightarrow> (Inl e, st)
           | Inr au \<Rightarrow>
               (let h = rt_host rt;
                    port = opt_or (ov_port ov) (h_port h);
                    acc1 = acc\<lparr>sa_out := sa_out acc @ [format_operand (operand_user rt ov au) (h_host h) rest]\<rparr>
                in case first_remote os ov h port au acc1 st of
                     (Inl e, st1) \<Rightarrow> (Inl e, st1)
                   | (Inr acc2, st1) \<Rightarrow>
                       (Inr (if (h_host h, port) \<in> set (sa_remotes acc2) then acc2
                             else acc2\<lparr>sa_remotes := sa_remotes acc2 @ [(h_host h, port)]\<rparr>), st1))))"

text \<open>The loop.  An early return drops the artifact that a previous operand staged.\<close>

definition drop_artifact :: "os \<Rightarrow> key_artifact option \<Rightarrow> temp_state \<Rightarrow> temp_state" where
  "drop_artifact os art st = (case art of Some a \<Rightarrow> key_artifact_drop os a st | None \<Rightarrow> st)"

fun scp_operands ::
  "crates \<Rightarrow> similarity \<Rightarrow> os \<Rightarrow> sshrack_config \<Rightarrow> overrides \<Rightarrow> vault_key option \<Rightarrow> 'b backend \<Rightarrow> 'b \<Rightarrow>
   (nat \<Rightarrow> ulid) \<Rightarrow> string list \<Rightarrow> scp_acc \<Rightarrow> temp_state \<Rightarrow> (sshrack_error + scp_acc) \<times> temp_state" where
  "scp_operands X jw os cfg ov vault be s fresh [] acc st = (Inr acc, st)"
| "scp_operands X jw os cfg ov vault be s fresh (arg # args) acc st =
     (case operand_split arg of
        None \<Rightarrow> scp_operands X jw os cfg ov vault be s fresh args (acc\<lparr>sa_out := sa_out acc @ [arg]\<rparr>) st
      | Some (left, rest) \<Rightarrow>
          (case scp_remote X jw os cfg ov vault be s (fresh (length args)) arg left rest acc st of
             (Inl e, st1) \<Rightarrow> (Inl e, drop_artifact os (sa_artifact acc) st1)
           | (Inr acc1, st1) \<Rightarrow> scp_operands X jw os cfg ov vault be s fresh args acc1 st1))"

definition scp_argv :: "splitter \<Rightarrow> scp_acc \<Rightarrow> string list" where
  "scp_argv sh acc =
     [''scp'']
     @ (case sa_port acc of Some p \<Rightarrow> [''-P'', show_nat (unat p)] | None \<Rightarrow> [])
     @ (case sa_identity acc of Some k \<Rightarrow> [''-i'', k] | None \<Rightarrow> [])
     @ (case sa_host acc of
          Some h \<Rightarrow> (case h_ssh_args h of Some raw \<Rightarrow> o_option_tokens sh raw | None \<Rightarrow> [])
        | None \<Rightarrow> [])
     @ sa_out acc"

definition scp_build ::
  "crates \<Rightarrow> similarity \<Rightarrow> splitter \<Rightarrow> os \<Rightarrow> (nat \<Rightarrow> ulid) \<Rightarrow> string list \<Rightarrow> sshrack_config \<Rightarrow> overrides \<Rightarrow>
   vault_key option \<Rightarrow> 'b backend \<Rightarrow> 'b \<Rightarrow> temp_state \<Rightarrow> (sshrack_error + scp_plan) \<times> temp_state" where
  "scp_build X jw sh os fresh args cfg ov vault be s st =
     (case scp_operands X jw os cfg ov vault be s fresh args scp_start st of
        (Inl e, st1) \<Rightarrow> (Inl e, st1)
      | (Inr acc, st1) \<Rightarrow>
          (Inr \<lparr>sp_argv = scp_argv sh acc, sp_host = sa_host acc, sp_password = sa_password acc,
                sp_remote_hosts = sa_remotes acc, sp_key_artifact = sa_artifact acc\<rparr>, st1))"


section \<open>The loop\<close>

text \<open>What one operand of the command line may become.\<close>

definition operand_image ::
  "crates \<Rightarrow> similarity \<Rightarrow> sshrack_config \<Rightarrow> overrides \<Rightarrow> vault_key option \<Rightarrow> 'b backend \<Rightarrow> 'b \<Rightarrow> string \<Rightarrow>
   string \<Rightarrow> bool" where
  "operand_image X jw cfg ov vault be s arg op \<longleftrightarrow>
     (case operand_split arg of
        None \<Rightarrow> op = arg
      | Some (left, rest) \<Rightarrow>
          \<exists>fresh rt au. resolve_target jw fresh cfg left (target_overrides ov) = Inr rt
            \<and> resolve X jw (rt_host rt) cfg vault be s = Inr au
            \<and> op = format_operand (operand_user rt ov au) (h_host (rt_host rt)) rest)"

text \<open>The loop invariant: dropping the staged artifact gives back the state before the loop, nothing is
staged before the first remote operand, and the endpoints are distinct.\<close>

definition acc_ok :: "os \<Rightarrow> temp_state \<Rightarrow> scp_acc \<Rightarrow> temp_state \<Rightarrow> bool" where
  "acc_ok os st0 acc st \<longleftrightarrow>
     drop_artifact os (sa_artifact acc) st = st0 \<and> distinct (sa_remotes acc)
     \<and> (sa_host acc = None \<longrightarrow> sa_artifact acc = None)"

lemma first_remote_ok:
  assumes "os_removes os" "live_ok st0" "acc_ok os st0 acc st" "first_remote os ov h port au acc st = (r, st1)"
  shows "case r of
      Inl e \<Rightarrow> drop_artifact os (sa_artifact acc) st1 = st0
    | Inr acc1 \<Rightarrow> acc_ok os st0 acc1 st1 \<and> sa_out acc1 = sa_out acc \<and> sa_remotes acc1 = sa_remotes acc
        \<and> sa_host acc1 \<noteq> None"
proof (cases "sa_host acc")
  case (Some h')
  then show ?thesis using assms(3,4) by (auto simp: first_remote_def)
next
  case None
  then have a: "sa_artifact acc = None" "st = st0" "distinct (sa_remotes acc)"
    using assms(3) by (auto simp: acc_ok_def drop_artifact_def)
  show ?thesis
  proof (cases "ra_inline_key au")
    case None': None
    then show ?thesis
      using assms(4) None a by (auto simp: first_remote_def materialize_inline_key_def acc_ok_def drop_artifact_def)
  next
    case (Some mat)
    obtain r1 st2 where w: "key_artifact_write os (im_private mat) (im_certificate mat) st0 = (r1, st2)" by fastforce
    show ?thesis
    proof (cases r1)
      case (Inl e)
      then have "st2 = st0" using key.acquire_err[OF assms(1)] w by simp
      then show ?thesis
        using assms(4) None Some a w Inl
        by (auto simp: first_remote_def materialize_inline_key_def drop_artifact_def Let_def)
    next
      case (Inr art)
      then have "key_artifact_drop os art st2 = st0" using key.release_inverse[OF assms(1,2)] w by simp
      then show ?thesis
        using assms(4) None Some a w Inr
        by (auto simp: first_remote_def materialize_inline_key_def drop_artifact_def Let_def acc_ok_def)
    qed
  qed
qed

lemma scp_remote_ok:
  assumes "os_removes os" "live_ok st0" "acc_ok os st0 acc st" "operand_split arg = Some (left, rest)"
    and "scp_remote X jw os cfg ov vault be s fresh arg left rest acc st = (r, st1)"
  shows "case r of
      Inl e \<Rightarrow> drop_artifact os (sa_artifact acc) st1 = st0
    | Inr acc1 \<Rightarrow> acc_ok os st0 acc1 st1 \<and> sa_host acc1 \<noteq> None
        \<and> (\<exists>op. sa_out acc1 = sa_out acc @ [op] \<and> operand_image X jw cfg ov vault be s arg op)"
proof -
  have d: "drop_artifact os (sa_artifact acc) st = st0" using assms(3) by (simp add: acc_ok_def)
  show ?thesis
  proof (cases "resolve_target jw fresh cfg left (target_overrides ov)")
    case (Inl e)
    then show ?thesis using assms(5) d by (auto simp: scp_remote_def)
  next
    case t: (Inr rt)
    show ?thesis
    proof (cases "resolve X jw (rt_host rt) cfg vault be s")
      case (Inl e)
      then show ?thesis using assms(5) t d by (auto simp: scp_remote_def)
    next
      case (Inr au)
      let ?h = "rt_host rt" and ?op = "format_operand (operand_user rt ov au) (h_host (rt_host rt)) rest"
      let ?port = "opt_or (ov_port ov) (h_port (rt_host rt))"
      obtain r1 st2 where f: "first_remote os ov ?h ?port au (acc\<lparr>sa_out := sa_out acc @ [?op]\<rparr>) st = (r1, st2)"
        by fastforce
      have ok: "acc_ok os st0 (acc\<lparr>sa_out := sa_out acc @ [?op]\<rparr>) st" using assms(3) by (simp add: acc_ok_def)
      have im: "operand_image X jw cfg ov vault be s arg ?op"
        using assms(4) t Inr unfolding operand_image_def by auto
      note first_remote_ok[OF assms(1,2) ok f]
      then show ?thesis
        using assms(5) t Inr f im by (cases r1) (auto simp: scp_remote_def Let_def acc_ok_def split: if_splits)
    qed
  qed
qed

lemma scp_operands_ok:
  assumes "os_removes os" "live_ok st0" "acc_ok os st0 acc st"
    and "scp_operands X jw os cfg ov vault be s fresh args acc st = (r, st1)"
  shows "case r of
      Inl e \<Rightarrow> st1 = st0
    | Inr acc1 \<Rightarrow> acc_ok os st0 acc1 st1
        \<and> (\<exists>ops. sa_out acc1 = sa_out acc @ ops \<and> list_all2 (operand_image X jw cfg ov vault be s) args ops)
        \<and> (sa_host acc1 = None \<longleftrightarrow> sa_host acc = None \<and> list_all (\<lambda>a. operand_split a = None) args)"
  using assms(3,4)
proof (induction args arbitrary: acc st)
  case (Cons arg args)
  show ?case
  proof (cases "operand_split arg")
    case None
    have im: "operand_image X jw cfg ov vault be s arg arg" using None by (simp add: operand_image_def)
    have ok: "acc_ok os st0 (acc\<lparr>sa_out := sa_out acc @ [arg]\<rparr>) st" using Cons.prems(1) by (simp add: acc_ok_def)
    have run: "scp_operands X jw os cfg ov vault be s fresh args (acc\<lparr>sa_out := sa_out acc @ [arg]\<rparr>) st = (r, st1)"
      using Cons.prems(2) None by simp
    show ?thesis using Cons.IH[OF ok run] im None by (cases r) auto
  next
    case (Some lr)
    obtain left rest where lr: "lr = (left, rest)" by fastforce
    obtain r1 st2 where m: "scp_remote X jw os cfg ov vault be s (fresh (length args)) arg left rest acc st = (r1, st2)"
      by fastforce
    note one = scp_remote_ok[OF assms(1,2) Cons.prems(1) Some[unfolded lr] m]
    show ?thesis
    proof (cases r1)
      case (Inl e)
      then show ?thesis using Cons.prems(2) Some lr m one by auto
    next
      case (Inr acc1)
      then have ok: "acc_ok os st0 acc1 st2" and h: "sa_host acc1 \<noteq> None"
        and run: "scp_operands X jw os cfg ov vault be s fresh args acc1 st2 = (r, st1)"
        using one Cons.prems(2) Some lr m by auto
      obtain op where op: "sa_out acc1 = sa_out acc @ [op]" "operand_image X jw cfg ov vault be s arg op"
        using one Inr by auto
      show ?thesis using Cons.IH[OF ok run] h op Some by (cases r) auto
    qed
  qed
qed auto

text \<open>C17: the scp command has one operand for every argument, in order. A local path is passed through
unchanged and a remote operand becomes user, address and the same path, resolved like a connect target;
there is a remote host exactly when some argument is remote; no endpoint is listed twice; dropping the
staged key gives back the state before, and an error leaves no temporary file at all.\<close>

theorem scp_plan_operands:
  assumes "os_removes os" "live_ok st"
    and "scp_build X jw sh os fresh args cfg ov vault be s st = (r, st')"
  shows "case r of
      Inl e \<Rightarrow> st' = st
    | Inr plan \<Rightarrow>
        (\<exists>opts ops. sp_argv plan = [''scp''] @ opts @ ops
           \<and> list_all2 (\<lambda>arg op. case operand_split arg of
                None \<Rightarrow> op = arg
              | Some (left, rest) \<Rightarrow>
                  \<exists>fr rt au. resolve_target jw fr cfg left (target_overrides ov) = Inr rt
                    \<and> resolve X jw (rt_host rt) cfg vault be s = Inr au
                    \<and> op = format_operand (operand_user rt ov au) (h_host (rt_host rt)) rest) args ops)
        \<and> (sp_host plan = None \<longleftrightarrow> list_all (\<lambda>a. operand_split a = None) args)
        \<and> distinct (sp_remote_hosts plan)
        \<and> drop_artifact os (sp_key_artifact plan) st' = st"
proof -
  obtain r1 st1 where o: "scp_operands X jw os cfg ov vault be s fresh args scp_start st = (r1, st1)" by fastforce
  have ok: "acc_ok os st scp_start st" by (simp add: acc_ok_def scp_start_def drop_artifact_def)
  have im: "operand_image X jw cfg ov vault be s = (\<lambda>arg op. case operand_split arg of
                None \<Rightarrow> op = arg
              | Some (left, rest) \<Rightarrow>
                  \<exists>fr rt au. resolve_target jw fr cfg left (target_overrides ov) = Inr rt
                    \<and> resolve X jw (rt_host rt) cfg vault be s = Inr au
                    \<and> op = format_operand (operand_user rt ov au) (h_host (rt_host rt)) rest)"
    by (simp add: operand_image_def fun_eq_iff)
  note run = scp_operands_ok[OF assms(1,2) ok o, unfolded im]
  show ?thesis
  proof (cases r1)
    case (Inl e)
    then show ?thesis using run assms(3) o by (auto simp: scp_build_def)
  next
    case (Inr acc)
    obtain opts where opts: "scp_argv sh acc = [''scp''] @ opts @ sa_out acc"
      unfolding scp_argv_def by (metis append.assoc)
    let ?plan = "\<lparr>sp_argv = scp_argv sh acc, sp_host = sa_host acc, sp_password = sa_password acc,
                sp_remote_hosts = sa_remotes acc, sp_key_artifact = sa_artifact acc\<rparr>"
    have r: "r = Inr ?plan" "st' = st1" using assms(3) o Inr by (simp_all add: scp_build_def)
    have "sa_out scp_start = []" "sa_host scp_start = None" by (simp_all add: scp_start_def)
    then show ?thesis using run[unfolded Inr sum.case] opts unfolding r sum.case acc_ok_def by fastforce
  qed
qed

theorem scp_plan_operands_witness:
  "\<exists>plan. scp_build demo_crates (\<lambda>_ _. 0) (\<lambda>_. None) demo_os (\<lambda>_. ''x'') [''./f'', ''db:/tmp/f''] demo_config
      \<lparr>ov_user = None, ov_port = None, ov_identity = None, ov_credential = None\<rparr> None fake_backend
      (w_backend demo_world) empty_state = (Inr plan, empty_state)
     \<and> sp_argv plan = [''scp'', ''-P'', ''2222'', ''./f'', ''ops@10.0.0.2:/tmp/f''] \<and> distinct (sp_remote_hosts plan)"
proof -
  let ?ov = "\<lparr>ov_user = None, ov_port = None, ov_identity = None, ov_credential = None\<rparr>"
  let ?run = "scp_build demo_crates (\<lambda>_ _. 0) (\<lambda>_. None) demo_os (\<lambda>_. ''x'') [''./f'', ''db:/tmp/f''] demo_config
      ?ov None fake_backend (w_backend demo_world) empty_state"
  have k: "case fst ?run of Inr p \<Rightarrow> sp_argv p = [''scp'', ''-P'', ''2222'', ''./f'', ''ops@10.0.0.2:/tmp/f'']
      \<and> sp_key_artifact p = None | Inl _ \<Rightarrow> False" by code_simp
  then obtain plan st' where r: "?run = (Inr plan, st')" by (cases ?run; cases "fst ?run") auto
  have l: "live_ok empty_state" by (simp add: live_ok_def empty_state_def)
  show ?thesis
    using scp_plan_operands[OF demo_os_removes l r] r k by (auto simp: drop_artifact_def)
qed

section \<open>Reading an operand back\<close>

lemma starts_with_append_self [simp]: "starts_with p (p @ r)"
  by (auto simp: starts_with_iff)

lemma find_sub_None_append:
  assumes "find_sub [a, b] t = None" "a \<notin> set s"
  shows "find_sub [a, b] (s @ t) = None"
  using assms by (induction s) (auto simp: starts_with_def)

lemma find_sub_here: "a \<notin> set s \<Longrightarrow> find_sub [a, b] (s @ a # b # t) = Some (s, a # b # t)"
  by (induction s) (auto simp: starts_with_def)

text \<open>A rewritten operand means what it says. Splitting the operand handed to scp at the place the
program itself splits one gives back the path and the user with the address, whatever colons the address
contains, and that pair resolves to the same user and address again.\<close>

theorem scp_operand_roundtrip:
  assumes "CHR '':'' \<notin> set user" "CHR ''@'' \<notin> set user" "\<not> starts_with ''['' user" "user \<noteq> []"
    and "CHR '']'' \<notin> set address" "CHR ''['' \<notin> set address" "CHR ''@'' \<notin> set address" "address \<noteq> []"
    and "find_sub ''@['' rest = None"
  shows "\<exists>tok. operand_split (format_operand user address rest) = Some (user @ ''@'' @ tok, rest)
    \<and> rsplit_once (CHR ''@'') (user @ ''@'' @ tok) = Some (user, tok) \<and> unbracket tok = address"
proof (cases "CHR '':'' \<in> set address")
  case True
  have f: "find_sub ''@['' (user @ ''@['' @ address @ '']:'' @ rest) = Some (user, ''@['' @ address @ '']:'' @ rest)"
    using find_sub_here[of "CHR ''@''" user "CHR ''[''" "address @ '']:'' @ rest"] assms(2) by simp
  have sp: "split_once (CHR '']'') (''@['' @ address @ '']:'' @ rest) = Some (''@['' @ address, '':'' @ rest)"
    using split_once_append[of "CHR '']''" "''@['' @ address" "'':'' @ rest"] assms(5) by simp
  have "bracketed_user_split (user @ ''@['' @ address @ '']:'' @ rest) = Some (user @ ''@['' @ address @ '']'', rest)"
    unfolding bracketed_user_split_def f by (simp del: append_Cons add: sp)
  then have "operand_split (format_operand user address rest) = Some (user @ ''@'' @ (''['' @ address @ '']''), rest)"
    using True by (simp add: operand_split_def format_operand_def host_token_def)
  moreover have "rsplit_once (CHR ''@'') (user @ ''@'' @ (''['' @ address @ '']'')) = Some (user, ''['' @ address @ '']'')"
    using rsplit_once_append[of "CHR ''@''" "''['' @ address @ '']''" user] assms(7) by simp
  moreover have "unbracket (''['' @ address @ '']'') = address"
    by (simp add: unbracket_def strip_suffix_char_def opt_or_def)
  ultimately show ?thesis by blast
next
  case False
  have "find_sub ''@['' (address @ '':'' @ rest) = None"
  proof -
    have "find_sub ''@['' ('':'' @ rest) = None" using assms(9) by (simp add: starts_with_def)
    then show ?thesis by (rule find_sub_None_append) (use assms(7) in auto)
  qed
  moreover have "hd (address @ '':'' @ rest) \<noteq> CHR ''[''" using assms(6,8) by (cases address) auto
  ultimately have "find_sub ''@['' (''@'' @ address @ '':'' @ rest) = None"
    using assms(8) by (cases address) (auto simp: starts_with_def)
  then have f: "find_sub ''@['' (user @ ''@'' @ address @ '':'' @ rest) = None"
    by (rule find_sub_None_append) (use assms(2) in auto)
  have b: "strip_prefix ''['' (user @ ''@'' @ address @ '':'' @ rest) = None"
    using assms(3,4) by (cases user) (auto simp: starts_with_def)
  have sp: "split_once (CHR '':'') (user @ ''@'' @ address @ '':'' @ rest) = Some (user @ ''@'' @ address, rest)"
    using split_once_append[of "CHR '':''" "user @ ''@'' @ address" rest] False assms(1) by simp
  have "operand_split (format_operand user address rest) = Some (user @ ''@'' @ address, rest)"
    unfolding operand_split_def format_operand_def host_token_def bracketed_user_split_def
    using False f b sp by simp
  moreover have "rsplit_once (CHR ''@'') (user @ ''@'' @ address) = Some (user, address)"
    using rsplit_once_append[of "CHR ''@''" address user] assms(7) by simp
  moreover have "unbracket address = address"
    using assms(6) by (cases address) (auto simp: unbracket_def opt_or_def split: option.splits if_splits)
  ultimately show ?thesis by blast
qed

theorem scp_operand_roundtrip_witness:
  "operand_split (format_operand ''root'' ''fe80::1'' ''/a:b'') = Some (''root@[fe80::1]'', ''/a:b'')
   \<and> unbracket ''[fe80::1]'' = ''fe80::1''"
proof -
  obtain tok where t: "operand_split (format_operand ''root'' ''fe80::1'' ''/a:b'') = Some (''root'' @ ''@'' @ tok, ''/a:b'')"
    "unbracket tok = ''fe80::1''"
    using scp_operand_roundtrip[of "''root''" "''fe80::1''" "''/a:b''"] by (auto simp: starts_with_def)
  have "operand_split (format_operand ''root'' ''fe80::1'' ''/a:b'') = Some (''root@[fe80::1]'', ''/a:b'')"
    by code_simp
  then have "tok = ''[fe80::1]''" using t(1) by simp
  then show ?thesis using t by simp
qed

end
