(* ===== verification/Target.thy ===== *)
theory Target
  imports Connect_Files Manage
begin

text \<open>Properties of the connect target table (\<^verbatim>\<open>host::resolve_target\<close>) and of the ssh arguments
between saving and connecting.\<close>

section \<open>The decision table\<close>

lemma host_port_of_Some:
  "host_port_of s = Some (a, p) \<Longrightarrow> is_address_literal a \<and> p < 2 ^ 16 \<and> (\<exists>d. s = a @ '':'' @ d)"
  by (auto simp: host_port_of_def parse_unsigned_def Let_def split: option.splits if_splits prod.splits
      dest: rsplit_once_Some)

lemma rsplit_at_None: "rsplit_once (CHR ''@'') s = None \<longleftrightarrow> CHR ''@'' \<notin> set s"
  by (rule rsplit_once_None)

text \<open>C9: a connect target is understood in exactly one way. A result that is not ephemeral is an entry of
the configuration, found under the whole target or under the part after the last at sign, with at most its
authentication replaced; an ephemeral one is an address that no entry is named after, under the fresh id
and never a bare word: either a user was written before it or it is an address literal with a user or
credential given. A refusal names its reason, and a configured name is never refused.\<close>

theorem resolve_target_decides:
  "case resolve_target jw fresh cfg target ov of
     Inr rt \<Rightarrow>
       (if rt_ephemeral rt
        then find_host_by_name cfg target = None \<and> find_host_by_name cfg (h_host (rt_host rt)) = None
          \<and> h_id (rt_host rt) = fresh \<and> h_port (rt_host rt) = opt_or (ro_port ov) 22
          \<and> (case rt_target_user rt of
               Some user \<Rightarrow> user \<noteq> [] \<and> (\<exists>part. target = user @ ''@'' @ part \<and> CHR ''@'' \<notin> set part
                  \<and> h_host (rt_host rt) = unbracket part)
             | None \<Rightarrow> CHR ''@'' \<notin> set target \<and> is_address_literal target \<and> h_host (rt_host rt) = target
                 \<and> \<not> (ro_credential ov = None \<and> ro_user ov = None))
        else \<exists>h name. find_host_by_name cfg name = Some h
          \<and> rt_host rt = (case ro_credential ov of Some c \<Rightarrow> h\<lparr>h_auth := AuthRef c\<rparr> | None \<Rightarrow> h)
          \<and> (case rt_target_user rt of
               None \<Rightarrow> name = target
             | Some user \<Rightarrow> user \<noteq> [] \<and> find_host_by_name cfg target = None
                 \<and> (\<exists>part. target = user @ ''@'' @ part \<and> CHR ''@'' \<notin> set part \<and> name = unbracket part)))
   | Inl e \<Rightarrow> find_host_by_name cfg target = None \<and>
       (case e of
          HostNotFound n _ \<Rightarrow> n = target \<and> CHR ''@'' \<notin> set target \<and> \<not> is_address_literal target
        | AddressNeedsUser a \<Rightarrow> a = target \<and> is_address_literal target \<and> ro_credential ov = None \<and> ro_user ov = None
        | TargetHasPort a p \<Rightarrow> is_address_literal a \<and> p < 2 ^ 16
        | InvalidTarget t _ \<Rightarrow> t = target \<and> (\<exists>user part. target = user @ ''@'' @ part \<and> (user = [] \<or> part = []))
        | _ \<Rightarrow> False)"
proof (cases "find_host_by_name cfg target")
  case (Some h)
  then show ?thesis by (auto simp: resolve_target_def with_overrides_def)
next
  case none: None
  show ?thesis
  proof (cases "rsplit_once (CHR ''@'') target")
    case (Some up)
    obtain user part where up: "up = (user, part)" by fastforce
    have t: "target = user @ ''@'' @ part" "CHR ''@'' \<notin> set part"
      using rsplit_once_Some[of "CHR ''@''" target user part] Some up by auto
    show ?thesis
    proof (cases "user = [] \<or> part = []")
      case True
      then show ?thesis using none Some up t by (auto simp: resolve_target_def)
    next
      case False
      show ?thesis
      proof (cases "host_port_of (unbracket part)")
        case None
        then show ?thesis
          using none Some up t False
          by (cases "find_host_by_name cfg (unbracket part)")
             (auto simp: resolve_target_def Let_def with_overrides_def address_host_def HOST_DEFAULT_PORT_def)
      next
        case (Some ap)
        then show ?thesis
          using none \<open>rsplit_once _ target = Some up\<close> up False host_port_of_Some[of "unbracket part"]
          by (cases ap) (auto simp: resolve_target_def Let_def)
      qed
    qed
  next
    case None
    show ?thesis
    proof (cases "host_port_of target")
      case (Some ap)
      then show ?thesis
        using none None host_port_of_Some[of target] by (cases ap) (auto simp: resolve_target_def)
    next
      case n: None
      then show ?thesis
        using none None rsplit_at_None[of target]
        by (cases "is_address_literal target"; cases "ro_credential ov"; cases "ro_user ov")
           (auto simp: resolve_target_def address_auth_def address_host_def HOST_DEFAULT_PORT_def host_not_found_def)
    qed
  qed
qed

section \<open>Arguments that vanish\<close>

text \<open>Ssh arguments can pass the check and still be dropped. The raw text is validated but the trimmed
one is stored; when trimming removes a space that a backslash protected, the stored text no longer splits,
and the connection silently runs without any of the arguments.\<close>

theorem saved_ssh_args_may_vanish:
  assumes "validate_name_chars name = Inr ()" "validate_ssh_args sh raw = Inr ()"
    and "trim raw \<noteq> []" "sh (trim raw) = None"
  shows "\<exists>cfg' h. add_host sh cfg u name addr port (Some raw) au = Inr cfg' \<and> h \<in> set (hosts cfg')
    \<and> h_name h = name \<and> h_ssh_args h = Some (trim raw)
    \<and> connect_opts sh r h ov = connect_opts sh r (h\<lparr>h_ssh_args := None\<rparr>) ov"
proof -
  let ?h = "\<lparr>h_id = u, h_name = name, h_host = addr, h_port = port, h_ssh_args = Some (trim raw), h_auth = au\<rparr>"
  let ?cfg = "cfg\<lparr>hosts := hosts cfg @ [?h]\<rparr>"
  have "add_host sh cfg u name addr port (Some raw) au = Inr ?cfg"
    using assms by (simp add: add_host_def check_ssh_args_def normalize_ssh_args_def)
  moreover have "connect_opts sh r ?h ov = connect_opts sh r (?h\<lparr>h_ssh_args := None\<rparr>) ov"
    using assms(4) by (simp add: connect_opts_def ssh_args_tokens_def)
  ultimately show ?thesis by (intro exI[of _ ?cfg] exI[of _ ?h]) simp
qed

definition escaped_space_args :: string where
  "escaped_space_args = ''-o RemoteCommand=ls'' @ [CHR 0x5C, CHR '' '']"

theorem saved_ssh_args_may_vanish_witness:
  "let sh = (\<lambda>s. if s = escaped_space_args then Some [''-o'', ''RemoteCommand=ls ''] else None);
       au = AuthInline (body_new ''root'')
   in \<exists>cfg' h. add_host sh demo_config (demo_ids ! 3) ''n'' ''a'' 22 (Some escaped_space_args) au = Inr cfg'
     \<and> h \<in> set (hosts cfg') \<and> h_ssh_args h = Some (''-o RemoteCommand=ls'' @ [CHR 0x5C])
     \<and> ssh_args_tokens sh escaped_space_args = [''-o'', ''RemoteCommand=ls '']"
proof -
  let ?sh = "\<lambda>s. if s = escaped_space_args then Some [''-o'', ''RemoteCommand=ls ''] else None"
  have v: "validate_name_chars ''n'' = Inr ()" "validate_ssh_args ?sh escaped_space_args = Inr ()"
    "trim escaped_space_args \<noteq> []" "?sh (trim escaped_space_args) = None" by code_simp+
  have t: "trim escaped_space_args = ''-o RemoteCommand=ls'' @ [CHR 0x5C]" by code_simp
  obtain cfg' h where "add_host ?sh demo_config (demo_ids ! 3) ''n'' ''a'' 22 (Some escaped_space_args)
      (AuthInline (body_new ''root'')) = Inr cfg'" "h \<in> set (hosts cfg')" "h_ssh_args h = Some (trim escaped_space_args)"
    using saved_ssh_args_may_vanish[OF v, where cfg = demo_config and u = "demo_ids ! 3" and addr = "''a''"
        and port = 22 and au = "AuthInline (body_new ''root'')"] by blast
  then show ?thesis unfolding Let_def t by (intro exI[of _ cfg'] exI[of _ h]) (simp add: ssh_args_tokens_def)
qed

end
