(* ===== verification/Prompt.thy ===== *)
theory Prompt
  imports Vault
begin

text \<open>Prompts on a terminal (\<^verbatim>\<open>cli/prompt.rs\<close>): the yes/no questions, the host-key question,
the passphrase prompts and the choice of the passphrase provider.  What a human types is a list of the
results of the reads, consumed from the front; an empty line is the end of the input.\<close>

record terminal =
  t_stdin :: bool
  t_stderr :: bool
  t_lines :: "(io_error + string) list"
  t_secrets :: "(io_error + string) list"

definition is_tty_pair :: "bool \<Rightarrow> bool \<Rightarrow> bool" where
  "is_tty_pair stdin_tty stderr_tty \<longleftrightarrow> stdin_tty \<and> stderr_tty"

definition has_tty :: "terminal \<Rightarrow> bool" where
  "has_tty t = is_tty_pair (t_stdin t) (t_stderr t)"

definition to_ascii_lowercase :: "string \<Rightarrow> string" where
  "to_ascii_lowercase = map (\<lambda>c. let n = of_char c :: nat in if 65 \<le> n \<and> n \<le> 90 then char_of (n + 32) else c)"

definition parse_yes_no :: "string \<Rightarrow> bool" where
  "parse_yes_no line \<longleftrightarrow> (let a = to_ascii_lowercase (trim line) in a = ''y'' \<or> a = ''yes'')"

text \<open>One line of standard input; the end of the input is the empty string.\<close>

definition read_line :: "terminal \<Rightarrow> (io_error + string) \<times> terminal" where
  "read_line t = (case t_lines t of [] \<Rightarrow> (Inr [], t) | l # ls \<Rightarrow> (l, t\<lparr>t_lines := ls\<rparr>))"

definition read_answer :: "terminal \<Rightarrow> bool \<times> terminal" where
  "read_answer t =
     (case read_line t of
        (Inl _, t') \<Rightarrow> (False, t')
      | (Inr line, t') \<Rightarrow> (if line = [] then False else parse_yes_no line, t'))"

definition prompt_yes_no_with :: "bool \<Rightarrow> terminal \<Rightarrow> bool \<times> terminal" where
  "prompt_yes_no_with tty t = (if \<not> tty then (False, t) else read_answer t)"

definition prompt_yes_no :: "terminal \<Rightarrow> bool \<times> terminal" where
  "prompt_yes_no t = prompt_yes_no_with (has_tty t) t"

definition tty_confirm :: "terminal \<Rightarrow> bool \<times> terminal" where
  "tty_confirm t = prompt_yes_no t"

definition split_inline_question :: "string \<Rightarrow> string \<times> string" where
  "split_inline_question message =
     (let (body, question) = (case rsplit_once (CHR 0x0A) message of Some (b, q) \<Rightarrow> (b, q) | None \<Rightarrow> ([], message));
          trimmed = trim question;
          stem = (if trimmed \<noteq> [] \<and> last trimmed = CHR ''?'' then butlast trimmed else trimmed)
      in (body, stem @ '' (yes/no)? ''))"

text \<open>The text printed and the answer of the host-key question.\<close>

definition prompt_host_key_with :: "bool \<Rightarrow> string \<Rightarrow> terminal \<Rightarrow> string \<times> bool \<times> terminal" where
  "prompt_host_key_with tty message t =
     (if \<not> tty then ([], False, t)
      else
        (let (body, question) = split_inline_question message;
             (answer, t') = read_answer t
         in ((if body \<noteq> [] then body @ [CHR 0x0A] else []) @ question @ [CHR 0x0A], answer, t')))"

definition prompt_host_key :: "string \<Rightarrow> terminal \<Rightarrow> string \<times> bool \<times> terminal" where
  "prompt_host_key message t = prompt_host_key_with (has_tty t) message t"

section \<open>Passphrases\<close>

definition prompt_passphrase :: "terminal \<Rightarrow> string \<times> terminal" where
  "prompt_passphrase t =
     (case t_secrets t of
        [] \<Rightarrow> ([], t)
      | r # rs \<Rightarrow> (case r of Inl _ \<Rightarrow> [] | Inr p \<Rightarrow> p, t\<lparr>t_secrets := rs\<rparr>))"

fun passphrase_attempts :: "nat \<Rightarrow> terminal \<Rightarrow> (sshrack_error + string) \<times> terminal" where
  "passphrase_attempts 0 t = (Inl Interrupted, t)"
| "passphrase_attempts (Suc n) t =
     (let (a, t1) = prompt_passphrase t; (b, t2) = prompt_passphrase t1
      in if a \<noteq> [] \<and> a = b then (Inr a, t2) else passphrase_attempts n t2)"

definition prompt_passphrase_confirm :: "terminal \<Rightarrow> (sshrack_error + string) \<times> terminal" where
  "prompt_passphrase_confirm t = passphrase_attempts 3 t"

text \<open>The answers the provider gives when the terminal is asked now.\<close>

definition tty_passphrase :: "terminal \<Rightarrow> passphrase_provider" where
  "tty_passphrase t =
     \<lparr>pp_passphrase = Inr (fst (prompt_passphrase t)),
      pp_passphrase_confirm = fst (prompt_passphrase_confirm t),
      pp_confirm = (\<lambda>_. Inr (fst (prompt_yes_no t)))\<rparr>"

definition env_passphrase :: "string option \<Rightarrow> passphrase_provider" where
  "env_passphrase env =
     \<lparr>pp_passphrase = ok_or Interrupted (passphrase_from env),
      pp_passphrase_confirm = ok_or Interrupted (passphrase_from env),
      pp_confirm = (\<lambda>_. Inr False)\<rparr>"

definition passphrase_provider_for :: "string option \<Rightarrow> terminal \<Rightarrow> passphrase_provider" where
  "passphrase_provider_for env t = (if has_tty t then tty_passphrase t else env_passphrase env)"

text \<open>A confirmed passphrase is never empty and was typed twice, and at most six entries are read.\<close>

lemma passphrase_attempts_sound:
  assumes "passphrase_attempts n t = (r, t')"
  shows "(\<forall>p. r = Inr p \<longrightarrow> p \<noteq> [] \<and> Inr p \<in> set (t_secrets t))
    \<and> length (t_secrets t) \<le> length (t_secrets t') + 2 * n"
  using assms
proof (induction n t arbitrary: r t' rule: passphrase_attempts.induct)
  case (2 n t)
  obtain a t1 where a: "prompt_passphrase t = (a, t1)" by fastforce
  obtain b t2 where b: "prompt_passphrase t1 = (b, t2)" by fastforce
  have s: "set (t_secrets t2) \<subseteq> set (t_secrets t)" "length (t_secrets t) \<le> length (t_secrets t2) + 2"
    "a \<noteq> [] \<Longrightarrow> Inr a \<in> set (t_secrets t)"
    using a b by (auto simp: prompt_passphrase_def split: list.splits sum.splits)
  show ?case
  proof (cases "a \<noteq> [] \<and> a = b")
    case True
    then show ?thesis using 2(2) a b s by auto
  next
    case False
    then have "passphrase_attempts n t2 = (r, t')" using 2(2) a b by auto
    from 2(1)[OF a[symmetric] refl b[symmetric] refl False this] show ?thesis using s by auto
  qed
qed simp

end
