(* ===== verification/Store_Cmd.thy ===== *)
theory Store_Cmd
  imports Vault Config_Store
begin

text \<open>The \<^verbatim>\<open>store\<close> command (\<^verbatim>\<open>cli/cmd/store.rs\<close>) with the loading, saving and unlocking it
shares with the other commands (\<^verbatim>\<open>cli/cmd/shared.rs\<close>): switching the storage mode, rekeying,
locking, unlocking and setting the cache lifetime.  A command returns its exit code; what it prints is not
modelled, except the status report.\<close>

section \<open>Exit codes\<close>

definition EXIT_SUCCESS :: int where "EXIT_SUCCESS = 0"
definition EXIT_USAGE :: int where "EXIT_USAGE = 2"
definition EXIT_NOT_FOUND :: int where "EXIT_NOT_FOUND = 4"
definition EXIT_DUPLICATE :: int where "EXIT_DUPLICATE = 5"
definition EXIT_VALIDATION :: int where "EXIT_VALIDATION = 6"
definition EXIT_CONNECT :: int where "EXIT_CONNECT = 7"
definition EXIT_STORE :: int where "EXIT_STORE = 8"
definition EXIT_INTERRUPTED :: int where "EXIT_INTERRUPTED = 130"

lemmas exit_codes = EXIT_SUCCESS_def EXIT_USAGE_def EXIT_NOT_FOUND_def EXIT_DUPLICATE_def
  EXIT_VALIDATION_def EXIT_CONNECT_def EXIT_STORE_def EXIT_INTERRUPTED_def

section \<open>The environment and the state of a command\<close>

record cli_env =
  ce_config :: "string option"
  ce_default_config :: "string option"
  ce_toml :: toml
  ce_os :: os
  ce_vault :: vault_env
  ce_passphrase_env :: "string option"
  ce_provider :: passphrase_provider
  ce_confirm :: bool

record 'b cli_state =
  cs_world :: "'b world"
  cs_files :: files

definition load_config :: "cli_env \<Rightarrow> files \<Rightarrow> int + (string \<times> sshrack_config)" where
  "load_config env fs =
     (case resolve_config_path (ce_default_config env) (ce_config env) of
        None \<Rightarrow> Inr (''config.toml'', default_config)
      | Some p \<Rightarrow>
          (case config_load (ce_toml env) p fs of
             Inl _ \<Rightarrow> Inl EXIT_USAGE
           | Inr cfg \<Rightarrow> Inr (p, cfg)))"

definition save_config :: "cli_env \<Rightarrow> string \<Rightarrow> sshrack_config \<Rightarrow> files \<Rightarrow> (int + unit) \<times> files" where
  "save_config env path cfg fs =
     (case config_save (ce_toml env) (ce_os env) path cfg fs of
        (Inl _, fs') \<Rightarrow> (Inl EXIT_USAGE, fs')
      | (Inr _, fs') \<Rightarrow> (Inr (), fs'))"

definition unlock_vault_key ::
  "crates \<Rightarrow> cli_env \<Rightarrow> sshrack_config \<Rightarrow> 'b world \<Rightarrow> (int + vault_key option) \<times> 'b world" where
  "unlock_vault_key X env cfg w =
     (case ensure_unlocked_vault_key X (ce_vault env) cfg (passphrase_from (ce_passphrase_env env))
             (ce_provider env) w of
        (Inl _, w') \<Rightarrow> (Inl EXIT_STORE, w')
      | (Inr k, w') \<Rightarrow> (Inr k, w'))"

definition clear_default_cache :: "vault_env \<Rightarrow> 'b world \<Rightarrow> 'b world" where
  "clear_default_cache ve w =
     (case ve_default_cache ve of Some p \<Rightarrow> snd (clear_cache (ve_fails ve) p w) | None \<Rightarrow> w)"

definition probe_backend :: "'b backend \<Rightarrow> 'b world \<Rightarrow> bool \<times> 'b world" where
  "probe_backend be w = (case bk_available be (w_backend w) of (ok, b) \<Rightarrow> (ok, w\<lparr>w_backend := b\<rparr>))"

section \<open>Switching the storage mode\<close>

datatype store_mode = ModePlaintext | ModeVault | ModeKeyring

datatype switch = AlreadyThere | SwitchMigrate bool

definition classify :: "sshrack_config \<Rightarrow> store_mode \<Rightarrow> switch" where
  "classify cfg mode =
     (if (case mode of ModePlaintext \<Rightarrow> is_plaintext cfg | ModeVault \<Rightarrow> is_vault cfg
                     | ModeKeyring \<Rightarrow> is_keyring cfg)
      then AlreadyThere
      else SwitchMigrate (is_vault cfg \<and> mode \<noteq> ModeVault))"

text \<open>The migration of the loaded configuration and the save after it.\<close>

definition migrate_and_save ::
  "crates \<Rightarrow> 'b backend \<Rightarrow> cli_env \<Rightarrow> secret_store \<Rightarrow> vault_key option \<Rightarrow> sshrack_config \<Rightarrow> string \<Rightarrow>
   'b cli_state \<Rightarrow> int \<times> 'b cli_state" where
  "migrate_and_save X be env target source_key cfg path st =
     (case migrate X be target source_key None cfg (cs_world st) of
        (Inl _, _, w) \<Rightarrow> (EXIT_STORE, st\<lparr>cs_world := w\<rparr>)
      | (Inr _, cfg', w) \<Rightarrow>
          (case save_config env path (cfg'\<lparr>store := Some target\<rparr>) (cs_files st) of
             (Inl code, fs) \<Rightarrow> (code, \<lparr>cs_world = w, cs_files = fs\<rparr>)
           | (Inr _, fs) \<Rightarrow> (EXIT_SUCCESS, \<lparr>cs_world = w, cs_files = fs\<rparr>)))"

text \<open>The key of the vault that is left, when one is.\<close>

definition source_key_for ::
  "crates \<Rightarrow> cli_env \<Rightarrow> sshrack_config \<Rightarrow> store_mode \<Rightarrow> 'b world \<Rightarrow> (int + vault_key option) \<times> 'b world" where
  "source_key_for X env cfg mode w =
     (if classify cfg mode = SwitchMigrate True then unlock_vault_key X env cfg w else (Inr None, w))"

definition switch_to_keyring ::
  "crates \<Rightarrow> 'b backend \<Rightarrow> cli_env \<Rightarrow> sshrack_config \<Rightarrow> string \<Rightarrow> 'b cli_state \<Rightarrow> int \<times> 'b cli_state" where
  "switch_to_keyring X be env cfg path st =
     (if classify cfg ModeKeyring = AlreadyThere then (EXIT_SUCCESS, st)
      else
        (let w1 = clear_default_cache (ce_vault env) (cs_world st);
             (ok, w2) = probe_backend be w1
         in if \<not> ok then (EXIT_STORE, st\<lparr>cs_world := w2\<rparr>)
            else case source_key_for X env cfg ModeKeyring w2 of
              (Inl code, w3) \<Rightarrow> (code, st\<lparr>cs_world := w3\<rparr>)
            | (Inr sk, w3) \<Rightarrow> migrate_and_save X be env StoreKeyring sk cfg path (st\<lparr>cs_world := w3\<rparr>)))"

definition new_passphrase :: "cli_env \<Rightarrow> sshrack_error + string" where
  "new_passphrase env =
     (case passphrase_from (ce_passphrase_env env) of
        Some p \<Rightarrow> Inr p
      | None \<Rightarrow> pp_passphrase_confirm (ce_provider env))"

text \<open>Enabling the vault and the save after it.\<close>

definition enable_and_save ::
  "crates \<Rightarrow> 'b backend \<Rightarrow> cli_env \<Rightarrow> string \<Rightarrow> 64 word option \<Rightarrow> sshrack_config \<Rightarrow> string \<Rightarrow>
   'b cli_state \<Rightarrow> int \<times> 'b cli_state" where
  "enable_and_save X be env passphrase ttl cfg path st =
     (case enable X be passphrase ttl cfg (cs_world st) of
        (Inl _, _, w) \<Rightarrow> (EXIT_STORE, st\<lparr>cs_world := w\<rparr>)
      | (Inr _, cfg', w) \<Rightarrow>
          (case save_config env path cfg' (cs_files st) of
             (Inl code, fs) \<Rightarrow> (code, \<lparr>cs_world = w, cs_files = fs\<rparr>)
           | (Inr _, fs) \<Rightarrow> (EXIT_SUCCESS, \<lparr>cs_world = w, cs_files = fs\<rparr>)))"

definition switch_to_vault ::
  "crates \<Rightarrow> 'b backend \<Rightarrow> cli_env \<Rightarrow> 64 word option \<Rightarrow> sshrack_config \<Rightarrow> string \<Rightarrow> 'b cli_state \<Rightarrow>
   int \<times> 'b cli_state" where
  "switch_to_vault X be env ttl cfg path st =
     (if classify cfg ModeVault = AlreadyThere then (EXIT_SUCCESS, st)
      else
        (let (ok, w1) = (if is_keyring cfg then probe_backend be (cs_world st) else (True, cs_world st))
         in if \<not> ok then (EXIT_STORE, st\<lparr>cs_world := w1\<rparr>)
            else
              (let w2 = clear_default_cache (ce_vault env) w1
               in case new_passphrase env of
                    Inl _ \<Rightarrow> (EXIT_STORE, st\<lparr>cs_world := w2\<rparr>)
                  | Inr p \<Rightarrow> enable_and_save X be env p ttl cfg path (st\<lparr>cs_world := w2\<rparr>))))"

definition switch_to_plaintext ::
  "crates \<Rightarrow> 'b backend \<Rightarrow> cli_env \<Rightarrow> bool \<Rightarrow> sshrack_config \<Rightarrow> string \<Rightarrow> 'b cli_state \<Rightarrow> int \<times> 'b cli_state" where
  "switch_to_plaintext X be env yes cfg path st =
     (if classify cfg ModePlaintext = AlreadyThere then (EXIT_SUCCESS, st)
      else if \<not> (yes \<or> ce_confirm env) then (EXIT_USAGE, st)
      else
        (case source_key_for X env cfg ModePlaintext (clear_default_cache (ce_vault env) (cs_world st)) of
           (Inl code, w1) \<Rightarrow> (code, st\<lparr>cs_world := w1\<rparr>)
         | (Inr sk, w1) \<Rightarrow>
             (let (ok, w2) = (if is_keyring cfg then probe_backend be w1 else (True, w1))
              in if \<not> ok then (EXIT_STORE, st\<lparr>cs_world := w2\<rparr>)
                 else migrate_and_save X be env StorePlaintext sk cfg path (st\<lparr>cs_world := w2\<rparr>))))"

definition use_mode ::
  "crates \<Rightarrow> 'b backend \<Rightarrow> cli_env \<Rightarrow> store_mode \<Rightarrow> 64 word option \<Rightarrow> bool \<Rightarrow> 'b cli_state \<Rightarrow> int \<times> 'b cli_state" where
  "use_mode X be env mode ttl yes st =
     (case load_config env (cs_files st) of
        Inl code \<Rightarrow> (code, st)
      | Inr (path, cfg) \<Rightarrow>
          (case mode of
             ModeKeyring \<Rightarrow> switch_to_keyring X be env cfg path st
           | ModeVault \<Rightarrow> switch_to_vault X be env ttl cfg path st
           | ModePlaintext \<Rightarrow> switch_to_plaintext X be env yes cfg path st))"

section \<open>Rekey, lock, unlock and the vault fields\<close>

definition rekey :: "crates \<Rightarrow> 'b backend \<Rightarrow> cli_env \<Rightarrow> 'b cli_state \<Rightarrow> int \<times> 'b cli_state" where
  "rekey X be env st =
     (case load_config env (cs_files st) of
        Inl code \<Rightarrow> (code, st)
      | Inr (path, cfg) \<Rightarrow>
          (let w1 = clear_default_cache (ce_vault env) (cs_world st); st1 = st\<lparr>cs_world := w1\<rparr>
           in if \<not> is_vault cfg then (EXIT_STORE, st1)
              else case ensure_unlocked_vault_key X (ce_vault env) cfg (passphrase_from (ce_passphrase_env env))
                          (ce_provider env) w1 of
                (Inl e, w2) \<Rightarrow> (if e = Interrupted then EXIT_INTERRUPTED else EXIT_STORE, st1\<lparr>cs_world := w2\<rparr>)
              | (Inr None, w2) \<Rightarrow> (EXIT_STORE, st1\<lparr>cs_world := w2\<rparr>)
              | (Inr (Some old_key), w2) \<Rightarrow>
                  (case decrypt_all X old_key cfg of
                     (Inl _, _) \<Rightarrow> (EXIT_STORE, st1\<lparr>cs_world := w2\<rparr>)
                   | (Inr _, cfg1) \<Rightarrow>
                       (case new_passphrase env of
                          Inl _ \<Rightarrow> (EXIT_STORE, st1\<lparr>cs_world := w2\<rparr>)
                        | Inr p \<Rightarrow>
                            enable_and_save X be env p (map_option cache_ttl_secs (vault_meta_of cfg))
                              (cfg1\<lparr>store := None\<rparr>) path (st1\<lparr>cs_world := w2\<rparr>)))))"

definition lock_cmd :: "cli_env \<Rightarrow> 'b cli_state \<Rightarrow> int \<times> 'b cli_state" where
  "lock_cmd env st =
     (case load_config env (cs_files st) of
        Inl code \<Rightarrow> (code, st)
      | Inr (_, cfg) \<Rightarrow>
          if \<not> is_vault cfg then (EXIT_STORE, st)
          else (EXIT_SUCCESS, st\<lparr>cs_world := clear_default_cache (ce_vault env) (cs_world st)\<rparr>))"

definition unlock_cmd :: "crates \<Rightarrow> cli_env \<Rightarrow> 'b cli_state \<Rightarrow> int \<times> 'b cli_state" where
  "unlock_cmd X env st =
     (case load_config env (cs_files st) of
        Inl code \<Rightarrow> (code, st)
      | Inr (_, cfg) \<Rightarrow>
          if \<not> is_vault cfg then (EXIT_STORE, st)
          else case ensure_unlocked_vault_key X (ce_vault env) cfg (passphrase_from (ce_passphrase_env env))
                      (ce_provider env) (cs_world st) of
            (Inr _, w) \<Rightarrow> (EXIT_SUCCESS, st\<lparr>cs_world := w\<rparr>)
          | (Inl e, w) \<Rightarrow> (if e = Interrupted then EXIT_INTERRUPTED else EXIT_STORE, st\<lparr>cs_world := w\<rparr>))"

definition CACHE_TTL_FIELD :: string where
  "CACHE_TTL_FIELD = ''cache-ttl-secs''"

text \<open>\<^verbatim>\<open>config_get\<close> returns what it prints, or its exit code.\<close>

definition config_get :: "sshrack_config \<Rightarrow> string \<Rightarrow> int + string" where
  "config_get cfg field =
     (if field \<noteq> CACHE_TTL_FIELD then Inl EXIT_VALIDATION
      else case vault_meta_of cfg of
        None \<Rightarrow> Inl EXIT_STORE
      | Some meta \<Rightarrow> Inr (show_nat (unat (cache_ttl_secs meta))))"

definition set_vault_ttl :: "64 word \<Rightarrow> sshrack_config \<Rightarrow> sshrack_config option" where
  "set_vault_ttl secs cfg =
     (case store cfg of
        Some (StoreVault meta) \<Rightarrow> Some (cfg\<lparr>store := Some (StoreVault (meta\<lparr>cache_ttl_secs := secs\<rparr>))\<rparr>)
      | _ \<Rightarrow> None)"

definition config_set ::
  "cli_env \<Rightarrow> sshrack_config \<Rightarrow> string \<Rightarrow> string \<Rightarrow> string \<Rightarrow> files \<Rightarrow> int \<times> files" where
  "config_set env cfg path field value fs =
     (if field \<noteq> CACHE_TTL_FIELD then (EXIT_VALIDATION, fs)
      else case parse_unsigned 64 value of
        None \<Rightarrow> (EXIT_VALIDATION, fs)
      | Some secs \<Rightarrow>
          (case set_vault_ttl (of_nat secs) cfg of
             None \<Rightarrow> (EXIT_STORE, fs)
           | Some cfg' \<Rightarrow>
               (case save_config env path cfg' fs of
                  (Inl code, fs') \<Rightarrow> (code, fs')
                | (Inr _, fs') \<Rightarrow> (EXIT_SUCCESS, fs'))))"

section \<open>Status\<close>

definition counts_line :: "(nat \<times> string) list \<Rightarrow> string" where
  "counts_line cs = ''passwords:  '' @ join '', '' (map (\<lambda>(n, s). show_nat n @ '' '' @ s) cs)"

definition status_report :: "sshrack_config \<Rightarrow> nat \<Rightarrow> nat \<Rightarrow> nat \<Rightarrow> string" where
  "status_report cfg encrypted plaintext keyring =
     (let e = (encrypted, ''encrypted''); p = (plaintext, ''plaintext''); k = (keyring, ''in keyring'');
          (mode_line, counts) =
            (case store cfg of
               Some (StoreVault meta) \<Rightarrow>
                 (''mode:       vault ('' @ kdf meta @ '')'' @ [CHR 0x0A] @ ''cache ttl:  ''
                    @ show_nat (unat (cache_ttl_secs meta)) @ ''s'', counts_line [e, p, k])
             | Some StoreKeyring \<Rightarrow> (''mode:       keyring'', counts_line [k, p, e])
             | Some StorePlaintext \<Rightarrow> (''mode:       plaintext'', counts_line [p, e, k])
             | None \<Rightarrow> (''mode:       undecided'', counts_line [p, e, k]))
      in mode_line @ [CHR 0x0A] @ counts @ [CHR 0x0A])"

definition status :: "cli_env \<Rightarrow> files \<Rightarrow> int + string" where
  "status env fs =
     (case load_config env fs of
        Inl code \<Rightarrow> Inl code
      | Inr (_, cfg) \<Rightarrow> (case count_secrets cfg of (e, p, k) \<Rightarrow> Inr (status_report cfg e p k)))"

text \<open>The text that \<^verbatim>\<open>store config show\<close> prints.\<close>

definition config_show :: "sshrack_config \<Rightarrow> string" where
  "config_show cfg =
     (case vault_meta_of cfg of
        Some meta \<Rightarrow> CACHE_TTL_FIELD @ '' = '' @ show_nat (unat (cache_ttl_secs meta))
      | None \<Rightarrow> ''mode: plaintext (no vault configured)'')"

section \<open>The command\<close>

datatype config_action = ConfigShow | ConfigGet string | ConfigSet string string

datatype store_action =
    ActStatus
  | ActUse store_mode "64 word option" bool
  | ActRekey
  | ActLock
  | ActUnlock
  | ActConfig "config_action option"

definition config_cmd :: "cli_env \<Rightarrow> config_action option \<Rightarrow> 'b cli_state \<Rightarrow> int \<times> 'b cli_state" where
  "config_cmd env action st =
     (case load_config env (cs_files st) of
        Inl code \<Rightarrow> (code, st)
      | Inr (path, cfg) \<Rightarrow>
          (case action of
             None \<Rightarrow> (EXIT_SUCCESS, st)
           | Some ConfigShow \<Rightarrow> (EXIT_SUCCESS, st)
           | Some (ConfigGet field) \<Rightarrow> (case config_get cfg field of Inl code \<Rightarrow> (code, st) | Inr _ \<Rightarrow> (EXIT_SUCCESS, st))
           | Some (ConfigSet field value) \<Rightarrow>
               (case config_set env cfg path field value (cs_files st) of
                  (code, fs) \<Rightarrow> (code, st\<lparr>cs_files := fs\<rparr>))))"

definition store_run ::
  "crates \<Rightarrow> 'b backend \<Rightarrow> cli_env \<Rightarrow> store_action \<Rightarrow> 'b cli_state \<Rightarrow> int \<times> 'b cli_state" where
  "store_run X be env action st =
     (case action of
        ActStatus \<Rightarrow> (case status env (cs_files st) of Inl code \<Rightarrow> (code, st) | Inr _ \<Rightarrow> (EXIT_SUCCESS, st))
      | ActUse mode ttl yes \<Rightarrow> use_mode X be env mode ttl yes st
      | ActRekey \<Rightarrow> rekey X be env st
      | ActLock \<Rightarrow> lock_cmd env st
      | ActUnlock \<Rightarrow> unlock_cmd X env st
      | ActConfig action \<Rightarrow> config_cmd env action st)"

end
