(* ===== verification/Rust_Sort.thy ===== *)
theory Rust_Sort
  imports Rust_Text "HOL-Library.List_Lexorder" "HOL-Library.Char_ord" "HOL-Library.Multiset"
begin

text \<open>Ordering in Rust's standard library: \<^verbatim>\<open>cmp::Ordering\<close> with \<^verbatim>\<open>then_with\<close>, the
byte-wise order of strings, and the stable \<^verbatim>\<open>sort_by\<close>.  The standard library specifies the
result of a stable sort for comparisons that are total orders; the model is the insertion sort that
compares in the same direction, which is that result (\<^verbatim>\<open>sort_by_key\<close>).\<close>

datatype ordering = Less | Equal | Greater

fun then_with :: "ordering \<Rightarrow> ordering \<Rightarrow> ordering" where
  "then_with Equal o' = o'"
| "then_with o1 _ = o1"

fun reverse_ordering :: "ordering \<Rightarrow> ordering" where
  "reverse_ordering Less = Greater"
| "reverse_ordering Equal = Equal"
| "reverse_ordering Greater = Less"

definition compare_of :: "'a::linorder \<Rightarrow> 'a \<Rightarrow> ordering" where
  "compare_of a b = (if a < b then Less else if a = b then Equal else Greater)"

lemma compare_of_simps [simp]:
  "compare_of a b = Less \<longleftrightarrow> a < b" "compare_of a b = Equal \<longleftrightarrow> a = b" "compare_of a b = Greater \<longleftrightarrow> b < a"
  by (auto simp: compare_of_def)

lemma then_with_Equal: "then_with o1 o2 = Equal \<longleftrightarrow> o1 = Equal \<and> o2 = Equal"
  by (cases o1) auto

lemma then_with_Greater: "then_with o1 o2 = Greater \<longleftrightarrow> o1 = Greater \<or> o1 = Equal \<and> o2 = Greater"
  by (cases o1) auto

fun insort_by :: "('a \<Rightarrow> 'a \<Rightarrow> ordering) \<Rightarrow> 'a \<Rightarrow> 'a list \<Rightarrow> 'a list" where
  "insort_by cmp x [] = [x]"
| "insort_by cmp x (y # ys) = (if cmp x y = Greater then y # insort_by cmp x ys else x # y # ys)"

definition sort_by :: "('a \<Rightarrow> 'a \<Rightarrow> ordering) \<Rightarrow> 'a list \<Rightarrow> 'a list" where
  "sort_by cmp xs = foldr (insort_by cmp) xs []"

lemma mset_insort_by [simp]: "mset (insort_by cmp x xs) = add_mset x (mset xs)"
  by (induction cmp x xs rule: insort_by.induct) auto

lemma mset_sort_by [simp]: "mset (sort_by cmp xs) = mset xs"
  by (induction xs) (auto simp: sort_by_def)

lemma set_sort_by [simp]: "set (sort_by cmp xs) = set xs"
  by (metis mset_sort_by set_mset_mset)

lemma length_sort_by [simp]: "length (sort_by cmp xs) = length xs"
  by (metis mset_sort_by size_mset)

text \<open>A comparison that agrees with a key gives the library's stable sort by that key.\<close>

lemma insort_by_key:
  fixes key :: "'a \<Rightarrow> 'k::linorder"
  assumes "\<And>y. y \<in> set ys \<Longrightarrow> cmp x y = Greater \<longleftrightarrow> key y < key x"
  shows "insort_by cmp x ys = insort_key key x ys"
  using assms by (induction ys) auto

lemma sort_by_key:
  fixes key :: "'a \<Rightarrow> 'k::linorder"
  assumes "\<And>x y. x \<in> set xs \<Longrightarrow> y \<in> set xs \<Longrightarrow> cmp x y = Greater \<longleftrightarrow> key y < key x"
  shows "sort_by cmp xs = sort_key key xs"
  using assms
proof (induction xs)
  case (Cons x xs)
  have "sort_by cmp xs = sort_key key xs" by (rule Cons.IH) (use Cons.prems in auto)
  then show ?case
    using insort_by_key[of "sort_key key xs" cmp x key] Cons.prems by (simp add: sort_by_def)
qed (simp add: sort_by_def)

end
