(* ===== verification/Rust_Float.thy ===== *)
theory Rust_Float
  imports Rust_Sort Complex_Main "HOL-Library.Log_Nat" "HOL-Library.Product_Lexorder"
begin

text \<open>The double-precision numbers of Rust (\<^verbatim>\<open>f64\<close>) as far as the program computes with
them: addition and multiplication, rounding to the nearest representable value with ties to even, and the
partial order.  A finite value is written \<^verbatim>\<open>Finite m e\<close> for \<^verbatim>\<open>m * 2 ^ e\<close>; the
sign of zero is not kept, since no operation used here distinguishes it.\<close>

datatype f64 = Finite int int | PosInf | NegInf | NaN

section \<open>Powers of two\<close>

definition pow2 :: "int \<Rightarrow> rat" where
  "pow2 e = (if 0 \<le> e then 2 ^ nat e else 1 / 2 ^ nat (- e))"

lemma pow2_pos [simp]: "0 < pow2 e"
  by (simp add: pow2_def)

lemma pow2_add: "pow2 (a + b) = pow2 a * pow2 b"
proof -
  have c: "pow2 e = 2 powi e" for e :: int
    by (simp add: pow2_def power_int_def inverse_eq_divide power_one_over)
  show ?thesis unfolding c by (simp add: power_int_add)
qed

lemma pow2_mono: "a \<le> b \<Longrightarrow> pow2 a \<le> pow2 b"
proof -
  assume "a \<le> b"
  then have "pow2 b = pow2 a * 2 ^ nat (b - a)" using pow2_add[of a "b - a"] by (simp add: pow2_def)
  then show ?thesis by simp
qed

lemma pow2_mono_rev: "pow2 a < pow2 b \<Longrightarrow> a < b"
  using pow2_mono[of b a] by linarith

lemma bitlen_pow2: "0 < a \<Longrightarrow> pow2 (bitlen a - 1) \<le> of_int a \<and> of_int a < pow2 (bitlen a)"
proof -
  assume a: "0 < a"
  then have l: "1 \<le> bitlen a" by (simp add: bitlen_alt_def)
  from bitlen_bounds[OF a] have "(of_int (2 ^ nat (bitlen a - 1)) :: rat) \<le> of_int a"
    "(of_int a :: rat) < of_int (2 ^ nat (bitlen a))" by (simp_all only: of_int_le_iff of_int_less_iff)
  then show ?thesis using l by (simp add: pow2_def)
qed

section \<open>Values and rounding\<close>

definition dyadic :: "int \<Rightarrow> int \<Rightarrow> rat" where
  "dyadic m e = of_int m * pow2 e"

text \<open>Dropping the last \<^verbatim>\<open>s\<close> bits of a non-negative integer, to the nearest, ties to even.\<close>

definition drop_round :: "nat \<Rightarrow> int \<Rightarrow> int" where
  "drop_round s m =
     (let q = m div 2 ^ s; r = m mod 2 ^ s
      in if 2 * r < 2 ^ s then q else if 2 ^ s < 2 * r then q + 1 else if even q then q else q + 1)"

lemma drop_round_ge: "m div 2 ^ s \<le> drop_round s m"
  by (simp add: drop_round_def Let_def)

definition round_f64 :: "int \<Rightarrow> int \<Rightarrow> f64" where
  "round_f64 m e =
     (if m = 0 then Finite 0 0
      else
        (let lead = bitlen \<bar>m\<bar> + e - 1;
             t = max (- 1074) (lead - 52);
             (n, f) = (if t \<le> e then (\<bar>m\<bar>, e) else (drop_round (nat (t - e)) \<bar>m\<bar>, t))
         in if 1024 < bitlen n + f then (if 0 < m then PosInf else NegInf) else Finite (sgn m * n) f))"

text \<open>Rounding never falls below a power of two that the value has reached, and what it returns as a finite
number is below the overflow bound.\<close>

lemma drop_round_large:
  assumes "0 < m" "0 \<le> s" "s \<le> bitlen m - 1"
  shows "2 ^ nat (bitlen m - 1 - s) \<le> drop_round (nat s) m"
proof -
  have "2 ^ nat (bitlen m - 1) \<le> m" using bitlen_bounds[OF assms(1)] by simp
  moreover have "(2 :: int) ^ nat (bitlen m - 1) = 2 ^ nat (bitlen m - 1 - s) * 2 ^ nat s"
    using assms by (simp flip: power_add nat_add_distrib)
  ultimately have "2 ^ nat (bitlen m - 1 - s) \<le> m div 2 ^ nat s"
    by (metis nonzero_mult_div_cancel_right power_not_zero zdiv_mono1 zero_less_numeral zero_less_power zero_neq_numeral)
  then show ?thesis using drop_round_ge[of m "nat s"] by linarith
qed

lemma dyadic_bounds:
  assumes "0 < m"
  shows "pow2 (bitlen m - 1 + e) \<le> dyadic m e" "dyadic m e < pow2 (bitlen m + e)"
  using bitlen_pow2[OF assms] by (simp_all add: dyadic_def pow2_add)

lemma round_f64_ge:
  assumes "0 < m" "pow2 k \<le> dyadic m e" "- 1022 \<le> k"
  shows "round_f64 m e = PosInf \<or> (\<exists>n f. round_f64 m e = Finite n f \<and> 0 < n \<and> pow2 k \<le> dyadic n f
    \<and> bitlen n + f \<le> 1024)"
proof -
  let ?lead = "bitlen m + e - 1"
  have "pow2 k < pow2 (bitlen m + e)" using dyadic_bounds(2)[OF assms(1), of e] assms(2) by linarith
  then have k: "k \<le> ?lead" using pow2_mono_rev by fastforce
  then have t: "max (- 1074) (?lead - 52) = ?lead - 52" using assms(3) by simp
  show ?thesis
  proof (cases "?lead - 52 \<le> e")
    case True
    then show ?thesis using assms t by (auto simp: round_f64_def Let_def)
  next
    case False
    let ?s = "?lead - 52 - e"
    have "2 ^ nat (bitlen m - 1 - ?s) \<le> drop_round (nat ?s) m"
      by (rule drop_round_large) (use False assms(1) in auto)
    then have n: "2 ^ 52 \<le> drop_round (nat ?s) m" by simp
    then have "(of_int (2 ^ 52) :: rat) \<le> of_int (drop_round (nat ?s) m)" by (simp only: of_int_le_iff)
    then have "pow2 52 * pow2 (?lead - 52) \<le> dyadic (drop_round (nat ?s) m) (?lead - 52)"
      unfolding dyadic_def by (intro mult_right_mono) (simp_all add: pow2_def[of 52] less_imp_le)
    then have "pow2 ?lead \<le> dyadic (drop_round (nat ?s) m) (?lead - 52)" by (simp flip: pow2_add)
    then have "pow2 k \<le> dyadic (drop_round (nat ?s) m) (?lead - 52)" using pow2_mono[OF k] by linarith
    moreover have "0 < drop_round (nat ?s) m"
      by (rule less_le_trans[OF _ n]) simp
    ultimately show ?thesis using False t assms(1) by (auto simp: round_f64_def Let_def)
  qed
qed

section \<open>Arithmetic and comparison\<close>

definition align :: "int \<Rightarrow> int \<Rightarrow> int \<Rightarrow> int" where
  "align e m f = m * 2 ^ nat (f - e)"

lemma dyadic_align: "e \<le> f \<Longrightarrow> dyadic (align e m f) e = dyadic m f"
  using pow2_add[of e "f - e"] by (simp add: dyadic_def align_def pow2_def[of "f - e"])

fun f64_add :: "f64 \<Rightarrow> f64 \<Rightarrow> f64" where
  "f64_add (Finite m e) (Finite n f) = (let g = min e f in round_f64 (align g m e + align g n f) g)"
| "f64_add NaN _ = NaN"
| "f64_add _ NaN = NaN"
| "f64_add PosInf NegInf = NaN"
| "f64_add NegInf PosInf = NaN"
| "f64_add PosInf _ = PosInf"
| "f64_add _ PosInf = PosInf"
| "f64_add NegInf _ = NegInf"
| "f64_add _ NegInf = NegInf"

definition signed_inf :: "int \<Rightarrow> f64" where
  "signed_inf s = (if 0 < s then PosInf else if s < 0 then NegInf else NaN)"

fun f64_mul :: "f64 \<Rightarrow> f64 \<Rightarrow> f64" where
  "f64_mul (Finite m e) (Finite n f) = round_f64 (m * n) (e + f)"
| "f64_mul NaN _ = NaN"
| "f64_mul _ NaN = NaN"
| "f64_mul PosInf (Finite n _) = signed_inf n"
| "f64_mul NegInf (Finite n _) = signed_inf (- n)"
| "f64_mul (Finite m _) PosInf = signed_inf m"
| "f64_mul (Finite m _) NegInf = signed_inf (- m)"
| "f64_mul PosInf PosInf = PosInf"
| "f64_mul NegInf NegInf = PosInf"
| "f64_mul PosInf NegInf = NegInf"
| "f64_mul NegInf PosInf = NegInf"

text \<open>\<^verbatim>\<open>partial_cmp\<close>.\<close>

fun f64_cmp :: "f64 \<Rightarrow> f64 \<Rightarrow> ordering option" where
  "f64_cmp NaN _ = None"
| "f64_cmp _ NaN = None"
| "f64_cmp (Finite m e) (Finite n f) = (let g = min e f in Some (compare_of (align g m e) (align g n f)))"
| "f64_cmp (Finite _ _) PosInf = Some Less"
| "f64_cmp (Finite _ _) NegInf = Some Greater"
| "f64_cmp PosInf PosInf = Some Equal"
| "f64_cmp PosInf _ = Some Greater"
| "f64_cmp NegInf NegInf = Some Equal"
| "f64_cmp NegInf _ = Some Less"

text \<open>The value of a number on a scale that puts the infinities outside.\<close>

fun f64_rank :: "f64 \<Rightarrow> int \<times> rat" where
  "f64_rank (Finite m e) = (0, dyadic m e)"
| "f64_rank PosInf = (1, 0)"
| "f64_rank NegInf = (- 1, 0)"
| "f64_rank NaN = (0, 0)"

lemma compare_align:
  assumes "g \<le> e" "g \<le> f"
  shows "compare_of (align g m e) (align g n f) = compare_of (dyadic m e) (dyadic n f)"
proof -
  have "dyadic m e = of_int (align g m e) * pow2 g" "dyadic n f = of_int (align g n f) * pow2 g"
    using dyadic_align[OF assms(1), of m] dyadic_align[OF assms(2), of n] by (simp_all add: dyadic_def)
  moreover have "(of_int a * pow2 g < of_int b * pow2 g) = (a < b)" "(of_int a * pow2 g = of_int b * pow2 g) = (a = b)"
    for a b using pow2_pos[of g] less_irrefl[of "0::rat"] by (metis mult_less_cancel_right_pos of_int_less_iff,
      metis mult_cancel_right of_int_eq_iff)
  ultimately show ?thesis by (simp only: compare_of_def)
qed

lemma f64_cmp_rank:
  assumes "a \<noteq> NaN" "b \<noteq> NaN"
  shows "f64_cmp a b = Some (compare_of (f64_rank a) (f64_rank b))"
  using assms compare_align
  by (cases a; cases b) (auto simp: Let_def compare_of_def)

lemma f64_cmp_NaN [simp]: "f64_cmp a NaN = None"
  by (cases a) auto

section \<open>Lower bounds\<close>

text \<open>A number that is infinite or at least the given power of two, and representable.\<close>

definition at_least :: "int \<Rightarrow> f64 \<Rightarrow> bool" where
  "at_least k s \<longleftrightarrow>
     s = PosInf \<or> (\<exists>n f. s = Finite n f \<and> 0 < n \<and> pow2 k \<le> dyadic n f \<and> bitlen n + f \<le> 1024)"

lemma at_least_top: "at_least k s \<Longrightarrow> 1024 \<le> k \<Longrightarrow> s = PosInf"
  using pow2_mono[of 1024 k] dyadic_bounds(2) pow2_mono[of _ 1024] unfolding at_least_def
  by (meson less_le_trans not_less order_trans)

lemma at_least_round: "0 < m \<Longrightarrow> pow2 k \<le> dyadic m e \<Longrightarrow> 0 \<le> k \<Longrightarrow> at_least k (round_f64 m e)"
  using round_f64_ge[of m k e] by (simp add: at_least_def)

lemma at_least_mul:
  assumes "at_least k s" "0 \<le> k" "0 \<le> j"
  shows "at_least (k + j) (f64_mul s (Finite 1 j))"
proof (cases "s = PosInf")
  case False
  then obtain n f where y: "s = Finite n f" "0 < n" "pow2 k \<le> dyadic n f" using assms by (auto simp: at_least_def)
  have "pow2 (k + j) \<le> dyadic n (f + j)" using y(3) by (simp add: pow2_add dyadic_def less_imp_le)
  then show ?thesis using at_least_round[of n "k + j" "f + j"] assms(2,3) y by simp
qed (simp add: at_least_def signed_inf_def)

lemma at_least_add1:
  assumes "at_least k s" "0 \<le> k"
  shows "at_least k (f64_add s (Finite 1 0))"
proof (cases "s = PosInf")
  case False
  then obtain n f where y: "s = Finite n f" "0 < n" "pow2 k \<le> dyadic n f" using assms by (auto simp: at_least_def)
  let ?g = "min f 0"
  have "dyadic (align ?g n f + align ?g 1 0) ?g = dyadic n f + dyadic 1 0"
    using dyadic_align[of ?g f n] dyadic_align[of ?g 0 1] by (simp add: dyadic_def algebra_simps)
  then have "pow2 k \<le> dyadic (align ?g n f + align ?g 1 0) ?g" using y(3) by (simp add: dyadic_def pow2_def[of 0])
  moreover have "0 < align ?g n f + align ?g 1 0" using y(2) by (simp add: align_def add_pos_pos)
  ultimately show ?thesis using at_least_round assms(2) y(1) by (simp add: Let_def)
qed (simp add: at_least_def)

end
