(* ===== verification/Frecency.thy ===== *)
theory Frecency
  imports Config_Store Rust_Float
begin

text \<open>How often and how recently a host was used (\<^verbatim>\<open>frecency/mod.rs\<close>,
\<^verbatim>\<open>frecency/store.rs\<close>): the score table, its update at a connection, the two orders in which hosts
are listed, and the file the table is kept in.  A \<^verbatim>\<open>SystemTime\<close> is the number of nanoseconds
since the epoch, negative before it.\<close>

section \<open>Times\<close>

type_synonym system_time = int

definition NANOS_PER_SEC :: int where
  "NANOS_PER_SEC = 1000000000"

definition HOUR :: int where "HOUR = 3600"
definition DAY :: int where "DAY = 86400"
definition WEEK :: int where "WEEK = DAY * 7"

text \<open>\<^verbatim>\<open>now.duration_since(t)\<close> in whole seconds, an error when \<^verbatim>\<open>t\<close> is later.\<close>

definition secs_since :: "system_time \<Rightarrow> system_time \<Rightarrow> int option" where
  "secs_since now t = (if t \<le> now then Some ((now - t) div NANOS_PER_SEC) else None)"

section \<open>The table\<close>

record entry =
  e_score :: f64
  e_last_used :: "system_time option"

definition default_entry :: entry where
  "default_entry = \<lparr>e_score = Finite 0 0, e_last_used = None\<rparr>"

type_synonym frecency = "ulid \<rightharpoonup> entry"

definition multiplier :: "int \<Rightarrow> f64" where
  "multiplier age =
     (if age < HOUR then Finite 1 2 else if age < DAY then Finite 1 1
      else if age < WEEK then Finite 1 (- 1) else Finite 1 (- 2))"

definition record_at :: "frecency \<Rightarrow> ulid \<Rightarrow> system_time \<Rightarrow> frecency" where
  "record_at frec u now =
     (let prev = (case frec u of Some e \<Rightarrow> e | None \<Rightarrow> default_entry);
          age = (case Option.bind (e_last_used prev) (secs_since now) of Some a \<Rightarrow> a | None \<Rightarrow> 2 ^ 64 - 1);
          next = f64_add (f64_mul (e_score prev) (multiplier age)) (Finite 1 0)
      in frec(u \<mapsto> \<lparr>e_score = next, e_last_used = Some now\<rparr>))"

definition score :: "frecency \<Rightarrow> ulid \<Rightarrow> f64" where
  "score frec u = (case frec u of Some e \<Rightarrow> e_score e | None \<Rightarrow> Finite 0 0)"

section \<open>Ranking\<close>

record ranked_host =
  rh_host :: host
  rh_score :: f64

definition ranked :: "frecency \<Rightarrow> host \<Rightarrow> ranked_host" where
  "ranked frec h = \<lparr>rh_host = h, rh_score = score frec (h_id h)\<rparr>"

definition last_used_of :: "frecency \<Rightarrow> ulid \<Rightarrow> system_time option" where
  "last_used_of frec u = Option.bind (frec u) e_last_used"

definition recent_cmp :: "frecency \<Rightarrow> ranked_host \<Rightarrow> ranked_host \<Rightarrow> ordering" where
  "recent_cmp frec a b =
     then_with
       (case (last_used_of frec (h_id (rh_host b)), last_used_of frec (h_id (rh_host a))) of
          (Some tb, Some ta) \<Rightarrow> compare_of tb ta
        | (Some _, None) \<Rightarrow> Greater
        | (None, Some _) \<Rightarrow> Less
        | (None, None) \<Rightarrow> Equal)
       (compare_of (h_name (rh_host a)) (h_name (rh_host b)))"

definition rank_by_recent :: "host list \<Rightarrow> frecency \<Rightarrow> ranked_host list" where
  "rank_by_recent hs frec = sort_by (recent_cmp frec) (map (ranked frec) hs)"

definition partial_cmp_or_equal :: "f64 \<Rightarrow> f64 \<Rightarrow> ordering" where
  "partial_cmp_or_equal a b = (case f64_cmp a b of Some o1 \<Rightarrow> o1 | None \<Rightarrow> Equal)"

definition rank_cmp :: "string \<Rightarrow> ranked_host \<Rightarrow> ranked_host \<Rightarrow> ordering" where
  "rank_cmp q a b =
     (let am = contains_str q (to_lowercase (h_name (rh_host a)));
          bm = contains_str q (to_lowercase (h_name (rh_host b)))
      in then_with (compare_of (of_bool bm :: nat) (of_bool am))
           (then_with (partial_cmp_or_equal (rh_score b) (rh_score a))
              (compare_of (h_name (rh_host a)) (h_name (rh_host b)))))"

definition rank :: "host list \<Rightarrow> string \<Rightarrow> frecency \<Rightarrow> ranked_host list" where
  "rank hs query frec = sort_by (rank_cmp (to_lowercase query)) (map (ranked frec) hs)"

section \<open>The file\<close>

record stored_entry =
  se_score :: f64
  se_last_used_secs :: "int option"

type_synonym stored_frecency = "string \<rightharpoonup> stored_entry"

record frecency_toml =
  ft_parse :: "string \<Rightarrow> stored_frecency option"
  ft_print :: "stored_frecency \<Rightarrow> string option"

text \<open>\<^verbatim>\<open>as_secs() as i64\<close> of a time after the epoch, and the time at a stored second.\<close>

definition system_time_to_secs :: "system_time \<Rightarrow> int option" where
  "system_time_to_secs t = map_option (\<lambda>s. sint (word_of_int s :: 64 word)) (secs_since t 0)"

definition secs_to_system_time :: "int \<Rightarrow> system_time option" where
  "secs_to_system_time secs = (if secs < 0 then None else Some (secs * NANOS_PER_SEC))"

definition to_stored :: "frecency \<Rightarrow> stored_frecency" where
  "to_stored frec = (\<lambda>u. map_option (\<lambda>e. \<lparr>se_score = e_score e,
     se_last_used_secs = Option.bind (e_last_used e) system_time_to_secs\<rparr>) (frec u))"

definition from_entry :: "stored_entry \<Rightarrow> entry" where
  "from_entry e = \<lparr>e_score = se_score e, e_last_used = Option.bind (se_last_used_secs e) secs_to_system_time\<rparr>"

text \<open>The loop over the stored entries, in the order the hash map is walked: a key that is no id is skipped,
and of two keys with the same id the later one wins.\<close>

definition from_stored_step ::
  "(string \<Rightarrow> ulid option) \<Rightarrow> stored_frecency \<Rightarrow> string \<Rightarrow> frecency \<Rightarrow> frecency" where
  "from_stored_step ulid_parse stored k frec =
     (case (ulid_parse k, stored k) of (Some u, Some e) \<Rightarrow> frec(u \<mapsto> from_entry e) | _ \<Rightarrow> frec)"

definition from_stored ::
  "(string \<Rightarrow> ulid option) \<Rightarrow> (stored_frecency \<Rightarrow> string list) \<Rightarrow> stored_frecency \<Rightarrow> frecency" where
  "from_stored ulid_parse keys stored = fold (from_stored_step ulid_parse stored) (keys stored) Map.empty"

definition FRECENCY_FILENAME :: string where
  "FRECENCY_FILENAME = ''frecency.toml''"

definition frecency_load ::
  "frecency_toml \<Rightarrow> (string \<Rightarrow> ulid option) \<Rightarrow> (stored_frecency \<Rightarrow> string list) \<Rightarrow> string \<Rightarrow> files \<Rightarrow>
   sshrack_error + frecency" where
  "frecency_load tm ulid_parse keys dir fs =
     (let path = dir @ ''/'' @ FRECENCY_FILENAME
      in case read_to_string path fs of
           Inr contents \<Rightarrow>
             and_then (ok_or (ConfigParse path) (ft_parse tm contents))
               (\<lambda>stored. Inr (from_stored ulid_parse keys stored))
         | Inl IoNotFound \<Rightarrow> Inr Map.empty
         | Inl e \<Rightarrow> Inl (ConfigRead path e))"

definition frecency_save ::
  "frecency_toml \<Rightarrow> os \<Rightarrow> string \<Rightarrow> frecency \<Rightarrow> files \<Rightarrow> (sshrack_error + unit) \<times> files" where
  "frecency_save tm os dir frec fs =
     (let path = dir @ ''/'' @ FRECENCY_FILENAME
      in case ft_print tm (to_stored frec) of
           None \<Rightarrow> (Inl (ConfigSerialize path), fs)
         | Some serialized \<Rightarrow>
             (case os_mkdir_error os dir of
                Some e \<Rightarrow> (Inl (ConfigWrite dir e), fs)
              | None \<Rightarrow>
                  (case atomic_write_private os path (utf8 serialized) fs of
                     (Inl e, fs') \<Rightarrow> (Inl (ConfigWrite path e), fs')
                   | (Inr _, fs') \<Rightarrow> (Inr (), fs'))))"

section \<open>The score under rapid use\<close>

definition within_hour :: "system_time \<Rightarrow> system_time \<Rightarrow> bool" where
  "within_hour a b \<longleftrightarrow> a \<le> b \<and> (b - a) div NANOS_PER_SEC < HOUR"

lemma record_rapid:
  assumes "frec u = Some \<lparr>e_score = s, e_last_used = Some t\<rparr>" "within_hour t now" "at_least k s" "0 \<le> k"
  shows "\<exists>s'. record_at frec u now u = Some \<lparr>e_score = s', e_last_used = Some now\<rparr> \<and> at_least (k + 2) s'"
  using assms at_least_add1[OF at_least_mul[OF assms(3,4), of 2]]
  by (simp add: record_at_def Let_def within_hour_def secs_since_def multiplier_def)

lemma record_rapid_list:
  assumes "frec u = Some \<lparr>e_score = s, e_last_used = Some t\<rparr>" "successively within_hour (t # ts)" "at_least k s" "0 \<le> k"
  shows "\<exists>s' t'. fold (\<lambda>t f. record_at f u t) ts frec u = Some \<lparr>e_score = s', e_last_used = Some t'\<rparr>
    \<and> at_least (k + 2 * int (length ts)) s'"
  using assms
proof (induction ts arbitrary: frec s t k)
  case (Cons now ts)
  then have w: "within_hour t now" "successively within_hour (now # ts)" by (auto simp: successively.simps)
  obtain s' where r: "record_at frec u now u = Some \<lparr>e_score = s', e_last_used = Some now\<rparr>" "at_least (k + 2) s'"
    using record_rapid[where frec = frec and u = u, OF Cons.prems(1) w(1) Cons.prems(3,4)] by blast
  show ?case
    using Cons.IH[where frec = "record_at frec u now", OF r(1) w(2) r(2)] Cons.prems(4) by (simp add: algebra_simps)
qed auto

lemma record_first:
  "frec u = None \<Longrightarrow>
   \<exists>s. record_at frec u t u = Some \<lparr>e_score = s, e_last_used = Some t\<rparr> \<and> at_least 0 s"
  using at_least_round[of 1 0 0]
  by (simp add: record_at_def default_entry_def multiplier_def HOUR_def DAY_def WEEK_def round_f64_def[of 0]
      align_def dyadic_def Let_def)

lemma record_infinite: "score frec u = PosInf \<Longrightarrow> score (record_at frec u t) u = PosInf"
  by (auto simp: score_def record_at_def multiplier_def signed_inf_def Let_def split: option.splits)

lemma record_infinite_list: "score frec u = PosInf \<Longrightarrow> score (fold (\<lambda>t f. record_at f u t) ts frec) u = PosInf"
  by (induction ts arbitrary: frec) (auto simp: record_infinite)

lemma successively_replicate: "P x x \<Longrightarrow> successively P (replicate n x)"
proof (induction n)
  case (Suc n)
  then show ?case by (cases n) auto
qed simp

section \<open>The order of the rankings\<close>

definition rank_key :: "string \<Rightarrow> frecency \<Rightarrow> host \<Rightarrow> bool \<times> (int \<times> rat) \<times> string" where
  "rank_key query frec h =
     (\<not> contains_str (to_lowercase query) (to_lowercase (h_name h)),
      (case f64_rank (score frec (h_id h)) of (i, r) \<Rightarrow> (- i, - r)), h_name h)"

definition recent_key :: "frecency \<Rightarrow> host \<Rightarrow> (bool \<times> int) \<times> string" where
  "recent_key frec h =
     (case last_used_of frec (h_id h) of Some t \<Rightarrow> (False, - t) | None \<Rightarrow> (True, 0), h_name h)"

lemma rank_cmp_key:
  assumes "score frec (h_id a) \<noteq> NaN" "score frec (h_id b) \<noteq> NaN"
  shows "rank_cmp (to_lowercase q) (ranked frec a) (ranked frec b) = Greater \<longleftrightarrow> rank_key q frec b < rank_key q frec a"
proof -
  obtain i r i' r' where f: "f64_rank (score frec (h_id a)) = (i, r)" "f64_rank (score frec (h_id b)) = (i', r')"
    by (metis surj_pair)
  show ?thesis
    using assms
    by (auto simp: rank_cmp_def rank_key_def ranked_def Let_def then_with_Greater then_with_Equal
        partial_cmp_or_equal_def f64_cmp_rank f less_prod_def)
qed

lemma recent_cmp_key:
  "recent_cmp frec (ranked frec a) (ranked frec b) = Greater \<longleftrightarrow> recent_key frec b < recent_key frec a"
  by (auto simp: recent_cmp_def recent_key_def ranked_def then_with_Greater then_with_Equal less_prod_def
      split: option.splits)

lemma sort_key_map: "sort_key f (map g xs) = map g (sort_key (f \<circ> g) xs)"
proof -
  have "insort_key f (g x) (map g ys) = map g (insort_key (f \<circ> g) x ys)" for x ys
    by (induction ys) auto
  then show ?thesis by (induction xs) auto
qed

section \<open>Properties\<close>

text \<open>C30: a bound of the score. Each connection within an hour of the one before multiplies the score by
four, so 513 connections in a row bring it from nothing to the infinity of double precision, and from there
no later connection, however much later, changes it: the decay cannot bring the host down again.\<close>

theorem frecency_saturates:
  assumes "frec u = None" "successively within_hour ts" "513 \<le> length ts"
  shows "score (fold (\<lambda>t f. record_at f u t) (ts @ later) frec) u = PosInf"
proof -
  obtain t ts' where ts: "ts = t # ts'" using assms(3) by (cases ts) auto
  obtain s where r: "record_at frec u t u = Some \<lparr>e_score = s, e_last_used = Some t\<rparr>" "at_least 0 s"
    using record_first[where frec = frec and u = u, OF assms(1)] by blast
  obtain s' t' where l: "fold (\<lambda>t f. record_at f u t) ts' (record_at frec u t) u = Some \<lparr>e_score = s', e_last_used = Some t'\<rparr>"
    "at_least (0 + 2 * int (length ts')) s'"
    using record_rapid_list[where frec = "record_at frec u t" and u = u, OF r(1) assms(2)[unfolded ts] r(2)] by auto
  have "s' = PosInf" by (rule at_least_top[OF l(2)]) (use assms(3) in \<open>simp add: ts\<close>)
  then have "score (fold (\<lambda>t f. record_at f u t) ts frec) u = PosInf" using l(1) by (simp add: score_def ts)
  then show ?thesis by (simp add: record_infinite_list)
qed

theorem frecency_saturates_witness:
  "score (fold (\<lambda>t f. record_at f ''A'' t) (replicate 513 0 @ [31536000 * NANOS_PER_SEC]) Map.empty) ''A'' = PosInf"
  by (rule frecency_saturates) (simp_all add: successively_replicate within_hour_def HOUR_def)

text \<open>C31: the two listing orders agree with their specification. With scores that are numbers, ranking
the hosts by a comparison function is the stable sort by one key: hosts whose name contains the query first,
then the higher score, then the name; listing by recent use is the stable sort by the time of the last use,
latest first and never used last, then the name. Both keep every host exactly once.\<close>

theorem ranks_are_stable_sorts:
  assumes "\<forall>h\<in>set hs. score frec (h_id h) \<noteq> NaN"
  shows "map rh_host (rank hs query frec) = sort_key (rank_key query frec) hs
    \<and> map rh_host (rank_by_recent hs frec) = sort_key (recent_key frec) hs
    \<and> mset (map rh_host (rank hs query frec)) = mset hs
    \<and> mset (map rh_host (rank_by_recent hs frec)) = mset hs"
proof -
  have h: "rh_host (ranked frec h) = h" for h by (simp add: ranked_def)
  have "rank hs query frec = sort_key (rank_key query frec \<circ> rh_host) (map (ranked frec) hs)"
    unfolding rank_def by (rule sort_by_key) (use assms in \<open>auto simp: rank_cmp_key h\<close>)
  moreover have "rank_by_recent hs frec = sort_key (recent_key frec \<circ> rh_host) (map (ranked frec) hs)"
    unfolding rank_by_recent_def by (rule sort_by_key) (auto simp: recent_cmp_key h)
  ultimately show ?thesis by (simp add: sort_key_map h comp_def)
qed

definition demo_host :: "ulid \<Rightarrow> string \<Rightarrow> host" where
  "demo_host u name = \<lparr>h_id = u, h_name = name, h_host = ''10.0.0.1'', h_port = 22, h_ssh_args = None,
     h_auth = AuthInline (body_new ''root'')\<rparr>"

theorem ranks_are_stable_sorts_witness:
  "let f = record_at (record_at Map.empty ''B'' 0) ''B'' 1; hs = [demo_host ''A'' ''alpha'', demo_host ''B'' ''beta'']
   in map h_name (map rh_host (rank hs '''' f)) = [''beta'', ''alpha'']
      \<and> mset (map rh_host (rank hs '''' f)) = mset hs"
proof -
  let ?f = "record_at (record_at Map.empty ''B'' 0) ''B'' 1"
  let ?hs = "[demo_host ''A'' ''alpha'', demo_host ''B'' ''beta'']"
  have "score ?f ''A'' = Finite 0 0" "score ?f ''B'' = Finite 5 0" by code_simp+
  then have n: "\<forall>h\<in>set ?hs. score ?f (h_id h) \<noteq> NaN" by (simp add: demo_host_def)
  have o: "map h_name (map rh_host (rank ?hs '''' ?f)) = [''beta'', ''alpha'']" by code_simp
  show ?thesis unfolding Let_def using ranks_are_stable_sorts[OF n, of "''''"] o by blast
qed

end
