(* ===== verification/Output.thy ===== *)
theory Output
  imports Schema Rust_Sort
begin

text \<open>What the listings show (\<^verbatim>\<open>shared/format.rs\<close>, \<^verbatim>\<open>cli/table.rs\<close>): the
rows of the JSON output as records, whose encoding is left to the third-party serializer, and the aligned
text table.\<close>

section \<open>Rows\<close>

record host_list_row =
  hl_name :: string
  hl_host :: string
  hl_port :: "16 word"
  hl_user :: string
  hl_auth_kind :: string
  hl_credential_name :: "string option"

record host_detail_row =
  hd_name :: string
  hd_id :: string
  hd_host :: string
  hd_port :: "16 word"
  hd_ssh_args :: "string option"
  hd_user :: string
  hd_auth_kind :: string
  hd_credential_name :: "string option"
  hd_identity :: "string option"
  hd_password :: "string option"

record credential_list_row =
  cl_name :: string
  cl_user :: string
  cl_secret_kind :: string
  cl_password :: "string option"

record store_status_row =
  ss_mode :: string
  ss_kdf :: "string option"
  ss_memory_kib :: "32 word option"
  ss_time_cost :: "32 word option"
  ss_lanes :: "32 word option"
  ss_cache_ttl_secs :: "64 word option"
  ss_has_verifier :: "bool option"

definition secret_kind_label :: "secret_kind \<Rightarrow> string" where
  "secret_kind_label k =
     (case k of KindPassword \<Rightarrow> ''password'' | KindKey \<Rightarrow> ''key''
              | KindKeyringPassword \<Rightarrow> ''keyring'' | KindDefault \<Rightarrow> ''default'')"

definition auth_kind_label :: "auth \<Rightarrow> string" where
  "auth_kind_label a =
     (case a of AuthRef _ \<Rightarrow> ''credential'' | AuthInline body \<Rightarrow> secret_kind_label (secret_kind_of body))"

definition user_of :: "credential_body option \<Rightarrow> string" where
  "user_of b = (case b of Some body \<Rightarrow> b_user body | None \<Rightarrow> [])"

definition identity_display :: "key_source \<Rightarrow> string" where
  "identity_display k = (case k of KeyPath p \<Rightarrow> p | KeyInline _ \<Rightarrow> ''<inline>'')"

definition build_host_list_row :: "host \<Rightarrow> string option \<Rightarrow> host_list_row" where
  "build_host_list_row h credential_name =
     \<lparr>hl_name = h_name h, hl_host = h_host h, hl_port = h_port h, hl_user = user_of (inline_body (h_auth h)),
      hl_auth_kind = auth_kind_label (h_auth h), hl_credential_name = credential_name\<rparr>"

definition build_host_detail_row :: "host \<Rightarrow> string \<Rightarrow> string option \<Rightarrow> string option \<Rightarrow> host_detail_row" where
  "build_host_detail_row h id_str credential_name password =
     \<lparr>hd_name = h_name h, hd_id = id_str, hd_host = h_host h, hd_port = h_port h, hd_ssh_args = h_ssh_args h,
      hd_user = user_of (inline_body (h_auth h)), hd_auth_kind = auth_kind_label (h_auth h),
      hd_credential_name = credential_name,
      hd_identity = map_option identity_display (Option.bind (inline_body (h_auth h)) b_key),
      hd_password = password\<rparr>"

definition build_credential_list_row :: "credential \<Rightarrow> string option \<Rightarrow> credential_list_row" where
  "build_credential_list_row c password =
     \<lparr>cl_name = c_name c, cl_user = b_user (c_body c), cl_secret_kind = secret_kind_label (secret_kind_of (c_body c)),
      cl_password = password\<rparr>"

definition build_store_status_row :: "sshrack_config \<Rightarrow> store_status_row" where
  "build_store_status_row cfg =
     (let plain = (\<lambda>m. \<lparr>ss_mode = m, ss_kdf = None, ss_memory_kib = None, ss_time_cost = None, ss_lanes = None,
                        ss_cache_ttl_secs = None, ss_has_verifier = None\<rparr>)
      in case store cfg of
           None \<Rightarrow> plain ''undecided''
         | Some StorePlaintext \<Rightarrow> plain ''plaintext''
         | Some StoreKeyring \<Rightarrow> plain ''keyring''
         | Some (StoreVault meta) \<Rightarrow>
             \<lparr>ss_mode = ''vault'', ss_kdf = Some (kdf meta), ss_memory_kib = Some (m_cost meta),
              ss_time_cost = Some (t_cost meta), ss_lanes = Some (p_cost meta),
              ss_cache_ttl_secs = Some (cache_ttl_secs meta), ss_has_verifier = Some (verifier meta \<noteq> None)\<rparr>)"

section \<open>The text table\<close>

text \<open>\<^verbatim>\<open>col_widths\<close> indexes every body row by the column; the model takes the cell of a row as
empty when the row is shorter, which the caller never builds.  Widths are byte lengths.\<close>

definition row_cell :: "string list \<Rightarrow> nat \<Rightarrow> string" where
  "row_cell r col = (if col < length r then r ! col else [])"

definition col_widths :: "string list \<Rightarrow> string list list \<Rightarrow> nat list" where
  "col_widths cols body =
     map (\<lambda>col. max (length (utf8 (cols ! col))) (foldr max (map (\<lambda>r. length (utf8 (row_cell r col))) body) 0))
       [0..<length cols]"

definition pad_right :: "nat \<Rightarrow> string \<Rightarrow> string" where
  "pad_right w s = s @ replicate (w - length s) (CHR '' '')"

definition write_row :: "string list \<Rightarrow> nat list \<Rightarrow> string" where
  "write_row row widths = concat (map (\<lambda>(cell, w). pad_right w cell @ ''  '') (zip row widths)) @ [CHR 0x0A]"

definition to_uppercase :: "string \<Rightarrow> string" where
  "to_uppercase = map (\<lambda>c. let n = of_char c :: nat in if 97 \<le> n \<and> n \<le> 122 then char_of (n - 32) else c)"

definition text_table :: "(string \<Rightarrow> 'a \<Rightarrow> string) \<Rightarrow> string list \<Rightarrow> 'a list \<Rightarrow> string" where
  "text_table cell_fn cols rows =
     (let body = map (\<lambda>r. map (\<lambda>f. cell_fn f r) cols) rows;
          widths = col_widths cols body
      in write_row (map to_uppercase cols) widths @ concat (map (\<lambda>r. write_row r widths) body))"

end
