(* ===== verification/Cli_Shared.thy ===== *)
theory Cli_Shared
  imports Store_Cmd Connect Frecency Output
begin

text \<open>What the host and credential commands share (\<^verbatim>\<open>cli/cmd/shared.rs\<close> and the
helpers repeated in \<^verbatim>\<open>cli/cmd/host.rs\<close> and \<^verbatim>\<open>cli/cmd/cred.rs\<close>): resolving
a credential name, sealing a pasted key, importing a key from a file or from standard input, selecting and
sorting what a listing shows, and the password line of \<^verbatim>\<open>show\<close>.\<close>

record cmd_env =
  cm_cli :: cli_env
  cm_similarity :: similarity
  cm_splitter :: splitter
  cm_fresh :: ulid
  cm_stdin :: "io_error + bytes"
  cm_data_dir :: "string option"
  cm_frecency_toml :: frecency_toml
  cm_ulid_parse :: "string \<Rightarrow> ulid option"
  cm_keys :: "stored_frecency \<Rightarrow> string list"
  cm_json :: bool

definition resolve_credential_name :: "sshrack_config \<Rightarrow> string option \<Rightarrow> int + ulid option" where
  "resolve_credential_name cfg credential =
     (case credential of
        None \<Rightarrow> Inr None
      | Some name \<Rightarrow>
          (case find_credential_by_name cfg name of
             Some c \<Rightarrow> Inr (Some (c_id c))
           | None \<Rightarrow> Inl EXIT_NOT_FOUND))"

definition seal_inline_body ::
  "crates \<Rightarrow> 'b backend \<Rightarrow> cmd_env \<Rightarrow> credential_body \<Rightarrow> owner_kind \<Rightarrow> ulid \<Rightarrow> sshrack_config \<Rightarrow> 'b world \<Rightarrow>
   (int + credential_body) \<times> 'b world" where
  "seal_inline_body X be env body k u cfg w =
     (case b_key body of
        Some (KeyInline _) \<Rightarrow>
          (case unlock_vault_key X (cm_cli env) cfg w of
             (Inl code, w1) \<Rightarrow> (Inl code, w1)
           | (Inr key, w1) \<Rightarrow>
               (case seal_body X be body k u cfg key w1 of
                  (Inl _, w2) \<Rightarrow> (Inl EXIT_STORE, w2)
                | (Inr b, w2) \<Rightarrow> (Inr b, w2)))
      | _ \<Rightarrow> (Inr body, w))"

definition unregistered_host_hint :: "string \<Rightarrow> string option" where
  "unregistered_host_hint target =
     (if CHR ''@'' \<in> set target \<or> is_address_literal target then None
      else Some ''to reach a host that is not registered, use user@host (or an IP with -c/-l)'')"

section \<open>Listings\<close>

fun select_known :: "string list \<Rightarrow> string list \<Rightarrow> string list \<Rightarrow> int + string list" where
  "select_known allowed [] sel = Inr sel"
| "select_known allowed (name # names) sel =
     (if name \<notin> set allowed then Inl EXIT_VALIDATION
      else select_known allowed names (if name \<in> set sel then sel else sel @ [name]))"

definition selected_fields :: "string option \<Rightarrow> string list \<Rightarrow> int + string list" where
  "selected_fields spec allowed =
     (case spec of
        None \<Rightarrow> Inr allowed
      | Some s \<Rightarrow>
          (let parsed = List.filter (\<lambda>p. p \<noteq> []) (map trim (split_char (CHR '','') s))
           in if parsed = [] then Inr allowed else select_known allowed parsed []))"

datatype sort_mode = SortFrecency | SortName | SortRecent

definition sort_hosts :: "cmd_env \<Rightarrow> host list \<Rightarrow> sort_mode option \<Rightarrow> files \<Rightarrow> host list" where
  "sort_hosts env hs so fs =
     (case so of
        None \<Rightarrow> hs
      | Some mode \<Rightarrow>
          (let frec = (case cm_data_dir env of
                 None \<Rightarrow> Map.empty
               | Some d \<Rightarrow> (case frecency_load (cm_frecency_toml env) (cm_ulid_parse env) (cm_keys env) d fs of
                             Inl _ \<Rightarrow> Map.empty | Inr f \<Rightarrow> f))
           in case mode of
                SortFrecency \<Rightarrow> map rh_host (rank hs [] frec)
              | SortRecent \<Rightarrow> map rh_host (rank_by_recent hs frec)
              | SortName \<Rightarrow> sort_by (\<lambda>a b. compare_of (h_name a) (h_name b)) hs))"

section \<open>Importing a key\<close>

datatype identity_error = IdentityRead io_error | IdentityNotUtf8

definition plain_secret_of :: "bytes \<Rightarrow> identity_error + secret" where
  "plain_secret_of bs =
     and_then (ok_or IdentityNotUtf8 (from_utf8 bs)) (\<lambda>text. Inr (Plain (ensure_trailing_newline text)))"

definition read_secret_file :: "string \<Rightarrow> files \<Rightarrow> identity_error + secret" where
  "read_secret_file path fs = and_then (map_err IdentityRead (read_file path fs)) plain_secret_of"

text \<open>Reading to the end leaves nothing for a second read.\<close>

definition read_secret_stdin :: "io_error + bytes \<Rightarrow> (identity_error + secret) \<times> (io_error + bytes)" where
  "read_secret_stdin inp =
     (case inp of
        Inl e \<Rightarrow> (Inl (IdentityRead e), inp)
      | Inr bs \<Rightarrow> (plain_secret_of bs, Inr []))"

record identity_flags =
  if_stdin :: bool
  if_file :: "string option"
  if_certificate_stdin :: bool
  if_certificate_file :: "string option"

definition imports_identity :: "identity_flags \<Rightarrow> bool" where
  "imports_identity fl \<longleftrightarrow> if_stdin fl \<or> if_file fl \<noteq> None"

text \<open>The pair of a private key and an optional certificate; \<^verbatim>\<open>None\<close> when no inline source was
given.\<close>

definition resolve_inline_identity ::
  "identity_flags \<Rightarrow> io_error + bytes \<Rightarrow> files \<Rightarrow> identity_error + (secret \<times> secret option) option" where
  "resolve_inline_identity fl inp fs =
     (let (private, inp1) =
        (if if_stdin fl then (let (r, i) = read_secret_stdin inp in (map_sum id Some r, i))
         else case if_file fl of
           Some p \<Rightarrow> (map_sum id Some (read_secret_file p fs), inp)
         | None \<Rightarrow> (Inr None, inp))
      in and_then private (\<lambda>pk.
           case pk of
             None \<Rightarrow> Inr None
           | Some private_sec \<Rightarrow>
               and_then
                 (if if_certificate_stdin fl then map_sum id Some (fst (read_secret_stdin inp1))
                  else case if_certificate_file fl of
                    Some p \<Rightarrow> map_sum id Some (read_secret_file p fs)
                  | None \<Rightarrow> Inr None)
                 (\<lambda>cert. Inr (Some (private_sec, cert)))))"

section \<open>The password line\<close>

datatype revealed_password = Masked | Revealed string | KeyringMissing | NoPassword

definition json_password :: "revealed_password \<Rightarrow> string option" where
  "json_password r =
     (case r of Revealed p \<Rightarrow> Some p | KeyringMissing \<Rightarrow> Some ''(not in keyring)'' | _ \<Rightarrow> None)"

definition text_line :: "revealed_password \<Rightarrow> bool \<Rightarrow> string" where
  "text_line r keyring_body =
     (case r of
        Masked \<Rightarrow> if keyring_body then ''(stored in keyring)'' else ''(hidden)''
      | Revealed p \<Rightarrow> p
      | KeyringMissing \<Rightarrow> ''(not in keyring)''
      | NoPassword \<Rightarrow> [])"

definition reveal_password ::
  "crates \<Rightarrow> 'b backend \<Rightarrow> cmd_env \<Rightarrow> sshrack_config \<Rightarrow> host \<Rightarrow> 'b world \<Rightarrow> (int + revealed_password) \<times> 'b world" where
  "reveal_password X be env cfg h w =
     (case unlock_vault_key X (cm_cli env) cfg w of
        (Inl code, w1) \<Rightarrow> (Inl code, w1)
      | (Inr key, w1) \<Rightarrow>
          (case resolve X (cm_similarity env) h cfg key be (w_backend w1) of
             Inl _ \<Rightarrow> (Inl EXIT_STORE, w1)
           | Inr r \<Rightarrow>
               (Inr (case ra_password r of
                   SourceNone \<Rightarrow> NoPassword
                 | SourceInline p \<Rightarrow> Revealed p
                 | SourceConfig _ \<Rightarrow> (case plaintext_password h cfg of Some p \<Rightarrow> Revealed p | None \<Rightarrow> NoPassword)
                 | SourceKeyring key \<Rightarrow>
                     (case bk_get be key (w_backend w1) of Inr (Some p) \<Rightarrow> Revealed p | _ \<Rightarrow> KeyringMissing)), w1)))"

definition body_lines :: "credential_body \<Rightarrow> revealed_password \<Rightarrow> string" where
  "body_lines b reveal =
     ''user:     '' @ b_user b @ [CHR 0x0A] @
     (case b_key b of
        Some k \<Rightarrow> ''key:      '' @ identity_display k @ [CHR 0x0A]
      | None \<Rightarrow>
          if b_keyring b \<or> b_password b \<noteq> None
          then (let line = text_line reveal (b_keyring b)
                in if line = [] then [] else ''password: '' @ line @ [CHR 0x0A])
          else ''auth:     default keys'' @ [CHR 0x0A])"

definition require_name :: "string option \<Rightarrow> int + string" where
  "require_name name = ok_or EXIT_USAGE name"

datatype listing =
    NoListing
  | TextListing string
  | HostRows "host_list_row list"
  | HostDetail host_detail_row
  | CredentialRows "credential_list_row list"
  | CredentialDetail credential_list_row

section \<open>Facts\<close>

text \<open>A selection has no duplicates and only known columns, in the order of their first mention.\<close>

lemma select_known_ok:
  assumes "select_known allowed names sel = Inr r" "distinct sel" "set sel \<subseteq> set allowed"
  shows "distinct r \<and> set r = set sel \<union> set names \<and> set r \<subseteq> set allowed"
  using assms by (induction allowed names sel rule: select_known.induct) (auto split: if_splits)

lemma selected_fields_ok:
  assumes "selected_fields spec allowed = Inr r" "distinct allowed" "allowed \<noteq> []"
  shows "distinct r \<and> set r \<subseteq> set allowed \<and> r \<noteq> []"
proof -
  let ?p = "\<lambda>s. List.filter (\<lambda>p. p \<noteq> []) (map trim (split_char (CHR '','') s))"
  show ?thesis
  proof (cases "\<exists>s. spec = Some s \<and> ?p s \<noteq> []")
    case True
    then obtain s where s: "select_known allowed (?p s) [] = Inr r" "?p s \<noteq> []"
      using assms(1) by (auto simp: selected_fields_def Let_def)
    then show ?thesis using select_known_ok[OF s(1)] by (metis distinct.simps(1) empty_iff empty_set set_empty2 sup_bot_left bot.extremum)
  next
    case False
    then have "r = allowed" using assms(1) by (cases spec) (auto simp: selected_fields_def Let_def)
    then show ?thesis using assms(2,3) by simp
  qed
qed

lemma sort_hosts_mset: "mset (sort_hosts env hs mode fs) = mset hs"
proof -
  have "image_mset rh_host (mset (sort_by cmp (map (ranked frec) hs))) = mset hs" for cmp frec
    by (simp add: ranked_def image_mset.compositionality comp_def)
  then show ?thesis
    by (simp add: sort_hosts_def rank_def rank_by_recent_def Let_def split: option.split sort_mode.split)
qed

end
