(* ===== verification/Cli_Host.thy ===== *)
theory Cli_Host
  imports Cli_Shared
begin

text \<open>The \<^verbatim>\<open>host\<close> command (\<^verbatim>\<open>cli/cmd/host.rs\<close>): add, ls, show, edit, rm
and cp, each from the load of the configuration to its save, with its exit code.\<close>

section \<open>add\<close>

record host_add_flags =
  ha_name :: "string option"
  ha_host :: "string option"
  ha_user :: "string option"
  ha_port :: "16 word option"
  ha_ssh_args :: "string option"
  ha_identity :: "string option"
  ha_import :: identity_flags
  ha_credential :: "string option"
  ha_force :: bool

text \<open>The checks before any field work: the name, the address and the credential's id.\<close>

definition host_add_checks ::
  "cmd_env \<Rightarrow> sshrack_config \<Rightarrow> host_add_flags \<Rightarrow> int + (string \<times> string \<times> ulid option)" where
  "host_add_checks env cfg fl =
     and_then (require_name (ha_name fl)) (\<lambda>name.
     and_then (map_err (\<lambda>_. EXIT_VALIDATION) (validate_name_chars name)) (\<lambda>_.
     and_then (map_err (\<lambda>_. EXIT_VALIDATION) (check_ssh_args (cm_splitter env) (ha_ssh_args fl))) (\<lambda>_.
     and_then (map_err (\<lambda>_. EXIT_DUPLICATE) (validate_no_duplicate cfg name (ha_force fl))) (\<lambda>_.
     and_then (resolve_credential_name cfg (ha_credential fl)) (\<lambda>cred.
     and_then (ok_or EXIT_VALIDATION (ha_host fl)) (\<lambda>addr. Inr (name, addr, cred)))))))"

definition host_add_options :: "host_add_flags \<Rightarrow> string \<Rightarrow> ulid option \<Rightarrow> add_options" where
  "host_add_options fl addr cred =
     \<lparr>ao_host = Some addr, ao_port = ha_port fl, ao_credential = cred, ao_user = ha_user fl,
      ao_identity = ha_identity fl, ao_ssh_args = ha_ssh_args fl, ao_force = ha_force fl\<rparr>"

definition host_add_build ::
  "crates \<Rightarrow> 'b backend \<Rightarrow> cmd_env \<Rightarrow> sshrack_config \<Rightarrow> host_add_flags \<Rightarrow> string \<Rightarrow> string \<Rightarrow> ulid option \<Rightarrow> files \<Rightarrow>
   'b world \<Rightarrow> (int + host) \<times> 'b world" where
  "host_add_build X be env cfg fl name addr cred fs w =
     (if imports_identity (ha_import fl)
      then case resolve_inline_identity (ha_import fl) (cm_stdin env) fs of
             Inr (Some (priv, cert)) \<Rightarrow>
               (case seal_inline_body X be env (with_inline_key priv cert (body_new (opt_or (ha_user fl) ''root'')))
                       OwnerHost (cm_fresh env) cfg w of
                  (Inl code, w1) \<Rightarrow> (Inl code, w1)
                | (Inr sealed, w1) \<Rightarrow>
                    (Inr \<lparr>h_id = cm_fresh env, h_name = name, h_host = addr, h_port = opt_or (ha_port fl) 22,
                          h_ssh_args = normalize_ssh_args (ha_ssh_args fl), h_auth = AuthInline sealed\<rparr>, w1))
           | _ \<Rightarrow> (Inl EXIT_VALIDATION, w)
      else (map_err (\<lambda>_. EXIT_VALIDATION)
              (merge_fields (cm_splitter env) (cm_fresh env) name (host_add_options fl addr cred)), w))"

definition replace_host_by_name :: "string \<Rightarrow> host \<Rightarrow> sshrack_config \<Rightarrow> sshrack_config" where
  "replace_host_by_name name h cfg =
     (case position (\<lambda>x. h_name x = name) (hosts cfg) of
        Some i \<Rightarrow> cfg\<lparr>hosts := (hosts cfg)[i := h]\<rparr>
      | None \<Rightarrow> cfg\<lparr>hosts := hosts cfg @ [h]\<rparr>)"

text \<open>The save that ends every command that writes.\<close>

definition finish_save :: "cmd_env \<Rightarrow> string \<Rightarrow> sshrack_config \<Rightarrow> 'b world \<Rightarrow> files \<Rightarrow> int \<times> 'b cli_state" where
  "finish_save env path cfg w fs =
     (case save_config (cm_cli env) path cfg fs of
        (Inl code, fs') \<Rightarrow> (code, \<lparr>cs_world = w, cs_files = fs'\<rparr>)
      | (Inr _, fs') \<Rightarrow> (EXIT_SUCCESS, \<lparr>cs_world = w, cs_files = fs'\<rparr>))"

definition host_add ::
  "crates \<Rightarrow> 'b backend \<Rightarrow> cmd_env \<Rightarrow> host_add_flags \<Rightarrow> 'b cli_state \<Rightarrow> int \<times> 'b cli_state" where
  "host_add X be env fl st =
     (case load_config (cm_cli env) (cs_files st) of
        Inl code \<Rightarrow> (code, st)
      | Inr (path, cfg) \<Rightarrow>
          (case host_add_checks env cfg fl of
             Inl code \<Rightarrow> (code, st)
           | Inr (name, addr, cred) \<Rightarrow>
               (case host_add_build X be env cfg fl name addr cred (cs_files st) (cs_world st) of
                  (Inl code, w) \<Rightarrow> (code, st\<lparr>cs_world := w\<rparr>)
                | (Inr h, w) \<Rightarrow>
                    if ha_force fl
                    then finish_save env path (replace_host_by_name name h cfg)
                           (w\<lparr>w_backend := forget_keyring_on_overwrite be cfg name (w_backend w)\<rparr>) (cs_files st)
                    else case add_host (cm_splitter env) cfg (cm_fresh env) name (h_host h) (h_port h)
                                (ha_ssh_args fl) (h_auth h) of
                           Inl _ \<Rightarrow> (EXIT_VALIDATION, st\<lparr>cs_world := w\<rparr>)
                         | Inr next_cfg \<Rightarrow> finish_save env path next_cfg w (cs_files st))))"

section \<open>ls and show\<close>

definition ALL_HOST_FIELDS :: "string list" where
  "ALL_HOST_FIELDS = [''name'', ''host'', ''user'', ''port'', ''auth'']"

definition derive_user :: "auth \<Rightarrow> sshrack_config \<Rightarrow> string" where
  "derive_user a cfg =
     (case a of
        AuthInline body \<Rightarrow> b_user body
      | AuthRef c \<Rightarrow> (case find_credential_by_id cfg c of Some cr \<Rightarrow> b_user (c_body cr) | None \<Rightarrow> ''?''))"

definition derive_auth_label :: "auth \<Rightarrow> sshrack_config \<Rightarrow> string" where
  "derive_auth_label a cfg =
     (case a of
        AuthRef c \<Rightarrow> (case find_credential_by_id cfg c of Some cr \<Rightarrow> ''cred:'' @ c_name cr | None \<Rightarrow> ''cred:?'')
      | AuthInline body \<Rightarrow> secret_kind_label (secret_kind_of body))"

definition credential_name_for_host :: "sshrack_config \<Rightarrow> host \<Rightarrow> string option" where
  "credential_name_for_host cfg h =
     (case h_auth h of AuthRef c \<Rightarrow> map_option c_name (find_credential_by_id cfg c) | AuthInline _ \<Rightarrow> None)"

definition host_cell :: "sshrack_config \<Rightarrow> string \<Rightarrow> host \<Rightarrow> string" where
  "host_cell cfg field h =
     (if field = ''name'' then h_name h
      else if field = ''host'' then h_host h
      else if field = ''user'' then derive_user (h_auth h) cfg
      else if field = ''port'' then show_nat (unat (h_port h))
      else if field = ''auth'' then derive_auth_label (h_auth h) cfg
      else [])"

definition host_ls :: "cmd_env \<Rightarrow> string option \<Rightarrow> sort_mode option \<Rightarrow> files \<Rightarrow> int \<times> listing" where
  "host_ls env spec so fs =
     (case load_config (cm_cli env) fs of
        Inl code \<Rightarrow> (code, NoListing)
      | Inr (_, cfg) \<Rightarrow>
          if hosts cfg = [] then (EXIT_SUCCESS, NoListing)
          else case selected_fields spec ALL_HOST_FIELDS of
            Inl code \<Rightarrow> (code, NoListing)
          | Inr selected \<Rightarrow>
              (let ordered = sort_hosts env (hosts cfg) so fs
               in (EXIT_SUCCESS,
                   if cm_json env
                   then HostRows (map (\<lambda>h. build_host_list_row h (credential_name_for_host cfg h)) ordered)
                   else TextListing (text_table (host_cell cfg) selected ordered))))"

definition host_format_detail ::
  "sshrack_config \<Rightarrow> host \<Rightarrow> string option \<Rightarrow> revealed_password \<Rightarrow> string" where
  "host_format_detail cfg h cred_name reveal =
     (let nl = [CHR 0x0A]
      in ''name:     '' @ h_name h @ nl @ ''id:       '' @ h_id h @ nl @ ''host:     '' @ h_host h @ nl
         @ ''port:     '' @ show_nat (unat (h_port h)) @ nl
         @ (case h_ssh_args h of Some a \<Rightarrow> ''ssh-args: '' @ a @ nl | None \<Rightarrow> [])
         @ (case h_auth h of
              AuthRef c \<Rightarrow>
                (case find_credential_by_id cfg c of
                   Some cr \<Rightarrow> ''auth:     credential '' @ [CHR 39] @ c_name cr @ [CHR 39] @ nl @ body_lines (c_body cr) reveal
                 | None \<Rightarrow> ''auth:     credential '' @ [CHR 39] @ opt_or cred_name c @ [CHR 39] @ nl
                           @ ''user:     (dangling reference)'' @ nl)
            | AuthInline body \<Rightarrow> body_lines body reveal))"

definition host_show ::
  "crates \<Rightarrow> 'b backend \<Rightarrow> cmd_env \<Rightarrow> string \<Rightarrow> bool \<Rightarrow> 'b cli_state \<Rightarrow> (int \<times> listing) \<times> 'b cli_state" where
  "host_show X be env name reveal st =
     (case load_config (cm_cli env) (cs_files st) of
        Inl code \<Rightarrow> ((code, NoListing), st)
      | Inr (_, cfg) \<Rightarrow>
          (case find_host_by_name cfg name of
             None \<Rightarrow> ((EXIT_NOT_FOUND, NoListing), st)
           | Some h \<Rightarrow>
               (case (if reveal then reveal_password X be env cfg h (cs_world st) else (Inr Masked, cs_world st)) of
                  (Inl code, w) \<Rightarrow> ((code, NoListing), st\<lparr>cs_world := w\<rparr>)
                | (Inr r, w) \<Rightarrow>
                    ((EXIT_SUCCESS,
                      let cred_name = credential_name_for_host cfg h
                      in if cm_json env then HostDetail (build_host_detail_row h (h_id h) cred_name (json_password r))
                         else TextListing (host_format_detail cfg h cred_name r)),
                     st\<lparr>cs_world := w\<rparr>))))"

section \<open>edit\<close>

record host_edit_flags =
  he_name :: "string option"
  he_options :: edit_options
  he_import :: identity_flags
  he_credential :: "string option"

definition host_edit_has_any_flag :: "host_edit_flags \<Rightarrow> bool" where
  "host_edit_has_any_flag fl \<longleftrightarrow>
     (let o1 = he_options fl; im = he_import fl
      in eo_host o1 \<noteq> None \<or> eo_port o1 \<noteq> None \<or> eo_user o1 \<noteq> None \<or> eo_ssh_args o1 \<noteq> None
         \<or> eo_clear_ssh_args o1 \<or> eo_identity o1 \<noteq> None \<or> if_stdin im \<or> if_file im \<noteq> None
         \<or> if_certificate_stdin im \<or> if_certificate_file im \<noteq> None \<or> eo_rename o1 \<noteq> None
         \<or> he_credential fl \<noteq> None \<or> eo_clear_identity o1 \<or> eo_clear_password o1 \<or> eo_clear_credential o1)"

definition host_edit_import ::
  "crates \<Rightarrow> 'b backend \<Rightarrow> cmd_env \<Rightarrow> sshrack_config \<Rightarrow> host \<Rightarrow> host_edit_flags \<Rightarrow> files \<Rightarrow> 'b world \<Rightarrow>
   (int + host) \<times> 'b world" where
  "host_edit_import X be env cfg orig fl fs w =
     (let o1 = he_options fl;
          user = opt_or (eo_user o1) (case h_auth orig of AuthInline body \<Rightarrow> b_user body | AuthRef _ \<Rightarrow> ''root'')
      in case resolve_inline_identity (he_import fl) (cm_stdin env) fs of
           Inr (Some (priv, cert)) \<Rightarrow>
             (case seal_inline_body X be env (with_inline_key priv cert (body_new user)) OwnerHost (h_id orig) cfg w of
                (Inl code, w1) \<Rightarrow> (Inl code, w1)
              | (Inr sealed, w1) \<Rightarrow>
                  (Inr \<lparr>h_id = h_id orig, h_name = opt_or (eo_rename o1) (h_name orig),
                        h_host = opt_or (eo_host o1) (h_host orig), h_port = opt_or (eo_port o1) (h_port orig),
                        h_ssh_args = (if eo_clear_ssh_args o1 then None
                                      else case eo_ssh_args o1 of Some raw \<Rightarrow> normalize_ssh_args (Some raw)
                                                                | None \<Rightarrow> h_ssh_args orig),
                        h_auth = AuthInline sealed\<rparr>, w1))
         | _ \<Rightarrow> (Inl EXIT_VALIDATION, w))"

definition replace_host_by_id :: "ulid \<Rightarrow> host \<Rightarrow> sshrack_config \<Rightarrow> sshrack_config" where
  "replace_host_by_id u h cfg =
     (case position (\<lambda>x. h_id x = u) (hosts cfg) of
        Some i \<Rightarrow> cfg\<lparr>hosts := (hosts cfg)[i := h]\<rparr>
      | None \<Rightarrow> cfg)"

definition host_edit ::
  "crates \<Rightarrow> 'b backend \<Rightarrow> cmd_env \<Rightarrow> host_edit_flags \<Rightarrow> 'b cli_state \<Rightarrow> int \<times> 'b cli_state" where
  "host_edit X be env fl st =
     (case load_config (cm_cli env) (cs_files st) of
        Inl code \<Rightarrow> (code, st)
      | Inr (path, cfg) \<Rightarrow>
          (case require_name (he_name fl) of
             Inl code \<Rightarrow> (code, st)
           | Inr name \<Rightarrow>
               (case find_host_by_name cfg name of
                  None \<Rightarrow> (EXIT_NOT_FOUND, st)
                | Some orig \<Rightarrow>
                    if (case eo_rename (he_options fl) of Some new \<Rightarrow> \<not> is_ok (validate_rename cfg name new) | None \<Rightarrow> False)
                    then (EXIT_DUPLICATE, st)
                    else if \<not> is_ok (check_ssh_args (cm_splitter env) (eo_ssh_args (he_options fl)))
                    then (EXIT_VALIDATION, st)
                    else if \<not> host_edit_has_any_flag fl then (EXIT_SUCCESS, st)
                    else case resolve_credential_name cfg (he_credential fl) of
                      Inl code \<Rightarrow> (code, st)
                    | Inr cred \<Rightarrow>
                        (case (if imports_identity (he_import fl)
                               then host_edit_import X be env cfg orig fl (cs_files st) (cs_world st)
                               else (map_err (\<lambda>_. EXIT_VALIDATION)
                                       (apply_patch (cm_splitter env) orig ((he_options fl)\<lparr>eo_credential := cred\<rparr>)),
                                     cs_world st)) of
                           (Inl code, w) \<Rightarrow> (code, st\<lparr>cs_world := w\<rparr>)
                         | (Inr updated, w) \<Rightarrow>
                             finish_save env path (replace_host_by_id (h_id orig) updated cfg) w (cs_files st)))))"

section \<open>rm and cp\<close>

definition map_not_found_or_validation :: "sshrack_error \<Rightarrow> int" where
  "map_not_found_or_validation e =
     (case e of HostNotFound _ _ \<Rightarrow> EXIT_NOT_FOUND | CredentialNotFound _ _ \<Rightarrow> EXIT_NOT_FOUND | _ \<Rightarrow> EXIT_VALIDATION)"

definition host_rm ::
  "'b backend \<Rightarrow> cmd_env \<Rightarrow> string option \<Rightarrow> bool \<Rightarrow> 'b cli_state \<Rightarrow> int \<times> 'b cli_state" where
  "host_rm be env name yes st =
     (case load_config (cm_cli env) (cs_files st) of
        Inl code \<Rightarrow> (code, st)
      | Inr (path, cfg) \<Rightarrow>
          (case require_name name of
             Inl code \<Rightarrow> (code, st)
           | Inr n \<Rightarrow>
               if \<not> (yes \<or> ce_confirm (cm_cli env)) then (EXIT_USAGE, st)
               else case delete_host_with_secret (cm_similarity env) be cfg n (w_backend (cs_world st)) of
                 (Inl e, s) \<Rightarrow> (map_not_found_or_validation e, st\<lparr>cs_world := (cs_world st)\<lparr>w_backend := s\<rparr>\<rparr>)
               | (Inr next_cfg, s) \<Rightarrow> finish_save env path next_cfg ((cs_world st)\<lparr>w_backend := s\<rparr>) (cs_files st)))"

definition host_cp ::
  "'b backend \<Rightarrow> cmd_env \<Rightarrow> string option \<Rightarrow> string option \<Rightarrow> 'b cli_state \<Rightarrow> int \<times> 'b cli_state" where
  "host_cp be env src dst st =
     (case load_config (cm_cli env) (cs_files st) of
        Inl code \<Rightarrow> (code, st)
      | Inr (path, cfg) \<Rightarrow>
          (case (src, dst) of
             (Some src_name, Some dst_name) \<Rightarrow>
               if \<not> is_ok (validate_dst cfg dst_name) then (EXIT_DUPLICATE, st)
               else case find_host_by_name cfg src_name of
                 None \<Rightarrow> (EXIT_NOT_FOUND, st)
               | Some src_host \<Rightarrow>
                   (let cloned = clone_host_as src_host (cm_fresh env) dst_name;
                        (_, s) = copy_host_keyring_entry be src_host cloned (w_backend (cs_world st))
                    in finish_save env path (cfg\<lparr>hosts := hosts cfg @ [cloned]\<rparr>) ((cs_world st)\<lparr>w_backend := s\<rparr>)
                         (cs_files st))
           | _ \<Rightarrow> (EXIT_USAGE, st)))"

end
