(* ===== verification/Cli_Cred.thy ===== *)
theory Cli_Cred
  imports Cli_Host
begin

text \<open>The \<^verbatim>\<open>cred\<close> command (\<^verbatim>\<open>cli/cmd/cred.rs\<close>): add, ls, show, edit and
rm of reusable credentials, and the dispatch of both commands.\<close>

section \<open>add\<close>

record cred_add_flags =
  cf_name :: "string option"
  cf_user :: "string option"
  cf_identity :: "string option"
  cf_import :: identity_flags
  cf_force :: bool

definition cred_add_body ::
  "crates \<Rightarrow> 'b backend \<Rightarrow> cmd_env \<Rightarrow> sshrack_config \<Rightarrow> cred_add_flags \<Rightarrow> files \<Rightarrow> 'b world \<Rightarrow>
   (int + credential_body) \<times> 'b world" where
  "cred_add_body X be env cfg fl fs w =
     (if imports_identity (cf_import fl)
      then case cf_user fl of
             None \<Rightarrow> (Inl EXIT_VALIDATION, w)
           | Some user \<Rightarrow>
               (case resolve_inline_identity (cf_import fl) (cm_stdin env) fs of
                  Inr (Some (priv, cert)) \<Rightarrow>
                    seal_inline_body X be env (with_inline_key priv cert (body_new user)) OwnerCredential
                      (cm_fresh env) cfg w
                | _ \<Rightarrow> (Inl EXIT_VALIDATION, w))
      else (map_err (\<lambda>_. EXIT_VALIDATION)
              (build_body \<lparr>ca_user = cf_user fl, ca_identity = cf_identity fl, ca_force = cf_force fl\<rparr>), w))"

definition cred_add ::
  "crates \<Rightarrow> 'b backend \<Rightarrow> cmd_env \<Rightarrow> cred_add_flags \<Rightarrow> 'b cli_state \<Rightarrow> int \<times> 'b cli_state" where
  "cred_add X be env fl st =
     (case load_config (cm_cli env) (cs_files st) of
        Inl code \<Rightarrow> (code, st)
      | Inr (path, cfg) \<Rightarrow>
          (case require_name (cf_name fl) of
             Inl code \<Rightarrow> (code, st)
           | Inr name \<Rightarrow>
               if \<not> is_ok (validate_name_chars name) then (EXIT_VALIDATION, st)
               else if \<not> is_ok (validate_no_duplicate_credential cfg name (cf_force fl)) then (EXIT_DUPLICATE, st)
               else case cred_add_body X be env cfg fl (cs_files st) (cs_world st) of
                 (Inl code, w) \<Rightarrow> (code, st\<lparr>cs_world := w\<rparr>)
               | (Inr body, w) \<Rightarrow>
                   (case add_credential cfg (cm_fresh env) name body of
                      Inl _ \<Rightarrow> (EXIT_VALIDATION, st\<lparr>cs_world := w\<rparr>)
                    | Inr next_cfg \<Rightarrow> finish_save env path next_cfg w (cs_files st))))"

section \<open>ls and show\<close>

definition ALL_CRED_FIELDS :: "string list" where
  "ALL_CRED_FIELDS = [''name'', ''user'', ''secret'']"

definition cred_cell :: "string \<Rightarrow> credential \<Rightarrow> string" where
  "cred_cell field c =
     (if field = ''name'' then c_name c
      else if field = ''user'' then b_user (c_body c)
      else if field = ''secret'' then secret_kind_label (secret_kind_of (c_body c))
      else [])"

definition cred_ls :: "cmd_env \<Rightarrow> string option \<Rightarrow> files \<Rightarrow> int \<times> listing" where
  "cred_ls env spec fs =
     (case load_config (cm_cli env) fs of
        Inl code \<Rightarrow> (code, NoListing)
      | Inr (_, cfg) \<Rightarrow>
          if credentials cfg = [] then (EXIT_SUCCESS, NoListing)
          else case selected_fields spec ALL_CRED_FIELDS of
            Inl code \<Rightarrow> (code, NoListing)
          | Inr selected \<Rightarrow>
              (EXIT_SUCCESS,
               if cm_json env then CredentialRows (map (\<lambda>c. build_credential_list_row c None) (credentials cfg))
               else TextListing (text_table cred_cell selected (credentials cfg))))"

definition cred_format_detail :: "credential \<Rightarrow> revealed_password \<Rightarrow> string" where
  "cred_format_detail c reveal =
     ''name:     '' @ c_name c @ [CHR 0x0A] @ ''id:       '' @ c_id c @ [CHR 0x0A] @ body_lines (c_body c) reveal"

text \<open>A password is revealed through a host that refers to the credential and is never connected to.\<close>

definition host_shell :: "cmd_env \<Rightarrow> credential \<Rightarrow> host" where
  "host_shell env c =
     \<lparr>h_id = cm_fresh env, h_name = c_name c, h_host = [], h_port = 22, h_ssh_args = None, h_auth = AuthRef (c_id c)\<rparr>"

definition cred_show ::
  "crates \<Rightarrow> 'b backend \<Rightarrow> cmd_env \<Rightarrow> string \<Rightarrow> bool \<Rightarrow> 'b cli_state \<Rightarrow> (int \<times> listing) \<times> 'b cli_state" where
  "cred_show X be env name reveal st =
     (case load_config (cm_cli env) (cs_files st) of
        Inl code \<Rightarrow> ((code, NoListing), st)
      | Inr (_, cfg) \<Rightarrow>
          (case find_credential_by_name cfg name of
             None \<Rightarrow> ((EXIT_NOT_FOUND, NoListing), st)
           | Some c \<Rightarrow>
               (case (if reveal then reveal_password X be env cfg (host_shell env c) (cs_world st)
                      else (Inr Masked, cs_world st)) of
                  (Inl code, w) \<Rightarrow> ((code, NoListing), st\<lparr>cs_world := w\<rparr>)
                | (Inr r, w) \<Rightarrow>
                    ((EXIT_SUCCESS,
                      if cm_json env then CredentialDetail (build_credential_list_row c (json_password r))
                      else TextListing (cred_format_detail c r)),
                     st\<lparr>cs_world := w\<rparr>))))"

section \<open>edit\<close>

record cred_edit_flags =
  cg_name :: "string option"
  cg_options :: cred_edit_options
  cg_import :: identity_flags

definition cred_flags_given :: "cred_edit_flags \<Rightarrow> bool" where
  "cred_flags_given fl \<longleftrightarrow>
     (let o1 = cg_options fl; im = cg_import fl
      in ce_user o1 \<noteq> None \<or> ce_identity o1 \<noteq> None \<or> if_stdin im \<or> if_file im \<noteq> None
         \<or> if_certificate_stdin im \<or> if_certificate_file im \<noteq> None \<or> ce_clear_identity o1 \<or> ce_rename o1 \<noteq> None)"

definition cred_edit_import ::
  "crates \<Rightarrow> 'b backend \<Rightarrow> cmd_env \<Rightarrow> sshrack_config \<Rightarrow> credential \<Rightarrow> cred_edit_flags \<Rightarrow> files \<Rightarrow> 'b world \<Rightarrow>
   (int + credential) \<times> 'b world" where
  "cred_edit_import X be env cfg orig fl fs w =
     (case resolve_inline_identity (cg_import fl) (cm_stdin env) fs of
        Inr (Some (priv, cert)) \<Rightarrow>
          (case seal_inline_body X be env
                  (with_inline_key priv cert (body_new (opt_or (ce_user (cg_options fl)) (b_user (c_body orig)))))
                  OwnerCredential (c_id orig) cfg w of
             (Inl code, w1) \<Rightarrow> (Inl code, w1)
           | (Inr sealed, w1) \<Rightarrow>
               (Inr \<lparr>c_id = c_id orig, c_name = opt_or (ce_rename (cg_options fl)) (c_name orig), c_body = sealed\<rparr>, w1))
      | _ \<Rightarrow> (Inl EXIT_VALIDATION, w))"

definition replace_credential_by_id :: "ulid \<Rightarrow> credential \<Rightarrow> sshrack_config \<Rightarrow> sshrack_config" where
  "replace_credential_by_id u c cfg =
     (case position (\<lambda>x. c_id x = u) (credentials cfg) of
        Some i \<Rightarrow> cfg\<lparr>credentials := (credentials cfg)[i := c]\<rparr>
      | None \<Rightarrow> cfg)"

definition cred_edit ::
  "crates \<Rightarrow> 'b backend \<Rightarrow> cmd_env \<Rightarrow> cred_edit_flags \<Rightarrow> 'b cli_state \<Rightarrow> int \<times> 'b cli_state" where
  "cred_edit X be env fl st =
     (case load_config (cm_cli env) (cs_files st) of
        Inl code \<Rightarrow> (code, st)
      | Inr (path, cfg) \<Rightarrow>
          (case require_name (cg_name fl) of
             Inl code \<Rightarrow> (code, st)
           | Inr name \<Rightarrow>
               (case find_credential_by_name cfg name of
                  None \<Rightarrow> (EXIT_NOT_FOUND, st)
                | Some orig \<Rightarrow>
                    if (case ce_rename (cg_options fl) of
                          Some new \<Rightarrow> \<not> is_ok (validate_rename_credential cfg name new) | None \<Rightarrow> False)
                    then (EXIT_DUPLICATE, st)
                    else if \<not> cred_flags_given fl then (EXIT_SUCCESS, st)
                    else case (if imports_identity (cg_import fl)
                               then cred_edit_import X be env cfg orig fl (cs_files st) (cs_world st)
                               else (map_err (\<lambda>_. EXIT_VALIDATION) (apply_credential_patch orig (cg_options fl)),
                                     cs_world st)) of
                      (Inl code, w) \<Rightarrow> (code, st\<lparr>cs_world := w\<rparr>)
                    | (Inr updated, w) \<Rightarrow>
                        finish_save env path (replace_credential_by_id (c_id orig) updated cfg) w (cs_files st))))"

section \<open>rm\<close>

text \<open>The names of the hosts that refer to a credential, as the warning lists them.\<close>

definition referrer_names :: "sshrack_config \<Rightarrow> ulid \<Rightarrow> string list" where
  "referrer_names cfg u = List.map_filter (\<lambda>hid. map_option h_name (find_host_by_id cfg hid)) (find_referrers cfg u)"

definition cred_rm ::
  "'b backend \<Rightarrow> cmd_env \<Rightarrow> string option \<Rightarrow> bool \<Rightarrow> 'b cli_state \<Rightarrow> int \<times> 'b cli_state" where
  "cred_rm be env name yes st =
     (case load_config (cm_cli env) (cs_files st) of
        Inl code \<Rightarrow> (code, st)
      | Inr (path, cfg) \<Rightarrow>
          (case require_name name of
             Inl code \<Rightarrow> (code, st)
           | Inr n \<Rightarrow>
               if find_credential_by_name cfg n = None then (EXIT_NOT_FOUND, st)
               else if \<not> (yes \<or> ce_confirm (cm_cli env)) then (EXIT_USAGE, st)
               else case delete_credential_with_secret (cm_similarity env) be cfg n (w_backend (cs_world st)) of
                 (Inl _, s) \<Rightarrow> (EXIT_NOT_FOUND, st\<lparr>cs_world := (cs_world st)\<lparr>w_backend := s\<rparr>\<rparr>)
               | (Inr next_cfg, s) \<Rightarrow> finish_save env path next_cfg ((cs_world st)\<lparr>w_backend := s\<rparr>) (cs_files st)))"

section \<open>Dispatch\<close>

datatype host_action =
    HostAdd host_add_flags
  | HostLs "string option" "sort_mode option"
  | HostShow string bool
  | HostEdit host_edit_flags
  | HostRm "string option" bool
  | HostCp "string option" "string option"

datatype cred_action =
    CredAdd cred_add_flags
  | CredLs "string option"
  | CredShow string bool
  | CredEdit cred_edit_flags
  | CredRm "string option" bool

definition host_run ::
  "crates \<Rightarrow> 'b backend \<Rightarrow> cmd_env \<Rightarrow> host_action \<Rightarrow> 'b cli_state \<Rightarrow> int \<times> 'b cli_state" where
  "host_run X be env action st =
     (case action of
        HostAdd fl \<Rightarrow> host_add X be env fl st
      | HostLs spec so \<Rightarrow> (fst (host_ls env spec so (cs_files st)), st)
      | HostShow name reveal \<Rightarrow> (case host_show X be env name reveal st of ((code, _), st') \<Rightarrow> (code, st'))
      | HostEdit fl \<Rightarrow> host_edit X be env fl st
      | HostRm name yes \<Rightarrow> host_rm be env name yes st
      | HostCp src dst \<Rightarrow> host_cp be env src dst st)"

definition cred_run ::
  "crates \<Rightarrow> 'b backend \<Rightarrow> cmd_env \<Rightarrow> cred_action \<Rightarrow> 'b cli_state \<Rightarrow> int \<times> 'b cli_state" where
  "cred_run X be env action st =
     (case action of
        CredAdd fl \<Rightarrow> cred_add X be env fl st
      | CredLs spec \<Rightarrow> (fst (cred_ls env spec (cs_files st)), st)
      | CredShow name reveal \<Rightarrow> (case cred_show X be env name reveal st of ((code, _), st') \<Rightarrow> (code, st'))
      | CredEdit fl \<Rightarrow> cred_edit X be env fl st
      | CredRm name yes \<Rightarrow> cred_rm be env name yes st)"

end
