(* ===== verification/Store_Facts.thy ===== *)
theory Store_Facts
  imports Store_Cmd
begin

text \<open>What the \<^verbatim>\<open>store\<close> command does to the secrets and the configuration file: a switch or a
rekey that reports success keeps every secret, and anything else leaves the file alone.  The availability
probe is part of the backend's contract here (\<^verbatim>\<open>probed_backend\<close>): it may write only the probe
entry.\<close>

section \<open>The probe\<close>

lemma probe_not_a_slot: "PROBE_KEY \<notin> owner_slots k u"
  by (cases k) (auto simp: PROBE_KEY_def owner_slots_def keyring_key_inline_priv_def keyring_key_inline_cert_def)

lemma config_view_probe:
  assumes "frame {PROBE_KEY} m m'"
  shows "config_view X key m' cfg = config_view X key m cfg" "slots_in_step m' cfg = slots_in_step m cfg"
proof -
  have eq: "m' x = m x" if "x \<in> owner_slots k u" for x k u
  proof -
    have "x \<noteq> PROBE_KEY" using that probe_not_a_slot by metis
    then show ?thesis using assms by (simp add: frame_def)
  qed
  have v: "body_view X key m' k u b = body_view X key m k u b" for k u b
    by (rule body_view_local) (rule eq)
  have s: "slots_ok m' k u b = slots_ok m k u b" for k u b
    by (rule slots_ok_local) (rule eq)
  show "config_view X key m' cfg = config_view X key m cfg"
    by (simp add: config_view_def host_view_def credential_view_def v split: auth.split)
  show "slots_in_step m' cfg = slots_in_step m cfg"
    by (simp add: slots_in_step_def list_all_iff s split: auth.split)
qed

locale probed_backend = secret_backend +
  assumes available_frame: "key \<noteq> PROBE_KEY \<Longrightarrow> entries (snd (bk_available be s)) key = entries s key"
begin

lemma probe_frame:
  "probe_backend be w = (ok, w') \<Longrightarrow> frame {PROBE_KEY} (entries (w_backend w)) (entries (w_backend w'))"
  using available_frame[of _ "w_backend w"] by (auto simp: probe_backend_def frame_def split: prod.splits)

end

interpretation fake_probed: probed_backend fake_backend fake_view
  by unfold_locales (simp add: fake_backend_def)

lemma os_keyring_probed:
  assumes kc: "keyring_crate_ok kc ent"
  shows "probed_backend (os_keyring kc) (\<lambda>s. ent s SERVICE)"
proof -
  have del: "ent (snd (kc_delete_credential kc SERVICE PROBE_KEY s)) SERVICE key = ent s SERVICE key"
    if "key \<noteq> PROBE_KEY" for s key
  proof (cases "kc_delete_credential kc SERVICE PROBE_KEY s")
    case (Pair r s')
    show ?thesis
    proof (cases r)
      case (Inl e)
      then have "ent s' = ent s"
        using kc Pair by (cases e) (auto simp: keyring_crate_ok_def)
      then show ?thesis using Pair by simp
    next
      case (Inr u)
      then show ?thesis using keyring_crate_delete[OF kc, of SERVICE PROBE_KEY s s'] Pair that by simp
    qed
  qed
  have "ent (snd (daemon_available kc s)) SERVICE key = ent s SERVICE key" if "key \<noteq> PROBE_KEY" for s key
  proof (cases "kc_set_password kc SERVICE PROBE_KEY '''' s")
    case (Pair r s')
    show ?thesis
    proof (cases r)
      case (Inl e)
      then have "ent s' = ent s" using kc Pair by (auto simp: keyring_crate_ok_def)
      then show ?thesis using Pair Inl by (simp add: daemon_available_def)
    next
      case (Inr u)
      then have "ent s' SERVICE key = ent s SERVICE key"
        using keyring_crate_set[OF kc, of SERVICE PROBE_KEY "''''" s s'] Pair that by simp
      then show ?thesis using Pair Inr del[OF that, of s'] by (simp add: daemon_available_def)
    qed
  qed
  then show ?thesis
    using os_keyring_lawful[OF kc] by (simp add: probed_backend_def probed_backend_axioms_def os_keyring_def)
qed

text \<open>The keyring of the operating system over a lawful crate, and a crate that is a table of the secrets by
service and account.\<close>

locale keyring_service =
  fixes kc :: "'s keyring_crate" and ent :: "'s \<Rightarrow> string \<Rightarrow> string \<rightharpoonup> string"
  assumes lawful: "keyring_crate_ok kc ent"

sublocale keyring_service \<subseteq> os: probed_backend "os_keyring kc" "\<lambda>s. ent s SERVICE"
  by (rule os_keyring_probed[OF lawful])

definition table_crate :: "(string \<Rightarrow> string \<rightharpoonup> string) keyring_crate" where
  "table_crate =
     \<lparr>kc_entry_new = (\<lambda>_ _ _. True),
      kc_set_password = (\<lambda>srv key p s. (Inr (), s(srv := (s srv)(key \<mapsto> p)))),
      kc_get_password = (\<lambda>srv key s. case s srv key of Some p \<Rightarrow> Inr p | None \<Rightarrow> Inl KrNoEntry),
      kc_delete_credential = (\<lambda>srv key s.
        if s srv key = None then (Inl KrNoEntry, s) else (Inr (), s(srv := (s srv)(key := None))))\<rparr>"

interpretation table: keyring_service table_crate "\<lambda>s. s"
  by unfold_locales (auto simp: keyring_crate_ok_def table_crate_def split: option.splits if_splits)

section \<open>Steps that keep the backend\<close>

lemma clear_default_cache_backend [simp]: "w_backend (clear_default_cache ve w) = w_backend w"
  by (auto simp: clear_default_cache_def clear_cache_def split: option.splits io_error.splits)

lemma write_cache_backend [simp]: "w_backend (snd (write_cache f p k t w)) = w_backend w"
  by (auto simp: write_cache_def split: option.splits)

lemma unlock_with_passphrase_backend [simp]:
  "w_backend (snd (unlock_with_passphrase X ve meta p cp w)) = w_backend w"
  by (auto simp: unlock_with_passphrase_def split: sum.splits option.splits)

lemma unlock_backend [simp]: "w_backend (snd (unlock X ve cfg cp e pr w)) = w_backend w"
proof -
  have "w_backend (snd (case unlock_with_passphrase X ve meta p cp w of
      (Inl e, w') \<Rightarrow> (Inl e, w') | (Inr key, w') \<Rightarrow> (Inr (Some key), w'))) = w_backend w" for meta p
  proof -
    obtain r w' where u: "unlock_with_passphrase X ve meta p cp w = (r, w')" by fastforce
    then have "w_backend w' = w_backend w" using unlock_with_passphrase_backend[of X ve meta p cp w] by simp
    then show ?thesis using u by (simp split: sum.split)
  qed
  then show ?thesis by (auto simp: unlock_def split: option.splits sum.splits)
qed

text \<open>The vault key that a configuration is read with.\<close>

definition opens :: "crates \<Rightarrow> sshrack_config \<Rightarrow> vault_key option \<Rightarrow> bool" where
  "opens X cfg k \<longleftrightarrow>
     (case vault_meta_of cfg of
        None \<Rightarrow> k = None
      | Some meta \<Rightarrow> \<exists>key v. k = Some key \<and> verifier meta = Some v \<and> decrypt X v key \<noteq> None)"

lemma unlock_opens:
  assumes "unlock X ve cfg cp e pr w = (Inr k, w')"
  shows "opens X cfg k"
  using assms by (auto simp: unlock_def unlock_with_passphrase_def cached_key_def cached_key_is_valid_def opens_def
      split: option.splits sum.splits prod.splits if_splits)

lemma ensure_unlocked_ok:
  assumes "ensure_unlocked_vault_key X ve cfg e pr w = (r, w')"
  shows "w_backend w' = w_backend w" and "r = Inr k \<Longrightarrow> opens X cfg k"
proof -
  obtain r1 w1 where u: "unlock X ve cfg None e pr w = (r1, w1)" by fastforce
  have b: "w_backend w1 = w_backend w" using unlock_backend[of X ve cfg None e pr w] u by simp
  show "w_backend w' = w_backend w"
    using assms u b by (auto simp: ensure_unlocked_vault_key_def split: if_splits sum.splits option.splits)
  show "opens X cfg k" if "r = Inr k"
    using assms u that unlock_opens[of X ve cfg None e pr w]
    by (auto simp: ensure_unlocked_vault_key_def opens_def is_vault_def vault_meta_of_def
        split: if_splits sum.splits option.splits secret_store.splits)
qed

lemma source_key_ok:
  assumes "source_key_for X env cfg mode w = (r, w')" "mode \<noteq> ModeVault"
  shows "w_backend w' = w_backend w" and "r = Inr k \<Longrightarrow> classify cfg mode \<noteq> AlreadyThere \<Longrightarrow> opens X cfg k"
proof -
  obtain r1 w1 where u: "ensure_unlocked_vault_key X (ce_vault env) cfg (passphrase_from (ce_passphrase_env env))
      (ce_provider env) w = (r1, w1)" by fastforce
  note k = ensure_unlocked_ok[OF u]
  show "w_backend w' = w_backend w"
    using assms(1) u k(1) by (auto simp: source_key_for_def unlock_vault_key_def split: if_splits sum.splits)
  show "opens X cfg k" if "r = Inr k" "classify cfg mode \<noteq> AlreadyThere"
  proof (cases "classify cfg mode = SwitchMigrate True")
    case True
    then show ?thesis
      using assms(1) u k(2)[of k] that(1) by (auto simp: source_key_for_def unlock_vault_key_def split: sum.splits)
  next
    case False
    then have "\<not> is_vault cfg" using that(2) assms(2) by (auto simp: classify_def split: if_splits)
    then show ?thesis
      using False assms(1) that(1)
      by (auto simp: source_key_for_def opens_def is_vault_def vault_meta_of_def split: option.splits secret_store.splits)
  qed
qed

section \<open>The configuration file\<close>

definition disk_ok :: "cli_env \<Rightarrow> string \<Rightarrow> files \<Rightarrow> bool" where
  "disk_ok env path fs \<longleftrightarrow>
     toml_ok (ce_toml env) \<and> os_removes (ce_os env)
     \<and> resolve_config_path (ce_default_config env) (ce_config env) = Some path
     \<and> (\<exists>d n. path = d @ CHR ''/'' # n \<and> plain_dir d \<and> plain_name n)
     \<and> fs (atomic_temp_path (ce_os env) path) = None"

lemma save_config_ok:
  assumes "disk_ok env path fs" "save_config env path cfg fs = (r, fs')"
  shows "r = Inl code \<Longrightarrow> fs' = fs \<and> code = EXIT_USAGE"
    and "r = Inr () \<Longrightarrow> load_config env fs' = Inr (path, cfg)"
proof -
  obtain d n where p: "path = d @ CHR ''/'' # n" "plain_dir d" "plain_name n" using assms(1) by (auto simp: disk_ok_def)
  obtain r1 fs1 where s: "config_save (ce_toml env) (ce_os env) path cfg fs = (r1, fs1)" by fastforce
  note o = config_save_outcome[OF _ _ p(2,3), of "ce_toml env" "ce_os env" fs cfg r1 fs1]
  show "fs' = fs \<and> code = EXIT_USAGE" if "r = Inl code"
    using o(1) assms s that p(1) by (cases r1) (auto simp: disk_ok_def save_config_def)
  show "load_config env fs' = Inr (path, cfg)" if "r = Inr ()"
    using o(2) assms s that p(1) by (cases r1) (auto simp: disk_ok_def save_config_def load_config_def)
qed

text \<open>What a successful change of the stored configuration means for the secrets.\<close>

definition rehosted ::
  "crates \<Rightarrow> cli_env \<Rightarrow> string \<Rightarrow> (sshrack_config \<Rightarrow> bool) \<Rightarrow> vault_key option \<Rightarrow> (string \<rightharpoonup> string) \<Rightarrow>
   sshrack_config \<Rightarrow> (string \<rightharpoonup> string) \<Rightarrow> files \<Rightarrow> bool" where
  "rehosted X env path in_mode sk m cfg m' fs' \<longleftrightarrow>
     (\<exists>cfg' tk. load_config env fs' = Inr (path, cfg') \<and> in_mode cfg' \<and> opens X cfg' tk
        \<and> config_view X tk m' cfg' = config_view X sk m cfg
        \<and> config_wf cfg' \<and> slots_in_step m' cfg' \<and> config_sealed (the (store cfg')) cfg')"

lemma migrate_and_save_ok:
  assumes be: "secret_backend be ent" and X: "crates_ok X" and cfg: "config_wf cfg"
    and step: "slots_in_step (ent (w_backend (cs_world st))) cfg"
    and disk: "disk_ok env path (cs_files st)" and target: "target = StorePlaintext \<or> target = StoreKeyring"
    and run: "migrate_and_save X be env target sk cfg path st = (code, st')"
  shows "if code = EXIT_SUCCESS
    then rehosted X env path (\<lambda>c. store c = Some target) sk (ent (w_backend (cs_world st))) cfg
           (ent (w_backend (cs_world st'))) (cs_files st')
    else cs_files st' = cs_files st"
proof -
  obtain r cfg' w where m: "migrate X be target sk None cfg (cs_world st) = (r, cfg', w)"
    by (cases "migrate X be target sk None cfg (cs_world st)") auto
  show ?thesis
  proof (cases r)
    case (Inl e)
    then show ?thesis using run m by (auto simp: migrate_and_save_def exit_codes)
  next
    case (Inr k)
    note mo = secret_backend.migrate_ok[OF be X cfg _ m[unfolded Inr]]
    note c = secret_backend.contents_def[OF be]
    have st: "slots_in_step (secret_backend.contents ent (cs_world st)) cfg" using step by (simp add: c)
    obtain r2 fs where s: "save_config env path (cfg'\<lparr>store := Some target\<rparr>) (cs_files st) = (r2, fs)" by fastforce
    show ?thesis
    proof (cases r2)
      case (Inl co)
      then show ?thesis
        using run m Inr s save_config_ok(1)[OF disk s] by (auto simp: migrate_and_save_def exit_codes)
    next
      case (Inr u)
      then have l: "load_config env fs = Inr (path, cfg'\<lparr>store := Some target\<rparr>)"
        using save_config_ok(2)[OF disk s] by simp
      have e: "code = EXIT_SUCCESS" "st' = \<lparr>cs_world = w, cs_files = fs\<rparr>"
        using run m \<open>r = Inr k\<close> s Inr by (simp_all add: migrate_and_save_def)
      have "rehosted X env path (\<lambda>c. store c = Some target) sk (ent (w_backend (cs_world st))) cfg
           (ent (w_backend w)) fs"
        unfolding rehosted_def
      proof (intro exI conjI)
        show "load_config env fs = Inr (path, cfg'\<lparr>store := Some target\<rparr>)" by (rule l)
        show "opens X (cfg'\<lparr>store := Some target\<rparr>) None" using target by (auto simp: opens_def vault_meta_of_def)
      qed (use mo[OF st] in \<open>simp_all add: c config_view_def slots_in_step_def config_sealed_def secret_bodies_def
             config_wf_def\<close>)
      then show ?thesis using e by simp
    qed
  qed
qed

definition enabled_under :: "crates \<Rightarrow> string \<Rightarrow> 64 word option \<Rightarrow> sshrack_config \<Rightarrow> bool" where
  "enabled_under X pass ttl cfg \<longleftrightarrow>
     (\<exists>meta key v. store cfg = Some (StoreVault meta) \<and> derive_key X pass meta = Inr key
        \<and> verifier meta = Some v \<and> decrypt X v key \<noteq> None
        \<and> (\<forall>s. ttl = Some s \<longrightarrow> cache_ttl_secs meta = s))"

lemma enable_and_save_ok:
  assumes be: "secret_backend be ent" and X: "crates_ok X" and cfg: "config_wf cfg"
    and step: "slots_in_step (ent (w_backend (cs_world st))) cfg"
    and disk: "disk_ok env path (cs_files st)"
    and run: "enable_and_save X be env pass ttl cfg path st = (code, st')"
  shows "if code = EXIT_SUCCESS
    then rehosted X env path (enabled_under X pass ttl) None
           (ent (w_backend (cs_world st))) cfg (ent (w_backend (cs_world st'))) (cs_files st')
    else cs_files st' = cs_files st"
proof -
  obtain r cfg' w where m: "enable X be pass ttl cfg (cs_world st) = (r, cfg', w)"
    by (cases "enable X be pass ttl cfg (cs_world st)") auto
  show ?thesis
  proof (cases r)
    case (Inl e)
    then show ?thesis using run m by (auto simp: enable_and_save_def exit_codes)
  next
    case (Inr key)
    obtain meta v where k: "store cfg' = Some (StoreVault meta)" "verifier meta = Some v" "decrypt X v key \<noteq> None"
      "derive_key X pass meta = Inr key"
      "config_view X (Some key) (ent (w_backend w)) cfg' = config_view X None (ent (w_backend (cs_world st))) cfg"
      "config_sealed (StoreVault meta) cfg'" "config_wf cfg'" "slots_in_step (ent (w_backend w)) cfg'"
      "\<forall>s. ttl = Some s \<longrightarrow> cache_ttl_secs meta = s"
      by (rule enable_ok[OF be X cfg step m[unfolded Inr]])
    obtain r2 fs where s: "save_config env path cfg' (cs_files st) = (r2, fs)" by fastforce
    show ?thesis
    proof (cases r2)
      case (Inl co)
      then show ?thesis
        using run m Inr s save_config_ok(1)[OF disk s] by (auto simp: enable_and_save_def exit_codes)
    next
      case r2: (Inr u)
      then have l: "load_config env fs = Inr (path, cfg')" using save_config_ok(2)[OF disk s] by simp
      have e: "code = EXIT_SUCCESS" "st' = \<lparr>cs_world = w, cs_files = fs\<rparr>"
        using run m Inr s r2 by (simp_all add: enable_and_save_def)
      have "opens X cfg' (Some key)" using k by (auto simp: opens_def vault_meta_of_def)
      then show ?thesis
        unfolding e rehosted_def using l k
        by (auto simp: enabled_under_def intro!: exI[of _ cfg'] exI[of _ "Some key"])
    qed
  qed
qed

end
