(* ===== verification/Store_Props.thy ===== *)
theory Store_Props
  imports Store_Facts Askpass
begin

text \<open>The properties of the \<^verbatim>\<open>store\<close> command as a whole: what \<^verbatim>\<open>store use\<close> and
\<^verbatim>\<open>store rekey\<close> do to the secrets and to the configuration file, from the load to the save.\<close>

section \<open>The three switches\<close>

definition in_store_mode :: "crates \<Rightarrow> cli_env \<Rightarrow> store_mode \<Rightarrow> 64 word option \<Rightarrow> sshrack_config \<Rightarrow> bool" where
  "in_store_mode X env mode ttl cfg \<longleftrightarrow>
     (case mode of
        ModePlaintext \<Rightarrow> store cfg = Some StorePlaintext
      | ModeKeyring \<Rightarrow> store cfg = Some StoreKeyring
      | ModeVault \<Rightarrow> \<exists>p. new_passphrase env = Inr p \<and> enabled_under X p ttl cfg)"

text \<open>A run that switches: the stored file and the keyring agree on the new mode and the old secrets.\<close>

definition switched ::
  "crates \<Rightarrow> cli_env \<Rightarrow> string \<Rightarrow> store_mode \<Rightarrow> 64 word option \<Rightarrow> sshrack_config \<Rightarrow> (string \<rightharpoonup> string) \<Rightarrow> files \<Rightarrow>
   (string \<rightharpoonup> string) \<Rightarrow> files \<Rightarrow> int \<Rightarrow> bool" where
  "switched X env path mode ttl cfg m fs m' fs' code \<longleftrightarrow>
     (if code = EXIT_SUCCESS
      then \<exists>k. rehosted X env path (in_store_mode X env mode ttl) k m cfg m' fs'
               \<and> (mode = ModeVault \<and> k = None \<or> mode \<noteq> ModeVault \<and> opens X cfg k)
      else fs' = fs)"

lemma rehosted_weaken:
  assumes "rehosted X env path P k m cfg m' fs'" "\<And>c. P c \<Longrightarrow> Q c"
    and "\<And>x. config_view X k m cfg = config_view X k m0 cfg"
  shows "rehosted X env path Q k m0 cfg m' fs'"
  using assms unfolding rehosted_def by metis

lemma probed:
  assumes "probed_backend be ent" "probe_backend be w = (ok, w')"
  shows "config_view X k (ent (w_backend w')) cfg = config_view X k (ent (w_backend w)) cfg"
    "slots_in_step (ent (w_backend w')) cfg = slots_in_step (ent (w_backend w)) cfg"
  using config_view_probe[OF probed_backend.probe_frame[OF assms]] by simp_all

lemma migrate_and_save_switched:
  assumes be: "secret_backend be ent" and X: "crates_ok X" and cfg: "config_wf cfg"
    and step: "slots_in_step (ent (w_backend (cs_world st))) cfg"
    and disk: "disk_ok env path (cs_files st)"
    and target: "mode = ModePlaintext \<and> target = StorePlaintext \<or> mode = ModeKeyring \<and> target = StoreKeyring"
    and sk: "opens X cfg sk"
    and run: "migrate_and_save X be env target sk cfg path st = (code, st')"
  shows "switched X env path mode ttl cfg (ent (w_backend (cs_world st))) (cs_files st)
           (ent (w_backend (cs_world st'))) (cs_files st') code"
proof -
  have t: "target = StorePlaintext \<or> target = StoreKeyring" using target by auto
  have m: "(\<lambda>c. store c = Some target) = in_store_mode X env mode ttl" "mode \<noteq> ModeVault"
    using target by (auto simp: in_store_mode_def)
  show ?thesis
    using migrate_and_save_ok[OF be X cfg step disk t run] sk m(2) unfolding switched_def m(1) by (auto split: if_splits)
qed

lemma switched_from:
  assumes "switched X env path mode ttl cfg m1 fs m' fs' code"
    and "\<And>k. config_view X k m1 cfg = config_view X k m cfg"
  shows "switched X env path mode ttl cfg m fs m' fs' code"
  using assms unfolding switched_def by (metis rehosted_weaken)

lemma failed_switch: "code \<noteq> EXIT_SUCCESS \<Longrightarrow> switched X env path mode ttl cfg m fs m' fs code"
  by (simp add: switched_def)

lemma source_key_fails:
  "source_key_for X env cfg mode w = (Inl code, w') \<Longrightarrow> code = EXIT_STORE"
  by (auto simp: source_key_for_def unlock_vault_key_def split: if_splits sum.splits prod.splits)

lemma switch_to_keyring_ok:
  assumes be: "probed_backend be ent" and X: "crates_ok X" and cfg: "config_wf cfg"
    and step: "slots_in_step (ent (w_backend (cs_world st))) cfg"
    and disk: "disk_ok env path (cs_files st)"
    and there: "classify cfg ModeKeyring \<noteq> AlreadyThere"
    and run: "switch_to_keyring X be env cfg path st = (code, st')"
  shows "switched X env path ModeKeyring ttl cfg (ent (w_backend (cs_world st))) (cs_files st)
           (ent (w_backend (cs_world st'))) (cs_files st') code"
proof -
  obtain ok w2 where p: "probe_backend be (clear_default_cache (ce_vault env) (cs_world st)) = (ok, w2)" by fastforce
  obtain r w3 where s: "source_key_for X env cfg ModeKeyring w2 = (r, w3)" by fastforce
  note v = probed(1)[OF be p, where X = X and cfg = cfg, simplified] probed(2)[OF be p, where cfg = cfg, simplified]
  note k = source_key_ok[OF s, simplified]
  have sf: "r = Inl c \<Longrightarrow> c = EXIT_STORE" for c using s source_key_fails by metis
  show ?thesis
  proof (cases "\<exists>sk. ok \<and> r = Inr sk")
    case True
    then obtain sk where t: "ok" "r = Inr sk" by blast
    have run': "migrate_and_save X be env StoreKeyring sk cfg path (st\<lparr>cs_world := w3\<rparr>) = (code, st')"
      using run there p s t by (simp add: switch_to_keyring_def)
    have "switched X env path ModeKeyring ttl cfg (ent (w_backend w3)) (cs_files st)
           (ent (w_backend (cs_world st'))) (cs_files st') code"
      using migrate_and_save_switched[OF _ X cfg _ _ _ _ run', of ent ModeKeyring ttl] be step v k t there disk
      by (simp add: probed_backend_def)
    then show ?thesis by (rule switched_from) (simp add: k v)
  next
    case False
    then show ?thesis
      using run there p s sf
      by (cases r) (auto simp: switch_to_keyring_def exit_codes intro!: failed_switch split: if_splits)
  qed
qed

lemma switch_to_plaintext_ok:
  assumes be: "probed_backend be ent" and X: "crates_ok X" and cfg: "config_wf cfg"
    and step: "slots_in_step (ent (w_backend (cs_world st))) cfg"
    and disk: "disk_ok env path (cs_files st)"
    and there: "classify cfg ModePlaintext \<noteq> AlreadyThere"
    and run: "switch_to_plaintext X be env yes cfg path st = (code, st')"
  shows "switched X env path ModePlaintext ttl cfg (ent (w_backend (cs_world st))) (cs_files st)
           (ent (w_backend (cs_world st'))) (cs_files st') code"
proof -
  obtain r w1 where s: "source_key_for X env cfg ModePlaintext (clear_default_cache (ce_vault env) (cs_world st)) = (r, w1)"
    by fastforce
  note k = source_key_ok[OF s, simplified]
  have sf: "r = Inl c \<Longrightarrow> c = EXIT_STORE" for c using s source_key_fails by metis
  obtain ok w2 where p: "(if is_keyring cfg then probe_backend be w1 else (True, w1)) = (ok, w2)" by fastforce
  have v: "config_view X key (ent (w_backend w2)) cfg = config_view X key (ent (w_backend w1)) cfg" for key
    using p probed(1)[OF be, of w1 ok w2 X key cfg] by (auto split: if_splits)
  have v2: "slots_in_step (ent (w_backend w2)) cfg = slots_in_step (ent (w_backend w1)) cfg"
    using p probed(2)[OF be, of w1 ok w2 cfg] by (auto split: if_splits)
  show ?thesis
  proof (cases "(yes \<or> ce_confirm env) \<and> ok \<and> (\<exists>sk. r = Inr sk)")
    case True
    then obtain sk where t: "yes \<or> ce_confirm env" "ok" "r = Inr sk" by blast
    have run': "migrate_and_save X be env StorePlaintext sk cfg path (st\<lparr>cs_world := w2\<rparr>) = (code, st')"
      using run there p s t by (simp add: switch_to_plaintext_def)
    have "switched X env path ModePlaintext ttl cfg (ent (w_backend w2)) (cs_files st)
           (ent (w_backend (cs_world st'))) (cs_files st') code"
      using migrate_and_save_switched[OF _ X cfg _ _ _ _ run', of ent ModePlaintext ttl] be step v2 k t there disk
      by (simp add: probed_backend_def)
    then show ?thesis by (rule switched_from) (simp add: k v)
  next
    case False
    then show ?thesis
      using run there p s sf
      by (cases r) (auto simp: switch_to_plaintext_def exit_codes intro!: failed_switch split: if_splits)
  qed
qed

lemma switch_to_vault_ok:
  assumes be: "probed_backend be ent" and X: "crates_ok X" and cfg: "config_wf cfg"
    and step: "slots_in_step (ent (w_backend (cs_world st))) cfg"
    and disk: "disk_ok env path (cs_files st)"
    and there: "classify cfg ModeVault \<noteq> AlreadyThere"
    and run: "switch_to_vault X be env ttl cfg path st = (code, st')"
  shows "switched X env path ModeVault ttl cfg (ent (w_backend (cs_world st))) (cs_files st)
           (ent (w_backend (cs_world st'))) (cs_files st') code"
proof -
  obtain ok w1 where p: "(if is_keyring cfg then probe_backend be (cs_world st) else (True, cs_world st)) = (ok, w1)"
    by fastforce
  have v: "config_view X key (ent (w_backend w1)) cfg = config_view X key (ent (w_backend (cs_world st))) cfg" for key
    using p probed(1)[OF be, of "cs_world st" ok w1 X key cfg] by (auto split: if_splits)
  have v2: "slots_in_step (ent (w_backend w1)) cfg = slots_in_step (ent (w_backend (cs_world st))) cfg"
    using p probed(2)[OF be, of "cs_world st" ok w1 cfg] by (auto split: if_splits)
  show ?thesis
  proof (cases "ok \<and> (\<exists>pass. new_passphrase env = Inr pass)")
    case True
    then obtain pass where t: "ok" "new_passphrase env = Inr pass" by blast
    have run': "enable_and_save X be env pass ttl cfg path (st\<lparr>cs_world := clear_default_cache (ce_vault env) w1\<rparr>) = (code, st')"
      using run there p t by (simp add: switch_to_vault_def)
    have m: "enabled_under X pass ttl c \<Longrightarrow> in_store_mode X env ModeVault ttl c" for c
      using t(2) by (simp add: in_store_mode_def)
    have "switched X env path ModeVault ttl cfg (ent (w_backend w1)) (cs_files st)
           (ent (w_backend (cs_world st'))) (cs_files st') code"
      using enable_and_save_ok[OF _ X cfg _ _ run', of ent] be step v2 disk
      by (auto simp: probed_backend_def switched_def intro: rehosted_weaken[OF _ m] split: if_splits)
    then show ?thesis by (rule switched_from) (rule v)
  next
    case False
    then show ?thesis
      using run there p
      by (cases "new_passphrase env")
        (auto simp: switch_to_vault_def exit_codes Let_def intro!: failed_switch split: if_splits)
  qed
qed

section \<open>Properties\<close>

text \<open>C28: \<^verbatim>\<open>store use\<close> moves every secret or changes nothing on disk.  Take a well-formed
configuration that is in step with the keyring: a pasted key marked as stored there has its private half there, and
a pasted key without a certificate that is not so marked has no certificate of an older key in its slot (such a stale
one would be shown with the key after a switch to the keyring).  When the command reports success, either the file
already was in the requested mode and nothing changed, or the configuration now on disk is in that mode, opens with a
known key and shows, together with the keyring, exactly the secrets the old configuration showed under its own key
(every host, every credential, every pasted key); with any other exit code the configuration file is the one it
was.\<close>

theorem store_use_keeps_secrets:
  assumes "probed_backend be ent" "crates_ok X" "disk_ok env path (cs_files st)"
    and "load_config env (cs_files st) = Inr (path, cfg)" "config_wf cfg"
    and "slots_in_step (ent (w_backend (cs_world st))) cfg"
    and "use_mode X be env mode ttl yes st = (code, st')"
  shows "if code = EXIT_SUCCESS \<and> classify cfg mode = AlreadyThere then st' = st
    else switched X env path mode ttl cfg (ent (w_backend (cs_world st))) (cs_files st)
           (ent (w_backend (cs_world st'))) (cs_files st') code"
proof (cases "classify cfg mode = AlreadyThere")
  case True
  then show ?thesis
    using assms(4,7)
    by (cases mode) (auto simp: use_mode_def switch_to_keyring_def switch_to_vault_def switch_to_plaintext_def)
next
  case False
  have run: "(case mode of ModeKeyring \<Rightarrow> switch_to_keyring X be env cfg path st
      | ModeVault \<Rightarrow> switch_to_vault X be env ttl cfg path st
      | ModePlaintext \<Rightarrow> switch_to_plaintext X be env yes cfg path st) = (code, st')"
    using assms(4,7) by (simp add: use_mode_def)
  show ?thesis
    using False run switch_to_keyring_ok[OF assms(1,2,5,6,3), where ttl = ttl]
      switch_to_vault_ok[OF assms(1,2,5,6,3)] switch_to_plaintext_ok[OF assms(1,2,5,6,3), where ttl = ttl]
    by (cases mode) auto
qed

text \<open>C29: \<^verbatim>\<open>store rekey\<close> moves every secret to the new passphrase or changes nothing on disk.
Take a well-formed configuration that is in step with the keyring, as above, and in which no body has a half of a
pasted key in the clear beside an encrypted secret (the rekey drops the clear half of such a key).  After a successful rekey the
configuration on disk is a vault that the new passphrase opens, keeps the cache lifetime of the old one, and shows
exactly the secrets that the old vault showed under the key it was opened with; with any other exit code the
configuration file is the one it was.\<close>

theorem store_rekey_keeps_secrets:
  assumes "probed_backend be ent" "crates_ok X" "disk_ok env path (cs_files st)"
    and "load_config env (cs_files st) = Inr (path, cfg)" "config_wf cfg" "config_unmixed cfg"
    and "slots_in_step (ent (w_backend (cs_world st))) cfg"
    and "rekey X be env st = (code, st')"
  shows "if code = EXIT_SUCCESS
    then \<exists>old new. opens X cfg (Some old) \<and> new_passphrase env = Inr new
      \<and> rehosted X env path (enabled_under X new (map_option cache_ttl_secs (vault_meta_of cfg))) (Some old)
           (ent (w_backend (cs_world st))) cfg (ent (w_backend (cs_world st'))) (cs_files st')
    else cs_files st' = cs_files st"
proof -
  let ?w1 = "clear_default_cache (ce_vault env) (cs_world st)"
  let ?ttl = "map_option cache_ttl_secs (vault_meta_of cfg)"
  obtain r w2 where u: "ensure_unlocked_vault_key X (ce_vault env) cfg (passphrase_from (ce_passphrase_env env))
      (ce_provider env) ?w1 = (r, w2)" by fastforce
  note o = ensure_unlocked_ok[OF u, simplified]
  note run = assms(8)[unfolded rekey_def assms(4) sum.case prod.case Let_def u]
  show ?thesis
  proof (cases "is_vault cfg \<and> (\<exists>old n cfg1 new. r = Inr (Some old) \<and> decrypt_all X old cfg = (Inr n, cfg1)
      \<and> new_passphrase env = Inr new)")
    case True
    then obtain old n cfg1 new where t: "is_vault cfg" "r = Inr (Some old)" "decrypt_all X old cfg = (Inr n, cfg1)"
      "new_passphrase env = Inr new" by blast
    note kept = decrypt_all_kept[OF t(3) assms(6,5,7)]
    have run': "enable_and_save X be env new ?ttl (cfg1\<lparr>store := None\<rparr>) path (st\<lparr>cs_world := w2\<rparr>) = (code, st')"
      using run t by simp
    have "config_view X None m (cfg1\<lparr>store := None\<rparr>) = config_view X (Some old) m cfg" for m
      using decrypt_all_views[OF t(3) assms(6), of m] by (simp add: config_view_def)
    moreover have "if code = EXIT_SUCCESS
      then rehosted X env path (enabled_under X new ?ttl) None (ent (w_backend w2)) (cfg1\<lparr>store := None\<rparr>)
             (ent (w_backend (cs_world st'))) (cs_files st')
      else cs_files st' = cs_files st"
      using enable_and_save_ok[OF _ assms(2) _ _ _ run', of ent] assms(1,3) kept o(1)
      by (simp add: probed_backend_def config_wf_def slots_in_step_def split: if_splits)
    ultimately show ?thesis using o t by (auto simp: rehosted_def split: if_splits)
  next
    case False
    then show ?thesis
      using run by (auto simp: exit_codes split: if_splits sum.splits option.splits prod.splits)
  qed
qed

text \<open>Leaving keyring mode with one keyring host: the migration succeeds and empties the slot.\<close>

lemma keyring_host_leaves:
  assumes be: "reliable_backend be ent" and h: "hosts cfg = [h]" "credentials cfg = []" "h_auth h = AuthInline b"
    and b: "b_keyring b" "b_key b = None"
    and e: "ent (w_backend w) (keyring_key OwnerHost (h_id h)) = Some p"
  obtains n cfg' w' where "migrate X be StorePlaintext None None cfg w = (Inr n, cfg', w')"
    and "ent (w_backend w') (keyring_key OwnerHost (h_id h)) = None"
proof -
  let ?k = "keyring_key OwnerHost (h_id h)"
  obtain s where d: "bk_delete_at be ?k (w_backend w) = (Inr (), s)"
    using reliable_backend.delete_total[OF be, of ?k "w_backend w"] by blast
  have "ent s = (ent (w_backend w))(?k := None)"
    using be d by (auto simp: reliable_backend_def dest: secret_backend.delete_ok)
  moreover have "bk_get be ?k (w_backend w) = Inr (Some p)"
    using reliable_backend.get_total[OF be, of ?k "w_backend w"] e by simp
  ultimately show thesis
    using that[of 1 "cfg\<lparr>credentials := [], hosts := [h\<lparr>h_auth := AuthInline (b\<lparr>b_password := Some (Plain p), b_keyring := False\<rparr>)\<rparr>]\<rparr>" "w\<lparr>w_backend := s\<rparr>"] h b d
    by (simp add: migrate_def migrate_host_step_def migrate_body_def migrate_body_password_def
        migrate_body_inline_key_def extract_plain_def forget_at_w_def bk_forget_at_def owner_host_def
        del: keyring_key.simps)
qed

text \<open>The save after a mode switch is a separate step, and when it fails the passwords of the keyring
are gone. With one host whose password is in the keyring and a keyring that works, a
\<^verbatim>\<open>store use plaintext --yes\<close> that does not succeed leaves the configuration file as it was, still
pointing at the keyring, and the keyring entry deleted: no copy of the password is left, although the
documentation says the source stays intact when the save fails.\<close>

theorem store_use_save_failure_loses_password:
  assumes "reliable_backend be ent" "probed_backend be ent" "disk_ok env path (cs_files st)"
    and "fst (bk_available be (w_backend (cs_world st)))"
    and "load_config env (cs_files st) = Inr (path, cfg)" "store cfg = Some StoreKeyring"
    and "hosts cfg = [h]" "credentials cfg = []" "h_auth h = AuthInline b" "b_keyring b" "b_key b = None"
    and "ent (w_backend (cs_world st)) (keyring_key OwnerHost (h_id h)) = Some p"
    and "use_mode X be env ModePlaintext ttl True st = (code, st')" "code \<noteq> EXIT_SUCCESS"
  shows "load_config env (cs_files st') = Inr (path, cfg)
    \<and> ent (w_backend (cs_world st')) (keyring_key OwnerHost (h_id h)) = None"
proof -
  let ?k = "keyring_key OwnerHost (h_id h)"
  let ?w1 = "clear_default_cache (ce_vault env) (cs_world st)"
  have c: "classify cfg ModePlaintext \<noteq> AlreadyThere" "is_keyring cfg" "classify cfg ModePlaintext \<noteq> SwitchMigrate True"
    using assms(6) by (simp_all add: classify_def is_plaintext_def is_keyring_def is_vault_def)
  obtain w2 where a: "probe_backend be ?w1 = (True, w2)"
    using assms(4) by (cases "bk_available be (w_backend (cs_world st))") (simp add: probe_backend_def)
  have f: "frame {PROBE_KEY} (ent (w_backend ?w1)) (ent (w_backend w2))"
    by (rule probed_backend.probe_frame[OF assms(2) a])
  have "?k \<noteq> PROBE_KEY" using probe_not_a_slot[of OwnerHost "h_id h"] by (auto simp: owner_slots_def simp del: keyring_key.simps)
  then have e: "ent (w_backend w2) ?k = Some p"
    using f assms(12) by (simp add: frame_def del: keyring_key.simps)
  obtain n cfg' w' where m: "migrate X be StorePlaintext None None cfg w2 = (Inr n, cfg', w')"
    "ent (w_backend w') ?k = None" by (rule keyring_host_leaves[OF assms(1,7-11) e])
  have run: "migrate_and_save X be env StorePlaintext None cfg path (st\<lparr>cs_world := w2\<rparr>) = (code, st')"
    using assms(5,13) c a by (simp add: use_mode_def switch_to_plaintext_def source_key_for_def)
  obtain r fs where s: "save_config env path (cfg'\<lparr>store := Some StorePlaintext\<rparr>) (cs_files st) = (r, fs)" by fastforce
  show ?thesis
    using run m s save_config_ok(1)[OF assms(3) s] assms(5,14)
    by (cases r) (auto simp: migrate_and_save_def simp del: keyring_key.simps)
qed

section \<open>Witnesses\<close>

definition pair_toml :: "sshrack_config \<Rightarrow> sshrack_config \<Rightarrow> toml" where
  "pair_toml a b = \<lparr>tm_parse = (\<lambda>s. if s = ''a'' then Some a else if s = ''b'' then Some b else None),
     tm_print = (\<lambda>c. if c = a then Some ''a'' else if c = b then Some ''b'' else None)\<rparr>"

lemma pair_toml_ok: "toml_ok (pair_toml a b)"
  by (simp add: toml_ok_def pair_toml_def)

definition store_env :: "toml \<Rightarrow> cli_env" where
  "store_env tm = \<lparr>ce_config = Some ''/etc/c.toml'', ce_default_config = None, ce_toml = tm, ce_os = demo_os,
     ce_vault = \<lparr>ve_default_cache = None, ve_fails = (\<lambda>_. None)\<rparr>, ce_passphrase_env = None,
     ce_provider = \<lparr>pp_passphrase = Inr ''old'', pp_passphrase_confirm = Inr ''new'', pp_confirm = (\<lambda>_. Inr True)\<rparr>,
     ce_confirm = True\<rparr>"

definition store_state :: "fake_state world \<Rightarrow> fake_state cli_state" where
  "store_state w = \<lparr>cs_world = w, cs_files = [''/etc/c.toml'' \<mapsto> \<lparr>fe_mode = MODE_PRIVATE, fe_bytes = ''a''\<rparr>]\<rparr>"

lemma store_state_world [simp]: "cs_world (store_state w) = w"
  by (simp add: store_state_def)

lemma store_disk: "disk_ok (store_env (pair_toml a b)) ''/etc/c.toml'' (cs_files (store_state w))"
proof -
  have "\<exists>d n. ''/etc/c.toml'' = d @ CHR ''/'' # n \<and> plain_dir d \<and> plain_name n"
    by (rule exI[of _ "''/etc''"], rule exI[of _ "''c.toml''"]) (simp add: plain_dir_def plain_name_def)
  moreover have "atomic_temp_path demo_os ''/etc/c.toml'' \<noteq> ''/etc/c.toml''" by code_simp
  ultimately show ?thesis
    using pair_toml_ok[of a b] demo_os_removes
    by (simp add: disk_ok_def store_env_def store_state_def resolve_config_path_def)
qed

lemma store_load: "load_config (store_env (pair_toml a b)) (cs_files (store_state w)) = Inr (''/etc/c.toml'', a)"
  by (simp add: load_config_def store_env_def store_state_def resolve_config_path_def config_load_def
      read_to_string_def read_file_def pair_toml_def)

definition demo_kept :: sshrack_config where
  "demo_kept = (case migrate demo_crates fake_backend StoreKeyring None None demo_plain_config demo_world of
     (_, cfg', _) \<Rightarrow> cfg'\<lparr>store := Some StoreKeyring\<rparr>)"

theorem store_use_keeps_secrets_witness:
  "let env = store_env (pair_toml demo_plain_config demo_kept); st = store_state demo_world;
       r = use_mode demo_crates fake_backend env ModeKeyring None False st
   in fst r = EXIT_SUCCESS \<and> switched demo_crates env ''/etc/c.toml'' ModeKeyring None demo_plain_config
        (fake_view (w_backend demo_world)) (cs_files st) (fake_view (w_backend (cs_world (snd r))))
        (cs_files (snd r)) EXIT_SUCCESS"
proof -
  let ?env = "store_env (pair_toml demo_plain_config demo_kept)"
  have c: "fst (use_mode demo_crates fake_backend ?env ModeKeyring None False (store_state demo_world)) = EXIT_SUCCESS"
    by code_simp
  then obtain st' where r: "use_mode demo_crates fake_backend ?env ModeKeyring None False (store_state demo_world)
      = (EXIT_SUCCESS, st')" by (metis prod.collapse)
  have there: "classify demo_plain_config ModeKeyring \<noteq> AlreadyThere" by code_simp
  have step: "slots_in_step (fake_view (w_backend (cs_world (store_state demo_world)))) demo_plain_config"
    using demo_plain_config_ok(2) by simp
  show ?thesis
    using store_use_keeps_secrets[OF fake_probed.probed_backend_axioms demo_crates_ok store_disk store_load
        demo_plain_config_ok(1) step r] there
    by (simp add: Let_def r)
qed

text \<open>A vault with one credential, sealed under a passphrase with the randomness drawn from
\<^verbatim>\<open>i\<close> on.\<close>

definition demo_seal :: "string \<Rightarrow> nat \<Rightarrow> string \<Rightarrow> encrypted_secret" where
  "demo_seal pass i plain = \<lparr>nonce = replicate 24 (char_of i),
     cipher = take 32 (pass @ replicate 32 (CHR ''k'')) @ replicate 24 (char_of i) @ plain\<rparr>"

definition demo_vaulted :: "string \<Rightarrow> nat \<Rightarrow> sshrack_config" where
  "demo_vaulted pass i = \<lparr>format_version = 1, hosts = [],
     credentials = [\<lparr>c_id = demo_ids ! 0, c_name = ''ops'',
       c_body = (body_new ''ops'')\<lparr>b_password := Some (Encrypted (demo_seal pass (i + 2) ''hunter2''))\<rparr>\<rparr>],
     store = Some (StoreVault ((default_argon2id (replicate 16 (char_of i)))
       \<lparr>cache_ttl_secs := 60, verifier := Some (demo_seal pass (i + 1) VERIFIER_PLAINTEXT)\<rparr>))\<rparr>"

lemma demo_vaulted_ok: "config_wf (demo_vaulted pass i)" "slots_in_step m (demo_vaulted pass i)"
  "config_unmixed (demo_vaulted pass i)"
  by (simp_all add: demo_vaulted_def config_wf_def credential_wf_def body_wf_def body_new_def slots_in_step_def
      slots_ok_def config_unmixed_def mixed_body_def secret_bodies_def ulid_ok_def demo_ids_def crockford_def)

theorem store_rekey_keeps_secrets_witness:
  "let env = store_env (pair_toml (demo_vaulted ''old'' 0) (demo_vaulted ''new'' 3));
       st = store_state (demo_world\<lparr>w_draws := 3\<rparr>);
       r = rekey demo_crates fake_backend env st
   in fst r = EXIT_SUCCESS
      \<and> (\<exists>old. rehosted demo_crates env ''/etc/c.toml'' (enabled_under demo_crates ''new'' (Some 60)) (Some old)
           (fake_view (w_backend (cs_world st))) (demo_vaulted ''old'' 0) (fake_view (w_backend (cs_world (snd r))))
           (cs_files (snd r)))"
proof -
  let ?env = "store_env (pair_toml (demo_vaulted ''old'' 0) (demo_vaulted ''new'' 3))"
  let ?st = "store_state (demo_world\<lparr>w_draws := 3\<rparr>)"
  have "fst (rekey demo_crates fake_backend ?env ?st) = EXIT_SUCCESS" by code_simp
  then obtain st' where r: "rekey demo_crates fake_backend ?env ?st = (EXIT_SUCCESS, st')"
    by (metis prod.collapse)
  have new: "new_passphrase ?env = Inr ''new''" by (simp add: new_passphrase_def store_env_def passphrase_from_def)
  have ttl: "map_option cache_ttl_secs (vault_meta_of (demo_vaulted ''old'' 0)) = Some 60"
    by (simp add: demo_vaulted_def vault_meta_of_def)
  show ?thesis
    using store_rekey_keeps_secrets[OF fake_probed.probed_backend_axioms demo_crates_ok store_disk store_load
        demo_vaulted_ok(1) demo_vaulted_ok(3) demo_vaulted_ok(2) r] new ttl
    by (auto simp: Let_def r)
qed

definition demo_keyring_only :: sshrack_config where
  "demo_keyring_only = demo_config\<lparr>hosts := take 1 (hosts demo_config), credentials := [], store := Some StoreKeyring\<rparr>"

theorem store_use_save_failure_loses_password_witness:
  "let env = store_env (pair_toml demo_keyring_only demo_keyring_only); st = store_state demo_world;
       r = use_mode demo_crates fake_backend env ModePlaintext None True st;
       slot = keyring_key OwnerHost (demo_ids ! 2)
   in fst r = EXIT_USAGE
      \<and> fake_view (w_backend (cs_world st)) slot = Some ''s3cret''
      \<and> load_config env (cs_files (snd r)) = Inr (''/etc/c.toml'', demo_keyring_only)
      \<and> fake_view (w_backend (cs_world (snd r))) slot = None"
proof -
  let ?env = "store_env (pair_toml demo_keyring_only demo_keyring_only)"
  let ?st = "store_state demo_world"
  have "fst (use_mode demo_crates fake_backend ?env ModePlaintext None True ?st) = EXIT_USAGE" by code_simp
  then obtain st' where r: "use_mode demo_crates fake_backend ?env ModePlaintext None True ?st = (EXIT_USAGE, st')"
    by (metis prod.collapse)
  let ?h = "hosts demo_config ! 0"
  have k: "store demo_keyring_only = Some StoreKeyring" "hosts demo_keyring_only = [?h]" "credentials demo_keyring_only = []"
    "h_auth ?h = AuthInline ((body_new ''root'')\<lparr>b_keyring := True\<rparr>)" "h_id ?h = demo_ids ! 2"
    by (simp_all add: demo_keyring_only_def demo_config_def)
  have e: "fake_view (w_backend (cs_world ?st)) (keyring_key OwnerHost (h_id ?h)) = Some ''s3cret''"
    "fst (bk_available fake_backend (w_backend (cs_world ?st)))"
    unfolding k(5) by (simp_all add: fake_view_def demo_world_def fake_backend_def del: keyring_key.simps)
  show ?thesis
    using store_use_save_failure_loses_password[OF fake.reliable_backend_axioms fake_probed.probed_backend_axioms
        store_disk e(2) store_load k(1-4) _ _ e(1) r] e(1) k(5)
    by (simp add: Let_def r body_new_def exit_codes del: keyring_key.simps)
qed

end
