(* ===== verification/Cli_Facts.thy ===== *)
theory Cli_Facts
  imports Cli_Cred Manage_Secrets Store_Props
begin

text \<open>What the \<^verbatim>\<open>host\<close> and \<^verbatim>\<open>cred\<close> commands do to the configuration
file: the invariant of the file and the one operation that breaks it.\<close>

section \<open>Updating one entry\<close>

lemma config_wf_update_host:
  assumes "config_wf cfg" "host_wf h" "i < length (hosts cfg)"
    and "\<And>x. x \<in> set (hosts cfg) \<Longrightarrow> x \<noteq> hosts cfg ! i \<Longrightarrow> h_id x \<noteq> h_id h \<and> h_name x \<noteq> h_name h"
  shows "config_wf (cfg\<lparr>hosts := (hosts cfg)[i := h]\<rparr>)"
proof -
  have d: "distinct (map h_id (hosts cfg))" "distinct (map h_name (hosts cfg))" "list_all host_wf (hosts cfg)"
    using assms(1) by (auto simp: config_wf_def)
  have "hosts cfg ! j \<noteq> hosts cfg ! i" if "j < length (hosts cfg)" "j \<noteq> i" for j
    using d(1) that assms(3) by (metis length_map nth_eq_iff_index_eq nth_map)
  then have "h_id (hosts cfg ! j) \<noteq> h_id h \<and> h_name (hosts cfg ! j) \<noteq> h_name h" if "j < length (hosts cfg)" "j \<noteq> i" for j
    using assms(4) that nth_mem by metis
  then have "distinct (map h_id ((hosts cfg)[i := h]))" "distinct (map h_name ((hosts cfg)[i := h]))"
    using distinct_update_key[OF d(1) assms(3)] distinct_update_key[OF d(2) assms(3)] by auto
  moreover have "list_all host_wf ((hosts cfg)[i := h])"
    using d(3) assms(2) set_update_subset_insert[of "hosts cfg" i h] by (auto simp: list_all_iff)
  ultimately show ?thesis using assms(1) by (simp add: config_wf_def)
qed

lemma config_wf_update_credential:
  assumes "config_wf cfg" "credential_wf c" "i < length (credentials cfg)"
    and "\<And>x. x \<in> set (credentials cfg) \<Longrightarrow> x \<noteq> credentials cfg ! i \<Longrightarrow> c_id x \<noteq> c_id c \<and> c_name x \<noteq> c_name c"
  shows "config_wf (cfg\<lparr>credentials := (credentials cfg)[i := c]\<rparr>)"
proof -
  have d: "distinct (map c_id (credentials cfg))" "distinct (map c_name (credentials cfg))"
    "list_all credential_wf (credentials cfg)" using assms(1) by (auto simp: config_wf_def)
  have "credentials cfg ! j \<noteq> credentials cfg ! i" if "j < length (credentials cfg)" "j \<noteq> i" for j
    using d(1) that assms(3) by (metis length_map nth_eq_iff_index_eq nth_map)
  then have "c_id (credentials cfg ! j) \<noteq> c_id c \<and> c_name (credentials cfg ! j) \<noteq> c_name c"
    if "j < length (credentials cfg)" "j \<noteq> i" for j
    using assms(4) that nth_mem by metis
  then have "distinct (map c_id ((credentials cfg)[i := c]))" "distinct (map c_name ((credentials cfg)[i := c]))"
    using distinct_update_key[OF d(1) assms(3)] distinct_update_key[OF d(2) assms(3)] by auto
  moreover have "list_all credential_wf ((credentials cfg)[i := c])"
    using d(3) assms(2) set_update_subset_insert[of "credentials cfg" i c] by (auto simp: list_all_iff)
  ultimately show ?thesis using assms(1) by (simp add: config_wf_def)
qed

lemma config_wf_append_host:
  assumes "config_wf cfg" "host_wf h" "h_id h \<notin> h_id ` set (hosts cfg)" "find_host_by_name cfg (h_name h) = None"
  shows "config_wf (cfg\<lparr>hosts := hosts cfg @ [h]\<rparr>)"
  using assms hreg.lookup_None_iff[of cfg "h_name h"] by (simp add: config_wf_def)

lemma config_wf_append_credential:
  assumes "config_wf cfg" "credential_wf c" "c_id c \<notin> c_id ` set (credentials cfg)"
    "find_credential_by_name cfg (c_name c) = None"
  shows "config_wf (cfg\<lparr>credentials := credentials cfg @ [c]\<rparr>)"
  using assms creg.lookup_None_iff[of cfg "c_name c"] by (simp add: config_wf_def)

section \<open>The bodies a command builds\<close>

lemma read_stdin_plain: "read_secret_stdin inp = (Inr s, inp') \<Longrightarrow> \<exists>p. s = Plain p"
  by (auto simp: read_secret_stdin_def plain_secret_of_def split: sum.splits)

lemma read_file_plain: "read_secret_file p fs = Inr s \<Longrightarrow> \<exists>t. s = Plain t"
  by (auto simp: read_secret_file_def plain_secret_of_def)

lemma resolve_inline_identity_plain:
  assumes "resolve_inline_identity fl inp fs = Inr (Some (priv, cert))"
  shows "\<exists>p. priv = Plain p" and "cert = None \<or> (\<exists>q. cert = Some (Plain q))"
proof -
  have pk: "\<exists>q. c = Some (Plain q)" if "map_sum id Some (read_secret_file p fs) = Inr c" for p c
    using that read_file_plain by (cases "read_secret_file p fs") auto
  have st: "\<exists>q. c = Some (Plain q)" if "map_sum id Some (fst (read_secret_stdin i)) = Inr c" for i c
    using that read_stdin_plain[of i] by (cases "read_secret_stdin i"; cases "fst (read_secret_stdin i)") auto
  show "\<exists>p. priv = Plain p" and "cert = None \<or> (\<exists>q. cert = Some (Plain q))"
    using assms
    by (auto simp: resolve_inline_identity_def Let_def case_prod_beta split: if_splits option.splits dest!: st pk)
qed

lemma sealed_import_wf:
  assumes "seal_inline_body X be env (with_inline_key (Plain p) cert (body_new user)) k u cfg w = (Inr b, w')"
    and "cert = None \<or> (\<exists>q. cert = Some (Plain q))"
  shows "body_wf b"
  using assms
  by (auto simp: seal_inline_body_def with_inline_key_def body_new_def seal_body_def seal_inline_key_def
      store_half_def finalize_half_def body_wf_def inline_key_wf_def split: sum.splits prod.splits if_splits option.splits)

section \<open>The commands\<close>

lemma map_err_Inl: "map_err f r = Inl e \<longleftrightarrow> (\<exists>e'. r = Inl e' \<and> e = f e')"
  by (cases r) auto

lemma map_err_Inr: "map_err f r = Inr x \<longleftrightarrow> r = Inr x"
  by (cases r) auto

text \<open>A command that ends: on success a well-formed configuration is on disk, otherwise the file is as it
was.\<close>

definition stored_wf :: "cmd_env \<Rightarrow> string \<Rightarrow> files \<Rightarrow> int \<Rightarrow> files \<Rightarrow> bool" where
  "stored_wf env path fs code fs' \<longleftrightarrow>
     (if code = EXIT_SUCCESS then \<exists>cfg'. load_config (cm_cli env) fs' = Inr (path, cfg') \<and> config_wf cfg' else fs' = fs)"

lemma finish_save_wf:
  assumes "disk_ok (cm_cli env) path fs" "finish_save env path cfg' w fs = (code, st')" "config_wf cfg'"
  shows "stored_wf env path fs code (cs_files st')"
proof -
  obtain r fs' where s: "save_config (cm_cli env) path cfg' fs = (r, fs')" by fastforce
  show ?thesis
    using save_config_ok[OF assms(1) s] assms(2,3) s
    by (cases r) (auto simp: finish_save_def stored_wf_def exit_codes)
qed

lemma stored_wf_failed: "code \<noteq> EXIT_SUCCESS \<Longrightarrow> stored_wf env path fs code fs"
  by (simp add: stored_wf_def)

lemma stored_wf_same:
  "load_config (cm_cli env) fs = Inr (path, cfg) \<Longrightarrow> config_wf cfg \<Longrightarrow> stored_wf env path fs code fs"
  by (simp add: stored_wf_def)

lemmas exit_differs = EXIT_SUCCESS_def EXIT_USAGE_def EXIT_NOT_FOUND_def EXIT_DUPLICATE_def
  EXIT_VALIDATION_def EXIT_STORE_def

lemma seal_inline_code: "seal_inline_body X be env b k u cfg w = (Inl code, w') \<Longrightarrow> code = EXIT_STORE"
  by (auto simp: seal_inline_body_def unlock_vault_key_def split: option.splits key_source.splits sum.splits prod.splits)

lemma host_add_build_ok:
  assumes "host_add_build X be env cfg fl name addr cred fs w = (r, w')"
  shows "r = Inl code \<Longrightarrow> code \<noteq> EXIT_SUCCESS"
    and "r = Inr h \<Longrightarrow> ulid_ok (cm_fresh env) \<Longrightarrow> host_wf h \<and> h_id h = cm_fresh env \<and> h_name h = name"
proof -
  have i: "code = EXIT_VALIDATION \<or> code = EXIT_STORE" if "r = Inl code" "imports_identity (ha_import fl)"
    using assms that
    by (auto simp: host_add_build_def split: sum.splits option.splits prod.splits dest: seal_inline_code)
  have n: "code = EXIT_VALIDATION" if "r = Inl code" "\<not> imports_identity (ha_import fl)"
    using assms that by (auto simp: host_add_build_def map_err_Inl)
  show "code \<noteq> EXIT_SUCCESS" if "r = Inl code" using i[OF that] n[OF that]
    by (cases "imports_identity (ha_import fl)") (auto simp: exit_differs)
  show "host_wf h \<and> h_id h = cm_fresh env \<and> h_name h = name" if r: "r = Inr h" and u: "ulid_ok (cm_fresh env)"
  proof (cases "imports_identity (ha_import fl)")
    case True
    then obtain priv cert sealed where k: "resolve_inline_identity (ha_import fl) (cm_stdin env) fs = Inr (Some (priv, cert))"
      "seal_inline_body X be env (with_inline_key priv cert (body_new (opt_or (ha_user fl) ''root''))) OwnerHost
         (cm_fresh env) cfg w = (Inr sealed, w')"
      "h = \<lparr>h_id = cm_fresh env, h_name = name, h_host = addr, h_port = opt_or (ha_port fl) 22,
            h_ssh_args = normalize_ssh_args (ha_ssh_args fl), h_auth = AuthInline sealed\<rparr>"
      using assms unfolding r by (auto simp: host_add_build_def split: sum.splits option.splits prod.splits)
    obtain p where "priv = Plain p" using resolve_inline_identity_plain(1)[OF k(1)] by auto
    then have "body_wf sealed" using sealed_import_wf k(2) resolve_inline_identity_plain(2)[OF k(1)] by metis
    then show ?thesis using k(3) u by (simp add: host_wf_def)
  next
    case False
    then show ?thesis
      using assms u unfolding r
      by (auto simp: host_add_build_def merge_fields_def host_wf_def build_auth_def body_wf_def with_key_def
          body_new_def map_err_Inr Let_def split: sum.splits option.splits if_splits)
  qed
qed

lemma position_id_host:
  assumes "config_wf cfg" "orig \<in> set (hosts cfg)"
  obtains i where "position (\<lambda>x. h_id x = h_id orig) (hosts cfg) = Some i" "i < length (hosts cfg)" "hosts cfg ! i = orig"
proof -
  obtain i where i: "position (\<lambda>x. h_id x = h_id orig) (hosts cfg) = Some i"
    using assms(2) by (cases "position (\<lambda>x. h_id x = h_id orig) (hosts cfg)") (auto simp: position_None)
  have "h_id (hosts cfg ! i) = h_id orig" "i < length (hosts cfg)" using position_Some[OF i] by auto
  then show thesis
    using that i assms by (metis config_wf_def distinct_map inj_on_eq_iff nth_mem)
qed

lemma position_id_credential:
  assumes "config_wf cfg" "orig \<in> set (credentials cfg)"
  obtains i where "position (\<lambda>x. c_id x = c_id orig) (credentials cfg) = Some i" "i < length (credentials cfg)"
    "credentials cfg ! i = orig"
proof -
  obtain i where i: "position (\<lambda>x. c_id x = c_id orig) (credentials cfg) = Some i"
    using assms(2) by (cases "position (\<lambda>x. c_id x = c_id orig) (credentials cfg)") (auto simp: position_None)
  have "c_id (credentials cfg ! i) = c_id orig" "i < length (credentials cfg)" using position_Some[OF i] by auto
  then show thesis
    using that i assms by (metis config_wf_def distinct_map inj_on_eq_iff nth_mem)
qed

lemma replace_host_by_id_wf:
  assumes "config_wf cfg" "orig \<in> set (hosts cfg)" "host_wf h" "h_id h = h_id orig"
    and "\<And>x. x \<in> set (hosts cfg) \<Longrightarrow> h_name x = h_name h \<Longrightarrow> h_name x = h_name orig"
  shows "config_wf (replace_host_by_id (h_id orig) h cfg)"
proof -
  obtain i where i: "position (\<lambda>x. h_id x = h_id orig) (hosts cfg) = Some i" "i < length (hosts cfg)" "hosts cfg ! i = orig"
    by (rule position_id_host[OF assms(1,2)])
  have d: "inj_on h_id (set (hosts cfg))" "inj_on h_name (set (hosts cfg))"
    using assms(1) by (auto simp: config_wf_def distinct_map)
  have "h_id x \<noteq> h_id h \<and> h_name x \<noteq> h_name h" if "x \<in> set (hosts cfg)" "x \<noteq> hosts cfg ! i" for x
    using that d assms(2,4,5) i(3) by (metis inj_on_eq_iff)
  then show ?thesis
    using config_wf_update_host[OF assms(1,3) i(2)] i(1) by (simp add: replace_host_by_id_def)
qed

lemma replace_credential_by_id_wf:
  assumes "config_wf cfg" "orig \<in> set (credentials cfg)" "credential_wf c" "c_id c = c_id orig"
    and "\<And>x. x \<in> set (credentials cfg) \<Longrightarrow> c_name x = c_name c \<Longrightarrow> c_name x = c_name orig"
  shows "config_wf (replace_credential_by_id (c_id orig) c cfg)"
proof -
  obtain i where i: "position (\<lambda>x. c_id x = c_id orig) (credentials cfg) = Some i" "i < length (credentials cfg)"
    "credentials cfg ! i = orig" by (rule position_id_credential[OF assms(1,2)])
  have d: "inj_on c_id (set (credentials cfg))" "inj_on c_name (set (credentials cfg))"
    using assms(1) by (auto simp: config_wf_def distinct_map)
  have "c_id x \<noteq> c_id c \<and> c_name x \<noteq> c_name c" if "x \<in> set (credentials cfg)" "x \<noteq> credentials cfg ! i" for x
    using that d assms(2,4,5) i(3) by (metis inj_on_eq_iff)
  then show ?thesis
    using config_wf_update_credential[OF assms(1,3) i(2)] i(1) by (simp add: replace_credential_by_id_def)
qed

lemma replace_host_by_name_wf:
  assumes "config_wf cfg" "host_wf h" "h_id h \<notin> h_id ` set (hosts cfg)"
  shows "config_wf (replace_host_by_name (h_name h) h cfg)"
proof (cases "position (\<lambda>x. h_name x = h_name h) (hosts cfg)")
  case None
  then have "find_host_by_name cfg (h_name h) = None"
    by (auto simp: position_None find_host_by_name_def find_None_iff)
  then show ?thesis using config_wf_append_host[OF assms] None by (simp add: replace_host_by_name_def)
next
  case (Some i)
  have i: "i < length (hosts cfg)" "h_name (hosts cfg ! i) = h_name h" using position_Some[OF Some] by auto
  have "inj_on h_name (set (hosts cfg))" using assms(1) by (auto simp: config_wf_def distinct_map)
  then have "h_id x \<noteq> h_id h \<and> h_name x \<noteq> h_name h" if "x \<in> set (hosts cfg)" "x \<noteq> hosts cfg ! i" for x
    using that assms(3) i nth_mem by (metis imageI inj_on_eq_iff)
  then show ?thesis
    using config_wf_update_host[OF assms(1,2) i(1)] Some by (simp add: replace_host_by_name_def)
qed

lemma rename_free:
  assumes "is_ok (validate_rename cfg (h_name orig) new)" "x \<in> set (hosts cfg)" "h_name x = new"
  shows "h_name x = h_name orig"
  using assms by (auto simp: validate_rename_def is_ok_iff list_ex_iff split: if_splits)

lemma rename_credential_free:
  assumes "is_ok (validate_rename_credential cfg (c_name orig) new)" "x \<in> set (credentials cfg)" "c_name x = new"
  shows "c_name x = c_name orig"
  using assms by (auto simp: validate_rename_credential_def is_ok_iff list_ex_iff split: if_splits)

lemma host_add_wf:
  assumes disk: "disk_ok (cm_cli env) path (cs_files st)" and l: "load_config (cm_cli env) (cs_files st) = Inr (path, cfg)"
    and cfg: "config_wf cfg" and f: "ulid_ok (cm_fresh env)" "cm_fresh env \<notin> h_id ` set (hosts cfg)"
    and run: "host_add X be env fl st = (code, st')"
  shows "stored_wf env path (cs_files st) code (cs_files st')"
proof (cases "host_add_checks env cfg fl")
  case (Inl c)
  then have "c \<noteq> EXIT_SUCCESS"
    by (auto simp: host_add_checks_def and_then_Inl require_name_def map_err_Inl resolve_credential_name_def exit_differs
        split: option.splits)
  then show ?thesis using run l Inl by (auto simp: host_add_def intro: stored_wf_failed)
next
  case (Inr r)
  obtain name addr cred where c: "host_add_checks env cfg fl = Inr (name, addr, cred)" using Inr by (cases r) auto
  have dup: "\<not> ha_force fl \<Longrightarrow> find_host_by_name cfg name = None"
    using c by (auto simp: host_add_checks_def map_err_Inr validate_no_duplicate_iff)
  obtain b w where b: "host_add_build X be env cfg fl name addr cred (cs_files st) (cs_world st) = (b, w)" by fastforce
  note k = host_add_build_ok[OF b]
  show ?thesis
  proof (cases b)
    case (Inl co)
    then show ?thesis using run l c b k(1)[OF Inl] by (auto simp: host_add_def intro: stored_wf_failed)
  next
    case (Inr h)
    have h: "host_wf h" "h_id h = cm_fresh env" "h_name h = name" using k(2)[OF Inr f(1)] by auto
    show ?thesis
    proof (cases "ha_force fl")
      case True
      have "config_wf (replace_host_by_name name h cfg)"
        using replace_host_by_name_wf[OF cfg h(1)] h(2,3) f(2) by simp
      then show ?thesis
        using run l c b Inr True by (auto simp: host_add_def intro: finish_save_wf[OF disk])
    next
      case False
      show ?thesis
      proof (cases "add_host (cm_splitter env) cfg (cm_fresh env) name (h_host h) (h_port h) (ha_ssh_args fl) (h_auth h)")
        case (Inl e)
        then show ?thesis
          using run l c b Inr False by (auto simp: host_add_def \<open>b = Inr h\<close> exit_differs intro!: stored_wf_failed)
      next
        case add: (Inr next_cfg)
        then have n: "next_cfg = cfg\<lparr>hosts := hosts cfg @ [\<lparr>h_id = cm_fresh env, h_name = name, h_host = h_host h,
            h_port = h_port h, h_ssh_args = normalize_ssh_args (ha_ssh_args fl), h_auth = h_auth h\<rparr>]\<rparr>"
          by (simp add: add_host_ok append_host_def)
        have "config_wf next_cfg"
          unfolding n by (rule config_wf_append_host) (use cfg h f dup[OF False] in \<open>auto simp: host_wf_def\<close>)
        then show ?thesis
          using run l c b Inr False add by (auto simp: host_add_def intro: finish_save_wf[OF disk])
      qed
    qed
  qed
qed

lemma host_edit_wf:
  assumes disk: "disk_ok (cm_cli env) path (cs_files st)" and l: "load_config (cm_cli env) (cs_files st) = Inr (path, cfg)"
    and cfg: "config_wf cfg" and run: "host_edit X be env fl st = (code, st')"
  shows "stored_wf env path (cs_files st) code (cs_files st')"
proof -
  have same: "stored_wf env path (cs_files st) c (cs_files st)" for c by (rule stored_wf_same[OF l cfg])
  show ?thesis
  proof (cases "\<exists>name orig cred h w. he_name fl = Some name \<and> find_host_by_name cfg name = Some orig
      \<and> (case eo_rename (he_options fl) of Some new \<Rightarrow> is_ok (validate_rename cfg name new) | None \<Rightarrow> True)
      \<and> (if imports_identity (he_import fl)
         then host_edit_import X be env cfg orig fl (cs_files st) (cs_world st)
         else (map_err (\<lambda>_. EXIT_VALIDATION)
                 (apply_patch (cm_splitter env) orig ((he_options fl)\<lparr>eo_credential := cred\<rparr>)), cs_world st)) = (Inr h, w)
      \<and> finish_save env path (replace_host_by_id (h_id orig) h cfg) w (cs_files st) = (code, st')")
    case False
    then show ?thesis
      using run l same
      by (auto simp: host_edit_def require_name_def not_le split: sum.splits option.splits prod.splits if_splits)
  next
    case True
    then obtain name orig cred h w where k: "find_host_by_name cfg name = Some orig"
      "case eo_rename (he_options fl) of Some new \<Rightarrow> is_ok (validate_rename cfg name new) | None \<Rightarrow> True"
      "(if imports_identity (he_import fl) then host_edit_import X be env cfg orig fl (cs_files st) (cs_world st)
        else (map_err (\<lambda>_. EXIT_VALIDATION)
                 (apply_patch (cm_splitter env) orig ((he_options fl)\<lparr>eo_credential := cred\<rparr>)), cs_world st)) = (Inr h, w)"
      and fin: "finish_save env path (replace_host_by_id (h_id orig) h cfg) w (cs_files st) = (code, st')"
      by metis
    have o: "orig \<in> set (hosts cfg)" "h_name orig = name"
      using find_Some_sat[of _ "hosts cfg" orig] k(1) by (auto simp: find_host_by_name_def)
    have ow: "host_wf orig" using cfg o(1) by (auto simp: config_wf_def list_all_iff)
    have h: "h_id h = h_id orig" "h_name h = opt_or (eo_rename (he_options fl)) (h_name orig)" "host_wf h"
    proof -
      have "h_id h = h_id orig \<and> h_name h = opt_or (eo_rename (he_options fl)) (h_name orig) \<and> host_wf h"
      proof (cases "imports_identity (he_import fl)")
        case True
        then obtain priv cert user sealed where r:
          "resolve_inline_identity (he_import fl) (cm_stdin env) (cs_files st) = Inr (Some (priv, cert))"
          "seal_inline_body X be env (with_inline_key priv cert (body_new user)) OwnerHost (h_id orig) cfg (cs_world st)
             = (Inr sealed, w)"
          "h_id h = h_id orig" "h_name h = opt_or (eo_rename (he_options fl)) (h_name orig)" "h_auth h = AuthInline sealed"
          using k(3) by (auto simp: host_edit_import_def Let_def split: sum.splits option.splits prod.splits)
        obtain p where "priv = Plain p" using resolve_inline_identity_plain(1)[OF r(1)] by auto
        then have "body_wf sealed" using sealed_import_wf r(2) resolve_inline_identity_plain(2)[OF r(1)] by metis
        then show ?thesis using r(3-5) ow by (simp add: host_wf_def)
      next
        case False
        then obtain args au where p: "patch_auth orig ((he_options fl)\<lparr>eo_credential := cred\<rparr>) = Inr au"
          "h_id h = h_id orig" "h_name h = opt_or (eo_rename (he_options fl)) (h_name orig)" "h_auth h = au"
          using k(3) by (auto simp: map_err_Inr apply_patch_def)
        then show ?thesis using patch_auth_ok(1)[OF p(1) ow] ow by (auto simp: host_wf_def)
      qed
      then show "h_id h = h_id orig" "h_name h = opt_or (eo_rename (he_options fl)) (h_name orig)" "host_wf h" by auto
    qed
    have "h_name x = h_name orig" if "x \<in> set (hosts cfg)" "h_name x = h_name h" for x
      using that k(2) h(2) o(2) rename_free[of cfg orig] by (auto simp: opt_or_def split: option.splits)
    then have "config_wf (replace_host_by_id (h_id orig) h cfg)"
      using replace_host_by_id_wf[OF cfg o(1) h(3,1)] by blast
    then show ?thesis by (rule finish_save_wf[OF disk fin])
  qed
qed

lemma host_rm_wf:
  assumes disk: "disk_ok (cm_cli env) path (cs_files st)" and l: "load_config (cm_cli env) (cs_files st) = Inr (path, cfg)"
    and cfg: "config_wf cfg" and run: "host_rm be env name yes st = (code, st')"
  shows "stored_wf env path (cs_files st) code (cs_files st')"
proof -
  have same: "stored_wf env path (cs_files st) c (cs_files st)" for c by (rule stored_wf_same[OF l cfg])
  have "config_wf (drop_host n cfg)" for n
    using cfg hreg.keys_ok_drop unfolding config_wf_registries
    by (auto simp: drop_host_def creg.keys_ok_def hreg.keys_ok_def list_all_iff)
  then show ?thesis
    using run l same
    by (auto simp: host_rm_def require_name_def delete_host_with_secret_def remove_host_ok
        split: sum.splits option.splits prod.splits if_splits intro: finish_save_wf[OF disk])
qed

lemma host_cp_wf:
  assumes disk: "disk_ok (cm_cli env) path (cs_files st)" and l: "load_config (cm_cli env) (cs_files st) = Inr (path, cfg)"
    and cfg: "config_wf cfg" and f: "ulid_ok (cm_fresh env)" "cm_fresh env \<notin> h_id ` set (hosts cfg)"
    and run: "host_cp be env src dst st = (code, st')"
  shows "stored_wf env path (cs_files st) code (cs_files st')"
proof -
  have same: "stored_wf env path (cs_files st) c (cs_files st)" for c by (rule stored_wf_same[OF l cfg])
  have "config_wf (cfg\<lparr>hosts := hosts cfg @ [clone_host_as h (cm_fresh env) d]\<rparr>)"
    if "is_ok (validate_dst cfg d)" "find_host_by_name cfg s = Some h" for d s h
  proof (rule config_wf_append_host[OF cfg])
    have "h \<in> set (hosts cfg)" using find_Some_sat[of _ "hosts cfg" h] that(2) by (auto simp: find_host_by_name_def)
    then show "host_wf (clone_host_as h (cm_fresh env) d)"
      using cfg f(1) by (auto simp: clone_host_as_def host_wf_def config_wf_def list_all_iff)
  qed (use that f in \<open>auto simp: clone_host_as_def validate_dst_def is_ok_iff validate_no_duplicate_iff\<close>)
  then show ?thesis
    using run l same
    by (auto simp: host_cp_def Let_def split: option.splits prod.splits if_splits intro: finish_save_wf[OF disk])
qed

lemma cred_body_wf:
  assumes "cred_add_body X be env cfg fl fs w = (Inr b, w')"
  shows "body_wf b"
proof (cases "imports_identity (cf_import fl)")
  case True
  then obtain user priv cert where r: "resolve_inline_identity (cf_import fl) (cm_stdin env) fs = Inr (Some (priv, cert))"
    "seal_inline_body X be env (with_inline_key priv cert (body_new user)) OwnerCredential (cm_fresh env) cfg w = (Inr b, w')"
    using assms by (auto simp: cred_add_body_def split: sum.splits option.splits prod.splits)
  obtain p where "priv = Plain p" using resolve_inline_identity_plain(1)[OF r(1)] by auto
  then show ?thesis using sealed_import_wf r(2) resolve_inline_identity_plain(2)[OF r(1)] by metis
next
  case False
  then show ?thesis
    using assms
    by (auto simp: cred_add_body_def map_err_Inr build_body_def Let_def validate_body_iff)
qed

lemma cred_add_wf:
  assumes disk: "disk_ok (cm_cli env) path (cs_files st)" and l: "load_config (cm_cli env) (cs_files st) = Inr (path, cfg)"
    and cfg: "config_wf cfg" and f: "ulid_ok (cm_fresh env)" "cm_fresh env \<notin> c_id ` set (credentials cfg)"
    and force: "\<not> cf_force fl" and run: "cred_add X be env fl st = (code, st')"
  shows "stored_wf env path (cs_files st) code (cs_files st')"
proof -
  have same: "stored_wf env path (cs_files st) c (cs_files st)" for c by (rule stored_wf_same[OF l cfg])
  have "config_wf (append_credential \<lparr>c_id = cm_fresh env, c_name = n, c_body = b\<rparr> cfg)"
    if "is_ok (validate_no_duplicate_credential cfg n False)" "body_wf b" for n b
    unfolding append_credential_def
    by (rule config_wf_append_credential[OF cfg])
      (use that f in \<open>auto simp: credential_wf_def is_ok_iff validate_no_duplicate_credential_iff\<close>)
  then have app: "stored_wf env path (cs_files st) code (cs_files st')"
    if "is_ok (validate_no_duplicate_credential cfg n False)" "cred_add_body X be env cfg fl (cs_files st) (cs_world st) = (Inr b, w)"
      "finish_save env path (append_credential \<lparr>c_id = cm_fresh env, c_name = n, c_body = b\<rparr> cfg) w (cs_files st) = (code, st')"
    for n b w
    using that cred_body_wf finish_save_wf[OF disk] by blast
  show ?thesis
    using run l force same
    by (auto simp: cred_add_def require_name_def add_credential_ok split: sum.splits option.splits prod.splits if_splits
        intro: app)
qed

lemma cred_edit_wf:
  assumes disk: "disk_ok (cm_cli env) path (cs_files st)" and l: "load_config (cm_cli env) (cs_files st) = Inr (path, cfg)"
    and cfg: "config_wf cfg" and run: "cred_edit X be env fl st = (code, st')"
  shows "stored_wf env path (cs_files st) code (cs_files st')"
proof -
  have same: "stored_wf env path (cs_files st) c (cs_files st)" for c by (rule stored_wf_same[OF l cfg])
  have ok: "config_wf (replace_credential_by_id (c_id orig) c cfg)"
    if o: "find_credential_by_name cfg name = Some orig"
      and r: "case ce_rename (cg_options fl) of Some new \<Rightarrow> is_ok (validate_rename_credential cfg name new) | None \<Rightarrow> True"
      and u: "(if imports_identity (cg_import fl) then cred_edit_import X be env cfg orig fl (cs_files st) (cs_world st)
         else (map_err (\<lambda>_. EXIT_VALIDATION) (apply_credential_patch orig (cg_options fl)), cs_world st)) = (Inr c, w)"
    for name orig c w
  proof -
    have oin: "orig \<in> set (credentials cfg)" "c_name orig = name"
      using find_Some_sat[of _ "credentials cfg" orig] o by (auto simp: find_credential_by_name_def)
    have ow: "credential_wf orig" using cfg oin(1) by (auto simp: config_wf_def list_all_iff)
    have c: "c_id c = c_id orig \<and> c_name c = opt_or (ce_rename (cg_options fl)) (c_name orig) \<and> credential_wf c"
    proof (cases "imports_identity (cg_import fl)")
      case True
      then obtain priv cert user where k:
        "resolve_inline_identity (cg_import fl) (cm_stdin env) (cs_files st) = Inr (Some (priv, cert))"
        "seal_inline_body X be env (with_inline_key priv cert (body_new user)) OwnerCredential (c_id orig) cfg (cs_world st)
           = (Inr (c_body c), w)" "c_id c = c_id orig" "c_name c = opt_or (ce_rename (cg_options fl)) (c_name orig)"
        using u by (auto simp: cred_edit_import_def split: sum.splits option.splits prod.splits)
      obtain p where "priv = Plain p" using resolve_inline_identity_plain(1)[OF k(1)] by auto
      then have "body_wf (c_body c)" using sealed_import_wf k(2) resolve_inline_identity_plain(2)[OF k(1)] by metis
      then show ?thesis using k(3,4) ow by (simp add: credential_wf_def)
    next
      case False
      then show ?thesis
        using u ow by (auto simp: map_err_Inr apply_credential_patch_def Let_def credential_wf_def validate_body_iff)
    qed
    have "c_name x = c_name orig" if "x \<in> set (credentials cfg)" "c_name x = c_name c" for x
      using that r c oin(2) rename_credential_free[of cfg orig] by (auto simp: opt_or_def split: option.splits)
    then show ?thesis using replace_credential_by_id_wf[OF cfg oin(1)] c by blast
  qed
  show ?thesis
  proof (cases "\<exists>name orig c w. cg_name fl = Some name \<and> find_credential_by_name cfg name = Some orig
      \<and> (case ce_rename (cg_options fl) of Some new \<Rightarrow> is_ok (validate_rename_credential cfg name new) | None \<Rightarrow> True)
      \<and> (if imports_identity (cg_import fl) then cred_edit_import X be env cfg orig fl (cs_files st) (cs_world st)
         else (map_err (\<lambda>_. EXIT_VALIDATION) (apply_credential_patch orig (cg_options fl)), cs_world st)) = (Inr c, w)
      \<and> finish_save env path (replace_credential_by_id (c_id orig) c cfg) w (cs_files st) = (code, st')")
    case True
    then show ?thesis using ok finish_save_wf[OF disk] by metis
  next
    case False
    then show ?thesis
      using run l same
      by (auto simp: cred_edit_def require_name_def split: sum.splits option.splits prod.splits if_splits)
  qed
qed

lemma cred_rm_wf:
  assumes disk: "disk_ok (cm_cli env) path (cs_files st)" and l: "load_config (cm_cli env) (cs_files st) = Inr (path, cfg)"
    and cfg: "config_wf cfg" and run: "cred_rm be env name yes st = (code, st')"
  shows "stored_wf env path (cs_files st) code (cs_files st')"
proof -
  have same: "stored_wf env path (cs_files st) c (cs_files st)" for c by (rule stored_wf_same[OF l cfg])
  have "config_wf (drop_credential n cfg)" for n
    using cfg creg.keys_ok_drop unfolding config_wf_registries
    by (auto simp: drop_credential_def creg.keys_ok_def hreg.keys_ok_def list_all_iff)
  then show ?thesis
    using run l same
    by (auto simp: cred_rm_def require_name_def delete_credential_with_secret_def remove_credential_ok
        split: sum.splits option.splits prod.splits if_splits intro: finish_save_wf[OF disk])
qed

lemma host_run_wf:
  assumes disk: "disk_ok (cm_cli env) path (cs_files st)" and l: "load_config (cm_cli env) (cs_files st) = Inr (path, cfg)"
    and cfg: "config_wf cfg" and f: "ulid_ok (cm_fresh env)" "cm_fresh env \<notin> h_id ` set (hosts cfg)"
    and run: "host_run X be env action st = (code, st')"
  shows "stored_wf env path (cs_files st) code (cs_files st')"
proof -
  note writes = host_add_wf[OF disk l cfg f] host_edit_wf[OF disk l cfg] host_rm_wf[OF disk l cfg] host_cp_wf[OF disk l cfg f]
  have show_files: "cs_files (snd (host_show X be env n r st)) = cs_files st" for n r
    by (simp add: host_show_def l split: option.splits sum.splits prod.splits)
  show ?thesis
    using run writes show_files stored_wf_same[OF l cfg]
    by (cases action) (auto simp: host_run_def split: prod.splits, (metis snd_conv)+)
qed

lemma cred_run_wf:
  assumes disk: "disk_ok (cm_cli env) path (cs_files st)" and l: "load_config (cm_cli env) (cs_files st) = Inr (path, cfg)"
    and cfg: "config_wf cfg" and f: "ulid_ok (cm_fresh env)" "cm_fresh env \<notin> c_id ` set (credentials cfg)"
    and force: "\<And>fl. action = CredAdd fl \<Longrightarrow> \<not> cf_force fl"
    and run: "cred_run X be env action st = (code, st')"
  shows "stored_wf env path (cs_files st) code (cs_files st')"
proof -
  note writes = cred_add_wf[OF disk l cfg f] cred_edit_wf[OF disk l cfg] cred_rm_wf[OF disk l cfg]
  have show_files: "cs_files (snd (cred_show X be env n r st)) = cs_files st" for n r
    by (simp add: cred_show_def l split: option.splits sum.splits prod.splits)
  show ?thesis
    using run writes show_files stored_wf_same[OF l cfg] force
    by (cases action) (auto simp: cred_run_def split: prod.splits, (metis snd_conv)+)
qed

section \<open>The properties\<close>

text \<open>C32: a host or credential command that finds a well-formed configuration on disk and reports success
leaves one there that loads back well formed, and with any other exit code the file is unchanged;
\<^verbatim>\<open>cred add --force\<close> is left out, because it can store a name twice
(\<^verbatim>\<open>cred_add_force_duplicates\<close>).\<close>

theorem commands_keep_config_wf:
  assumes "disk_ok (cm_cli env) path (cs_files st)" "load_config (cm_cli env) (cs_files st) = Inr (path, cfg)" "config_wf cfg"
    and "ulid_ok (cm_fresh env)" "cm_fresh env \<notin> h_id ` set (hosts cfg) \<union> c_id ` set (credentials cfg)"
    and "host_run X be env ha st = (code, st')
      \<or> cred_run X be env ca st = (code, st') \<and> (\<forall>fl. ca = CredAdd fl \<longrightarrow> \<not> cf_force fl)"
  shows "if code = EXIT_SUCCESS
    then \<exists>cfg'. load_config (cm_cli env) (cs_files st') = Inr (path, cfg') \<and> config_wf cfg'
    else cs_files st' = cs_files st"
  using assms host_run_wf[OF assms(1-4), of X be ha code st'] cred_run_wf[OF assms(1-4), of ca X be code st']
  unfolding stored_wf_def by blast

definition demo_ops :: "string \<Rightarrow> ulid \<Rightarrow> credential" where
  "demo_ops user u = \<lparr>c_id = u, c_name = ''ops'', c_body = body_new user\<rparr>"

definition demo_creds :: "host list \<Rightarrow> credential list \<Rightarrow> sshrack_config" where
  "demo_creds hs cs = \<lparr>format_version = 1, hosts = hs, credentials = cs, store = None\<rparr>"

definition demo_cmd :: "toml \<Rightarrow> cmd_env" where
  "demo_cmd tm = \<lparr>cm_cli = store_env tm, cm_similarity = (\<lambda>_ _. 0), cm_splitter = (\<lambda>_. None),
     cm_fresh = demo_ids ! 1, cm_stdin = Inr [], cm_data_dir = None,
     cm_frecency_toml = \<lparr>ft_parse = (\<lambda>_. None), ft_print = (\<lambda>_. None)\<rparr>, cm_ulid_parse = Some,
     cm_keys = (\<lambda>_. []), cm_json = False\<rparr>"

lemma demo_cmd_load:
  "load_config (cm_cli (demo_cmd (pair_toml a b))) (cs_files (store_state w)) = Inr (''/etc/c.toml'', a)"
  by (simp add: demo_cmd_def store_load)

lemma demo_creds_wf: "config_wf (demo_creds [] [demo_ops ''root'' (demo_ids ! 0)])"
  by (simp add: demo_creds_def demo_ops_def config_wf_def credential_wf_def body_wf_def body_new_def ulid_ok_def
      demo_ids_def crockford_def)

definition demo_no_import :: identity_flags where
  "demo_no_import = \<lparr>if_stdin = False, if_file = None, if_certificate_stdin = False, if_certificate_file = None\<rparr>"

definition demo_web :: host where
  "demo_web = \<lparr>h_id = demo_ids ! 1, h_name = ''web'', h_host = ''10.0.0.9'', h_port = 2222, h_ssh_args = None,
     h_auth = AuthRef (demo_ids ! 0)\<rparr>"

definition demo_add :: host_add_flags where
  "demo_add = \<lparr>ha_name = Some ''web'', ha_host = Some ''10.0.0.9'', ha_user = None, ha_port = Some 2222,
     ha_ssh_args = None, ha_identity = None, ha_import = demo_no_import, ha_credential = Some ''ops'', ha_force = False\<rparr>"

theorem commands_keep_config_wf_witness:
  "let cfg = demo_creds [] [demo_ops ''root'' (demo_ids ! 0)];
       env = demo_cmd (pair_toml cfg (demo_creds [demo_web] (credentials cfg)));
       r = host_run demo_crates fake_backend env (HostAdd demo_add) (store_state demo_world)
   in fst r = EXIT_SUCCESS
      \<and> (\<exists>cfg'. load_config (cm_cli env) (cs_files (snd r)) = Inr (''/etc/c.toml'', cfg') \<and> config_wf cfg')"
proof -
  let ?cfg = "demo_creds [] [demo_ops ''root'' (demo_ids ! 0)]"
  let ?env = "demo_cmd (pair_toml ?cfg (demo_creds [demo_web] (credentials ?cfg)))"
  have "fst (host_run demo_crates fake_backend ?env (HostAdd demo_add) (store_state demo_world)) = EXIT_SUCCESS"
    by code_simp
  then obtain st' where r: "host_run demo_crates fake_backend ?env (HostAdd demo_add) (store_state demo_world)
      = (EXIT_SUCCESS, st')" by (metis prod.collapse)
  have fresh: "ulid_ok (cm_fresh ?env)" "cm_fresh ?env \<notin> h_id ` set (hosts ?cfg) \<union> c_id ` set (credentials ?cfg)"
    by (simp_all add: demo_cmd_def demo_creds_def demo_ops_def ulid_ok_def demo_ids_def crockford_def)
  have disk: "disk_ok (cm_cli ?env) ''/etc/c.toml'' (cs_files (store_state demo_world))"
    using store_disk by (simp add: demo_cmd_def)
  show ?thesis
    using commands_keep_config_wf[OF disk demo_cmd_load demo_creds_wf fresh disjI1[OF r]] by (simp add: r)
qed

text \<open>Cred add --force on an existing name does not overwrite it: a second credential of the same name is
appended, lookups by name still find the old one, and the configuration on disk is no longer well formed.\<close>

theorem cred_add_force_duplicates:
  assumes "disk_ok (cm_cli env) path (cs_files st)" "load_config (cm_cli env) (cs_files st) = Inr (path, cfg)"
    and "cf_name fl = Some n" "cf_force fl" "find_credential_by_name cfg n = Some old"
    and "cred_run X be env (CredAdd fl) st = (EXIT_SUCCESS, st')"
  shows "\<exists>cfg' new. load_config (cm_cli env) (cs_files st') = Inr (path, cfg') \<and> c_name new = n
           \<and> credentials cfg' = credentials cfg @ [new] \<and> find_credential_by_name cfg' n = Some old \<and> \<not> config_wf cfg'"
proof -
  obtain b w where r: "finish_save env path (append_credential \<lparr>c_id = cm_fresh env, c_name = n, c_body = b\<rparr> cfg) w
      (cs_files st) = (EXIT_SUCCESS, st')"
    using assms(2-6)
    by (auto simp: cred_run_def cred_add_def require_name_def add_credential_ok cred_add_body_def exit_differs
        seal_inline_code map_err_Inl dest: seal_inline_code split: sum.splits option.splits prod.splits if_splits)
  have old: "old \<in> set (credentials cfg)" "c_name old = n"
    using find_Some_sat[of _ "credentials cfg" old] assms(5) by (auto simp: find_credential_by_name_def)
  have l: "load_config (cm_cli env) (cs_files st')
      = Inr (path, append_credential \<lparr>c_id = cm_fresh env, c_name = n, c_body = b\<rparr> cfg)"
    using r save_config_ok[OF assms(1)]
    by (fastforce simp: finish_save_def exit_codes split: prod.splits sum.splits)
  have "find_credential_by_name (append_credential \<lparr>c_id = cm_fresh env, c_name = n, c_body = b\<rparr> cfg) n = Some old"
    using assms(5) by (simp add: find_credential_by_name_def append_credential_def find_append)
  moreover have "\<not> config_wf (append_credential \<lparr>c_id = cm_fresh env, c_name = n, c_body = b\<rparr> cfg)"
    using old by (auto simp: config_wf_def append_credential_def)
  ultimately show ?thesis using l by (auto simp: append_credential_def)
qed

definition demo_force :: cred_add_flags where
  "demo_force = \<lparr>cf_name = Some ''ops'', cf_user = Some ''deploy'', cf_identity = None, cf_import = demo_no_import,
     cf_force = True\<rparr>"

theorem cred_add_force_duplicates_witness:
  "let cfg = demo_creds [] [demo_ops ''root'' (demo_ids ! 0)];
       env = demo_cmd (pair_toml cfg (demo_creds [] [demo_ops ''root'' (demo_ids ! 0), demo_ops ''deploy'' (demo_ids ! 1)]));
       r = cred_run demo_crates fake_backend env (CredAdd demo_force) (store_state demo_world)
   in fst r = EXIT_SUCCESS
      \<and> (\<exists>cfg'. load_config (cm_cli env) (cs_files (snd r)) = Inr (''/etc/c.toml'', cfg')
           \<and> find_credential_by_name cfg' ''ops'' = Some (demo_ops ''root'' (demo_ids ! 0)) \<and> \<not> config_wf cfg')"
proof -
  let ?cfg = "demo_creds [] [demo_ops ''root'' (demo_ids ! 0)]"
  let ?env = "demo_cmd (pair_toml ?cfg (demo_creds [] [demo_ops ''root'' (demo_ids ! 0), demo_ops ''deploy'' (demo_ids ! 1)]))"
  have "fst (cred_run demo_crates fake_backend ?env (CredAdd demo_force) (store_state demo_world)) = EXIT_SUCCESS"
    by code_simp
  then obtain st' where r: "cred_run demo_crates fake_backend ?env (CredAdd demo_force) (store_state demo_world)
      = (EXIT_SUCCESS, st')" by (metis prod.collapse)
  have fl: "cf_name demo_force = Some ''ops''" "cf_force demo_force" by (simp_all add: demo_force_def)
  have old: "find_credential_by_name ?cfg ''ops'' = Some (demo_ops ''root'' (demo_ids ! 0))"
    by (simp add: find_credential_by_name_def demo_creds_def demo_ops_def)
  have disk: "disk_ok (cm_cli ?env) ''/etc/c.toml'' (cs_files (store_state demo_world))"
    using store_disk by (simp add: demo_cmd_def)
  show ?thesis
    using cred_add_force_duplicates[OF disk demo_cmd_load fl old r] by (auto simp: r Let_def simp del: One_nat_def)
qed

end
