(* ===== verification/Hostkey.thy ===== *)
theory Hostkey
  imports Prompt Config_Store
begin

text \<open>The host-key pre-flight (\<^verbatim>\<open>hostkey.rs\<close>): reading fingerprints, the decision for a
known, new or unconfirmed host, and the flow that asks, scans and extends \<^verbatim>\<open>known_hosts\<close>.  The
programs \<^verbatim>\<open>ssh-keygen\<close> and \<^verbatim>\<open>ssh-keyscan\<close> are arguments: what a run answers, or the error of
spawning it.\<close>

section \<open>Fingerprints\<close>

datatype key_algo = Ed25519 | Ecdsa | Rsa | OtherAlgo

fun key_algo_label :: "key_algo \<Rightarrow> string" where
  "key_algo_label Ed25519 = ''ED25519''"
| "key_algo_label Ecdsa = ''ECDSA''"
| "key_algo_label Rsa = ''RSA''"
| "key_algo_label OtherAlgo = ''OTHER''"

definition key_algo_from_label :: "string \<Rightarrow> key_algo" where
  "key_algo_from_label raw =
     (let l = to_ascii_lowercase (trim raw)
      in if l = ''ed25519'' then Ed25519 else if l = ''ecdsa'' then Ecdsa else if l = ''rsa'' then Rsa else OtherAlgo)"

record fingerprint =
  fp_bits :: nat
  fp_algo :: key_algo
  fp_sha256 :: string

definition trim_matches :: "char \<Rightarrow> char \<Rightarrow> string \<Rightarrow> string" where
  "trim_matches a b s = rev (dropWhile (\<lambda>c. c = b) (rev (dropWhile (\<lambda>c. c = a) s)))"

definition parse_fingerprint_line :: "string \<Rightarrow> fingerprint option" where
  "parse_fingerprint_line l =
     (let line = trim l
      in if line = [] \<or> starts_with ''#'' line then None
         else case split_whitespace line of
           bits # sha # _ # algo # _ \<Rightarrow>
             (case parse_unsigned 32 bits of
                None \<Rightarrow> None
              | Some n \<Rightarrow>
                  if starts_with ''SHA256:'' sha
                  then Some \<lparr>fp_bits = n, fp_algo = key_algo_from_label (trim_matches (CHR ''('') (CHR '')'') algo),
                             fp_sha256 = sha\<rparr>
                  else None)
         | _ \<Rightarrow> None)"

definition parse_fingerprints :: "string \<Rightarrow> fingerprint list" where
  "parse_fingerprints out = List.map_filter parse_fingerprint_line (lines out)"

fun pick_first :: "key_algo list \<Rightarrow> fingerprint list \<Rightarrow> fingerprint option" where
  "pick_first [] fps = (case fps of [] \<Rightarrow> None | f # _ \<Rightarrow> Some f)"
| "pick_first (a # as) fps =
     (case List.find (\<lambda>f. fp_algo f = a) fps of Some f \<Rightarrow> Some f | None \<Rightarrow> pick_first as fps)"

definition pick_primary :: "fingerprint list \<Rightarrow> fingerprint option" where
  "pick_primary fps = pick_first [Ed25519, Ecdsa, Rsa] fps"

section \<open>The decision\<close>

datatype host_key_action = HkLaunch | HkAccept | HkPrompt | HkReject

definition hostkey_classify :: "bool \<Rightarrow> bool \<Rightarrow> bool \<Rightarrow> host_key_action" where
  "hostkey_classify known tty accept_new =
     (if known then HkLaunch else if accept_new then HkAccept else if tty then HkPrompt else HkReject)"

definition confirm_text :: "string \<Rightarrow> fingerprint \<Rightarrow> string" where
  "confirm_text h fp =
     ''The authenticity of host '' @ [CHR 39] @ h @ [CHR 39] @ '' can'' @ [CHR 39] @ ''t be established.'' @ [CHR 0x0A]
     @ key_algo_label (fp_algo fp) @ '' key fingerprint is: '' @ fp_sha256 fp @ ''.'' @ [CHR 0x0A]
     @ ''Are you sure you want to continue connecting?''"

definition host_query :: "string \<Rightarrow> 16 word \<Rightarrow> string" where
  "host_query h port = (if port = 22 then h else ''['' @ h @ '']:'' @ show_nat (unat port))"

section \<open>The programs and the file\<close>

text \<open>\<^verbatim>\<open>String::from_utf8_lossy\<close>; the replacement character lies outside the model's characters and is
written as the substitute control character.\<close>

fun from_utf8_lossy :: "bytes \<Rightarrow> string" where
  "from_utf8_lossy [] = []"
| "from_utf8_lossy (c # r) =
     (if (of_char c :: nat) < 128 then c # from_utf8_lossy r
      else case r of
        [] \<Rightarrow> [CHR 0x1A]
      | d # r' \<Rightarrow>
          (case from_utf8 [c, d] of Some [x] \<Rightarrow> x # from_utf8_lossy r' | _ \<Rightarrow> CHR 0x1A # from_utf8_lossy r))"

record hostkey_env =
  hk_home :: "string option"
  hk_find :: "string \<Rightarrow> bytes \<Rightarrow> io_error + bool"
  hk_keyscan :: "bool \<Rightarrow> string \<Rightarrow> 16 word \<Rightarrow> io_error + (bool \<times> bytes)"
  hk_keygen :: "bytes \<Rightarrow> io_error + (bool \<times> bytes)"
  hk_os :: os
  hk_new_mode :: nat
  hk_newline_error :: "io_error option"

definition known_hosts_path :: "hostkey_env \<Rightarrow> string option" where
  "known_hosts_path env = map_option (\<lambda>h. h @ ''/.ssh/known_hosts'') (hk_home env)"

definition is_known :: "hostkey_env \<Rightarrow> string \<Rightarrow> 16 word \<Rightarrow> string \<Rightarrow> files \<Rightarrow> sshrack_error + bool" where
  "is_known env h port kh fs =
     (case fs kh of
        None \<Rightarrow> Inr False
      | Some f \<Rightarrow> map_err Io (hk_find env (host_query h port) (fe_bytes f)))"

definition scan_fingerprints :: "hostkey_env \<Rightarrow> string \<Rightarrow> 16 word \<Rightarrow> sshrack_error + fingerprint list" where
  "scan_fingerprints env h port =
     and_then (map_err Io (hk_keyscan env False h port)) (\<lambda>(ok, out).
       if \<not> ok then Inl (HostKeyScanFailed h)
       else if out = [] then Inl (HostKeyScanEmpty h)
       else and_then (map_err Io (hk_keygen env out)) (\<lambda>(ok', text).
         if \<not> ok' then Inl (HostKeyScanFailed h) else Inr (parse_fingerprints (from_utf8_lossy text))))"

definition strip_comments :: "string \<Rightarrow> string" where
  "strip_comments raw =
     join [CHR 0x0A] (List.filter (\<lambda>l. l \<noteq> [] \<and> \<not> starts_with ''#'' l) (map trim (lines raw)))"

text \<open>Opening for append creates the file, writes go to its end, a failed write leaves a prefix.\<close>

definition file_bytes :: "string \<Rightarrow> files \<Rightarrow> bytes" where
  "file_bytes p fs = (case fs p of Some f \<Rightarrow> fe_bytes f | None \<Rightarrow> [])"

definition append_bytes :: "string \<Rightarrow> bytes \<Rightarrow> files \<Rightarrow> files" where
  "append_bytes p bs fs = put_bytes p (file_bytes p fs @ bs) fs"

definition append_to_known_hosts ::
  "hostkey_env \<Rightarrow> string \<Rightarrow> 16 word \<Rightarrow> string \<Rightarrow> files \<Rightarrow> (sshrack_error + unit) \<times> files" where
  "append_to_known_hosts env h port kh fs =
     (case Option.bind (path_parent kh) (os_mkdir_error (hk_os env)) of
        Some e \<Rightarrow> (Inl (Io e), fs)
      | None \<Rightarrow>
          (case hk_keyscan env True h port of
             Inl e \<Rightarrow> (Inl (Io e), fs)
           | Inr (ok, out) \<Rightarrow>
               if \<not> ok then (Inl (HostKeyScanFailed h), fs)
               else
                 (let clean = strip_comments (from_utf8_lossy out)
                  in if clean = [] then (Inl (HostKeyScanEmpty h), fs)
                     else case os_open_error (hk_os env) kh of
                       Some e \<Rightarrow> (Inl (Io e), fs)
                     | None \<Rightarrow>
                         (let fs1 = (if fs kh = None then fs(kh \<mapsto> \<lparr>fe_mode = hk_new_mode env, fe_bytes = []\<rparr>) else fs)
                          in case os_write_error (hk_os env) kh of
                               Some (n, e) \<Rightarrow> (Inl (Io e), append_bytes kh (take n (utf8 clean)) fs1)
                             | None \<Rightarrow>
                                 (case hk_newline_error env of
                                    Some e \<Rightarrow> (Inl (Io e), append_bytes kh (utf8 clean) fs1)
                                  | None \<Rightarrow> (Inr (), append_bytes kh [CHR 0x0A] (append_bytes kh (utf8 clean) fs1)))))))"

section \<open>The flow\<close>

text \<open>The question is a function of its text and of the state of whoever answers.\<close>

definition run_host_key_flow ::
  "hostkey_env \<Rightarrow> string \<Rightarrow> 16 word \<Rightarrow> bool \<Rightarrow> bool \<Rightarrow> (string \<Rightarrow> 't \<Rightarrow> bool \<times> 't) \<Rightarrow> 't \<Rightarrow> files \<Rightarrow>
   (sshrack_error + unit) \<times> 't \<times> files" where
  "run_host_key_flow env h port tty accept_new confirm t fs =
     (case known_hosts_path env of
        None \<Rightarrow> (Inl NoKnownHostsPath, t, fs)
      | Some kh \<Rightarrow>
          (case is_known env h port kh fs of
             Inl e \<Rightarrow> (Inl e, t, fs)
           | Inr known \<Rightarrow>
               (case hostkey_classify known tty accept_new of
                  HkLaunch \<Rightarrow> (Inr (), t, fs)
                | HkAccept \<Rightarrow> (case append_to_known_hosts env h port kh fs of (r, fs') \<Rightarrow> (r, t, fs'))
                | HkReject \<Rightarrow> (Inl (HostKeyNotConfirmed h), t, fs)
                | HkPrompt \<Rightarrow>
                    (case scan_fingerprints env h port of
                       Inl e \<Rightarrow> (Inl e, t, fs)
                     | Inr fps \<Rightarrow>
                         (case pick_primary fps of
                            None \<Rightarrow> (Inl (HostKeyScanEmpty h), t, fs)
                          | Some primary \<Rightarrow>
                              (case confirm (confirm_text h primary) t of
                                 (yes, t') \<Rightarrow>
                                   if yes
                                   then (case append_to_known_hosts env h port kh fs of (r, fs') \<Rightarrow> (r, t', fs'))
                                   else (Inl (HostKeyNotConfirmed h), t', fs)))))))"

section \<open>Facts\<close>

lemma pick_first_cases:
  "pick_first as fps = Some f \<Longrightarrow> f \<in> set fps"
  by (induction as) (auto dest: find_Some_sat split: option.splits list.splits)

lemma pick_first_None: "pick_first as fps = None \<longleftrightarrow> fps = []"
  by (induction as) (auto simp: find_None_iff split: option.splits list.splits)

text \<open>An append changes only the file, which grows at its end; a success stores the whole cleaned scan.\<close>

lemma append_outcome:
  assumes "append_to_known_hosts env h port kh fs = (r, fs')"
  shows "fs' = fs \<or> (\<exists>bs m. fs' = fs(kh \<mapsto> \<lparr>fe_mode = m, fe_bytes = file_bytes kh fs @ bs\<rparr>))"
    and "r = Inr () \<Longrightarrow> \<exists>out. hk_keyscan env True h port = Inr (True, out) \<and> strip_comments (from_utf8_lossy out) \<noteq> []
      \<and> file_bytes kh fs' = file_bytes kh fs @ utf8 (strip_comments (from_utf8_lossy out)) @ [CHR 0x0A]"
proof -
  have app: "\<exists>m. append_bytes kh bs (if fs kh = None then fs(kh \<mapsto> \<lparr>fe_mode = hk_new_mode env, fe_bytes = []\<rparr>) else fs)
      = fs(kh \<mapsto> \<lparr>fe_mode = m, fe_bytes = file_bytes kh fs @ bs\<rparr>)" for bs
    by (rule exI[of _ "case fs kh of Some f \<Rightarrow> fe_mode f | None \<Rightarrow> hk_new_mode env"])
      (auto simp: append_bytes_def put_bytes_def file_bytes_def split: option.splits)
  have two: "append_bytes kh [CHR 0x0A] (append_bytes kh bs f) = append_bytes kh (bs @ [CHR 0x0A]) f" for bs f
    by (cases "f kh") (auto simp: append_bytes_def put_bytes_def file_bytes_def)
  have app_bytes: "file_bytes kh (append_bytes kh bs (if fs kh = None then fs(kh \<mapsto> \<lparr>fe_mode = hk_new_mode env, fe_bytes = []\<rparr>) else fs))
      = file_bytes kh fs @ bs" for bs
    using app[of bs] by (auto simp: file_bytes_def)
  show "fs' = fs \<or> (\<exists>bs m. fs' = fs(kh \<mapsto> \<lparr>fe_mode = m, fe_bytes = file_bytes kh fs @ bs\<rparr>))"
    using assms app unfolding append_to_known_hosts_def two Let_def
    by (auto split: option.splits sum.splits prod.splits if_splits)
  show "\<exists>out. hk_keyscan env True h port = Inr (True, out) \<and> strip_comments (from_utf8_lossy out) \<noteq> []
      \<and> file_bytes kh fs' = file_bytes kh fs @ utf8 (strip_comments (from_utf8_lossy out)) @ [CHR 0x0A]" if "r = Inr ()"
    using assms that app_bytes unfolding append_to_known_hosts_def two Let_def
    by (auto split: option.splits sum.splits prod.splits if_splits)
qed

text \<open>Who decides, what is shown and what is stored, with the file that may change.\<close>

lemma host_key_flow_cases:
  assumes "run_host_key_flow env h port tty accept_new confirm t fs = (r, t', fs')"
  obtains (untouched) "fs' = fs" "r \<noteq> Inr ()"
    | (known) kh where "known_hosts_path env = Some kh" "is_known env h port kh fs = Inr True" "fs' = fs" "r = Inr ()"
    | (stored) kh where "known_hosts_path env = Some kh" "is_known env h port kh fs = Inr False"
        "append_to_known_hosts env h port kh fs = (r, fs')"
        "accept_new \<or> tty \<and> (\<exists>fps fp. scan_fingerprints env h port = Inr fps \<and> pick_primary fps = Some fp
           \<and> confirm (confirm_text h fp) t = (True, t'))"
  using assms
  by (auto simp: run_host_key_flow_def hostkey_classify_def split: option.splits sum.splits prod.splits if_splits
      host_key_action.splits)

section \<open>Properties\<close>

text \<open>C25: no host key is stored without authority. The flow succeeds only when the host was known already, or
accepting new keys was asked for, or a human at a terminal agreed to a question that showed the primary fingerprint
of a scan of this host; known_hosts is the only file it changes and only by appending to it; and nobody is
asked for a known host, with accept-new or without a terminal.\<close>

theorem host_key_flow_authorised:
  assumes "run_host_key_flow env h port tty accept_new confirm t fs = (r, t', fs')"
  shows "(r = Inr () \<or> fs' \<noteq> fs \<longrightarrow>
      (\<exists>kh. known_hosts_path env = Some kh
         \<and> (r = Inr () \<and> fs' = fs \<and> is_known env h port kh fs = Inr True
            \<or> accept_new
            \<or> tty \<and> (\<exists>fps fp. scan_fingerprints env h port = Inr fps \<and> pick_primary fps = Some fp
                       \<and> confirm (confirm_text h fp) t = (True, t')))))
    \<and> (fs' = fs \<or> (\<exists>kh bs m. known_hosts_path env = Some kh
         \<and> fs' = fs(kh \<mapsto> \<lparr>fe_mode = m, fe_bytes = file_bytes kh fs @ bs\<rparr>)))
    \<and> (accept_new \<or> \<not> tty \<longrightarrow> t' = t)"
proof -
  have quiet: "accept_new \<or> \<not> tty \<Longrightarrow> t' = t"
    using assms
    by (auto simp: run_host_key_flow_def hostkey_classify_def split: option.splits sum.splits prod.splits if_splits)
  show ?thesis
    using assms
  proof (cases rule: host_key_flow_cases)
    case untouched
    then show ?thesis using quiet by auto
  next
    case (known kh)
    then show ?thesis using quiet by auto
  next
    case (stored kh)
    then show ?thesis using quiet append_outcome(1)[OF stored(3)] by blast
  qed
qed

text \<open>C40: the keys stored are not the keys confirmed. What is shown comes from one scan and what is appended
from a second one that nothing compares with it: whatever the second scan returns is stored on the strength
of the answer given to the first.\<close>

theorem confirmed_key_is_not_checked:
  assumes "run_host_key_flow env h port True False confirm t fs = (Inr (), t', fs')"
    and "known_hosts_path env = Some kh" "is_known env h port kh fs = Inr False"
    and "strip_comments (from_utf8_lossy other) \<noteq> []"
  shows "\<exists>fs''. run_host_key_flow
      (env\<lparr>hk_keyscan := \<lambda>hashed host p. if hashed then Inr (True, other) else hk_keyscan env False host p\<rparr>)
      h port True False confirm t fs = (Inr (), t', fs'')
    \<and> file_bytes kh fs'' = file_bytes kh fs @ utf8 (strip_comments (from_utf8_lossy other)) @ [CHR 0x0A]"
proof -
  let ?env = "env\<lparr>hk_keyscan := \<lambda>hashed host p. if hashed then Inr (True, other) else hk_keyscan env False host p\<rparr>"
  have same: "known_hosts_path ?env = Some kh" "is_known ?env h port kh fs = Inr False"
    "scan_fingerprints ?env h port = scan_fingerprints env h port"
    using assms(2,3)
    by (simp_all add: known_hosts_path_def is_known_def scan_fingerprints_def cong: option.case_cong if_cong)
  obtain fps fp where q: "scan_fingerprints env h port = Inr fps" "pick_primary fps = Some fp"
    "confirm (confirm_text h fp) t = (True, t')" "append_to_known_hosts env h port kh fs = (Inr (), fs')"
    using assms(1-3)
    by (auto simp: run_host_key_flow_def hostkey_classify_def split: sum.splits option.splits prod.splits if_splits)
  obtain fs'' where a: "append_to_known_hosts ?env h port kh fs = (Inr (), fs'')"
    using q(4) assms(4)
    by (auto simp: append_to_known_hosts_def Let_def split: sum.splits option.splits prod.splits if_splits)
  have "run_host_key_flow ?env h port True False confirm t fs = (Inr (), t', fs'')"
    using same q a by (simp add: run_host_key_flow_def hostkey_classify_def)
  moreover have "file_bytes kh fs'' = file_bytes kh fs @ utf8 (strip_comments (from_utf8_lossy other)) @ [CHR 0x0A]"
    using append_outcome(2)[OF a] by auto
  ultimately show ?thesis by blast
qed

definition demo_hostkey :: hostkey_env where
  "demo_hostkey = \<lparr>hk_home = Some ''/h'', hk_find = (\<lambda>_ _. Inr False),
     hk_keyscan = (\<lambda>hashed _ _. Inr (True, if hashed then ''|1|a ssh-rsa K1'' else ''web ssh-rsa K1'')),
     hk_keygen = (\<lambda>_. Inr (True, ''3072 SHA256:good web (RSA)'')), hk_os = demo_os, hk_new_mode = 420,
     hk_newline_error = None\<rparr>"

definition demo_human :: terminal where
  "demo_human = \<lparr>t_stdin = True, t_stderr = True, t_lines = [Inr ''yes''], t_secrets = []\<rparr>"

definition ask :: "string \<Rightarrow> terminal \<Rightarrow> bool \<times> terminal" where
  "ask text t = (case prompt_host_key text t of (_, yes, t') \<Rightarrow> (yes, t'))"

lemma demo_scan:
  "scan_fingerprints demo_hostkey ''web'' 22
     = Inr [\<lparr>fp_bits = 3072, fp_algo = Rsa, fp_sha256 = ''SHA256:good''\<rparr>]"
proof -
  have l: "from_utf8_lossy ''3072 SHA256:good web (RSA)'' = ''3072 SHA256:good web (RSA)''" by code_simp
  have n: "parse_unsigned 32 ''3072'' = Some 3072"
    by (simp add: parse_unsigned_def char_is_ascii_digit_def dec_value_def digit_val_def)
  have "lines ''3072 SHA256:good web (RSA)'' = [''3072 SHA256:good web (RSA)'']"
    "trim ''3072 SHA256:good web (RSA)'' = ''3072 SHA256:good web (RSA)''"
    "split_whitespace ''3072 SHA256:good web (RSA)'' = [''3072'', ''SHA256:good'', ''web'', ''(RSA)'']"
    "key_algo_from_label (trim_matches (CHR ''('') (CHR '')'') ''(RSA)'') = Rsa"
    "starts_with ''#'' ''3072 SHA256:good web (RSA)'' = False" "starts_with ''SHA256:'' ''SHA256:good'' = True"
    by code_simp+
  then show ?thesis
    using l n by (simp add: scan_fingerprints_def demo_hostkey_def parse_fingerprints_def parse_fingerprint_line_def
        List.map_filter_def)
qed

lemma demo_append:
  "append_to_known_hosts demo_hostkey ''web'' 22 ''/h/.ssh/known_hosts'' Map.empty
     = (Inr (), [''/h/.ssh/known_hosts'' \<mapsto> \<lparr>fe_mode = 420, fe_bytes = ''|1|a ssh-rsa K1'' @ [CHR 0x0A]\<rparr>])"
proof -
  have "strip_comments (from_utf8_lossy ''|1|a ssh-rsa K1'') = ''|1|a ssh-rsa K1''"
    "utf8 ''|1|a ssh-rsa K1'' = ''|1|a ssh-rsa K1''" by code_simp+
  then show ?thesis
    by (auto simp: append_to_known_hosts_def demo_hostkey_def demo_os_def append_bytes_def put_bytes_def file_bytes_def
        split: option.splits)
qed

lemma demo_flow:
  "run_host_key_flow demo_hostkey ''web'' 22 True False ask demo_human Map.empty
     = (Inr (), demo_human\<lparr>t_lines := []\<rparr>,
        [''/h/.ssh/known_hosts'' \<mapsto> \<lparr>fe_mode = 420, fe_bytes = ''|1|a ssh-rsa K1'' @ [CHR 0x0A]\<rparr>])"
proof -
  have kh: "known_hosts_path demo_hostkey = Some ''/h/.ssh/known_hosts''"
    by (simp add: known_hosts_path_def demo_hostkey_def)
  have a: "ask q demo_human = (True, demo_human\<lparr>t_lines := []\<rparr>)" for q
  proof -
    have "parse_yes_no ''yes''" "has_tty demo_human" by code_simp+
    then show ?thesis
      by (simp add: ask_def prompt_host_key_def prompt_host_key_with_def read_answer_def read_line_def demo_human_def
          split: prod.splits)
  qed
  show ?thesis
    by (simp add: run_host_key_flow_def kh is_known_def hostkey_classify_def demo_scan pick_primary_def a demo_append)
qed

theorem host_key_flow_authorised_witness:
  "let r = run_host_key_flow demo_hostkey ''web'' 22 True False ask demo_human Map.empty
   in fst r = Inr () \<and> snd (snd r) \<noteq> Map.empty
      \<and> (\<exists>fps fp. scan_fingerprints demo_hostkey ''web'' 22 = Inr fps \<and> pick_primary fps = Some fp
           \<and> fst (ask (confirm_text ''web'' fp) demo_human))"
proof -
  have "\<not> is_known demo_hostkey ''web'' 22 kh Map.empty = Inr True" for kh by (simp add: is_known_def)
  then show ?thesis
    using host_key_flow_authorised[OF demo_flow] by (auto simp: demo_flow)
qed

theorem confirmed_key_is_not_checked_witness:
  "\<exists>fs'. run_host_key_flow
      (demo_hostkey\<lparr>hk_keyscan := \<lambda>hashed host p. if hashed then Inr (True, ''|1|a ssh-rsa EVIL'')
                                  else hk_keyscan demo_hostkey False host p\<rparr>)
      ''web'' 22 True False ask demo_human Map.empty = (Inr (), demo_human\<lparr>t_lines := []\<rparr>, fs')
    \<and> file_bytes ''/h/.ssh/known_hosts'' fs' = ''|1|a ssh-rsa EVIL'' @ [CHR 0x0A]"
proof -
  have s: "from_utf8_lossy ''|1|a ssh-rsa EVIL'' = ''|1|a ssh-rsa EVIL''"
    "strip_comments ''|1|a ssh-rsa EVIL'' = ''|1|a ssh-rsa EVIL''" "utf8 ''|1|a ssh-rsa EVIL'' = ''|1|a ssh-rsa EVIL''" by code_simp+
  have kh: "known_hosts_path demo_hostkey = Some ''/h/.ssh/known_hosts''"
    "is_known demo_hostkey ''web'' 22 ''/h/.ssh/known_hosts'' Map.empty = Inr False"
    by (simp_all add: known_hosts_path_def demo_hostkey_def is_known_def)
  show ?thesis
    using confirmed_key_is_not_checked[OF demo_flow kh, of "''|1|a ssh-rsa EVIL''"] by (simp add: s file_bytes_def)
qed

end
