(* ===== verification/Cli_Connect.thy ===== *)
theory Cli_Connect
  imports Cli_Cred Hostkey Connect_Files Scp
begin

text \<open>The connecting commands (\<^verbatim>\<open>cli/cmd/connect.rs\<close>, \<^verbatim>\<open>cli/cmd/scp.rs\<close>) from the command
line to the exit code: the configuration is loaded, the target resolved, the vault unlocked, a pasted key staged,
the host key checked, the use recorded, and only then the child is launched.\<close>

section \<open>Options, environment and state\<close>

record connect_options =
  co_user :: "string option"
  co_port :: "16 word option"
  co_identity :: "string option"
  co_credential :: "string option"
  co_accept_new :: bool

definition overlay :: "connect_options \<Rightarrow> connect_options \<Rightarrow> connect_options" where
  "overlay o1 base =
     \<lparr>co_user = (case co_user o1 of Some u \<Rightarrow> Some u | None \<Rightarrow> co_user base),
      co_port = (case co_port o1 of Some p \<Rightarrow> Some p | None \<Rightarrow> co_port base),
      co_identity = (case co_identity o1 of Some i \<Rightarrow> Some i | None \<Rightarrow> co_identity base),
      co_credential = (case co_credential o1 of Some c \<Rightarrow> Some c | None \<Rightarrow> co_credential base),
      co_accept_new = (co_accept_new o1 \<or> co_accept_new base)\<rparr>"

text \<open>The surroundings of a connecting command: those of the other commands, the host-key programs, the clock,
the fresh ids of the scp operands, the path of the program itself, the inherited variables and the child.\<close>

record run_env =
  re_cmd :: cmd_env
  re_hostkey :: hostkey_env
  re_now :: system_time
  re_fresh :: "nat \<Rightarrow> ulid"
  re_self_exe :: "io_error + string"
  re_inherited :: env
  re_child :: child

record 'b run_state =
  rs_world :: "'b world"
  rs_temp :: temp_state
  rs_term :: terminal

definition re_os :: "run_env \<Rightarrow> os" where
  "re_os env = ce_os (cm_cli (re_cmd env))"

definition re_config_path :: "run_env \<Rightarrow> string option" where
  "re_config_path env =
     resolve_config_path (ce_default_config (cm_cli (re_cmd env))) (ce_config (cm_cli (re_cmd env)))"

definition load_or_default :: "run_env \<Rightarrow> files \<Rightarrow> int + sshrack_config" where
  "load_or_default env fs =
     (case re_config_path env of
        None \<Rightarrow> Inr default_config
      | Some p \<Rightarrow> map_err (\<lambda>_. EXIT_USAGE) (config_load (ce_toml (cm_cli (re_cmd env))) p fs))"

definition confirm_host_key :: "string \<Rightarrow> terminal \<Rightarrow> bool \<times> terminal" where
  "confirm_host_key msg t = (case prompt_host_key msg t of (_, yes, t') \<Rightarrow> (yes, t'))"

definition host_key_step ::
  "run_env \<Rightarrow> bool \<Rightarrow> string \<Rightarrow> 16 word \<Rightarrow> 'b run_state \<Rightarrow> bool \<times> 'b run_state" where
  "host_key_step env accept_new h port st =
     (case run_host_key_flow (re_hostkey env) h port (has_tty (rs_term st)) accept_new confirm_host_key (rs_term st)
             (ts_files (rs_temp st)) of
        (r, t, fs) \<Rightarrow> (is_ok r, st\<lparr>rs_term := t, rs_temp := (rs_temp st)\<lparr>ts_files := fs\<rparr>\<rparr>))"

definition launch_step ::
  "run_env \<Rightarrow> string list \<Rightarrow> password_source \<Rightarrow> 'b run_state \<Rightarrow> int \<times> 'b run_state" where
  "launch_step env argv source st =
     (case re_self_exe env of
        Inl _ \<Rightarrow> (EXIT_CONNECT, st)
      | Inr exe \<Rightarrow>
          (case launch (re_os env) (re_child env) (re_inherited env) argv source exe (re_config_path env) (rs_temp st) of
             (Inl _, ts) \<Rightarrow> (EXIT_CONNECT, st\<lparr>rs_temp := ts\<rparr>)
           | (Inr code, ts) \<Rightarrow> (code, st\<lparr>rs_temp := ts\<rparr>)))"

text \<open>A staged key is dropped at the end of the command, whatever its outcome.\<close>

definition drop_key :: "run_env \<Rightarrow> key_artifact option \<Rightarrow> int \<times> 'b run_state \<Rightarrow> int \<times> 'b run_state" where
  "drop_key env art r = (fst r, (snd r)\<lparr>rs_temp := drop_artifact (re_os env) art (rs_temp (snd r))\<rparr>)"

section \<open>ssh\<close>

definition connect_target ::
  "run_env \<Rightarrow> sshrack_config \<Rightarrow> connect_options \<Rightarrow> string \<Rightarrow> int + (ulid option \<times> resolved_target)" where
  "connect_target env cfg opts target =
     and_then (resolve_credential_name cfg (co_credential opts)) (\<lambda>cred.
       case resolve_target (cm_similarity (re_cmd env)) (cm_fresh (re_cmd env)) cfg target
              \<lparr>ro_credential = cred, ro_port = co_port opts, ro_user = co_user opts, ro_identity = co_identity opts\<rparr> of
         Inl (HostNotFound _ _) \<Rightarrow> Inl EXIT_NOT_FOUND
       | Inl _ \<Rightarrow> Inl EXIT_VALIDATION
       | Inr rt \<Rightarrow> Inr (cred, rt))"

definition connect_auth ::
  "crates \<Rightarrow> 'b backend \<Rightarrow> run_env \<Rightarrow> sshrack_config \<Rightarrow> host \<Rightarrow> 'b world \<Rightarrow> (int + resolved_auth) \<times> 'b world" where
  "connect_auth X be env cfg h w =
     (case unlock_vault_key X (cm_cli (re_cmd env)) cfg w of
        (Inl code, w1) \<Rightarrow> (Inl code, w1)
      | (Inr key, w1) \<Rightarrow>
          (case resolve X (cm_similarity (re_cmd env)) h cfg key be (w_backend w1) of
             Inl (CredentialNotFound _ _) \<Rightarrow> (Inl EXIT_NOT_FOUND, w1)
           | Inl VaultLocked \<Rightarrow> (Inl EXIT_STORE, w1)
           | Inl _ \<Rightarrow> (Inl EXIT_CONNECT, w1)
           | Inr a \<Rightarrow> (Inr a, w1)))"

text \<open>The use is recorded before the launch, for registered hosts only, and a failure to save is ignored.\<close>

definition record_use :: "run_env \<Rightarrow> resolved_target \<Rightarrow> files \<Rightarrow> files" where
  "record_use env rt fs =
     (if rt_ephemeral rt then fs
      else case cm_data_dir (re_cmd env) of
        None \<Rightarrow> fs
      | Some dir \<Rightarrow>
          (let c = re_cmd env;
               frec = (case frecency_load (cm_frecency_toml c) (cm_ulid_parse c) (cm_keys c) dir fs of
                         Inr f \<Rightarrow> f | Inl _ \<Rightarrow> Map.empty)
           in snd (frecency_save (cm_frecency_toml c) (re_os env) dir
                     (record_at frec (h_id (rt_host rt)) (re_now env)) fs)))"

definition ssh_overrides :: "connect_options \<Rightarrow> ulid option \<Rightarrow> resolved_target \<Rightarrow> overrides" where
  "ssh_overrides opts cred rt =
     \<lparr>ov_user = (case rt_target_user rt of Some u \<Rightarrow> Some u | None \<Rightarrow> co_user opts),
      ov_port = co_port opts, ov_identity = co_identity opts, ov_credential = cred\<rparr>"

text \<open>The steps from the staging of the key on.\<close>

definition connect_staged ::
  "run_env \<Rightarrow> connect_options \<Rightarrow> ulid option \<Rightarrow> resolved_target \<Rightarrow> resolved_auth \<Rightarrow> string list \<Rightarrow> 'b run_state \<Rightarrow>
   int \<times> 'b run_state" where
  "connect_staged env opts cred rt au remote_command st =
     (let h = rt_host rt
      in case host_key_step env (co_accept_new opts) (h_host h) (opt_or (co_port opts) (h_port h)) st of
           (False, st1) \<Rightarrow> (EXIT_CONNECT, st1)
         | (True, st1) \<Rightarrow>
             (let argv = ssh_build (cm_splitter (re_cmd env)) au h (ssh_overrides opts cred rt) remote_command;
                  st2 = st1\<lparr>rs_temp := (rs_temp st1)\<lparr>ts_files := record_use env rt (ts_files (rs_temp st1))\<rparr>\<rparr>
              in launch_step env argv (ra_password au) st2))"

definition connect_run ::
  "crates \<Rightarrow> 'b backend \<Rightarrow> run_env \<Rightarrow> connect_options \<Rightarrow> string list \<Rightarrow> 'b run_state \<Rightarrow> int \<times> 'b run_state" where
  "connect_run X be env opts tokens st =
     (case tokens of
        [] \<Rightarrow> (EXIT_USAGE, st)
      | target # remote_command \<Rightarrow>
          (case and_then (load_or_default env (ts_files (rs_temp st)))
                  (\<lambda>cfg. map_sum id (Pair cfg) (connect_target env cfg opts target)) of
             Inl code \<Rightarrow> (code, st)
           | Inr (cfg, cred, rt) \<Rightarrow>
               (case connect_auth X be env cfg (rt_host rt) (rs_world st) of
                  (Inl code, w) \<Rightarrow> (code, st\<lparr>rs_world := w\<rparr>)
                | (Inr au, w) \<Rightarrow>
                    (case materialize_inline_key (re_os env) au (rs_temp st) of
                       (Inl _, _, ts) \<Rightarrow> (EXIT_CONNECT, st\<lparr>rs_world := w, rs_temp := ts\<rparr>)
                     | (Inr art, au1, ts) \<Rightarrow>
                         drop_key env art
                           (connect_staged env opts cred rt au1 remote_command
                              (st\<lparr>rs_world := w, rs_temp := ts\<rparr>))))))"

section \<open>scp\<close>

fun host_key_steps ::
  "run_env \<Rightarrow> bool \<Rightarrow> (string \<times> 16 word) list \<Rightarrow> 'b run_state \<Rightarrow> bool \<times> 'b run_state" where
  "host_key_steps env accept_new [] st = (True, st)"
| "host_key_steps env accept_new ((h, port) # rest) st =
     (case host_key_step env accept_new h port st of
        (False, st1) \<Rightarrow> (False, st1)
      | (True, st1) \<Rightarrow> host_key_steps env accept_new rest st1)"

text \<open>The steps of scp from the host keys on, with the key staged.\<close>

definition scp_staged :: "run_env \<Rightarrow> connect_options \<Rightarrow> scp_plan \<Rightarrow> 'b run_state \<Rightarrow> int \<times> 'b run_state" where
  "scp_staged env opts plan st =
     (case host_key_steps env (co_accept_new opts) (sp_remote_hosts plan) st of
        (False, st1) \<Rightarrow> (EXIT_CONNECT, st1)
      | (True, st1) \<Rightarrow> launch_step env (sp_argv plan) (sp_password plan) st1)"

definition scp_error_code :: "sshrack_error \<Rightarrow> int" where
  "scp_error_code e =
     (case e of HostNotFound _ _ \<Rightarrow> EXIT_NOT_FOUND | CredentialNotFound _ _ \<Rightarrow> EXIT_NOT_FOUND
      | VaultLocked \<Rightarrow> EXIT_STORE | _ \<Rightarrow> EXIT_VALIDATION)"

definition scp_run ::
  "crates \<Rightarrow> 'b backend \<Rightarrow> run_env \<Rightarrow> connect_options \<Rightarrow> string list \<Rightarrow> 'b run_state \<Rightarrow> int \<times> 'b run_state" where
  "scp_run X be env opts args st =
     (if args = [] then (EXIT_USAGE, st)
      else case and_then (load_or_default env (ts_files (rs_temp st)))
                  (\<lambda>cfg. map_sum id (Pair cfg) (resolve_credential_name cfg (co_credential opts))) of
        Inl code \<Rightarrow> (code, st)
      | Inr (cfg, cred) \<Rightarrow>
          (case unlock_vault_key X (cm_cli (re_cmd env)) cfg (rs_world st) of
             (Inl code, w) \<Rightarrow> (code, st\<lparr>rs_world := w\<rparr>)
           | (Inr key, w) \<Rightarrow>
               (case scp_build X (cm_similarity (re_cmd env)) (cm_splitter (re_cmd env)) (re_os env) (re_fresh env) args cfg
                       \<lparr>ov_user = co_user opts, ov_port = co_port opts, ov_identity = co_identity opts,
                        ov_credential = cred\<rparr>
                       key be (w_backend w) (rs_temp st) of
                  (Inl e, ts) \<Rightarrow> (scp_error_code e, st\<lparr>rs_world := w, rs_temp := ts\<rparr>)
                | (Inr plan, ts) \<Rightarrow>
                    drop_key env (sp_key_artifact plan)
                      (scp_staged env opts plan (st\<lparr>rs_world := w, rs_temp := ts\<rparr>)))))"

definition credential_msg :: "string \<Rightarrow> did_you_mean \<Rightarrow> string option \<Rightarrow> string" where
  "credential_msg name hint host_name =
     (case host_name of
        Some h \<Rightarrow> ''host '' @ [CHR 39] @ h @ [CHR 39] @ '' references an unknown credential'' @ did_you_mean_display hint
      | None \<Rightarrow> ''credential not found: '' @ name @ did_you_mean_display hint)"

fun plan_host_name :: "sshrack_config \<Rightarrow> string list \<Rightarrow> string option" where
  "plan_host_name cfg [] = None"
| "plan_host_name cfg (arg # args) =
     (case split_once (CHR '':'') arg of
        None \<Rightarrow> plan_host_name cfg args
      | Some (left, _) \<Rightarrow>
          if CHR ''@'' \<in> set left then plan_host_name cfg args
          else case find_host_by_name cfg left of Some h \<Rightarrow> Some (h_name h) | None \<Rightarrow> plan_host_name cfg args)"

end
