(* ===== verification/Cli_Main.thy ===== *)
theory Cli_Main
  imports Cli_Connect
begin

text \<open>The entry of the program (\<^verbatim>\<open>main.rs\<close>, \<^verbatim>\<open>cli/mod.rs\<close>): which command line
opens the terminal interface, which is a usage error and which runs a command, the dispatch of the commands, and the
connection that the terminal interface hands back.  The parser of the command line is third-party code: a command
line is the value it yields.\<close>

datatype command =
    CmdSsh connect_options "string list"
  | CmdScp connect_options "string list"
  | CmdSftp connect_options string
  | CmdHost host_action
  | CmdCred cred_action
  | CmdStore store_action
  | CmdConnect "string list"

record cli =
  cl_json :: bool
  cl_connect_opts :: connect_options
  cl_cmd :: "command option"

section \<open>Routing\<close>

definition host_add_or_edit_is_empty :: "host_action \<Rightarrow> bool" where
  "host_add_or_edit_is_empty action =
     (case action of
        HostAdd fl \<Rightarrow>
          ha_name fl = None \<and> ha_host fl = None \<and> ha_user fl = None \<and> ha_port fl = None \<and> ha_ssh_args fl = None
          \<and> ha_identity fl = None \<and> \<not> if_stdin (ha_import fl) \<and> if_file (ha_import fl) = None
          \<and> \<not> if_certificate_stdin (ha_import fl) \<and> if_certificate_file (ha_import fl) = None
          \<and> ha_credential fl = None \<and> \<not> ha_force fl
      | HostEdit fl \<Rightarrow>
          he_name fl \<noteq> None \<and> eo_host (he_options fl) = None \<and> eo_user (he_options fl) = None
          \<and> eo_port (he_options fl) = None \<and> eo_ssh_args (he_options fl) = None \<and> \<not> eo_clear_ssh_args (he_options fl)
          \<and> eo_identity (he_options fl) = None \<and> \<not> if_stdin (he_import fl) \<and> if_file (he_import fl) = None
          \<and> \<not> if_certificate_stdin (he_import fl) \<and> if_certificate_file (he_import fl) = None
          \<and> eo_rename (he_options fl) = None \<and> he_credential fl = None \<and> \<not> eo_clear_identity (he_options fl)
          \<and> \<not> eo_clear_password (he_options fl) \<and> \<not> eo_clear_credential (he_options fl)
      | _ \<Rightarrow> False)"

definition cred_add_or_edit_is_empty :: "cred_action \<Rightarrow> bool" where
  "cred_add_or_edit_is_empty action =
     (case action of
        CredAdd fl \<Rightarrow>
          cf_name fl = None \<and> cf_user fl = None \<and> cf_identity fl = None \<and> \<not> if_stdin (cf_import fl)
          \<and> if_file (cf_import fl) = None \<and> \<not> if_certificate_stdin (cf_import fl)
          \<and> if_certificate_file (cf_import fl) = None \<and> \<not> cf_force fl
      | CredEdit fl \<Rightarrow>
          cg_name fl \<noteq> None \<and> ce_user (cg_options fl) = None \<and> ce_identity (cg_options fl) = None
          \<and> \<not> if_stdin (cg_import fl) \<and> if_file (cg_import fl) = None \<and> \<not> if_certificate_stdin (cg_import fl)
          \<and> if_certificate_file (cg_import fl) = None \<and> \<not> ce_clear_identity (cg_options fl)
          \<and> ce_rename (cg_options fl) = None
      | _ \<Rightarrow> False)"

definition route_is_tui :: "cli \<Rightarrow> bool" where
  "route_is_tui c =
     (case cl_cmd c of
        None \<Rightarrow> \<not> cl_json c
      | Some (CmdHost a) \<Rightarrow> host_add_or_edit_is_empty a
      | Some (CmdCred a) \<Rightarrow> cred_add_or_edit_is_empty a
      | Some (CmdSftp _ _) \<Rightarrow> True
      | _ \<Rightarrow> False)"

definition edit_requires_name :: "cli \<Rightarrow> bool" where
  "edit_requires_name c =
     (case cl_cmd c of
        Some (CmdHost (HostEdit fl)) \<Rightarrow> he_name fl = None
      | Some (CmdCred (CredEdit fl)) \<Rightarrow> cg_name fl = None
      | _ \<Rightarrow> False)"

section \<open>Dispatch\<close>

text \<open>The commands that do not connect work on the world and the files.\<close>

definition on_files :: "('b cli_state \<Rightarrow> int \<times> 'b cli_state) \<Rightarrow> 'b run_state \<Rightarrow> int \<times> 'b run_state" where
  "on_files f st =
     (case f \<lparr>cs_world = rs_world st, cs_files = ts_files (rs_temp st)\<rparr> of
        (code, s) \<Rightarrow> (code, st\<lparr>rs_world := cs_world s, rs_temp := (rs_temp st)\<lparr>ts_files := cs_files s\<rparr>\<rparr>))"

definition cli_run ::
  "crates \<Rightarrow> 'b backend \<Rightarrow> run_env \<Rightarrow> cli \<Rightarrow> 'b run_state \<Rightarrow> int \<times> 'b run_state" where
  "cli_run X be env c st =
     (let cmd = (re_cmd env)\<lparr>cm_json := cl_json c\<rparr>
      in case cl_cmd c of
           None \<Rightarrow> (EXIT_SUCCESS, st)
         | Some (CmdSsh opts args) \<Rightarrow> connect_run X be env (overlay opts (cl_connect_opts c)) args st
         | Some (CmdConnect args) \<Rightarrow> connect_run X be env (cl_connect_opts c) args st
         | Some (CmdScp opts args) \<Rightarrow> scp_run X be env (overlay opts (cl_connect_opts c)) args st
         | Some (CmdSftp _ _) \<Rightarrow> (EXIT_USAGE, st)
         | Some (CmdHost a) \<Rightarrow> on_files (host_run X be cmd a) st
         | Some (CmdCred a) \<Rightarrow> on_files (cred_run X be cmd a) st
         | Some (CmdStore a) \<Rightarrow> on_files (store_run X be (cm_cli cmd) a) st)"

section \<open>The connection the interface hands back\<close>

record connect_request =
  cq_argv :: "string list"
  cq_source :: password_source
  cq_key_artifact :: "key_artifact option"

definition after_tui ::
  "run_env \<Rightarrow> sshrack_error + connect_request option \<Rightarrow> 'b run_state \<Rightarrow> int \<times> 'b run_state" where
  "after_tui env outcome st =
     (case outcome of
        Inr None \<Rightarrow> (EXIT_SUCCESS, st)
      | Inr (Some req) \<Rightarrow> drop_key env (cq_key_artifact req) (launch_step env (cq_argv req) (cq_source req) st)
      | Inl (HostNotFound _ _) \<Rightarrow> (EXIT_NOT_FOUND, st)
      | Inl _ \<Rightarrow> (EXIT_CONNECT, st))"

text \<open>Whether the process is the helper that ssh starts for a password.\<close>

definition is_askpass_role :: "env \<Rightarrow> bool" where
  "is_askpass_role e \<longleftrightarrow>
     e HOST_ID_ENV \<noteq> None \<or> e ASKPASS_FILE_ENV \<noteq> None \<or> e KEYRING_KEY_ENV \<noteq> None \<or> e ASKPASS_DENY_ENV \<noteq> None"

text \<open>A signal wipes the registered files and ends the process with 128 plus its number.\<close>

definition on_signal :: "os \<Rightarrow> nat \<Rightarrow> temp_state \<Rightarrow> nat \<times> temp_state" where
  "on_signal os sig ts = (128 + sig, snd (cleanup_all os ts))"

section \<open>Facts\<close>

text \<open>The interface is opened for an edit exactly when the command would have nothing to change, so the
command's own answer of no changes is never given to the user.\<close>

lemma edit_route_host:
  "host_add_or_edit_is_empty (HostEdit fl) \<longleftrightarrow> he_name fl \<noteq> None \<and> \<not> host_edit_has_any_flag fl"
  by (auto simp: host_add_or_edit_is_empty_def host_edit_has_any_flag_def Let_def)

lemma edit_route_cred:
  "cred_add_or_edit_is_empty (CredEdit fl) \<longleftrightarrow> cg_name fl \<noteq> None \<and> \<not> cred_flags_given fl"
  by (auto simp: cred_add_or_edit_is_empty_def cred_flags_given_def Let_def)

lemma usage_not_tui: "edit_requires_name c \<Longrightarrow> \<not> route_is_tui c"
  by (auto simp: edit_requires_name_def route_is_tui_def host_add_or_edit_is_empty_def cred_add_or_edit_is_empty_def
      split: option.splits command.splits host_action.splits cred_action.splits)

text \<open>The helper role is decided by the payload that the launcher puts in the child's environment.\<close>

lemma child_is_askpass:
  assumes "source \<noteq> SourceNone" "case source of SourceInline _ \<Rightarrow> pf \<noteq> None | _ \<Rightarrow> True"
  shows "is_askpass_role (child_env e (askpass_env_for exe source pf cp))"
  using assms
  by (cases source)
    (auto simp: is_askpass_role_def child_env_def askpass_env_for_def askpass_payload_def askpass_triplet_def
      split: option.splits)

end
