(* ===== verification/Connect_Props.thy ===== *)
theory Connect_Props
  imports Cli_Connect Cli_Facts
begin

text \<open>What holds of the ssh and scp commands as a whole (\<^verbatim>\<open>cli/cmd/connect.rs\<close>, \<^verbatim>\<open>cli/cmd/scp.rs\<close>):
which files a connection can leave changed, and that the child runs only behind an accepted host key.\<close>

section \<open>What a connection leaves behind\<close>

abbreviation pw_path :: "os \<Rightarrow> string" where
  "pw_path os \<equiv> temp_name os ''sshrack-askpass-'' ''.pw''"

definition art_paths :: "key_artifact option \<Rightarrow> string list" where
  "art_paths art = (case art of Some a \<Rightarrow> ka_paths a | None \<Rightarrow> [])"

lemma key_cert_file_name:
  "file_name (cert_path_for (temp_name os ''sshrack-key-'' ''.pem''))
     = Some (''sshrack-key-'' @ show_pid os @ ''-'' @ show_nat (os_nanos os) @ ''.pem'' @ ''-cert.pub'')"
proof -
  have n: "file_name (temp_name os ''sshrack-key-'' ''.pem'')
      = Some (''sshrack-key-'' @ show_pid os @ ''-'' @ show_nat (os_nanos os) @ ''.pem'')"
    by (rule temp_file_name) simp_all
  have "plain_name (''sshrack-key-'' @ show_pid os @ ''-'' @ show_nat (os_nanos os) @ ''.pem'' @ ''-cert.pub'')"
    by (auto simp: plain_name_def show_pid_def show_nat_no_slash)
  then show ?thesis
    unfolding cert_path_for_def n with_file_name_def by (simp add: file_name_join)
qed

lemma key_not_pw:
  assumes "key_artifact_write os priv cert st = (Inr a, st')"
  shows "pw_path os \<notin> set (ka_paths a)"
proof -
  have "file_name (pw_path os) = Some (''sshrack-askpass-'' @ show_pid os @ ''-'' @ show_nat (os_nanos os) @ ''.pw'')"
    "file_name (temp_name os ''sshrack-key-'' ''.pem'')
      = Some (''sshrack-key-'' @ show_pid os @ ''-'' @ show_nat (os_nanos os) @ ''.pem'')"
    by (rule temp_file_name; simp)+
  then have "pw_path os \<noteq> temp_name os ''sshrack-key-'' ''.pem''"
    "pw_path os \<noteq> cert_path_for (temp_name os ''sshrack-key-'' ''.pem'')"
    using key_cert_file_name[of os] by auto
  moreover have "ka_private a = temp_name os ''sshrack-key-'' ''.pem''" by (rule key_artifact_write_Inr[OF assms])
  ultimately show ?thesis
    using key_artifact_write_ok(1)[OF assms] by (cases cert) (simp_all add: ka_paths_def)
qed

lemma drop_artifact_live: "ts_live (drop_artifact os art ts) = List.filter (\<lambda>p. p \<notin> set (art_paths art)) (ts_live ts)"
  by (cases art) (simp_all add: drop_artifact_def art_paths_def key.release_live)

lemma drop_artifact_files:
  "os_removes os \<Longrightarrow>
   ts_files (drop_artifact os art ts) = (\<lambda>p. if p \<in> set (art_paths art) then None else ts_files ts p)"
  by (cases art) (simp_all add: drop_artifact_def art_paths_def key.release_files)

text \<open>Dropping undoes the staging also when other files changed in between.\<close>

lemma drop_artifact_frame:
  assumes "os_removes os" "drop_artifact os art ts' = ts" "ts_live ts'' = ts_live ts' @ xs" "set xs \<inter> set (art_paths art) = {}"
    and "\<And>p. p \<notin> T \<Longrightarrow> ts_files ts'' p = ts_files ts' p"
  shows "ts_live (drop_artifact os art ts'') = ts_live ts @ xs"
    and "p \<notin> T \<Longrightarrow> ts_files (drop_artifact os art ts'') p = ts_files ts p"
proof -
  have "List.filter (\<lambda>p. p \<notin> set (art_paths art)) xs = xs" using assms(4) by (auto simp: filter_id_conv)
  then show "ts_live (drop_artifact os art ts'') = ts_live ts @ xs"
    using assms(3) drop_artifact_live[of os art ts'] drop_artifact_live[of os art ts''] by (auto simp: assms(2)[symmetric])
  show "p \<notin> T \<Longrightarrow> ts_files (drop_artifact os art ts'') p = ts_files ts p"
    using assms(5) drop_artifact_files[OF assms(1), of art ts'] drop_artifact_files[OF assms(1), of art ts'']
    by (auto simp: assms(2)[symmetric])
qed

text \<open>A child that writes only in a given set of paths, whether or not it can be started; and what a run may
leave in the registry: nothing, or the password file of a child that could not be started.\<close>

definition child_within :: "child \<Rightarrow> string set \<Rightarrow> bool" where
  "child_within child C \<longleftrightarrow> (\<forall>argv e fs p. p \<notin> C \<longrightarrow> snd (child argv e fs) p = fs p)"

definition spawn_fails :: "child \<Rightarrow> bool" where
  "spawn_fails child \<longleftrightarrow> (\<exists>argv e fs err. fst (child argv e fs) = Inl err)"

definition left_over :: "run_env \<Rightarrow> string list \<Rightarrow> bool" where
  "left_over env xs \<longleftrightarrow> xs = [] \<or> xs = [pw_path (re_os env)] \<and> spawn_fails (re_child env)"

lemma launch_footprint:
  assumes "os_removes os" "pw_path os \<notin> set (ts_live st)" "child_within child C"
    and "launch os child inherited argv source exe config_path st = (r, st')"
  shows "\<exists>xs. ts_live st' = ts_live st @ xs \<and> (xs = [] \<or> xs = [pw_path os] \<and> spawn_fails child \<and> (\<exists>e. r = Inl e))
    \<and> (\<forall>p. p \<notin> C \<and> p \<notin> set xs \<longrightarrow> ts_files st' p = ts_files st p)"
proof -
  obtain s st1 where s: "stage_password os source st = (s, st1)" by fastforce
  show ?thesis
  proof (cases s)
    case (Inl e)
    then have "st1 = st"
      using s pw.acquire_err[OF assms(1)]
      by (auto simp: stage_password_def split: password_source.splits sum.splits prod.splits)
    then show ?thesis using assms(4) s Inl by (simp add: launch_def)
  next
    case (Inr pf)
    obtain c fs where ch: "child argv (child_env inherited (askpass_env_for exe source pf config_path)) (ts_files st1) = (c, fs)"
      by fastforce
    have w: "fs p = ts_files st1 p" if "p \<notin> C" for p
      using assms(3) that ch unfolding child_within_def by (metis snd_conv)
    have sf: "c = Inl e \<Longrightarrow> spawn_fails child" for e using ch unfolding spawn_fails_def by (metis fst_conv)
    show ?thesis
    proof (cases pf)
      case None
      then have "st1 = st" using s Inr by (auto simp: stage_password_def split: password_source.splits sum.splits prod.splits)
      then show ?thesis using assms(4) s Inr None ch w by (auto simp: launch_def Let_def split: sum.splits)
    next
      case (Some path)
      then obtain q where wr: "write_password_file os q st = (Inr path, st1)"
        using s Inr by (auto simp: stage_password_def split: password_source.splits sum.splits prod.splits)
      note o = write_password_file_ok[OF wr]
      have n: "path \<notin> set (ts_live st)" "path = pw_path os" using o(1) assms(2) by simp_all
      show ?thesis
      proof (cases c)
        case (Inl e)
        then have "r = Inl (Io e)" "st' = st1\<lparr>ts_files := fs\<rparr>" using assms(4) s Inr Some ch by (simp_all add: launch_def)
        moreover have "ts_live st1 = ts_live st @ [pw_path os]" "\<And>p. p \<noteq> pw_path os \<Longrightarrow> ts_files st1 p = ts_files st p"
          using o n(2) by auto
        ultimately show ?thesis using w sf[OF Inl] by (intro exI[of _ "[pw_path os]"]) simp
      next
        case (Inr code)
        then have "st' = drop_password_file os path (st1\<lparr>ts_files := fs\<rparr>)"
          using assms(4) s \<open>s = Inr pf\<close> Some ch by (simp add: launch_def Let_def)
        moreover have "List.filter (\<lambda>p. p \<noteq> path) (ts_live st) = ts_live st" using n(1) by (auto simp: filter_id_conv)
        ultimately have "ts_live st' = ts_live st \<and> (\<forall>p. p \<notin> C \<longrightarrow> ts_files st' p = ts_files st p)"
          using n o(2) w remove_file_ok[OF assms(1)]
          by (auto simp: drop_password_file_def unregister_def Let_def o(3))
        then show ?thesis by (intro exI[of _ "[]"]) simp
      qed
    qed
  qed
qed

definition run_writes :: "run_env \<Rightarrow> string set \<Rightarrow> string set" where
  "run_writes env C =
     C \<union> {p. known_hosts_path (re_hostkey env) = Some p}
       \<union> {p. \<exists>d. cm_data_dir (re_cmd env) = Some d
              \<and> p \<in> {d @ ''/'' @ FRECENCY_FILENAME, atomic_temp_path (re_os env) (d @ ''/'' @ FRECENCY_FILENAME)}}"

lemma atomic_write_frame:
  assumes "atomic_write_private os path bs fs = (r, fs')" "p \<noteq> path" "p \<noteq> atomic_temp_path os path"
  shows "fs' p = fs p"
  using assms
  by (auto simp: atomic_write_private_def write_private_def write_all_def put_bytes_def rename_file_def remove_file_def
      Let_def split: option.splits sum.splits prod.splits if_splits)

lemma record_use_frame:
  assumes "p \<notin> run_writes env C"
  shows "record_use env rt fs p = fs p"
proof (cases "cm_data_dir (re_cmd env)")
  case (Some d)
  have n: "p \<noteq> d @ ''/'' @ FRECENCY_FILENAME" "p \<noteq> atomic_temp_path (re_os env) (d @ ''/'' @ FRECENCY_FILENAME)"
    using assms Some by (auto simp: run_writes_def)
  have "snd (frecency_save tm (re_os env) d f fs) p = fs p" for tm f
    using atomic_write_frame[OF _ n]
    by (auto simp: frecency_save_def Let_def split: option.splits sum.splits prod.splits)
  then show ?thesis by (simp add: record_use_def Some Let_def)
qed (simp add: record_use_def)

lemma host_key_step_frame:
  assumes "host_key_step env accept_new h port st = (ok, st')"
  shows "ts_live (rs_temp st') = ts_live (rs_temp st)"
    and "p \<notin> run_writes env C \<Longrightarrow> ts_files (rs_temp st') p = ts_files (rs_temp st) p"
proof -
  obtain r t fs where f: "run_host_key_flow (re_hostkey env) h port (has_tty (rs_term st)) accept_new confirm_host_key
      (rs_term st) (ts_files (rs_temp st)) = (r, t, fs)" by (cases "run_host_key_flow (re_hostkey env) h port
      (has_tty (rs_term st)) accept_new confirm_host_key (rs_term st) (ts_files (rs_temp st))") auto
  have s: "st' = st\<lparr>rs_term := t, rs_temp := (rs_temp st)\<lparr>ts_files := fs\<rparr>\<rparr>"
    using assms f by (simp add: host_key_step_def)
  show "ts_live (rs_temp st') = ts_live (rs_temp st)" by (simp add: s)
  show "ts_files (rs_temp st') p = ts_files (rs_temp st) p" if p: "p \<notin> run_writes env C"
    using f
  proof (cases rule: host_key_flow_cases)
    case (stored kh)
    then show ?thesis using append_outcome(1)[OF stored(3)] p by (auto simp: s run_writes_def)
  qed (simp_all add: s)
qed

lemma host_key_steps_frame:
  assumes "host_key_steps env accept_new hs st = (ok, st')"
  shows "ts_live (rs_temp st') = ts_live (rs_temp st)
    \<and> (\<forall>p. p \<notin> run_writes env C \<longrightarrow> ts_files (rs_temp st') p = ts_files (rs_temp st) p)"
  using assms
proof (induction hs arbitrary: st)
  case (Cons hp hs)
  obtain ok1 st1 where k: "host_key_step env accept_new (fst hp) (snd hp) st = (ok1, st1)" by fastforce
  show ?case
    using Cons host_key_step_frame[OF k] k by (cases hp; cases ok1) auto
qed simp

lemma launch_step_frame:
  assumes "os_removes (re_os env)" "pw_path (re_os env) \<notin> set (ts_live (rs_temp st))" "child_within (re_child env) C"
    and "launch_step env argv source st = (code, st')"
  shows "\<exists>xs. ts_live (rs_temp st') = ts_live (rs_temp st) @ xs \<and> left_over env xs \<and> (xs = [] \<or> code = EXIT_CONNECT)
    \<and> (\<forall>p. p \<notin> C \<and> p \<notin> set xs \<longrightarrow> ts_files (rs_temp st') p = ts_files (rs_temp st) p)"
proof (cases "re_self_exe env")
  case (Inl e)
  then show ?thesis using assms(4) by (auto simp: launch_step_def left_over_def)
next
  case (Inr exe)
  obtain r ts where l: "launch (re_os env) (re_child env) (re_inherited env) argv source exe (re_config_path env) (rs_temp st) = (r, ts)"
    by fastforce
  then have e: "rs_temp st' = ts" "\<And>e. r = Inl e \<Longrightarrow> code = EXIT_CONNECT"
    using assms(4) Inr by (auto simp: launch_step_def split: sum.splits)
  show ?thesis using launch_footprint[OF assms(1-3) l] e by (auto simp: left_over_def)
qed

lemma connect_staged_frame:
  assumes "os_removes (re_os env)" "pw_path (re_os env) \<notin> set (ts_live (rs_temp st))" "child_within (re_child env) C"
    and "connect_staged env opts cred rt au rc st = (code, st')"
  shows "\<exists>xs. ts_live (rs_temp st') = ts_live (rs_temp st) @ xs \<and> left_over env xs \<and> (xs = [] \<or> code = EXIT_CONNECT)
    \<and> (\<forall>p. p \<notin> run_writes env C \<union> set xs \<longrightarrow> ts_files (rs_temp st') p = ts_files (rs_temp st) p)"
proof -
  obtain ok st1 where k: "host_key_step env (co_accept_new opts) (h_host (rt_host rt))
      (opt_or (co_port opts) (h_port (rt_host rt))) st = (ok, st1)" by fastforce
  let ?st2 = "st1\<lparr>rs_temp := (rs_temp st1)\<lparr>ts_files := record_use env rt (ts_files (rs_temp st1))\<rparr>\<rparr>"
  show ?thesis
  proof (cases ok)
    case True
    then have l: "launch_step env (ssh_build (cm_splitter (re_cmd env)) au (rt_host rt) (ssh_overrides opts cred rt) rc)
        (ra_password au) ?st2 = (code, st')"
      using assms(4) k by (simp add: connect_staged_def Let_def)
    have n: "pw_path (re_os env) \<notin> set (ts_live (rs_temp ?st2))" using assms(2) host_key_step_frame(1)[OF k] by simp
    have C: "p \<notin> run_writes env C \<Longrightarrow> p \<notin> C" for p by (simp add: run_writes_def)
    show ?thesis
      using launch_step_frame[OF assms(1) n assms(3) l] host_key_step_frame[OF k] record_use_frame C by fastforce
  next
    case False
    then show ?thesis
      using assms(4) k host_key_step_frame[OF k] by (intro exI[of _ "[]"]) (auto simp: connect_staged_def Let_def left_over_def)
  qed
qed

text \<open>The whole command, from an empty registry.\<close>

lemma drop_key_frame:
  assumes "os_removes (re_os env)" "drop_artifact (re_os env) art ts = ts0"
    and "pw_path (re_os env) \<notin> set (art_paths art)" "left_over env xs"
    and "ts_live (rs_temp (snd r)) = ts_live ts @ xs" "\<And>p. p \<notin> T \<Longrightarrow> ts_files (rs_temp (snd r)) p = ts_files ts p"
    and "drop_key env art r = (code, st')"
  shows "ts_live (rs_temp st') = ts_live ts0 @ xs" and "p \<notin> T \<Longrightarrow> ts_files (rs_temp st') p = ts_files ts0 p"
    and "code = fst r"
proof -
  have d: "set xs \<inter> set (art_paths art) = {}" using assms(3,4) by (auto simp: left_over_def)
  show "ts_live (rs_temp st') = ts_live ts0 @ xs" "p \<notin> T \<Longrightarrow> ts_files (rs_temp st') p = ts_files ts0 p" "code = fst r"
    using drop_artifact_frame[OF assms(1,2,5) d assms(6)] assms(7) by (auto simp: drop_key_def split: prod.splits)
qed

lemma materialize_pw:
  assumes "os_removes os" "ts_live ts0 = []" "materialize_inline_key os au ts0 = (r, au1, ts)"
  shows "r = Inl e \<Longrightarrow> ts = ts0"
    and "r = Inr art \<Longrightarrow> drop_artifact os art ts = ts0 \<and> pw_path os \<notin> set (ts_live ts) \<and> pw_path os \<notin> set (art_paths art)"
proof -
  have l: "live_ok ts0" by (simp add: live_ok_def assms(2))
  show "r = Inl e \<Longrightarrow> ts = ts0"
    using assms(3) key.acquire_err[OF assms(1)]
    by (auto simp: materialize_inline_key_def Let_def split: option.splits sum.splits prod.splits)
  show "r = Inr art \<Longrightarrow> drop_artifact os art ts = ts0 \<and> pw_path os \<notin> set (ts_live ts) \<and> pw_path os \<notin> set (art_paths art)"
    using assms(2,3) key.release_inverse[OF assms(1) l] key.acquire_live key_not_pw
    by (auto simp: materialize_inline_key_def Let_def drop_artifact_def art_paths_def split: option.splits sum.splits prod.splits)
qed

text \<open>What a whole run leaves.\<close>

definition leaves :: "run_env \<Rightarrow> string set \<Rightarrow> int \<Rightarrow> temp_state \<Rightarrow> temp_state \<Rightarrow> bool" where
  "leaves env C code ts ts' \<longleftrightarrow> left_over env (ts_live ts') \<and> (ts_live ts' = [] \<or> code = EXIT_CONNECT)
     \<and> (\<forall>p. p \<notin> run_writes env C \<union> set (ts_live ts') \<longrightarrow> ts_files ts' p = ts_files ts p)"

lemma leaves_same: "ts_live ts = [] \<Longrightarrow> leaves env C code ts ts"
  by (simp add: leaves_def left_over_def)

lemma connect_run_frame:
  assumes "os_removes (re_os env)" "ts_live (rs_temp st) = []" "child_within (re_child env) C"
    and "connect_run X be env opts tokens st = (code, st')"
  shows "leaves env C code (rs_temp st) (rs_temp st')"
proof -
  have "rs_temp st' = rs_temp st \<or> (\<exists>cred rt au art au1 ts w rc.
      materialize_inline_key (re_os env) au (rs_temp st) = (art, au1, ts)
      \<and> ((\<exists>e. art = Inl e \<and> rs_temp st' = ts) \<or> (\<exists>a. art = Inr a
           \<and> drop_key env a (connect_staged env opts cred rt au1 rc (st\<lparr>rs_world := w, rs_temp := ts\<rparr>)) = (code, st'))))"
    using assms(4)
    by (cases tokens) (auto simp: connect_run_def split: sum.splits prod.splits, blast+)
  then show ?thesis
  proof (elim disjE exE conjE)
    fix cred rt au art au1 ts w rc a
    assume m: "materialize_inline_key (re_os env) au (rs_temp st) = (art, au1, ts)" and a: "art = Inr a"
      and d: "drop_key env a (connect_staged env opts cred rt au1 rc (st\<lparr>rs_world := w, rs_temp := ts\<rparr>)) = (code, st')"
    obtain c st1 where s: "connect_staged env opts cred rt au1 rc (st\<lparr>rs_world := w, rs_temp := ts\<rparr>) = (c, st1)" by fastforce
    note mp = materialize_pw(2)[OF assms(1,2) m a]
    have n: "pw_path (re_os env) \<notin> set (ts_live (rs_temp (st\<lparr>rs_world := w, rs_temp := ts\<rparr>)))" using mp by simp
    obtain xs where f: "ts_live (rs_temp st1) = ts_live ts @ xs" "left_over env xs" "xs = [] \<or> c = EXIT_CONNECT"
      "\<And>p. p \<notin> run_writes env C \<union> set xs \<Longrightarrow> ts_files (rs_temp st1) p = ts_files ts p"
      using connect_staged_frame[OF assms(1) n assms(3) s] by auto
    show ?thesis
      using drop_key_frame[OF assms(1) _ _ f(2) _ _ d, of ts "rs_temp st" "run_writes env C \<union> set xs"] f mp assms(2)
      by (auto simp: s leaves_def)
  next
    fix au art au1 ts e
    assume "materialize_inline_key (re_os env) au (rs_temp st) = (art, au1, ts)" "art = Inl e" "rs_temp st' = ts"
    then show ?thesis using materialize_pw(1)[OF assms(1,2), of au art au1 ts e] leaves_same[OF assms(2)] by simp
  qed (use leaves_same[OF assms(2)] in auto)
qed

lemma scp_artifact_not_pw:
  assumes "scp_operands X jw os cfg ov vault be s fresh args acc st = (Inr acc1, st1)"
    and "pw_path os \<notin> set (art_paths (sa_artifact acc))"
  shows "pw_path os \<notin> set (art_paths (sa_artifact acc1))"
  using assms
proof (induction args arbitrary: acc st)
  case (Cons arg args)
  have one: "pw_path os \<notin> set (art_paths (sa_artifact a2))"
    if "scp_remote X jw os cfg ov vault be s u arg l r acc st = (Inr a2, st2)" for u l r a2 st2
    using that Cons.prems(2) key_not_pw
    by (auto simp: scp_remote_def first_remote_def materialize_inline_key_def Let_def art_paths_def
        split: sum.splits option.splits prod.splits if_splits)
  show ?case
    using Cons.prems one Cons.IH
    by (auto split: option.splits sum.splits prod.splits)
qed simp

lemma scp_build_pw:
  assumes "os_removes os" "ts_live ts0 = []"
    and "scp_build X jw sh os fresh args cfg ov vault be s ts0 = (r, ts)"
  shows "r = Inl e \<Longrightarrow> ts = ts0"
    and "r = Inr plan \<Longrightarrow> drop_artifact os (sp_key_artifact plan) ts = ts0 \<and> pw_path os \<notin> set (ts_live ts)
      \<and> pw_path os \<notin> set (art_paths (sp_key_artifact plan))"
proof -
  have l: "live_ok ts0" by (simp add: live_ok_def assms(2))
  have ok: "acc_ok os ts0 scp_start ts0" by (simp add: acc_ok_def scp_start_def drop_artifact_def)
  obtain r1 ts1 where o: "scp_operands X jw os cfg ov vault be s fresh args scp_start ts0 = (r1, ts1)" by fastforce
  note k = scp_operands_ok[OF assms(1) l ok o]
  show "ts = ts0" if "r = Inl e" using k o assms(3) that by (auto simp: scp_build_def split: sum.splits)
  show "drop_artifact os (sp_key_artifact plan) ts = ts0 \<and> pw_path os \<notin> set (ts_live ts)
      \<and> pw_path os \<notin> set (art_paths (sp_key_artifact plan))" if r: "r = Inr plan"
  proof -
    obtain acc where a: "r1 = Inr acc" "sp_key_artifact plan = sa_artifact acc" "ts1 = ts"
      using o assms(3) r by (auto simp: scp_build_def split: sum.splits)
    have d: "drop_artifact os (sp_key_artifact plan) ts = ts0" using k a by (simp add: acc_ok_def)
    have "pw_path os \<notin> set (art_paths (sa_artifact acc))"
      using scp_artifact_not_pw[OF o[unfolded a(1)]] by (simp add: scp_start_def art_paths_def)
    moreover have "List.filter (\<lambda>p. p \<notin> set (art_paths (sa_artifact acc))) (ts_live ts) = []"
      using drop_artifact_live[of os "sp_key_artifact plan" ts] d a(2) assms(2) by simp
    ultimately show ?thesis using d a(2) by (auto simp: filter_empty_conv)
  qed
qed

lemma scp_run_frame:
  assumes "os_removes (re_os env)" "ts_live (rs_temp st) = []" "child_within (re_child env) C"
    and "scp_run X be env opts args st = (code, st')"
  shows "leaves env C code (rs_temp st) (rs_temp st')"
proof -
  let ?build = "\<lambda>cfg cred key s. scp_build X (cm_similarity (re_cmd env)) (cm_splitter (re_cmd env)) (re_os env) (re_fresh env)
      args cfg \<lparr>ov_user = co_user opts, ov_port = co_port opts, ov_identity = co_identity opts, ov_credential = cred\<rparr>
      key be s (rs_temp st)"
  let ?go = "\<lambda>plan ts w. scp_staged env opts plan (st\<lparr>rs_world := w, rs_temp := ts\<rparr>)"
  have "rs_temp st' = rs_temp st \<or> (\<exists>cfg cred key s r ts w. ?build cfg cred key s = (r, ts)
      \<and> ((\<exists>e. r = Inl e \<and> rs_temp st' = ts)
         \<or> (\<exists>plan. r = Inr plan \<and> drop_key env (sp_key_artifact plan) (?go plan ts w) = (code, st'))))"
    using assms(4)
    by (auto simp: scp_run_def split: sum.splits prod.splits if_splits, blast+)
  then show ?thesis
  proof (elim disjE exE conjE)
    fix cfg cred key s r ts w e
    assume b: "?build cfg cred key s = (r, ts)" and "r = Inl e" "rs_temp st' = ts"
    then show ?thesis using scp_build_pw(1)[OF assms(1,2) b, of e] leaves_same[OF assms(2)] by simp
  next
    fix cfg cred key s r ts w plan
    assume b: "?build cfg cred key s = (r, ts)" and r: "r = Inr plan"
      and d: "drop_key env (sp_key_artifact plan) (?go plan ts w) = (code, st')"
    note bp = scp_build_pw(2)[OF assms(1,2) b r]
    then have a: "drop_artifact (re_os env) (sp_key_artifact plan) ts = rs_temp st" and n: "pw_path (re_os env) \<notin> set (ts_live ts)"
      by simp_all
    obtain ok st1 where k: "host_key_steps env (co_accept_new opts) (sp_remote_hosts plan)
        (st\<lparr>rs_world := w, rs_temp := ts\<rparr>) = (ok, st1)" by fastforce
    note hk = host_key_steps_frame[OF k, of C]
    obtain c st2 where g: "?go plan ts w = (c, st2)" by fastforce
    have "\<exists>xs. ts_live (rs_temp st2) = ts_live ts @ xs \<and> left_over env xs \<and> (xs = [] \<or> c = EXIT_CONNECT)
        \<and> (\<forall>p. p \<notin> run_writes env C \<union> set xs \<longrightarrow> ts_files (rs_temp st2) p = ts_files ts p)"
    proof (cases ok)
      case True
      then have ll: "launch_step env (sp_argv plan) (sp_password plan) st1 = (c, st2)" using g k by (simp add: scp_staged_def)
      have n1: "pw_path (re_os env) \<notin> set (ts_live (rs_temp st1))" using n hk by simp
      have C: "p \<notin> run_writes env C \<Longrightarrow> p \<notin> C" for p by (simp add: run_writes_def)
      show ?thesis using launch_step_frame[OF assms(1) n1 assms(3) ll] hk C by fastforce
    next
      case False
      then show ?thesis using g k hk by (intro exI[of _ "[]"]) (auto simp: scp_staged_def left_over_def)
    qed
    then obtain xs where f: "ts_live (rs_temp st2) = ts_live ts @ xs" "left_over env xs" "xs = [] \<or> c = EXIT_CONNECT"
      "\<And>p. p \<notin> run_writes env C \<union> set xs \<Longrightarrow> ts_files (rs_temp st2) p = ts_files ts p" by auto
    show ?thesis
      using drop_key_frame[OF assms(1) a _ f(2) _ _ d, of "run_writes env C \<union> set xs"] f bp assms(2)
      by (auto simp: g leaves_def)
  qed (use leaves_same[OF assms(2)] in auto)
qed

section \<open>What the child depends on\<close>

lemma other_child [simp]:
  "re_os (env\<lparr>re_child := c\<rparr>) = re_os env" "load_or_default (env\<lparr>re_child := c\<rparr>) = load_or_default env"
  "connect_target (env\<lparr>re_child := c\<rparr>) = connect_target env" "record_use (env\<lparr>re_child := c\<rparr>) = record_use env"
  "connect_auth X be (env\<lparr>re_child := c\<rparr>) = connect_auth X be env"
  "host_key_step (env\<lparr>re_child := c\<rparr>) = host_key_step env" "drop_key (env\<lparr>re_child := c\<rparr>) = drop_key env"
proof -
  have sel: "re_cmd (env\<lparr>re_child := c\<rparr>) = re_cmd env" "re_hostkey (env\<lparr>re_child := c\<rparr>) = re_hostkey env"
    "re_now (env\<lparr>re_child := c\<rparr>) = re_now env" by simp_all
  show o: "re_os (env\<lparr>re_child := c\<rparr>) = re_os env" unfolding re_os_def sel by (rule refl)
  show "load_or_default (env\<lparr>re_child := c\<rparr>) = load_or_default env"
    unfolding fun_eq_iff load_or_default_def re_config_path_def sel by simp
  show "connect_target (env\<lparr>re_child := c\<rparr>) = connect_target env" unfolding fun_eq_iff connect_target_def sel by simp
  show "record_use (env\<lparr>re_child := c\<rparr>) = record_use env" unfolding fun_eq_iff record_use_def sel o by simp
  show "connect_auth X be (env\<lparr>re_child := c\<rparr>) = connect_auth X be env" unfolding fun_eq_iff connect_auth_def sel by simp
  show "host_key_step (env\<lparr>re_child := c\<rparr>) = host_key_step env" unfolding fun_eq_iff host_key_step_def sel by simp
  show "drop_key (env\<lparr>re_child := c\<rparr>) = drop_key env" unfolding fun_eq_iff drop_key_def o by simp
qed

lemma other_child_steps [simp]: "host_key_steps (env\<lparr>re_child := c\<rparr>) a hs st = host_key_steps env a hs st"
  by (induction env a hs st rule: host_key_steps.induct) (auto split: prod.splits bool.splits)

text \<open>A host key a run may rely on: the host is in the \<^verbatim>\<open>known_hosts\<close> file of these files, or it
is not and new keys are accepted, or the user at this terminal answers yes to the question that shows the
fingerprint of a scan of the host.\<close>

definition key_accepted :: "run_env \<Rightarrow> bool \<Rightarrow> terminal \<Rightarrow> files \<Rightarrow> string \<Rightarrow> 16 word \<Rightarrow> bool" where
  "key_accepted env accept_new t fs h port \<longleftrightarrow>
     (\<exists>kh. known_hosts_path (re_hostkey env) = Some kh
        \<and> (is_known (re_hostkey env) h port kh fs = Inr True
           \<or> is_known (re_hostkey env) h port kh fs = Inr False
             \<and> (accept_new
                \<or> has_tty t \<and> (\<exists>fps fp. scan_fingerprints (re_hostkey env) h port = Inr fps \<and> pick_primary fps = Some fp
                     \<and> fst (confirm_host_key (confirm_text h fp) t)))))"

lemma host_key_step_accepted:
  assumes "host_key_step env a h port st = (True, st')"
  shows "key_accepted env a (rs_term st) (ts_files (rs_temp st)) h port"
proof -
  obtain r t fs where f: "run_host_key_flow (re_hostkey env) h port (has_tty (rs_term st)) a confirm_host_key
      (rs_term st) (ts_files (rs_temp st)) = (r, t, fs)" using prod_cases3 by blast
  then have "r = Inr ()" using assms by (auto simp: host_key_step_def is_ok_iff)
  from f this show ?thesis
  proof (cases rule: host_key_flow_cases)
    case (stored kh)
    then show ?thesis by (force simp: key_accepted_def)
  qed (auto simp: key_accepted_def)
qed

text \<open>For several hosts: each is accepted in the state the steps for those before it left.\<close>

definition keys_accepted :: "run_env \<Rightarrow> bool \<Rightarrow> (string \<times> 16 word) list \<Rightarrow> 'b run_state \<Rightarrow> bool" where
  "keys_accepted env a hs st \<longleftrightarrow>
     (\<forall>i < length hs. \<exists>st'. host_key_steps env a (take i hs) st = (True, st')
        \<and> key_accepted env a (rs_term st') (ts_files (rs_temp st')) (fst (hs ! i)) (snd (hs ! i)))"

lemma host_key_steps_accepted:
  "host_key_steps env a hs st = (True, st') \<Longrightarrow> keys_accepted env a hs st"
proof (induction hs arbitrary: st)
  case (Cons x hs)
  obtain h port where x: "x = (h, port)" by fastforce
  obtain st1 where s: "host_key_step env a h port st = (True, st1)" "host_key_steps env a hs st1 = (True, st')"
    using Cons.prems x by (auto split: prod.splits bool.splits)
  have IH: "keys_accepted env a hs st1" by (rule Cons.IH[OF s(2)])
  show ?case
    unfolding keys_accepted_def
  proof (intro allI impI)
    fix i assume i: "i < length (x # hs)"
    show "\<exists>st'. host_key_steps env a (take i (x # hs)) st = (True, st')
        \<and> key_accepted env a (rs_term st') (ts_files (rs_temp st')) (fst ((x # hs) ! i)) (snd ((x # hs) ! i))"
    proof (cases i)
      case 0
      then show ?thesis using host_key_step_accepted[OF s(1)] x by simp
    next
      case (Suc j)
      then show ?thesis using IH i x s(1) by (auto simp: keys_accepted_def)
    qed
  qed
qed (simp add: keys_accepted_def)

lemma connect_staged_child:
  assumes "connect_staged (env\<lparr>re_child := c1\<rparr>) opts cred rt au rc st
      \<noteq> connect_staged (env\<lparr>re_child := c2\<rparr>) opts cred rt au rc st"
  shows "key_accepted env (co_accept_new opts) (rs_term st) (ts_files (rs_temp st)) (h_host (rt_host rt))
      (opt_or (co_port opts) (h_port (rt_host rt)))"
  using assms host_key_step_accepted
  by (auto simp: connect_staged_def Let_def split: prod.splits bool.splits)

lemma scp_staged_child:
  assumes "scp_staged (env\<lparr>re_child := c1\<rparr>) opts plan st \<noteq> scp_staged (env\<lparr>re_child := c2\<rparr>) opts plan st"
  shows "keys_accepted env (co_accept_new opts) (sp_remote_hosts plan) st"
  using assms host_key_steps_accepted
  by (auto simp: scp_staged_def split: prod.splits bool.splits)

lemma connect_run_child:
  fixes st :: "'b run_state"
  assumes "connect_run X be (env\<lparr>re_child := c1\<rparr>) opts (target # rc) st
      \<noteq> connect_run X be (env\<lparr>re_child := c2\<rparr>) opts (target # rc) st"
  shows "\<exists>cfg cred rt au w art au1 ts. load_or_default env (ts_files (rs_temp st)) = Inr cfg
    \<and> connect_target env cfg opts target = Inr (cred, rt)
    \<and> connect_auth X be env cfg (rt_host rt) (rs_world st) = (Inr au, w)
    \<and> materialize_inline_key (re_os env) au (rs_temp st) = (Inr art, au1, ts)
    \<and> key_accepted env (co_accept_new opts) (rs_term st) (ts_files ts) (h_host (rt_host rt))
        (opt_or (co_port opts) (h_port (rt_host rt)))"
proof -
  obtain cfg cred rt where t: "load_or_default env (ts_files (rs_temp st)) = Inr cfg"
    "connect_target env cfg opts target = Inr (cred, rt)"
  proof (cases "load_or_default env (ts_files (rs_temp st))")
    case (Inr cfg)
    then show thesis using assms that by (cases "connect_target env cfg opts target") (auto simp: connect_run_def)
  qed (use assms in \<open>simp add: connect_run_def\<close>)
  obtain ra w where ra: "connect_auth X be env cfg (rt_host rt) (rs_world st) = (ra, w)" by fastforce
  obtain au where au: "ra = Inr au"
    using assms unfolding connect_run_def other_child t by (cases ra) (simp_all add: t ra)
  obtain m au1 ts where m: "materialize_inline_key (re_os env) au (rs_temp st) = (m, au1, ts)" using prod_cases3 by blast
  obtain art where art: "m = Inr art"
    using assms unfolding connect_run_def other_child t by (cases m) (simp_all add: t ra au m)
  have "connect_staged (env\<lparr>re_child := c1\<rparr>) opts cred rt au1 rc (st\<lparr>rs_world := w, rs_temp := ts\<rparr>)
      \<noteq> connect_staged (env\<lparr>re_child := c2\<rparr>) opts cred rt au1 rc (st\<lparr>rs_world := w, rs_temp := ts\<rparr>)"
    using assms unfolding connect_run_def other_child t by (auto simp: t ra au m art)
  from connect_staged_child[OF this] show ?thesis using t ra au m art by auto
qed

lemma map_sum_pair: "map_sum id (Pair x) r = Inr (a, b) \<longleftrightarrow> a = x \<and> r = Inr b"
  by (cases r) auto

lemma scp_run_child:
  fixes st :: "'b run_state"
  assumes "scp_run X be (env\<lparr>re_child := c1\<rparr>) opts args st \<noteq> scp_run X be (env\<lparr>re_child := c2\<rparr>) opts args st"
  shows "\<exists>cfg cred key w plan ts. load_or_default env (ts_files (rs_temp st)) = Inr cfg
    \<and> resolve_credential_name cfg (co_credential opts) = Inr cred
    \<and> unlock_vault_key X (cm_cli (re_cmd env)) cfg (rs_world st) = (Inr key, w)
    \<and> scp_build X (cm_similarity (re_cmd env)) (cm_splitter (re_cmd env)) (re_os env) (re_fresh env) args cfg
        \<lparr>ov_user = co_user opts, ov_port = co_port opts, ov_identity = co_identity opts, ov_credential = cred\<rparr>
        key be (w_backend w) (rs_temp st) = (Inr plan, ts)
    \<and> keys_accepted env (co_accept_new opts) (sp_remote_hosts plan) (st\<lparr>rs_world := w, rs_temp := ts\<rparr>)"
proof -
  have sel: "re_cmd (env\<lparr>re_child := c\<rparr>) = re_cmd env" "re_fresh (env\<lparr>re_child := c\<rparr>) = re_fresh env" for c by simp_all
  have args: "args \<noteq> []" using assms by (auto simp: scp_run_def)
  obtain cfg cred where t: "load_or_default env (ts_files (rs_temp st)) = Inr cfg"
    "resolve_credential_name cfg (co_credential opts) = Inr cred"
  proof (cases "load_or_default env (ts_files (rs_temp st))")
    case (Inr cfg)
    then show thesis
      using assms args that unfolding scp_run_def sel other_child
      by (cases "resolve_credential_name cfg (co_credential opts)") auto
  next
    case (Inl e)
    then have "scp_run X be (env\<lparr>re_child := c1\<rparr>) opts args st = scp_run X be (env\<lparr>re_child := c2\<rparr>) opts args st"
      unfolding scp_run_def other_child by simp
    then show thesis using assms by simp
  qed
  obtain rk w where rk: "unlock_vault_key X (cm_cli (re_cmd env)) cfg (rs_world st) = (rk, w)" by fastforce
  obtain key where key: "rk = Inr key"
    using assms args unfolding scp_run_def sel other_child t by (cases rk) (simp_all add: t rk)
  obtain rp ts where rp: "scp_build X (cm_similarity (re_cmd env)) (cm_splitter (re_cmd env)) (re_os env) (re_fresh env) args cfg
        \<lparr>ov_user = co_user opts, ov_port = co_port opts, ov_identity = co_identity opts, ov_credential = cred\<rparr>
        key be (w_backend w) (rs_temp st) = (rp, ts)" by fastforce
  obtain plan where plan: "rp = Inr plan"
    using assms args unfolding scp_run_def sel other_child t by (cases rp) (simp_all add: t rk key rp)
  have "scp_staged (env\<lparr>re_child := c1\<rparr>) opts plan (st\<lparr>rs_world := w, rs_temp := ts\<rparr>)
      \<noteq> scp_staged (env\<lparr>re_child := c2\<rparr>) opts plan (st\<lparr>rs_world := w, rs_temp := ts\<rparr>)"
    using assms args unfolding scp_run_def sel other_child t by (auto simp: t rk key rp plan)
  from scp_staged_child[OF this] show ?thesis using t rk key rp plan by auto
qed

section \<open>Properties\<close>

text \<open>C6: the footprint of a connection.  After an ssh or scp command that started with an empty registry of
temporary files, whatever its outcome, the registry is empty again, unless the child could not be started: then it
may hold the password file, and nothing else, and the command ends with the error code of a connection.  Apart
from that file the only paths that may differ are those the child wrote, known_hosts, and the frecency file with the
temporary sibling it is written through.  Removing a file is taken to work.\<close>

theorem connection_footprint:
  assumes "os_removes (re_os env)" "ts_live (rs_temp st) = []" "child_within (re_child env) C"
    and "connect_run X be env opts args st = (code, st') \<or> scp_run X be env opts args st = (code, st')"
  shows "(ts_live (rs_temp st') = []
      \<or> ts_live (rs_temp st') = [temp_name (re_os env) ''sshrack-askpass-'' ''.pw''] \<and> code = EXIT_CONNECT
          \<and> spawn_fails (re_child env))
    \<and> (\<forall>p. p \<notin> C \<and> p \<notin> set (ts_live (rs_temp st')) \<and> known_hosts_path (re_hostkey env) \<noteq> Some p
           \<and> (\<forall>d. cm_data_dir (re_cmd env) = Some d \<longrightarrow> p \<noteq> d @ ''/'' @ FRECENCY_FILENAME
                \<and> p \<noteq> atomic_temp_path (re_os env) (d @ ''/'' @ FRECENCY_FILENAME))
           \<longrightarrow> ts_files (rs_temp st') p = ts_files (rs_temp st) p)"
proof -
  have l: "leaves env C code (rs_temp st) (rs_temp st')"
    using assms(4) connect_run_frame[OF assms(1-3), of X be opts args code st']
      scp_run_frame[OF assms(1-3), of X be opts args code st'] by blast
  have w: "p \<notin> run_writes env C" if "p \<notin> C" "known_hosts_path (re_hostkey env) \<noteq> Some p"
      "\<forall>d. cm_data_dir (re_cmd env) = Some d \<longrightarrow> p \<noteq> d @ ''/'' @ FRECENCY_FILENAME
         \<and> p \<noteq> atomic_temp_path (re_os env) (d @ ''/'' @ FRECENCY_FILENAME)" for p
    using that by (auto simp: run_writes_def)
  show ?thesis using l w unfolding leaves_def left_over_def by blast
qed


definition demo_key_cred :: credential where
  "demo_key_cred = \<lparr>c_id = demo_ids ! 0, c_name = ''ops'', c_body = (body_new ''ops'')
     \<lparr>b_key := Some (KeyInline \<lparr>ik_private_key = Some (Plain ''KEY''), ik_certificate = None, ik_keyring = False\<rparr>)\<rparr>\<rparr>"

definition demo_run :: "child \<Rightarrow> run_env" where
  "demo_run child =
     \<lparr>re_cmd = demo_cmd (pair_toml (demo_creds [demo_web] [demo_key_cred]) default_config),
      re_hostkey = demo_hostkey\<lparr>hk_find := \<lambda>_ _. Inr True\<rparr>, re_now = 0, re_fresh = (\<lambda>_. demo_ids ! 2),
      re_self_exe = Inr ''/bin/sshrack'', re_inherited = Map.empty, re_child = child\<rparr>"

definition demo_run_state :: "fake_state run_state" where
  "demo_run_state = \<lparr>rs_world = demo_world,
     rs_temp = \<lparr>ts_files = [''/etc/c.toml'' \<mapsto> \<lparr>fe_mode = MODE_PRIVATE, fe_bytes = ''a''\<rparr>,
                            ''/h/.ssh/known_hosts'' \<mapsto> \<lparr>fe_mode = 420, fe_bytes = ''k''\<rparr>], ts_live = []\<rparr>,
     rs_term = demo_human\<rparr>"

definition no_options :: connect_options where
  "no_options = \<lparr>co_user = None, co_port = None, co_identity = None, co_credential = None, co_accept_new = False\<rparr>"

definition exits :: "int \<Rightarrow> child" where
  "exits n = (\<lambda>_ _ fs. (Inr (Some n), fs))"

definition demo_cfg :: sshrack_config where
  "demo_cfg = demo_creds [demo_web] [demo_key_cred]"

lemma demo_load: "load_or_default (demo_run c) (ts_files (rs_temp demo_run_state)) = Inr demo_cfg"
  by (simp add: load_or_default_def re_config_path_def demo_run_def demo_cmd_def store_env_def resolve_config_path_def
      config_load_def read_to_string_def read_file_def demo_run_state_def pair_toml_def demo_cfg_def)

lemma demo_target: "connect_target (demo_run c) demo_cfg no_options ''web''
    = Inr (None, \<lparr>rt_host = demo_web, rt_target_user = None, rt_ephemeral = False\<rparr>)"
  by (simp add: connect_target_def no_options_def resolve_credential_name_def resolve_target_def demo_cfg_def demo_creds_def
      find_host_by_name_def demo_web_def with_overrides_def)

lemma demo_auth: "connect_auth demo_crates fake_backend (demo_run c) demo_cfg demo_web demo_world
    = (Inr \<lparr>ra_user = ''ops'', ra_key_path = None, ra_password = SourceNone,
            ra_inline_key = Some \<lparr>im_private = ''KEY'', im_certificate = None\<rparr>\<rparr>, demo_world)"
proof -
  have "is_vault demo_cfg = False" by (simp add: is_vault_def demo_cfg_def demo_creds_def)
  then have "unlock_vault_key demo_crates (cm_cli (re_cmd (demo_run c))) demo_cfg demo_world = (Inr None, demo_world)"
    by (simp add: unlock_vault_key_def ensure_unlocked_vault_key_def)
  moreover have "resolve demo_crates (\<lambda>_ _. 0) demo_web demo_cfg None fake_backend (w_backend demo_world)
      = Inr \<lparr>ra_user = ''ops'', ra_key_path = None, ra_password = SourceNone,
              ra_inline_key = Some \<lparr>im_private = ''KEY'', im_certificate = None\<rparr>\<rparr>" by code_simp
  ultimately show ?thesis by (simp add: connect_auth_def demo_run_def demo_cmd_def)
qed

lemma demo_key: "fst (materialize_inline_key demo_os \<lparr>ra_user = ''ops'', ra_key_path = None, ra_password = SourceNone,
            ra_inline_key = Some \<lparr>im_private = ''KEY'', im_certificate = None\<rparr>\<rparr> (rs_temp demo_run_state))
    = Inr (Some \<lparr>ka_private = ''/tmp/sshrack-key-7-5.pem'', ka_cert = None\<rparr>)"
  by code_simp

lemma demo_connects:
  "fst (connect_run demo_crates fake_backend (demo_run (exits n)) no_options [''web''] demo_run_state) = n"
proof -
  let ?env = "demo_run (exits n)"
  let ?au = "\<lparr>ra_user = ''ops'', ra_key_path = None, ra_password = SourceNone,
            ra_inline_key = Some \<lparr>im_private = ''KEY'', im_certificate = None\<rparr>\<rparr>"
  let ?art = "\<lparr>ka_private = ''/tmp/sshrack-key-7-5.pem'', ka_cert = None\<rparr>"
  have os: "re_os ?env = demo_os" by (simp add: re_os_def demo_run_def demo_cmd_def store_env_def)
  obtain au1 ts where m: "materialize_inline_key demo_os ?au (rs_temp demo_run_state) = (Inr (Some ?art), au1, ts)"
    using demo_key by (metis prod.collapse)
  then obtain st1 where w: "key_artifact_write demo_os ''KEY'' None (rs_temp demo_run_state) = (Inr ?art, ts)"
    "ra_password au1 = SourceNone"
    by (auto simp: materialize_inline_key_def Let_def split: sum.splits prod.splits)
  have kh: "ts_files ts ''/h/.ssh/known_hosts'' \<noteq> None"
    using key.acquire_frame[OF w(1), of "''/h/.ssh/known_hosts''"] by (simp add: ka_paths_def demo_run_state_def)
  have k: "host_key_step ?env False ''10.0.0.9'' 2222 (demo_run_state\<lparr>rs_temp := ts\<rparr>)
      = (True, demo_run_state\<lparr>rs_temp := ts\<rparr>)"
    using kh
    by (auto simp: host_key_step_def run_host_key_flow_def known_hosts_path_def is_known_def hostkey_classify_def
        demo_run_def demo_hostkey_def)
  have r: "record_use ?env rt fs = fs" for rt fs by (simp add: record_use_def demo_run_def demo_cmd_def)
  have l: "fst (launch_step ?env argv SourceNone st) = n" for argv and st :: "fake_state run_state"
    by (simp add: launch_step_def launch_def stage_password_def exits_def demo_run_def Let_def)
  have s: "fst (connect_staged ?env no_options None \<lparr>rt_host = demo_web, rt_target_user = None, rt_ephemeral = False\<rparr>
      au1 [] (demo_run_state\<lparr>rs_temp := ts\<rparr>)) = n"
    using k by (simp add: connect_staged_def no_options_def demo_web_def w(2) r l Let_def opt_or_def)
  have wd: "rs_world demo_run_state = demo_world" by (simp add: demo_run_state_def)
  then have same: "demo_run_state\<lparr>rs_world := demo_world, rs_temp := ts\<rparr> = demo_run_state\<lparr>rs_temp := ts\<rparr>"
    by (metis run_state.surjective run_state.update_convs(1) run_state.select_convs(1))
  show ?thesis
    unfolding connect_run_def os demo_load list.case and_then.simps demo_target map_sum.simps sum.case prod.case id_apply
    by (simp add: demo_auth wd m same drop_key_def s)
qed

theorem connection_footprint_witness:
  "let r = connect_run demo_crates fake_backend (demo_run (exits 3)) no_options [''web''] demo_run_state
   in fst r = 3 \<and> ts_live (rs_temp (snd r)) = []
      \<and> ts_files (rs_temp (snd r)) ''/tmp/sshrack-key-7-5.pem'' = None"
proof -
  have os: "os_removes (re_os (demo_run (exits 3)))"
    using demo_os_removes by (simp add: re_os_def demo_run_def demo_cmd_def store_env_def)
  have l: "ts_live (rs_temp demo_run_state) = []" by (simp add: demo_run_state_def)
  have c: "child_within (re_child (demo_run (exits 3))) {}" "\<not> spawn_fails (re_child (demo_run (exits 3)))"
    by (simp_all add: child_within_def spawn_fails_def demo_run_def exits_def)
  obtain st' where r: "connect_run demo_crates fake_backend (demo_run (exits 3)) no_options [''web''] demo_run_state = (3, st')"
    using demo_connects[of 3] by (metis prod.collapse)
  have p: "known_hosts_path (re_hostkey (demo_run (exits 3))) \<noteq> Some ''/tmp/sshrack-key-7-5.pem''"
    "cm_data_dir (re_cmd (demo_run (exits 3))) = None" "ts_files (rs_temp demo_run_state) ''/tmp/sshrack-key-7-5.pem'' = None"
    by (simp_all add: known_hosts_path_def demo_run_def demo_hostkey_def demo_cmd_def demo_run_state_def)
  have "ts_live (rs_temp st') = [] \<and> ts_files (rs_temp st') ''/tmp/sshrack-key-7-5.pem'' = None"
    using connection_footprint[OF os l c(1) disjI1[OF r]] c(2) p by auto
  then show ?thesis by (simp add: r)
qed


end
