(* ===== verification/Dir_Source.thy ===== *)
theory Dir_Source
  imports Frecency Prompt
begin

text \<open>Paths and listings: the lexical path helpers (\<^verbatim>\<open>pathutil.rs\<close>), the key-file predicates
(\<^verbatim>\<open>keydetect.rs\<close>) and the sources of directory listings (\<^verbatim>\<open>dirsource.rs\<close>).\<close>

section \<open>Components\<close>

text \<open>\<^verbatim>\<open>Path::components\<close> of a Unix path: empty parts vanish, and so do dots except a leading one.\<close>

datatype component = RootDir | CurDir | ParentDir | Normal string

definition part_component :: "string \<Rightarrow> component" where
  "part_component s = (if s = ''..'' then ParentDir else Normal s)"

definition components :: "string \<Rightarrow> component list" where
  "components p =
     (let parts = List.filter (\<lambda>s. s \<noteq> []) (split_char (CHR ''/'') p);
          body = map part_component (List.filter (\<lambda>s. s \<noteq> ''.'') parts)
      in if starts_with ''/'' p then RootDir # body
         else if parts \<noteq> [] \<and> hd parts = ''.'' then CurDir # body else body)"

fun component_text :: "component \<Rightarrow> string" where
  "component_text RootDir = ''/''"
| "component_text CurDir = ''.''"
| "component_text ParentDir = ''..''"
| "component_text (Normal s) = s"

definition from_components :: "component list \<Rightarrow> string" where
  "from_components cs = foldl (\<lambda>p c. path_join p (component_text c)) [] cs"

definition is_absolute :: "string \<Rightarrow> bool" where
  "is_absolute p = starts_with ''/'' p"

text \<open>The last component of a path and the path without it.\<close>

definition last_normal :: "string \<Rightarrow> string option" where
  "last_normal p = (case rev (components p) of Normal n # _ \<Rightarrow> Some n | _ \<Rightarrow> None)"

definition parent_components :: "string \<Rightarrow> component list option" where
  "parent_components p =
     (case rev (components p) of [] \<Rightarrow> None | RootDir # _ \<Rightarrow> None | _ # r \<Rightarrow> Some (rev r))"

section \<open>pathutil\<close>

datatype filter_intent = Fuzzy string | PathLike string

definition parse_filter_intent :: "string \<Rightarrow> filter_intent" where
  "parse_filter_intent input =
     (if starts_with ''~'' input \<or> CHR ''/'' \<in> set input then PathLike (trim input) else Fuzzy input)"

definition expand_tilde :: "string \<Rightarrow> string \<Rightarrow> string" where
  "expand_tilde input home =
     (if input = ''~'' then home
      else case strip_prefix ''~/'' input of
        Some rest \<Rightarrow> path_join home rest
      | None \<Rightarrow>
          (case strip_prefix [CHR ''~'', CHR 0x5C] input of
             Some rest \<Rightarrow> path_join home rest
           | None \<Rightarrow> input))"

definition normalize_step :: "component list \<Rightarrow> component \<Rightarrow> component list" where
  "normalize_step out c =
     (case c of
        CurDir \<Rightarrow> out
      | ParentDir \<Rightarrow>
          (case rev out of
             Normal _ # _ \<Rightarrow> butlast out
           | RootDir # _ \<Rightarrow> out
           | _ \<Rightarrow> out @ [c])
      | _ \<Rightarrow> out @ [c])"

definition normalize_components :: "component list \<Rightarrow> component list" where
  "normalize_components cs = foldl normalize_step [] cs"

definition normalize_lexical :: "string \<Rightarrow> string" where
  "normalize_lexical p = from_components (normalize_components (components p))"

definition push_unique :: "string \<Rightarrow> string list \<Rightarrow> string list" where
  "push_unique s out = (if s \<in> set out then out else out @ [s])"

definition start_candidates :: "string option \<Rightarrow> string list" where
  "start_candidates identity_hint =
     (let start = (case identity_hint of
            None \<Rightarrow> []
          | Some h \<Rightarrow>
              (let hint = trim h
               in if hint = [] then []
                  else case path_parent hint of
                    Some p \<Rightarrow> if p = [] then [] else push_unique p []
                  | None \<Rightarrow> []))
      in fold push_unique [''~/.ssh'', ''~'', ''/''] start)"

datatype resolved_path = ResolvedDir string | ResolvedFile string | ResolvedNotFound

section \<open>keydetect\<close>

definition looks_like_private_key_header :: "string \<Rightarrow> bool" where
  "looks_like_private_key_header first_line \<longleftrightarrow>
     (let t = trim_end first_line in starts_with ''-----BEGIN '' t \<and> ends_with '' PRIVATE KEY-----'' t)"

definition looks_like_key_filename :: "string \<Rightarrow> bool" where
  "looks_like_key_filename name \<longleftrightarrow>
     \<not> ends_with ''.pub'' name
     \<and> (name = ''id_rsa'' \<or> starts_with ''id_'' name \<or> ends_with ''.pem'' name \<or> ends_with ''.key'' name)"

section \<open>Listings\<close>

datatype path_kind = KindDir | KindFile | KindSymlink | KindNotFound

record dir_entry =
  de_name :: string
  de_path :: string
  de_is_dir :: bool
  de_is_symlink :: bool
  de_size :: "nat option"
  de_modified :: "system_time option"

text \<open>The undecorated row has the same fields.\<close>

type_synonym raw_entry = dir_entry

definition decorate :: "string \<Rightarrow> bool \<Rightarrow> bool \<Rightarrow> string" where
  "decorate raw is_dir is_symlink = (if is_dir then raw @ ''/'' else if is_symlink then raw @ ''@'' else raw)"

definition entry_cmp :: "raw_entry \<Rightarrow> raw_entry \<Rightarrow> ordering" where
  "entry_cmp a b =
     then_with (compare_of (de_is_dir b) (de_is_dir a))
       (compare_of (to_lowercase (de_name a)) (to_lowercase (de_name b)))"

definition decorated :: "raw_entry \<Rightarrow> dir_entry" where
  "decorated e = e\<lparr>de_name := decorate (de_name e) (de_is_dir e) (de_is_symlink e)\<rparr>"

definition build_entries :: "raw_entry list \<Rightarrow> dir_entry list" where
  "build_entries items = map decorated (sort_by entry_cmp items)"

text \<open>The operations a source provides, and the two that are built on them.\<close>

record dir_source =
  ds_list :: "string \<Rightarrow> string + dir_entry list"
  ds_classify :: "string \<Rightarrow> path_kind"
  ds_home :: "string option"

definition source_resolve :: "dir_source \<Rightarrow> string \<Rightarrow> string \<Rightarrow> resolved_path" where
  "source_resolve src raw cwd =
     (let p = (if starts_with ''~'' raw
               then (case ds_home src of Some h \<Rightarrow> expand_tilde raw h | None \<Rightarrow> raw)
               else if is_absolute raw then raw else path_join cwd raw)
      in case ds_classify src p of
           KindDir \<Rightarrow> ResolvedDir p
         | KindSymlink \<Rightarrow> ResolvedDir p
         | KindFile \<Rightarrow> ResolvedFile p
         | KindNotFound \<Rightarrow> ResolvedNotFound)"

fun resolve_start :: "dir_source \<Rightarrow> string list \<Rightarrow> string option" where
  "resolve_start src [] = None"
| "resolve_start src (c # cs) =
     (case (if starts_with ''~'' c then map_option (expand_tilde c) (ds_home src) else Some c) of
        Some p \<Rightarrow> if ds_classify src p = KindDir then Some p else resolve_start src cs
      | None \<Rightarrow> resolve_start src cs)"

text \<open>The local file system: the names of a directory and what \<^verbatim>\<open>lstat\<close> and \<^verbatim>\<open>stat\<close> say.\<close>

record metadata =
  md_is_symlink :: bool
  md_is_dir :: bool
  md_len :: nat
  md_modified :: "system_time option"

record local_fs =
  lf_read_dir :: "string \<Rightarrow> string + string list"
  lf_lstat :: "string \<Rightarrow> metadata option"
  lf_stat :: "string \<Rightarrow> metadata option"
  lf_home :: "string option"

definition local_entry :: "local_fs \<Rightarrow> string \<Rightarrow> string \<Rightarrow> raw_entry" where
  "local_entry fs cwd name =
     (let path = path_join cwd name; is_dir = (case lf_stat fs path of Some m \<Rightarrow> md_is_dir m | None \<Rightarrow> False)
      in \<lparr>de_name = name, de_path = path, de_is_dir = is_dir,
          de_is_symlink = (case lf_lstat fs path of Some m \<Rightarrow> md_is_symlink m | None \<Rightarrow> False),
          de_size = (if is_dir then None else map_option md_len (lf_stat fs path)),
          de_modified = Option.bind (lf_stat fs path) md_modified\<rparr>)"

definition local_list :: "local_fs \<Rightarrow> string \<Rightarrow> string + dir_entry list" where
  "local_list fs cwd =
     (case lf_read_dir fs cwd of
        Inl e \<Rightarrow> Inl e
      | Inr names \<Rightarrow> Inr (build_entries (map (local_entry fs cwd) names)))"

definition local_classify :: "local_fs \<Rightarrow> string \<Rightarrow> path_kind" where
  "local_classify fs path =
     (case lf_lstat fs path of
        None \<Rightarrow> KindNotFound
      | Some m \<Rightarrow> if md_is_symlink m then KindSymlink else if md_is_dir m then KindDir else KindFile)"

definition local_dir_source :: "local_fs \<Rightarrow> dir_source" where
  "local_dir_source fs = \<lparr>ds_list = local_list fs, ds_classify = local_classify fs, ds_home = lf_home fs\<rparr>"

section \<open>Facts\<close>

text \<open>A listing is the stable sort of its rows: directories first, then by the lower-cased name.\<close>

definition entry_key :: "raw_entry \<Rightarrow> bool \<times> string" where
  "entry_key e = (\<not> de_is_dir e, to_lowercase (de_name e))"

lemma build_entries_sorted: "build_entries items = map decorated (sort_key entry_key items)"
proof -
  have "entry_cmp a b = compare_of (entry_key a) (entry_key b)" for a b
    by (cases "de_is_dir a"; cases "de_is_dir b") (auto simp: entry_cmp_def entry_key_def compare_of_def)
  then have "sort_by entry_cmp items = sort_key entry_key items" by (intro sort_by_key) auto
  then show ?thesis by (simp add: build_entries_def)
qed

end
