(* ===== verification/Sftp_Parse.thy ===== *)
theory Sftp_Parse
  imports Dir_Source
begin

text \<open>Reading what \<^verbatim>\<open>sftp\<close> prints (\<^verbatim>\<open>connect/sftp/parse.rs\<close>): one row of a long listing,
the whole listing, the rows as entries of the pane, and the dates.  Dates are computed in 64-bit integers, which wrap as
in the release build.\<close>

section \<open>Civil dates\<close>

definition i64 :: "int \<Rightarrow> int" where "i64 x = sint (word_of_int x :: 64 word)"
definition u64 :: "int \<Rightarrow> int" where "u64 x = uint (word_of_int x :: 64 word)"

text \<open>Signed division truncates towards zero.\<close>

definition tdiv :: "int \<Rightarrow> int \<Rightarrow> int" where
  "tdiv a b = (if a < 0 then - ((- a) div b) else a div b)"

definition days_from_civil :: "int \<Rightarrow> int \<Rightarrow> int \<Rightarrow> int" where
  "days_from_civil year month day =
     (let y = (if month \<le> 2 then i64 (year - 1) else year);
          era = tdiv (if 0 \<le> y then y else i64 (y - 399)) 400;
          yoe = u64 (i64 (y - i64 (era * 400)));
          doy = (153 * (if month > 2 then month - 3 else month + 9) + 2) div 5 + day - 1;
          doe = u64 (u64 (u64 (u64 (yoe * 365) + yoe div 4) - yoe div 100) + doy)
      in i64 (i64 (i64 (era * 146097) + i64 doe) - 719468))"

definition civil_from_days :: "int \<Rightarrow> int \<times> int \<times> int" where
  "civil_from_days z0 =
     (let z = i64 (z0 + 719468);
          era = tdiv (if 0 \<le> z then z else i64 (z - 146096)) 146097;
          doe = u64 (i64 (z - i64 (era * 146097)));
          yoe = (doe - doe div 1460 + doe div 36524 - doe div 146096) div 365;
          y = i64 (yoe + i64 (era * 400));
          doy = u64 (doe - (365 * yoe + yoe div 4 - yoe div 100));
          mp = (5 * doy + 2) div 153;
          d = doy - (153 * mp + 2) div 5 + 1;
          m = (if mp < 10 then mp + 3 else mp - 9)
      in (if m \<le> 2 then i64 (y + 1) else y, m, d))"

definition compose_system_time :: "int \<Rightarrow> int \<Rightarrow> int \<Rightarrow> int \<Rightarrow> int \<Rightarrow> system_time option" where
  "compose_system_time year month day hour minute =
     (let secs = i64 (i64 (i64 (days_from_civil year month day * 86400) + hour * 3600) + minute * 60)
      in if secs < 0 then None else Some (secs * NANOS_PER_SEC))"

definition year_from_now :: "system_time \<Rightarrow> int" where
  "year_from_now now =
     (let secs = (case secs_since now 0 of Some s \<Rightarrow> s | None \<Rightarrow> 0) in fst (civil_from_days (secs div 86400)))"

definition month_names :: "string list" where
  "month_names = [''Jan'', ''Feb'', ''Mar'', ''Apr'', ''May'', ''Jun'', ''Jul'', ''Aug'', ''Sep'', ''Oct'', ''Nov'', ''Dec'']"

definition month_name_to_num :: "string \<Rightarrow> int option" where
  "month_name_to_num s = map_option (\<lambda>i. int i + 1) (position (\<lambda>m. m = s) month_names)"

text \<open>\<^verbatim>\<open>str::parse\<close> into a signed 64-bit integer.\<close>

definition parse_i64 :: "string \<Rightarrow> int option" where
  "parse_i64 s =
     (let (neg, ds) = (case s of
            c # r \<Rightarrow> if c = CHR ''-'' then (True, r) else if c = CHR ''+'' then (False, r) else (False, s)
          | [] \<Rightarrow> (False, []));
          n = (if neg then - dec_int ds else dec_int ds)
      in if ds \<noteq> [] \<and> list_all char_is_ascii_digit ds \<and> - (2 ^ 63) \<le> n \<and> n < 2 ^ 63 then Some n else None)"

text \<open>The year, hour and minute of the last date field, and whether the field was a time of day.\<close>

definition parse_rest :: "string \<Rightarrow> system_time \<Rightarrow> (int \<times> int \<times> int \<times> bool) option" where
  "parse_rest rest now =
     (case split_once (CHR '':'') rest of
        Some (h, m) \<Rightarrow>
          Option.bind (parse_unsigned 32 h) (\<lambda>hour. Option.bind (parse_unsigned 32 m) (\<lambda>minute.
            Some (year_from_now now, int hour, int minute, True)))
      | None \<Rightarrow> map_option (\<lambda>y. (y, 0, 0, False)) (parse_i64 rest))"

definition parse_modified :: "string \<Rightarrow> string \<Rightarrow> string \<Rightarrow> system_time \<Rightarrow> system_time option" where
  "parse_modified month_field day_field rest_field now =
     Option.bind (month_name_to_num month_field) (\<lambda>month.
     Option.bind (parse_unsigned 32 day_field) (\<lambda>day.
     Option.bind (parse_rest rest_field now) (\<lambda>(year, hour, minute, has_time).
       if \<not> (1 \<le> month \<and> month \<le> 12) \<or> \<not> (1 \<le> day \<and> day \<le> 31) \<or> hour > 23 \<or> minute > 59 then None
       else Option.bind (compose_system_time year month (int day) hour minute) (\<lambda>candidate.
         if has_time \<and> candidate > now then compose_system_time (i64 (year - 1)) month (int day) hour minute
         else Some candidate))))"

section \<open>Rows\<close>

record raw_ls_entry =
  rl_name :: string
  rl_is_dir :: bool
  rl_is_symlink :: bool
  rl_size :: "nat option"
  rl_modified :: "system_time option"

definition is_ascii_whitespace :: "char \<Rightarrow> bool" where
  "is_ascii_whitespace c \<longleftrightarrow> c \<in> {CHR 0x20, CHR 0x09, CHR 0x0A, CHR 0x0C, CHR 0x0D}"

fun skip_fields :: "nat \<Rightarrow> string \<Rightarrow> string" where
  "skip_fields 0 s = dropWhile is_ascii_whitespace s"
| "skip_fields (Suc n) s =
     skip_fields n (dropWhile (\<lambda>c. \<not> is_ascii_whitespace c) (dropWhile is_ascii_whitespace s))"

definition remainder_from_field :: "string \<Rightarrow> nat \<Rightarrow> string option" where
  "remainder_from_field line k = (let r = skip_fields k line in if r = [] then None else Some r)"

fun before_arrow :: "string \<Rightarrow> string option" where
  "before_arrow [] = None"
| "before_arrow (c # s) = (if starts_with '' -> '' (c # s) then Some [] else map_option ((#) c) (before_arrow s))"

definition parse_ls_line :: "string \<Rightarrow> system_time \<Rightarrow> raw_ls_entry option" where
  "parse_ls_line line now =
     (let trimmed = trim line; fs = split_whitespace trimmed
      in if trimmed = [] \<or> length fs < 9 \<or> fs ! 0 = ''total'' then None
         else
           (let first = hd (fs ! 0); is_dir = (first = CHR ''d''); is_symlink = (first = CHR ''l'')
            in if first \<notin> {CHR ''-'', CHR ''d'', CHR ''l''} then None
               else map_option (\<lambda>raw.
                 \<lparr>rl_name = (if is_symlink then (case before_arrow raw of Some b \<Rightarrow> b | None \<Rightarrow> raw) else raw),
                  rl_is_dir = is_dir, rl_is_symlink = is_symlink,
                  rl_size = (if is_dir then None else parse_unsigned 64 (fs ! 4)),
                  rl_modified = parse_modified (fs ! 5) (fs ! 6) (fs ! 7) now\<rparr>)
                 (remainder_from_field trimmed 8)))"

definition parse_ls_listing :: "string \<Rightarrow> system_time \<Rightarrow> raw_ls_entry list" where
  "parse_ls_listing out now =
     List.filter (\<lambda>e. rl_name e \<noteq> ''.'' \<and> rl_name e \<noteq> ''..'')
       (List.map_filter (\<lambda>l. parse_ls_line l now) (lines out))"

definition strip_control_chars :: "string \<Rightarrow> string" where
  "strip_control_chars s =
     map (\<lambda>c. let code = (of_char c :: nat)
              in if (code \<le> 31 \<or> code = 127) \<and> c \<noteq> CHR 0x09 \<and> c \<noteq> CHR 0x0A then CHR ''?'' else c) s"

definition to_raw :: "string \<Rightarrow> raw_ls_entry \<Rightarrow> raw_entry" where
  "to_raw cwd r =
     (let clean = strip_control_chars (rl_name r);
          (display, path) = (if is_absolute clean then (case last_normal clean of Some b \<Rightarrow> b | None \<Rightarrow> clean, clean)
                             else (clean, path_join cwd clean))
      in \<lparr>de_name = display, de_path = path, de_is_dir = rl_is_dir r, de_is_symlink = rl_is_symlink r,
          de_size = rl_size r, de_modified = rl_modified r\<rparr>)"

text \<open>Paths are compared by their components.\<close>

definition to_dir_entries :: "raw_ls_entry list \<Rightarrow> string \<Rightarrow> dir_entry list" where
  "to_dir_entries rows cwd =
     (let cwd_norm = normalize_components (components cwd);
          parent_norm = map_option normalize_components (parent_components cwd)
      in build_entries (List.filter (\<lambda>e. let p = normalize_components (components (de_path e))
                                        in p \<noteq> cwd_norm \<and> Some p \<noteq> parent_norm)
           (map (to_raw cwd) rows)))"

section \<open>The output of pwd and of one row\<close>

fun find_map :: "('a \<Rightarrow> 'b option) \<Rightarrow> 'a list \<Rightarrow> 'b option" where
  "find_map f [] = None"
| "find_map f (x # xs) = (case f x of Some y \<Rightarrow> Some y | None \<Rightarrow> find_map f xs)"

definition parse_remote_home :: "string \<Rightarrow> string option" where
  "parse_remote_home out =
     find_map (\<lambda>l. map_option trim (strip_prefix ''Remote working directory: '' l)) (lines out)"

definition parse_size_from_ls :: "string \<Rightarrow> system_time \<Rightarrow> nat option" where
  "parse_size_from_ls out now =
     find_map (\<lambda>l. Option.bind (parse_ls_line l now) rl_size) (lines out)"

end
