(* ===== verification/Path_Find.thy ===== *)
theory Path_Find
  imports Sftp_Parse
begin

text \<open>Cross-directory find (\<^verbatim>\<open>pathfind.rs\<close>) and its cache of listings
(\<^verbatim>\<open>pathfind/cache.rs\<close>): the query parser, the ranking of matches and the walk that streams
them.  The fuzzy matcher is an argument, as it is in the code (the trait \<^verbatim>\<open>SegmentMatcher\<close>).\<close>

section \<open>The order of paths\<close>

text \<open>\<^verbatim>\<open>Component\<close> derives its order from the order of its variants.\<close>

fun component_key :: "component \<Rightarrow> nat \<times> string" where
  "component_key RootDir = (0, [])"
| "component_key CurDir = (1, [])"
| "component_key ParentDir = (2, [])"
| "component_key (Normal s) = (3, s)"

lemma component_key_inj: "component_key a = component_key b \<Longrightarrow> a = b"
  by (cases a; cases b) auto

instantiation component :: linorder
begin

definition less_eq_component :: "component \<Rightarrow> component \<Rightarrow> bool" where
  "less_eq_component a b = (component_key a \<le> component_key b)"

definition less_component :: "component \<Rightarrow> component \<Rightarrow> bool" where
  "less_component a b = (component_key a < component_key b)"

instance
  by standard (auto simp: less_eq_component_def less_component_def dest: component_key_inj)

end

section \<open>Queries\<close>

record parsed_query =
  pq_base :: string
  pq_segments :: "string list"
  pq_trailing_slash :: bool

text \<open>The leading \<^verbatim>\<open>../\<close> chain: how many, and what follows.\<close>

fun strip_parents :: "string \<Rightarrow> nat \<times> string" where
  "strip_parents (a # b # c # r) =
     (if a = CHR ''.'' \<and> b = CHR ''.'' \<and> c = CHR ''/'' then (let (n, rest) = strip_parents r in (Suc n, rest))
      else (0, a # b # c # r))"
| "strip_parents s = (0, s)"

definition pop_parents :: "nat \<Rightarrow> string \<Rightarrow> string" where
  "pop_parents n base = ((\<lambda>b. case path_parent b of Some p \<Rightarrow> p | None \<Rightarrow> b) ^^ n) base"

definition resolve_base :: "string \<Rightarrow> string \<Rightarrow> string option \<Rightarrow> string \<times> string" where
  "resolve_base raw cwd home =
     (case strip_prefix ''~'' raw of
        Some rest \<Rightarrow>
          (case home of Some h \<Rightarrow> expand_tilde ''~'' h | None \<Rightarrow> cwd,
           case strip_prefix ''/'' rest of Some r \<Rightarrow> r | None \<Rightarrow> rest)
      | None \<Rightarrow>
          (case strip_prefix ''./'' raw of
             Some rest \<Rightarrow> (cwd, rest)
           | None \<Rightarrow>
               if starts_with ''/'' raw
               then (''/'', case strip_prefix ''/'' raw of Some r \<Rightarrow> r | None \<Rightarrow> raw)
               else
                 (let (pops, rest) = strip_parents raw
                  in if rest = ''..'' then (pop_parents (pops + 1) cwd, [])
                     else (pop_parents pops cwd, rest))))"

definition parse_query :: "string \<Rightarrow> string \<Rightarrow> string option \<Rightarrow> parsed_query" where
  "parse_query raw0 cwd home =
     (let raw = trim raw0; (base, rest) = resolve_base raw cwd home
      in \<lparr>pq_base = base,
          pq_segments = List.filter (\<lambda>s. s \<noteq> []) (map trim (split_char (CHR ''/'') rest)),
          pq_trailing_slash = ends_with ''/'' raw\<rparr>)"

definition base_display_prefix :: "string \<Rightarrow> string" where
  "base_display_prefix raw0 =
     (let raw = trim raw0
      in if starts_with ''/'' raw then ''/''
         else if starts_with ''~'' raw then ''~/''
         else if starts_with ''./'' raw then []
         else (let (n, rest) = strip_parents raw
               in concat (replicate (if rest = ''..'' then n + 1 else n) ''../'')))"

section \<open>Matches\<close>

record seg_match =
  sm_name :: string
  sm_score :: "32 word"
  sm_indices :: "nat list"

record path_match =
  pm_path :: string
  pm_is_dir :: bool
  pm_seg_matches :: "seg_match list"

definition total_score :: "path_match \<Rightarrow> 32 word" where
  "total_score m = sum_list (map sm_score (pm_seg_matches m))"

definition match_cmp :: "path_match \<Rightarrow> path_match \<Rightarrow> ordering" where
  "match_cmp a b =
     then_with (compare_of (total_score b) (total_score a))
       (then_with (compare_of (length (components (pm_path a))) (length (components (pm_path b))))
          (compare_of (components (pm_path a)) (components (pm_path b))))"

definition rank_matches :: "path_match list \<Rightarrow> path_match list" where
  "rank_matches ms = sort_by match_cmp ms"

section \<open>The walk\<close>

datatype search_event_kind =
    EvMatch path_match
  | EvDrilled string
  | EvSearchDone
  | EvSearchError string

record search_event =
  se_gen :: "32 word"
  se_kind :: search_event_kind

text \<open>What a walk runs against: the listings, the matcher, what the k-th read of the cancel flag returns and
whether the receiver still takes the k-th event.\<close>

record walk_env =
  we_list :: "string \<Rightarrow> string + dir_entry list"
  we_match :: "string \<Rightarrow> string \<Rightarrow> (32 word \<times> nat list) option"
  we_gen :: "32 word"
  we_cancel :: "nat \<Rightarrow> bool"
  we_open :: "nat \<Rightarrow> bool"

record walk =
  wk_loads :: nat
  wk_sends :: nat
  wk_events :: "search_event list"

definition load_cancel :: "walk_env \<Rightarrow> walk \<Rightarrow> bool \<times> walk" where
  "load_cancel env w = (we_cancel env (wk_loads w), w\<lparr>wk_loads := wk_loads w + 1\<rparr>)"

definition send_event :: "walk_env \<Rightarrow> search_event_kind \<Rightarrow> walk \<Rightarrow> bool \<times> walk" where
  "send_event env k w =
     (let ok = we_open env (wk_sends w)
      in (ok, w\<lparr>wk_sends := wk_sends w + 1,
               wk_events := (if ok then wk_events w @ [\<lparr>se_gen = we_gen env, se_kind = k\<rparr>] else wk_events w)\<rparr>))"

definition emit_event :: "walk_env \<Rightarrow> search_event_kind \<Rightarrow> walk \<Rightarrow> walk" where
  "emit_event env k w = snd (send_event env k w)"

type_synonym frontier = "(string \<times> seg_match list) list"

text \<open>\<^verbatim>\<open>Inl\<close> is the early return of the walk.  Phase one: descend through directories of exactly the
given name, never listing a directory twice.\<close>

definition drill_entries :: "string \<Rightarrow> seg_match list \<Rightarrow> dir_entry list \<Rightarrow> frontier" where
  "drill_entries seg ancestor es =
     List.map_filter (\<lambda>e. if de_is_dir e \<and> last_normal (de_path e) = Some seg
        then Some (de_path e, ancestor @ [\<lparr>sm_name = seg, sm_score = 0, sm_indices = []\<rparr>]) else None) es"

fun drill_level ::
  "walk_env \<Rightarrow> string \<Rightarrow> frontier \<Rightarrow> component list list \<Rightarrow> frontier \<Rightarrow> walk
     \<Rightarrow> walk + (frontier \<times> component list list \<times> walk)" where
  "drill_level env seg [] visited nxt w = Inr (nxt, visited, w)"
| "drill_level env seg ((dir, ancestor) # fr) visited nxt w =
     (let (stop, w) = load_cancel env w
      in if stop then Inl w
         else if components dir \<in> set visited then drill_level env seg fr visited nxt w
         else
           (let visited = components dir # visited
            in case we_list env dir of
                 Inl msg \<Rightarrow> drill_level env seg fr visited nxt (emit_event env (EvSearchError (dir @ '': '' @ msg)) w)
               | Inr es \<Rightarrow> drill_level env seg fr visited (nxt @ drill_entries seg ancestor es) w))"

fun drill_segments ::
  "walk_env \<Rightarrow> string list \<Rightarrow> frontier \<Rightarrow> component list list \<Rightarrow> walk \<Rightarrow> walk + (frontier \<times> walk)" where
  "drill_segments env [] fr visited w = Inr (fr, w)"
| "drill_segments env (seg # segs) fr visited w =
     (let (stop, w) = load_cancel env w
      in if stop then Inl w
         else case drill_level env seg fr visited [] w of
           Inl w \<Rightarrow> Inl w
         | Inr (nxt, visited, w) \<Rightarrow> if nxt = [] then Inr ([], w) else drill_segments env segs nxt visited w)"

text \<open>Phase two: the entries of every surviving directory, filtered by the last segment when there is one.\<close>

definition leaf_match :: "walk_env \<Rightarrow> string option \<Rightarrow> string \<Rightarrow> (32 word \<times> nat list) option" where
  "leaf_match env leaf raw = (case leaf of None \<Rightarrow> Some (0, []) | Some pat \<Rightarrow> we_match env raw pat)"

fun leaf_entries :: "walk_env \<Rightarrow> string option \<Rightarrow> seg_match list \<Rightarrow> dir_entry list \<Rightarrow> walk \<Rightarrow> walk + walk" where
  "leaf_entries env leaf ancestor [] w = Inr w"
| "leaf_entries env leaf ancestor (e # es) w =
     (case last_normal (de_path e) of
        None \<Rightarrow> leaf_entries env leaf ancestor es w
      | Some raw \<Rightarrow>
          (case leaf_match env leaf raw of
             None \<Rightarrow> leaf_entries env leaf ancestor es w
           | Some (sc, idx) \<Rightarrow>
               (let (ok, w) = send_event env (EvMatch
                      \<lparr>pm_path = de_path e, pm_is_dir = de_is_dir e,
                       pm_seg_matches = ancestor @ [\<lparr>sm_name = raw, sm_score = sc, sm_indices = idx\<rparr>]\<rparr>) w
                in if ok then leaf_entries env leaf ancestor es w else Inl w)))"

fun leaf_dirs :: "walk_env \<Rightarrow> string option \<Rightarrow> frontier \<Rightarrow> walk \<Rightarrow> walk + walk" where
  "leaf_dirs env leaf [] w = Inr w"
| "leaf_dirs env leaf ((dir, ancestor) # fr) w =
     (let (stop, w) = load_cancel env w
      in if stop then Inl w
         else case we_list env dir of
           Inl msg \<Rightarrow> leaf_dirs env leaf fr (emit_event env (EvSearchError (dir @ '': '' @ msg)) w)
         | Inr es \<Rightarrow>
             (let w = (if leaf = None then emit_event env (EvDrilled dir) w else w)
              in case leaf_entries env leaf ancestor es w of
                   Inl w \<Rightarrow> Inl w
                 | Inr w \<Rightarrow> leaf_dirs env leaf fr w))"

definition drill_and_leaf :: "parsed_query \<Rightarrow> string list \<times> string option" where
  "drill_and_leaf q =
     (if pq_trailing_slash q then (pq_segments q, None)
      else if pq_segments q = [] then ([], None)
      else (butlast (pq_segments q), Some (last (pq_segments q))))"

definition walk_levels :: "walk_env \<Rightarrow> parsed_query \<Rightarrow> walk \<Rightarrow> walk" where
  "walk_levels env q w =
     (let (drill, leaf) = drill_and_leaf q
      in case drill_segments env drill [(pq_base q, [])] [] w of
           Inl w \<Rightarrow> w
         | Inr (fr, w) \<Rightarrow>
             (let (stop, w) = load_cancel env w
              in if stop then w
                 else if fr = [] then emit_event env EvSearchDone w
                 else case leaf_dirs env leaf fr w of
                   Inl w \<Rightarrow> w
                 | Inr w \<Rightarrow> emit_event env EvSearchDone w))"

section \<open>The cache of listings\<close>

text \<open>A time is in nanoseconds.  The entries are in the order in which the map iterates them, which decides
between entries used equally long ago.\<close>

record cache_entry =
  ce_born_at :: nat
  ce_last_used :: nat
  ce_value :: "dir_entry list"

record dir_cache =
  dc_ttl :: nat
  dc_capacity :: nat
  dc_entries :: "(component list \<times> cache_entry) list"

definition DEFAULT_TTL :: nat where "DEFAULT_TTL = 5 * 1000000000"
definition DEFAULT_CAPACITY :: nat where "DEFAULT_CAPACITY = 128"

definition cache_new :: "nat \<Rightarrow> nat \<Rightarrow> dir_cache" where
  "cache_new ttl capacity = \<lparr>dc_ttl = ttl, dc_capacity = capacity, dc_entries = []\<rparr>"

definition drop_key :: "component list \<Rightarrow> (component list \<times> cache_entry) list \<Rightarrow> (component list \<times> cache_entry) list" where
  "drop_key k es = List.filter (\<lambda>x. fst x \<noteq> k) es"

fun least_used :: "(component list \<times> cache_entry) list \<Rightarrow> component list option" where
  "least_used [] = None"
| "least_used ((k, e) # r) =
     (case least_used r of
        None \<Rightarrow> Some k
      | Some k' \<Rightarrow>
          (case map_of r k' of
             Some e' \<Rightarrow> if ce_last_used e' < ce_last_used e then Some k' else Some k
           | None \<Rightarrow> Some k))"

lemma least_used_in: "least_used es = Some k \<Longrightarrow> k \<in> fst ` set es"
  by (induction es arbitrary: k) (auto split: option.splits if_splits prod.splits)

function evict_to :: "nat \<Rightarrow> (component list \<times> cache_entry) list \<Rightarrow> (component list \<times> cache_entry) list" where
  "evict_to capacity es =
     (if length es < capacity then es
      else case least_used es of None \<Rightarrow> es | Some k \<Rightarrow> evict_to capacity (drop_key k es))"
  by auto

termination
proof (relation "measure (\<lambda>(c, es). length es)")
  fix capacity es k
  assume "least_used es = Some k"
  then have "\<exists>x \<in> set es. \<not> fst x \<noteq> k" using least_used_in by fastforce
  then show "((capacity, drop_key k es), (capacity, es)) \<in> measure (\<lambda>(c, es). length es)"
    unfolding drop_key_def by (auto intro: length_filter_less)
qed simp

declare evict_to.simps [simp del]

definition touch :: "component list \<Rightarrow> nat \<Rightarrow> (component list \<times> cache_entry) list \<Rightarrow> (component list \<times> cache_entry) list" where
  "touch k t es = map (\<lambda>x. if fst x = k then (fst x, (snd x)\<lparr>ce_last_used := t\<rparr>) else x) es"

definition store_fetched ::
  "nat \<Rightarrow> component list \<Rightarrow> string + dir_entry list \<Rightarrow> (component list \<times> cache_entry) list \<Rightarrow> dir_cache
     \<Rightarrow> (string + dir_entry list) \<times> dir_cache" where
  "store_fetched t k fetched es c =
     (fetched, c\<lparr>dc_entries :=
        (case fetched of
           Inl _ \<Rightarrow> es
         | Inr v \<Rightarrow>
             if 0 < dc_capacity c
             then (k, \<lparr>ce_born_at = t, ce_last_used = t, ce_value = v\<rparr>) # drop_key k (evict_to (dc_capacity c) es)
             else es)\<rparr>)"

definition get_or_fetch ::
  "nat \<Rightarrow> string \<Rightarrow> (string \<Rightarrow> string + dir_entry list) \<Rightarrow> dir_cache \<Rightarrow> (string + dir_entry list) \<times> dir_cache" where
  "get_or_fetch t path fetch c =
     (let k = components path
      in case map_of (dc_entries c) k of
           Some e \<Rightarrow>
             if t - ce_born_at e < dc_ttl c
             then (Inr (ce_value e), c\<lparr>dc_entries := touch k t (dc_entries c)\<rparr>)
             else store_fetched t k (fetch path) (drop_key k (dc_entries c)) c
         | None \<Rightarrow> store_fetched t k (fetch path) (dc_entries c) c)"

section \<open>Facts about the walk\<close>

text \<open>The directories that a chain of exact names reaches from the base.\<close>

inductive reaches :: "walk_env \<Rightarrow> string \<Rightarrow> string list \<Rightarrow> string \<Rightarrow> bool" for env base where
  base: "reaches env base [] base"
| step: "\<lbrakk>reaches env base ss d; we_list env d = Inr es; e \<in> set es; de_is_dir e; last_normal (de_path e) = Some s\<rbrakk>
    \<Longrightarrow> reaches env base (ss @ [s]) (de_path e)"

definition frontier_ok :: "walk_env \<Rightarrow> string \<Rightarrow> string list \<Rightarrow> frontier \<Rightarrow> bool" where
  "frontier_ok env base ss fr \<longleftrightarrow> (\<forall>(d, a) \<in> set fr. reaches env base ss d \<and> map sm_name a = ss)"

text \<open>An event is justified when it comes from a listing that the query reaches.\<close>

definition match_ok :: "walk_env \<Rightarrow> string \<Rightarrow> string list \<Rightarrow> string option \<Rightarrow> path_match \<Rightarrow> bool" where
  "match_ok env base ss leaf m \<longleftrightarrow>
     (\<exists>d es e raw. reaches env base ss d \<and> we_list env d = Inr es \<and> e \<in> set es \<and> pm_path m = de_path e
        \<and> pm_is_dir m = de_is_dir e \<and> last_normal (de_path e) = Some raw \<and> map sm_name (pm_seg_matches m) = ss @ [raw]
        \<and> leaf_match env leaf raw \<noteq> None)"

fun kind_ok :: "walk_env \<Rightarrow> string \<Rightarrow> string list \<Rightarrow> string option \<Rightarrow> search_event_kind \<Rightarrow> bool" where
  "kind_ok env base ss leaf (EvMatch m) = match_ok env base ss leaf m"
| "kind_ok env base ss leaf (EvDrilled d) = (leaf = None \<and> reaches env base ss d)"
| "kind_ok env base ss leaf EvSearchDone = False"
| "kind_ok env base ss leaf (EvSearchError msg) = True"

text \<open>One walk only appends events, tagged with its generation, all of which satisfy a predicate.\<close>

definition extends :: "walk_env \<Rightarrow> (search_event_kind \<Rightarrow> bool) \<Rightarrow> walk \<Rightarrow> walk \<Rightarrow> bool" where
  "extends env P w w' \<longleftrightarrow>
     (\<exists>ks. wk_events w' = wk_events w @ map (\<lambda>k. \<lparr>se_gen = we_gen env, se_kind = k\<rparr>) ks \<and> list_all P ks)"

lemma extends_refl [simp]: "extends env P w w"
  unfolding extends_def by (rule exI[of _ "[]"]) simp

lemma extends_trans [trans]: "extends env P w1 w2 \<Longrightarrow> extends env P w2 w3 \<Longrightarrow> extends env P w1 w3"
proof -
  assume "extends env P w1 w2" "extends env P w2 w3"
  then obtain k1 k2 where "wk_events w2 = wk_events w1 @ map (\<lambda>k. \<lparr>se_gen = we_gen env, se_kind = k\<rparr>) k1" "list_all P k1"
      "wk_events w3 = wk_events w2 @ map (\<lambda>k. \<lparr>se_gen = we_gen env, se_kind = k\<rparr>) k2" "list_all P k2"
    unfolding extends_def by blast
  then show ?thesis unfolding extends_def by (intro exI[of _ "k1 @ k2"]) simp
qed

lemma extends_load [simp]: "extends env P w (snd (load_cancel env w'')) = extends env P w w''"
  by (simp add: extends_def load_cancel_def)

lemma extends_send: "P k \<Longrightarrow> extends env P w (snd (send_event env k w))"
  unfolding extends_def send_event_def Let_def
  by (cases "we_open env (wk_sends w)") (auto intro: exI[of _ "[k]"] exI[of _ "[]"])

lemma extends_emit: "P k \<Longrightarrow> extends env P w (emit_event env k w)"
  by (simp add: emit_event_def extends_send)

definition either :: "'a + 'a \<Rightarrow> 'a" where
  "either r = (case r of Inl w \<Rightarrow> w | Inr w \<Rightarrow> w)"

lemma either_simps [simp]: "either (Inl w) = w" "either (Inr w) = w"
  by (simp_all add: either_def)

lemma drill_entries_ok:
  assumes "reaches env base ss d" "map sm_name a = ss" "we_list env d = Inr es"
  shows "frontier_ok env base (ss @ [seg]) (drill_entries seg a es)"
  using assms by (auto simp: frontier_ok_def drill_entries_def map_filter_def split: if_splits intro: reaches.step)

lemma drill_level_ok:
  assumes "frontier_ok env base ss fr" "frontier_ok env base (ss @ [seg]) nxt" "\<And>msg. P (EvSearchError msg)"
  shows "case drill_level env seg fr visited nxt w of
      Inl w' \<Rightarrow> extends env P w w'
    | Inr (nxt', _, w') \<Rightarrow> extends env P w w' \<and> frontier_ok env base (ss @ [seg]) nxt'"
  using assms(1,2)
proof (induction fr arbitrary: visited nxt w)
  case (Cons f fr)
  obtain dir a where f: "f = (dir, a)" by fastforce
  obtain stop w1 where l: "load_cancel env w = (stop, w1)" by fastforce
  have e1: "extends env P w w1" using l extends_load[of env P w w] by simp
  have fr: "frontier_ok env base ss fr" "reaches env base ss dir" "map sm_name a = ss"
    using Cons.prems(1) by (auto simp: frontier_ok_def f)
  consider (stop) stop | (seen) "\<not> stop" "components dir \<in> set visited"
    | (err) msg where "\<not> stop" "components dir \<notin> set visited" "we_list env dir = Inl msg"
    | (listed) es where "\<not> stop" "components dir \<notin> set visited" "we_list env dir = Inr es"
    by (cases "we_list env dir") auto
  then show ?case
  proof cases
    case stop
    then show ?thesis using e1 by (simp add: f l)
  next
    case seen
    then show ?thesis
      using Cons.IH[where visited = visited and w = w1, OF fr(1) Cons.prems(2)] e1
      by (auto simp: f l split: sum.splits intro: extends_trans)
  next
    case err
    have "extends env P w (emit_event env (EvSearchError (dir @ '': '' @ msg)) w1)"
      using e1 extends_emit[of P, OF assms(3)] extends_trans by blast
    then show ?thesis
      using Cons.IH[where visited = "components dir # visited" and w = "emit_event env (EvSearchError (dir @ '': '' @ msg)) w1",
          OF fr(1) Cons.prems(2)] err
      by (auto simp: f l split: sum.splits intro: extends_trans)
  next
    case listed
    have "frontier_ok env base (ss @ [seg]) (nxt @ drill_entries seg a es)"
      using Cons.prems(2) drill_entries_ok[OF fr(2,3) listed(3), of seg] by (auto simp: frontier_ok_def)
    from Cons.IH[where visited = "components dir # visited" and w = w1, OF fr(1) this] show ?thesis
      using listed e1 by (auto simp: f l split: sum.splits intro: extends_trans)
  qed
qed simp

lemma drill_segments_ok:
  assumes "frontier_ok env base ss fr" "\<And>msg. P (EvSearchError msg)"
  shows "case drill_segments env segs fr visited w of
      Inl w' \<Rightarrow> extends env P w w'
    | Inr (fr', w') \<Rightarrow> extends env P w w' \<and> frontier_ok env base (ss @ segs) fr'"
  using assms(1)
proof (induction segs arbitrary: ss fr visited w)
  case (Cons seg segs)
  obtain stop w1 where l: "load_cancel env w = (stop, w1)" by fastforce
  have e1: "extends env P w w1" using l extends_load[of env P w w] by simp
  have "frontier_ok env base (ss @ [seg]) []" by (simp add: frontier_ok_def)
  note d = drill_level_ok[where P = P, OF Cons.prems this assms(2), where visited = visited and w = w1]
  show ?case
  proof (cases "drill_level env seg fr visited [] w1")
    case (Inl w2)
    then show ?thesis using d e1 by (auto simp: l intro: extends_trans)
  next
    case (Inr r)
    obtain nxt visited' w2 where r: "r = (nxt, visited', w2)" by (cases r)
    have e2: "extends env P w w2" "frontier_ok env base (ss @ [seg]) nxt"
      using d e1 by (auto simp: Inr r intro: extends_trans)
    show ?thesis
      using Cons.IH[where visited = visited' and w = w2, OF e2(2)] e1 e2(1)
      by (auto simp: l Inr r frontier_ok_def split: sum.splits intro: extends_trans)
  qed
qed simp

lemma leaf_entries_ok:
  assumes "reaches env base ss d" "we_list env d = Inr es0" "map sm_name a = ss" "set es \<subseteq> set es0"
    "\<And>m. match_ok env base ss leaf m \<Longrightarrow> P (EvMatch m)"
  shows "extends env P w (either (leaf_entries env leaf a es w))"
  using assms(4)
proof (induction es arbitrary: w)
  case (Cons e es)
  show ?case
  proof (cases "\<exists>raw sc idx. last_normal (de_path e) = Some raw \<and> leaf_match env leaf raw = Some (sc, idx)")
    case True
    then obtain raw sc idx where r: "last_normal (de_path e) = Some raw" "leaf_match env leaf raw = Some (sc, idx)"
      by blast
    define m where "m = \<lparr>pm_path = de_path e, pm_is_dir = de_is_dir e,
        pm_seg_matches = a @ [\<lparr>sm_name = raw, sm_score = sc, sm_indices = idx\<rparr>]\<rparr>"
    have "match_ok env base ss leaf m"
      unfolding match_ok_def using assms(1-3) Cons.prems r by (auto simp: m_def)
    then have e: "extends env P w (snd (send_event env (EvMatch m) w))" by (rule extends_send[where P = P, OF assms(5)])
    obtain ok w1 where s: "send_event env (EvMatch m) w = (ok, w1)" by fastforce
    show ?thesis
      using e s Cons.IH[of w1] Cons.prems by (auto simp: r m_def[symmetric] intro: extends_trans)
  next
    case False
    then show ?thesis using Cons by (auto split: option.splits)
  qed
qed simp

lemma leaf_dirs_ok:
  assumes "frontier_ok env base ss fr" "\<And>k. kind_ok env base ss leaf k \<Longrightarrow> P k"
  shows "extends env P w (either (leaf_dirs env leaf fr w))"
  using assms(1)
proof (induction fr arbitrary: w)
  case (Cons f fr)
  obtain d a where f: "f = (d, a)" by fastforce
  obtain stop w1 where l: "load_cancel env w = (stop, w1)" by fastforce
  have e1: "extends env P w w1" using l extends_load[of env P w w] by simp
  have fr: "frontier_ok env base ss fr" "reaches env base ss d" "map sm_name a = ss"
    using Cons.prems by (auto simp: frontier_ok_def f)
  show ?case
  proof (cases "we_list env d")
    case (Inl msg)
    have "extends env P w (emit_event env (EvSearchError (d @ '': '' @ msg)) w1)"
      using e1 extends_emit[of P, OF assms(2)] extends_trans by (metis kind_ok.simps(4))
    then show ?thesis using Cons.IH[OF fr(1)] e1 by (auto simp: f l Inl intro: extends_trans)
  next
    case (Inr es)
    define w2 where "w2 = (if leaf = None then emit_event env (EvDrilled d) w1 else w1)"
    have e2: "extends env P w w2"
      using e1 extends_emit[of P, OF assms(2), of "EvDrilled d" env w1] fr(2) extends_trans[of env P w w1]
      by (auto simp: w2_def)
    have e3: "extends env P w2 (either (leaf_entries env leaf a es w2))"
      by (rule leaf_entries_ok[OF fr(2) Inr fr(3) order_refl]) (simp add: assms(2))
    show ?thesis
      using e1 extends_trans[OF e2 e3] Cons.IH[OF fr(1)]
      by (auto simp: f l Inr w2_def[symmetric] split: sum.splits intro: extends_trans)
  qed
qed simp

text \<open>C21: every result of a search is real.  Whatever the cancel flag and the receiver do, each match that a
search reports is an entry of a listing that the directories named in the query lead to, it matches the last part
of the query, its breadcrumbs are those directories, and the events carry the generation of the search; at most one
\<^verbatim>\<open>Done\<close> is sent, at the end.\<close>

lemma walk_events_justified:
  assumes "drill_and_leaf q = (drill, leaf)"
  shows "\<exists>ks ending. wk_events (walk_levels env q w) = wk_events w @ map (\<lambda>k. \<lparr>se_gen = we_gen env, se_kind = k\<rparr>) (ks @ ending)
      \<and> list_all (kind_ok env (pq_base q) drill leaf) ks
      \<and> ending \<in> {[], [EvSearchDone]}"
proof -
  let ?P = "kind_ok env (pq_base q) drill leaf"
  have fin: ?thesis if ext: "extends env ?P w w'" and res: "walk_levels env q w = w' \<or> walk_levels env q w = emit_event env EvSearchDone w'" for w'
  proof -
    obtain ks where ks: "wk_events w' = wk_events w @ map (\<lambda>k. \<lparr>se_gen = we_gen env, se_kind = k\<rparr>) ks" "list_all ?P ks"
      using ext by (auto simp: extends_def)
    have "wk_events (emit_event env EvSearchDone w') = wk_events w' \<or>
        wk_events (emit_event env EvSearchDone w') = wk_events w' @ [\<lparr>se_gen = we_gen env, se_kind = EvSearchDone\<rparr>]"
      by (simp add: emit_event_def send_event_def Let_def)
    then consider "wk_events (walk_levels env q w) = wk_events w'"
      | "wk_events (walk_levels env q w) = wk_events w' @ [\<lparr>se_gen = we_gen env, se_kind = EvSearchDone\<rparr>]"
      using res by auto
    then show ?thesis
    proof cases
      case 1
      then show ?thesis using ks by (intro exI[of _ ks] exI[of _ "[]"]) simp
    next
      case 2
      then show ?thesis using ks by (intro exI[of _ ks] exI[of _ "[EvSearchDone]"]) simp
    qed
  qed
  have "frontier_ok env (pq_base q) [] [(pq_base q, [])]" by (simp add: frontier_ok_def reaches.base)
  note d = drill_segments_ok[where P = ?P, OF this, where segs = drill and visited = "[]" and w = w, simplified]
  show ?thesis
  proof (cases "drill_segments env drill [(pq_base q, [])] [] w")
    case (Inl w1)
    then show ?thesis using fin[of w1] d by (simp add: walk_levels_def assms)
  next
    case (Inr r)
    obtain fr w1 where r: "r = (fr, w1)" by fastforce
    obtain stop w2 where l: "load_cancel env w1 = (stop, w2)" by fastforce
    have e: "extends env ?P w w1" "frontier_ok env (pq_base q) drill fr" using d by (auto simp: Inr r)
    then have e2: "extends env ?P w w2" using l extends_load[of env ?P w w1] by simp
    have e3: "extends env ?P w (either (leaf_dirs env leaf fr w2))"
      using e2 leaf_dirs_ok[where P = ?P, OF e(2)] extends_trans by blast
    show ?thesis
    proof (cases "stop \<or> fr = []")
      case True
      then show ?thesis using fin[of w2] e2 by (auto simp: walk_levels_def assms Inr r l)
    next
      case False
      then show ?thesis
        using fin[of "either (leaf_dirs env leaf fr w2)"] e3
        by (auto simp: walk_levels_def assms Inr r l split: sum.splits)
    qed
  qed
qed

lemma send_open: "\<forall>n. we_open env n \<Longrightarrow> fst (send_event env k w)"
  by (simp add: send_event_def)

lemma load_live: "\<forall>n. \<not> we_cancel env n \<Longrightarrow> \<not> fst (load_cancel env w)"
  by (simp add: load_cancel_def)

lemma leaf_entries_live: "\<forall>n. we_open env n \<Longrightarrow> \<exists>w'. leaf_entries env leaf a es w = Inr w'"
  by (induction es arbitrary: w) (auto simp: send_event_def Let_def split: option.splits)

lemma leaf_dirs_live:
  assumes "\<forall>n. we_open env n" "\<forall>n. \<not> we_cancel env n"
  shows "\<exists>w'. leaf_dirs env leaf fr w = Inr w'"
proof (induction fr arbitrary: w)
  case (Cons f fr)
  obtain d a where f: "f = (d, a)" by fastforce
  obtain w1 where l: "load_cancel env w = (False, w1)" using load_live[OF assms(2), of w] by (cases "load_cancel env w") auto
  show ?case
  proof (cases "we_list env d")
    case (Inr es)
    obtain w2 where "leaf_entries env leaf a es (if leaf = None then emit_event env (EvDrilled d) w1 else w1) = Inr w2"
      using leaf_entries_live[OF assms(1)] by blast
    then show ?thesis using Cons.IH by (simp add: f l Inr)
  qed (use Cons.IH in \<open>simp add: f l\<close>)
qed simp

lemma drill_level_live:
  assumes "\<forall>n. \<not> we_cancel env n"
  shows "\<exists>r. drill_level env seg fr visited nxt w = Inr r"
proof (induction fr arbitrary: visited nxt w)
  case (Cons f fr)
  obtain d a where f: "f = (d, a)" by fastforce
  obtain w1 where l: "load_cancel env w = (False, w1)" using load_live[OF assms, of w] by (cases "load_cancel env w") auto
  show ?case using Cons.IH by (cases "we_list env d") (simp_all add: f l)
qed simp

lemma drill_segments_live: "\<forall>n. \<not> we_cancel env n \<Longrightarrow> \<exists>r. drill_segments env segs fr visited w = Inr r"
proof (induction segs arbitrary: fr visited w)
  case (Cons seg segs)
  obtain nxt v w2 where "drill_level env seg fr visited [] (snd (load_cancel env w)) = Inr (nxt, v, w2)"
    using drill_level_live[OF Cons.prems] by (metis prod_cases3)
  then show ?case using Cons load_live[OF Cons.prems, of w] by (auto simp: split_beta Let_def)
qed simp

text \<open>C22: a search ends.  The walk is a total function of the query, and a search that is not cancelled and
whose receiver stays ends by saying so, whatever the listings of the directories are, errors included.\<close>

lemma walk_finishes:
  assumes "\<forall>n. we_open env n" "\<forall>n. \<not> we_cancel env n"
  shows "\<exists>es. wk_events (walk_levels env q w) = es @ [\<lparr>se_gen = we_gen env, se_kind = EvSearchDone\<rparr>]"
proof -
  obtain drill leaf where q: "drill_and_leaf q = (drill, leaf)" by fastforce
  obtain fr w1 where d: "drill_segments env drill [(pq_base q, [])] [] w = Inr (fr, w1)"
    using drill_segments_live[OF assms(2)] by (metis surj_pair)
  obtain w3 where l: "leaf_dirs env leaf fr (snd (load_cancel env w1)) = Inr w3"
    using leaf_dirs_live[OF assms] by blast
  have "wk_events (emit_event env EvSearchDone w') = wk_events w' @ [\<lparr>se_gen = we_gen env, se_kind = EvSearchDone\<rparr>]" for w'
    using assms(1) by (simp add: emit_event_def send_event_def)
  then show ?thesis using d l load_live[OF assms(2), of w1] by (auto simp: walk_levels_def q split_beta)
qed

section \<open>Facts about the cache\<close>

definition cache_ok :: "dir_cache \<Rightarrow> bool" where
  "cache_ok c \<longleftrightarrow> distinct (map fst (dc_entries c)) \<and> length (dc_entries c) \<le> dc_capacity c"

lemma drop_key_facts: "distinct (map fst es) \<Longrightarrow> distinct (map fst (drop_key k es))" "k \<notin> fst ` set (drop_key k es)"
  "length (drop_key k es) \<le> length es" "set (drop_key k es) \<subseteq> set es"
  by (auto simp: drop_key_def distinct_map_filter)

lemma least_used_some: "es \<noteq> [] \<Longrightarrow> least_used es \<noteq> None"
  by (cases es) (auto split: option.splits)

lemma evict_facts:
  "set (evict_to n es) \<subseteq> set es" "distinct (map fst es) \<Longrightarrow> distinct (map fst (evict_to n es))"
  "0 < n \<Longrightarrow> length (evict_to n es) < n"
proof (induction n es rule: evict_to.induct)
  case (1 n es)
  case 1
  then show ?case using "1.IH"(1) drop_key_facts(4) by (subst evict_to.simps) (simp split: option.split, meson order_trans)
next
  case (1 n es)
  case 2
  then show ?case using "1.IH"(2) drop_key_facts(1) by (subst evict_to.simps) (simp split: option.split)
next
  case (1 n es)
  case 3
  then show ?case using "1.IH"(3) least_used_some[of es] by (cases "es = []") (subst evict_to.simps, auto split: option.split)+
qed

lemma touch_keys: "map fst (touch k t es) = map fst es" "length (touch k t es) = length es"
  by (auto simp: touch_def)

lemma store_ok:
  assumes "distinct (map fst es)" "length es \<le> dc_capacity c"
  shows "cache_ok (snd (store_fetched t k r es c))"
  using assms evict_facts(2)[of es "dc_capacity c"] evict_facts(3)[of "dc_capacity c" es]
    drop_key_facts[where es = "evict_to (dc_capacity c) es" and k = k]
  by (auto simp: cache_ok_def store_fetched_def split: sum.splits)

text \<open>The cache never holds more than its capacity, and one entry for each directory.\<close>

lemma cache_step_ok:
  assumes "cache_ok c"
  shows "cache_ok (snd (get_or_fetch t path fetch c))"
proof -
  let ?k = "components path"
  have c: "distinct (map fst (dc_entries c))" "length (dc_entries c) \<le> dc_capacity c"
    using assms by (simp_all add: cache_ok_def)
  have "cache_ok (c\<lparr>dc_entries := touch ?k t (dc_entries c)\<rparr>)" using c by (simp add: cache_ok_def touch_keys)
  moreover have "cache_ok (snd (store_fetched t ?k (fetch path) (drop_key ?k (dc_entries c)) c))"
    by (rule store_ok[OF drop_key_facts(1)[OF c(1)] order_trans[OF drop_key_facts(3) c(2)]])
  ultimately show ?thesis
    using store_ok[OF c] by (simp add: get_or_fetch_def Let_def split: option.split)
qed

text \<open>A request is a time, a path and what the source would answer then.\<close>

type_synonym request = "nat \<times> string \<times> (string \<Rightarrow> string + dir_entry list)"

fun serve :: "request list \<Rightarrow> dir_cache \<Rightarrow> (string + dir_entry list) list" where
  "serve [] c = []"
| "serve ((t, path, fetch) # rs) c = (let (r, c) = get_or_fetch t path fetch c in r # serve rs c)"

definition recorded :: "request list \<Rightarrow> dir_cache \<Rightarrow> bool" where
  "recorded rs c \<longleftrightarrow> (\<forall>(k, e) \<in> set (dc_entries c). \<exists>(t, path, fetch) \<in> set rs.
     components path = k \<and> ce_born_at e = t \<and> fetch path = Inr (ce_value e))"

lemma get_or_fetch_cases:
  assumes "get_or_fetch t path fetch c = (Inr v, c')"
  shows "fetch path = Inr v \<or> (\<exists>e. (components path, e) \<in> set (dc_entries c) \<and> v = ce_value e \<and> t - ce_born_at e < dc_ttl c)"
  using assms by (auto simp: get_or_fetch_def store_fetched_def Let_def split: option.splits if_splits dest: map_of_SomeD)

lemma get_or_fetch_recorded:
  assumes "recorded rs c"
  shows "recorded (rs @ [(t, path, fetch)]) (snd (get_or_fetch t path fetch c))"
    "dc_ttl (snd (get_or_fetch t path fetch c)) = dc_ttl c"
proof -
  have s: "recorded (rs @ [(t, path, fetch)]) (c\<lparr>dc_entries := es\<rparr>)" if "set es \<subseteq> set (dc_entries c)" for es
    using assms that unfolding recorded_def by fastforce
  have n: "recorded (rs @ [(t, path, fetch)]) (snd (store_fetched t (components path) (fetch path) es c))"
    if sub: "set es \<subseteq> set (dc_entries c)" for es
  proof -
    have "set (drop_key (components path) (evict_to (dc_capacity c) es)) \<subseteq> set (dc_entries c)"
      using sub drop_key_facts(4) evict_facts(1) by blast
    from s[OF this] s[OF sub] show ?thesis
      by (auto simp: store_fetched_def recorded_def split: sum.splits)
  qed
  have u: "recorded (rs @ [(t, path, fetch)]) (c\<lparr>dc_entries := touch k t (dc_entries c)\<rparr>)" for k
    using s[of "dc_entries c"] unfolding recorded_def touch_def by fastforce
  show "recorded (rs @ [(t, path, fetch)]) (snd (get_or_fetch t path fetch c))"
    using u n[of "dc_entries c"] n[OF drop_key_facts(4)]
    by (auto simp: get_or_fetch_def Let_def split: option.splits)
  show "dc_ttl (snd (get_or_fetch t path fetch c)) = dc_ttl c"
    by (auto simp: get_or_fetch_def store_fetched_def Let_def split: option.splits)
qed

text \<open>C23: a cached listing is a recent one.  Whatever sequence of requests is served and whatever the source
answers, every listing that the cache hands out was fetched for that very directory, by this request or by an
earlier one less than the time to live ago.\<close>

lemma serve_recent:
  assumes "recorded old c" "i < length rs" "rs ! i = (t, path, fetch)" "serve rs c ! i = Inr v"
  shows "fetch path = Inr v \<or> (\<exists>(t', path', fetch') \<in> set (old @ take i rs).
    components path' = components path \<and> fetch' path' = Inr v \<and> t - t' < dc_ttl c)"
  using assms
proof (induction rs arbitrary: old c i)
  case (Cons r rs)
  obtain t0 p0 f0 where r: "r = (t0, p0, f0)" by (cases r)
  obtain x c1 where g: "get_or_fetch t0 p0 f0 c = (x, c1)" by fastforce
  show ?case
  proof (cases i)
    case 0
    then have "get_or_fetch t path fetch c = (Inr v, c1)" using Cons.prems g by (simp add: r)
    from get_or_fetch_cases[OF this] show ?thesis
    proof
      assume "\<exists>e. (components path, e) \<in> set (dc_entries c) \<and> v = ce_value e \<and> t - ce_born_at e < dc_ttl c"
      then obtain e where e: "(components path, e) \<in> set (dc_entries c)" "v = ce_value e" "t - ce_born_at e < dc_ttl c"
        by blast
      then obtain t' p' f' where "(t', p', f') \<in> set old" "components p' = components path" "ce_born_at e = t'" "f' p' = Inr (ce_value e)"
        using Cons.prems(1) unfolding recorded_def by fastforce
      then have "\<exists>(t', path', fetch') \<in> set (old @ take i (r # rs)).
          components path' = components path \<and> fetch' path' = Inr v \<and> t - t' < dc_ttl c"
        using e(2,3) by (intro bexI[of _ "(t', p', f')"]) auto
      then show ?thesis ..
    qed simp
  next
    case (Suc j)
    have "recorded (old @ [r]) c1" "dc_ttl c1 = dc_ttl c"
      using get_or_fetch_recorded[OF Cons.prems(1), of t0 p0 f0] g by (simp_all add: r)
    then show ?thesis
      using Cons.IH[of "old @ [r]" c1 j] Cons.prems g Suc by (simp add: r)
  qed
qed simp

end
