(* ===== verification/Panel_Rank.thy ===== *)
theory Panel_Rank
  imports Rust_Float "HOL-Library.Option_ord"
begin

text \<open>The ranking shared by the panels and the browsers (\<^verbatim>\<open>tui/panel.rs\<close>).  The fuzzy matcher is
the crate \<^verbatim>\<open>nucleo-matcher\<close>: its score of a field and the positions it matched are arguments.\<close>

record matcher =
  mt_score :: "string \<Rightarrow> string \<Rightarrow> nat option"
  mt_indices :: "string \<Rightarrow> string \<Rightarrow> nat list option"

section \<open>Ranking\<close>

definition max_option :: "nat list \<Rightarrow> nat option" where
  "max_option xs = (if xs = [] then None else Some (foldr max xs 0))"

definition score_fields :: "matcher \<Rightarrow> string list \<Rightarrow> string \<Rightarrow> nat option" where
  "score_fields m fs query = max_option (List.map_filter (\<lambda>f. mt_score m query f) fs)"

definition best_field_score :: "matcher \<Rightarrow> string list \<Rightarrow> string \<Rightarrow> nat option" where
  "best_field_score m fs query = score_fields m fs query"

definition first_field :: "string list \<Rightarrow> string option" where
  "first_field row = (case row of [] \<Rightarrow> None | f # _ \<Rightarrow> Some f)"

definition partial_desc :: "f64 \<Rightarrow> f64 \<Rightarrow> ordering" where
  "partial_desc a b = (case f64_cmp b a of Some r \<Rightarrow> r | None \<Rightarrow> Equal)"

definition unfiltered_cmp :: "string list list \<Rightarrow> f64 list \<Rightarrow> nat \<Rightarrow> nat \<Rightarrow> ordering" where
  "unfiltered_cmp rows scores a b =
     then_with (partial_desc (scores ! a) (scores ! b))
       (compare_of (first_field (rows ! a)) (first_field (rows ! b)))"

definition matched_cmp :: "string list list \<Rightarrow> f64 list \<Rightarrow> nat \<times> nat \<Rightarrow> nat \<times> nat \<Rightarrow> ordering" where
  "matched_cmp rows scores a b =
     then_with (compare_of (snd b) (snd a)) (unfiltered_cmp rows scores (fst a) (fst b))"

definition scored_rows :: "matcher \<Rightarrow> string list list \<Rightarrow> string \<Rightarrow> (nat \<times> nat) list" where
  "scored_rows m rows query =
     List.map_filter (\<lambda>i. map_option (Pair i) (score_fields m (rows ! i) query)) [0..<length rows]"

definition rank_by_fields :: "matcher \<Rightarrow> string list list \<Rightarrow> f64 list \<Rightarrow> string \<Rightarrow> nat list" where
  "rank_by_fields m rows scores query =
     (if query = [] then sort_by (unfiltered_cmp rows scores) [0..<length rows]
      else map fst (sort_by (matched_cmp rows scores) (scored_rows m rows query)))"

section \<open>Highlighting\<close>

text \<open>A text as runs, each with whether it is highlighted.  Positions count characters.\<close>

type_synonym spans = "(string \<times> bool) list"

definition match_indices :: "matcher \<Rightarrow> string \<Rightarrow> string \<Rightarrow> nat list option" where
  "match_indices m txt query = map_option (\<lambda>is. remdups_adj (sort is)) (mt_indices m query txt)"

fun spans_from :: "string \<Rightarrow> nat \<Rightarrow> nat list \<Rightarrow> spans" where
  "spans_from txt prev [] = (if prev < length txt then [(drop prev txt, False)] else [])"
| "spans_from txt prev (i # is) =
     (let lo = min i (length txt); hi = min (lo + 1) (length txt)
      in (if prev < lo then [(take (lo - prev) (drop prev txt), False)] else [])
         @ (take (hi - lo) (drop lo txt), True) # spans_from txt hi is)"

definition highlighted_spans :: "matcher \<Rightarrow> string \<Rightarrow> string \<Rightarrow> spans" where
  "highlighted_spans m txt query =
     (if query = [] then [(txt, False)]
      else case match_indices m txt query of
        None \<Rightarrow> [(txt, False)]
      | Some is \<Rightarrow> spans_from txt 0 is)"

section \<open>Facts\<close>

lemma scored_rows_fst: "map fst (scored_rows m rows query)
    = filter (\<lambda>i. score_fields m (rows ! i) query \<noteq> None) [0..<length rows]"
proof -
  have "map fst (List.map_filter (\<lambda>i. map_option (Pair i) (f i)) xs) = filter (\<lambda>i. f i \<noteq> None) xs" for f :: "nat \<Rightarrow> nat option" and xs
    by (induction xs) (auto simp: List.map_filter_simps split: option.splits)
  then show ?thesis by (simp add: scored_rows_def)
qed

text \<open>A ranking lists each row that matches exactly once, and every row when the query is empty.\<close>

lemma rank_mset:
  "mset (rank_by_fields m rows scores query)
     = mset (filter (\<lambda>i. query = [] \<or> score_fields m (rows ! i) query \<noteq> None) [0..<length rows])"
proof (cases "query = []")
  case False
  have "mset (map fst (sort_by c xs)) = mset (map fst xs)" for c :: "nat \<times> nat \<Rightarrow> nat \<times> nat \<Rightarrow> ordering" and xs
    by simp
  then show ?thesis using False by (simp only: rank_by_fields_def if_False scored_rows_fst simp_thms)
qed (simp add: rank_by_fields_def)

lemma rank_bounds: "i \<in> set (rank_by_fields m rows scores query) \<Longrightarrow> i < length rows"
  using arg_cong[OF rank_mset, of set_mset m rows scores query] by auto

lemma rank_distinct: "distinct (rank_by_fields m rows scores query)"
  using arg_cong[OF rank_mset, of count] by (metis distinct_filter distinct_upt mset_eq_imp_distinct_iff rank_mset)

text \<open>Highlighting only cuts the text into runs.\<close>

lemma spans_from_text:
  assumes "sorted_wrt (<) is" "\<And>i. i \<in> set is \<Longrightarrow> prev \<le> i" "prev \<le> length txt"
  shows "concat (map fst (spans_from txt prev is)) = drop prev txt"
  using assms
proof (induction "is" arbitrary: prev)
  case (Cons i "is")
  define lo where "lo = min i (length txt)"
  define hi where "hi = min (Suc lo) (length txt)"
  have le: "prev \<le> lo" "lo \<le> hi" "hi \<le> length txt" using Cons.prems by (auto simp: lo_def hi_def)
  have "concat (map fst (spans_from txt hi is)) = drop hi txt"
    by (rule Cons.IH) (use Cons.prems le in \<open>auto simp: hi_def lo_def min_def\<close>)
  moreover have "take (lo - prev) (drop prev txt) @ take (hi - lo) (drop lo txt) @ drop hi txt = drop prev txt"
    using le by (metis append_take_drop_id drop_drop le_add_diff_inverse2)
  moreover have "prev = lo \<Longrightarrow> take (lo - prev) (drop prev txt) = []" by simp
  ultimately show ?case using le by (auto simp: Let_def lo_def[symmetric] hi_def[symmetric])
qed auto

lemma highlight_keeps_text: "concat (map fst (highlighted_spans m txt query)) = txt"
proof -
  have "sorted xs \<Longrightarrow> sorted_wrt (<) (remdups_adj xs)" for xs :: "nat list"
    by (induction xs rule: remdups_adj.induct) (auto simp: le_less)
  then have "sorted_wrt (<) (remdups_adj (sort is))" for "is" :: "nat list" by simp
  then show ?thesis
    using spans_from_text[of _ 0 "txt"] by (auto simp: highlighted_spans_def match_indices_def split: option.splits)
qed

end
