(* ===== verification/Tui_Keys.thy ===== *)
theory Tui_Keys
  imports Prelude
begin

text \<open>Keys and geometry of the terminal interface: the key events of the terminal library, the tabs of
the shell (\<^verbatim>\<open>tui/tab.rs\<close>) and the pure geometry helpers (\<^verbatim>\<open>tui/fit.rs\<close>).\<close>

section \<open>Key events\<close>

text \<open>The code and the modifiers of a key press as \<^verbatim>\<open>crossterm\<close> reports them; the keys that no handler
names are one constructor, and so are the modifiers besides control, alt and shift.\<close>

datatype key_code =
    KeyChar char | KeyEnter | KeyEsc | KeyTab | KeyBackTab | KeyBackspace | KeyDelete
  | KeyUp | KeyDown | KeyLeft | KeyRight | KeyHome | KeyEnd | KeyPageUp | KeyPageDown
  | KeyF nat | KeyOther

datatype key_kind = Press | Repeat | Release

record key_event =
  ke_code :: key_code
  ke_ctrl :: bool
  ke_alt :: bool
  ke_shift :: bool
  ke_super :: bool
  ke_kind :: key_kind

definition ke_other_mods :: "key_event \<Rightarrow> bool" where
  "ke_other_mods key \<longleftrightarrow> ke_alt key \<or> ke_shift key \<or> ke_super key"

text \<open>No modifier, and exactly control with a character.\<close>

definition no_mods :: "key_event \<Rightarrow> bool" where
  "no_mods key \<longleftrightarrow> \<not> ke_ctrl key \<and> \<not> ke_other_mods key"

definition is_ctrl :: "char \<Rightarrow> key_event \<Rightarrow> bool" where
  "is_ctrl ch key \<longleftrightarrow> ke_ctrl key \<and> \<not> ke_other_mods key \<and> ke_code key = KeyChar ch"

definition press :: "key_code \<Rightarrow> key_event" where
  "press c = \<lparr>ke_code = c, ke_ctrl = False, ke_alt = False, ke_shift = False, ke_super = False,
     ke_kind = Press\<rparr>"

definition press_ctrl :: "char \<Rightarrow> key_event" where
  "press_ctrl c = \<lparr>ke_code = KeyChar c, ke_ctrl = True, ke_alt = False, ke_shift = False, ke_super = False,
     ke_kind = Press\<rparr>"

section \<open>Tabs\<close>

datatype tab = TabHosts | TabCredentials | TabSettings

definition TAB_ORDER :: "tab list" where
  "TAB_ORDER = [TabHosts, TabCredentials, TabSettings]"

definition tab_idx :: "tab \<Rightarrow> nat" where
  "tab_idx t = (case position (\<lambda>u. u = t) TAB_ORDER of Some i \<Rightarrow> i | None \<Rightarrow> 0)"

definition tab_next :: "tab \<Rightarrow> tab" where
  "tab_next t = TAB_ORDER ! ((tab_idx t + 1) mod length TAB_ORDER)"

definition tab_prev :: "tab \<Rightarrow> tab" where
  "tab_prev t = (let len = length TAB_ORDER in TAB_ORDER ! ((tab_idx t + len - 1) mod len))"

datatype tab_key = TabCycle int | TabNone

definition tab_key_decision :: "key_event \<Rightarrow> tab_key" where
  "tab_key_decision key =
     (if ke_kind key \<noteq> Press then TabNone
      else case ke_code key of
        KeyTab \<Rightarrow> if \<not> ke_ctrl key \<and> \<not> ke_other_mods key then TabCycle 1 else TabNone
      | KeyBackTab \<Rightarrow> TabCycle (- 1)
      | _ \<Rightarrow> TabNone)"

section \<open>Geometry\<close>

text \<open>The range \<^verbatim>\<open>start..end\<close> of rows to show.\<close>

definition focus_window :: "nat \<Rightarrow> nat \<Rightarrow> nat \<Rightarrow> nat \<times> nat" where
  "focus_window n selected visible =
     (if n = 0 \<or> visible = 0 then (0, 0)
      else if n \<le> visible then (0, n)
      else
        (let sel = min selected (n - 1); half = visible div 2; start = min (sel - half) (n - visible)
         in (start, start + visible)))"

text \<open>The two subtractions from \<^verbatim>\<open>avail\<close> do not saturate: \<^verbatim>\<open>None\<close> is an underflow.\<close>

definition column_widths :: "nat \<Rightarrow> nat \<Rightarrow> nat \<Rightarrow> nat \<Rightarrow> nat \<Rightarrow> nat \<Rightarrow> (nat \<times> nat) option" where
  "column_widths avail a_need b_need a_share a_min b_min =
     (if avail = 0 then Some (0, 0)
      else
        (let take_rest = (\<lambda>a_w. if avail < a_w then None else Some (a_w, avail - a_w))
         in if a_need + b_need \<le> avail then take_rest a_need
            else
              (let cap = avail * a_share div 100; a = min a_need cap
               in if avail < a then None
                  else if avail - a < b_min
                  then (let target = avail - b_min in take_rest (max a_min (min target a_need)))
                  else take_rest a)))"

section \<open>Facts\<close>

lemma tab_cycle [simp]: "tab_prev (tab_next t) = t" "tab_next (tab_prev t) = t"
  by (cases t; simp add: tab_prev_def tab_next_def tab_idx_def TAB_ORDER_def Let_def)+

text \<open>The window stays inside the list, shows as many rows as fit, and contains the selected one.\<close>

lemma focus_window_shows:
  assumes "focus_window n sel vis = (s, e)" "0 < vis" "sel < n"
  shows "s \<le> sel \<and> sel < e \<and> e \<le> n \<and> e - s = min vis n"
proof (cases "n \<le> vis")
  case False
  define h where "h = vis div 2"
  have "h < vis" using assms(2) by (simp add: h_def)
  moreover have "s = min (sel - h) (n - vis)" "e = s + vis"
    using assms False by (auto simp: focus_window_def Let_def h_def min_def)
  ultimately show ?thesis using False assms(3) by linarith
qed (use assms in \<open>auto simp: focus_window_def\<close>)

text \<open>The two columns share the width exactly, whenever a share is at most the whole and the floor of the
first column fits; below that floor the subtraction underflows.\<close>

lemma column_widths_share:
  assumes "a_share \<le> 100" "a_min \<le> avail"
  shows "\<exists>a b. column_widths avail a_need b_need a_share a_min b_min = Some (a, b) \<and> a + b = avail"
proof -
  have c: "avail * a_share div 100 \<le> avail" using assms(1)
    by (metis div_le_mono div_mult_self_is_m mult.commute mult_le_mono2 zero_less_numeral)
  then have "min a_need (avail * a_share div 100) \<le> avail" by linarith
  moreover have "max a_min (min (avail - b_min) a_need) \<le> avail" using assms(2) by linarith
  ultimately show ?thesis by (auto simp: column_widths_def Let_def not_less)
qed

lemma column_widths_underflow:
  assumes "0 < avail" "avail < a_need + b_need" "avail < a_min" "a_share \<le> 100" "avail < b_min + min a_need (avail * a_share div 100)"
  shows "column_widths avail a_need b_need a_share a_min b_min = None"
proof -
  have "avail * a_share div 100 \<le> avail" using assms(4)
    by (metis div_le_mono div_mult_self_is_m mult.commute mult_le_mono2 zero_less_numeral)
  then show ?thesis using assms by (auto simp: column_widths_def Let_def)
qed

end
