(* ===== verification/Browser_Core.thy ===== *)
theory Browser_Core
  imports Path_Find Panel_Rank Tui_Keys
begin

text \<open>The directory browser shared by the file picker and the transfer screen
(\<^verbatim>\<open>tui/browser_core.rs\<close>), the find results laid over it (\<^verbatim>\<open>tui/transfer/search.rs\<close>) and one
side of the transfer screen (\<^verbatim>\<open>tui/transfer/pane.rs\<close>).  Sets and maps of paths are keyed by the
components of the path, as the standard library compares paths.  Cursors are far below the bounds of
\<^verbatim>\<open>i32\<close>, to which the code casts them.\<close>

section \<open>The core\<close>

text \<open>The rank function: the names of the listing and the query to the positions shown.\<close>

type_synonym ranking = "string list \<Rightarrow> string \<Rightarrow> nat list"

definition browser_rank :: "matcher \<Rightarrow> ranking" where
  "browser_rank m names query = rank_by_fields m (map (\<lambda>n. [n]) names) (replicate (length names) (Finite 0 0)) query"

datatype nav_decision = CursorMoved | QueryEdited | NavStepUp | NavNoop

record browser_core =
  bc_cwd :: string
  bc_entries :: "dir_entry list"
  bc_query :: string
  bc_ranked :: "nat list"
  bc_selected :: nat
  bc_marked :: "component list set"
  bc_history :: "component list \<Rightarrow> string option"
  bc_pending_restore :: bool
  bc_switch_origin :: "string option"

definition core_new :: "string \<Rightarrow> browser_core" where
  "core_new cwd =
     \<lparr>bc_cwd = cwd, bc_entries = [], bc_query = [], bc_ranked = [], bc_selected = 0, bc_marked = {},
      bc_history = Map.empty, bc_pending_restore = False, bc_switch_origin = None\<rparr>"

definition recompute :: "ranking \<Rightarrow> browser_core \<Rightarrow> browser_core" where
  "recompute rk c = c\<lparr>bc_ranked := rk (map de_name (bc_entries c)) (bc_query c)\<rparr>"

definition clamp_selected :: "browser_core \<Rightarrow> browser_core" where
  "clamp_selected c =
     (if bc_ranked c = [] then c\<lparr>bc_selected := 0\<rparr>
      else if length (bc_ranked c) \<le> bc_selected c then c\<lparr>bc_selected := length (bc_ranked c) - 1\<rparr>
      else c)"

definition wrap_cursor :: "nat \<Rightarrow> int \<Rightarrow> nat \<Rightarrow> nat" where
  "wrap_cursor cursor delta n = nat ((int cursor + delta) mod int n)"

definition move_cursor :: "int \<Rightarrow> browser_core \<Rightarrow> browser_core" where
  "move_cursor delta c =
     (if bc_ranked c = [] then c
      else c\<lparr>bc_selected := wrap_cursor (bc_selected c) delta (length (bc_ranked c))\<rparr>)"

definition get_at :: "'a list \<Rightarrow> nat \<Rightarrow> 'a option" where
  "get_at xs i = (if i < length xs then Some (xs ! i) else None)"

definition entry_at_rank :: "nat \<Rightarrow> browser_core \<Rightarrow> dir_entry option" where
  "entry_at_rank r c = Option.bind (get_at (bc_ranked c) r) (get_at (bc_entries c))"

definition selected_entry :: "browser_core \<Rightarrow> dir_entry option" where
  "selected_entry c = entry_at_rank (bc_selected c) c"

definition matched_count :: "browser_core \<Rightarrow> nat" where
  "matched_count c = length (bc_ranked c)"

definition visible_window :: "nat \<Rightarrow> browser_core \<Rightarrow> nat \<times> nat" where
  "visible_window rows c = focus_window (length (bc_ranked c)) (bc_selected c) rows"

definition toggle_mark_selected :: "browser_core \<Rightarrow> string option \<times> browser_core" where
  "toggle_mark_selected c =
     (case selected_entry c of
        None \<Rightarrow> (None, c)
      | Some e \<Rightarrow>
          (let k = components (de_path e)
           in (Some (de_path e), c\<lparr>bc_marked := (if k \<in> bc_marked c then bc_marked c - {k} else insert k (bc_marked c))\<rparr>)))"

definition remembered_cursor_index :: "browser_core \<Rightarrow> nat" where
  "remembered_cursor_index c =
     (case Option.bind (bc_history c (components (bc_cwd c)))
             (\<lambda>p. position (\<lambda>i. case get_at (bc_entries c) i of
                     Some e \<Rightarrow> components (de_path e) = components p | None \<Rightarrow> False) (bc_ranked c)) of
        Some i \<Rightarrow> i | None \<Rightarrow> 0)"

text \<open>The outgoing directory remembers its cursor; the parent remembers the directory left.\<close>

definition remember_cursor :: "browser_core \<Rightarrow> browser_core" where
  "remember_cursor c =
     (case selected_entry c of
        None \<Rightarrow> c
      | Some e \<Rightarrow> c\<lparr>bc_history := (bc_history c)(components (bc_cwd c) \<mapsto> de_path e)\<rparr>)"

definition remember_parent :: "browser_core \<Rightarrow> browser_core" where
  "remember_parent c =
     (case path_parent (bc_cwd c) of
        None \<Rightarrow> c
      | Some p \<Rightarrow> c\<lparr>bc_history := (bc_history c)(components p \<mapsto> bc_cwd c)\<rparr>)"

definition begin_switch :: "browser_core \<Rightarrow> browser_core" where
  "begin_switch c0 =
     (let c = remember_cursor (c0\<lparr>bc_switch_origin := Some (bc_cwd c0)\<rparr>)
      in c\<lparr>bc_marked := {}, bc_query := [], bc_selected := 0, bc_pending_restore := True\<rparr>)"

definition finish_switch :: "ranking \<Rightarrow> dir_entry list \<Rightarrow> browser_core \<Rightarrow> browser_core" where
  "finish_switch rk es c0 =
     (let c = recompute rk (c0\<lparr>bc_entries := es\<rparr>);
          c = (if bc_pending_restore c
               then (remember_parent (c\<lparr>bc_selected := remembered_cursor_index c\<rparr>))\<lparr>bc_pending_restore := False\<rparr>
               else c\<lparr>bc_selected := 0\<rparr>)
      in c\<lparr>bc_switch_origin := None\<rparr>)"

definition commit_switch :: "ranking \<Rightarrow> string \<Rightarrow> dir_entry list \<Rightarrow> browser_core \<Rightarrow> browser_core" where
  "commit_switch rk new_cwd es c0 =
     (let c = recompute rk ((remember_cursor c0)\<lparr>bc_cwd := new_cwd, bc_entries := es, bc_query := [], bc_marked := {}\<rparr>)
      in (remember_parent (c\<lparr>bc_selected := remembered_cursor_index c\<rparr>))\<lparr>bc_switch_origin := None\<rparr>)"

definition revert_switch :: "ranking \<Rightarrow> browser_core \<Rightarrow> browser_core" where
  "revert_switch rk c0 =
     (case bc_switch_origin c0 of
        None \<Rightarrow> c0
      | Some origin \<Rightarrow>
          (let c = recompute rk (c0\<lparr>bc_cwd := origin, bc_switch_origin := None, bc_query := [], bc_marked := {},
                     bc_pending_restore := False\<rparr>)
           in clamp_selected (c\<lparr>bc_selected := remembered_cursor_index c\<rparr>)))"

definition apply_nav_key :: "ranking \<Rightarrow> key_event \<Rightarrow> browser_core \<Rightarrow> nav_decision option \<times> browser_core" where
  "apply_nav_key rk key c =
     (case ke_code key of
        KeyUp \<Rightarrow> (Some CursorMoved, move_cursor (- 1) c)
      | KeyDown \<Rightarrow> (Some CursorMoved, move_cursor 1 c)
      | KeyLeft \<Rightarrow> (Some NavStepUp, c)
      | KeyBackspace \<Rightarrow>
          if bc_query c = [] then (Some NavNoop, c)
          else (Some QueryEdited, clamp_selected (recompute rk (c\<lparr>bc_query := butlast (bc_query c)\<rparr>)))
      | KeyChar ch \<Rightarrow>
          if ke_ctrl key
          then (if ch = CHR ''p'' then (Some CursorMoved, move_cursor (- 1) c)
                else if ch = CHR ''n'' then (Some CursorMoved, move_cursor 1 c)
                else (None, c))
          else (Some QueryEdited, (recompute rk (c\<lparr>bc_query := bc_query c @ [ch]\<rparr>))\<lparr>bc_selected := 0\<rparr>)
      | _ \<Rightarrow> (None, c))"

section \<open>Find results\<close>

record pane_search =
  ps_results :: "path_match list"
  ps_cursor :: nat
  ps_searching :: bool
  ps_results_gen :: "32 word option"
  ps_error :: "string option"
  ps_current_dir :: "path_match option"

definition search_empty :: pane_search where
  "search_empty = \<lparr>ps_results = [], ps_cursor = 0, ps_searching = True, ps_results_gen = None, ps_error = None,
     ps_current_dir = None\<rparr>"

definition display_len :: "pane_search \<Rightarrow> nat" where
  "display_len s = length (ps_results s) + (if ps_current_dir s = None then 0 else 1)"

definition on_dot :: "pane_search \<Rightarrow> bool" where
  "on_dot s \<longleftrightarrow> ps_cursor s = 0 \<and> ps_current_dir s \<noteq> None"

definition search_selected :: "pane_search \<Rightarrow> path_match option" where
  "search_selected s =
     (if ps_current_dir s \<noteq> None \<and> ps_cursor s = 0 then ps_current_dir s
      else get_at (ps_results s) (ps_cursor s - (if ps_current_dir s = None then 0 else 1)))"

definition search_move_cursor :: "int \<Rightarrow> pane_search \<Rightarrow> pane_search" where
  "search_move_cursor delta s =
     (if display_len s = 0 then s\<lparr>ps_cursor := 0\<rparr>
      else s\<lparr>ps_cursor := wrap_cursor (ps_cursor s) delta (display_len s)\<rparr>)"

definition search_visible_window :: "nat \<Rightarrow> pane_search \<Rightarrow> nat \<times> nat" where
  "search_visible_window rows s = focus_window (display_len s) (ps_cursor s) rows"

section \<open>Panes\<close>

datatype side = LocalSide | RemoteSide

datatype pane_outcome =
    PaneNone
  | PaneQueryChanged
  | PaneStepInto string
  | PaneStepUp
  | PaneActivateSelected
  | PaneToggleMark string
  | PaneRequestList string

record pane =
  pn_core :: browser_core
  pn_loading :: bool
  pn_search :: "pane_search option"

definition pane_new :: "string \<Rightarrow> pane" where
  "pane_new cwd = \<lparr>pn_core = core_new cwd, pn_loading = False, pn_search = None\<rparr>"

definition on_core :: "(browser_core \<Rightarrow> browser_core) \<Rightarrow> pane \<Rightarrow> pane" where
  "on_core f p = p\<lparr>pn_core := f (pn_core p)\<rparr>"

definition pane_set_entries :: "ranking \<Rightarrow> dir_entry list \<Rightarrow> pane \<Rightarrow> pane" where
  "pane_set_entries rk es p = on_core (finish_switch rk es) p"

definition pane_on_step :: "pane \<Rightarrow> pane" where
  "pane_on_step p = on_core begin_switch p"

definition pane_revert_switch :: "ranking \<Rightarrow> pane \<Rightarrow> pane" where
  "pane_revert_switch rk p = on_core (revert_switch rk) p"

definition activate_or_step :: "pane \<Rightarrow> pane_outcome" where
  "activate_or_step p =
     (case selected_entry (pn_core p) of
        Some e \<Rightarrow> if de_is_dir e then PaneStepInto (de_path e) else PaneActivateSelected
      | None \<Rightarrow> PaneNone)"

definition resolve_path_like :: "string option \<Rightarrow> string \<Rightarrow> string \<Rightarrow> string option" where
  "resolve_path_like home raw cwd =
     (let trimmed = trim raw
      in if starts_with ''~'' trimmed then map_option (expand_tilde trimmed) home
         else if is_absolute trimmed then Some trimmed
         else Some (path_join cwd trimmed))"

definition pane_on_enter :: "string option \<Rightarrow> pane \<Rightarrow> pane_outcome" where
  "pane_on_enter home p =
     (case parse_filter_intent (bc_query (pn_core p)) of
        PathLike raw \<Rightarrow>
          (case resolve_path_like home raw (bc_cwd (pn_core p)) of
             Some dir \<Rightarrow> PaneRequestList dir
           | None \<Rightarrow> PaneNone)
      | Fuzzy _ \<Rightarrow> activate_or_step p)"

definition step_up_intent :: "pane \<Rightarrow> pane_outcome" where
  "step_up_intent p = (if path_parent (bc_cwd (pn_core p)) \<noteq> None then PaneStepUp else PaneNone)"

definition move_search_cursor :: "int \<Rightarrow> pane \<Rightarrow> pane" where
  "move_search_cursor delta p = p\<lparr>pn_search := map_option (search_move_cursor delta) (pn_search p)\<rparr>"

definition pane_nav :: "ranking \<Rightarrow> key_event \<Rightarrow> pane \<Rightarrow> nav_decision option \<times> pane" where
  "pane_nav rk key p = (let (d, c) = apply_nav_key rk key (pn_core p) in (d, p\<lparr>pn_core := c\<rparr>))"

definition on_search_key :: "ranking \<Rightarrow> key_event \<Rightarrow> pane \<Rightarrow> pane_outcome \<times> pane" where
  "on_search_key rk key p =
     (let edit = (let (d, p) = pane_nav rk key p
                  in (if d = Some QueryEdited then PaneQueryChanged else PaneNone, p))
      in case ke_code key of
           KeyUp \<Rightarrow> (PaneNone, move_search_cursor (- 1) p)
         | KeyDown \<Rightarrow> (PaneNone, move_search_cursor 1 p)
         | KeyChar ch \<Rightarrow>
             if ch = CHR ''p'' \<and> ke_ctrl key then (PaneNone, move_search_cursor (- 1) p)
             else if ch = CHR ''n'' \<and> ke_ctrl key then (PaneNone, move_search_cursor 1 p)
             else edit
         | KeyEnter \<Rightarrow> (PaneNone, p)
         | KeyRight \<Rightarrow> (PaneNone, p)
         | _ \<Rightarrow> edit)"

definition pane_on_key :: "ranking \<Rightarrow> string option \<Rightarrow> key_event \<Rightarrow> pane \<Rightarrow> pane_outcome \<times> pane" where
  "pane_on_key rk home key p =
     (if ke_kind key \<noteq> Press then (PaneNone, p)
      else if pn_search p \<noteq> None then on_search_key rk key p
      else if ke_code key = KeyChar (CHR '' '') \<and> \<not> ke_ctrl key
      then (let (r, c) = toggle_mark_selected (pn_core p)
            in (case r of Some path \<Rightarrow> PaneToggleMark path | None \<Rightarrow> PaneNone, p\<lparr>pn_core := c\<rparr>))
      else
        (let (d, p) = pane_nav rk key p
         in case d of
              Some CursorMoved \<Rightarrow> (PaneNone, p)
            | Some NavNoop \<Rightarrow> (PaneNone, p)
            | Some QueryEdited \<Rightarrow> (PaneQueryChanged, p)
            | Some NavStepUp \<Rightarrow> (step_up_intent p, p)
            | None \<Rightarrow>
                (case ke_code key of
                   KeyRight \<Rightarrow> (activate_or_step p, p)
                 | KeyEnter \<Rightarrow> (pane_on_enter home p, p)
                 | _ \<Rightarrow> (PaneNone, p))))"

section \<open>What a ranking promises, and what the browser makes of it\<close>

locale ranker =
  fixes rk :: ranking
  assumes rank_range: "i \<in> set (rk names query) \<Longrightarrow> i < length names"
    and rank_once: "distinct (rk names query)"
    and rank_all: "set (rk names []) = {..<length names}"

text \<open>The rows shown are rows of the listing, and the cursor is on one of them unless there is none.\<close>

definition rows_ok :: "browser_core \<Rightarrow> bool" where
  "rows_ok c \<longleftrightarrow> (\<forall>i \<in> set (bc_ranked c). i < length (bc_entries c)) \<and> distinct (bc_ranked c)"

definition cursor_ok :: "browser_core \<Rightarrow> bool" where
  "cursor_ok c \<longleftrightarrow> bc_selected c < length (bc_ranked c) \<or> bc_ranked c = [] \<and> bc_selected c = 0"

definition core_ok :: "browser_core \<Rightarrow> bool" where
  "core_ok c \<longleftrightarrow> rows_ok c \<and> cursor_ok c"

lemma core_ok_new [simp]: "core_ok (core_new cwd)"
  by (simp add: core_ok_def rows_ok_def cursor_ok_def core_new_def)

lemma clamp_cursor: "cursor_ok (clamp_selected c)" "rows_ok (clamp_selected c) = rows_ok c"
  by (auto simp: cursor_ok_def clamp_selected_def rows_ok_def)

lemma wrap_cursor_less: "0 < n \<Longrightarrow> wrap_cursor c d n < n"
  by (simp add: wrap_cursor_def nat_less_iff)

lemma move_cursor_ok: "core_ok c \<Longrightarrow> core_ok (move_cursor d c)"
  using wrap_cursor_less by (auto simp: core_ok_def rows_ok_def cursor_ok_def move_cursor_def)

text \<open>Moving up undoes moving down.\<close>

lemma wrap_cursor_back: "c < n \<Longrightarrow> wrap_cursor (wrap_cursor c d n) (- d) n = c"
  by (simp add: wrap_cursor_def mod_simps)

lemma selected_entry_in: "core_ok c \<Longrightarrow> selected_entry c = None \<longleftrightarrow> bc_ranked c = []"
  by (auto simp: core_ok_def rows_ok_def cursor_ok_def selected_entry_def entry_at_rank_def get_at_def)

lemma remembered_in_range: "remembered_cursor_index c < length (bc_ranked c) \<or> remembered_cursor_index c = 0"
  by (auto simp: remembered_cursor_index_def bind_eq_Some_conv dest!: position_Some split: option.splits)

lemma remember_simps [simp]:
  "bc_ranked (remember_cursor c) = bc_ranked c" "bc_entries (remember_cursor c) = bc_entries c"
  "bc_selected (remember_cursor c) = bc_selected c" "bc_cwd (remember_cursor c) = bc_cwd c"
  "bc_switch_origin (remember_cursor c) = bc_switch_origin c"
  "bc_ranked (remember_parent c) = bc_ranked c" "bc_entries (remember_parent c) = bc_entries c"
  "bc_selected (remember_parent c) = bc_selected c" "bc_cwd (remember_parent c) = bc_cwd c"
  by (auto simp: remember_cursor_def remember_parent_def split: option.splits)

context ranker
begin

lemma recompute_rows: "rows_ok (recompute rk c)"
  using rank_range[of _ "map de_name (bc_entries c)" "bc_query c"] rank_once
  by (auto simp: rows_ok_def recompute_def)

lemma nav_ok: "core_ok c \<Longrightarrow> core_ok (snd (apply_nav_key rk key c))"
proof -
  assume c: "core_ok c"
  have clear: "core_ok (clamp_selected (recompute rk c'))" for c'
    using clamp_cursor recompute_rows by (simp add: core_ok_def)
  have zero: "core_ok ((recompute rk c')\<lparr>bc_selected := 0\<rparr>)" for c'
    using recompute_rows[of c'] by (auto simp: core_ok_def rows_ok_def cursor_ok_def)
  show ?thesis
    using c clear zero move_cursor_ok[OF c] by (auto simp: apply_nav_key_def split: key_code.splits)
qed

lemma core_begin_ok: "core_ok c \<Longrightarrow> core_ok (begin_switch c)"
  by (auto simp: core_ok_def rows_ok_def cursor_ok_def begin_switch_def Let_def)

lemma core_finish_ok: "core_ok (finish_switch rk es c)"
  using recompute_rows[of "c\<lparr>bc_entries := es\<rparr>"] remembered_in_range[of "recompute rk (c\<lparr>bc_entries := es\<rparr>)"]
  by (auto simp: core_ok_def rows_ok_def cursor_ok_def finish_switch_def Let_def)

lemma commit_ok: "core_ok (commit_switch rk cwd es c)"
  using recompute_rows[of "(remember_cursor c)\<lparr>bc_cwd := cwd, bc_entries := es, bc_query := [], bc_marked := {}\<rparr>"]
    remembered_in_range[of "recompute rk ((remember_cursor c)\<lparr>bc_cwd := cwd, bc_entries := es, bc_query := [], bc_marked := {}\<rparr>)"]
  by (auto simp: core_ok_def rows_ok_def cursor_ok_def commit_switch_def Let_def)

lemma revert_ok: "core_ok c \<Longrightarrow> core_ok (revert_switch rk c)"
proof (cases "bc_switch_origin c")
  case (Some d)
  let ?c = "recompute rk (c\<lparr>bc_cwd := d, bc_switch_origin := None, bc_query := [], bc_marked := {}, bc_pending_restore := False\<rparr>)"
  have "rows_ok (?c\<lparr>bc_selected := remembered_cursor_index ?c\<rparr>)" using recompute_rows by (simp add: rows_ok_def)
  then show ?thesis using Some clamp_cursor by (simp add: revert_switch_def Let_def core_ok_def)
qed (simp add: revert_switch_def)

lemma core_toggle_ok: "core_ok c \<Longrightarrow> core_ok (snd (toggle_mark_selected c))"
  by (auto simp: toggle_mark_selected_def core_ok_def rows_ok_def cursor_ok_def Let_def split: option.splits)

lemma pane_key_ok: "core_ok (pn_core p) \<Longrightarrow> core_ok (pn_core (snd (pane_on_key rk home key p)))"
  using nav_ok[of "pn_core p" key] core_toggle_ok[of "pn_core p"]
  by (auto simp: pane_on_key_def on_search_key_def pane_nav_def move_search_cursor_def split_beta Let_def
      split: option.splits nav_decision.splits key_code.splits)

text \<open>A switch whose listing fails puts the pane back on the directory whose entries it shows.\<close>

lemma switch_reverted:
  "bc_cwd (revert_switch rk ((begin_switch c)\<lparr>bc_cwd := target\<rparr>)) = bc_cwd c
   \<and> bc_entries (revert_switch rk ((begin_switch c)\<lparr>bc_cwd := target\<rparr>)) = bc_entries c
   \<and> bc_query (revert_switch rk ((begin_switch c)\<lparr>bc_cwd := target\<rparr>)) = []"
  by (auto simp: revert_switch_def begin_switch_def Let_def recompute_def clamp_selected_def)

end

text \<open>The ranking of the panels, with every matcher.\<close>

lemma zero_scores: "i < n \<Longrightarrow> (replicate n (Finite 0 0)) ! i = Finite 0 0"
  by simp

interpretation panel: ranker "browser_rank m" for m
proof
  show "i \<in> set (browser_rank m names query) \<Longrightarrow> i < length names" for i names query
    using rank_bounds by (fastforce simp: browser_rank_def)
  show "distinct (browser_rank m names query)" for names query
    by (simp add: browser_rank_def rank_distinct)
  show "set (browser_rank m names []) = {..<length names}" for names
    by (auto simp: browser_rank_def rank_by_fields_def)
qed

end
