(* ===== verification/Sftp_Proto.thy ===== *)
theory Sftp_Proto
  imports Sftp_Parse Sftp_Argv
begin

text \<open>What the screen and the worker of an SFTP session tell each other (\<^verbatim>\<open>connect/sftp/proto.rs\<close>):
jobs, commands, events and outcomes, the batch scripts for \<^verbatim>\<open>sftp\<close> and the progress arithmetic, with the
classification of a command that arrives during a transfer (\<^verbatim>\<open>connect/sftp/pure.rs\<close>).\<close>

section \<open>Jobs, commands and events\<close>

datatype direction = Upload | Download

record transfer_job =
  tj_direction :: direction
  tj_src :: string
  tj_dst :: string
  tj_name :: string
  tj_size_total :: "nat option"
  tj_recursive :: bool

datatype overwrite_policy = Overwrite | Skip | OverwriteAll | SkipAll

datatype worker_cmd =
    CmdList string
  | CmdTransfer transfer_job overwrite_policy
  | CmdCancel
  | CmdShutdown
  | CmdHostKeyConfirm bool

record progress =
  pr_name :: string
  pr_direction :: direction
  pr_bytes_done :: nat
  pr_bytes_total :: "nat option"
  pr_rate_bps :: "nat option"
  pr_eta_secs :: "nat option"

datatype transfer_outcome = TransferOk | TransferCancelled | TransferFailed string

datatype worker_event =
    EvListing string "string + dir_entry list"
  | EvProgress progress
  | EvDone transfer_outcome
  | EvConnected string string string
  | EvConnectFailed string
  | EvHostKeyNeedsConfirm string string

section \<open>Batch scripts\<close>

definition batch_of :: "string \<Rightarrow> string" where
  "batch_of line = line @ [CHR 0x0A] @ ''quit'' @ [CHR 0x0A]"

definition list_batch :: "string \<Rightarrow> string" where
  "list_batch path = batch_of (''ls -la '' @ shell_quote path)"

definition pwd_batch :: string where
  "pwd_batch = batch_of ''pwd''"

definition get_batch :: "string \<Rightarrow> string \<Rightarrow> bool \<Rightarrow> string" where
  "get_batch src dst recursive =
     batch_of (''get'' @ (if recursive then '' -R'' else []) @ '' '' @ shell_quote src @ '' '' @ shell_quote dst)"

definition put_batch :: "string \<Rightarrow> string \<Rightarrow> bool \<Rightarrow> string" where
  "put_batch src dst recursive =
     batch_of (''put'' @ (if recursive then '' -R'' else []) @ '' '' @ shell_quote src @ '' '' @ shell_quote dst)"

section \<open>Progress\<close>

text \<open>Subtraction on the natural numbers saturates as \<^verbatim>\<open>saturating_sub\<close> does.\<close>

definition progress_snapshot :: "nat \<Rightarrow> nat \<Rightarrow> nat \<Rightarrow> nat \<Rightarrow> nat option \<Rightarrow> nat option \<times> nat option" where
  "progress_snapshot prev_done prev_secs cur_done cur_secs size_total =
     (let elapsed = cur_secs - prev_secs
      in if elapsed = 0 then (None, None)
         else if cur_done < prev_done then (None, None)
         else
           (let rate = (cur_done - prev_done) div elapsed
            in (Some rate,
                case size_total of
                  Some t \<Rightarrow> if cur_done < t \<and> 0 < rate then Some ((t - cur_done) div rate) else None
                | None \<Rightarrow> None)))"

datatype inflight_action = InflightContinue | InflightCancel | InflightShutdown

definition classify_inflight_cmd :: "worker_cmd \<Rightarrow> inflight_action" where
  "classify_inflight_cmd cmd =
     (case cmd of CmdCancel \<Rightarrow> InflightCancel | CmdShutdown \<Rightarrow> InflightShutdown | _ \<Rightarrow> InflightContinue)"

section \<open>Facts\<close>

text \<open>A rate and a remaining time are estimates that never exceed what is left.\<close>

lemma progress_bounds:
  assumes "progress_snapshot pd ps cd cs size_total = (Some r, eta)"
  shows "pd + r * (cs - ps) \<le> cd" and "eta = Some e \<Longrightarrow> \<exists>t. size_total = Some t \<and> 0 < r \<and> cd + e * r \<le> t"
proof -
  have e: "0 < cs - ps" "pd \<le> cd" "r = (cd - pd) div (cs - ps)"
    using assms by (auto simp: progress_snapshot_def Let_def split: if_splits)
  have "r * (cs - ps) \<le> cd - pd" using e(3) by (simp add: div_times_less_eq_dividend)
  then show "pd + r * (cs - ps) \<le> cd" using e(2) by simp
  show "\<exists>t. size_total = Some t \<and> 0 < r \<and> cd + e * r \<le> t" if eta: "eta = Some e"
  proof -
    obtain t where t: "size_total = Some t" "cd < t" "0 < r" "e = (t - cd) div r"
      using assms eta by (auto simp: progress_snapshot_def Let_def split: if_splits option.splits)
    have "e * r \<le> t - cd" by (simp add: t(4) div_times_less_eq_dividend)
    then have "cd + e * r \<le> t" using t(2) by linarith
    then show ?thesis using t(1,3) by blast
  qed
qed

text \<open>A batch holds one command line when no path holds a line feed, and then the quoted words read back.\<close>

lemma shell_quote_line: "CHR 0x0A \<notin> set p \<Longrightarrow> CHR 0x0A \<notin> set (shell_quote p)"
  by (auto simp: shell_quote_def quote_char_def split: if_splits)

lemma lines_from_line:
  "CHR 0x0A \<notin> set l \<Longrightarrow> lines_from cur (l @ CHR 0x0A # r) = strip_cr (rev cur @ l) # lines_from [] r"
  by (induction l arbitrary: cur) auto

lemma batch_lines:
  assumes "CHR 0x0A \<notin> set l" "CHR 0x0D \<notin> set l"
  shows "lines (batch_of l) = [l, ''quit'']"
proof -
  have q: "lines_from [] (''quit'' @ [CHR 0x0A]) = [''quit'']" by (simp add: strip_cr_def)
  have "strip_cr l = l" using assms(2) by (auto simp: strip_cr_def dest: last_in_set)
  then show ?thesis
    using lines_from_line[OF assms(1), of "[]" "''quit'' @ [CHR 0x0A]"] q by (simp add: lines_def batch_of_def)
qed

end
