(* ===== verification/Ledger.thy ===== *)
theory Ledger
  imports Sftp_Proto
begin

text \<open>The transfer ledger of the terminal interface (\<^verbatim>\<open>tui/transfer/ledger.rs\<close>): every transfer
with its state, in the order of insertion, and the pause flag.  Counters are derived from the tasks.\<close>

section \<open>Tasks\<close>

type_synonym task_id = nat

datatype task_kind = TaskFile | TaskFolder

datatype task_state = Queued | InFlight | Done transfer_outcome

record task =
  tk_id :: task_id
  tk_kind :: task_kind
  tk_job :: transfer_job
  tk_progress :: "progress option"
  tk_state :: task_state

record ledger =
  lg_tasks :: "task list"
  lg_next_id :: nat
  lg_paused :: bool

definition is_done :: "task_state \<Rightarrow> bool" where
  "is_done s = (case s of Done _ \<Rightarrow> True | _ \<Rightarrow> False)"

definition is_retryable :: "task_state \<Rightarrow> bool" where
  "is_retryable s = (case s of Done (TransferFailed _) \<Rightarrow> True | Done TransferCancelled \<Rightarrow> True | _ \<Rightarrow> False)"

text \<open>\<^verbatim>\<open>iter_mut().find(p)\<close> with an update of the element found.\<close>

fun update_first :: "('a \<Rightarrow> bool) \<Rightarrow> ('a \<Rightarrow> 'a) \<Rightarrow> 'a list \<Rightarrow> 'a list" where
  "update_first p f [] = []"
| "update_first p f (x # xs) = (if p x then f x # xs else x # update_first p f xs)"

section \<open>Operations\<close>

definition ledger_new :: ledger where
  "ledger_new = \<lparr>lg_tasks = [], lg_next_id = 0, lg_paused = False\<rparr>"

definition enqueue :: "transfer_job \<Rightarrow> ledger \<Rightarrow> task_id \<times> ledger" where
  "enqueue job l =
     (let t = lg_next_id l;
          kind = (if tj_recursive job then TaskFolder else TaskFile)
      in (t, l\<lparr>lg_next_id := t + 1,
              lg_tasks := lg_tasks l @ [\<lparr>tk_id = t, tk_kind = kind, tk_job = job, tk_progress = None, tk_state = Queued\<rparr>]\<rparr>))"

definition next_to_dispatch :: "ledger \<Rightarrow> task_id option \<times> ledger" where
  "next_to_dispatch l =
     (if lg_paused l then (None, l)
      else case find (\<lambda>t. tk_state t = Queued) (lg_tasks l) of
             None \<Rightarrow> (None, l)
           | Some t \<Rightarrow>
               (Some (tk_id t),
                l\<lparr>lg_tasks := update_first (\<lambda>t. tk_state t = Queued) (tk_state_update (\<lambda>_. InFlight)) (lg_tasks l)\<rparr>))"

definition job_for :: "task_id \<Rightarrow> ledger \<Rightarrow> transfer_job option" where
  "job_for i l = map_option tk_job (find (\<lambda>t. tk_id t = i) (lg_tasks l))"

definition inflight_id :: "ledger \<Rightarrow> task_id option" where
  "inflight_id l = map_option tk_id (find (\<lambda>t. tk_state t = InFlight) (lg_tasks l))"

definition has_inflight :: "ledger \<Rightarrow> bool" where
  "has_inflight l = (inflight_id l \<noteq> None)"

definition set_inflight_progress :: "progress \<Rightarrow> ledger \<Rightarrow> ledger" where
  "set_inflight_progress p l =
     (case inflight_id l of
        None \<Rightarrow> l
      | Some i \<Rightarrow>
          l\<lparr>lg_tasks := update_first (\<lambda>t. tk_id t = i) (tk_progress_update (\<lambda>_. Some p)) (lg_tasks l)\<rparr>)"

definition active_progress :: "ledger \<Rightarrow> progress option" where
  "active_progress l = Option.bind (find (\<lambda>t. tk_state t = InFlight) (lg_tasks l)) tk_progress"

definition finish_inflight :: "transfer_outcome \<Rightarrow> ledger \<Rightarrow> ledger" where
  "finish_inflight outcome l =
     l\<lparr>lg_tasks := update_first (\<lambda>t. tk_state t = InFlight)
                     (\<lambda>t. t\<lparr>tk_state := Done outcome, tk_progress := None\<rparr>) (lg_tasks l)\<rparr>"

definition retry :: "task_id \<Rightarrow> ledger \<Rightarrow> bool \<times> ledger" where
  "retry i l =
     (case find (\<lambda>t. tk_id t = i) (lg_tasks l) of
        None \<Rightarrow> (False, l)
      | Some t \<Rightarrow>
          if is_retryable (tk_state t)
          then (True, l\<lparr>lg_tasks := update_first (\<lambda>t. tk_id t = i)
                                      (\<lambda>t. t\<lparr>tk_state := Queued, tk_progress := None\<rparr>) (lg_tasks l)\<rparr>)
          else (False, l))"

definition remove :: "task_id \<Rightarrow> ledger \<Rightarrow> bool \<times> ledger" where
  "remove i l =
     (if list_ex (\<lambda>t. tk_id t = i \<and> tk_state t = InFlight) (lg_tasks l) then (False, l)
      else
        (let kept = filter (\<lambda>t. tk_id t \<noteq> i) (lg_tasks l)
         in (length kept < length (lg_tasks l), l\<lparr>lg_tasks := kept\<rparr>)))"

definition clear_queued :: "ledger \<Rightarrow> ledger" where
  "clear_queued l = l\<lparr>lg_tasks := filter (\<lambda>t. tk_state t \<noteq> Queued) (lg_tasks l)\<rparr>"

definition abort_inflight :: "ledger \<Rightarrow> ledger" where
  "abort_inflight l = l\<lparr>lg_tasks := filter (\<lambda>t. tk_state t \<noteq> InFlight) (lg_tasks l)\<rparr>"

definition toggle_paused :: "ledger \<Rightarrow> ledger" where
  "toggle_paused l = l\<lparr>lg_paused := \<not> lg_paused l\<rparr>"

definition task_total :: "ledger \<Rightarrow> nat" where
  "task_total l = length (lg_tasks l)"

definition done_count :: "ledger \<Rightarrow> nat" where
  "done_count l = length (filter (\<lambda>t. tk_state t = Done TransferOk) (lg_tasks l))"

definition failed_count :: "ledger \<Rightarrow> nat" where
  "failed_count l =
     length (filter (\<lambda>t. case tk_state t of Done (TransferFailed _) \<Rightarrow> True | _ \<Rightarrow> False) (lg_tasks l))"

definition pending_count :: "ledger \<Rightarrow> nat" where
  "pending_count l = length (filter (\<lambda>t. tk_state t = Queued) (lg_tasks l))"

definition queue_empty :: "ledger \<Rightarrow> bool" where
  "queue_empty l = (pending_count l = 0)"

definition last_direction :: "ledger \<Rightarrow> direction option" where
  "last_direction l =
     (case find (\<lambda>t. tk_state t = InFlight) (lg_tasks l) of
        Some t \<Rightarrow> Some (tj_direction (tk_job t))
      | None \<Rightarrow>
          map_option (\<lambda>t. tj_direction (tk_job t)) (find (\<lambda>t. is_done (tk_state t)) (rev (lg_tasks l))))"

section \<open>The invariant\<close>

text \<open>Ids grow along the list and stay below the next one, at most one task is in flight, only that
task has a progress snapshot, and the kind is that of the job.\<close>

definition inflight_tasks :: "ledger \<Rightarrow> task list" where
  "inflight_tasks l = filter (\<lambda>t. tk_state t = InFlight) (lg_tasks l)"

definition task_ok :: "task \<Rightarrow> bool" where
  "task_ok t \<longleftrightarrow> (tk_progress t \<noteq> None \<longrightarrow> tk_state t = InFlight)
     \<and> tk_kind t = (if tj_recursive (tk_job t) then TaskFolder else TaskFile)"

definition ledger_ok :: "ledger \<Rightarrow> bool" where
  "ledger_ok l \<longleftrightarrow> sorted_wrt (<) (map tk_id (lg_tasks l)) \<and> (\<forall>t \<in> set (lg_tasks l). tk_id t < lg_next_id l)
     \<and> length (inflight_tasks l) \<le> 1 \<and> (\<forall>t \<in> set (lg_tasks l). task_ok t)"

section \<open>Facts about the list operations\<close>

lemma update_first_in: "x \<in> set (update_first p f xs) \<Longrightarrow> x \<in> set xs \<or> (\<exists>y \<in> set xs. p y \<and> x = f y)"
  by (induction xs) (auto split: if_splits)

lemma map_update_first: "(\<And>x. x \<in> set xs \<Longrightarrow> p x \<Longrightarrow> g (f x) = g x) \<Longrightarrow> map g (update_first p f xs) = map g xs"
  by (induction xs) auto

lemma map_filter_update_first:
  "(\<And>x. x \<in> set xs \<Longrightarrow> p x \<Longrightarrow> q (f x) = q x \<and> g (f x) = g x) \<Longrightarrow>
     map g (filter q (update_first p f xs)) = map g (filter q xs)"
  by (induction xs) auto

lemma filter_update_first_gone:
  "\<lbrakk>length (filter q xs) \<le> 1; \<And>x. \<not> q (f x)\<rbrakk> \<Longrightarrow> filter q (update_first q f xs) = []"
  by (induction xs) auto

lemma filter_update_first_new:
  "\<lbrakk>filter q xs = []; find p xs = Some x; q (f x)\<rbrakk> \<Longrightarrow> filter q (update_first p f xs) = [f x]"
  by (induction xs) (auto split: if_splits)

lemma find_in: "find p xs = Some x \<Longrightarrow> x \<in> set xs \<and> p x"
  by (auto simp: find_Some_iff)

lemma find_key:
  "\<lbrakk>sorted_wrt (<) (map k xs); x \<in> set xs\<rbrakk> \<Longrightarrow> find (\<lambda>y. k y = k x) xs = Some x" for k :: "'a \<Rightarrow> nat"
  by (induction xs) fastforce+

text \<open>The first element that satisfies a predicate has the least key among those that do.\<close>

lemma find_least:
  "\<lbrakk>sorted_wrt (<) (map k xs); find p xs = Some x; y \<in> set xs; p y\<rbrakk> \<Longrightarrow> k x \<le> k y" for k :: "'a \<Rightarrow> nat"
  by (induction xs) (auto split: if_splits dest: find_in less_imp_le)

lemma sorted_map_filter: "sorted_wrt (<) (map k xs) \<Longrightarrow> sorted_wrt (<) (map k (filter p xs))" for k :: "'a \<Rightarrow> nat"
  by (simp add: sorted_wrt_map sorted_wrt_filter)

section \<open>Every operation keeps the invariant\<close>

definition inflight_jobs :: "ledger \<Rightarrow> transfer_job list" where
  "inflight_jobs l = map tk_job (inflight_tasks l)"

lemma has_inflight_iff: "has_inflight l \<longleftrightarrow> inflight_jobs l \<noteq> []"
  by (auto simp: has_inflight_def inflight_id_def inflight_jobs_def inflight_tasks_def find_None_iff
      filter_empty_conv)

lemma ok_single: "ledger_ok l \<Longrightarrow> length (inflight_jobs l) \<le> 1"
  by (simp add: ledger_ok_def inflight_jobs_def)

lemma ok_I:
  assumes "sorted_wrt (<) (map tk_id (lg_tasks l))" "\<And>t. t \<in> set (lg_tasks l) \<Longrightarrow> tk_id t < lg_next_id l \<and> task_ok t"
    "length (inflight_jobs l) \<le> 1"
  shows "ledger_ok l"
  using assms by (auto simp: ledger_ok_def inflight_jobs_def)

lemma enqueue_jobs: "inflight_jobs (snd (enqueue job l)) = inflight_jobs l"
  by (simp add: enqueue_def Let_def inflight_jobs_def inflight_tasks_def)

lemma enqueue_ok: "ledger_ok l \<Longrightarrow> ledger_ok (snd (enqueue job l))"
  by (rule ok_I)
    (auto simp: ledger_ok_def enqueue_def Let_def sorted_wrt_append less_Suc_eq inflight_jobs_def
      inflight_tasks_def task_ok_def)

lemma dispatch_jobs:
  assumes "next_to_dispatch l = (Some i, l')" "inflight_jobs l = []"
  shows "\<exists>t. find (\<lambda>t. tk_state t = Queued) (lg_tasks l) = Some t \<and> i = tk_id t \<and> inflight_jobs l' = [tk_job t]"
proof -
  obtain t where t: "find (\<lambda>t. tk_state t = Queued) (lg_tasks l) = Some t" "i = tk_id t"
      "l' = l\<lparr>lg_tasks := update_first (\<lambda>t. tk_state t = Queued) (tk_state_update (\<lambda>_. InFlight)) (lg_tasks l)\<rparr>"
    using assms(1) by (auto simp: next_to_dispatch_def split: if_splits option.splits)
  have "filter (\<lambda>t. tk_state t = InFlight) (lg_tasks l) = []"
    using assms(2) by (simp add: inflight_jobs_def inflight_tasks_def)
  from filter_update_first_new[OF this t(1), of "tk_state_update (\<lambda>_. InFlight)"] show ?thesis
    using t by (simp add: inflight_jobs_def inflight_tasks_def)
qed

lemma update_first_new: "find p xs = Some x \<Longrightarrow> f x \<in> set (update_first p f xs)"
  by (induction xs) (auto split: if_splits)

lemma dispatch_none: "next_to_dispatch l = (None, l') \<Longrightarrow> l' = l"
  by (auto simp: next_to_dispatch_def split: if_splits option.splits)

lemma dispatch_ids: "map tk_id (lg_tasks (snd (next_to_dispatch l))) = map tk_id (lg_tasks l)"
  by (auto simp: next_to_dispatch_def map_update_first split: option.splits)

lemma dispatch_ok:
  assumes "ledger_ok l" "\<not> has_inflight l"
  shows "ledger_ok (snd (next_to_dispatch l))"
proof (cases "next_to_dispatch l")
  case (Pair r l')
  show ?thesis
  proof (cases r)
    case None
    then show ?thesis using dispatch_none Pair assms(1) by auto
  next
    case (Some i)
    have j: "length (inflight_jobs l') \<le> 1"
      using dispatch_jobs[of l i l'] Pair Some assms(2) by (auto simp: has_inflight_iff)
    have l': "l' = l\<lparr>lg_tasks := update_first (\<lambda>t. tk_state t = Queued) (tk_state_update (\<lambda>_. InFlight)) (lg_tasks l)\<rparr>"
      using Pair Some by (auto simp: next_to_dispatch_def split: if_splits option.splits)
    have "tk_id t < lg_next_id l' \<and> task_ok t" if "t \<in> set (lg_tasks l')" for t
      using that assms(1) unfolding l' by (auto simp: ledger_ok_def task_ok_def dest!: update_first_in)
    then show ?thesis
      using assms(1) j dispatch_ids[of l] Pair by (intro ok_I) (auto simp: ledger_ok_def)
  qed
qed

text \<open>The job handed to the worker is that of the task now in flight.\<close>

lemma dispatch_job:
  assumes "ledger_ok l" "inflight_jobs l = []" "next_to_dispatch l = (Some i, l')"
  shows "\<exists>j. job_for i l' = Some j \<and> inflight_jobs l' = [j]"
proof -
  obtain t where t: "find (\<lambda>t. tk_state t = Queued) (lg_tasks l) = Some t" "i = tk_id t" "inflight_jobs l' = [tk_job t]"
    using dispatch_jobs[OF assms(3,2)] by blast
  have l': "l' = l\<lparr>lg_tasks := update_first (\<lambda>t. tk_state t = Queued) (tk_state_update (\<lambda>_. InFlight)) (lg_tasks l)\<rparr>"
    using assms(3) by (auto simp: next_to_dispatch_def split: if_splits option.splits)
  have "sorted_wrt (<) (map tk_id (lg_tasks l'))"
    using assms(1) dispatch_ids[of l] by (simp add: assms(3) ledger_ok_def)
  from find_key[OF this, of "t\<lparr>tk_state := InFlight\<rparr>"] update_first_new[OF t(1), of "tk_state_update (\<lambda>_. InFlight)"]
  have "job_for i l' = Some (tk_job t)" by (simp add: l' job_for_def t(2))
  then show ?thesis using t(3) by simp
qed

lemma update_ok:
  assumes "ledger_ok l" "\<And>t. t \<in> set (lg_tasks l) \<Longrightarrow> p t \<Longrightarrow> tk_id (f t) = tk_id t \<and> task_ok (f t)"
    "length (inflight_jobs (l\<lparr>lg_tasks := update_first p f (lg_tasks l)\<rparr>)) \<le> 1"
  shows "ledger_ok (l\<lparr>lg_tasks := update_first p f (lg_tasks l)\<rparr>)"
proof (rule ok_I)
  show "sorted_wrt (<) (map tk_id (lg_tasks (l\<lparr>lg_tasks := update_first p f (lg_tasks l)\<rparr>)))"
    using assms(1,2) by (simp add: ledger_ok_def map_update_first)
  show "tk_id t < lg_next_id (l\<lparr>lg_tasks := update_first p f (lg_tasks l)\<rparr>) \<and> task_ok t"
    if "t \<in> set (lg_tasks (l\<lparr>lg_tasks := update_first p f (lg_tasks l)\<rparr>))" for t
    using that assms(1,2) by (auto simp: ledger_ok_def dest!: update_first_in)
qed (rule assms(3))

lemma filter_ok:
  assumes "ledger_ok l"
  shows "ledger_ok (l\<lparr>lg_tasks := filter p (lg_tasks l)\<rparr>)"
proof (rule ok_I)
  have "inflight_tasks (l\<lparr>lg_tasks := filter p (lg_tasks l)\<rparr>) = filter p (inflight_tasks l)"
    by (simp add: inflight_tasks_def conj_commute)
  then show "length (inflight_jobs (l\<lparr>lg_tasks := filter p (lg_tasks l)\<rparr>)) \<le> 1"
    using assms by (auto simp: ledger_ok_def inflight_jobs_def intro: le_trans[OF length_filter_le])
qed (use assms in \<open>auto simp: ledger_ok_def sorted_map_filter\<close>)

lemma progress_ok:
  assumes "ledger_ok l"
  shows "ledger_ok (set_inflight_progress p l)" "inflight_jobs (set_inflight_progress p l) = inflight_jobs l"
proof -
  have j: "inflight_jobs (set_inflight_progress p l) = inflight_jobs l"
    by (auto simp: set_inflight_progress_def inflight_jobs_def inflight_tasks_def map_filter_update_first split: option.splits)
  show "ledger_ok (set_inflight_progress p l)"
  proof (cases "find (\<lambda>t. tk_state t = InFlight) (lg_tasks l)")
    case None
    then show ?thesis using assms by (simp add: set_inflight_progress_def inflight_id_def)
  next
    case (Some t)
    have "t' = t" if "t' \<in> set (lg_tasks l)" "tk_id t' = tk_id t" for t'
      using find_key[of tk_id "lg_tasks l"] that find_in[OF Some] assms by (metis ledger_ok_def option.inject)
    moreover have s: "set_inflight_progress p l
        = l\<lparr>lg_tasks := update_first (\<lambda>t'. tk_id t' = tk_id t) (tk_progress_update (\<lambda>_. Some p)) (lg_tasks l)\<rparr>"
      using Some by (simp add: set_inflight_progress_def inflight_id_def)
    ultimately show ?thesis
      unfolding s using assms find_in[OF Some] j ok_single[OF assms]
      by (intro update_ok) (auto simp: ledger_ok_def task_ok_def s)
  qed
  show "inflight_jobs (set_inflight_progress p l) = inflight_jobs l" by (rule j)
qed

lemma finish_ok:
  assumes "ledger_ok l"
  shows "ledger_ok (finish_inflight out l)" "inflight_jobs (finish_inflight out l) = []"
proof -
  show j: "inflight_jobs (finish_inflight out l) = []"
    using assms filter_update_first_gone[of "\<lambda>t. tk_state t = InFlight" "lg_tasks l"]
    by (simp add: finish_inflight_def inflight_jobs_def inflight_tasks_def ledger_ok_def)
  show "ledger_ok (finish_inflight out l)"
    unfolding finish_inflight_def using assms j
    by (intro update_ok) (auto simp: ledger_ok_def task_ok_def finish_inflight_def)
qed

lemma retry_ok:
  assumes "ledger_ok l"
  shows "ledger_ok (snd (retry i l))" "inflight_jobs (snd (retry i l)) = inflight_jobs l"
proof -
  have u: "t' = t" if "find (\<lambda>t. tk_id t = i) (lg_tasks l) = Some t" "t' \<in> set (lg_tasks l)" "tk_id t' = i" for t t'
    using find_key[of tk_id "lg_tasks l" t'] that assms by (simp add: ledger_ok_def)
  show j: "inflight_jobs (snd (retry i l)) = inflight_jobs l"
  proof (cases "find (\<lambda>t. tk_id t = i) (lg_tasks l)")
    case (Some t)
    have "tk_state t' \<noteq> InFlight"
      if "is_retryable (tk_state t)" "t' \<in> set (lg_tasks l)" "tk_id t' = i" for t'
      using u[OF Some that(2,3)] that(1) by (auto simp: is_retryable_def)
    then show ?thesis
      using Some by (simp add: retry_def inflight_jobs_def inflight_tasks_def map_filter_update_first)
  qed (simp add: retry_def)
  show "ledger_ok (snd (retry i l))"
  proof (cases "fst (retry i l)")
    case True
    then have r: "snd (retry i l) = l\<lparr>lg_tasks := update_first (\<lambda>t. tk_id t = i)
        (\<lambda>t. t\<lparr>tk_state := Queued, tk_progress := None\<rparr>) (lg_tasks l)\<rparr>"
      by (auto simp: retry_def split: option.splits if_splits)
    show ?thesis
      unfolding r using assms j ok_single[OF assms] r by (intro update_ok) (auto simp: ledger_ok_def task_ok_def)
  next
    case False
    then show ?thesis using assms by (auto simp: retry_def split: option.splits if_splits)
  qed
qed

lemma remove_ok:
  assumes "ledger_ok l"
  shows "ledger_ok (snd (remove i l))" "inflight_jobs (snd (remove i l)) = inflight_jobs l"
proof -
  show "ledger_ok (snd (remove i l))"
    using assms filter_ok[of l "\<lambda>t. tk_id t \<noteq> i"] by (simp add: remove_def Let_def)
  show "inflight_jobs (snd (remove i l)) = inflight_jobs l"
    by (auto simp: remove_def Let_def inflight_jobs_def inflight_tasks_def list_ex_iff
        intro!: arg_cong[of _ _ "map tk_job"] filter_cong)
qed

lemma clear_ok:
  assumes "ledger_ok l"
  shows "ledger_ok (clear_queued l)" "inflight_jobs (clear_queued l) = inflight_jobs l"
  using assms filter_ok[of l "\<lambda>t. tk_state t \<noteq> Queued"]
  by (auto simp: clear_queued_def inflight_jobs_def inflight_tasks_def
      intro!: arg_cong[of _ _ "map tk_job"] filter_cong)

lemma abort_ok:
  assumes "ledger_ok l"
  shows "ledger_ok (abort_inflight l)" "inflight_jobs (abort_inflight l) = []"
  using assms filter_ok[of l "\<lambda>t. tk_state t \<noteq> InFlight"]
  by (simp_all add: abort_inflight_def inflight_jobs_def inflight_tasks_def)

lemma toggle_ok:
  "ledger_ok (toggle_paused l) = ledger_ok l" "inflight_jobs (toggle_paused l) = inflight_jobs l"
  by (simp_all add: toggle_paused_def ledger_ok_def inflight_jobs_def inflight_tasks_def)

lemma new_ok: "ledger_ok ledger_new" "inflight_jobs ledger_new = []"
  by (simp_all add: ledger_new_def ledger_ok_def inflight_tasks_def inflight_jobs_def)

lemmas ledger_ok_rules = new_ok enqueue_ok dispatch_ok progress_ok(1) finish_ok(1) retry_ok(1) remove_ok(1)
  clear_ok(1) abort_ok(1)

end
