(* ===== verification/Transfer_Queue.thy ===== *)
theory Transfer_Queue
  imports Ledger Tui_Keys
begin

text \<open>The popups of the transfer screen: the queue manager (\<^verbatim>\<open>tui/transfer/queue_overlay.rs\<close>), the
quit confirmation (\<^verbatim>\<open>close_confirm.rs\<close>) and the overwrite decision (\<^verbatim>\<open>overwrite.rs\<close>).\<close>

datatype screen_outcome = ScContinue | ScCloseTransfer | ScCancelActive | ScEnqueue | ScHostKeyConfirm bool

section \<open>Views of the ledger\<close>

datatype queue_view = ViewActive | ViewFailed | ViewCompleted

definition view_index :: "queue_view \<Rightarrow> nat" where
  "view_index v = (case v of ViewActive \<Rightarrow> 0 | ViewFailed \<Rightarrow> 1 | ViewCompleted \<Rightarrow> 2)"

definition view_next :: "queue_view \<Rightarrow> queue_view" where
  "view_next v = (case v of ViewActive \<Rightarrow> ViewFailed | ViewFailed \<Rightarrow> ViewCompleted | ViewCompleted \<Rightarrow> ViewActive)"

definition view_prev :: "queue_view \<Rightarrow> queue_view" where
  "view_prev v = (case v of ViewActive \<Rightarrow> ViewCompleted | ViewFailed \<Rightarrow> ViewActive | ViewCompleted \<Rightarrow> ViewFailed)"

definition indices_where :: "(task_state \<Rightarrow> bool) \<Rightarrow> ledger \<Rightarrow> nat list" where
  "indices_where p l = filter (\<lambda>i. p (tk_state (lg_tasks l ! i))) [0..<length (lg_tasks l)]"

definition is_failed :: "task_state \<Rightarrow> bool" where
  "is_failed s = (case s of Done (TransferFailed _) \<Rightarrow> True | _ \<Rightarrow> False)"

definition task_indices_for :: "ledger \<Rightarrow> queue_view \<Rightarrow> nat list" where
  "task_indices_for l view =
     (case view of
        ViewActive \<Rightarrow> indices_where (\<lambda>s. s = InFlight) l @ indices_where (\<lambda>s. s = Queued) l
      | ViewFailed \<Rightarrow> indices_where is_failed l @ indices_where (\<lambda>s. s = Done TransferCancelled) l
      | ViewCompleted \<Rightarrow> indices_where (\<lambda>s. s = Done TransferOk) l)"

section \<open>The queue manager\<close>

text \<open>The cursors are an array of three.\<close>

record queue_overlay =
  qo_view :: queue_view
  qo_cursors :: "nat list"
  qo_closed :: bool

definition overlay_new :: queue_overlay where
  "overlay_new = \<lparr>qo_view = ViewActive, qo_cursors = [0, 0, 0], qo_closed = False\<rparr>"

definition current_cursor :: "queue_overlay \<Rightarrow> nat" where
  "current_cursor q = qo_cursors q ! view_index (qo_view q)"

definition set_current_cursor :: "nat \<Rightarrow> queue_overlay \<Rightarrow> queue_overlay" where
  "set_current_cursor v q = q\<lparr>qo_cursors := (qo_cursors q)[view_index (qo_view q) := v]\<rparr>"

definition overlay_clamp :: "ledger \<Rightarrow> queue_overlay \<Rightarrow> queue_overlay" where
  "overlay_clamp l q =
     (let n = length (task_indices_for l (qo_view q)); c = current_cursor q
      in set_current_cursor (if n = 0 then 0 else if n \<le> c then n - 1 else c) q)"

definition selected_task_index :: "ledger \<Rightarrow> queue_overlay \<Rightarrow> nat option" where
  "selected_task_index l q =
     (let is = task_indices_for l (qo_view q); c = current_cursor q
      in if c < length is then Some (is ! c) else None)"

definition remove_selected :: "ledger \<Rightarrow> queue_overlay \<Rightarrow> screen_outcome \<times> queue_overlay \<times> ledger" where
  "remove_selected l q =
     (case selected_task_index l q of
        None \<Rightarrow> (ScContinue, q, l)
      | Some ti \<Rightarrow>
          (let t = lg_tasks l ! ti
           in if tk_state t = InFlight then (ScCancelActive, q, l)
              else (let l = snd (remove (tk_id t) l) in (ScContinue, overlay_clamp l q, l))))"

definition queue_on_key :: "key_event \<Rightarrow> queue_overlay \<Rightarrow> ledger \<Rightarrow> screen_outcome \<times> queue_overlay \<times> ledger" where
  "queue_on_key key q0 l =
     (if ke_kind key \<noteq> Press then (ScContinue, q0, l)
      else
        (let q = overlay_clamp l q0;
             n = length (task_indices_for l (qo_view q));
             c = current_cursor q;
             up = (ScContinue, if 0 < c then set_current_cursor (c - 1) q else q, l);
             down = (ScContinue, if c + 1 < n then set_current_cursor (c + 1) q else q, l);
             again = (case selected_task_index l q of
                None \<Rightarrow> (ScContinue, q, l)
              | Some ti \<Rightarrow>
                  (let (ok, l) = retry (tk_id (lg_tasks l ! ti)) l in (if ok then ScEnqueue else ScContinue, q, l)))
         in case ke_code key of
              KeyEsc \<Rightarrow> (ScContinue, q\<lparr>qo_closed := True\<rparr>, l)
            | KeyTab \<Rightarrow> (ScContinue, overlay_clamp l (q\<lparr>qo_view := view_next (qo_view q)\<rparr>), l)
            | KeyBackTab \<Rightarrow> (ScContinue, overlay_clamp l (q\<lparr>qo_view := view_prev (qo_view q)\<rparr>), l)
            | KeyUp \<Rightarrow> up
            | KeyDown \<Rightarrow> down
            | KeyEnter \<Rightarrow> again
            | KeyDelete \<Rightarrow> remove_selected l q
            | KeyChar ch \<Rightarrow>
                if ch = CHR ''k'' then up
                else if ch = CHR ''j'' then down
                else if ch = CHR ''r'' then again
                else if ch = CHR ''d'' \<or> ch = CHR ''c'' then remove_selected l q
                else if ch = CHR ''p''
                then (let l = toggle_paused l
                      in (if \<not> lg_paused l \<and> 0 < pending_count l \<and> \<not> has_inflight l then ScEnqueue else ScContinue, q, l))
                else (ScContinue, q, l)
            | _ \<Rightarrow> (ScContinue, q, l)))"

section \<open>The quit confirmation\<close>

record close_confirm =
  cc_direction :: direction
  cc_name :: string
  cc_closed :: bool

definition close_confirm_new :: "direction \<Rightarrow> string \<Rightarrow> close_confirm" where
  "close_confirm_new dir name = \<lparr>cc_direction = dir, cc_name = name, cc_closed = False\<rparr>"

definition close_confirm_on_key :: "key_event \<Rightarrow> close_confirm \<Rightarrow> screen_outcome \<times> close_confirm" where
  "close_confirm_on_key key cc =
     (if ke_kind key \<noteq> Press then (ScContinue, cc)
      else if ke_code key \<in> {KeyEnter, KeyChar (CHR ''y''), KeyChar (CHR ''Y'')} then (ScCloseTransfer, cc)
      else if ke_code key \<in> {KeyEsc, KeyChar (CHR ''n''), KeyChar (CHR ''N'')} then (ScContinue, cc\<lparr>cc_closed := True\<rparr>)
      else (ScContinue, cc))"

section \<open>The overwrite decision\<close>

datatype overwrite_choice = ChoiceOverwrite | ChoiceSkip | ChoiceOverwriteAll | ChoiceSkipAll | ChoiceCancel

definition decide :: "overwrite_policy \<Rightarrow> bool \<Rightarrow> overwrite_choice" where
  "decide policy dest_exists =
     (case policy of
        Overwrite \<Rightarrow> ChoiceOverwrite | Skip \<Rightarrow> ChoiceSkip | OverwriteAll \<Rightarrow> ChoiceOverwrite | SkipAll \<Rightarrow> ChoiceSkip)"

section \<open>Facts\<close>

lemma view_cycle [simp]: "view_prev (view_next v) = v" "view_next (view_prev v) = v"
  by (cases v; simp add: view_next_def view_prev_def)+

text \<open>Every task is on exactly one view, and once.\<close>

lemma indices_set: "set (indices_where p l) = {i. i < length (lg_tasks l) \<and> p (tk_state (lg_tasks l ! i))}"
  by (auto simp: indices_where_def)

lemma indices_distinct: "distinct (indices_where p l)"
  by (simp add: indices_where_def)

lemma view_of_task:
  "i \<in> set (task_indices_for l v) \<longleftrightarrow> i < length (lg_tasks l)
     \<and> v = (case tk_state (lg_tasks l ! i) of
              Done TransferOk \<Rightarrow> ViewCompleted | Done _ \<Rightarrow> ViewFailed | _ \<Rightarrow> ViewActive)"
  by (cases v) (auto simp: task_indices_for_def indices_set is_failed_def split: task_state.splits transfer_outcome.splits)

lemma view_distinct: "distinct (task_indices_for l v)"
  by (cases v) (auto simp: task_indices_for_def indices_distinct indices_set is_failed_def)

text \<open>A key keeps the ledger in order, leaves the task in flight alone and only asks for a dispatch when a
task waits.\<close>

lemma remove_selected_ledger:
  assumes "ledger_ok l" "remove_selected l q = (out, q', l')"
  shows "ledger_ok l' \<and> inflight_jobs l' = inflight_jobs l \<and> out \<in> {ScContinue, ScCancelActive}"
  using assms remove_ok[OF assms(1)]
  by (auto simp: remove_selected_def Let_def split: option.splits if_splits)

lemma queue_key_ledger:
  assumes "ledger_ok l" "queue_on_key key q l = (out, q', l')"
  shows "ledger_ok l' \<and> inflight_jobs l' = inflight_jobs l \<and> out \<in> {ScContinue, ScCancelActive, ScEnqueue}"
proof -
  have r: "ledger_ok l2 \<and> inflight_jobs l2 = inflight_jobs l" if "retry i l = (b, l2)" for i b l2
    using retry_ok[OF assms(1), of i] that by simp
  have d: "ledger_ok l2 \<and> inflight_jobs l2 = inflight_jobs l \<and> out2 \<in> {ScContinue, ScCancelActive}"
    if "remove_selected l q1 = (out2, q2, l2)" for q1 out2 q2 l2
    using remove_selected_ledger[OF assms(1) that] .
  show ?thesis
    using assms(2) assms(1) toggle_ok[of l]
    by (auto simp: queue_on_key_def Let_def split: if_splits key_code.splits option.splits prod.splits dest!: d r)
qed

text \<open>Cancelling is only asked for while a task is in flight.\<close>

lemma remove_selected_cancel: "fst (remove_selected l q) = ScCancelActive \<Longrightarrow> has_inflight l"
proof -
  assume "fst (remove_selected l q) = ScCancelActive"
  then obtain ti where "selected_task_index l q = Some ti" "tk_state (lg_tasks l ! ti) = InFlight"
    by (auto simp: remove_selected_def Let_def split: option.splits if_splits)
  moreover from this(1) have "ti < length (lg_tasks l)"
    using view_of_task[of ti l "qo_view q"] by (auto simp: selected_task_index_def Let_def split: if_splits)
  ultimately show ?thesis
    by (auto simp: has_inflight_iff inflight_jobs_def inflight_tasks_def filter_empty_conv)
qed

end
