(* ===== verification/Transfer_Screen.thy ===== *)
theory Transfer_Screen
  imports Browser_Core Transfer_Queue
begin

text \<open>The transfer screen: its state and key router (\<^verbatim>\<open>tui/transfer/screen.rs\<close>) and the dispatch of
cross-directory find (\<^verbatim>\<open>tui/transfer/search_dispatch.rs\<close>).  The receiver of a search and its cancel
flag are the number of the search; the flags that are set are kept beside the screen's fields, since the flag is
shared with the thread of the search.\<close>

section \<open>State\<close>

record status_line =
  st_message :: "string option"
  st_is_error :: bool

definition status_empty :: status_line where
  "status_empty = \<lparr>st_message = None, st_is_error = False\<rparr>"

definition status_info :: "string \<Rightarrow> status_line" where
  "status_info msg = \<lparr>st_message = Some msg, st_is_error = False\<rparr>"

definition status_error :: "string \<Rightarrow> status_line" where
  "status_error msg = \<lparr>st_message = Some msg, st_is_error = True\<rparr>"

datatype connect_state = Connecting | Connected | ConnectFailed

record host_key_prompt =
  hkp_host :: string
  hkp_fingerprint :: string

record transfer_screen =
  sc_local :: pane
  sc_remote :: pane
  sc_remote_title :: string
  sc_focus :: side
  sc_ledger :: ledger
  sc_status :: status_line
  sc_pending_list :: "(side \<times> string) option"
  sc_overwrite_policy :: "overwrite_policy option"
  sc_queue_overlay :: "queue_overlay option"
  sc_close_confirm :: "close_confirm option"
  sc_host_key :: "host_key_prompt option"
  sc_pending_search :: "(side \<times> parsed_query) option"
  sc_search_rx :: "nat option"
  sc_search_cancel :: "nat option"
  sc_search_gen :: "32 word"
  sc_search_side :: "side option"
  sc_remote_home :: "string option"
  sc_connect :: connect_state
  sc_spinner :: "64 word"
  sc_flags :: "nat set"

definition screen_new :: "string \<Rightarrow> string \<Rightarrow> transfer_screen" where
  "screen_new local_cwd remote_cwd =
     \<lparr>sc_local = pane_new local_cwd, sc_remote = pane_new remote_cwd, sc_remote_title = ''remote'', sc_focus = LocalSide,
      sc_ledger = ledger_new, sc_status = status_empty, sc_pending_list = None, sc_overwrite_policy = None,
      sc_queue_overlay = None, sc_close_confirm = None, sc_host_key = None, sc_pending_search = None,
      sc_search_rx = None, sc_search_cancel = None, sc_search_gen = 0, sc_search_side = None, sc_remote_home = None,
      sc_connect = Connecting, sc_spinner = 0, sc_flags = {}\<rparr>"

definition pane_of :: "side \<Rightarrow> transfer_screen \<Rightarrow> pane" where
  "pane_of s sc = (case s of LocalSide \<Rightarrow> sc_local sc | RemoteSide \<Rightarrow> sc_remote sc)"

definition on_pane :: "side \<Rightarrow> (pane \<Rightarrow> pane) \<Rightarrow> transfer_screen \<Rightarrow> transfer_screen" where
  "on_pane s f sc =
     (case s of LocalSide \<Rightarrow> sc\<lparr>sc_local := f (sc_local sc)\<rparr> | RemoteSide \<Rightarrow> sc\<lparr>sc_remote := f (sc_remote sc)\<rparr>)"

definition other_side :: "side \<Rightarrow> side" where
  "other_side s = (case s of LocalSide \<Rightarrow> RemoteSide | RemoteSide \<Rightarrow> LocalSide)"

definition focused_pane :: "transfer_screen \<Rightarrow> pane" where
  "focused_pane sc = pane_of (sc_focus sc) sc"

section \<open>Setters and the ledger\<close>

definition is_searching :: "pane \<Rightarrow> bool" where
  "is_searching p = (case pn_search p of Some s \<Rightarrow> ps_searching s | None \<Rightarrow> False)"

definition advance_spinner :: "transfer_screen \<Rightarrow> transfer_screen" where
  "advance_spinner sc =
     (if is_searching (sc_local sc) \<or> is_searching (sc_remote sc) then sc\<lparr>sc_spinner := sc_spinner sc + 1\<rparr> else sc)"

definition set_active :: "progress option \<Rightarrow> transfer_screen \<Rightarrow> transfer_screen" where
  "set_active p sc = (case p of Some x \<Rightarrow> sc\<lparr>sc_ledger := set_inflight_progress x (sc_ledger sc)\<rparr> | None \<Rightarrow> sc)"

definition set_status :: "status_line \<Rightarrow> transfer_screen \<Rightarrow> transfer_screen" where
  "set_status s sc = sc\<lparr>sc_status := s\<rparr>"

definition set_loading :: "bool \<Rightarrow> pane \<Rightarrow> pane" where
  "set_loading b p = p\<lparr>pn_loading := b\<rparr>"

definition apply_remote_listing ::
  "ranking \<Rightarrow> string \<Rightarrow> string + dir_entry list \<Rightarrow> transfer_screen \<Rightarrow> transfer_screen" where
  "apply_remote_listing rk listed_cwd res sc =
     (case res of
        Inr es \<Rightarrow>
          if components (bc_cwd (pn_core (sc_remote sc))) = components listed_cwd
          then on_pane RemoteSide (\<lambda>p. set_loading False (pane_set_entries rk es p)) sc
          else sc
      | Inl msg \<Rightarrow>
          set_status (status_error (''remote list failed: '' @ msg))
            (on_pane RemoteSide (\<lambda>p. set_loading False (pane_revert_switch rk p)) sc))"

definition request_close :: "transfer_screen \<Rightarrow> screen_outcome \<times> transfer_screen" where
  "request_close sc =
     (case (sc_close_confirm sc, Option.bind (inflight_id (sc_ledger sc)) (\<lambda>i. job_for i (sc_ledger sc))) of
        (None, Some job) \<Rightarrow>
          (ScContinue, sc\<lparr>sc_close_confirm := Some (close_confirm_new (tj_direction job) (tj_name job))\<rparr>)
      | _ \<Rightarrow> (ScCloseTransfer, sc))"

definition flip_focus :: "transfer_screen \<Rightarrow> transfer_screen" where
  "flip_focus sc = sc\<lparr>sc_focus := other_side (sc_focus sc)\<rparr>"

definition next_job :: "transfer_screen \<Rightarrow> transfer_job option \<times> transfer_screen" where
  "next_job sc =
     (case next_to_dispatch (sc_ledger sc) of
        (None, l) \<Rightarrow> (None, sc\<lparr>sc_ledger := l\<rparr>)
      | (Some i, l) \<Rightarrow> (job_for i l, sc\<lparr>sc_ledger := l\<rparr>))"

definition on_ledger :: "(ledger \<Rightarrow> ledger) \<Rightarrow> transfer_screen \<Rightarrow> transfer_screen" where
  "on_ledger f sc = sc\<lparr>sc_ledger := f (sc_ledger sc)\<rparr>"

section \<open>Enqueueing\<close>

text \<open>The part of the file name of a path, or the whole path when it has none.\<close>

definition base_name :: "string \<Rightarrow> string" where
  "base_name path = (case last_normal path of Some n \<Rightarrow> n | None \<Rightarrow> path)"

definition focus_direction :: "side \<Rightarrow> direction" where
  "focus_direction s = (case s of LocalSide \<Rightarrow> Upload | RemoteSide \<Rightarrow> Download)"

definition trim_end_slashes :: "string \<Rightarrow> string" where
  "trim_end_slashes s = rev (dropWhile (\<lambda>c. c = CHR ''/'') (rev s))"

definition entry_job :: "direction \<Rightarrow> string \<Rightarrow> dir_entry \<Rightarrow> transfer_job" where
  "entry_job dir dst_cwd e =
     \<lparr>tj_direction = dir, tj_src = de_path e, tj_dst = path_join dst_cwd (base_name (de_path e)),
      tj_name = trim_end_slashes (de_name e), tj_size_total = de_size e, tj_recursive = de_is_dir e\<rparr>"

definition marked_entries :: "browser_core \<Rightarrow> dir_entry list" where
  "marked_entries c =
     (if bc_marked c \<noteq> {} then filter (\<lambda>e. components (de_path e) \<in> bc_marked c) (bc_entries c)
      else case selected_entry c of Some e \<Rightarrow> [e] | None \<Rightarrow> [])"

definition enqueue_from_focused :: "transfer_screen \<Rightarrow> screen_outcome \<times> transfer_screen" where
  "enqueue_from_focused sc =
     (let focus = sc_focus sc;
          dst_cwd = bc_cwd (pn_core (pane_of (other_side focus) sc));
          specs = marked_entries (pn_core (focused_pane sc))
      in if specs = [] then (ScContinue, sc)
         else
           (let sc = on_pane focus (on_core (\<lambda>c. c\<lparr>bc_marked := {}\<rparr>)) sc
            in (ScEnqueue, on_ledger (fold (\<lambda>e l. snd (enqueue (entry_job (focus_direction focus) dst_cwd e) l)) specs) sc)))"

definition enqueue_from_search :: "transfer_screen \<Rightarrow> screen_outcome \<times> transfer_screen" where
  "enqueue_from_search sc =
     (case Option.bind (pn_search (focused_pane sc)) search_selected of
        None \<Rightarrow> (ScContinue, sc)
      | Some m \<Rightarrow>
          (let focus = sc_focus sc;
               dst_cwd = bc_cwd (pn_core (pane_of (other_side focus) sc));
               name = base_name (pm_path m)
           in (ScEnqueue, on_ledger (\<lambda>l. snd (enqueue
                 \<lparr>tj_direction = focus_direction focus, tj_src = pm_path m, tj_dst = path_join dst_cwd name,
                  tj_name = name, tj_size_total = None, tj_recursive = pm_is_dir m\<rparr> l)) sc)))"

definition enqueue_focused :: "transfer_screen \<Rightarrow> screen_outcome \<times> transfer_screen" where
  "enqueue_focused sc =
     (if pn_search (focused_pane sc) \<noteq> None then enqueue_from_search sc else enqueue_from_focused sc)"

section \<open>Find\<close>

definition reset_results :: "pane_search \<Rightarrow> pane_search" where
  "reset_results s = s\<lparr>ps_results := [], ps_cursor := 0, ps_current_dir := None\<rparr>"

definition search_apply :: "search_event \<Rightarrow> pane_search \<Rightarrow> pane_search" where
  "search_apply ev s0 =
     (let s = (if ps_results_gen s0 \<noteq> Some (se_gen ev) then reset_results s0 else s0);
          gen = Some (se_gen ev)
      in case se_kind ev of
           EvMatch m \<Rightarrow>
             (let rs = rank_matches (ps_results s @ [m])
              in s\<lparr>ps_results := rs, ps_cursor := (if length rs \<le> ps_cursor s then length rs - 1 else ps_cursor s),
                   ps_results_gen := gen\<rparr>)
         | EvSearchDone \<Rightarrow> s\<lparr>ps_searching := False, ps_results_gen := gen\<rparr>
         | EvSearchError msg \<Rightarrow>
             (reset_results s0)\<lparr>ps_searching := False, ps_error := Some msg, ps_results_gen := gen\<rparr>
         | EvDrilled dir \<Rightarrow>
             s\<lparr>ps_current_dir := (if ps_current_dir s = None
                  then Some \<lparr>pm_path = dir, pm_is_dir = True, pm_seg_matches = []\<rparr> else None),
               ps_results_gen := gen\<rparr>)"

definition apply_search_event :: "side \<Rightarrow> search_event \<Rightarrow> transfer_screen \<Rightarrow> transfer_screen" where
  "apply_search_event s ev sc =
     (if se_gen ev \<noteq> sc_search_gen sc then sc
      else on_pane s (\<lambda>p. p\<lparr>pn_search := map_option (search_apply ev) (pn_search p)\<rparr>) sc)"

definition search_request :: "string option \<Rightarrow> side \<Rightarrow> string \<Rightarrow> transfer_screen \<Rightarrow> transfer_screen" where
  "search_request local_home s query sc =
     (if query = [] then on_pane s (\<lambda>p. p\<lparr>pn_search := None\<rparr>) sc
      else
        (let cwd = bc_cwd (pn_core (pane_of s sc));
             home = (case s of LocalSide \<Rightarrow> local_home | RemoteSide \<Rightarrow> sc_remote_home sc);
             parsed = parse_query query cwd home;
             is_filter = (\<not> pq_trailing_slash parsed \<and> length (pq_segments parsed) = 1
                          \<and> components (pq_base parsed) = components cwd);
             find_mode = (\<lambda>p. p\<lparr>pn_search := Some ((case pn_search p of Some x \<Rightarrow> x | None \<Rightarrow> search_empty)
                            \<lparr>ps_searching := True, ps_error := None\<rparr>)\<rparr>)
         in (on_pane s (if is_filter then (\<lambda>p. p\<lparr>pn_search := None\<rparr>) else find_mode) sc)
              \<lparr>sc_pending_search := (if is_filter then None else Some (s, parsed))\<rparr>))"

text \<open>The typed text up to the last slash.\<close>

definition typed_prefix :: "string \<Rightarrow> string" where
  "typed_prefix q = (case rsplit_once (CHR ''/'') q of Some (a, _) \<Rightarrow> a @ ''/'' | None \<Rightarrow> [])"

definition completion_for_focused :: "transfer_screen \<Rightarrow> string option" where
  "completion_for_focused sc =
     (let p = focused_pane sc; q = bc_query (pn_core p);
          done = (\<lambda>name is_dir. typed_prefix q @ name @ (if is_dir then ''/'' else []))
      in if q = [] then None
         else case pn_search p of
           Some s \<Rightarrow>
             if ps_searching s \<or> on_dot s then None
             else Option.bind (search_selected s)
                    (\<lambda>m. map_option (\<lambda>name. done name (pm_is_dir m)) (last_normal (pm_path m)))
         | None \<Rightarrow> map_option (\<lambda>e. done (trim_end_slashes (de_name e)) (de_is_dir e)) (selected_entry (pn_core p)))"

definition complete_focused :: "ranking \<Rightarrow> string option \<Rightarrow> transfer_screen \<Rightarrow> bool \<times> transfer_screen" where
  "complete_focused rk local_home sc =
     (case completion_for_focused sc of
        None \<Rightarrow> (False, sc)
      | Some q \<Rightarrow>
          (True, search_request local_home (sc_focus sc) q
             (on_pane (sc_focus sc) (on_core (\<lambda>c. recompute rk (c\<lparr>bc_query := q\<rparr>))) sc)))"

definition jump_to_search_result :: "ranking \<Rightarrow> transfer_screen \<Rightarrow> screen_outcome \<times> transfer_screen" where
  "jump_to_search_result rk sc =
     (case Option.bind (pn_search (focused_pane sc)) search_selected of
        None \<Rightarrow> (ScContinue, sc)
      | Some m \<Rightarrow>
          if \<not> pm_is_dir m then (ScContinue, sc)
          else
            (ScContinue,
             (on_pane (sc_focus sc) (\<lambda>p. on_core (\<lambda>c. recompute rk (c\<lparr>bc_query := []\<rparr>)) (p\<lparr>pn_search := None\<rparr>)) sc)
               \<lparr>sc_pending_list := Some (sc_focus sc, pm_path m)\<rparr>))"

definition stop_searching :: "pane \<Rightarrow> pane" where
  "stop_searching p = p\<lparr>pn_search := map_option (\<lambda>s. s\<lparr>ps_searching := False\<rparr>) (pn_search p)\<rparr>"

definition begin_search :: "side \<Rightarrow> transfer_screen \<Rightarrow> transfer_screen" where
  "begin_search s sc =
     (let sc = (case sc_search_side sc of
                  Some prev \<Rightarrow> if prev \<noteq> s then on_pane prev stop_searching sc else sc
                | None \<Rightarrow> sc)
      in sc\<lparr>sc_search_side := Some s\<rparr>)"

definition clear_query :: "ranking \<Rightarrow> side \<Rightarrow> transfer_screen \<Rightarrow> transfer_screen" where
  "clear_query rk s sc = on_pane s (on_core (\<lambda>c. clamp_selected (recompute rk (c\<lparr>bc_query := []\<rparr>)))) sc"

definition cancel_search :: "ranking \<Rightarrow> transfer_screen \<Rightarrow> transfer_screen" where
  "cancel_search rk sc =
     (let flags = (case sc_search_cancel sc of Some i \<Rightarrow> insert i (sc_flags sc) | None \<Rightarrow> sc_flags sc);
          target = (case sc_search_side sc of Some s \<Rightarrow> s | None \<Rightarrow> sc_focus sc);
          sc = sc\<lparr>sc_flags := flags, sc_search_rx := None, sc_search_cancel := None, sc_pending_search := None\<rparr>;
          sc = clear_query rk target (on_pane target (\<lambda>p. p\<lparr>pn_search := None\<rparr>) sc)
      in sc\<lparr>sc_search_side := None\<rparr>)"

section \<open>Keys\<close>

definition route_to_focused ::
  "ranking \<Rightarrow> string option \<Rightarrow> key_event \<Rightarrow> transfer_screen \<Rightarrow> screen_outcome \<times> transfer_screen" where
  "route_to_focused rk home key sc0 =
     (let focus = sc_focus sc0;
          (out, p) = pane_on_key rk home key (focused_pane sc0);
          sc = on_pane focus (\<lambda>_. p) sc0
      in case out of
           PaneQueryChanged \<Rightarrow> (ScContinue, search_request home focus (bc_query (pn_core p)) sc)
         | PaneNone \<Rightarrow> (ScContinue, sc)
         | PaneToggleMark _ \<Rightarrow> (ScContinue, sc)
         | PaneActivateSelected \<Rightarrow> enqueue_from_focused sc
         | PaneStepInto path \<Rightarrow> (ScContinue, sc\<lparr>sc_pending_list := Some (focus, path)\<rparr>)
         | PaneStepUp \<Rightarrow>
             (ScContinue,
              case path_parent (bc_cwd (pn_core p)) of
                Some d \<Rightarrow> sc\<lparr>sc_pending_list := Some (focus, d)\<rparr>
              | None \<Rightarrow> sc)
         | PaneRequestList path \<Rightarrow> (ScContinue, sc\<lparr>sc_pending_list := Some (focus, path)\<rparr>))"

text \<open>The keys of a connected screen without a popup.\<close>

definition browse_key ::
  "ranking \<Rightarrow> string option \<Rightarrow> key_event \<Rightarrow> transfer_screen \<Rightarrow> screen_outcome \<times> transfer_screen" where
  "browse_key rk home key sc =
     (let ctrl = ke_ctrl key; in_search = (pn_search (focused_pane sc) \<noteq> None); code = ke_code key
      in if code = KeyBackTab \<and> \<not> ctrl then (ScContinue, flip_focus sc)
         else if code = KeyTab \<and> \<not> ctrl
         then (let (completed, sc) = complete_focused rk home sc
               in (ScContinue, if \<not> completed \<and> pn_search (focused_pane sc) = None then flip_focus sc else sc))
         else if code = KeyEnter \<and> ctrl then enqueue_focused sc
         else if code = KeyChar (CHR ''s'') \<and> ctrl then enqueue_focused sc
         else if code = KeyEsc
         then (if in_search then (ScContinue, cancel_search rk sc)
               else if bc_query (pn_core (focused_pane sc)) \<noteq> [] then (ScContinue, clear_query rk (sc_focus sc) sc)
               else request_close sc)
         else if code = KeyChar (CHR ''c'') \<and> ctrl then request_close sc
         else if code = KeyChar (CHR ''q'') \<and> ctrl
         then (ScContinue, sc\<lparr>sc_queue_overlay := Some (case sc_queue_overlay sc of Some q \<Rightarrow> q | None \<Rightarrow> overlay_new)\<rparr>)
         else if code = KeyEnter \<and> in_search
         then (case Option.bind (pn_search (focused_pane sc)) search_selected of
                 Some m \<Rightarrow> if pm_is_dir m then jump_to_search_result rk sc else enqueue_focused sc
               | None \<Rightarrow> enqueue_focused sc)
         else route_to_focused rk home key sc)"

definition host_key_answer :: "key_code \<Rightarrow> bool option" where
  "host_key_answer code =
     (if code \<in> {KeyEnter, KeyChar (CHR ''y''), KeyChar (CHR ''Y'')} then Some True
      else if code \<in> {KeyChar (CHR ''n''), KeyChar (CHR ''N''), KeyEsc} then Some False
      else None)"

definition screen_on_key ::
  "ranking \<Rightarrow> string option \<Rightarrow> key_event \<Rightarrow> transfer_screen \<Rightarrow> screen_outcome \<times> transfer_screen" where
  "screen_on_key rk home key sc =
     (if ke_kind key \<noteq> Press then (ScContinue, sc)
      else case sc_host_key sc of
        Some _ \<Rightarrow>
          (case host_key_answer (ke_code key) of
             Some decision \<Rightarrow> (ScHostKeyConfirm decision, sc\<lparr>sc_host_key := None\<rparr>)
           | None \<Rightarrow> (ScContinue, sc))
      | None \<Rightarrow>
          if sc_connect sc \<noteq> Connected
          then (if ke_code key = KeyEsc \<or> ke_ctrl key \<and> ke_code key = KeyChar (CHR ''c'') then (ScCloseTransfer, sc)
                else (ScContinue, sc))
          else case sc_queue_overlay sc of
            Some ov \<Rightarrow>
              (let (out, ov, l) = queue_on_key key ov (sc_ledger sc)
               in (out, sc\<lparr>sc_ledger := l, sc_queue_overlay := (if qo_closed ov then None else Some ov)\<rparr>))
          | None \<Rightarrow>
              (case sc_close_confirm sc of
                 Some cc \<Rightarrow>
                   (let (out, cc) = close_confirm_on_key key cc
                    in (out, sc\<lparr>sc_close_confirm := (if \<not> cc_closed cc \<and> out \<noteq> ScCloseTransfer then Some cc else None)\<rparr>))
               | None \<Rightarrow> browse_key rk home key sc))"

end
