(* ===== verification/Transfer_Loop.thy ===== *)
theory Transfer_Loop
  imports Transfer_Screen
begin

text \<open>How the event loop drives the transfer screen: the key layer of the application
(\<^verbatim>\<open>App::route_transfer\<close>, \<^verbatim>\<open>tui/app.rs\<close>), the drain of a tick and the dispatch of the next
job (\<^verbatim>\<open>drain_transfer_events\<close> and \<^verbatim>\<open>dispatch_next_job\<close>, \<^verbatim>\<open>tui/run_loop.rs\<close>).
The commands sent to the worker and the searches started are recorded in the order of sending.\<close>

section \<open>State\<close>

record search_launch =
  sl_side :: side
  sl_query :: parsed_query
  sl_gen :: "32 word"
  sl_id :: nat

record transfer_app =
  ta_transfer :: "transfer_screen option"
  ta_worker :: bool
  ta_remote_search :: bool
  ta_pending_cancel :: bool
  ta_pending_advance :: bool
  ta_sent :: "worker_cmd list"
  ta_launched :: "search_launch list"
  ta_next_search :: nat

text \<open>What a tick sees: the two listings of the local file system it may ask for, the events buffered by a
search, the time since the last key, the events of the worker, whether a path exists and what the popup
answers.\<close>

datatype confirm_answer = ConfirmYes | ConfirmNo | ConfirmInterrupted | ConfirmError string

record tick_env =
  te_rank :: ranking
  te_navigate :: "string \<Rightarrow> string + dir_entry list"
  te_refresh :: "string \<Rightarrow> string + dir_entry list"
  te_search_events :: "nat \<Rightarrow> search_event list"
  te_elapsed_ms :: nat
  te_events :: "worker_event list"
  te_exists :: "string \<Rightarrow> bool"
  te_confirm :: "string \<Rightarrow> confirm_answer"

definition on_screen :: "(transfer_screen \<Rightarrow> transfer_screen) \<Rightarrow> transfer_app \<Rightarrow> transfer_app" where
  "on_screen f a = a\<lparr>ta_transfer := map_option f (ta_transfer a)\<rparr>"

definition send_cmd :: "worker_cmd \<Rightarrow> transfer_app \<Rightarrow> transfer_app" where
  "send_cmd c a = (if ta_worker a then a\<lparr>ta_sent := ta_sent a @ [c]\<rparr> else a)"

definition close_transfer :: "transfer_app \<Rightarrow> transfer_app" where
  "close_transfer a =
     a\<lparr>ta_transfer := None, ta_worker := False, ta_pending_cancel := False, ta_pending_advance := False\<rparr>"

section \<open>Keys\<close>

datatype route_outcome = RouteContinue | RouteClose

definition route_transfer ::
  "ranking \<Rightarrow> string option \<Rightarrow> key_event \<Rightarrow> transfer_screen \<Rightarrow> transfer_app \<Rightarrow> route_outcome \<times> transfer_app" where
  "route_transfer rk home key sc0 a0 =
     (let sc1 = (if ke_kind key = Press \<and> sc_connect sc0 = Connected then set_status status_empty sc0 else sc0);
          (out, sc) = screen_on_key rk home key sc1;
          a = a0\<lparr>ta_transfer := Some sc\<rparr>
      in case out of
           ScContinue \<Rightarrow> (RouteContinue, a)
         | ScEnqueue \<Rightarrow>
             (RouteContinue, if \<not> has_inflight (sc_ledger sc) then a\<lparr>ta_pending_advance := True\<rparr> else a)
         | ScCancelActive \<Rightarrow> (RouteContinue, a\<lparr>ta_pending_cancel := True\<rparr>)
         | ScHostKeyConfirm accept \<Rightarrow>
             (RouteContinue, on_screen (\<lambda>sc. sc\<lparr>sc_host_key := None\<rparr>) (send_cmd (CmdHostKeyConfirm accept) a))
         | ScCloseTransfer \<Rightarrow> (RouteClose, a0\<lparr>ta_transfer := None\<rparr>))"

section \<open>Dispatch\<close>

definition decide_post_done_refresh :: "direction option \<Rightarrow> bool \<Rightarrow> transfer_outcome \<Rightarrow> direction option" where
  "decide_post_done_refresh last_dir queue_is_empty outcome =
     (case outcome of
        TransferFailed _ \<Rightarrow> None
      | _ \<Rightarrow> if queue_is_empty then last_dir else None)"

definition should_fire_search :: "nat \<Rightarrow> bool" where
  "should_fire_search elapsed_ms \<longleftrightarrow> 80 \<le> elapsed_ms"

definition overwrite_prompt :: "transfer_job \<Rightarrow> string" where
  "overwrite_prompt job = ''overwrite '' @ [CHR 39] @ tj_name job @ [CHR 39] @ '' at '' @ tj_dst job @ ''?''"

definition dispatch_next_job :: "tick_env \<Rightarrow> transfer_app \<Rightarrow> transfer_app" where
  "dispatch_next_job env a0 =
     (case ta_transfer a0 of
        None \<Rightarrow> a0
      | Some sc0 \<Rightarrow>
          (case next_job sc0 of
             (None, sc) \<Rightarrow> a0\<lparr>ta_transfer := Some sc\<rparr>
           | (Some job, sc) \<Rightarrow>
               (let a = a0\<lparr>ta_transfer := Some sc\<rparr>;
                    dest_exists = (tj_direction job = Download \<and> te_exists env (tj_dst job))
                in if dest_exists \<and> sc_overwrite_policy sc = None
                   then
                     (let settle = (\<lambda>p a. send_cmd (CmdTransfer job p) (on_screen (\<lambda>sc. sc\<lparr>sc_overwrite_policy := Some p\<rparr>) a))
                      in case te_confirm env (overwrite_prompt job) of
                           ConfirmYes \<Rightarrow> settle OverwriteAll a
                         | ConfirmNo \<Rightarrow> settle SkipAll a
                         | ConfirmInterrupted \<Rightarrow>
                             on_screen (\<lambda>sc. set_status (status_info ''transfer batch cancelled'')
                               (on_ledger clear_queued (on_ledger abort_inflight sc))) a
                         | ConfirmError e \<Rightarrow>
                             settle SkipAll (on_screen (set_status (status_error (''overwrite popup failed: '' @ e))) a))
                   else send_cmd (CmdTransfer job (case sc_overwrite_policy sc of Some p \<Rightarrow> p | None \<Rightarrow> Overwrite)) a)))"

section \<open>The drain of a tick\<close>

text \<open>Step 1: the navigation the screen asked for.\<close>

definition enter_dir :: "string \<Rightarrow> pane \<Rightarrow> pane" where
  "enter_dir path p = set_loading True (on_core (\<lambda>c. c\<lparr>bc_cwd := path\<rparr>) (pane_on_step p))"

definition drain_pending_list :: "tick_env \<Rightarrow> transfer_app \<Rightarrow> transfer_app" where
  "drain_pending_list env a =
     (case Option.bind (ta_transfer a) sc_pending_list of
        None \<Rightarrow> a
      | Some (s, path) \<Rightarrow>
          (let a = on_screen (\<lambda>sc. on_pane s (enter_dir path) (sc\<lparr>sc_pending_list := None\<rparr>)) a
           in case s of
                LocalSide \<Rightarrow>
                  (case te_navigate env path of
                     Inr es \<Rightarrow> on_screen (on_pane LocalSide (\<lambda>p. set_loading False (pane_set_entries (te_rank env) es p))) a
                   | Inl msg \<Rightarrow>
                       on_screen (\<lambda>sc. set_status (status_error (''local list failed: '' @ msg))
                         (on_pane LocalSide (\<lambda>p. set_loading False (pane_revert_switch (te_rank env) p)) sc)) a)
              | RemoteSide \<Rightarrow> send_cmd (CmdList path) a))"

text \<open>Step 2: the events of the search in flight, then the launch of a waiting one.\<close>

definition drain_search :: "tick_env \<Rightarrow> transfer_screen \<Rightarrow> transfer_screen" where
  "drain_search env sc =
     (case sc_search_rx sc of
        None \<Rightarrow> sc
      | Some rx \<Rightarrow>
          (let sc1 = sc\<lparr>sc_search_rx := (if sc_search_cancel sc \<noteq> None then Some rx else None)\<rparr>
           in case sc_search_side sc of
                Some s \<Rightarrow> fold (apply_search_event s) (te_search_events env rx) sc1
              | None \<Rightarrow> sc1))"

definition launch_search :: "tick_env \<Rightarrow> transfer_app \<Rightarrow> transfer_app" where
  "launch_search env a =
     (case ta_transfer a of
        None \<Rightarrow> a
      | Some sc \<Rightarrow>
          (case sc_pending_search sc of
             None \<Rightarrow> a
           | Some (s, parsed) \<Rightarrow>
               if \<not> should_fire_search (te_elapsed_ms env) then a
               else
                 (let i = ta_next_search a; gen = sc_search_gen sc + 1;
                      sc1 = begin_search s (sc\<lparr>sc_pending_search := None, sc_search_gen := gen,
                        sc_flags := (case sc_search_cancel sc of Some c \<Rightarrow> insert c (sc_flags sc) | None \<Rightarrow> sc_flags sc)\<rparr>)
                  in a\<lparr>ta_transfer := Some (sc1\<lparr>sc_search_rx := Some i, sc_search_cancel := Some i\<rparr>),
                       ta_next_search := i + 1,
                       ta_launched := (if s = LocalSide \<or> ta_remote_search a
                          then ta_launched a @ [\<lparr>sl_side = s, sl_query = parsed, sl_gen = gen, sl_id = i\<rparr>]
                          else ta_launched a)\<rparr>)))"

text \<open>Step 3: the events of the worker.\<close>

record drain_acc =
  da_app :: transfer_app
  da_failed :: "string option"
  da_advance :: bool
  da_refresh :: "direction option"

definition on_worker_event :: "tick_env \<Rightarrow> worker_event \<Rightarrow> drain_acc \<Rightarrow> drain_acc" where
  "on_worker_event env ev acc =
     (let a = da_app acc
      in case ev of
           EvListing cwd res \<Rightarrow> acc\<lparr>da_app := on_screen (apply_remote_listing (te_rank env) cwd res) a\<rparr>
         | EvProgress p \<Rightarrow> acc\<lparr>da_app := on_screen (set_active (Some p)) a\<rparr>
         | EvConnected home target sock \<Rightarrow>
             acc\<lparr>da_app := send_cmd (CmdList home)
               ((on_screen (\<lambda>sc. on_pane RemoteSide (\<lambda>p. set_loading True (on_core (\<lambda>c. c\<lparr>bc_cwd := home\<rparr>) p))
                   (sc\<lparr>sc_connect := Connected, sc_remote_home := Some home\<rparr>)) a)\<lparr>ta_remote_search := True\<rparr>)\<rparr>
         | EvConnectFailed reason \<Rightarrow>
             acc\<lparr>da_app := on_screen (\<lambda>sc. set_status (status_error reason) (sc\<lparr>sc_connect := ConnectFailed\<rparr>)) a\<rparr>
         | EvHostKeyNeedsConfirm h fp \<Rightarrow>
             acc\<lparr>da_app := on_screen (\<lambda>sc. sc\<lparr>sc_host_key := Some \<lparr>hkp_host = h, hkp_fingerprint = fp\<rparr>\<rparr>) a\<rparr>
         | EvDone outcome \<Rightarrow>
             (let last_dir = Option.bind (ta_transfer a) (\<lambda>sc. last_direction (sc_ledger sc));
                  a1 = on_screen (on_ledger (finish_inflight outcome)) a;
                  empty = (case ta_transfer a1 of Some sc \<Rightarrow> queue_empty (sc_ledger sc) | None \<Rightarrow> True);
                  refresh = (case decide_post_done_refresh last_dir empty outcome of Some d \<Rightarrow> Some d | None \<Rightarrow> da_refresh acc)
              in case outcome of
                   TransferFailed msg \<Rightarrow> acc\<lparr>da_app := a1, da_refresh := refresh, da_failed := Some msg\<rparr>
                 | _ \<Rightarrow> acc\<lparr>da_app := a1, da_refresh := refresh, da_advance := True\<rparr>))"

definition refresh_pane :: "tick_env \<Rightarrow> direction \<Rightarrow> transfer_app \<Rightarrow> transfer_app" where
  "refresh_pane env dir a =
     (case ta_transfer a of
        None \<Rightarrow> a
      | Some sc \<Rightarrow>
          (case dir of
             Download \<Rightarrow>
               (case te_refresh env (bc_cwd (pn_core (sc_local sc))) of
                  Inr es \<Rightarrow> on_screen (on_pane LocalSide (\<lambda>p. set_loading False (pane_set_entries (te_rank env) es p))) a
                | Inl msg \<Rightarrow>
                    on_screen (\<lambda>sc. set_status (status_error (''local list failed: '' @ msg))
                      (on_pane LocalSide (set_loading False) sc)) a)
           | Upload \<Rightarrow>
               if ta_worker a
               then send_cmd (CmdList (bc_cwd (pn_core (sc_remote sc)))) (on_screen (on_pane RemoteSide (set_loading True)) a)
               else a))"

definition drain_transfer_events :: "tick_env \<Rightarrow> transfer_app \<Rightarrow> transfer_app" where
  "drain_transfer_events env a0 =
     (let a1 = launch_search env (on_screen (drain_search env) (drain_pending_list env a0));
          acc = fold (on_worker_event env) (if ta_worker a1 then te_events env else [])
                  \<lparr>da_app = a1, da_failed = None, da_advance = False, da_refresh = None\<rparr>;
          a2 = da_app acc;
          a3 = (if ta_pending_cancel a2 then send_cmd CmdCancel (a2\<lparr>ta_pending_cancel := False\<rparr>) else a2);
          advance = (ta_pending_advance a3 \<or> da_advance acc);
          a4 = a3\<lparr>ta_pending_advance := False\<rparr>;
          a5 = (if advance then dispatch_next_job env a4 else a4);
          a6 = (case da_failed acc of
                  Some msg \<Rightarrow> on_screen (set_status (status_error (''transfer failed: '' @ msg))) a5
                | None \<Rightarrow> a5)
      in case da_refresh acc of Some d \<Rightarrow> refresh_pane env d a6 | None \<Rightarrow> a6)"

end
