(* ===== verification/Sftp_Worker.thy ===== *)
theory Sftp_Worker
  imports Sftp_Proto Hostkey
begin

text \<open>The worker of an SFTP session (\<^verbatim>\<open>connect/sftp/worker.rs\<close>) with the remote source of listings and
the batch runner (\<^verbatim>\<open>connect/sftp/source.rs\<close>).  The worker is a thread: what it reads from its command
channel, what the processes it starts answer and what the clock says are arguments of each step, its results are
the events it sends, the processes it starts and the files it keeps.\<close>

section \<open>The world of the worker\<close>

datatype batch_outcome =
    BatchSpawnError io_error
  | BatchStdinError io_error
  | BatchWaitError io_error
  | BatchExit bool bytes bytes

datatype worker_effect =
    SpawnMaster "string list" "(string \<times> string) list"
  | SpawnExit "string list"
  | SpawnTransfer "string list" string
  | RunBatch "string list" string
  | CheckMaster "string list"
  | KillMaster
  | KillTransfer

text \<open>The answers of the outside: the Display texts of errors, and the outcome of a batch run after so many
effects.\<close>

record worker_env =
  wv_show_io :: "io_error \<Rightarrow> string"
  wv_show_error :: "sshrack_error \<Rightarrow> string"
  wv_batch :: "nat \<Rightarrow> string \<Rightarrow> batch_outcome"
  wv_now :: "nat \<Rightarrow> system_time"
  wv_hk :: hostkey_env
  wv_os :: os
  wv_split :: splitter

record worker_state =
  ws_events :: "worker_event list"
  ws_effects :: "worker_effect list"
  ws_temp :: temp_state

definition send_ev :: "worker_event \<Rightarrow> worker_state \<Rightarrow> worker_state" where
  "send_ev ev st = st\<lparr>ws_events := ws_events st @ [ev]\<rparr>"

definition do_effect :: "worker_effect \<Rightarrow> worker_state \<Rightarrow> worker_state" where
  "do_effect ef st = st\<lparr>ws_effects := ws_effects st @ [ef]\<rparr>"

text \<open>\<^verbatim>\<open>let _ = std::fs::remove_file(p)\<close>: the file is gone when there is one and the call works; a failure,
as on a directory, is ignored.\<close>

definition remove_local :: "worker_env \<Rightarrow> string \<Rightarrow> worker_state \<Rightarrow> worker_state" where
  "remove_local env p st =
     st\<lparr>ws_temp := (ws_temp st)\<lparr>ts_files := snd (remove_file (wv_os env) p (ts_files (ws_temp st)))\<rparr>\<rparr>"

section \<open>Batches and listings\<close>

definition first_nonblank :: "string \<Rightarrow> string" where
  "first_nonblank s = (case List.find (\<lambda>l. trim l \<noteq> []) (lines s) of Some l \<Rightarrow> l | None \<Rightarrow> [])"

definition batch_result :: "(io_error \<Rightarrow> string) \<Rightarrow> batch_outcome \<Rightarrow> string + string" where
  "batch_result show_io r =
     (case r of
        BatchSpawnError e \<Rightarrow> Inl (''sftp spawn failed: '' @ show_io e)
      | BatchStdinError e \<Rightarrow> Inl (''sftp stdin write failed: '' @ show_io e)
      | BatchWaitError e \<Rightarrow> Inl (''sftp wait failed: '' @ show_io e)
      | BatchExit ok out err \<Rightarrow>
          if ok then Inr (from_utf8_lossy out)
          else Inl (''sftp failed: '' @ first_nonblank (from_utf8_lossy err)))"

definition run_batch ::
  "worker_env \<Rightarrow> string \<Rightarrow> string \<Rightarrow> string \<Rightarrow> worker_state \<Rightarrow> (string + string) \<times> worker_state" where
  "run_batch env target sock batch st =
     (batch_result (wv_show_io env) (wv_batch env (length (ws_effects st)) batch),
      do_effect (RunBatch (sftp_batch_argv target sock) batch) st)"

definition clock :: "worker_env \<Rightarrow> worker_state \<Rightarrow> system_time" where
  "clock env st = wv_now env (length (ws_effects st))"

definition sftp_list ::
  "worker_env \<Rightarrow> string \<Rightarrow> string \<Rightarrow> string \<Rightarrow> worker_state \<Rightarrow> (string + dir_entry list) \<times> worker_state" where
  "sftp_list env target sock cwd st =
     (case run_batch env target sock (list_batch cwd) st of
        (Inl e, st) \<Rightarrow> (Inl e, st)
      | (Inr out, st) \<Rightarrow> (Inr (to_dir_entries (parse_ls_listing out (clock env st)) cwd), st))"

definition sftp_classify ::
  "worker_env \<Rightarrow> string \<Rightarrow> string \<Rightarrow> string \<Rightarrow> worker_state \<Rightarrow> path_kind \<times> worker_state" where
  "sftp_classify env target sock path st =
     (case run_batch env target sock (batch_of (''ls -ld '' @ shell_quote path)) st of
        (Inl _, st) \<Rightarrow> (KindNotFound, st)
      | (Inr out, st) \<Rightarrow>
          (case List.find (\<lambda>l. trim l \<noteq> []) (lines out) of
             None \<Rightarrow> (KindNotFound, st)
           | Some line \<Rightarrow>
               (case parse_ls_line line (clock env st) of
                  None \<Rightarrow> (KindNotFound, st)
                | Some row \<Rightarrow>
                    (if rl_is_dir row then KindDir else if rl_is_symlink row then KindSymlink else KindFile, st))))"

section \<open>The session\<close>

record master_session =
  ms_child :: bool
  ms_sock :: "string option"
  ms_pw_file :: "string option"
  ms_target :: string

definition teardown :: "worker_env \<Rightarrow> master_session \<Rightarrow> worker_state \<Rightarrow> worker_state" where
  "teardown env ms st =
     (let sock = (case ms_sock ms of Some s \<Rightarrow> s | None \<Rightarrow> []);
          st = do_effect (SpawnExit (control_exit_argv (ms_target ms) sock)) st;
          st = (if ms_child ms then do_effect KillMaster st else st);
          st = (case ms_sock ms of Some s \<Rightarrow> remove_local env s st | None \<Rightarrow> st)
      in case ms_pw_file ms of
           None \<Rightarrow> st
         | Some p \<Rightarrow> st\<lparr>ws_temp := drop_password_file (wv_os env) p (ws_temp st)\<rparr>)"

section \<open>The host-key check\<close>

text \<open>What the worker reads from its command channel: a command, nothing within the time, or that the other
side is gone.\<close>

datatype recv = RecvCmd worker_cmd | RecvTimeout | RecvDisconnected

definition fail_connect :: "string \<Rightarrow> worker_state \<Rightarrow> worker_state" where
  "fail_connect msg st = send_ev (EvConnectFailed msg) st"

definition host_key_check ::
  "worker_env \<Rightarrow> string \<Rightarrow> 16 word \<Rightarrow> recv \<Rightarrow> worker_state \<Rightarrow> bool \<times> worker_state" where
  "host_key_check env h port answer st =
     (case known_hosts_path (wv_hk env) of
        None \<Rightarrow> (False, fail_connect ''no known_hosts path'' st)
      | Some kh \<Rightarrow>
          (let known = (case is_known (wv_hk env) h port kh (ts_files (ws_temp st)) of Inr b \<Rightarrow> b | Inl _ \<Rightarrow> False)
           in case hostkey_classify known True False of
                HkLaunch \<Rightarrow> (True, st)
              | HkReject \<Rightarrow> (False, fail_connect ''host key rejected'' st)
              | _ \<Rightarrow>
                  (case scan_fingerprints (wv_hk env) h port of
                     Inr (f # fs) \<Rightarrow>
                       (case pick_primary (f # fs) of
                          None \<Rightarrow> (False, fail_connect (''host key scan returned no keys for '' @ h) st)
                        | Some primary \<Rightarrow>
                            (let st = send_ev (EvHostKeyNeedsConfirm h (confirm_text h primary)) st
                             in case answer of
                                  RecvCmd (CmdHostKeyConfirm True) \<Rightarrow>
                                    (case append_to_known_hosts (wv_hk env) h port kh (ts_files (ws_temp st)) of
                                       (Inr _, fs') \<Rightarrow> (True, st\<lparr>ws_temp := (ws_temp st)\<lparr>ts_files := fs'\<rparr>\<rparr>)
                                     | (Inl e, fs') \<Rightarrow>
                                         (False, fail_connect (''known_hosts write failed: '' @ wv_show_error env e)
                                            (st\<lparr>ws_temp := (ws_temp st)\<lparr>ts_files := fs'\<rparr>\<rparr>)))
                                | RecvCmd _ \<Rightarrow> (False, fail_connect (''host key not confirmed for '' @ h) st)
                                | _ \<Rightarrow> (False, st)))
                   | _ \<Rightarrow> (False, fail_connect (''host key scan failed for '' @ h) st))))"

section \<open>The handshake\<close>

datatype handshake_outcome = HsReady | HsExited string | HsTimeout | HsCancelled

definition classify_poll :: "bool \<Rightarrow> bool \<Rightarrow> bool \<Rightarrow> string \<Rightarrow> bool \<Rightarrow> handshake_outcome option" where
  "classify_poll check_ok master_exited timed_out stderr cancelled =
     (if cancelled then Some HsCancelled
      else if check_ok then Some HsReady
      else if master_exited then Some (HsExited stderr)
      else if timed_out then Some HsTimeout
      else None)"

definition first_meaningful_line :: "string \<Rightarrow> string" where
  "first_meaningful_line s =
     (case List.find (\<lambda>t. t \<noteq> []) (map trim (lines s)) of Some t \<Rightarrow> t | None \<Rightarrow> [])"

text \<open>One poll of the handshake: what the check, the master and the command channel said, the clock in
milliseconds and the standard error collected so far.\<close>

record handshake_poll =
  hp_check_ok :: bool
  hp_exited :: bool
  hp_millis :: nat
  hp_stderr :: bytes
  hp_recv :: recv

definition poll_cancelled :: "recv \<Rightarrow> bool" where
  "poll_cancelled r = (case r of RecvCmd c \<Rightarrow> c = CmdShutdown | RecvTimeout \<Rightarrow> False | RecvDisconnected \<Rightarrow> True)"

definition HANDSHAKE_TIMEOUT :: nat where "HANDSHAKE_TIMEOUT = 30000"

text \<open>The polling loop consumes the polls; \<^verbatim>\<open>None\<close> is a loop still running when they are used up.\<close>

fun wait_for_master ::
  "string \<Rightarrow> string \<Rightarrow> nat \<Rightarrow> handshake_poll list \<Rightarrow> worker_state \<Rightarrow> (handshake_outcome \<times> worker_state) option" where
  "wait_for_master target sock deadline [] st = None"
| "wait_for_master target sock deadline (p # ps) st =
     (let st = do_effect (CheckMaster (control_check_argv target sock)) st
      in case classify_poll (hp_check_ok p) (hp_exited p) (deadline \<le> hp_millis p) (from_utf8_lossy (hp_stderr p))
                (poll_cancelled (hp_recv p)) of
           Some r \<Rightarrow> Some (r, st)
         | None \<Rightarrow> wait_for_master target sock deadline ps st)"

record connect_input =
  ci_resolved :: resolved_auth
  ci_host :: host
  ci_overrides :: overrides
  ci_self_exe :: string
  ci_source :: password_source
  ci_config_path :: "string option"
  ci_preflight :: bool
  ci_sock :: string
  ci_answer :: recv
  ci_spawn_error :: "io_error option"
  ci_start :: nat
  ci_polls :: "handshake_poll list"

text \<open>The connect phase gives the session and the remote home, or nothing; the outer \<^verbatim>\<open>None\<close> is a
handshake still running.\<close>

definition connect_phase ::
  "worker_env \<Rightarrow> connect_input \<Rightarrow> worker_state \<Rightarrow> ((master_session \<times> string) option \<times> worker_state) option" where
  "connect_phase env ci st0 =
     (let h = ci_host ci;
          (go, st) = (if ci_preflight ci then host_key_check env (h_host h) (h_port h) (ci_answer ci) st0 else (True, st0))
      in if \<not> go then Some (None, st)
         else
           (let sock = ci_sock ci; target = sftp_target (ci_resolved ci) h (ci_overrides ci)
            in case stage_password (wv_os env) (ci_source ci) (ws_temp st) of
                 (Inl e, ts) \<Rightarrow>
                   Some (None, remove_local env sock
                     (fail_connect (''sftp password file failed: '' @ wv_show_error env e) (st\<lparr>ws_temp := ts\<rparr>)))
               | (Inr pw_file, ts) \<Rightarrow>
                   (let st = st\<lparr>ws_temp := ts\<rparr>;
                        vars = askpass_env_for_sftp (ci_self_exe ci) (ci_source ci) pw_file (ci_config_path ci);
                        ms = \<lparr>ms_child = False, ms_sock = Some sock, ms_pw_file = pw_file, ms_target = target\<rparr>
                    in case ci_spawn_error ci of
                         Some e \<Rightarrow>
                           Some (None, teardown env ms (fail_connect (''sftp master spawn failed: '' @ wv_show_io env e) st))
                       | None \<Rightarrow>
                           (let st = do_effect (SpawnMaster (master_argv (wv_split env) (ci_resolved ci) h (ci_overrides ci) sock) vars) st;
                                ms = ms\<lparr>ms_child := True\<rparr>
                            in case wait_for_master target sock (ci_start ci + HANDSHAKE_TIMEOUT) (ci_polls ci) st of
                                 None \<Rightarrow> None
                               | Some (HsCancelled, st) \<Rightarrow> Some (None, teardown env ms st)
                               | Some (HsExited s, st) \<Rightarrow>
                                   (let line = first_meaningful_line s
                                    in Some (None, teardown env ms (fail_connect
                                         (if line = [] then ''sftp master failed (authentication rejected)''
                                          else ''sftp master failed: '' @ line) st)))
                               | Some (HsTimeout, st) \<Rightarrow>
                                   Some (None, teardown env ms (fail_connect ''sftp master handshake timed out'' st))
                               | Some (HsReady, st) \<Rightarrow>
                                   (let (r, st) = run_batch env target sock pwd_batch st;
                                        home = (case r of
                                            Inr out \<Rightarrow> (case parse_remote_home out of Some d \<Rightarrow> d | None \<Rightarrow> ''/'')
                                          | Inl _ \<Rightarrow> ''/'')
                                    in Some (Some (ms, home), send_ev (EvConnected home target sock) st))))))"

section \<open>Transfers\<close>

text \<open>The destination of a download is removed from the local file system, whatever is there; that of an upload
of a file by a batch.\<close>

definition remove_partial_dst :: "worker_env \<Rightarrow> transfer_job \<Rightarrow> string \<Rightarrow> string \<Rightarrow> worker_state \<Rightarrow> worker_state" where
  "remove_partial_dst env job target sock st =
     (case tj_direction job of
        Download \<Rightarrow> remove_local env (tj_dst job) st
      | Upload \<Rightarrow>
          if \<not> tj_recursive job
          then snd (run_batch env target sock (batch_of (''rm '' @ shell_quote (tj_dst job))) st)
          else st)"

definition poll_dst_size ::
  "worker_env \<Rightarrow> nat option \<Rightarrow> transfer_job \<Rightarrow> string \<Rightarrow> string \<Rightarrow> worker_state \<Rightarrow> nat \<times> worker_state" where
  "poll_dst_size env local_len job target sock st =
     (case tj_direction job of
        Download \<Rightarrow> (case local_len of Some n \<Rightarrow> n | None \<Rightarrow> 0, st)
      | Upload \<Rightarrow>
          (case run_batch env target sock (batch_of (''ls -l '' @ shell_quote (tj_dst job))) st of
             (Inr out, st) \<Rightarrow> (case parse_size_from_ls out (clock env st) of Some n \<Rightarrow> n | None \<Rightarrow> 0, st)
           | (Inl _, st) \<Rightarrow> (0, st)))"

datatype wait_result = WaitExited bool bytes | WaitRunning | WaitError io_error

text \<open>One poll of a running transfer; the size of a local destination is what the file system says then.\<close>

record transfer_poll =
  tp_wait :: wait_result
  tp_local_len :: "nat option"
  tp_secs :: nat
  tp_recv :: recv

datatype poll_next = PollAgain nat nat | PollReturn bool

definition poll_transfer ::
  "worker_env \<Rightarrow> string \<Rightarrow> string \<Rightarrow> transfer_job \<Rightarrow> nat \<Rightarrow> nat \<Rightarrow> transfer_poll \<Rightarrow> worker_state \<Rightarrow> poll_next \<times> worker_state" where
  "poll_transfer env target sock job prev_done prev_secs p st =
     (case tp_wait p of
        WaitExited True _ \<Rightarrow> (PollReturn False, send_ev (EvDone TransferOk) st)
      | WaitExited False err \<Rightarrow>
          (let line = first_meaningful_line (from_utf8_lossy err)
           in (PollReturn False, send_ev (EvDone (TransferFailed (if line = [] then ''sftp failed'' else line)))
                 (remove_partial_dst env job target sock st)))
      | WaitError e \<Rightarrow>
          (PollReturn False, send_ev (EvDone (TransferFailed (''sftp wait failed: '' @ wv_show_io env e))) st)
      | WaitRunning \<Rightarrow>
          (let (bytes_done, st) = poll_dst_size env (tp_local_len p) job target sock st;
               (rate, eta) = progress_snapshot prev_done prev_secs bytes_done (tp_secs p) (tj_size_total job);
               st = send_ev (EvProgress \<lparr>pr_name = tj_name job, pr_direction = tj_direction job, pr_bytes_done = bytes_done,
                      pr_bytes_total = tj_size_total job, pr_rate_bps = rate, pr_eta_secs = eta\<rparr>) st;
               again = (PollAgain bytes_done (tp_secs p), st)
           in case tp_recv p of
                RecvTimeout \<Rightarrow> again
              | RecvDisconnected \<Rightarrow> (PollReturn False, do_effect KillTransfer st)
              | RecvCmd c \<Rightarrow>
                  (case classify_inflight_cmd c of
                     InflightContinue \<Rightarrow> again
                   | InflightCancel \<Rightarrow>
                       (PollReturn False, send_ev (EvDone TransferCancelled)
                          (remove_partial_dst env job target sock (do_effect KillTransfer st)))
                   | InflightShutdown \<Rightarrow>
                       (PollReturn True, remove_partial_dst env job target sock (do_effect KillTransfer st)))))"

fun poll_transfers ::
  "worker_env \<Rightarrow> string \<Rightarrow> string \<Rightarrow> transfer_job \<Rightarrow> nat \<Rightarrow> nat \<Rightarrow> transfer_poll list \<Rightarrow> worker_state
     \<Rightarrow> (bool \<times> worker_state) option" where
  "poll_transfers env target sock job pd psec [] st = None"
| "poll_transfers env target sock job pd psec (p # ps) st =
     (case poll_transfer env target sock job pd psec p st of
        (PollReturn b, st) \<Rightarrow> Some (b, st)
      | (PollAgain d s, st) \<Rightarrow> poll_transfers env target sock job d s ps st)"

text \<open>Before the first poll: a skipped job and a failed start end at once.\<close>

definition start_transfer ::
  "worker_env \<Rightarrow> string \<Rightarrow> string \<Rightarrow> transfer_job \<Rightarrow> overwrite_policy \<Rightarrow> io_error option \<Rightarrow> worker_state \<Rightarrow> bool \<times> worker_state" where
  "start_transfer env target sock job policy spawn_error st =
     (if policy = Skip \<or> policy = SkipAll then (False, send_ev (EvDone TransferOk) st)
      else
        (let batch = (case tj_direction job of
                Download \<Rightarrow> get_batch (tj_src job) (tj_dst job) (tj_recursive job)
              | Upload \<Rightarrow> put_batch (tj_src job) (tj_dst job) (tj_recursive job))
         in case spawn_error of
              Some e \<Rightarrow> (False, send_ev (EvDone (TransferFailed (''sftp spawn failed: '' @ wv_show_io env e))) st)
            | None \<Rightarrow> (True, do_effect (SpawnTransfer (sftp_batch_argv target sock) batch) st)))"

definition run_transfer ::
  "worker_env \<Rightarrow> string \<Rightarrow> string \<Rightarrow> transfer_job \<Rightarrow> overwrite_policy \<Rightarrow> io_error option \<Rightarrow> transfer_poll list \<Rightarrow> worker_state
     \<Rightarrow> (bool \<times> worker_state) option" where
  "run_transfer env target sock job policy spawn_error polls st =
     (case start_transfer env target sock job policy spawn_error st of
        (False, st) \<Rightarrow> Some (False, st)
      | (True, st) \<Rightarrow> poll_transfers env target sock job 0 0 polls st)"

section \<open>The service loop\<close>

text \<open>A received command with, for a transfer, what its process did.  The end of the list is the end of the
channel; \<^verbatim>\<open>None\<close> is a transfer still running.\<close>

type_synonym service_input = "(worker_cmd \<times> io_error option \<times> transfer_poll list) list"

fun serve_commands :: "worker_env \<Rightarrow> string \<Rightarrow> string \<Rightarrow> service_input \<Rightarrow> worker_state \<Rightarrow> worker_state option" where
  "serve_commands env target sock [] st = Some st"
| "serve_commands env target sock ((cmd, spawn_error, polls) # rest) st =
     (case cmd of
        CmdList cwd \<Rightarrow>
          (let (r, st) = sftp_list env target sock cwd st
           in serve_commands env target sock rest (send_ev (EvListing cwd r) st))
      | CmdTransfer job policy \<Rightarrow>
          (case run_transfer env target sock job policy spawn_error polls st of
             None \<Rightarrow> None
           | Some (shutdown, st) \<Rightarrow> if shutdown then Some st else serve_commands env target sock rest st)
      | CmdCancel \<Rightarrow> serve_commands env target sock rest st
      | CmdHostKeyConfirm _ \<Rightarrow> serve_commands env target sock rest st
      | CmdShutdown \<Rightarrow> Some st)"

definition service_loop ::
  "worker_env \<Rightarrow> master_session \<Rightarrow> string \<Rightarrow> string \<Rightarrow> service_input \<Rightarrow> worker_state \<Rightarrow> worker_state option" where
  "service_loop env ms target sock cmds st = map_option (teardown env ms) (serve_commands env target sock cmds st)"

definition run_worker_thread ::
  "worker_env \<Rightarrow> connect_input \<Rightarrow> service_input \<Rightarrow> worker_state \<Rightarrow> worker_state option" where
  "run_worker_thread env ci cmds st =
     (case connect_phase env ci st of
        None \<Rightarrow> None
      | Some (None, st) \<Rightarrow> Some st
      | Some (Some (ms, home), st) \<Rightarrow>
          (case ms_sock ms of
             Some sock \<Rightarrow> service_loop env ms (ms_target ms) sock cmds st
           | None \<Rightarrow> Some (teardown env ms st)))"

end
