(* ===== verification/Worker_Facts.thy ===== *)
theory Worker_Facts
  imports Sftp_Worker
begin

text \<open>What the SFTP worker guarantees: one outcome for each transfer, only a known or confirmed host is
contacted, and whatever happens the password file and the master process are gone when the thread ends.\<close>

section \<open>How a step changes the state\<close>

text \<open>Of the files only those at the paths of a set may be gone; none is created or written.\<close>

definition files_gone :: "string set \<Rightarrow> temp_state \<Rightarrow> temp_state \<Rightarrow> bool" where
  "files_gone D ts ts' \<longleftrightarrow> ts_live ts' = ts_live ts
     \<and> (\<forall>p. ts_files ts' p = ts_files ts p \<or> p \<in> D \<and> ts_files ts' p = None)"

lemma gone_refl [simp]: "files_gone D ts ts"
  by (simp add: files_gone_def)

lemma gone_trans: "files_gone D ts1 ts2 \<Longrightarrow> files_gone D ts2 ts3 \<Longrightarrow> files_gone D ts1 ts3"
  unfolding files_gone_def by metis

lemma gone_mono: "files_gone D ts ts' \<Longrightarrow> D \<subseteq> E \<Longrightarrow> files_gone E ts ts'"
  unfolding files_gone_def by blast

lemma gone_nothing: "files_gone {} ts ts' \<longleftrightarrow> ts' = ts"
  by (auto simp: files_gone_def intro!: temp_state.equality)

lemma gone_remove: "p \<in> D \<Longrightarrow> files_gone D ts (ts\<lparr>ts_files := snd (remove_file os p (ts_files ts))\<rparr>)"
  by (auto simp: files_gone_def remove_file_def)

lemma gone_drop: "files_gone D ts ts' \<Longrightarrow> files_gone D (drop_password_file os p ts) (drop_password_file os p ts')"
  unfolding files_gone_def drop_password_file_def unregister_def remove_file_def Let_def
  by (auto split: if_splits)

definition grows :: "string set \<Rightarrow> (worker_effect \<Rightarrow> bool) \<Rightarrow> (worker_event \<Rightarrow> bool) \<Rightarrow> worker_state \<Rightarrow> worker_state \<Rightarrow> bool" where
  "grows D P Q st st' \<longleftrightarrow> files_gone D (ws_temp st) (ws_temp st')
     \<and> (\<exists>efs. ws_effects st' = ws_effects st @ efs \<and> list_all P efs)
     \<and> (\<exists>evs. ws_events st' = ws_events st @ evs \<and> list_all Q evs)"

lemma grows_refl [simp]: "grows D P Q st st"
  by (simp add: grows_def)

lemma grows_trans: "grows D P Q st1 st2 \<Longrightarrow> grows D P Q st2 st3 \<Longrightarrow> grows D P Q st1 st3"
  unfolding grows_def by (metis gone_trans append_assoc list_all_append)

lemma grows_mono: "grows D P Q st st' \<Longrightarrow> D \<subseteq> E \<Longrightarrow> grows E P Q st st'"
  unfolding grows_def using gone_mono by blast

lemma grows_send: "Q ev \<Longrightarrow> grows D P Q st (send_ev ev st)"
  by (simp add: grows_def send_ev_def)

lemma grows_effect: "P ef \<Longrightarrow> grows D P Q st (do_effect ef st)"
  by (simp add: grows_def do_effect_def)

text \<open>Only the connect phase and the teardown touch the master.\<close>

fun no_master :: "worker_effect \<Rightarrow> bool" where
  "no_master (SpawnMaster _ _) = False"
| "no_master KillMaster = False"
| "no_master _ = True"

fun is_progress :: "worker_event \<Rightarrow> bool" where
  "is_progress (EvProgress _) = True"
| "is_progress _ = False"

lemma grows_batch: "grows D no_master Q st (snd (run_batch env target sock b st))"
  by (simp add: run_batch_def grows_effect)

lemma grows_list: "grows D no_master Q st (snd (sftp_list env target sock cwd st))"
  using grows_batch[of D Q st env target sock "list_batch cwd"]
  by (auto simp: sftp_list_def split: prod.splits sum.splits)

text \<open>The poll that ends a transfer without success: the process failed, or the worker was told to cancel or to
stop.  Then, and only then, the destination of a download is removed.\<close>

definition ends_partial :: "transfer_poll \<Rightarrow> bool" where
  "ends_partial p = (case tp_wait p of
     WaitExited ok _ \<Rightarrow> \<not> ok
   | WaitRunning \<Rightarrow> tp_recv p = RecvCmd CmdCancel \<or> tp_recv p = RecvCmd CmdShutdown
   | WaitError _ \<Rightarrow> False)"

definition lost_dst :: "transfer_job \<Rightarrow> transfer_poll list \<Rightarrow> string set" where
  "lost_dst job ps = (if tj_direction job = Download \<and> list_ex ends_partial ps then {tj_dst job} else {})"

lemma lost_dst_mono: "set ps \<subseteq> set qs \<Longrightarrow> lost_dst job ps \<subseteq> lost_dst job qs"
  by (auto simp: lost_dst_def list_ex_iff)

lemma grows_partial:
  assumes "tj_direction job = Download \<Longrightarrow> tj_dst job \<in> D"
  shows "grows D no_master Q st (remove_partial_dst env job target sock st)"
proof (cases "tj_direction job")
  case Download
  then show ?thesis using gone_remove[OF assms] by (simp add: remove_partial_dst_def remove_local_def grows_def)
next
  case Upload
  then show ?thesis by (simp add: remove_partial_dst_def grows_batch)
qed

lemma grows_size: "grows D no_master Q st (snd (poll_dst_size env len job target sock st))"
  using grows_batch[of D Q st env target sock "batch_of (''ls -l '' @ shell_quote (tj_dst job))"]
  by (auto simp: poll_dst_size_def split: direction.splits prod.splits sum.splits)

section \<open>One outcome for each transfer\<close>

text \<open>A transfer reports progress and then at most one outcome; there is none exactly when the worker is
told to stop or nobody listens.\<close>

definition transfer_trace :: "string set \<Rightarrow> worker_state \<Rightarrow> worker_state \<Rightarrow> worker_event list \<Rightarrow> bool" where
  "transfer_trace D st st' ending \<longleftrightarrow>
     (\<exists>st1. grows D no_master is_progress st st1 \<and> ws_temp st' = ws_temp st1 \<and> ws_events st' = ws_events st1 @ ending
        \<and> (\<exists>efs. ws_effects st' = ws_effects st1 @ efs \<and> list_all no_master efs))"

lemma transfer_trace_after: "grows D no_master is_progress st st1 \<Longrightarrow> transfer_trace D st1 st2 e \<Longrightarrow> transfer_trace D st st2 e"
  unfolding transfer_trace_def using grows_trans by blast

lemma trace_nil: "grows D no_master is_progress st st' \<Longrightarrow> transfer_trace D st st' []"
  by (auto simp: transfer_trace_def intro: exI[of _ st'])

lemma trace_end: "grows D no_master is_progress st st1 \<Longrightarrow> transfer_trace D st (send_ev ev st1) [ev]"
  by (auto simp: transfer_trace_def send_ev_def intro: exI[of _ st1])

lemma trace_mono: "transfer_trace D st st' e \<Longrightarrow> D \<subseteq> E \<Longrightarrow> transfer_trace E st st' e"
  unfolding transfer_trace_def using grows_mono by blast

lemma poll_transfer_trace:
  assumes "poll_transfer env target sock job pd psec p st = (nxt, st')"
  shows "case nxt of
      PollAgain _ _ \<Rightarrow> grows {} no_master is_progress st st' \<and> (\<forall>c. tp_recv p = RecvCmd c \<longrightarrow> classify_inflight_cmd c = InflightContinue)
    | PollReturn b \<Rightarrow> (\<exists>r. transfer_trace (lost_dst job [p]) st st' [EvDone r]) \<and> \<not> b
        \<or> transfer_trace (lost_dst job [p]) st st' [] \<and> (b \<longleftrightarrow> tp_recv p = RecvCmd CmdShutdown) \<and> (b \<or> tp_recv p = RecvDisconnected)"
proof (cases "tp_wait p")
  case (WaitExited ok err)
  have "nxt = PollReturn False \<and> (\<exists>r. st' = send_ev (EvDone r) st
      \<or> \<not> ok \<and> st' = send_ev (EvDone r) (remove_partial_dst env job target sock st))"
    using assms WaitExited by (cases ok) (auto simp: poll_transfer_def Let_def)
  moreover have "\<not> ok \<Longrightarrow> tj_direction job = Download \<Longrightarrow> tj_dst job \<in> lost_dst job [p]"
    using WaitExited by (simp add: lost_dst_def ends_partial_def)
  ultimately show ?thesis
    using trace_end[OF grows_refl] trace_end[OF grows_partial[of job "lost_dst job [p]" is_progress st env target sock]] by fastforce
next
  case (WaitError e)
  then have "nxt = PollReturn False \<and> (\<exists>r. st' = send_ev (EvDone r) st)" using assms by (auto simp: poll_transfer_def)
  then show ?thesis using trace_end[OF grows_refl] by fastforce
next
  case WaitRunning
  obtain n st1 where s: "poll_dst_size env (tp_local_len p) job target sock st = (n, st1)" by fastforce
  obtain rate eta where r: "progress_snapshot pd psec n (tp_secs p) (tj_size_total job) = (rate, eta)" by fastforce
  define st2 where "st2 = send_ev (EvProgress \<lparr>pr_name = tj_name job, pr_direction = tj_direction job, pr_bytes_done = n,
      pr_bytes_total = tj_size_total job, pr_rate_bps = rate, pr_eta_secs = eta\<rparr>) st1"
  have "grows {} no_master is_progress st st1" using grows_size[of "{}" is_progress st env "tp_local_len p" job target sock] s by simp
  then have g: "grows {} no_master is_progress st st2"
    unfolding st2_def by (rule grows_trans) (simp add: grows_send)
  have k: "grows D no_master is_progress st (do_effect KillTransfer st2)" for D
    using grows_mono[OF g empty_subsetI] by (rule grows_trans) (simp add: grows_effect)
  have kp: "grows (lost_dst job [p]) no_master is_progress st (remove_partial_dst env job target sock (do_effect KillTransfer st2))"
    if "ends_partial p"
    using k grows_partial by (rule grows_trans) (simp add: lost_dst_def that)
  show ?thesis
  proof (cases "tp_recv p")
    case (RecvCmd c)
    show ?thesis
    proof (cases "classify_inflight_cmd c")
      case InflightContinue
      then show ?thesis using assms WaitRunning RecvCmd g by (auto simp: poll_transfer_def s r st2_def[symmetric] Let_def)
    next
      case InflightCancel
      then have e: "ends_partial p"
        using WaitRunning RecvCmd by (auto simp: ends_partial_def classify_inflight_cmd_def split: worker_cmd.splits)
      show ?thesis
        using assms WaitRunning RecvCmd InflightCancel trace_end[OF kp[OF e], of "EvDone TransferCancelled"]
        by (auto simp: poll_transfer_def s r st2_def[symmetric] Let_def)
    next
      case InflightShutdown
      then have c: "c = CmdShutdown" by (auto simp: classify_inflight_cmd_def split: worker_cmd.splits)
      have e: "ends_partial p" using WaitRunning RecvCmd c by (simp add: ends_partial_def)
      show ?thesis
        using assms WaitRunning RecvCmd InflightShutdown c trace_nil[OF kp[OF e]]
        by (auto simp: poll_transfer_def s r st2_def[symmetric] Let_def)
    qed
  next
    case RecvTimeout
    then show ?thesis using assms WaitRunning g by (auto simp: poll_transfer_def s r st2_def[symmetric] Let_def)
  next
    case RecvDisconnected
    then show ?thesis
      using assms WaitRunning trace_nil[OF k] by (auto simp: poll_transfer_def s r st2_def[symmetric] Let_def)
  qed
qed

lemma poll_transfers_trace:
  assumes "poll_transfers env target sock job pd psec ps st = Some (b, st')"
  shows "(\<exists>r. transfer_trace (lost_dst job ps) st st' [EvDone r]) \<and> \<not> b
    \<or> transfer_trace (lost_dst job ps) st st' [] \<and> (\<exists>p \<in> set ps. tp_recv p = (if b then RecvCmd CmdShutdown else RecvDisconnected))"
  using assms
proof (induction ps arbitrary: pd psec st)
  case (Cons p ps)
  obtain nxt st1 where n: "poll_transfer env target sock job pd psec p st = (nxt, st1)" by fastforce
  note t = poll_transfer_trace[OF n]
  show ?case
  proof (cases nxt)
    case (PollAgain d s)
    then have g: "grows {} no_master is_progress st st1" using t by simp
    have m: "transfer_trace (lost_dst job ps) st1 st' e \<Longrightarrow> transfer_trace (lost_dst job (p # ps)) st st' e" for e
      using transfer_trace_after[OF grows_mono[OF g empty_subsetI], of "lost_dst job (p # ps)" st' e]
        trace_mono[OF _ lost_dst_mono[of ps "p # ps" job], of st1 st' e] by (auto simp: set_subset_Cons)
    have "poll_transfers env target sock job d s ps st1 = Some (b, st')" using Cons.prems n PollAgain by simp
    from Cons.IH[OF this] show ?thesis using m by (auto split: if_splits)
  next
    case (PollReturn b')
    have m: "transfer_trace (lost_dst job [p]) st st1 e \<Longrightarrow> transfer_trace (lost_dst job (p # ps)) st st1 e" for e
      using trace_mono[OF _ lost_dst_mono[of "[p]" "p # ps" job]] by auto
    show ?thesis using t Cons.prems n PollReturn m by (auto split: if_splits)
  qed
qed simp

lemma run_transfer_trace:
  assumes "run_transfer env target sock job policy spawn_error polls st = Some (shutdown, st')"
  shows "(\<exists>r. transfer_trace (lost_dst job polls) st st' [EvDone r]) \<and> \<not> shutdown
    \<or> transfer_trace (lost_dst job polls) st st' []
        \<and> (\<exists>p \<in> set polls. tp_recv p = (if shutdown then RecvCmd CmdShutdown else RecvDisconnected))"
proof -
  obtain go st1 where s: "start_transfer env target sock job policy spawn_error st = (go, st1)" by fastforce
  show ?thesis
  proof (cases go)
    case False
    then have "\<exists>r. transfer_trace (lost_dst job polls) st st1 [EvDone r]"
      using s trace_end[OF grows_refl] by (fastforce simp: start_transfer_def Let_def split: if_splits option.splits)
    then show ?thesis using assms False s by (auto simp: run_transfer_def)
  next
    case True
    have g: "grows (lost_dst job polls) no_master is_progress st st1"
      using s True by (auto simp: start_transfer_def Let_def grows_effect split: if_splits option.splits)
    have "poll_transfers env target sock job 0 0 polls st1 = Some (shutdown, st')"
      using assms s True by (simp add: run_transfer_def)
    from poll_transfers_trace[OF this] show ?thesis using transfer_trace_after[OF g] by blast
  qed
qed

lemma skipped_transfer:
  "policy = Skip \<or> policy = SkipAll \<Longrightarrow>
     run_transfer env target sock job policy spawn_error polls st = Some (False, send_ev (EvDone TransferOk) st)"
  by (simp add: run_transfer_def start_transfer_def)

section \<open>The commands served\<close>

text \<open>The destinations a service may remove: of the downloads that were really run and ended without
success.\<close>

definition command_loss :: "worker_cmd \<times> io_error option \<times> transfer_poll list \<Rightarrow> string set" where
  "command_loss x = (case x of
     (CmdTransfer job policy, None, polls) \<Rightarrow> if policy = Skip \<or> policy = SkipAll then {} else lost_dst job polls
   | _ \<Rightarrow> {})"

definition service_losses :: "service_input \<Rightarrow> string set" where
  "service_losses cmds = (\<Union>x \<in> set cmds. command_loss x)"

lemma losses_cons: "command_loss x \<subseteq> service_losses (x # rest)" "service_losses rest \<subseteq> service_losses (x # rest)"
  by (auto simp: service_losses_def)

lemma trace_quiet: "transfer_trace D st st' e \<Longrightarrow> grows D no_master (\<lambda>_. True) st st'"
proof -
  assume "transfer_trace D st st' e"
  then obtain st1 efs where g: "grows D no_master is_progress st st1" "ws_temp st' = ws_temp st1" "ws_events st' = ws_events st1 @ e"
      "ws_effects st' = ws_effects st1 @ efs" "list_all no_master efs"
    unfolding transfer_trace_def by blast
  have "grows D no_master (\<lambda>_. True) st st1" using g(1) by (auto simp: grows_def list_all_iff)
  moreover have "grows D no_master (\<lambda>_. True) st1 st'" using g(2-5) by (auto simp: grows_def list_all_iff)
  ultimately show ?thesis by (rule grows_trans)
qed

lemma transfer_quiet:
  assumes "run_transfer env target sock job policy sp polls st = Some (b, st')"
  shows "grows (command_loss (CmdTransfer job policy, sp, polls)) no_master (\<lambda>_. True) st st'"
proof (cases "policy = Skip \<or> policy = SkipAll \<or> sp \<noteq> None")
  case True
  then have "\<exists>r. st' = send_ev (EvDone r) st"
    using assms by (auto simp: run_transfer_def start_transfer_def Let_def split: if_splits option.splits)
  then show ?thesis by (auto simp: grows_send)
next
  case False
  then have "command_loss (CmdTransfer job policy, sp, polls) = lost_dst job polls" by (simp add: command_loss_def)
  then show ?thesis using run_transfer_trace[OF assms] trace_quiet by metis
qed

lemma serve_quiet:
  "serve_commands env target sock cmds st = Some st' \<Longrightarrow> grows (service_losses cmds) no_master (\<lambda>_. True) st st'"
proof (induction cmds arbitrary: st)
  case (Cons x rest)
  obtain cmd sp polls where x: "x = (cmd, sp, polls)" by (cases x)
  have after: "grows (service_losses (x # rest)) no_master (\<lambda>_. True) st st'"
    if "grows (command_loss x) no_master (\<lambda>_. True) st st1" "grows (service_losses rest) no_master (\<lambda>_. True) st1 st'" for st1
    using grows_trans[OF grows_mono[OF that(1) losses_cons(1)] grows_mono[OF that(2) losses_cons(2)]] .
  show ?case
  proof (cases cmd)
    case (CmdList cwd)
    obtain r st1 where l: "sftp_list env target sock cwd st = (r, st1)" by fastforce
    have "grows (command_loss x) no_master (\<lambda>_. True) st (send_ev (EvListing cwd r) st1)"
      using grows_list[of "command_loss x" "\<lambda>_. True" st env target sock cwd] l grows_send grows_trans by fastforce
    then show ?thesis using Cons x CmdList l after by fastforce
  next
    case (CmdTransfer job policy)
    then obtain b st1 where t: "run_transfer env target sock job policy sp polls st = Some (b, st1)"
      using Cons.prems x by (cases "run_transfer env target sock job policy sp polls st") auto
    have g: "grows (command_loss x) no_master (\<lambda>_. True) st st1" using transfer_quiet[OF t] x CmdTransfer by simp
    show ?thesis
    proof (cases b)
      case True
      then show ?thesis using Cons.prems x CmdTransfer t grows_mono[OF g losses_cons(1)] by simp
    next
      case False
      then show ?thesis using Cons x CmdTransfer t after[OF g] by simp
    qed
  qed (use Cons x grows_mono[OF Cons.IH losses_cons(2)] in auto)
qed simp

section \<open>The host key\<close>

text \<open>The connection goes ahead only to a known host, or when the answer to the question was yes; only then
is \<^verbatim>\<open>known_hosts\<close> extended, and nothing else changes.\<close>

lemma host_key_check_facts:
  assumes "host_key_check env h port answer st = (go, st')"
  shows "ws_effects st' = ws_effects st \<and> ts_live (ws_temp st') = ts_live (ws_temp st)
    \<and> (ts_files (ws_temp st') = ts_files (ws_temp st)
       \<or> answer = RecvCmd (CmdHostKeyConfirm True) \<and> (\<exists>kh e. known_hosts_path (wv_hk env) = Some kh
           \<and> ts_files (ws_temp st') = (ts_files (ws_temp st))(kh \<mapsto> e)))
    \<and> (go \<longrightarrow> (\<exists>kh. known_hosts_path (wv_hk env) = Some kh
        \<and> (is_known (wv_hk env) h port kh (ts_files (ws_temp st)) = Inr True \<or> answer = RecvCmd (CmdHostKeyConfirm True))))
    \<and> (go \<or> ws_events st' \<noteq> ws_events st)"
proof (cases "known_hosts_path (wv_hk env)")
  case None
  then show ?thesis using assms by (auto simp: host_key_check_def fail_connect_def send_ev_def)
next
  case (Some kh)
  have app: "(\<exists>e. fs' = fs(kh \<mapsto> e)) \<or> fs' = fs" if "append_to_known_hosts (wv_hk env) h port kh fs = (r, fs')" for r fs fs'
    using append_outcome(1)[OF that] by auto
  show ?thesis
    using assms
    by (auto simp: host_key_check_def Some hostkey_classify_def fail_connect_def send_ev_def Let_def
        split: sum.splits list.splits option.splits recv.splits worker_cmd.splits bool.splits prod.splits if_splits dest!: app)
qed

section \<open>Nothing is left behind\<close>

fun is_spawn_master :: "worker_effect \<Rightarrow> bool" where
  "is_spawn_master (SpawnMaster _ _) = True"
| "is_spawn_master _ = False"

fun is_kill_master :: "worker_effect \<Rightarrow> bool" where
  "is_kill_master KillMaster = True"
| "is_kill_master _ = False"

definition spawned :: "worker_state \<Rightarrow> nat" where
  "spawned st = length (filter is_spawn_master (ws_effects st))"

definition killed :: "worker_state \<Rightarrow> nat" where
  "killed st = length (filter is_kill_master (ws_effects st))"

lemma quiet_counts:
  assumes "grows D no_master Q st st'"
  shows "files_gone D (ws_temp st) (ws_temp st') \<and> spawned st' = spawned st \<and> killed st' = killed st"
proof -
  have "filter is_spawn_master efs = [] \<and> filter is_kill_master efs = []" if "list_all no_master efs" for efs
    using that by (induction efs) (auto elim: no_master.elims)
  then show ?thesis using assms by (auto simp: grows_def spawned_def killed_def)
qed

definition drop_pw :: "worker_env \<Rightarrow> string option \<Rightarrow> temp_state \<Rightarrow> temp_state" where
  "drop_pw env pw ts = (case pw of None \<Rightarrow> ts | Some p \<Rightarrow> drop_password_file (wv_os env) p ts)"

definition drop_sock :: "worker_env \<Rightarrow> string option \<Rightarrow> temp_state \<Rightarrow> temp_state" where
  "drop_sock env sock ts =
     (case sock of None \<Rightarrow> ts | Some s \<Rightarrow> ts\<lparr>ts_files := snd (remove_file (wv_os env) s (ts_files ts))\<rparr>)"

lemma gone_drop_sock: "files_gone (set_option sock) ts (drop_sock env sock ts)"
  by (auto simp: drop_sock_def gone_remove split: option.split)

lemma gone_drop_pw: "files_gone D ts ts' \<Longrightarrow> files_gone D (drop_pw env pw ts) (drop_pw env pw ts')"
  by (auto simp: drop_pw_def gone_drop split: option.split)

lemma count_effect [simp]:
  "spawned (do_effect ef st) = spawned st + (if is_spawn_master ef then 1 else 0)"
  "killed (do_effect ef st) = killed st + (if is_kill_master ef then 1 else 0)"
  "ws_temp (do_effect ef st) = ws_temp st"
  by (simp_all add: spawned_def killed_def do_effect_def)

lemma count_send [simp]:
  "spawned (send_ev ev st) = spawned st" "killed (send_ev ev st) = killed st" "ws_temp (send_ev ev st) = ws_temp st"
  "spawned (fail_connect msg st) = spawned st" "killed (fail_connect msg st) = killed st"
  "ws_temp (fail_connect msg st) = ws_temp st"
  "spawned (st\<lparr>ws_temp := ts\<rparr>) = spawned st" "killed (st\<lparr>ws_temp := ts\<rparr>) = killed st"
  "spawned (remove_local env p st) = spawned st" "killed (remove_local env p st) = killed st"
  "ws_temp (remove_local env p st) = drop_sock env (Some p) (ws_temp st)"
  by (simp_all add: spawned_def killed_def send_ev_def fail_connect_def remove_local_def drop_sock_def)

lemma teardown_counts:
  "ws_temp (teardown env ms st) = drop_pw env (ms_pw_file ms) (drop_sock env (ms_sock ms) (ws_temp st))"
  "spawned (teardown env ms st) = spawned st"
  "killed (teardown env ms st) = killed st + (if ms_child ms then 1 else 0)"
  by (auto simp: teardown_def drop_pw_def Let_def drop_sock_def[of _ None] split: option.splits)

text \<open>So a teardown undoes the staging but for the socket.\<close>

lemma teardown_gone:
  assumes "drop_pw env (ms_pw_file ms) (ws_temp st) = ts"
  shows "files_gone (set_option (ms_sock ms)) ts (ws_temp (teardown env ms st))"
  unfolding teardown_counts(1) assms[symmetric] by (rule gone_drop_pw[OF gone_drop_sock])

lemma stage_dropped:
  assumes "os_removes (wv_os env)" "live_ok ts" "stage_password (wv_os env) src ts = (r, ts')"
  shows "case r of Inl _ \<Rightarrow> ts' = ts | Inr pw \<Rightarrow> drop_pw env pw ts' = ts"
  using assms(3) pw.acquire_err[OF assms(1)] pw.release_inverse[OF assms(1,2)]
  by (auto simp: stage_password_def drop_pw_def split: password_source.splits sum.splits prod.splits)

lemma wait_counts:
  "wait_for_master target sock deadline ps st = Some (r, st') \<Longrightarrow>
     ws_temp st' = ws_temp st \<and> spawned st' = spawned st \<and> killed st' = killed st"
  by (induction ps arbitrary: st) (fastforce simp: Let_def split: option.splits)+

lemma batch_counts: "run_batch env target sock b st = (r, st') \<Longrightarrow>
     ws_temp st' = ws_temp st \<and> spawned st' = spawned st \<and> killed st' = killed st"
  by (auto simp: run_batch_def)

lemma connect_counts:
  assumes os: "os_removes (wv_os env)" and live: "live_ok (ws_temp st0)"
    and c: "connect_phase env ci (st0 :: worker_state) = Some (r, st')"
    and pre: "(if ci_preflight ci then host_key_check env (h_host (ci_host ci)) (h_port (ci_host ci)) (ci_answer ci) st0
               else (True, st0)) = (go, st)" and live1: "live_ok (ws_temp st)"
  shows "case r of
      None \<Rightarrow> files_gone {ci_sock ci} (ws_temp st) (ws_temp st') \<and> spawned st' - spawned st = killed st' - killed st \<and> spawned st \<le> spawned st' \<and> killed st \<le> killed st'
    | Some (ms, _) \<Rightarrow> drop_pw env (ms_pw_file ms) (ws_temp st') = ws_temp st \<and> ms_child ms \<and> ms_sock ms = Some (ci_sock ci)
        \<and> spawned st' = spawned st + 1 \<and> killed st' = killed st"
proof (cases go)
  case False
  then show ?thesis using c pre by (auto simp: connect_phase_def Let_def)
next
  case True
  obtain sr ts where s: "stage_password (wv_os env) (ci_source ci) (ws_temp st) = (sr, ts)" by fastforce
  note sd = stage_dropped[OF os live1 s]
  show ?thesis
  proof (cases sr)
    case (Inl e)
    then show ?thesis using c pre True s sd gone_drop_sock[of "Some (ci_sock ci)" "ws_temp st" env] by (auto simp: connect_phase_def Let_def)
  next
    case (Inr pw)
    have gone: "files_gone {ci_sock ci} (ws_temp st) (drop_pw env pw (drop_sock env (Some (ci_sock ci)) ts))"
      using gone_drop_pw[OF gone_drop_sock[of "Some (ci_sock ci)" ts env], of env pw] sd Inr by simp
    show ?thesis
    proof (cases "ci_spawn_error ci")
      case (Some e)
      then show ?thesis using c pre True s sd Inr gone by (auto simp: connect_phase_def Let_def teardown_counts)
    next
      case None
      define target where "target = sftp_target (ci_resolved ci) (ci_host ci) (ci_overrides ci)"
      define st2 where "st2 = do_effect (SpawnMaster (master_argv (wv_split env) (ci_resolved ci) (ci_host ci) (ci_overrides ci) (ci_sock ci))
          (askpass_env_for_sftp (ci_self_exe ci) (ci_source ci) pw (ci_config_path ci))) (st\<lparr>ws_temp := ts\<rparr>)"
      have s2: "spawned st2 = spawned st + 1" "killed st2 = killed st" "ws_temp st2 = ts" by (simp_all add: st2_def)
      obtain hs st3 where w: "wait_for_master target (ci_sock ci) (ci_start ci + HANDSHAKE_TIMEOUT) (ci_polls ci) st2 = Some (hs, st3)"
        using c pre True s Inr None
        by (auto simp: connect_phase_def Let_def target_def st2_def split: option.splits)
      note wc = wait_counts[OF w]
      obtain br st4 where b: "run_batch env target (ci_sock ci) pwd_batch st3 = (br, st4)" by fastforce
      note bc = batch_counts[OF b]
      show ?thesis
        using c pre True s sd Inr None w wc b bc s2 gone
        by (cases hs) (auto simp: connect_phase_def Let_def target_def[symmetric] st2_def[symmetric] teardown_counts)
    qed
  qed
qed

text \<open>C20: the worker leaves nothing behind.  However the thread of a session ends (a refused host key, a failed
or cancelled handshake, a shutdown in the middle of a transfer), the registry of temporary files is what it was
and the worker has changed no file but \<^verbatim>\<open>known_hosts\<close>, except that the control socket, and the
local destination of a download which it ran and which ended without success (the process failed, a cancel or a
shutdown), may be gone; so the password file is gone, and every master process that was started has been killed.  The bytes an
\<^verbatim>\<open>sftp\<close> process writes to its own destination are not the worker's.  Removing a file is taken to work.\<close>

theorem worker_leaves_nothing:
  assumes "os_removes (wv_os env)" "live_ok (ws_temp st)" "run_worker_thread env ci cmds st = Some st'"
  shows "ts_live (ws_temp st') = ts_live (ws_temp st)
    \<and> (\<forall>p. known_hosts_path (wv_hk env) \<noteq> Some p \<longrightarrow>
          ts_files (ws_temp st') p = ts_files (ws_temp st) p
        \<or> p \<in> insert (ci_sock ci) (service_losses cmds) \<and> ts_files (ws_temp st') p = None)
    \<and> spawned st' - spawned st = killed st' - killed st"
proof -
  obtain go st1 where pre: "(if ci_preflight ci then host_key_check env (h_host (ci_host ci)) (h_port (ci_host ci)) (ci_answer ci) st
      else (True, st)) = (go, st1)" by fastforce
  have hk: "ws_effects st1 = ws_effects st \<and> ts_live (ws_temp st1) = ts_live (ws_temp st)
      \<and> (ts_files (ws_temp st1) = ts_files (ws_temp st) \<or> (\<exists>kh e. known_hosts_path (wv_hk env) = Some kh
           \<and> ts_files (ws_temp st1) = (ts_files (ws_temp st))(kh \<mapsto> e)))"
    using pre host_key_check_facts[of env "h_host (ci_host ci)" "h_port (ci_host ci)" "ci_answer ci" st go st1]
    by (auto split: if_splits)
  then have live1: "live_ok (ws_temp st1)" using assms(2) by (auto simp: live_ok_def list_all_iff)
  have n1: "spawned st1 = spawned st" "killed st1 = killed st" using hk by (simp_all add: spawned_def killed_def)
  obtain r st2 where c: "connect_phase env ci st = Some (r, st2)"
    using assms(3) by (cases "connect_phase env ci st") (auto simp: run_worker_thread_def)
  note cc = connect_counts[OF assms(1,2) c pre live1]
  let ?D = "insert (ci_sock ci) (service_losses cmds)"
  have "files_gone ?D (ws_temp st1) (ws_temp st') \<and> spawned st' - spawned st1 = killed st' - killed st1"
  proof (cases r)
    case None
    then show ?thesis using cc assms(3) c gone_mono[of "{ci_sock ci}" "ws_temp st1" "ws_temp st'" ?D]
      by (simp add: run_worker_thread_def)
  next
    case (Some x)
    obtain ms home where x: "x = (ms, home)" by fastforce
    obtain sock where k: "ms_sock ms = Some sock" using cc Some x by auto
    obtain st3 where s: "serve_commands env (ms_target ms) sock cmds st2 = Some st3" "st' = teardown env ms st3"
      using assms(3) c Some x k by (auto simp: run_worker_thread_def service_loop_def)
    note q = quiet_counts[OF serve_quiet[OF s(1)]]
    have "files_gone ?D (drop_pw env (ms_pw_file ms) (ws_temp st2)) (drop_pw env (ms_pw_file ms) (ws_temp st3))"
      using gone_mono[OF gone_drop_pw[OF conjunct1[OF q]], of ?D] by blast
    moreover have "files_gone ?D (drop_pw env (ms_pw_file ms) (ws_temp st3)) (ws_temp st')"
      using gone_mono[OF teardown_gone[where env = env and ms = ms and st = st3, OF refl], of ?D] cc by (simp add: s(2) Some x)
    ultimately have "files_gone ?D (drop_pw env (ms_pw_file ms) (ws_temp st2)) (ws_temp st')" by (rule gone_trans)
    then show ?thesis using q cc by (simp add: s(2) teardown_counts Some x)
  qed
  then show ?thesis using hk n1 unfolding files_gone_def by (metis fun_upd_other)
qed

end
