(* ===== verification/Transfer_System.thy ===== *)
theory Transfer_System
  imports Transfer_Loop Worker_Facts
begin

text \<open>The transfer screen and its worker as one system of two threads that share two channels: keys, ticks of
the event loop and steps of the worker in any order.  The invariant is that at most one transfer is on its way, and
that it is the task the ledger shows in flight.\<close>

section \<open>What keys and ticks do to the ledger\<close>

named_theorems ledger_frame

lemma on_pane_ledger [ledger_frame]: "sc_ledger (on_pane s f sc) = sc_ledger sc"
  by (cases s) (simp_all add: on_pane_def)

lemma set_status_ledger [ledger_frame]: "sc_ledger (set_status s sc) = sc_ledger sc"
  by (simp add: set_status_def)

lemma search_request_ledger [ledger_frame]: "sc_ledger (search_request home s q sc) = sc_ledger sc"
  by (simp add: search_request_def Let_def ledger_frame)

lemma clear_query_ledger [ledger_frame]: "sc_ledger (clear_query rk s sc) = sc_ledger sc"
  by (simp add: clear_query_def ledger_frame)

lemma cancel_search_ledger [ledger_frame]: "sc_ledger (cancel_search rk sc) = sc_ledger sc"
  by (simp add: cancel_search_def Let_def ledger_frame)

lemma complete_ledger [ledger_frame]: "sc_ledger (snd (complete_focused rk home sc)) = sc_ledger sc"
  by (simp add: complete_focused_def ledger_frame split: option.split)

lemma jump_ledger [ledger_frame]: "sc_ledger (snd (jump_to_search_result rk sc)) = sc_ledger sc"
  by (simp add: jump_to_search_result_def ledger_frame split: option.split)

lemma flip_ledger [ledger_frame]: "sc_ledger (flip_focus sc) = sc_ledger sc"
  by (simp add: flip_focus_def)

lemma close_ledger [ledger_frame]: "sc_ledger (snd (request_close sc)) = sc_ledger sc"
  by (simp add: request_close_def split: option.split)

text \<open>A step of the ledger that leaves the task in flight alone.\<close>

definition ledger_kept :: "ledger \<Rightarrow> ledger \<Rightarrow> bool" where
  "ledger_kept l l' \<longleftrightarrow> (ledger_ok l \<longrightarrow> ledger_ok l' \<and> inflight_jobs l' = inflight_jobs l)"

lemma kept_refl [simp]: "ledger_kept l l"
  by (simp add: ledger_kept_def)

lemma kept_enqueue: "ledger_kept l (snd (enqueue job l))"
  by (simp add: ledger_kept_def enqueue_ok enqueue_jobs)

lemma kept_fold: "ledger_kept l (fold (\<lambda>e l. snd (enqueue (f e) l)) es l)"
proof (induction es arbitrary: l)
  case (Cons e es)
  then show ?case using kept_enqueue[of l "f e"] by (auto simp: ledger_kept_def)
qed simp

lemma enqueue_focused_kept: "ledger_kept (sc_ledger sc) (sc_ledger (snd (enqueue_focused sc)))"
  by (auto simp: enqueue_focused_def enqueue_from_search_def enqueue_from_focused_def Let_def on_ledger_def ledger_frame
      kept_enqueue kept_fold split: option.split)

lemma enqueue_from_focused_kept: "ledger_kept (sc_ledger sc) (sc_ledger (snd (enqueue_from_focused sc)))"
  by (auto simp: enqueue_from_focused_def Let_def on_ledger_def ledger_frame kept_fold)

lemma route_focused_kept: "ledger_kept (sc_ledger sc) (sc_ledger (snd (route_to_focused rk home key sc)))"
  using enqueue_from_focused_kept[of "on_pane (sc_focus sc) (\<lambda>_. snd (pane_on_key rk home key (focused_pane sc))) sc"]
  by (auto simp: route_to_focused_def split_beta Let_def ledger_frame split: pane_outcome.split option.split)

lemma browse_kept: "ledger_kept (sc_ledger sc) (sc_ledger (snd (browse_key rk home key sc)))"
  using enqueue_focused_kept[of sc] route_focused_kept[of sc rk home key]
  by (auto simp: browse_key_def Let_def split_beta ledger_frame split: option.split)

lemma screen_key_kept: "ledger_kept (sc_ledger sc) (sc_ledger (snd (screen_on_key rk home key sc)))"
proof -
  have "ledger_kept (sc_ledger sc) (snd (snd (queue_on_key key ov (sc_ledger sc))))" for ov
    using queue_key_ledger[of "sc_ledger sc" key ov] unfolding ledger_kept_def by (metis prod.collapse)
  then show ?thesis
    using browse_kept[of sc rk home key]
    by (auto simp: screen_on_key_def split_beta Let_def split: option.split)
qed

section \<open>Ticks\<close>

definition app_ledger :: "transfer_app \<Rightarrow> ledger" where
  "app_ledger a = (case ta_transfer a of Some sc \<Rightarrow> sc_ledger sc | None \<Rightarrow> ledger_new)"

text \<open>What a tick step keeps: the worker, the ledger but for kept changes, and the flags; it may only send
commands that are not transfers.\<close>

fun is_transfer :: "worker_cmd \<Rightarrow> bool" where
  "is_transfer (CmdTransfer _ _) = True"
| "is_transfer _ = False"

fun is_done_event :: "worker_event \<Rightarrow> bool" where
  "is_done_event (EvDone _) = True"
| "is_done_event _ = False"

definition quiet_step :: "transfer_app \<Rightarrow> transfer_app \<Rightarrow> bool" where
  "quiet_step a b \<longleftrightarrow> ta_worker b = ta_worker a \<and> (ta_transfer b = None \<longleftrightarrow> ta_transfer a = None)
     \<and> ledger_kept (app_ledger a) (app_ledger b)
     \<and> (\<exists>cs. ta_sent b = ta_sent a @ cs \<and> list_all (\<lambda>c. \<not> is_transfer c \<and> c \<noteq> CmdShutdown) cs)
     \<and> ta_pending_advance b = ta_pending_advance a \<and> ta_pending_cancel b = ta_pending_cancel a"

lemma quiet_refl [simp]: "quiet_step a a"
  by (simp add: quiet_step_def)

lemma quiet_trans: "quiet_step a b \<Longrightarrow> quiet_step b c \<Longrightarrow> quiet_step a c"
proof -
  assume ab: "quiet_step a b" and bc: "quiet_step b c"
  obtain cs1 cs2 where "ta_sent b = ta_sent a @ cs1" "list_all (\<lambda>c. \<not> is_transfer c \<and> c \<noteq> CmdShutdown) cs1"
      "ta_sent c = ta_sent b @ cs2" "list_all (\<lambda>c. \<not> is_transfer c \<and> c \<noteq> CmdShutdown) cs2"
    using ab bc unfolding quiet_step_def by blast
  then have "\<exists>cs. ta_sent c = ta_sent a @ cs \<and> list_all (\<lambda>c. \<not> is_transfer c \<and> c \<noteq> CmdShutdown) cs"
    by (intro exI[of _ "cs1 @ cs2"]) simp
  then show ?thesis using ab bc unfolding quiet_step_def ledger_kept_def by simp
qed

lemma quiet_screen: "(\<And>sc. ledger_kept (sc_ledger sc) (sc_ledger (f sc))) \<Longrightarrow> quiet_step a (on_screen f a)"
  by (auto simp: quiet_step_def on_screen_def app_ledger_def split: option.split)

lemma quiet_send: "\<not> is_transfer c \<Longrightarrow> c \<noteq> CmdShutdown \<Longrightarrow> quiet_step a (send_cmd c a)"
  by (auto simp: quiet_step_def send_cmd_def app_ledger_def)

lemma quiet_pending_list: "quiet_step a (drain_pending_list env a)"
proof (cases "Option.bind (ta_transfer a) sc_pending_list")
  case None
  then show ?thesis by (simp add: drain_pending_list_def)
next
  case (Some x)
  obtain s path where x: "x = (s, path)" by fastforce
  have f: "ledger_kept (sc_ledger sc) (sc_ledger (on_pane s f (sc\<lparr>sc_pending_list := None\<rparr>)))" for sc s f
    by (simp add: ledger_frame)
  have g: "ledger_kept (sc_ledger sc) (sc_ledger (on_pane s f sc))"
    "ledger_kept (sc_ledger sc) (sc_ledger (set_status t (on_pane s f sc)))" for sc s f t
    by (simp_all add: ledger_frame)
  show ?thesis
    using quiet_screen[OF f] quiet_trans[OF quiet_screen[OF f] quiet_screen[OF g(1)]]
      quiet_trans[OF quiet_screen[OF f] quiet_screen[OF g(2)]] quiet_trans[OF quiet_screen[OF f] quiet_send]
    by (auto simp: drain_pending_list_def Some x Let_def split: side.split sum.split)
qed

lemma fold_search_ledger: "sc_ledger (fold (apply_search_event s) evs sc) = sc_ledger sc"
  by (induction evs arbitrary: sc) (simp_all add: apply_search_event_def ledger_frame)

lemma quiet_drain_search: "quiet_step a (on_screen (drain_search env) a)"
  by (rule quiet_screen) (simp add: drain_search_def Let_def fold_search_ledger split: option.split)

lemma begin_search_ledger: "sc_ledger (begin_search s sc) = sc_ledger sc"
  by (simp add: begin_search_def Let_def ledger_frame split: option.split)

lemma quiet_launch: "quiet_step a (launch_search env a)"
  by (auto simp: launch_search_def quiet_step_def app_ledger_def Let_def begin_search_ledger split: option.split)

lemma quiet_refresh: "quiet_step a (refresh_pane env d a)"
proof -
  have g: "ledger_kept (sc_ledger sc) (sc_ledger (on_pane s f sc))"
    "ledger_kept (sc_ledger sc) (sc_ledger (set_status t (on_pane s f sc)))" for sc s f t
    by (simp_all add: ledger_frame)
  show ?thesis
    using quiet_screen[OF g(1)] quiet_screen[OF g(2)] quiet_trans[OF quiet_screen[OF g(1)] quiet_send]
    by (auto simp: refresh_pane_def split: option.split direction.split sum.split)
qed

section \<open>The system\<close>

text \<open>The two channels are the commands not yet received and the events not yet drained; a running transfer
carries its job and the last sample of its progress.\<close>

record system =
  sy_app :: transfer_app
  sy_cmds :: "worker_cmd list"
  sy_running :: "(transfer_job \<times> nat \<times> nat) option"
  sy_worker :: worker_state

text \<open>The commands that a UI step sent move to the channel.\<close>

definition post :: "transfer_app \<Rightarrow> system \<Rightarrow> system" where
  "post a s = s\<lparr>sy_app := a\<lparr>ta_sent := []\<rparr>, sy_cmds := sy_cmds s @ ta_sent a\<rparr>"

definition take_events :: "nat \<Rightarrow> worker_state \<Rightarrow> worker_event list \<times> worker_state" where
  "take_events n ws = (take n (ws_events ws), ws\<lparr>ws_events := drop n (ws_events ws)\<rparr>)"

text \<open>The handle is dropped, and the worker told to stop, only when the screen closes, which ends a run.\<close>

inductive system_step :: "worker_env \<Rightarrow> string \<Rightarrow> string \<Rightarrow> system \<Rightarrow> system \<Rightarrow> bool" for env target sock where
  key: "\<lbrakk>ta_transfer (sy_app s) = Some sc; route_transfer rk home k sc (sy_app s) = (RouteContinue, a)\<rbrakk>
    \<Longrightarrow> system_step env target sock s (post a s)"
| tick: "\<lbrakk>take_events n (sy_worker s) = (evs, ws); te_events te = evs\<rbrakk>
    \<Longrightarrow> system_step env target sock s (post (drain_transfer_events te (sy_app s)) (s\<lparr>sy_worker := ws\<rparr>))"
| listing: "\<lbrakk>sy_running s = None; sy_cmds s = CmdList cwd # cs; sftp_list env target sock cwd (sy_worker s) = (r, ws)\<rbrakk>
    \<Longrightarrow> system_step env target sock s (s\<lparr>sy_cmds := cs, sy_worker := send_ev (EvListing cwd r) ws\<rparr>)"
| start: "\<lbrakk>sy_running s = None; sy_cmds s = CmdTransfer job policy # cs;
      start_transfer env target sock job policy err (sy_worker s) = (go, ws)\<rbrakk>
    \<Longrightarrow> system_step env target sock s (s\<lparr>sy_cmds := cs, sy_running := (if go then Some (job, 0, 0) else None), sy_worker := ws\<rparr>)"
| drop_cmd: "\<lbrakk>sy_running s = None; sy_cmds s = c # cs; c = CmdCancel \<or> c = CmdHostKeyConfirm b\<rbrakk>
    \<Longrightarrow> system_step env target sock s (s\<lparr>sy_cmds := cs\<rparr>)"
| poll: "\<lbrakk>sy_running s = Some (job, pd, psec);
      tp_recv p = RecvTimeout \<and> cs = sy_cmds s \<or> (\<exists>c. tp_recv p = RecvCmd c \<and> sy_cmds s = c # cs);
      cs' = (if tp_wait p = WaitRunning then cs else sy_cmds s);
      poll_transfer env target sock job pd psec p (sy_worker s) = (nxt, ws)\<rbrakk>
    \<Longrightarrow> system_step env target sock s
          (s\<lparr>sy_cmds := cs', sy_worker := ws,
             sy_running := (case nxt of PollAgain d n \<Rightarrow> Some (job, d, n) | PollReturn _ \<Rightarrow> None)\<rparr>)"

inductive reachable :: "worker_env \<Rightarrow> string \<Rightarrow> string \<Rightarrow> system \<Rightarrow> system \<Rightarrow> bool" for env target sock s0 where
  init: "reachable env target sock s0 s0"
| step: "reachable env target sock s0 s \<Longrightarrow> system_step env target sock s s' \<Longrightarrow> reachable env target sock s0 s'"

text \<open>A fresh session: a screen with an empty ledger and a worker that has done nothing for it yet.\<close>

definition fresh_system :: "system \<Rightarrow> bool" where
  "fresh_system s \<longleftrightarrow> app_ledger (sy_app s) = ledger_new \<and> ta_transfer (sy_app s) \<noteq> None \<and> ta_worker (sy_app s)
     \<and> ta_sent (sy_app s) = [] \<and> \<not> ta_pending_advance (sy_app s) \<and> sy_running s = None
     \<and> list_all (\<lambda>c. \<not> is_transfer c \<and> c \<noteq> CmdShutdown) (sy_cmds s) \<and> list_all (\<lambda>e. \<not> is_done_event e) (ws_events (sy_worker s))"

section \<open>The invariant\<close>

definition transfer_jobs :: "worker_cmd list \<Rightarrow> transfer_job list" where
  "transfer_jobs cs = List.map_filter (\<lambda>c. case c of CmdTransfer j _ \<Rightarrow> Some j | _ \<Rightarrow> None) cs"

definition done_events :: "worker_event list \<Rightarrow> nat" where
  "done_events evs = length (filter is_done_event evs)"

definition running_jobs :: "system \<Rightarrow> transfer_job list" where
  "running_jobs s = (case sy_running s of Some (j, _, _) \<Rightarrow> [j] | None \<Rightarrow> [])"

definition system_ok :: "system \<Rightarrow> bool" where
  "system_ok s \<longleftrightarrow>
     (let l = app_ledger (sy_app s); way = transfer_jobs (sy_cmds s) @ running_jobs s
      in ledger_ok l \<and> length way + done_events (ws_events (sy_worker s)) = length (inflight_jobs l)
         \<and> (way \<noteq> [] \<longrightarrow> way = inflight_jobs l) \<and> (ta_pending_advance (sy_app s) \<longrightarrow> inflight_jobs l = [])
         \<and> ta_worker (sy_app s) \<and> ta_transfer (sy_app s) \<noteq> None \<and> ta_sent (sy_app s) = []
         \<and> CmdShutdown \<notin> set (sy_cmds s))"

section \<open>Keys keep it\<close>

lemma send_simps [simp]:
  "ta_transfer (send_cmd c a) = ta_transfer a" "ta_worker (send_cmd c a) = ta_worker a"
  "ta_pending_advance (send_cmd c a) = ta_pending_advance a" "ta_pending_cancel (send_cmd c a) = ta_pending_cancel a"
  "ta_sent (send_cmd c a) = ta_sent a @ (if ta_worker a then [c] else [])" "app_ledger (send_cmd c a) = app_ledger a"
  by (simp_all add: send_cmd_def app_ledger_def)

lemma screen_simps [simp]:
  "ta_transfer (on_screen f a) = map_option f (ta_transfer a)" "ta_worker (on_screen f a) = ta_worker a"
  "ta_pending_advance (on_screen f a) = ta_pending_advance a" "ta_pending_cancel (on_screen f a) = ta_pending_cancel a"
  "ta_sent (on_screen f a) = ta_sent a"
  by (simp_all add: on_screen_def)

lemma app_ledger_Some: "ta_transfer a = Some sc \<Longrightarrow> app_ledger a = sc_ledger sc"
  by (simp add: app_ledger_def)

definition harmless :: "worker_cmd \<Rightarrow> bool" where
  "harmless c \<longleftrightarrow> \<not> is_transfer c \<and> c \<noteq> CmdShutdown"

lemma route_kept:
  assumes "ta_transfer a0 = Some sc" "route_transfer rk home key sc a0 = (RouteContinue, a)"
  shows "ledger_kept (app_ledger a0) (app_ledger a) \<and> ta_worker a = ta_worker a0 \<and> ta_transfer a \<noteq> None
    \<and> (\<exists>cs. ta_sent a = ta_sent a0 @ cs \<and> list_all harmless cs)
    \<and> (ta_pending_advance a \<longrightarrow> ta_pending_advance a0 \<or> inflight_jobs (app_ledger a) = [])"
proof -
  define sc1 where "sc1 = (if ke_kind key = Press \<and> sc_connect sc = Connected then set_status status_empty sc else sc)"
  obtain out sc2 where k: "screen_on_key rk home key sc1 = (out, sc2)" by fastforce
  have "ledger_kept (sc_ledger sc) (sc_ledger sc2)"
    using screen_key_kept[of sc1 rk home key] k by (simp add: sc1_def ledger_frame split: if_splits)
  then show ?thesis
    using assms k
    by (cases out; cases "inflight_jobs (sc_ledger sc2) = []")
      (auto simp: route_transfer_def sc1_def[symmetric] app_ledger_Some has_inflight_iff harmless_def Let_def)
qed

section \<open>Ticks keep it\<close>

lemma quiet_harmless: "quiet_step a b \<Longrightarrow> \<exists>cs. ta_sent b = ta_sent a @ cs \<and> list_all harmless cs"
  by (auto simp: quiet_step_def harmless_def[abs_def])

lemma worker_event_quiet:
  assumes "\<not> is_done_event ev"
  shows "quiet_step (da_app acc) (da_app (on_worker_event env ev acc))
    \<and> da_advance (on_worker_event env ev acc) = da_advance acc"
proof -
  have g: "ledger_kept (sc_ledger sc) (sc_ledger (apply_remote_listing rk cwd res sc))" for sc rk cwd res
    by (simp add: apply_remote_listing_def ledger_frame split: sum.split)
  have p: "ledger_kept (sc_ledger sc) (sc_ledger (set_active (Some x) sc))" for sc x
    by (simp add: ledger_kept_def set_active_def progress_ok)
  have r: "quiet_step a (a\<lparr>ta_remote_search := True\<rparr>)" for a by (simp add: quiet_step_def app_ledger_def)
  have h: "quiet_step a (on_screen (\<lambda>sc. on_pane RemoteSide f (sc\<lparr>sc_connect := c, sc_remote_home := d\<rparr>)) a)"
    "quiet_step a (on_screen (\<lambda>sc. set_status t (sc\<lparr>sc_connect := c\<rparr>)) a)"
    "quiet_step a (on_screen (\<lambda>sc. sc\<lparr>sc_host_key := hk\<rparr>) a)" for a f c d t hk
    by (rule quiet_screen, simp add: ledger_frame)+
  show ?thesis
    using assms quiet_screen[OF g] quiet_screen[OF p] h(2,3)
      quiet_trans[OF quiet_trans[OF h(1) r] quiet_send[of "CmdList x" for x]]
    by (cases ev) (auto simp: on_worker_event_def Let_def)
qed

lemma worker_event_done:
  assumes "ledger_ok (app_ledger (da_app acc))" "ta_transfer (da_app acc) \<noteq> None"
  shows "let b = da_app (on_worker_event env (EvDone r) acc)
    in ta_worker b = ta_worker (da_app acc) \<and> ta_transfer b \<noteq> None \<and> ta_sent b = ta_sent (da_app acc)
       \<and> ledger_ok (app_ledger b) \<and> inflight_jobs (app_ledger b) = []
       \<and> ta_pending_advance b = ta_pending_advance (da_app acc)"
  using assms finish_ok
  by (cases r) (auto simp: on_worker_event_def Let_def on_screen_def app_ledger_def on_ledger_def)

lemma worker_events_fold:
  assumes "ledger_ok (app_ledger (da_app acc))" "ta_transfer (da_app acc) \<noteq> None"
  shows "let acc' = fold (on_worker_event env) evs acc; b = da_app acc'
    in ta_worker b = ta_worker (da_app acc) \<and> ta_transfer b \<noteq> None
       \<and> (\<exists>cs. ta_sent b = ta_sent (da_app acc) @ cs \<and> list_all harmless cs)
       \<and> ledger_ok (app_ledger b)
       \<and> inflight_jobs (app_ledger b) = (if list_ex is_done_event evs then [] else inflight_jobs (app_ledger (da_app acc)))
       \<and> ta_pending_advance b = ta_pending_advance (da_app acc)
       \<and> (da_advance acc' \<longrightarrow> da_advance acc \<or> list_ex is_done_event evs)"
  using assms
proof (induction evs arbitrary: acc)
  case (Cons ev evs)
  define acc1 where "acc1 = on_worker_event env ev acc"
  define b where "b = da_app acc1"
  have s: "ta_worker b = ta_worker (da_app acc) \<and> ta_transfer b \<noteq> None
       \<and> (\<exists>cs. ta_sent b = ta_sent (da_app acc) @ cs \<and> list_all harmless cs) \<and> ledger_ok (app_ledger b)
       \<and> inflight_jobs (app_ledger b) = (if is_done_event ev then [] else inflight_jobs (app_ledger (da_app acc)))
       \<and> ta_pending_advance b = ta_pending_advance (da_app acc)
       \<and> (da_advance acc1 \<longrightarrow> da_advance acc \<or> is_done_event ev)"
  proof (cases "is_done_event ev")
    case True
    then obtain r where "ev = EvDone r" by (cases ev) auto
    then show ?thesis
      using worker_event_done[OF Cons.prems, of env r] by (simp add: Let_def acc1_def b_def)
  next
    case False
    from worker_event_quiet[OF this, of acc env] have q: "quiet_step (da_app acc) b" "da_advance acc1 = da_advance acc"
      by (simp_all add: acc1_def b_def)
    show ?thesis
      using q(1) quiet_harmless[OF q(1)] q(2) Cons.prems False by (simp add: quiet_step_def ledger_kept_def)
  qed
  then obtain cs1 where c1: "ta_sent b = ta_sent (da_app acc) @ cs1" "list_all harmless cs1" by blast
  have ih: "let acc' = fold (on_worker_event env) evs acc1; b' = da_app acc'
    in ta_worker b' = ta_worker b \<and> ta_transfer b' \<noteq> None
       \<and> (\<exists>cs. ta_sent b' = ta_sent b @ cs \<and> list_all harmless cs) \<and> ledger_ok (app_ledger b')
       \<and> inflight_jobs (app_ledger b') = (if list_ex is_done_event evs then [] else inflight_jobs (app_ledger b))
       \<and> ta_pending_advance b' = ta_pending_advance b
       \<and> (da_advance acc' \<longrightarrow> da_advance acc1 \<or> list_ex is_done_event evs)"
    unfolding b_def by (rule Cons.IH) (use s b_def in auto)
  then obtain cs2 where c2: "ta_sent (da_app (fold (on_worker_event env) evs acc1)) = ta_sent b @ cs2" "list_all harmless cs2"
    by (auto simp: Let_def)
  have "\<exists>cs. ta_sent (da_app (fold (on_worker_event env) evs acc1)) = ta_sent (da_app acc) @ cs \<and> list_all harmless cs"
    using c1 c2 by (intro exI[of _ "cs1 @ cs2"]) simp
  then show ?case
    using ih s by (simp add: Let_def acc1_def[symmetric]) blast
qed (simp add: Let_def)

text \<open>A dispatch with nothing in flight sends at most one job, the one it marks.\<close>

lemma dispatch_sends:
  assumes "ledger_ok (app_ledger a)" "inflight_jobs (app_ledger a) = []" "ta_transfer a \<noteq> None" "ta_worker a"
  shows "let b = dispatch_next_job env a
    in ta_worker b \<and> ta_transfer b \<noteq> None \<and> ledger_ok (app_ledger b) \<and> ta_pending_advance b = ta_pending_advance a
       \<and> (ta_sent b = ta_sent a \<and> inflight_jobs (app_ledger b) = []
          \<or> (\<exists>job p. ta_sent b = ta_sent a @ [CmdTransfer job p] \<and> inflight_jobs (app_ledger b) = [job]))"
proof -
  obtain sc where sc: "ta_transfer a = Some sc" using assms(3) by blast
  have l: "ledger_ok (sc_ledger sc)" "inflight_jobs (sc_ledger sc) = []" using assms sc by (simp_all add: app_ledger_def)
  obtain r l' where d: "next_to_dispatch (sc_ledger sc) = (r, l')" by fastforce
  have ok: "ledger_ok l'" using dispatch_ok[OF l(1)] l(2) d by (simp add: has_inflight_iff)
  show ?thesis
  proof (cases r)
    case None
    then show ?thesis
      using d l dispatch_none[of "sc_ledger sc" l'] assms(4) sc
      by (simp add: dispatch_next_job_def next_job_def app_ledger_def Let_def)
  next
    case (Some i)
    then obtain job where j: "job_for i l' = Some job" "inflight_jobs l' = [job]"
      using dispatch_job[OF l] d by blast
    have n: "next_job sc = (Some job, sc\<lparr>sc_ledger := l'\<rparr>)" using d Some j by (simp add: next_job_def)
    have c: "ledger_ok (clear_queued (abort_inflight l'))" "inflight_jobs (clear_queued (abort_inflight l')) = []"
      using abort_ok[OF ok] clear_ok[of "abort_inflight l'"] by simp_all
    show ?thesis
      using ok j c assms(4) sc n
      by (auto simp: dispatch_next_job_def n Let_def app_ledger_def on_screen_def send_cmd_def on_ledger_def ledger_frame
          split: confirm_answer.split option.split)
  qed
qed

lemma drain_sends:
  fixes a0 :: transfer_app
  assumes "ledger_ok (app_ledger a0)" "ta_transfer a0 \<noteq> None" "ta_worker a0"
    and "ta_pending_advance a0 \<longrightarrow> inflight_jobs (app_ledger a0) = []"
  shows "let b = drain_transfer_events env a0; rest = (if list_ex is_done_event (te_events env) then [] else inflight_jobs (app_ledger a0))
    in ta_worker b \<and> ta_transfer b \<noteq> None \<and> ledger_ok (app_ledger b) \<and> \<not> ta_pending_advance b
       \<and> (\<exists>cs1 job p cs2. list_all harmless cs1 \<and> list_all harmless cs2
            \<and> (ta_sent b = ta_sent a0 @ cs1 \<and> inflight_jobs (app_ledger b) = rest
               \<or> ta_sent b = ta_sent a0 @ cs1 @ [CmdTransfer job p] @ cs2 \<and> rest = [] \<and> inflight_jobs (app_ledger b) = [job]))"
proof -
  define a1 where "a1 = launch_search env (on_screen (drain_search env) (drain_pending_list env a0))"
  define acc where "acc = fold (on_worker_event env) (te_events env) \<lparr>da_app = a1, da_failed = None, da_advance = False, da_refresh = None\<rparr>"
  define a2 where "a2 = da_app acc"
  define a3 where "a3 = (if ta_pending_cancel a2 then send_cmd CmdCancel (a2\<lparr>ta_pending_cancel := False\<rparr>) else a2)"
  define a4 where "a4 = a3\<lparr>ta_pending_advance := False\<rparr>"
  define a5 where "a5 = (if ta_pending_advance a3 \<or> da_advance acc then dispatch_next_job env a4 else a4)"
  define a6 where "a6 = (case da_failed acc of
      Some msg \<Rightarrow> on_screen (set_status (status_error (''transfer failed: '' @ msg))) a5 | None \<Rightarrow> a5)"
  define b where "b = (case da_refresh acc of Some d \<Rightarrow> refresh_pane env d a6 | None \<Rightarrow> a6)"
  let ?rest = "if list_ex is_done_event (te_events env) then [] else inflight_jobs (app_ledger a0)"
  have q1: "quiet_step a0 a1"
    unfolding a1_def using quiet_trans[OF quiet_trans[OF quiet_pending_list quiet_drain_search] quiet_launch] .
  then have w1: "ta_worker a1" "ta_transfer a1 \<noteq> None" "ledger_ok (app_ledger a1)" "inflight_jobs (app_ledger a1) = inflight_jobs (app_ledger a0)"
      "ta_pending_advance a1 = ta_pending_advance a0"
    using assms by (auto simp: quiet_step_def ledger_kept_def)
  obtain c1 where c1: "ta_sent a1 = ta_sent a0 @ c1" "list_all harmless c1" using quiet_harmless[OF q1] by blast
  have b: "drain_transfer_events env a0 = b"
    using w1(1)
    by (simp only: drain_transfer_events_def Let_def a1_def[symmetric] if_True acc_def[symmetric] a2_def[symmetric]
        a3_def[symmetric] a4_def[symmetric] a5_def[symmetric] a6_def[symmetric] b_def[symmetric])
  have f: "ta_worker a2 \<and> ta_transfer a2 \<noteq> None \<and> (\<exists>cs. ta_sent a2 = ta_sent a1 @ cs \<and> list_all harmless cs)
      \<and> ledger_ok (app_ledger a2) \<and> inflight_jobs (app_ledger a2) = ?rest \<and> ta_pending_advance a2 = ta_pending_advance a0
      \<and> (da_advance acc \<longrightarrow> list_ex is_done_event (te_events env))"
    using worker_events_fold[of "\<lparr>da_app = a1, da_failed = None, da_advance = False, da_refresh = None\<rparr>" env "te_events env"] w1
    by (simp add: Let_def acc_def[symmetric] a2_def[symmetric])
  then obtain c2 where c2: "ta_sent a2 = ta_sent a1 @ c2" "list_all harmless c2" by blast
  define c3 where "c3 = (if ta_pending_cancel a2 then [CmdCancel] else [])"
  have a4: "ta_sent a4 = ta_sent a0 @ c1 @ c2 @ c3" "list_all harmless c3" "ta_worker a4" "ta_transfer a4 \<noteq> None"
      "app_ledger a4 = app_ledger a2" "\<not> ta_pending_advance a4"
    using f c1 c2 by (auto simp: a4_def a3_def c3_def harmless_def app_ledger_def)
  have p3: "ta_pending_advance a3 = ta_pending_advance a2" by (simp add: a3_def)
  have adv: "?rest = []" if "ta_pending_advance a3 \<or> da_advance acc" using that f assms(4) p3 by auto
  have d: "ta_worker a5 \<and> ta_transfer a5 \<noteq> None \<and> ledger_ok (app_ledger a5) \<and> \<not> ta_pending_advance a5
      \<and> (ta_sent a5 = ta_sent a4 \<and> inflight_jobs (app_ledger a5) = ?rest
         \<or> (\<exists>job p. ta_sent a5 = ta_sent a4 @ [CmdTransfer job p] \<and> ?rest = [] \<and> inflight_jobs (app_ledger a5) = [job]))"
  proof (cases "ta_pending_advance a3 \<or> da_advance acc")
    case True
    have "ledger_ok (app_ledger a4)" "inflight_jobs (app_ledger a4) = []" using f a4(5) adv[OF True] by auto
    from dispatch_sends[OF this a4(4,3), of env] show ?thesis using True adv[OF True] a4(6) by (simp add: a5_def Let_def)
  qed (use f a4 in \<open>simp add: a5_def\<close>)
  have q5: "quiet_step a5 b"
  proof -
    have "quiet_step a5 a6"
      by (auto simp: a6_def ledger_frame intro!: quiet_screen split: option.split)
    moreover have "quiet_step a6 b" by (simp add: b_def quiet_refresh split: option.split)
    ultimately show ?thesis by (rule quiet_trans)
  qed
  then obtain c5 where c5: "ta_sent b = ta_sent a5 @ c5" "list_all harmless c5" using quiet_harmless by blast
  have e: "ta_worker b \<and> ta_transfer b \<noteq> None \<and> ledger_ok (app_ledger b) \<and> \<not> ta_pending_advance b
      \<and> inflight_jobs (app_ledger b) = inflight_jobs (app_ledger a5)"
    using q5 d by (simp add: quiet_step_def ledger_kept_def)
  from d consider "ta_sent a5 = ta_sent a4" "inflight_jobs (app_ledger a5) = ?rest"
    | job p where "ta_sent a5 = ta_sent a4 @ [CmdTransfer job p]" "?rest = []" "inflight_jobs (app_ledger a5) = [job]" by blast
  then have "\<exists>cs1 job p cs2. list_all harmless cs1 \<and> list_all harmless cs2
      \<and> (ta_sent b = ta_sent a0 @ cs1 \<and> inflight_jobs (app_ledger b) = ?rest
         \<or> ta_sent b = ta_sent a0 @ cs1 @ [CmdTransfer job p] @ cs2 \<and> ?rest = [] \<and> inflight_jobs (app_ledger b) = [job])"
  proof cases
    case 1
    then show ?thesis
      using e c1 c2 a4 c5 by (intro exI[of _ "c1 @ c2 @ c3 @ c5"] exI[of _ undefined] exI[of _ "[]"]) simp
  next
    case (2 job p)
    show ?thesis
      by (rule exI[of _ "c1 @ c2 @ c3"], rule exI[of _ job], rule exI[of _ p], rule exI[of _ c5])
        (use 2 e c1 c2 a4 c5 in simp)
  qed
  then show ?thesis using e by (simp add: b Let_def)
qed

section \<open>The system keeps it\<close>

lemma transfer_jobs_simps [simp]:
  "transfer_jobs [] = []" "transfer_jobs (cs @ ds) = transfer_jobs cs @ transfer_jobs ds"
  "transfer_jobs (c # cs) = (case c of CmdTransfer j _ \<Rightarrow> [j] | _ \<Rightarrow> []) @ transfer_jobs cs"
  by (auto simp: transfer_jobs_def map_filter_def split: worker_cmd.split)

lemma harmless_jobs: "list_all harmless cs \<Longrightarrow> transfer_jobs cs = [] \<and> CmdShutdown \<notin> set cs"
  by (induction cs) (auto simp: harmless_def split: worker_cmd.split)

lemma done_simps [simp]:
  "done_events [] = 0" "done_events (es @ fs) = done_events es + done_events fs"
  "done_events (e # es) = (if is_done_event e then 1 else 0) + done_events es"
  by (simp_all add: done_events_def)

lemma done_none: "list_all is_progress es \<Longrightarrow> done_events es = 0"
  by (induction es) (auto elim: is_progress.elims)

lemma done_some: "list_ex is_done_event es \<longleftrightarrow> 0 < done_events es"
  by (induction es) auto

lemma list_events: "sftp_list env target sock cwd ws = (r, ws') \<Longrightarrow> ws_events ws' = ws_events ws"
  using grows_list[of "{}" "\<lambda>_. False" ws env target sock cwd] by (auto simp: grows_def list_all_iff)

lemma start_events:
  "start_transfer env target sock job policy err ws = (go, ws') \<Longrightarrow>
     done_events (ws_events ws') = done_events (ws_events ws) + (if go then 0 else 1)"
  by (auto simp: start_transfer_def send_ev_def do_effect_def Let_def split: if_splits option.splits)

lemma grows_done: "grows D P is_progress ws ws' \<Longrightarrow> done_events (ws_events ws') = done_events (ws_events ws)"
  by (auto simp: grows_def done_none)

lemma trace_done: "transfer_trace D ws ws' e \<Longrightarrow> done_events (ws_events ws') = done_events (ws_events ws) + done_events e"
  using grows_done by (fastforce simp: transfer_trace_def)

lemma single_cons: "x # xs = ys \<Longrightarrow> length ys \<le> 1 \<Longrightarrow> xs = [] \<and> ys = [x]"
  by auto

lemma post_fields [simp]:
  "app_ledger (sy_app (post a s)) = app_ledger a" "sy_running (post a s) = sy_running s" "sy_worker (post a s) = sy_worker s"
  "sy_cmds (post a s) = sy_cmds s @ ta_sent a" "ta_worker (sy_app (post a s)) = ta_worker a"
  "ta_transfer (sy_app (post a s)) = ta_transfer a" "ta_sent (sy_app (post a s)) = []"
  "ta_pending_advance (sy_app (post a s)) = ta_pending_advance a" "running_jobs (post a s) = running_jobs s"
  by (simp_all add: post_def app_ledger_def running_jobs_def)

lemma key_step_ok:
  assumes ok: "system_ok s" and t: "ta_transfer (sy_app s) = Some sc"
    and r: "route_transfer rk home k sc (sy_app s) = (RouteContinue, a)"
  shows "system_ok (post a s)"
proof -
  obtain cs where cs: "ta_sent a = cs" "list_all harmless cs"
    using route_kept[OF t r] ok by (auto simp: system_ok_def Let_def)
  show ?thesis
    using route_kept[OF t r] ok harmless_jobs[OF cs(2)] cs(1)
    by (auto simp: system_ok_def Let_def ledger_kept_def)
qed

lemma tick_step_ok:
  assumes ok: "system_ok s" and tk: "take_events n (sy_worker s) = (evs, ws)" "te_events te = evs"
  shows "system_ok (post (drain_transfer_events te (sy_app s)) (s\<lparr>sy_worker := ws\<rparr>))"
proof -
  define b where "b = drain_transfer_events te (sy_app s)"
  define jobs where "jobs = inflight_jobs (app_ledger (sy_app s))"
  define rest where "rest = (if list_ex is_done_event evs then [] else jobs)"
  define way where "way = transfer_jobs (sy_cmds s) @ running_jobs s"
  have o: "length way + done_events (ws_events (sy_worker s)) = length jobs" "way \<noteq> [] \<longrightarrow> way = jobs" "length jobs \<le> 1"
    using ok ok_single by (auto simp: system_ok_def Let_def way_def jobs_def)
  have d: "done_events (ws_events (sy_worker s)) = done_events evs + done_events (ws_events ws)"
  proof -
    have "evs = take n (ws_events (sy_worker s))" "ws_events ws = drop n (ws_events (sy_worker s))"
      using tk(1) by (auto simp: take_events_def)
    then show ?thesis
      using done_simps(2)[of "take n (ws_events (sy_worker s))" "drop n (ws_events (sy_worker s))"]
      unfolding append_take_drop_id by simp
  qed
  have w: "length way + done_events (ws_events ws) = length rest" "way \<noteq> [] \<longrightarrow> way = rest"
    using o d by (auto simp: rest_def done_some)
  have pre: "ledger_ok (app_ledger (sy_app s))" "ta_transfer (sy_app s) \<noteq> None" "ta_worker (sy_app s)"
      "ta_pending_advance (sy_app s) \<longrightarrow> inflight_jobs (app_ledger (sy_app s)) = []" "ta_sent (sy_app s) = []" "CmdShutdown \<notin> set (sy_cmds s)"
    using ok by (auto simp: system_ok_def Let_def)
  note ds = drain_sends[OF pre(1-4), of te, unfolded Let_def tk(2) pre(5) append_Nil, folded b_def jobs_def, folded rest_def]
  have s: "ta_worker b" "ta_transfer b \<noteq> None" "ledger_ok (app_ledger b)" "\<not> ta_pending_advance b" using ds by simp_all
  obtain c1 job p c2 where h: "list_all harmless c1" "list_all harmless c2"
    and t: "ta_sent b = c1 \<and> inflight_jobs (app_ledger b) = rest
       \<or> ta_sent b = c1 @ [CmdTransfer job p] @ c2 \<and> rest = [] \<and> inflight_jobs (app_ledger b) = [job]"
    using ds by blast
  have r: "running_jobs (s\<lparr>sy_worker := ws\<rparr>) = running_jobs s" by (simp add: running_jobs_def)
  from t show ?thesis
  proof
    assume "ta_sent b = c1 \<and> inflight_jobs (app_ledger b) = rest"
    then show ?thesis
      using s w harmless_jobs[OF h(1)] pre(6)
      by (auto simp: system_ok_def b_def[symmetric] Let_def r way_def)
  next
    assume t: "ta_sent b = c1 @ [CmdTransfer job p] @ c2 \<and> rest = [] \<and> inflight_jobs (app_ledger b) = [job]"
    then have "way = []" "done_events (ws_events ws) = 0" using w by auto
    then show ?thesis
      using s t harmless_jobs[OF h(1)] harmless_jobs[OF h(2)] pre(6)
      by (auto simp: system_ok_def b_def[symmetric] Let_def r way_def)
  qed
qed

lemma poll_step_ok:
  assumes ok: "system_ok s" and run: "sy_running s = Some (job, pd, psec)"
    and rc: "tp_recv p = RecvTimeout \<and> cs = sy_cmds s \<or> (\<exists>c. tp_recv p = RecvCmd c \<and> sy_cmds s = c # cs)"
    and cs': "cs' = (if tp_wait p = WaitRunning then cs else sy_cmds s)"
    and pt: "poll_transfer env target sock job pd psec p (sy_worker s) = (nxt, ws)"
  shows "system_ok (s\<lparr>sy_cmds := cs', sy_worker := ws,
    sy_running := (case nxt of PollAgain d n \<Rightarrow> Some (job, d, n) | PollReturn _ \<Rightarrow> None)\<rparr>)"
proof -
  let ?l = "app_ledger (sy_app s)"
  have rj: "running_jobs s = [job]" by (simp add: running_jobs_def run)
  have o: "ledger_ok ?l" "transfer_jobs (sy_cmds s) = []" "inflight_jobs ?l = [job]" "done_events (ws_events (sy_worker s)) = 0"
      "CmdShutdown \<notin> set (sy_cmds s)" "\<not> ta_pending_advance (sy_app s)"
  proof -
    have "Suc (length (transfer_jobs (sy_cmds s)) + done_events (ws_events (sy_worker s))) = length (inflight_jobs ?l)"
      "transfer_jobs (sy_cmds s) @ [job] = inflight_jobs ?l" "length (inflight_jobs ?l) \<le> 1"
      and rest: "ledger_ok ?l" "CmdShutdown \<notin> set (sy_cmds s)" "ta_pending_advance (sy_app s) \<longrightarrow> inflight_jobs ?l = []"
      using ok ok_single[of ?l] by (simp_all add: system_ok_def Let_def rj)
    then have "transfer_jobs (sy_cmds s) = [] \<and> inflight_jobs ?l = [job] \<and> done_events (ws_events (sy_worker s)) = 0"
      by (metis Suc_le_mono add_is_0 append_Nil le_zero_eq length_0_conv One_nat_def)
    then show "ledger_ok ?l" "transfer_jobs (sy_cmds s) = []" "inflight_jobs ?l = [job]" "done_events (ws_events (sy_worker s)) = 0"
      "CmdShutdown \<notin> set (sy_cmds s)" "\<not> ta_pending_advance (sy_app s)" using rest by auto
  qed
  have c: "transfer_jobs cs' = []" "CmdShutdown \<notin> set cs'"
    using rc cs' o(2,5) by (auto split: if_splits)
  have nr: "tp_recv p \<noteq> RecvCmd CmdShutdown" "tp_recv p \<noteq> RecvDisconnected" using rc o(5) by auto
  note tr = poll_transfer_trace[OF pt]
  show ?thesis
  proof (cases nxt)
    case (PollAgain d n)
    then have "done_events (ws_events ws) = 0" using tr grows_done o(4) by fastforce
    then show ?thesis using PollAgain ok o c by (simp add: system_ok_def Let_def running_jobs_def)
  next
    case (PollReturn b)
    then obtain r where "transfer_trace (lost_dst job [p]) (sy_worker s) ws [EvDone r]" using tr nr by auto
    then have "done_events (ws_events ws) = 1" using trace_done o(4) by fastforce
    then show ?thesis using PollReturn ok o c by (simp add: system_ok_def Let_def running_jobs_def)
  qed
qed

lemma step_ok: "system_step env target sock s s' \<Longrightarrow> system_ok s \<Longrightarrow> system_ok s'"
proof (induction rule: system_step.induct)
  case (key s sc rk home k a)
  then show ?case by (rule_tac key_step_ok) auto
next
  case (tick n s evs ws te)
  then show ?case by (rule_tac tick_step_ok) auto
next
  case (listing s cwd cs r ws)
  then show ?case
    using list_events[OF listing(3)] by (auto simp: system_ok_def Let_def send_ev_def running_jobs_def)
next
  case (start s job policy cs err go ws)
  have "job # transfer_jobs cs = inflight_jobs (app_ledger (sy_app s))" "length (inflight_jobs (app_ledger (sy_app s))) \<le> 1"
    using start(1,2,4) ok_single[of "app_ledger (sy_app s)"] by (simp_all add: system_ok_def Let_def running_jobs_def)
  then have "transfer_jobs cs = [] \<and> inflight_jobs (app_ledger (sy_app s)) = [job]" by (rule single_cons)
  then show ?case
    using start start_events[OF start(3)] by (auto simp: system_ok_def Let_def running_jobs_def)
next
  case (drop_cmd s c cs b)
  then show ?case by (auto simp: system_ok_def Let_def running_jobs_def)
next
  case (poll s job pd psec p cs cs' nxt ws)
  then show ?case by (rule_tac poll_step_ok) auto
qed

lemma fresh_ok: "fresh_system s \<Longrightarrow> system_ok s"
proof -
  assume f: "fresh_system s"
  have "list_all harmless (sy_cmds s)" using f by (simp add: fresh_system_def harmless_def[abs_def])
  moreover have "list_all (\<lambda>e. \<not> is_done_event e) es \<Longrightarrow> done_events es = 0" for es by (induction es) auto
  ultimately show ?thesis
    using f harmless_jobs new_ok by (auto simp: system_ok_def fresh_system_def Let_def running_jobs_def)
qed

lemma reachable_ok: "reachable env target sock s0 s \<Longrightarrow> fresh_system s0 \<Longrightarrow> system_ok s"
  by (induction rule: reachable.induct) (auto intro: fresh_ok step_ok)

text \<open>C5: one transfer at a time.  Whatever the keys, the ticks and the worker do in whatever order, the ledger
has at most one task in flight, and a job that is on its way to the worker or running is exactly that task's job;
when none is, the task in flight is one whose outcome waits in the event channel.\<close>

theorem one_transfer_at_a_time:
  assumes "fresh_system s0" "reachable env target sock s0 s"
  shows "let way = transfer_jobs (sy_cmds s) @ running_jobs s; jobs = inflight_jobs (app_ledger (sy_app s))
    in length jobs \<le> 1 \<and> ledger_ok (app_ledger (sy_app s))
       \<and> (way = jobs \<or> way = [] \<and> done_events (ws_events (sy_worker s)) = length jobs)"
  using reachable_ok[OF assms(2,1)] ok_single[of "app_ledger (sy_app s)"]
  by (auto simp: system_ok_def Let_def)

end
