(* ===== verification/Worker_Props.thy ===== *)
theory Worker_Props
  imports Worker_Facts Cli_Facts
begin

text \<open>The properties of the SFTP worker, with a concrete session.\<close>

section \<open>Outcomes\<close>

text \<open>Every transfer reports exactly one outcome.  The events of a transfer are progress reports followed by
exactly one \<^verbatim>\<open>Done\<close>; there is none only when the worker was told to shut down or the screen
hung up, and only the shutdown ends the service.\<close>

theorem transfer_reports_once:
  assumes "run_transfer env target sock job policy spawn_error polls st = Some (shutdown, st')"
  shows "\<exists>ps ending. ws_events st' = ws_events st @ ps @ ending \<and> list_all is_progress ps
    \<and> (\<not> shutdown \<and> (\<exists>r. ending = [EvDone r])
       \<or> ending = [] \<and> (\<exists>p \<in> set polls. tp_recv p = (if shutdown then RecvCmd CmdShutdown else RecvDisconnected)))"
proof -
  have "\<exists>ps. ws_events st' = ws_events st @ ps @ ending \<and> list_all is_progress ps" if "transfer_trace D st st' ending" for D ending
    using that by (auto simp: transfer_trace_def grows_def)
  then show ?thesis using run_transfer_trace[OF assms] by metis
qed

section \<open>Host keys\<close>

lemma connect_needs_check:
  assumes "connect_phase env ci st = Some (r, st')" "ci_preflight ci"
    "host_key_check env (h_host (ci_host ci)) (h_port (ci_host ci)) (ci_answer ci) st = (False, st1)"
  shows "r = None \<and> st' = st1"
  using assms by (simp add: connect_phase_def Let_def)

text \<open>C19: no master process without a trusted host key.  With the check enabled the worker starts
\<^verbatim>\<open>ssh\<close> only when the host is in \<^verbatim>\<open>known_hosts\<close> already or the first answer
on the command channel was the confirmation of the key.\<close>

theorem master_needs_host_key:
  assumes "run_worker_thread env ci cmds st = Some st'" "ci_preflight ci" "spawned st < spawned st'"
  shows "\<exists>kh. known_hosts_path (wv_hk env) = Some kh
    \<and> (is_known (wv_hk env) (h_host (ci_host ci)) (h_port (ci_host ci)) kh (ts_files (ws_temp st)) = Inr True
       \<or> ci_answer ci = RecvCmd (CmdHostKeyConfirm True))"
proof -
  obtain go st1 where k: "host_key_check env (h_host (ci_host ci)) (h_port (ci_host ci)) (ci_answer ci) st = (go, st1)"
    by fastforce
  note f = host_key_check_facts[OF k]
  obtain r st2 where c: "connect_phase env ci st = Some (r, st2)"
    using assms(1) by (cases "connect_phase env ci st") (auto simp: run_worker_thread_def)
  have go
  proof (rule ccontr)
    assume "\<not> go"
    then have "r = None \<and> st2 = st1" using connect_needs_check[OF c assms(2)] k by simp
    then have "spawned st' = spawned st" using assms(1) c f by (simp add: run_worker_thread_def spawned_def)
    then show False using assms(3) by simp
  qed
  then show ?thesis using f by blast
qed

section \<open>A session\<close>

definition demo_worker :: worker_env where
  "demo_worker = \<lparr>wv_show_io = (\<lambda>_. ''io''), wv_show_error = (\<lambda>_. ''error''),
     wv_batch = (\<lambda>_ _. BatchExit True ''Remote working directory: /srv'' []), wv_now = (\<lambda>_. 0),
     wv_hk = demo_hostkey\<lparr>hk_find := \<lambda>_ _. Inr True\<rparr>, wv_os = demo_os, wv_split = (\<lambda>_. Some [])\<rparr>"

definition demo_worker_state :: worker_state where
  "demo_worker_state = \<lparr>ws_events = [], ws_effects = [],
     ws_temp = \<lparr>ts_files = [''/h/.ssh/known_hosts'' \<mapsto> \<lparr>fe_mode = 420, fe_bytes = ''k''\<rparr>], ts_live = []\<rparr>\<rparr>"

definition demo_input :: connect_input where
  "demo_input = \<lparr>ci_resolved = \<lparr>ra_user = ''ops'', ra_key_path = None, ra_password = SourceNone, ra_inline_key = None\<rparr>,
     ci_host = demo_web, ci_overrides = \<lparr>ov_user = None, ov_port = None, ov_identity = None, ov_credential = None\<rparr>, ci_self_exe = ''/bin/sshrack'', ci_source = SourceNone,
     ci_config_path = None, ci_preflight = True, ci_sock = ''/tmp/s'', ci_answer = RecvTimeout, ci_spawn_error = None,
     ci_start = 0, ci_polls = [\<lparr>hp_check_ok = True, hp_exited = False, hp_millis = 100, hp_stderr = [], hp_recv = RecvTimeout\<rparr>]\<rparr>"

definition demo_job :: "direction \<Rightarrow> transfer_job" where
  "demo_job d = \<lparr>tj_direction = d, tj_src = ''/srv/a'', tj_dst = ''/home/a'', tj_name = ''a'', tj_size_total = Some 10,
     tj_recursive = False\<rparr>"

lemma demo_checked:
  "host_key_check demo_worker (h_host demo_web) (h_port demo_web) RecvTimeout demo_worker_state = (True, demo_worker_state)"
  by (simp add: host_key_check_def demo_worker_def known_hosts_path_def demo_hostkey_def is_known_def demo_worker_state_def
      hostkey_classify_def)

lemma demo_thread:
  "\<exists>st'. run_worker_thread demo_worker demo_input [(CmdShutdown, None, [])] demo_worker_state = Some st'
     \<and> spawned st' = 1 \<and> killed st' = 1"
proof -
  have os: "wv_os demo_worker = demo_os" by (simp add: demo_worker_def)
  have z: "spawned demo_worker_state = 0" "killed demo_worker_state = 0" "ws_temp demo_worker_state = ws_temp demo_worker_state"
    by (simp_all add: spawned_def killed_def demo_worker_state_def)
  have u: "demo_worker_state\<lparr>ws_temp := ws_temp demo_worker_state\<rparr> = demo_worker_state" by simp
  show ?thesis
    using demo_checked
    by (auto simp: run_worker_thread_def connect_phase_def demo_input_def stage_password_def Let_def u classify_poll_def
        poll_cancelled_def service_loop_def teardown_def run_batch_def z split: option.splits prod.splits sum.splits)
qed

theorem worker_leaves_nothing_witness:
  "\<exists>st'. run_worker_thread demo_worker demo_input [(CmdShutdown, None, [])] demo_worker_state = Some st'
     \<and> ts_live (ws_temp st') = [] \<and> spawned st' = killed st'"
proof -
  obtain st' where r: "run_worker_thread demo_worker demo_input [(CmdShutdown, None, [])] demo_worker_state = Some st'"
    and "spawned st' = 1" "killed st' = 1" using demo_thread by blast
  moreover have "os_removes (wv_os demo_worker)" using demo_os_removes by (simp add: demo_worker_def)
  moreover have "live_ok (ws_temp demo_worker_state)" by (simp add: live_ok_def demo_worker_state_def)
  ultimately show ?thesis using worker_leaves_nothing[OF _ _ r] by (auto simp: demo_worker_state_def)
qed

theorem master_needs_host_key_witness:
  "\<exists>kh. known_hosts_path (wv_hk demo_worker) = Some kh
     \<and> is_known (wv_hk demo_worker) (h_host demo_web) (h_port demo_web) kh (ts_files (ws_temp demo_worker_state)) = Inr True"
proof -
  obtain st' where r: "run_worker_thread demo_worker demo_input [(CmdShutdown, None, [])] demo_worker_state = Some st'"
    and n: "spawned st' = 1" using demo_thread by blast
  have p: "ci_preflight demo_input" "spawned demo_worker_state < spawned st'"
    "ci_host demo_input = demo_web" "ci_answer demo_input = RecvTimeout"
    unfolding n by (simp_all add: demo_input_def spawned_def demo_worker_state_def)
  show ?thesis using master_needs_host_key[OF r p(1,2)] p(3,4) by auto
qed

theorem transfer_reports_once_witness:
  "\<exists>st'. run_transfer demo_worker ''web'' ''/tmp/s'' (demo_job Download) Overwrite None
      [\<lparr>tp_wait = WaitRunning, tp_local_len = Some 4, tp_secs = 1, tp_recv = RecvTimeout\<rparr>,
       \<lparr>tp_wait = WaitExited True [], tp_local_len = None, tp_secs = 2, tp_recv = RecvTimeout\<rparr>] demo_worker_state = Some (False, st')
    \<and> (\<exists>ps r. ws_events st' = ps @ [EvDone r] \<and> list_all is_progress ps)"
proof -
  let ?ps = "[\<lparr>tp_wait = WaitRunning, tp_local_len = Some 4, tp_secs = 1, tp_recv = RecvTimeout\<rparr>,
       \<lparr>tp_wait = WaitExited True [], tp_local_len = None, tp_secs = 2, tp_recv = RecvTimeout\<rparr>]"
  obtain rate eta where "progress_snapshot 0 0 4 1 (Some 10) = (rate, eta)" by fastforce
  then obtain st' where r: "run_transfer demo_worker ''web'' ''/tmp/s'' (demo_job Download) Overwrite None ?ps demo_worker_state
      = Some (False, st')"
    by (auto simp: run_transfer_def start_transfer_def poll_transfer_def poll_dst_size_def demo_job_def Let_def split: prod.splits)
  show ?thesis using transfer_reports_once[OF r] r by (auto simp: demo_worker_state_def)
qed

section \<open>What the worker loses\<close>

text \<open>A listing asked for during a transfer is dropped.  While a transfer runs, the command to list a
directory is taken from the channel and ignored: the poll goes on exactly as if nothing had been received and no
listing is ever sent for it, so the pane that asked stays in its loading state.\<close>

theorem listing_lost_during_transfer:
  assumes "tp_wait p = WaitRunning" "tp_recv p = RecvCmd (CmdList dir)"
  shows "poll_transfer env target sock job pd psec p st = poll_transfer env target sock job pd psec (p\<lparr>tp_recv := RecvTimeout\<rparr>) st
    \<and> (\<exists>ps. ws_events (snd (poll_transfer env target sock job pd psec p st)) = ws_events st @ ps \<and> list_all is_progress ps)"
proof -
  obtain nxt st' where n: "poll_transfer env target sock job pd psec p st = (nxt, st')" by fastforce
  obtain d s where "nxt = PollAgain d s"
    using n assms by (auto simp: poll_transfer_def classify_inflight_cmd_def Let_def split: prod.splits)
  then have "grows {} no_master is_progress st st'" using poll_transfer_trace[OF n] by simp
  moreover have "poll_transfer env target sock job pd psec p st
      = poll_transfer env target sock job pd psec (p\<lparr>tp_recv := RecvTimeout\<rparr>) st"
    using assms by (auto simp: poll_transfer_def classify_inflight_cmd_def Let_def split: prod.splits)
  ultimately show ?thesis unfolding n snd_conv by (auto simp: grows_def)
qed

theorem listing_lost_during_transfer_witness:
  "list_all is_progress (ws_events (snd (poll_transfer demo_worker ''web'' ''/tmp/s'' (demo_job Download) 0 0
      \<lparr>tp_wait = WaitRunning, tp_local_len = Some 4, tp_secs = 1, tp_recv = RecvCmd (CmdList ''/srv'')\<rparr> demo_worker_state)))"
proof -
  let ?p = "\<lparr>tp_wait = WaitRunning, tp_local_len = Some 4, tp_secs = 1, tp_recv = RecvCmd (CmdList ''/srv'')\<rparr>"
  have e: "ws_events demo_worker_state = []" by (simp add: demo_worker_state_def)
  have p: "tp_wait ?p = WaitRunning" "tp_recv ?p = RecvCmd (CmdList ''/srv'')" by simp_all
  show ?thesis
    using listing_lost_during_transfer[OF p, of demo_worker "''web''" "''/tmp/s''" "demo_job Download" 0 0 demo_worker_state]
    unfolding e append_Nil by auto
qed

text \<open>A poll of a running transfer that goes on.\<close>

definition still_running :: "transfer_poll \<Rightarrow> bool" where
  "still_running p \<longleftrightarrow> tp_wait p = WaitRunning \<and> (case tp_recv p of
     RecvCmd c \<Rightarrow> c \<noteq> CmdCancel \<and> c \<noteq> CmdShutdown | RecvTimeout \<Rightarrow> True | RecvDisconnected \<Rightarrow> False)"

lemma running_poll:
  assumes "tj_direction job = Download" "still_running p"
  shows "\<exists>d s st1. poll_transfer env target sock job pd psec p st = (PollAgain d s, st1) \<and> ws_temp st1 = ws_temp st"
  using assms
  by (auto simp: poll_transfer_def poll_dst_size_def still_running_def classify_inflight_cmd_def Let_def
      split: prod.splits recv.splits worker_cmd.splits)

lemma partial_poll:
  assumes "tj_direction job = Download" "ends_partial p" "os_remove_ok (wv_os env) (tj_dst job)"
  shows "\<exists>b st'. poll_transfer env target sock job pd psec p st = (PollReturn b, st')
    \<and> ts_files (ws_temp st') = (ts_files (ws_temp st))(tj_dst job := None)
    \<and> (b \<or> (\<exists>r. r \<noteq> TransferOk \<and> last (ws_events st') = EvDone r))"
proof -
  have r: "snd (remove_file (wv_os env) (tj_dst job) fs) = fs(tj_dst job := None)" for fs
    using assms(3) by (auto simp: remove_file_def)
  show ?thesis
    using assms(1,2)
    by (auto simp: poll_transfer_def poll_dst_size_def ends_partial_def classify_inflight_cmd_def remove_partial_dst_def remove_local_def r
        send_ev_def do_effect_def Let_def split: prod.splits wait_result.splits)
qed

lemma partial_polls:
  assumes "tj_direction job = Download" "list_all still_running ps" "ends_partial p" "os_remove_ok (wv_os env) (tj_dst job)"
  shows "\<exists>b st'. poll_transfers env target sock job pd psec (ps @ [p]) st = Some (b, st')
    \<and> ts_files (ws_temp st') = (ts_files (ws_temp st))(tj_dst job := None)
    \<and> (b \<or> (\<exists>r. r \<noteq> TransferOk \<and> last (ws_events st') = EvDone r))"
  using assms(2)
proof (induction ps arbitrary: pd psec st)
  case Nil
  obtain b st' where q: "poll_transfer env target sock job pd psec p st = (PollReturn b, st')"
    and rest: "ts_files (ws_temp st') = (ts_files (ws_temp st))(tj_dst job := None)"
      "b \<or> (\<exists>r. r \<noteq> TransferOk \<and> last (ws_events st') = EvDone r)"
    using partial_poll[OF assms(1,3,4), of target sock pd psec st] by blast
  have "poll_transfers env target sock job pd psec ([] @ [p]) st = Some (b, st')" using q by simp
  then show ?case using rest by blast
next
  case (Cons q ps)
  obtain d s st1 where q: "poll_transfer env target sock job pd psec q st = (PollAgain d s, st1)" "ws_temp st1 = ws_temp st"
    using running_poll[OF assms(1), of q env target sock pd psec st] Cons.prems by auto
  then show ?case using Cons.IH[of d s st1] Cons.prems by simp
qed

text \<open>C39: a failed download deletes its destination.  A download that is run and, after any number of polls,
ends because \<^verbatim>\<open>sftp\<close> exits with an error or because of a cancel or a shutdown leaves no file
at its local destination and every other file as it was: also a file that was there before the transfer and that
\<^verbatim>\<open>sftp\<close> never touched is gone.  The destination is one the system lets the worker remove, so a
plain file; a process that cannot be started or waited for removes nothing and is not meant.\<close>

theorem failed_download_deletes_destination:
  assumes "tj_direction job = Download" "policy \<noteq> Skip" "policy \<noteq> SkipAll"
    "list_all still_running ps" "ends_partial p" "os_remove_ok (wv_os env) (tj_dst job)"
  shows "\<exists>shutdown st'. run_transfer env target sock job policy None (ps @ [p]) st = Some (shutdown, st')
    \<and> ts_files (ws_temp st') = (ts_files (ws_temp st))(tj_dst job := None)
    \<and> (shutdown \<or> (\<exists>r. r \<noteq> TransferOk \<and> last (ws_events st') = EvDone r))"
  using assms(2,3) partial_polls[OF assms(1,4,5,6), of target sock 0 0]
  by (fastforce simp: run_transfer_def start_transfer_def Let_def)

text \<open>A file the user had at the destination, and an \<^verbatim>\<open>sftp\<close> that is refused at once.\<close>

definition demo_kept_state :: worker_state where
  "demo_kept_state = demo_worker_state\<lparr>ws_temp :=
     \<lparr>ts_files = [''/home/a'' \<mapsto> \<lparr>fe_mode = 420, fe_bytes = ''mine''\<rparr>], ts_live = []\<rparr>\<rparr>"

theorem failed_download_deletes_destination_witness:
  "ts_files (ws_temp demo_kept_state) ''/home/a'' \<noteq> None
    \<and> (\<exists>st'. run_transfer demo_worker ''web'' ''/tmp/s'' (demo_job Download) Overwrite None
          [\<lparr>tp_wait = WaitRunning, tp_local_len = Some 4, tp_secs = 1, tp_recv = RecvTimeout\<rparr>,
           \<lparr>tp_wait = WaitExited False ''Permission denied'', tp_local_len = Some 4, tp_secs = 2, tp_recv = RecvTimeout\<rparr>]
          demo_kept_state = Some (False, st')
        \<and> ts_files (ws_temp st') ''/home/a'' = None)"
proof -
  let ?q = "\<lparr>tp_wait = WaitRunning, tp_local_len = Some 4, tp_secs = 1, tp_recv = RecvTimeout\<rparr>"
  let ?p = "\<lparr>tp_wait = WaitExited False ''Permission denied'', tp_local_len = Some 4, tp_secs = 2, tp_recv = RecvTimeout\<rparr>"
  have h: "tj_direction (demo_job Download) = Download" "list_all still_running [?q]" "ends_partial ?p"
    "os_remove_ok (wv_os demo_worker) (tj_dst (demo_job Download))" "tj_dst (demo_job Download) = ''/home/a''"
    using demo_os_removes by (simp_all add: demo_job_def still_running_def ends_partial_def demo_worker_def os_removes_def)
  obtain b st' where r: "run_transfer demo_worker ''web'' ''/tmp/s'' (demo_job Download) Overwrite None ([?q] @ [?p]) demo_kept_state
      = Some (b, st')" "ts_files (ws_temp st') ''/home/a'' = None"
    using failed_download_deletes_destination[OF h(1) _ _ h(2,3,4), of Overwrite "''web''" "''/tmp/s''" demo_kept_state] h(5)
    by fastforce
  have "\<not> b" using run_transfer_trace[OF r(1)] by auto
  then show ?thesis using r by (simp add: demo_kept_state_def)
qed

end
