(* ===== verification/Transfer_Props.thy ===== *)
theory Transfer_Props
  imports Transfer_System Worker_Props
begin

text \<open>The properties of the transfer screen over a session: what is overwritten, what is skipped and what
stays behind.\<close>

section \<open>The overwrite policy\<close>

text \<open>Only a dispatch sets the policy of the session.\<close>

named_theorems policy_frame

definition app_policy :: "transfer_app \<Rightarrow> overwrite_policy option" where
  "app_policy a = Option.bind (ta_transfer a) sc_overwrite_policy"

lemma on_pane_policy [policy_frame]: "sc_overwrite_policy (on_pane s f sc) = sc_overwrite_policy sc"
  by (cases s) (simp_all add: on_pane_def)

lemma setters_policy [policy_frame]:
  "sc_overwrite_policy (set_status s sc) = sc_overwrite_policy sc" "sc_overwrite_policy (on_ledger g sc) = sc_overwrite_policy sc"
  "sc_overwrite_policy (flip_focus sc) = sc_overwrite_policy sc" "sc_overwrite_policy (set_active pr sc) = sc_overwrite_policy sc"
  by (simp_all add: set_status_def on_ledger_def flip_focus_def set_active_def split: option.split)

lemma search_policy [policy_frame]:
  "sc_overwrite_policy (search_request home s q sc) = sc_overwrite_policy sc"
  "sc_overwrite_policy (clear_query rk s sc) = sc_overwrite_policy sc"
  "sc_overwrite_policy (cancel_search rk sc) = sc_overwrite_policy sc"
  "sc_overwrite_policy (snd (complete_focused rk home sc)) = sc_overwrite_policy sc"
  "sc_overwrite_policy (snd (jump_to_search_result rk sc)) = sc_overwrite_policy sc"
  "sc_overwrite_policy (begin_search s sc) = sc_overwrite_policy sc"
  "sc_overwrite_policy (apply_search_event s ev sc) = sc_overwrite_policy sc"
  by (simp_all add: search_request_def clear_query_def cancel_search_def complete_focused_def jump_to_search_result_def
      begin_search_def apply_search_event_def Let_def policy_frame split: option.split)

lemma enqueue_policy [policy_frame]:
  "sc_overwrite_policy (snd (enqueue_from_focused sc)) = sc_overwrite_policy sc"
  "sc_overwrite_policy (snd (enqueue_from_search sc)) = sc_overwrite_policy sc"
  "sc_overwrite_policy (snd (enqueue_focused sc)) = sc_overwrite_policy sc"
  "sc_overwrite_policy (snd (request_close sc)) = sc_overwrite_policy sc"
  by (simp_all add: enqueue_focused_def enqueue_from_search_def enqueue_from_focused_def request_close_def Let_def policy_frame
      split: option.split)

lemma browse_policy [policy_frame]: "sc_overwrite_policy (snd (browse_key rk home key sc)) = sc_overwrite_policy sc"
proof -
  have "sc_overwrite_policy (snd (route_to_focused rk home key sc)) = sc_overwrite_policy sc"
    by (auto simp: route_to_focused_def split_beta Let_def policy_frame split: pane_outcome.split option.split)
  then show ?thesis by (auto simp: browse_key_def Let_def split_beta policy_frame split: option.split)
qed

lemma screen_key_policy [policy_frame]: "sc_overwrite_policy (snd (screen_on_key rk home key sc)) = sc_overwrite_policy sc"
  by (auto simp: screen_on_key_def split_beta Let_def policy_frame split: option.split)

lemma app_policy_simps [simp]:
  "app_policy (send_cmd c a) = app_policy a" "app_policy (a\<lparr>ta_pending_advance := b\<rparr>) = app_policy a"
  "app_policy (a\<lparr>ta_pending_cancel := b\<rparr>) = app_policy a" "app_policy (a\<lparr>ta_remote_search := b\<rparr>) = app_policy a"
  by (simp_all add: app_policy_def send_cmd_def)

lemma screen_policy: "(\<And>sc. sc_overwrite_policy (f sc) = sc_overwrite_policy sc) \<Longrightarrow> app_policy (on_screen f a) = app_policy a"
  by (cases "ta_transfer a") (simp_all add: app_policy_def on_screen_def)

lemma route_policy:
  assumes "ta_transfer a0 = Some sc" "route_transfer rk home key sc a0 = (RouteContinue, a)"
  shows "app_policy a = app_policy a0"
proof -
  define sc1 where "sc1 = (if ke_kind key = Press \<and> sc_connect sc = Connected then set_status status_empty sc else sc)"
  obtain out sc2 where k: "screen_on_key rk home key sc1 = (out, sc2)" by fastforce
  have "sc_overwrite_policy sc2 = sc_overwrite_policy sc"
    using screen_key_policy[of rk home key sc1, unfolded k] by (simp add: sc1_def policy_frame split: if_splits)
  then show ?thesis
    using assms k
    by (cases out) (auto simp: route_transfer_def sc1_def[symmetric] app_policy_def send_cmd_def on_screen_def Let_def)
qed

lemma drain_policy [simp]:
  "app_policy (drain_pending_list env a) = app_policy a" "app_policy (on_screen (drain_search env) a) = app_policy a"
  "app_policy (launch_search env a) = app_policy a" "app_policy (refresh_pane env d a) = app_policy a"
proof -
  show "app_policy (drain_pending_list env a) = app_policy a"
    by (simp add: drain_pending_list_def Let_def screen_policy policy_frame split: option.split side.split sum.split)
  have "sc_overwrite_policy (fold (apply_search_event s) evs sc) = sc_overwrite_policy sc" for s evs sc
    by (induction evs arbitrary: sc) (simp_all add: policy_frame)
  then show "app_policy (on_screen (drain_search env) a) = app_policy a"
    by (intro screen_policy) (simp add: drain_search_def Let_def split: option.split)
  show "app_policy (launch_search env a) = app_policy a"
    by (simp add: launch_search_def app_policy_def Let_def policy_frame split: option.split)
  show "app_policy (refresh_pane env d a) = app_policy a"
    by (simp add: refresh_pane_def screen_policy policy_frame split: option.split direction.split sum.split)
qed

lemma event_policy: "app_policy (da_app (on_worker_event env ev acc)) = app_policy (da_app acc)"
proof -
  have r: "sc_overwrite_policy (apply_remote_listing rk cwd res sc) = sc_overwrite_policy sc" for rk cwd res sc
    by (simp add: apply_remote_listing_def policy_frame split: sum.split)
  show ?thesis
    by (simp add: on_worker_event_def Let_def screen_policy policy_frame r split: worker_event.split transfer_outcome.split)
qed

lemma events_policy: "app_policy (da_app (fold (on_worker_event env) evs acc)) = app_policy (da_app acc)"
  by (induction evs arbitrary: acc) (simp_all add: event_policy)

section \<open>The transfers a tick sends\<close>

definition sent_transfers :: "transfer_app \<Rightarrow> worker_cmd list" where
  "sent_transfers a = filter is_transfer (ta_sent a)"

lemma quiet_sent: "quiet_step a b \<Longrightarrow> sent_transfers b = sent_transfers a"
proof -
  assume "quiet_step a b"
  then obtain cs where "ta_sent b = ta_sent a @ cs" "list_all (\<lambda>c. \<not> is_transfer c \<and> c \<noteq> CmdShutdown) cs"
    unfolding quiet_step_def by blast
  then show ?thesis by (simp add: sent_transfers_def list_all_iff filter_empty_conv)
qed

lemma event_sent: "sent_transfers (da_app (on_worker_event env ev acc)) = sent_transfers (da_app acc)"
proof (cases "is_done_event ev")
  case True
  then obtain r where "ev = EvDone r" by (cases ev) auto
  then show ?thesis by (cases r) (simp_all add: on_worker_event_def Let_def sent_transfers_def)
next
  case False
  then show ?thesis using worker_event_quiet[of ev acc env] quiet_sent by blast
qed

lemma events_sent: "sent_transfers (da_app (fold (on_worker_event env) evs acc)) = sent_transfers (da_app acc)"
  by (induction evs arbitrary: acc) (simp_all add: event_sent)

lemma sent_simps [simp]:
  "\<not> is_transfer c \<Longrightarrow> sent_transfers (send_cmd c a) = sent_transfers a"
  "sent_transfers (on_screen f a) = sent_transfers a"
  "sent_transfers (a\<lparr>ta_pending_advance := b\<rparr>) = sent_transfers a"
  "sent_transfers (a\<lparr>ta_pending_cancel := b\<rparr>) = sent_transfers a"
  by (simp_all add: sent_transfers_def send_cmd_def on_screen_def)

text \<open>A tick up to the dispatch, and whether it dispatches.\<close>

definition before_dispatch :: "tick_env \<Rightarrow> transfer_app \<Rightarrow> transfer_app \<times> bool" where
  "before_dispatch env a0 =
     (let a1 = launch_search env (on_screen (drain_search env) (drain_pending_list env a0));
          acc = fold (on_worker_event env) (if ta_worker a1 then te_events env else [])
                  \<lparr>da_app = a1, da_failed = None, da_advance = False, da_refresh = None\<rparr>;
          a2 = da_app acc;
          a3 = (if ta_pending_cancel a2 then send_cmd CmdCancel (a2\<lparr>ta_pending_cancel := False\<rparr>) else a2)
      in (a3\<lparr>ta_pending_advance := False\<rparr>, ta_pending_advance a3 \<or> da_advance acc))"

lemma drain_splits:
  assumes "before_dispatch env a = (a4, advance)"
  defines "a5 \<equiv> (if advance then dispatch_next_job env a4 else a4)"
  shows "sent_transfers (drain_transfer_events env a) = sent_transfers a5"
    "app_policy (drain_transfer_events env a) = app_policy a5"
    "ta_pending_advance (drain_transfer_events env a) = ta_pending_advance a5"
proof -
  obtain fl ref where d: "drain_transfer_events env a =
      (let a6 = (case fl of Some msg \<Rightarrow> on_screen (set_status (status_error (''transfer failed: '' @ msg))) a5 | None \<Rightarrow> a5)
       in case ref of Some d \<Rightarrow> refresh_pane env d a6 | None \<Rightarrow> a6)"
    using assms by (auto simp: drain_transfer_events_def before_dispatch_def Let_def)
  have q: "quiet_step a6 (refresh_pane env d a6)" for a6 d by (rule quiet_refresh)
  show "sent_transfers (drain_transfer_events env a) = sent_transfers a5"
    by (simp add: d Let_def quiet_sent[OF q] split: option.split)
  show "app_policy (drain_transfer_events env a) = app_policy a5"
    by (simp add: d Let_def screen_policy policy_frame split: option.split)
  have "ta_pending_advance (refresh_pane env d a6) = ta_pending_advance a6" for a6 d
    using q by (simp add: quiet_step_def)
  then show "ta_pending_advance (drain_transfer_events env a) = ta_pending_advance a5"
    by (simp add: d Let_def split: option.split)
qed

lemma before_facts:
  assumes "before_dispatch env a = (a4, advance)"
  shows "sent_transfers a4 = sent_transfers a" "app_policy a4 = app_policy a" "\<not> ta_pending_advance a4"
proof -
  define a1 where "a1 = launch_search env (on_screen (drain_search env) (drain_pending_list env a))"
  define a2 where "a2 = da_app (fold (on_worker_event env) (if ta_worker a1 then te_events env else [])
                  \<lparr>da_app = a1, da_failed = None, da_advance = False, da_refresh = None\<rparr>)"
  have a4: "a4 = (if ta_pending_cancel a2 then send_cmd CmdCancel (a2\<lparr>ta_pending_cancel := False\<rparr>) else a2)\<lparr>ta_pending_advance := False\<rparr>"
    using assms unfolding before_dispatch_def Let_def a1_def[symmetric] a2_def[symmetric] by (simp only: prod.inject)
  have "sent_transfers a1 = sent_transfers a"
    using quiet_sent[OF quiet_pending_list] quiet_sent[OF quiet_launch] by (simp add: a1_def)
  then have "sent_transfers a2 = sent_transfers a" by (simp add: a2_def events_sent)
  then show "sent_transfers a4 = sent_transfers a" by (simp add: a4)
  have "app_policy a2 = app_policy a" by (simp add: a2_def events_policy a1_def)
  then show "app_policy a4 = app_policy a" by (simp add: a4)
  show "\<not> ta_pending_advance a4" by (simp add: a4)
qed

text \<open>What the dispatch sends and the policy it leaves.\<close>

lemma dispatch_cases:
  assumes "ta_transfer a = Some sc" and a'_def: "a' = dispatch_next_job env a"
  shows "sent_transfers a' = sent_transfers a \<and> app_policy a' = app_policy a
    \<or> (\<exists>job p. next_job sc = (Some job, snd (next_job sc))
         \<and> sent_transfers a' = sent_transfers a @ (if ta_worker a then [CmdTransfer job p] else [])
         \<and> (if tj_direction job = Download \<and> te_exists env (tj_dst job) \<and> app_policy a = None
            then app_policy a' = Some p \<and> p = (if te_confirm env (overwrite_prompt job) = ConfirmYes then OverwriteAll else SkipAll)
            else app_policy a' = app_policy a \<and> p = (case app_policy a of Some q \<Rightarrow> q | None \<Rightarrow> Overwrite)))"
proof -
  obtain jo sc1 where n: "next_job sc = (jo, sc1)" by fastforce
  have pol: "sc_overwrite_policy sc1 = app_policy a"
    using n assms(1) by (auto simp: next_job_def app_policy_def split: option.splits prod.splits)
  show ?thesis
  proof (cases jo)
    case None
    then show ?thesis using assms(1) n pol by (simp add: a'_def dispatch_next_job_def sent_transfers_def app_policy_def)
  next
    case (Some job)
    show ?thesis
      using assms(1) n pol Some
      by (cases "te_confirm env (overwrite_prompt job)")
        (auto simp: a'_def dispatch_next_job_def sent_transfers_def app_policy_def send_cmd_def on_screen_def Let_def policy_frame
          split: option.splits)
  qed
qed

section \<open>Consent\<close>

text \<open>The screen of one session: any keys and ticks, with a kind of ranking and of what a tick sees.\<close>

inductive ui_reach :: "(ranking \<Rightarrow> bool) \<Rightarrow> (tick_env \<Rightarrow> bool) \<Rightarrow> transfer_app \<Rightarrow> transfer_app \<Rightarrow> bool" for R P a0 where
  ui_start: "ui_reach R P a0 a0"
| ui_key: "\<lbrakk>ui_reach R P a0 a; ta_transfer a = Some sc; R rk; route_transfer rk home k sc a = (RouteContinue, a')\<rbrakk>
    \<Longrightarrow> ui_reach R P a0 a'"
| ui_tick: "\<lbrakk>ui_reach R P a0 a; P te\<rbrakk> \<Longrightarrow> ui_reach R P a0 (drain_transfer_events te a)"

definition never_yes :: "tick_env \<Rightarrow> bool" where
  "never_yes te \<longleftrightarrow> (\<forall>q. te_confirm te q \<noteq> ConfirmYes)"

lemma dispatch_closed: "ta_transfer a = None \<Longrightarrow> dispatch_next_job env a = a"
  by (simp add: dispatch_next_job_def)

lemma tick_policy:
  assumes "never_yes te" "app_policy a \<in> {None, Some SkipAll}"
  shows "app_policy (drain_transfer_events te a) \<in> {None, Some SkipAll}"
proof -
  obtain a4 adv where b: "before_dispatch te a = (a4, adv)" by fastforce
  have "app_policy (dispatch_next_job te a4) \<in> {None, Some SkipAll}"
  proof (cases "ta_transfer a4")
    case (Some sc)
    show ?thesis
      using dispatch_cases[OF Some refl, of te] before_facts(2)[OF b] assms by (auto simp: never_yes_def split: if_splits)
  qed (use assms(2) before_facts(2)[OF b] in \<open>simp add: dispatch_closed\<close>)
  then show ?thesis using drain_splits(2)[OF b] before_facts(2)[OF b] assms(2) by simp
qed

lemma ui_policy: "ui_reach R never_yes a0 a \<Longrightarrow> app_policy a0 = None \<Longrightarrow> app_policy a \<in> {None, Some SkipAll}"
proof (induction rule: ui_reach.induct)
  case (ui_key a sc rk home k a')
  then show ?case using route_policy by simp
qed (auto dest: tick_policy)

text \<open>C18: nothing is overwritten without a yes.  In a session in which the user never answers the overwrite
popup with yes, whatever the keys, the events and the answers, a download whose destination exists when it is
sent to the worker is sent with the policy to skip, and the worker then starts no process for it.\<close>

theorem overwrite_needs_consent:
  assumes "ui_reach R never_yes a0 a" "app_policy a0 = None" "never_yes te"
    "sent_transfers (drain_transfer_events te a) = sent_transfers a @ [CmdTransfer job p]"
    "tj_direction job = Download" "te_exists te (tj_dst job)"
  shows "p = SkipAll \<and> (\<forall>env target sock err st. start_transfer env target sock job p err st = (False, send_ev (EvDone TransferOk) st))"
proof -
  obtain a4 adv where b: "before_dispatch te a = (a4, adv)" by fastforce
  note f = before_facts[OF b]
  have p4: "app_policy a4 \<in> {None, Some SkipAll}" using ui_policy[OF assms(1,2)] f(2) by simp
  have s: "sent_transfers (if adv then dispatch_next_job te a4 else a4) = sent_transfers a4 @ [CmdTransfer job p]"
    using assms(4) drain_splits(1)[OF b] f(1) by simp
  then have adv: adv by (auto split: if_splits)
  then obtain sc where t: "ta_transfer a4 = Some sc" using s by (cases "ta_transfer a4") (auto simp: dispatch_closed)
  have "p = SkipAll"
    using dispatch_cases[OF t refl, of te] s adv p4 assms(3,5,6) by (auto simp: never_yes_def split: if_splits)
  then show ?thesis by (simp add: start_transfer_def)
qed

section \<open>A concrete session\<close>

definition demo_tick :: tick_env where
  "demo_tick = \<lparr>te_rank = (\<lambda>names q. [0..<length names]), te_navigate = (\<lambda>_. Inl ''denied''), te_refresh = (\<lambda>_. Inr []),
     te_search_events = (\<lambda>_. []), te_elapsed_ms = 0, te_events = [], te_exists = (\<lambda>_. True), te_confirm = (\<lambda>_. ConfirmNo)\<rparr>"

definition demo_screen :: transfer_screen where
  "demo_screen = (screen_new ''/home'' ''/srv'')\<lparr>sc_connect := Connected,
     sc_ledger := snd (enqueue (demo_job Upload) (snd (enqueue (demo_job Download) ledger_new)))\<rparr>"

definition demo_app :: transfer_app where
  "demo_app = \<lparr>ta_transfer = Some demo_screen, ta_worker = True, ta_remote_search = False, ta_pending_cancel = False,
     ta_pending_advance = True, ta_sent = [], ta_launched = [], ta_next_search = 0\<rparr>"

lemma demo_dispatch: "sent_transfers (drain_transfer_events demo_tick demo_app) = [CmdTransfer (demo_job Download) SkipAll]"
  by code_simp

theorem overwrite_needs_consent_witness:
  "sent_transfers (drain_transfer_events demo_tick demo_app) = [CmdTransfer (demo_job Download) SkipAll]
   \<and> start_transfer demo_worker ''web'' ''/tmp/s'' (demo_job Download) SkipAll None demo_worker_state
       = (False, send_ev (EvDone TransferOk) demo_worker_state)"
proof -
  have p: "ui_reach (\<lambda>_. True) never_yes demo_app demo_app" "app_policy demo_app = None" "never_yes demo_tick"
    by (simp_all add: ui_start app_policy_def demo_app_def demo_screen_def screen_new_def never_yes_def demo_tick_def)
  have "sent_transfers (drain_transfer_events demo_tick demo_app) = sent_transfers demo_app @ [CmdTransfer (demo_job Download) SkipAll]"
    unfolding demo_dispatch by (simp add: sent_transfers_def demo_app_def)
  moreover have "tj_direction (demo_job Download) = Download" "te_exists demo_tick (tj_dst (demo_job Download))"
    by (simp_all add: demo_job_def demo_tick_def)
  ultimately show ?thesis using overwrite_needs_consent[OF p] demo_dispatch by blast
qed

text \<open>The dispatch that asked and was told no, and everything after it.\<close>

lemma declined_tick:
  assumes "app_policy a0 = None" "sent_transfers (drain_transfer_events te a0) = sent_transfers a0 @ [CmdTransfer job p]"
    "tj_direction job = Download" "te_exists te (tj_dst job)" "te_confirm te (overwrite_prompt job) \<noteq> ConfirmYes"
  shows "p = SkipAll \<and> app_policy (drain_transfer_events te a0) = Some SkipAll"
proof -
  obtain a4 adv where b: "before_dispatch te a0 = (a4, adv)" by fastforce
  note f = before_facts[OF b]
  have s: "sent_transfers (if adv then dispatch_next_job te a4 else a4) = sent_transfers a4 @ [CmdTransfer job p]"
    using assms(2) drain_splits(1)[OF b] f(1) by simp
  then have adv: adv by (auto split: if_splits)
  then obtain sc where t: "ta_transfer a4 = Some sc" using s by (cases "ta_transfer a4") (auto simp: dispatch_closed)
  have "p = SkipAll \<and> app_policy (dispatch_next_job te a4) = Some SkipAll"
    using dispatch_cases[OF t refl, of te] s adv f(2) assms(1,3,4,5) by (auto split: if_splits)
  then show ?thesis using drain_splits(2)[OF b] adv by simp
qed

lemma skipping_tick:
  assumes "app_policy a = Some SkipAll"
  shows "app_policy (drain_transfer_events te a) = Some SkipAll
    \<and> (\<exists>js. sent_transfers (drain_transfer_events te a) = sent_transfers a @ map (\<lambda>job. CmdTransfer job SkipAll) js)"
proof -
  obtain a4 adv where b: "before_dispatch te a = (a4, adv)" by fastforce
  note f = before_facts[OF b]
  define a5 where "a5 = (if adv then dispatch_next_job te a4 else a4)"
  have "app_policy a5 = Some SkipAll \<and> (\<exists>js. sent_transfers a5 = sent_transfers a4 @ map (\<lambda>job. CmdTransfer job SkipAll) js)"
  proof (cases "adv \<and> ta_transfer a4 \<noteq> None")
    case True
    then obtain sc where t: "ta_transfer a4 = Some sc" and adv: adv by blast
    have one: "\<exists>js. [CmdTransfer job SkipAll] = map (\<lambda>job. CmdTransfer job SkipAll) js" for job
      by (rule exI[of _ "[job]"]) simp
    show ?thesis using dispatch_cases[OF t refl, of te] adv f(2) assms one by (auto simp: a5_def split: if_splits)
  next
    case False
    then have "a5 = a4" by (auto simp: a5_def dispatch_closed)
    then show ?thesis using f(2) assms by auto
  qed
  then show ?thesis using drain_splits(1,2)[OF b] f(1) by (simp add: a5_def)
qed

lemma route_sent:
  assumes "ta_transfer a0 = Some sc" "route_transfer rk home key sc a0 = (RouteContinue, a)"
  shows "sent_transfers a = sent_transfers a0"
proof -
  define sc1 where "sc1 = (if ke_kind key = Press \<and> sc_connect sc = Connected then set_status status_empty sc else sc)"
  obtain out sc2 where k: "screen_on_key rk home key sc1 = (out, sc2)" by fastforce
  then show ?thesis
    using assms
    by (cases out) (auto simp: route_transfer_def sc1_def[symmetric] sent_transfers_def send_cmd_def on_screen_def Let_def)
qed

text \<open>C37: one no skips the rest of the session.  Take a tick that asked about the overwrite of a download and
was not told yes.  From then on, whatever keys are pressed and whatever later ticks see and are answered, every job
that is sent to the worker, also an upload or a download without a conflict, carries the policy to skip, and the
policy stays; for such a job the worker starts no process and reports it as done.\<close>

theorem declined_answer_skips_all:
  assumes "app_policy a0 = None" "sent_transfers (drain_transfer_events te a0) = sent_transfers a0 @ [CmdTransfer asked p]"
    "tj_direction asked = Download" "te_exists te (tj_dst asked)" "te_confirm te (overwrite_prompt asked) \<noteq> ConfirmYes"
    "ui_reach R P (drain_transfer_events te a0) a"
  shows "p = SkipAll \<and> app_policy a = Some SkipAll
    \<and> (\<exists>js. sent_transfers a = sent_transfers (drain_transfer_events te a0) @ map (\<lambda>job. CmdTransfer job SkipAll) js)
    \<and> (\<forall>job env target sock err st.
          start_transfer env target sock job SkipAll err st = (False, send_ev (EvDone TransferOk) st))"
proof -
  note d = declined_tick[OF assms(1-5)]
  have "app_policy a = Some SkipAll
    \<and> (\<exists>js. sent_transfers a = sent_transfers (drain_transfer_events te a0) @ map (\<lambda>job. CmdTransfer job SkipAll) js)"
    using assms(6)
  proof induction
    case ui_start
    show ?case using d by simp
  next
    case (ui_key b sc rk home k b')
    then show ?case using route_policy[OF ui_key.hyps(2,4)] route_sent[OF ui_key.hyps(2,4)] by simp
  next
    case (ui_tick b later)
    then show ?case using skipping_tick[of b later] by (metis append.assoc map_append)
  qed
  then show ?thesis using d by (simp add: start_transfer_def)
qed

text \<open>The download is declined; then the upload of the same queue is sent, whose destination is free.\<close>

definition demo_later :: tick_env where
  "demo_later = demo_tick\<lparr>te_events := [EvDone TransferOk], te_exists := \<lambda>_. False, te_confirm := \<lambda>_. ConfirmYes\<rparr>"

theorem declined_answer_skips_all_witness:
  "sent_transfers (drain_transfer_events demo_later (drain_transfer_events demo_tick demo_app))
     = [CmdTransfer (demo_job Download) SkipAll, CmdTransfer (demo_job Upload) SkipAll]
   \<and> app_policy (drain_transfer_events demo_later (drain_transfer_events demo_tick demo_app)) = Some SkipAll
   \<and> start_transfer demo_worker ''web'' ''/tmp/s'' (demo_job Upload) SkipAll None demo_worker_state
       = (False, send_ev (EvDone TransferOk) demo_worker_state)"
proof -
  have p: "app_policy demo_app = None"
    "sent_transfers (drain_transfer_events demo_tick demo_app) = sent_transfers demo_app @ [CmdTransfer (demo_job Download) SkipAll]"
    "tj_direction (demo_job Download) = Download" "te_exists demo_tick (tj_dst (demo_job Download))"
    "te_confirm demo_tick (overwrite_prompt (demo_job Download)) \<noteq> ConfirmYes"
    unfolding demo_dispatch
    by (simp_all add: app_policy_def sent_transfers_def demo_app_def demo_screen_def screen_new_def demo_job_def demo_tick_def)
  have r: "ui_reach (\<lambda>_. True) (\<lambda>_. True) (drain_transfer_events demo_tick demo_app)
      (drain_transfer_events demo_later (drain_transfer_events demo_tick demo_app))"
    by (intro ui_tick ui_start) simp
  have "sent_transfers (drain_transfer_events demo_later (drain_transfer_events demo_tick demo_app))
     = [CmdTransfer (demo_job Download) SkipAll, CmdTransfer (demo_job Upload) SkipAll]" by code_simp
  then show ?thesis using declined_answer_skips_all[OF p r] by blast
qed

section \<open>A failed transfer\<close>

text \<open>The events that do not make the queue move on.\<close>

definition stalls :: "worker_event \<Rightarrow> bool" where
  "stalls ev \<longleftrightarrow> (\<forall>r. ev = EvDone r \<longrightarrow> (\<exists>msg. r = TransferFailed msg))"

lemma stalled_events:
  "list_all stalls evs \<Longrightarrow> da_advance (fold (on_worker_event env) evs acc) = da_advance acc
     \<and> ta_pending_advance (da_app (fold (on_worker_event env) evs acc)) = ta_pending_advance (da_app acc)"
proof (induction evs arbitrary: acc)
  case (Cons ev evs)
  have "da_advance (on_worker_event env ev acc) = da_advance acc
     \<and> ta_pending_advance (da_app (on_worker_event env ev acc)) = ta_pending_advance (da_app acc)"
  proof (cases "is_done_event ev")
    case True
    then obtain msg where "ev = EvDone (TransferFailed msg)" using Cons.prems by (cases ev) (auto simp: stalls_def)
    then show ?thesis by (simp add: on_worker_event_def Let_def)
  next
    case False
    then show ?thesis using worker_event_quiet[of ev acc env] by (simp add: quiet_step_def)
  qed
  then show ?case using Cons by simp
qed simp

lemma stalled_tick:
  assumes "\<not> ta_pending_advance a" "list_all stalls (te_events te)"
  shows "sent_transfers (drain_transfer_events te a) = sent_transfers a \<and> \<not> ta_pending_advance (drain_transfer_events te a)"
proof -
  obtain a4 adv where b: "before_dispatch te a = (a4, adv)" by fastforce
  define a1 where "a1 = launch_search te (on_screen (drain_search te) (drain_pending_list te a))"
  have "\<not> ta_pending_advance a1"
    using quiet_pending_list[of a te] quiet_launch[of "on_screen (drain_search te) (drain_pending_list te a)" te] assms(1)
    by (simp add: a1_def quiet_step_def)
  moreover have "list_all stalls (if ta_worker a1 then te_events te else [])" using assms(2) by simp
  moreover define acc where "acc = \<lparr>da_app = a1, da_failed = None, da_advance = False, da_refresh = None\<rparr>"
  ultimately have e: "\<not> da_advance (fold (on_worker_event te) (if ta_worker a1 then te_events te else []) acc)"
      "\<not> ta_pending_advance (da_app (fold (on_worker_event te) (if ta_worker a1 then te_events te else []) acc))"
    using stalled_events[of "if ta_worker a1 then te_events te else []" te acc] by (simp_all add: acc_def)
  have pa: "ta_pending_advance (if c then send_cmd CmdCancel (x\<lparr>ta_pending_cancel := False\<rparr>) else x) = ta_pending_advance x" for c x
    by simp
  have "adv = (ta_pending_advance (da_app (fold (on_worker_event te) (if ta_worker a1 then te_events te else []) acc))
      \<or> da_advance (fold (on_worker_event te) (if ta_worker a1 then te_events te else []) acc))"
    using b unfolding before_dispatch_def Let_def a1_def[symmetric] acc_def[symmetric] pa by (simp only: prod.inject)
  then have "\<not> adv" using e by simp
  then show ?thesis using drain_splits[OF b] before_facts[OF b] by simp
qed

text \<open>C38: a failed transfer strands the queue.  After a transfer failed, and with no key that asks for another
one, no tick sends a transfer to the worker any more, however many tasks are still queued.\<close>

theorem failed_transfer_strands_queue:
  assumes "\<not> ta_pending_advance a" "list_all (\<lambda>te. list_all stalls (te_events te)) tes"
  shows "sent_transfers (fold drain_transfer_events tes a) = sent_transfers a"
  using assms
proof (induction tes arbitrary: a)
  case (Cons te tes)
  then show ?case using stalled_tick[of a te] by simp
qed simp

theorem failed_transfer_strands_queue_witness:
  "let a = fold drain_transfer_events [demo_tick\<lparr>te_events := [EvDone (TransferFailed ''lost'')]\<rparr>, demo_tick]
      (demo_app\<lparr>ta_pending_advance := False, ta_transfer := Some (snd (next_job demo_screen))\<rparr>)
   in sent_transfers a = [] \<and> pending_count (app_ledger a) = 1 \<and> \<not> has_inflight (app_ledger a)"
proof -
  let ?a = "demo_app\<lparr>ta_pending_advance := False, ta_transfer := Some (snd (next_job demo_screen))\<rparr>"
  let ?tes = "[demo_tick\<lparr>te_events := [EvDone (TransferFailed ''lost'')]\<rparr>, demo_tick]"
  have p: "\<not> ta_pending_advance ?a" "list_all (\<lambda>te. list_all stalls (te_events te)) ?tes" "sent_transfers ?a = []"
    by (simp_all add: stalls_def demo_tick_def sent_transfers_def demo_app_def)
  have "pending_count (app_ledger (fold drain_transfer_events ?tes ?a)) = 1"
    "\<not> has_inflight (app_ledger (fold drain_transfer_events ?tes ?a))" by code_simp+
  then show ?thesis using failed_transfer_strands_queue[OF p(1,2)] p(3) by (simp add: Let_def)
qed

section \<open>Navigation\<close>

text \<open>A second switch breaks the way back.  A pane that is sent to a second directory before the listing of
the first has arrived, and whose listing then fails, ends on the first directory, which was never listed, while it
shows the entries of the directory it came from.\<close>

theorem second_switch_breaks_revert:
  "let p' = pane_revert_switch rk (enter_dir d2 (enter_dir d1 p))
   in bc_cwd (pn_core p') = d1 \<and> bc_entries (pn_core p') = bc_entries (pn_core p)"
  by (auto simp: Let_def pane_revert_switch_def enter_dir_def pane_on_step_def on_core_def set_loading_def revert_switch_def
      begin_switch_def remember_cursor_def recompute_def clamp_selected_def split: option.splits)

section \<open>One transfer at a time, concretely\<close>

definition demo_file :: dir_entry where
  "demo_file = \<lparr>de_name = ''a'', de_path = ''/home/a'', de_is_dir = False, de_is_symlink = False, de_size = Some 10,
     de_modified = None\<rparr>"

definition demo_browsing :: transfer_screen where
  "demo_browsing = (screen_new ''/home'' ''/srv'')\<lparr>sc_connect := Connected,
     sc_local := pane_set_entries (te_rank demo_tick) [demo_file] (pane_new ''/home'')\<rparr>"

definition demo_start :: system where
  "demo_start = \<lparr>sy_app = demo_app\<lparr>ta_transfer := Some demo_browsing, ta_pending_advance := False\<rparr>, sy_cmds = [CmdList ''/srv''],
     sy_running = None, sy_worker = demo_worker_state\<rparr>"

definition ctrl_s :: key_event where
  "ctrl_s = \<lparr>ke_code = KeyChar (CHR ''s''), ke_ctrl = True, ke_alt = False, ke_shift = False, ke_super = False,
     ke_kind = Press\<rparr>"

definition demo_pressed :: transfer_app where
  "demo_pressed = snd (route_transfer (te_rank demo_tick) None ctrl_s demo_browsing (sy_app demo_start))"

definition demo_sent :: system where
  "demo_sent = post (drain_transfer_events demo_tick demo_pressed) (post demo_pressed demo_start)"

lemma demo_reachable: "reachable demo_worker ''web'' ''/tmp/s'' demo_start demo_sent"
proof -
  have "fst (route_transfer (te_rank demo_tick) None ctrl_s demo_browsing (sy_app demo_start)) = RouteContinue" by code_simp
  then have "route_transfer (te_rank demo_tick) None ctrl_s demo_browsing (sy_app demo_start) = (RouteContinue, demo_pressed)"
    by (metis demo_pressed_def prod.collapse)
  then have k: "system_step demo_worker ''web'' ''/tmp/s'' demo_start (post demo_pressed demo_start)"
    by (intro system_step.key[where sc = demo_browsing]) (simp_all add: demo_start_def)
  have a: "sy_app (post demo_pressed demo_start) = demo_pressed"
  proof -
    have "ta_sent demo_pressed = []" by code_simp
    then show ?thesis by (simp add: post_def)
  qed
  have w: "(post demo_pressed demo_start)\<lparr>sy_worker := sy_worker (post demo_pressed demo_start)\<rparr> = post demo_pressed demo_start"
    by simp
  have "system_step demo_worker ''web'' ''/tmp/s'' (post demo_pressed demo_start)
      (post (drain_transfer_events demo_tick (sy_app (post demo_pressed demo_start)))
        ((post demo_pressed demo_start)\<lparr>sy_worker := sy_worker (post demo_pressed demo_start)\<rparr>))"
    by (rule system_step.tick[where n = 0 and evs = "[]"]) (simp_all add: take_events_def demo_tick_def)
  then have "system_step demo_worker ''web'' ''/tmp/s'' (post demo_pressed demo_start) demo_sent"
    unfolding a w demo_sent_def .
  then show ?thesis using reachable.step[OF reachable.step[OF reachable.init k]] by blast
qed

theorem one_transfer_at_a_time_witness:
  "transfer_jobs (sy_cmds demo_sent) = inflight_jobs (app_ledger (sy_app demo_sent))
   \<and> length (inflight_jobs (app_ledger (sy_app demo_sent))) = 1"
proof -
  have f: "fresh_system demo_start"
    by (simp add: fresh_system_def demo_start_def app_ledger_def demo_app_def demo_browsing_def screen_new_def
        demo_worker_state_def)
  have n: "transfer_jobs (sy_cmds demo_sent) \<noteq> []" "sy_running demo_sent = None"
    "length (inflight_jobs (app_ledger (sy_app demo_sent))) = 1" by code_simp+
  show ?thesis
    using one_transfer_at_a_time[OF f demo_reachable] n by (auto simp: Let_def running_jobs_def)
qed

end
