(* ===== verification/Pane_Props.thy ===== *)
theory Pane_Props
  imports Transfer_Props
begin

text \<open>The rows of the two panes over a session: every row shown is a row of the listing the pane holds,
whatever keys, listings, searches and failures come in whatever order.\<close>

definition pane_rows :: "pane \<Rightarrow> bool" where
  "pane_rows p \<longleftrightarrow> rows_ok (pn_core p)"

definition screen_rows :: "transfer_screen \<Rightarrow> bool" where
  "screen_rows sc \<longleftrightarrow> pane_rows (sc_local sc) \<and> pane_rows (sc_remote sc)"

named_theorems rows

lemma on_pane_rows [rows]: "\<lbrakk>screen_rows sc; \<And>p. pane_rows p \<Longrightarrow> pane_rows (f p)\<rbrakk> \<Longrightarrow> screen_rows (on_pane s f sc)"
  by (cases s) (simp_all add: on_pane_def screen_rows_def)

text \<open>Fields of the panes that the rows do not depend on.\<close>

lemma rows_fields [simp]:
  "pane_rows (p\<lparr>pn_search := x\<rparr>) = pane_rows p" "pane_rows (p\<lparr>pn_loading := b\<rparr>) = pane_rows p"
  "pane_rows (set_loading b p) = pane_rows p" "pane_rows (stop_searching p) = pane_rows p"
  "rows_ok (c\<lparr>bc_selected := n\<rparr>) = rows_ok c" "rows_ok (c\<lparr>bc_marked := ms\<rparr>) = rows_ok c"
  "rows_ok (c\<lparr>bc_cwd := d\<rparr>) = rows_ok c" "rows_ok (clamp_selected c) = rows_ok c" "rows_ok (begin_switch c) = rows_ok c"
  "rows_ok (c\<lparr>bc_switch_origin := og\<rparr>) = rows_ok c" "rows_ok (c\<lparr>bc_pending_restore := b\<rparr>) = rows_ok c"
  "rows_ok (remember_parent c) = rows_ok c"
  by (simp_all add: pane_rows_def rows_ok_def set_loading_def stop_searching_def clamp_selected_def begin_switch_def Let_def)

lemma screen_rows_fields [simp]:
  "screen_rows (set_status s sc) = screen_rows sc" "screen_rows (flip_focus sc) = screen_rows sc"
  "screen_rows (on_ledger g sc) = screen_rows sc" "screen_rows (set_active pr sc) = screen_rows sc"
  "screen_rows (sc\<lparr>sc_pending_list := pl\<rparr>) = screen_rows sc" "screen_rows (sc\<lparr>sc_pending_search := ps\<rparr>) = screen_rows sc"
  "screen_rows (sc\<lparr>sc_search_side := ss\<rparr>) = screen_rows sc" "screen_rows (sc\<lparr>sc_queue_overlay := qo\<rparr>) = screen_rows sc"
  "screen_rows (sc\<lparr>sc_close_confirm := cc\<rparr>) = screen_rows sc" "screen_rows (sc\<lparr>sc_host_key := hk\<rparr>) = screen_rows sc"
  "screen_rows (sc\<lparr>sc_ledger := l\<rparr>) = screen_rows sc" "screen_rows (sc\<lparr>sc_flags := fl\<rparr>) = screen_rows sc"
  "screen_rows (sc\<lparr>sc_search_rx := rx\<rparr>) = screen_rows sc" "screen_rows (sc\<lparr>sc_search_cancel := sca\<rparr>) = screen_rows sc"
  "screen_rows (sc\<lparr>sc_search_gen := g0\<rparr>) = screen_rows sc" "screen_rows (sc\<lparr>sc_connect := cn\<rparr>) = screen_rows sc"
  "screen_rows (sc\<lparr>sc_remote_home := rh\<rparr>) = screen_rows sc" "screen_rows (sc\<lparr>sc_overwrite_policy := op\<rparr>) = screen_rows sc"
  by (simp_all add: screen_rows_def set_status_def flip_focus_def on_ledger_def set_active_def split: option.split)

lemma on_core_rows: "(\<And>c. rows_ok c \<Longrightarrow> rows_ok (f c)) \<Longrightarrow> pane_rows p \<Longrightarrow> pane_rows (on_core f p)"
  by (simp add: pane_rows_def on_core_def)

lemma begin_search_rows [rows]: "screen_rows sc \<Longrightarrow> screen_rows (begin_search s sc)"
  by (auto simp: begin_search_def Let_def intro: on_pane_rows split: option.split)

lemma search_event_rows [rows]: "screen_rows sc \<Longrightarrow> screen_rows (apply_search_event s ev sc)"
  by (auto simp: apply_search_event_def intro!: on_pane_rows)

lemma search_request_rows [rows]: "screen_rows sc \<Longrightarrow> screen_rows (search_request home s q sc)"
  by (auto simp: search_request_def Let_def intro!: on_pane_rows)

lemma enqueue_rows [rows]:
  "screen_rows sc \<Longrightarrow> screen_rows (snd (enqueue_from_focused sc))"
  "screen_rows sc \<Longrightarrow> screen_rows (snd (enqueue_focused sc))"
  "screen_rows sc \<Longrightarrow> screen_rows (snd (request_close sc))"
  by (auto simp: enqueue_focused_def enqueue_from_focused_def enqueue_from_search_def request_close_def Let_def
      intro!: on_pane_rows on_core_rows split: option.split)

lemma enter_rows [rows]: "pane_rows p \<Longrightarrow> pane_rows (enter_dir d p)"
  by (simp add: enter_dir_def pane_on_step_def pane_rows_def on_core_def set_loading_def)

context ranker
begin

lemma pane_set_rows: "pane_rows (pane_set_entries rk es p)"
  using core_finish_ok[of es "pn_core p"] by (simp add: pane_rows_def pane_set_entries_def on_core_def core_ok_def)

lemma pane_revert_rows: "pane_rows p \<Longrightarrow> pane_rows (pane_revert_switch rk p)"
  using recompute_rows by (simp add: pane_rows_def pane_revert_switch_def on_core_def revert_switch_def Let_def split: option.split)

lemma recompute_pane: "pane_rows (on_core (\<lambda>c. recompute rk (c\<lparr>bc_query := q\<rparr>)) p)"
  "pane_rows (on_core (\<lambda>c. clamp_selected (recompute rk (c\<lparr>bc_query := q\<rparr>))) p)"
  using recompute_rows by (simp_all add: pane_rows_def on_core_def)

lemma search_rows:
  assumes "screen_rows sc"
  shows "screen_rows (clear_query rk s sc)" "screen_rows (cancel_search rk sc)"
    "screen_rows (snd (complete_focused rk home sc))" "screen_rows (snd (jump_to_search_result rk sc))"
proof -
  have c: "screen_rows (clear_query rk s sc)" if "screen_rows sc" for s sc
    using that recompute_pane(2) by (auto simp: clear_query_def intro!: on_pane_rows)
  show "screen_rows (clear_query rk s sc)" using c assms .
  show "screen_rows (cancel_search rk sc)"
    using assms by (auto simp: cancel_search_def Let_def intro!: c on_pane_rows split: option.split)
  show "screen_rows (snd (complete_focused rk home sc))"
    using assms recompute_pane(1) by (auto simp: complete_focused_def intro!: search_request_rows on_pane_rows split: option.split)
  have "pane_rows (on_core (\<lambda>c. recompute rk (c\<lparr>bc_query := []\<rparr>)) (p\<lparr>pn_search := None\<rparr>))" for p
    by (rule recompute_pane(1))
  then show "screen_rows (snd (jump_to_search_result rk sc))"
    using assms by (auto simp: jump_to_search_result_def intro!: on_pane_rows split: option.split)
qed

lemma pane_key_rows: "pane_rows p \<Longrightarrow> pane_rows (snd (pane_on_key rk home key p))"
proof -
  assume p: "pane_rows p"
  have n: "rows_ok (snd (apply_nav_key rk key (pn_core p)))"
    using p recompute_rows by (auto simp: apply_nav_key_def move_cursor_def pane_rows_def split: key_code.split)
  have t: "rows_ok (snd (toggle_mark_selected (pn_core p)))"
    using p by (simp add: toggle_mark_selected_def pane_rows_def Let_def split: option.split)
  show ?thesis
    using p n t
    by (auto simp: pane_rows_def pane_on_key_def on_search_key_def pane_nav_def move_search_cursor_def split_beta Let_def
        split: option.splits nav_decision.splits key_code.splits)
qed

lemma screen_key_rows: "screen_rows sc \<Longrightarrow> screen_rows (snd (screen_on_key rk home key sc))"
proof -
  assume sc: "screen_rows sc"
  have "screen_rows (snd (route_to_focused rk home key sc))"
  proof -
    have "pane_rows (focused_pane sc)" using sc by (cases "sc_focus sc") (simp_all add: screen_rows_def focused_pane_def pane_of_def)
    then have "screen_rows (on_pane (sc_focus sc) (\<lambda>_. snd (pane_on_key rk home key (focused_pane sc))) sc)"
      using sc pane_key_rows by (auto intro!: on_pane_rows)
    then show ?thesis
      by (auto simp: route_to_focused_def split_beta Let_def intro!: search_request_rows enqueue_rows split: pane_outcome.split option.split)
  qed
  then have "screen_rows (snd (browse_key rk home key sc))"
    using sc search_rows[OF sc] enqueue_rows[OF sc] by (auto simp: browse_key_def Let_def split_beta split: option.split)
  then show ?thesis using sc by (auto simp: screen_on_key_def split_beta Let_def split: option.split)
qed

lemma listing_rows: "screen_rows sc \<Longrightarrow> screen_rows (apply_remote_listing rk cwd res sc)"
  using pane_set_rows pane_revert_rows by (auto simp: apply_remote_listing_def intro!: on_pane_rows split: sum.split)

end

section \<open>Ticks\<close>

definition app_rows :: "transfer_app \<Rightarrow> bool" where
  "app_rows a \<longleftrightarrow> (\<forall>sc. ta_transfer a = Some sc \<longrightarrow> screen_rows sc)"

lemma app_rows_simps [simp]:
  "app_rows (send_cmd c a) = app_rows a" "app_rows (a\<lparr>ta_pending_advance := b\<rparr>) = app_rows a"
  "app_rows (a\<lparr>ta_pending_cancel := b\<rparr>) = app_rows a" "app_rows (a\<lparr>ta_remote_search := b\<rparr>) = app_rows a"
  by (simp_all add: app_rows_def)

lemma on_screen_rows: "(\<And>sc. screen_rows sc \<Longrightarrow> screen_rows (f sc)) \<Longrightarrow> app_rows a \<Longrightarrow> app_rows (on_screen f a)"
  by (auto simp: app_rows_def)

lemma dispatch_rows: "app_rows a \<Longrightarrow> app_rows (dispatch_next_job env a)"
proof (cases "ta_transfer a")
  case (Some sc)
  assume "app_rows a"
  then have n: "screen_rows (snd (next_job sc))" using Some by (simp add: next_job_def app_rows_def split: option.split prod.split)
  obtain jo sc1 where j: "next_job sc = (jo, sc1)" by fastforce
  have a: "app_rows (a\<lparr>ta_transfer := Some sc1\<rparr>)" using n j by (simp add: app_rows_def)
  show ?thesis using a
    by (auto simp: dispatch_next_job_def Some j Let_def intro!: on_screen_rows split: option.split confirm_answer.split)
qed (simp add: dispatch_closed)

context ranker
begin

lemma pending_list_rows: "te_rank env = rk \<Longrightarrow> app_rows a \<Longrightarrow> app_rows (drain_pending_list env a)"
  using pane_set_rows pane_revert_rows
  by (auto simp: drain_pending_list_def Let_def intro!: on_screen_rows on_pane_rows enter_rows split: option.split side.split sum.split)

lemma refresh_rows: "te_rank env = rk \<Longrightarrow> app_rows a \<Longrightarrow> app_rows (refresh_pane env d a)"
  using pane_set_rows
  by (auto simp: refresh_pane_def intro!: on_screen_rows on_pane_rows split: option.split direction.split sum.split)

lemma event_rows: "te_rank env = rk \<Longrightarrow> app_rows (da_app acc) \<Longrightarrow> app_rows (da_app (on_worker_event env ev acc))"
  using listing_rows
  by (auto simp: on_worker_event_def Let_def intro!: on_screen_rows on_pane_rows on_core_rows
      split: worker_event.split transfer_outcome.split)

lemma tick_rows:
  assumes "te_rank env = rk" "app_rows a"
  shows "app_rows (drain_transfer_events env a)"
proof -
  have s: "screen_rows sc \<Longrightarrow> screen_rows (drain_search env sc)" for sc
  proof -
    have "screen_rows sc \<Longrightarrow> screen_rows (fold (apply_search_event s) evs sc)" for s evs sc
      by (induction evs arbitrary: sc) (simp_all add: search_event_rows)
    then show "screen_rows sc \<Longrightarrow> screen_rows (drain_search env sc)" by (simp add: drain_search_def Let_def split: option.split)
  qed
  have l: "app_rows b \<Longrightarrow> app_rows (launch_search env b)" for b
    by (auto simp: launch_search_def app_rows_def Let_def intro!: begin_search_rows split: option.split)
  define a1 where "a1 = launch_search env (on_screen (drain_search env) (drain_pending_list env a))"
  have a1: "app_rows a1" using l on_screen_rows[OF s] pending_list_rows[OF assms] by (simp add: a1_def)
  have e: "app_rows (da_app acc) \<Longrightarrow> app_rows (da_app (fold (on_worker_event env) evs acc))" for evs acc
    by (induction evs arbitrary: acc) (simp_all add: event_rows[OF assms(1)])
  define acc where "acc = fold (on_worker_event env) (if ta_worker a1 then te_events env else [])
                  \<lparr>da_app = a1, da_failed = None, da_advance = False, da_refresh = None\<rparr>"
  have "app_rows (da_app acc)" unfolding acc_def by (rule e) (simp add: a1)
  then have a4: "app_rows ((if ta_pending_cancel (da_app acc) then send_cmd CmdCancel ((da_app acc)\<lparr>ta_pending_cancel := False\<rparr>)
      else da_app acc)\<lparr>ta_pending_advance := False\<rparr>)" by simp
  have d: "app_rows b \<Longrightarrow> app_rows (if c then dispatch_next_job env b else b)" for b c using dispatch_rows by simp
  have f: "app_rows b \<Longrightarrow> app_rows (case x of Some msg \<Rightarrow> on_screen (set_status (status_error (t msg))) b | None \<Rightarrow> b)"
    for b t and x :: "string option"
    by (cases x) (auto intro!: on_screen_rows)
  have r: "app_rows b \<Longrightarrow> app_rows (case y of Some d \<Rightarrow> refresh_pane env d b | None \<Rightarrow> b)" for b y
    using refresh_rows[OF assms(1)] by (cases y) simp_all
  show ?thesis
    unfolding drain_transfer_events_def Let_def a1_def[symmetric] acc_def[symmetric] by (rule r[OF f[OF d[OF a4]]])
qed

end

section \<open>Sessions\<close>

lemma route_rows:
  assumes "ta_transfer a0 = Some sc" "app_rows a0" "route_transfer (browser_rank m) home key sc a0 = (RouteContinue, a)"
  shows "app_rows a"
proof -
  define sc1 where "sc1 = (if ke_kind key = Press \<and> sc_connect sc = Connected then set_status status_empty sc else sc)"
  have "screen_rows sc1" using assms(1,2) by (simp add: sc1_def app_rows_def)
  obtain out sc2 where k: "screen_on_key (browser_rank m) home key sc1 = (out, sc2)" by fastforce
  then have "screen_rows sc2" using panel.screen_key_rows[OF \<open>screen_rows sc1\<close>, of m home key] by simp
  then show ?thesis
    using assms k
    by (cases out) (auto simp: route_transfer_def sc1_def[symmetric] app_rows_def send_cmd_def on_screen_def Let_def split: if_splits)
qed

text \<open>C24: the rows shown are rows of the listing.  In a session that starts with an empty screen, after any keys
and ticks, every rank index of either pane points into the listing the pane holds, and no row is shown twice; the
index of the row under the cursor can be used on the entries without a check.\<close>

theorem rows_show_entries:
  assumes "ui_reach (\<lambda>rk. \<exists>m. rk = browser_rank m) (\<lambda>te. \<exists>m. te_rank te = browser_rank m) a0 a"
    "ta_transfer a0 = Some (screen_new here there)" "ta_transfer a = Some sc"
  shows "rows_ok (pn_core (pane_of s sc))"
proof -
  have "app_rows a"
    using assms(1)
  proof induction
    case ui_start
    then show ?case
      by (simp add: app_rows_def assms(2) screen_rows_def screen_new_def pane_new_def core_new_def pane_rows_def rows_ok_def)
  next
    case (ui_key a sc rk home k a')
    then show ?case using route_rows by blast
  next
    case (ui_tick a te)
    then show ?case using panel.tick_rows by blast
  qed
  then show ?thesis using assms(3) by (cases s) (auto simp: app_rows_def screen_rows_def pane_rows_def pane_of_def)
qed

definition demo_ranked_tick :: tick_env where
  "demo_ranked_tick = demo_tick\<lparr>te_rank := browser_rank \<lparr>mt_score = \<lambda>_ _. None, mt_indices = \<lambda>_ _. None\<rparr>, te_events := [EvListing ''/srv'' (Inr [demo_file])]\<rparr>"

theorem rows_show_entries_witness:
  "let a = drain_transfer_events demo_ranked_tick (demo_app\<lparr>ta_transfer := Some (screen_new ''/home'' ''/srv'')\<rparr>)
   in case ta_transfer a of Some sc \<Rightarrow> bc_ranked (pn_core (sc_remote sc)) = [0] \<and> rows_ok (pn_core (sc_remote sc)) | None \<Rightarrow> False"
proof -
  let ?start = "demo_app\<lparr>ta_transfer := Some (screen_new ''/home'' ''/srv'')\<rparr>"
  let ?a = "drain_transfer_events demo_ranked_tick ?start"
  have "\<exists>m. te_rank demo_ranked_tick = browser_rank m" by (auto simp: demo_ranked_tick_def)
  then have r: "ui_reach (\<lambda>rk. \<exists>m. rk = browser_rank m) (\<lambda>te. \<exists>m. te_rank te = browser_rank m) ?start ?a"
    by (intro ui_tick ui_start)
  have t: "ta_transfer ?start = Some (screen_new ''/home'' ''/srv'')" by simp
  have "case ta_transfer ?a of Some sc \<Rightarrow> bc_ranked (pn_core (sc_remote sc)) = [0] | None \<Rightarrow> False" by code_simp
  then obtain sc where sc: "ta_transfer ?a = Some sc" "bc_ranked (pn_core (sc_remote sc)) = [0]" by (auto split: option.splits)
  show ?thesis using rows_show_entries[OF r t sc(1), of RemoteSide] sc by (simp add: pane_of_def)
qed

end
