(* ===== verification/Find_Props.thy ===== *)
theory Find_Props
  imports Path_Find
begin

text \<open>A concrete tree for the properties of cross-directory find: \<^verbatim>\<open>/srv/log/app.txt\<close> and a
directory that cannot be read.\<close>

definition row :: "string \<Rightarrow> string \<Rightarrow> bool \<Rightarrow> dir_entry" where
  "row d n is_dir = \<lparr>de_name = n, de_path = d @ ''/'' @ n, de_is_dir = is_dir, de_is_symlink = False, de_size = None,
     de_modified = None\<rparr>"

definition demo_tree :: "string \<Rightarrow> string + dir_entry list" where
  "demo_tree d =
     (if d = ''/srv'' then Inr [row ''/srv'' ''log'' True, row ''/srv'' ''etc'' True]
      else if d = ''/srv/log'' then Inr [row ''/srv/log'' ''app.txt'' False, row ''/srv/log'' ''b'' False]
      else Inl ''denied'')"

definition demo_find :: walk_env where
  "demo_find = \<lparr>we_list = demo_tree, we_match = (\<lambda>raw pat. if starts_with pat raw then Some (7, []) else None),
     we_gen = 3, we_cancel = (\<lambda>_. False), we_open = (\<lambda>_. True)\<rparr>"

definition demo_query :: parsed_query where
  "demo_query = \<lparr>pq_base = ''/srv'', pq_segments = [''log'', ''app''], pq_trailing_slash = False\<rparr>"

definition walk_start :: walk where
  "walk_start = \<lparr>wk_loads = 0, wk_sends = 0, wk_events = []\<rparr>"

lemma demo_walk:
  "wk_events (walk_levels demo_find demo_query walk_start) =
     [\<lparr>se_gen = 3, se_kind = EvMatch \<lparr>pm_path = ''/srv/log/app.txt'', pm_is_dir = False,
        pm_seg_matches = [\<lparr>sm_name = ''log'', sm_score = 0, sm_indices = []\<rparr>,
          \<lparr>sm_name = ''app.txt'', sm_score = 7, sm_indices = []\<rparr>]\<rparr>\<rparr>,
      \<lparr>se_gen = 3, se_kind = EvSearchDone\<rparr>]"
  by code_simp

theorem walk_events_justified_witness:
  "match_ok demo_find ''/srv'' [''log''] (Some ''app'') \<lparr>pm_path = ''/srv/log/app.txt'', pm_is_dir = False,
        pm_seg_matches = [\<lparr>sm_name = ''log'', sm_score = 0, sm_indices = []\<rparr>,
          \<lparr>sm_name = ''app.txt'', sm_score = 7, sm_indices = []\<rparr>]\<rparr>"
proof -
  have d: "drill_and_leaf demo_query = ([''log''], Some ''app'')" by code_simp
  obtain ks ending where k: "wk_events (walk_levels demo_find demo_query walk_start) =
      wk_events walk_start @ map (\<lambda>k. \<lparr>se_gen = we_gen demo_find, se_kind = k\<rparr>) (ks @ ending)"
    "list_all (kind_ok demo_find (pq_base demo_query) [''log''] (Some ''app'')) ks" "ending \<in> {[], [EvSearchDone]}"
    using walk_events_justified[OF d] by blast
  have "map se_kind (wk_events (walk_levels demo_find demo_query walk_start)) = ks @ ending"
    unfolding k(1) by (simp add: walk_start_def comp_def)
  then have "[EvMatch \<lparr>pm_path = ''/srv/log/app.txt'', pm_is_dir = False,
        pm_seg_matches = [\<lparr>sm_name = ''log'', sm_score = 0, sm_indices = []\<rparr>,
          \<lparr>sm_name = ''app.txt'', sm_score = 7, sm_indices = []\<rparr>]\<rparr>, EvSearchDone] = ks @ ending"
    unfolding demo_walk by simp
  then show ?thesis using k(2,3) by (cases ks) (auto simp: demo_query_def)
qed

theorem walk_finishes_witness:
  "\<exists>es. wk_events (walk_levels demo_find (demo_query\<lparr>pq_segments := [''etc'', ''x'']\<rparr>) walk_start)
     = es @ [\<lparr>se_gen = we_gen demo_find, se_kind = EvSearchDone\<rparr>]"
  by (rule walk_finishes) (simp_all add: demo_find_def)

theorem serve_recent_witness:
  "\<exists>v. serve [(0, ''/srv'', demo_tree), (1, ''/srv'', \<lambda>_. Inl ''gone'')] (cache_new DEFAULT_TTL DEFAULT_CAPACITY) ! 1 = Inr v
     \<and> demo_tree ''/srv'' = Inr v"
proof -
  let ?rs = "[(0, ''/srv'', demo_tree), (1, ''/srv'', \<lambda>_. Inl ''gone'')]"
  let ?c = "cache_new DEFAULT_TTL DEFAULT_CAPACITY"
  have r: "recorded [] ?c" by (simp add: recorded_def cache_new_def)
  have "evict_to 128 [] = []" by (simp add: evict_to.simps)
  then have "serve ?rs ?c ! 1 = demo_tree ''/srv''"
    by (simp add: cache_new_def get_or_fetch_def store_fetched_def Let_def drop_key_def demo_tree_def DEFAULT_TTL_def
        DEFAULT_CAPACITY_def)
  then obtain v where v: "serve ?rs ?c ! 1 = Inr v" by (simp add: demo_tree_def)
  show ?thesis
    using serve_recent[OF r _ _ v, of 1 "''/srv''" "\<lambda>_. Inl ''gone''"] v by auto
qed

end
