(* ===== verification/Wizard_Pickers.thy ===== *)
theory Wizard_Pickers
  imports Browser_Core Connect
begin

text \<open>The three modal popups of the forms: the paste popup for inline keys
(\<^verbatim>\<open>tui/wizard/key_paste.rs\<close>), the credential picker (\<^verbatim>\<open>tui/wizard/cred_picker.rs\<close>) and the
file picker (\<^verbatim>\<open>tui/file_picker.rs\<close>).  The multi-line editor is the crate
\<^verbatim>\<open>ratatui-textarea\<close>: its buffers are a type parameter and its operations arguments.\<close>

section \<open>The paste popup\<close>

datatype text_key =
    TkChar char | TkBackspace | TkEnter | TkLeft | TkRight | TkUp | TkDown | TkTab | TkDelete
  | TkHome | TkEnd | TkPageUp | TkPageDown | TkEsc | TkF nat | TkNull

record text_input =
  ti_key :: text_key
  ti_ctrl :: bool
  ti_alt :: bool
  ti_shift :: bool

record 't textarea =
  tx_default :: 't
  tx_input :: "text_input \<Rightarrow> 't \<Rightarrow> 't"
  tx_lines :: "'t \<Rightarrow> string list"

datatype paste_kind = PastePrivate | PasteCert

datatype paste_outcome = PasteDone string | PasteCancel | PastePending

record 't key_paste =
  kp_kind :: paste_kind
  kp_existing_lines :: nat
  kp_textarea :: 't

definition LF :: char where "LF = CHR 0x0A"
definition CR :: char where "CR = CHR 0x0D"

definition text_key_from :: "key_code \<Rightarrow> text_key" where
  "text_key_from c =
     (case c of
        KeyChar ch \<Rightarrow> TkChar ch
      | KeyBackspace \<Rightarrow> TkBackspace
      | KeyEnter \<Rightarrow> TkEnter
      | KeyLeft \<Rightarrow> TkLeft
      | KeyRight \<Rightarrow> TkRight
      | KeyUp \<Rightarrow> TkUp
      | KeyDown \<Rightarrow> TkDown
      | KeyTab \<Rightarrow> TkTab
      | KeyDelete \<Rightarrow> TkDelete
      | KeyHome \<Rightarrow> TkHome
      | KeyEnd \<Rightarrow> TkEnd
      | KeyPageUp \<Rightarrow> TkPageUp
      | KeyPageDown \<Rightarrow> TkPageDown
      | KeyEsc \<Rightarrow> TkEsc
      | KeyF n \<Rightarrow> TkF n
      | _ \<Rightarrow> TkNull)"

definition textarea_input_from :: "key_event \<Rightarrow> text_input" where
  "textarea_input_from key =
     (if ke_kind key = Release then \<lparr>ti_key = TkNull, ti_ctrl = False, ti_alt = False, ti_shift = False\<rparr>
      else if ke_code key = KeyBackTab
      then \<lparr>ti_key = TkTab, ti_ctrl = ke_ctrl key, ti_alt = ke_alt key, ti_shift = True\<rparr>
      else if ke_code key \<in> {KeyEnter, KeyChar LF, KeyChar CR} \<or> ke_ctrl key \<and> ke_code key = KeyChar (CHR ''j'')
      then \<lparr>ti_key = TkEnter, ti_ctrl = False, ti_alt = False, ti_shift = False\<rparr>
      else \<lparr>ti_key = text_key_from (ke_code key), ti_ctrl = ke_ctrl key, ti_alt = ke_alt key,
            ti_shift = ke_shift key\<rparr>)"

definition saved_line_count :: "string \<Rightarrow> nat" where
  "saved_line_count buf = (if trim buf = [] then 0 else length (lines buf))"

definition paste_new :: "'t textarea \<Rightarrow> paste_kind \<Rightarrow> nat \<Rightarrow> 't key_paste" where
  "paste_new tx k n = \<lparr>kp_kind = k, kp_existing_lines = n, kp_textarea = tx_default tx\<rparr>"

definition paste_on_key :: "'t textarea \<Rightarrow> key_event \<Rightarrow> 't key_paste \<Rightarrow> paste_outcome \<times> 't key_paste" where
  "paste_on_key tx key p =
     (if ke_kind key \<noteq> Press then (PastePending, p)
      else if ke_code key = KeyEsc
      then (let joined = join [LF] (tx_lines tx (kp_textarea p))
            in (PasteDone (if joined = [] then joined else ensure_trailing_newline joined), p))
      else if ke_ctrl key \<and> ke_code key = KeyChar (CHR ''c'') then (PasteCancel, p)
      else (PastePending, p\<lparr>kp_textarea := tx_input tx (textarea_input_from key) (kp_textarea p)\<rparr>))"

section \<open>The credential picker\<close>

datatype picker_outcome = PickerSelected nat | PickerCancel | PickerPending

record cred_picker =
  cp_names :: "string list"
  cp_query :: string
  cp_selected :: nat
  cp_ranked :: "nat list"

definition cred_picker_rank :: "matcher \<Rightarrow> string list \<Rightarrow> string \<Rightarrow> nat list" where
  "cred_picker_rank m names query =
     rank_by_fields m (map (\<lambda>n. [n]) names) (replicate (length names) (Finite 0 0)) query"

definition cred_picker_new :: "matcher \<Rightarrow> string list \<Rightarrow> nat option \<Rightarrow> cred_picker" where
  "cred_picker_new m names initial =
     (let r = cred_picker_rank m names []
      in \<lparr>cp_names = names, cp_query = [],
          cp_selected = (case Option.bind initial (\<lambda>i. position (\<lambda>x. x = i) r) of Some s \<Rightarrow> s | None \<Rightarrow> 0),
          cp_ranked = r\<rparr>)"

definition cred_picker_clamp :: "cred_picker \<Rightarrow> cred_picker" where
  "cred_picker_clamp p =
     (if cp_ranked p = [] then p\<lparr>cp_selected := 0\<rparr>
      else if length (cp_ranked p) \<le> cp_selected p then p\<lparr>cp_selected := length (cp_ranked p) - 1\<rparr>
      else p)"

definition cred_picker_recompute :: "matcher \<Rightarrow> cred_picker \<Rightarrow> cred_picker" where
  "cred_picker_recompute m p = cred_picker_clamp (p\<lparr>cp_ranked := cred_picker_rank m (cp_names p) (cp_query p)\<rparr>)"

definition cred_picker_move :: "int \<Rightarrow> cred_picker \<Rightarrow> cred_picker" where
  "cred_picker_move delta p =
     (if cp_ranked p = [] then p
      else p\<lparr>cp_selected := wrap_cursor (cp_selected p) delta (length (cp_ranked p))\<rparr>)"

definition cred_picker_selected :: "cred_picker \<Rightarrow> nat option" where
  "cred_picker_selected p = get_at (cp_ranked p) (cp_selected p)"

definition cred_picker_on_key :: "matcher \<Rightarrow> key_event \<Rightarrow> cred_picker \<Rightarrow> picker_outcome \<times> cred_picker" where
  "cred_picker_on_key m key p =
     (if ke_kind key \<noteq> Press then (PickerPending, p)
      else case ke_code key of
        KeyEsc \<Rightarrow> (PickerCancel, p)
      | KeyEnter \<Rightarrow>
          (case cred_picker_selected p of Some i \<Rightarrow> (PickerSelected i, p) | None \<Rightarrow> (PickerPending, p))
      | KeyUp \<Rightarrow> (PickerPending, cred_picker_move (- 1) p)
      | KeyDown \<Rightarrow> (PickerPending, cred_picker_move 1 p)
      | KeyBackspace \<Rightarrow> (PickerPending, cred_picker_recompute m (p\<lparr>cp_query := butlast (cp_query p)\<rparr>))
      | KeyChar c \<Rightarrow>
          if ke_ctrl key then (if c = CHR ''c'' then PickerCancel else PickerPending, p)
          else (PickerPending, cred_picker_recompute m (p\<lparr>cp_query := cp_query p @ [c]\<rparr>))
      | _ \<Rightarrow> (PickerPending, p))"

section \<open>The file picker\<close>

datatype file_picker_outcome = FilePick string | FileCancel | FilePending

record file_picker =
  fp_title :: string
  fp_candidates :: "string list"
  fp_core :: browser_core
  fp_status :: "string option"
  fp_started :: bool

definition file_picker_new :: "string \<Rightarrow> string option \<Rightarrow> file_picker" where
  "file_picker_new title hint =
     \<lparr>fp_title = title, fp_candidates = start_candidates hint, fp_core = core_new ''/'', fp_status = None,
      fp_started = False\<rparr>"

definition file_picker_load :: "dir_source \<Rightarrow> ranking \<Rightarrow> string \<Rightarrow> file_picker \<Rightarrow> bool \<times> file_picker" where
  "file_picker_load src rk cwd p =
     (case ds_list src cwd of
        Inr es \<Rightarrow> (True, p\<lparr>fp_core := commit_switch rk cwd es (fp_core p), fp_status := None\<rparr>)
      | Inl msg \<Rightarrow> (False, p\<lparr>fp_status := Some (''cannot list: '' @ msg)\<rparr>))"

definition ensure_started :: "dir_source \<Rightarrow> ranking \<Rightarrow> file_picker \<Rightarrow> file_picker" where
  "ensure_started src rk p =
     (if fp_started p then p
      else
        (let cwd = (case resolve_start src (fp_candidates p) of Some c \<Rightarrow> c | None \<Rightarrow> ''/'')
         in case file_picker_load src rk cwd p of (ok, p') \<Rightarrow> if ok then p'\<lparr>fp_started := True\<rparr> else p'))"

definition file_picker_step_up :: "dir_source \<Rightarrow> ranking \<Rightarrow> file_picker \<Rightarrow> file_picker" where
  "file_picker_step_up src rk p =
     (case path_parent (bc_cwd (fp_core p)) of Some d \<Rightarrow> snd (file_picker_load src rk d p) | None \<Rightarrow> p)"

definition step_into_selected :: "dir_source \<Rightarrow> ranking \<Rightarrow> file_picker \<Rightarrow> file_picker_outcome \<times> file_picker" where
  "step_into_selected src rk p =
     (case selected_entry (fp_core p) of
        Some e \<Rightarrow> if de_is_dir e then (FilePending, snd (file_picker_load src rk (de_path e) p)) else (FilePending, p)
      | None \<Rightarrow> (FilePending, p))"

definition activate_selected :: "dir_source \<Rightarrow> ranking \<Rightarrow> file_picker \<Rightarrow> file_picker_outcome \<times> file_picker" where
  "activate_selected src rk p =
     (case parse_filter_intent (bc_query (fp_core p)) of
        PathLike raw \<Rightarrow>
          (case source_resolve src raw (bc_cwd (fp_core p)) of
             ResolvedFile a \<Rightarrow> (FilePick a, p)
           | ResolvedDir a \<Rightarrow> (FilePending, snd (file_picker_load src rk a p))
           | ResolvedNotFound \<Rightarrow> (FilePending, p\<lparr>fp_status := Some (''no such path: '' @ raw)\<rparr>))
      | Fuzzy _ \<Rightarrow>
          (case selected_entry (fp_core p) of
             Some e \<Rightarrow> if de_is_dir e then (FilePending, snd (file_picker_load src rk (de_path e) p))
                       else (FilePick (de_path e), p)
           | None \<Rightarrow> (FilePending, p)))"

definition file_picker_on_key ::
  "dir_source \<Rightarrow> ranking \<Rightarrow> key_event \<Rightarrow> file_picker \<Rightarrow> file_picker_outcome \<times> file_picker" where
  "file_picker_on_key src rk key p0 =
     (if ke_kind key \<noteq> Press then (FilePending, p0)
      else if ke_code key = KeyEsc then (FileCancel, p0)
      else if ke_ctrl key \<and> ke_code key = KeyChar (CHR ''c'') then (FileCancel, p0)
      else
        (let p = ensure_started src rk p0
         in case apply_nav_key rk key (fp_core p) of
              (Some NavStepUp, c) \<Rightarrow> (FilePending, file_picker_step_up src rk (p\<lparr>fp_core := c\<rparr>))
            | (Some _, c) \<Rightarrow> (FilePending, p\<lparr>fp_core := c\<rparr>)
            | (None, c) \<Rightarrow>
                (let p1 = p\<lparr>fp_core := c\<rparr>
                 in case ke_code key of
                      KeyEnter \<Rightarrow> activate_selected src rk p1
                    | KeyRight \<Rightarrow> step_into_selected src rk p1
                    | _ \<Rightarrow> (FilePending, p1))))"

end
