(* ===== verification/Wizard_Base.thy ===== *)
theory Wizard_Base
  imports Wizard_Pickers Host
begin

text \<open>What the host form and the credential form share (\<^verbatim>\<open>tui/wizard/mod.rs\<close>): the choices and the
fields with their order, the two forms as records, the validation before a save, the text edits at a
cursor, and the intents of the shell (\<^verbatim>\<open>tui/intent.rs\<close>).  Strings are lists of characters, so the
byte offset of a character is its index.\<close>

section \<open>Choices\<close>

datatype auth_pick = PickReference nat | PickIndependent

datatype auth_kind = KindIndependent | KindReference

definition AUTH_ORDER :: "auth_kind list" where
  "AUTH_ORDER = [KindIndependent, KindReference]"

definition auth_kind_of :: "auth_pick \<Rightarrow> auth_kind" where
  "auth_kind_of a = (case a of PickReference _ \<Rightarrow> KindReference | PickIndependent \<Rightarrow> KindIndependent)"

text \<open>A chooser steps through its order and wraps around.\<close>

definition chooser_idx :: "'a list \<Rightarrow> 'a \<Rightarrow> nat" where
  "chooser_idx order x = (case position (\<lambda>y. y = x) order of Some i \<Rightarrow> i | None \<Rightarrow> 0)"

definition chooser_next :: "'a list \<Rightarrow> 'a \<Rightarrow> 'a" where
  "chooser_next order x = order ! ((chooser_idx order x + 1) mod length order)"

definition chooser_prev :: "'a list \<Rightarrow> 'a \<Rightarrow> 'a" where
  "chooser_prev order x = order ! ((chooser_idx order x + length order - 1) mod length order)"

datatype secret_choice = ChoosePassword | ChooseKey | ChooseNone

definition SECRET_ORDER :: "secret_choice list" where
  "SECRET_ORDER = [ChooseNone, ChoosePassword, ChooseKey]"

definition secret_next :: "secret_choice \<Rightarrow> secret_choice" where
  "secret_next = chooser_next SECRET_ORDER"

definition secret_prev :: "secret_choice \<Rightarrow> secret_choice" where
  "secret_prev = chooser_prev SECRET_ORDER"

datatype source_choice = SrcPath | SrcInline

definition SOURCE_ORDER :: "source_choice list" where
  "SOURCE_ORDER = [SrcPath, SrcInline]"

definition source_next :: "source_choice \<Rightarrow> source_choice" where
  "source_next = chooser_next SOURCE_ORDER"

definition source_prev :: "source_choice \<Rightarrow> source_choice" where
  "source_prev = chooser_prev SOURCE_ORDER"

section \<open>Fields\<close>

datatype host_field =
    HfName | HfHost | HfPort | HfUser | HfAuth | HfCredential | HfSecret | HfSource
  | HfInlinePrivate | HfInlineCert | HfIdentity | HfPassword | HfSshArgs

definition HOST_FIELD_ORDER :: "host_field list" where
  "HOST_FIELD_ORDER =
     [HfName, HfHost, HfPort, HfAuth, HfCredential, HfUser, HfSecret, HfSource, HfIdentity,
      HfInlinePrivate, HfInlineCert, HfPassword, HfSshArgs]"

fun host_field_label :: "host_field \<Rightarrow> string" where
  "host_field_label HfName = ''Name''"
| "host_field_label HfHost = ''Host''"
| "host_field_label HfPort = ''Port''"
| "host_field_label HfSshArgs = ''SSH args''"
| "host_field_label HfUser = ''User''"
| "host_field_label HfAuth = ''Auth''"
| "host_field_label HfCredential = ''Credential''"
| "host_field_label HfSecret = ''Secret''"
| "host_field_label HfSource = ''Source''"
| "host_field_label HfInlinePrivate = ''Privkey''"
| "host_field_label HfInlineCert = ''Cert''"
| "host_field_label HfIdentity = ''Identity''"
| "host_field_label HfPassword = ''Password''"

datatype cred_field =
    CfName | CfUser | CfIdentity | CfSecretKind | CfSource | CfInlinePrivate | CfInlineCert | CfPassword

definition CRED_FIELD_ORDER :: "cred_field list" where
  "CRED_FIELD_ORDER =
     [CfName, CfUser, CfSecretKind, CfSource, CfIdentity, CfInlinePrivate, CfInlineCert, CfPassword]"

fun cred_field_label :: "cred_field \<Rightarrow> string" where
  "cred_field_label CfName = ''Name''"
| "cred_field_label CfUser = ''User''"
| "cred_field_label CfIdentity = ''Identity''"
| "cred_field_label CfSecretKind = ''Secret''"
| "cred_field_label CfSource = ''Source''"
| "cred_field_label CfInlinePrivate = ''Privkey''"
| "cred_field_label CfInlineCert = ''Cert''"
| "cred_field_label CfPassword = ''Password''"

datatype host_save_error = HsMissingName | HsInvalidName | HsMissingHost | HsInvalidSshArgs

definition host_error_field :: "host_save_error \<Rightarrow> host_field" where
  "host_error_field e =
     (case e of HsMissingName \<Rightarrow> HfName | HsInvalidName \<Rightarrow> HfName | HsMissingHost \<Rightarrow> HfHost
              | HsInvalidSshArgs \<Rightarrow> HfSshArgs)"

definition host_error_message :: "host_save_error \<Rightarrow> string" where
  "host_error_message e =
     (case e of
        HsMissingName \<Rightarrow> ''name is required''
      | HsInvalidName \<Rightarrow> ''name contains a forbidden character (:, @, or whitespace)''
      | HsMissingHost \<Rightarrow> ''host is required''
      | HsInvalidSshArgs \<Rightarrow> ''ssh args are invalid (control character, unterminated quote, or empty argument)'')"

datatype cred_save_error = CsMissingName | CsInvalidName | CsMissingUser

definition cred_error_field :: "cred_save_error \<Rightarrow> cred_field" where
  "cred_error_field e = (case e of CsMissingName \<Rightarrow> CfName | CsInvalidName \<Rightarrow> CfName | CsMissingUser \<Rightarrow> CfUser)"

definition cred_error_message :: "cred_save_error \<Rightarrow> string" where
  "cred_error_message e =
     (case e of
        CsMissingName \<Rightarrow> ''name is required''
      | CsInvalidName \<Rightarrow> ''name contains a forbidden character (:, @, or whitespace)''
      | CsMissingUser \<Rightarrow> ''user is required'')"

datatype field_kind = FieldText | FieldPassword | FieldSwitch | FieldTrigger | FieldMultiline

section \<open>The forms\<close>

record 't host_form =
  hf_name :: string
  hf_host_addr :: string
  hf_port :: string
  hf_ssh_args :: string
  hf_user :: string
  hf_auth :: auth_pick
  hf_secret :: secret_choice
  hf_source :: source_choice
  hf_identity :: string
  hf_inline_private :: string
  hf_inline_cert :: string
  hf_password :: string
  hf_focus :: host_field
  hf_cursor :: nat
  hf_error :: "host_save_error option"
  hf_core_error :: "string option"
  hf_editing :: bool
  hf_orig_id :: "ulid option"
  hf_credential_names :: "string list"
  hf_cred_picker :: "cred_picker option"
  hf_orig_key :: "key_source option"
  hf_key_paste :: "'t key_paste option"
  hf_file_picker :: "file_picker option"

record 't cred_form =
  crf_name :: string
  crf_user :: string
  crf_identity :: string
  crf_secret :: secret_choice
  crf_source :: source_choice
  crf_inline_private :: string
  crf_inline_cert :: string
  crf_password :: string
  crf_focus :: cred_field
  crf_cursor :: nat
  crf_error :: "cred_save_error option"
  crf_core_error :: "string option"
  crf_editing :: bool
  crf_orig_id :: "ulid option"
  crf_orig_key :: "key_source option"
  crf_key_paste :: "'t key_paste option"
  crf_file_picker :: "file_picker option"

section \<open>Validation\<close>

definition validate_host_form :: "splitter \<Rightarrow> 't host_form \<Rightarrow> host_save_error + unit" where
  "validate_host_form sh form =
     (if trim (hf_name form) = [] then Inl HsMissingName
      else if \<not> is_ok (validate_name_chars (trim (hf_name form))) then Inl HsInvalidName
      else if trim (hf_host_addr form) = [] then Inl HsMissingHost
      else if \<not> is_ok (validate_ssh_args sh (hf_ssh_args form)) then Inl HsInvalidSshArgs
      else Inr ())"

definition validate_cred_form :: "'t cred_form \<Rightarrow> cred_save_error + unit" where
  "validate_cred_form form =
     (if trim (crf_name form) = [] then Inl CsMissingName
      else if \<not> is_ok (validate_name_chars (trim (crf_name form))) then Inl CsInvalidName
      else if trim (crf_user form) = [] then Inl CsMissingUser
      else Inr ())"

section \<open>Edits at the cursor\<close>

definition char_byte_offset :: "string \<Rightarrow> nat \<Rightarrow> nat" where
  "char_byte_offset s idx = (if idx < length s then idx else length s)"

definition insert_char_at :: "string \<Rightarrow> nat \<Rightarrow> char \<Rightarrow> string \<times> nat" where
  "insert_char_at s cursor c =
     (let b = char_byte_offset s cursor in (take b s @ c # drop b s, min cursor (length s) + 1))"

definition backspace_at :: "string \<Rightarrow> nat \<Rightarrow> string \<times> nat" where
  "backspace_at s cursor =
     (if cursor = 0 then (s, 0)
      else
        (let e = char_byte_offset s cursor; b = (if e = 0 then 0 else e - 1)
         in (take b s @ drop e s, cursor - 1)))"

definition orig_inline_slot :: "inline_key \<Rightarrow> bool \<Rightarrow> secret option" where
  "orig_inline_slot ik cert = (if cert then ik_certificate ik else ik_private_key ik)"

definition orig_inline_lines :: "key_source option \<Rightarrow> bool \<Rightarrow> nat option" where
  "orig_inline_lines orig cert =
     (case orig of
        Some (KeyInline ik) \<Rightarrow> map_option (\<lambda>t. length (lines t)) (Option.bind (orig_inline_slot ik cert) as_plain)
      | _ \<Rightarrow> None)"

definition orig_inline_exists :: "key_source option \<Rightarrow> bool \<Rightarrow> bool" where
  "orig_inline_exists orig cert =
     (case orig of Some (KeyInline ik) \<Rightarrow> orig_inline_slot ik cert \<noteq> None | _ \<Rightarrow> False)"

definition value_col_offset :: "nat \<Rightarrow> nat" where
  "value_col_offset label_width = 2 + label_width + 2"

definition bracketed :: "string \<Rightarrow> string" where
  "bracketed label = ''< '' @ label @ '' >''"

section \<open>Intents\<close>

datatype 't shell_overlay = HostWizard "'t host_form" | CredWizard "'t cred_form" | StorePicker

datatype 't intent =
    IntentQuit
  | IntentContinue
  | IntentConnect
  | IntentSaveHost
  | IntentSaveCred
  | IntentCancel
  | IntentToKeyring
  | IntentToVault
  | IntentToPlaintext
  | IntentDeleteHost
  | IntentDeleteCred
  | IntentSwitchTab tab
  | IntentOpenOverlay "'t shell_overlay"
  | IntentCloseOverlay
  | IntentOpenTransfer
  | IntentCloseTransfer

text \<open>What the forms call: the matcher, the local file system as the file picker lists it, the editor of
the paste popup and the shell splitter.\<close>

record 't form_env =
  fe_matcher :: matcher
  fe_source :: dir_source
  fe_textarea :: "'t textarea"
  fe_splitter :: splitter

section \<open>Facts\<close>

lemma secret_cycle [simp]: "secret_prev (secret_next s) = s" "secret_next (secret_prev s) = s"
  by (cases s; simp add: secret_next_def secret_prev_def chooser_next_def chooser_prev_def chooser_idx_def
      SECRET_ORDER_def)+

lemma source_cycle [simp]: "source_prev (source_next s) = s" "source_next (source_prev s) = s"
  by (cases s; simp add: source_next_def source_prev_def chooser_next_def chooser_prev_def chooser_idx_def
      SOURCE_ORDER_def)+

lemma insert_char_at_spec:
  "insert_char_at s i c = (take (min i (length s)) s @ c # drop (min i (length s)) s, min i (length s) + 1)"
  by (simp add: insert_char_at_def char_byte_offset_def Let_def min_def)

lemma backspace_at_spec:
  "0 < i \<Longrightarrow> backspace_at s i = (take (min i (length s) - 1) s @ drop (min i (length s)) s, i - 1)"
  by (simp add: backspace_at_def char_byte_offset_def Let_def min_def not_less)

text \<open>A typed character is taken back by a backspace; the cursor stays inside the text.\<close>

lemma insert_backspace:
  assumes "i \<le> length s"
  shows "(case insert_char_at s i c of (t, j) \<Rightarrow> backspace_at t j) = (s, i)"
  using assms by (simp add: insert_char_at_spec backspace_at_spec min_def)

lemma insert_cursor: "insert_char_at s i c = (t, j) \<Longrightarrow> j \<le> length t \<and> length t = length s + 1"
  by (auto simp: insert_char_at_spec)

lemma backspace_cursor: "backspace_at s i = (t, j) \<Longrightarrow> i \<le> length s \<Longrightarrow> j \<le> length t"
  by (cases "i = 0") (auto simp: backspace_at_spec, simp add: backspace_at_def)

end
