(* ===== verification/Host_Form.thy ===== *)
theory Host_Form
  imports Wizard_Base
begin

text \<open>The form that adds and edits a host (\<^verbatim>\<open>tui/wizard/host.rs\<close>), without its drawing.\<close>

section \<open>Reachable fields and focus\<close>

definition host_field_reachable :: "host_field \<Rightarrow> auth_pick \<Rightarrow> secret_choice \<Rightarrow> source_choice \<Rightarrow> bool" where
  "host_field_reachable f a sec src =
     (case a of
        PickReference _ \<Rightarrow> f \<in> {HfName, HfHost, HfPort, HfSshArgs, HfAuth, HfCredential}
      | PickIndependent \<Rightarrow>
          (case sec of
             ChooseNone \<Rightarrow> f \<notin> {HfCredential, HfSource, HfIdentity, HfInlinePrivate, HfInlineCert, HfPassword}
           | ChoosePassword \<Rightarrow> f \<notin> {HfCredential, HfSource, HfIdentity, HfInlinePrivate, HfInlineCert}
           | ChooseKey \<Rightarrow>
               (case src of
                  SrcPath \<Rightarrow> f \<notin> {HfCredential, HfPassword, HfInlinePrivate, HfInlineCert}
                | SrcInline \<Rightarrow> f \<notin> {HfCredential, HfPassword, HfIdentity})))"

definition host_reachable_here :: "'t host_form \<Rightarrow> host_field \<Rightarrow> bool" where
  "host_reachable_here form f = host_field_reachable f (hf_auth form) (hf_secret form) (hf_source form)"

definition host_reachable_fields :: "'t host_form \<Rightarrow> host_field list" where
  "host_reachable_fields form = filter (host_reachable_here form) HOST_FIELD_ORDER"

definition host_focus_idx :: "'t host_form \<Rightarrow> nat" where
  "host_focus_idx form =
     (case position (\<lambda>f. f = hf_focus form) (host_reachable_fields form) of Some i \<Rightarrow> i | None \<Rightarrow> 0)"

definition host_focused_text_len :: "'t host_form \<Rightarrow> nat" where
  "host_focused_text_len form =
     (case hf_focus form of
        HfName \<Rightarrow> length (hf_name form)
      | HfHost \<Rightarrow> length (hf_host_addr form)
      | HfPort \<Rightarrow> length (hf_port form)
      | HfSshArgs \<Rightarrow> length (hf_ssh_args form)
      | HfUser \<Rightarrow> length (hf_user form)
      | HfPassword \<Rightarrow> length (hf_password form)
      | _ \<Rightarrow> 0)"

definition host_move_focus :: "int \<Rightarrow> 't host_form \<Rightarrow> 't host_form" where
  "host_move_focus delta form =
     (let r = host_reachable_fields form
      in if r = [] then form
         else
           (let f1 = form\<lparr>hf_focus := r ! wrap_cursor (host_focus_idx form) delta (length r), hf_error := None\<rparr>
            in f1\<lparr>hf_cursor := host_focused_text_len f1\<rparr>))"

definition host_is_last_reachable :: "host_field \<Rightarrow> 't host_form \<Rightarrow> bool" where
  "host_is_last_reachable f form \<longleftrightarrow>
     host_reachable_fields form \<noteq> [] \<and> last (host_reachable_fields form) = f"

section \<open>Opening the form\<close>

definition host_form_new_add :: "string list \<Rightarrow> 't host_form" where
  "host_form_new_add names =
     (let form =
        \<lparr>hf_name = [], hf_host_addr = [], hf_port = [], hf_ssh_args = [], hf_user = [],
         hf_auth = PickIndependent, hf_secret = ChooseNone, hf_source = SrcPath, hf_identity = [],
         hf_inline_private = [], hf_inline_cert = [], hf_password = [], hf_focus = HfName, hf_cursor = 0,
         hf_error = None, hf_core_error = None, hf_editing = False, hf_orig_id = None,
         hf_credential_names = names, hf_cred_picker = None, hf_orig_key = None, hf_key_paste = None,
         hf_file_picker = None\<rparr>
      in form\<lparr>hf_cursor := host_focused_text_len form\<rparr>)"

text \<open>The secret row, the source and the path that an existing body prefills, in both forms.\<close>

definition prefill_secret :: "credential_body \<Rightarrow> secret_choice \<times> source_choice \<times> string" where
  "prefill_secret body =
     (case secret_kind_of body of
        KindKey \<Rightarrow>
          (case b_key body of
             Some (KeyPath p) \<Rightarrow> (ChooseKey, SrcPath, p)
           | Some (KeyInline _) \<Rightarrow> (ChooseKey, SrcInline, [])
           | None \<Rightarrow> (ChooseKey, SrcPath, []))
      | KindPassword \<Rightarrow> (ChoosePassword, SrcPath, [])
      | KindKeyringPassword \<Rightarrow> (ChoosePassword, SrcPath, [])
      | KindDefault \<Rightarrow> (ChooseNone, SrcPath, []))"

definition host_form_new_edit :: "host \<Rightarrow> string list \<Rightarrow> string option \<Rightarrow> 't host_form" where
  "host_form_new_edit h names referenced =
     (let (a, user, sec, src, ident, orig_key) =
        (case h_auth h of
           AuthRef _ \<Rightarrow>
             (PickReference (case Option.bind referenced (\<lambda>n. position (\<lambda>x. x = n) names) of
                Some i \<Rightarrow> i | None \<Rightarrow> 0), [], ChooseNone, SrcPath, [], None)
         | AuthInline body \<Rightarrow>
             (case prefill_secret body of (sec, src, ident) \<Rightarrow>
                (PickIndependent, b_user body, sec, src, ident, b_key body)));
          form =
        \<lparr>hf_name = h_name h, hf_host_addr = h_host h, hf_port = show_nat (unat (h_port h)),
         hf_ssh_args = (case h_ssh_args h of Some s \<Rightarrow> s | None \<Rightarrow> []), hf_user = user,
         hf_auth = a, hf_secret = sec, hf_source = src, hf_identity = ident,
         hf_inline_private = [], hf_inline_cert = [], hf_password = [], hf_focus = HfName, hf_cursor = 0,
         hf_error = None, hf_core_error = None, hf_editing = True, hf_orig_id = Some (h_id h),
         hf_credential_names = names, hf_cred_picker = None, hf_orig_key = orig_key, hf_key_paste = None,
         hf_file_picker = None\<rparr>
      in form\<lparr>hf_cursor := host_focused_text_len form\<rparr>)"

section \<open>Choosers\<close>

definition host_cycle_auth :: "int \<Rightarrow> 't host_form \<Rightarrow> 't host_form" where
  "host_cycle_auth delta form =
     (let cur = chooser_idx AUTH_ORDER (auth_kind_of (hf_auth form));
          kind = AUTH_ORDER ! wrap_cursor cur delta (length AUTH_ORDER)
      in form\<lparr>hf_auth :=
           (case kind of
              KindIndependent \<Rightarrow> PickIndependent
            | KindReference \<Rightarrow>
                (let prev = (case hf_auth form of PickReference i \<Rightarrow> i | PickIndependent \<Rightarrow> 0)
                 in PickReference (if hf_credential_names form = [] then 0
                                   else min prev (length (hf_credential_names form) - 1))))\<rparr>)"

definition host_cycle_credential :: "int \<Rightarrow> 't host_form \<Rightarrow> 't host_form" where
  "host_cycle_credential delta form =
     (case hf_auth form of
        PickIndependent \<Rightarrow> form
      | PickReference i \<Rightarrow>
          if hf_credential_names form = [] then form
          else form\<lparr>hf_auth := PickReference (wrap_cursor i delta (length (hf_credential_names form)))\<rparr>)"

definition selected_credential_name :: "'t host_form \<Rightarrow> string option" where
  "selected_credential_name form =
     (case hf_auth form of PickReference i \<Rightarrow> get_at (hf_credential_names form) i | PickIndependent \<Rightarrow> None)"

section \<open>What the form stands for\<close>

definition parsed_port :: "'t host_form \<Rightarrow> 16 word" where
  "parsed_port form = (case parse_unsigned 16 (trim (hf_port form)) of Some p \<Rightarrow> of_nat p | None \<Rightarrow> 22)"

definition form_ssh_args :: "'t host_form \<Rightarrow> string option" where
  "form_ssh_args form = normalize_ssh_args (Some (trim (hf_ssh_args form)))"

text \<open>The key part of the body, in both forms: the path or the pasted text, and otherwise the inline
original.\<close>

definition keep_inline_original :: "key_source option \<Rightarrow> credential_body \<Rightarrow> credential_body" where
  "keep_inline_original orig body =
     (case orig of Some (KeyInline ik) \<Rightarrow> body\<lparr>b_key := Some (KeyInline ik)\<rparr> | _ \<Rightarrow> body)"

definition key_body ::
  "string \<Rightarrow> source_choice \<Rightarrow> string \<Rightarrow> string \<Rightarrow> string \<Rightarrow> key_source option \<Rightarrow> credential_body" where
  "key_body user src ident priv cert orig =
     (case src of
        SrcPath \<Rightarrow>
          (if trim ident \<noteq> [] then with_key (trim ident) (body_new user)
           else keep_inline_original orig (body_new user))
      | SrcInline \<Rightarrow>
          (if trim priv \<noteq> []
           then with_inline_key (Plain priv) (if trim cert \<noteq> [] then Some (Plain cert) else None) (body_new user)
           else keep_inline_original orig (body_new user)))"

definition host_form_user :: "'t host_form \<Rightarrow> string" where
  "host_form_user form = (if trim (hf_user form) = [] then ''root'' else hf_user form)"

definition build_inline_body :: "'t host_form \<Rightarrow> credential_body" where
  "build_inline_body form =
     (case hf_secret form of
        ChooseNone \<Rightarrow> body_new (host_form_user form)
      | ChooseKey \<Rightarrow>
          key_body (host_form_user form) (hf_source form) (hf_identity form) (hf_inline_private form)
            (hf_inline_cert form) (hf_orig_key form)
      | ChoosePassword \<Rightarrow>
          (if hf_password form = [] then body_new (host_form_user form)
           else with_password (hf_password form) (body_new (host_form_user form))))"

definition host_form_auth :: "'t host_form \<Rightarrow> ulid option \<Rightarrow> auth" where
  "host_form_auth form resolved =
     (case hf_auth form of
        PickReference _ \<Rightarrow>
          (case resolved of Some u \<Rightarrow> AuthRef u | None \<Rightarrow> AuthInline (body_new (host_form_user form)))
      | PickIndependent \<Rightarrow> AuthInline (build_inline_body form))"

definition host_set_core_error :: "string \<Rightarrow> 't host_form \<Rightarrow> 't host_form" where
  "host_set_core_error msg form = form\<lparr>hf_core_error := Some msg\<rparr>"

section \<open>Editing\<close>

definition host_edit_text :: "(string \<Rightarrow> nat \<Rightarrow> string \<times> nat) \<Rightarrow> 't host_form \<Rightarrow> 't host_form" where
  "host_edit_text f form =
     (case hf_focus form of
        HfName \<Rightarrow> (case f (hf_name form) (hf_cursor form) of (s, i) \<Rightarrow> form\<lparr>hf_name := s, hf_cursor := i\<rparr>)
      | HfHost \<Rightarrow> (case f (hf_host_addr form) (hf_cursor form) of (s, i) \<Rightarrow> form\<lparr>hf_host_addr := s, hf_cursor := i\<rparr>)
      | HfPort \<Rightarrow> (case f (hf_port form) (hf_cursor form) of (s, i) \<Rightarrow> form\<lparr>hf_port := s, hf_cursor := i\<rparr>)
      | HfSshArgs \<Rightarrow> (case f (hf_ssh_args form) (hf_cursor form) of (s, i) \<Rightarrow> form\<lparr>hf_ssh_args := s, hf_cursor := i\<rparr>)
      | HfUser \<Rightarrow> (case f (hf_user form) (hf_cursor form) of (s, i) \<Rightarrow> form\<lparr>hf_user := s, hf_cursor := i\<rparr>)
      | HfPassword \<Rightarrow>
          if hf_secret form = ChoosePassword
          then (case f (hf_password form) (hf_cursor form) of (s, i) \<Rightarrow> form\<lparr>hf_password := s, hf_cursor := i\<rparr>)
          else form
      | _ \<Rightarrow> form)"

definition host_clear_field_error :: "'t host_form \<Rightarrow> 't host_form" where
  "host_clear_field_error form =
     (if map_option host_error_field (hf_error form) = Some (hf_focus form) then form\<lparr>hf_error := None\<rparr> else form)"

definition host_edit_insert :: "char \<Rightarrow> 't host_form \<Rightarrow> 't host_form" where
  "host_edit_insert c form =
     host_clear_field_error
       (if hf_focus form = HfPort \<and> \<not> char_is_ascii_digit c then form
        else host_edit_text (\<lambda>s i. insert_char_at s i c) form)"

definition host_edit_backspace :: "'t host_form \<Rightarrow> 't host_form" where
  "host_edit_backspace form = host_clear_field_error (host_edit_text backspace_at form)"

definition host_attempt_save :: "splitter \<Rightarrow> 't host_form \<Rightarrow> 't intent \<times> 't host_form" where
  "host_attempt_save sh form =
     (case validate_host_form sh form of
        Inr _ \<Rightarrow> (IntentSaveHost, form)
      | Inl e \<Rightarrow> (IntentContinue, form\<lparr>hf_error := Some e, hf_focus := host_error_field e\<rparr>))"

section \<open>Keys\<close>

text \<open>The open popup, if any, takes the key.\<close>

definition host_modal_key :: "'t form_env \<Rightarrow> key_event \<Rightarrow> 't host_form \<Rightarrow> 't host_form option" where
  "host_modal_key env key form =
     (case hf_cred_picker form of
        Some p \<Rightarrow>
          Some ((case cred_picker_on_key (fe_matcher env) key p of
             (PickerSelected i, _) \<Rightarrow> form\<lparr>hf_cred_picker := None, hf_auth := PickReference i\<rparr>
           | (PickerCancel, _) \<Rightarrow> form\<lparr>hf_cred_picker := None\<rparr>
           | (PickerPending, p') \<Rightarrow> form\<lparr>hf_cred_picker := Some p'\<rparr>)\<lparr>hf_error := None\<rparr>)
      | None \<Rightarrow>
          (case hf_key_paste form of
             Some p \<Rightarrow>
               Some ((case paste_on_key (fe_textarea env) key p of
                  (PasteDone t, _) \<Rightarrow>
                    (let f1 = form\<lparr>hf_key_paste := None\<rparr>
                     in if trim t = [] then f1
                        else case kp_kind p of PastePrivate \<Rightarrow> f1\<lparr>hf_inline_private := t\<rparr>
                                             | PasteCert \<Rightarrow> f1\<lparr>hf_inline_cert := t\<rparr>)
                | (PasteCancel, _) \<Rightarrow> form\<lparr>hf_key_paste := None\<rparr>
                | (PastePending, p') \<Rightarrow> form\<lparr>hf_key_paste := Some p'\<rparr>)\<lparr>hf_error := None\<rparr>)
           | None \<Rightarrow>
               (case hf_file_picker form of
                  Some p \<Rightarrow>
                    Some ((case file_picker_on_key (fe_source env) (browser_rank (fe_matcher env)) key p of
                       (FilePick path, _) \<Rightarrow> form\<lparr>hf_file_picker := None, hf_identity := path, hf_cursor := 0\<rparr>
                     | (FileCancel, _) \<Rightarrow> form\<lparr>hf_file_picker := None\<rparr>
                     | (FilePending, p') \<Rightarrow> form\<lparr>hf_file_picker := Some p'\<rparr>)\<lparr>hf_error := None\<rparr>)
                | None \<Rightarrow> None)))"

definition pick_private_key :: "'t form_env \<Rightarrow> string \<Rightarrow> file_picker" where
  "pick_private_key env ident =
     ensure_started (fe_source env) (browser_rank (fe_matcher env))
       (file_picker_new '' pick a private key '' (Some ident))"

definition host_enter :: "'t form_env \<Rightarrow> 't host_form \<Rightarrow> 't intent \<times> 't host_form" where
  "host_enter env form =
     (if hf_focus form = HfCredential
      then (IntentContinue,
            (if hf_credential_names form \<noteq> []
             then form\<lparr>hf_cred_picker := Some (cred_picker_new (fe_matcher env) (hf_credential_names form)
                         (case hf_auth form of PickReference i \<Rightarrow> Some i | PickIndependent \<Rightarrow> None))\<rparr>
             else form)\<lparr>hf_error := None\<rparr>)
      else if hf_focus form = HfInlinePrivate \<and> host_reachable_here form HfInlinePrivate
      then (IntentContinue,
            form\<lparr>hf_key_paste := Some (paste_new (fe_textarea env) PastePrivate (saved_line_count (hf_inline_private form))),
                 hf_error := None\<rparr>)
      else if hf_focus form = HfInlineCert \<and> host_reachable_here form HfInlineCert
      then (IntentContinue,
            form\<lparr>hf_key_paste := Some (paste_new (fe_textarea env) PasteCert (saved_line_count (hf_inline_cert form))),
                 hf_error := None\<rparr>)
      else if hf_focus form = HfIdentity \<and> host_reachable_here form HfIdentity
      then (IntentContinue,
            form\<lparr>hf_file_picker := Some (pick_private_key env (hf_identity form)), hf_error := None\<rparr>)
      else if host_is_last_reachable (hf_focus form) form then host_attempt_save (fe_splitter env) form
      else (IntentContinue, host_move_focus 1 form))"

text \<open>The left and right arrows on the chooser rows.\<close>

definition host_choose :: "bool \<Rightarrow> 't host_form \<Rightarrow> 't host_form option" where
  "host_choose forward form =
     map_option (\<lambda>f. f\<lparr>hf_error := None\<rparr>)
       (case hf_focus form of
          HfAuth \<Rightarrow> Some (host_cycle_auth (if forward then 1 else - 1) form)
        | HfCredential \<Rightarrow> Some (host_cycle_credential (if forward then 1 else - 1) form)
        | HfSecret \<Rightarrow>
            Some (form\<lparr>hf_secret := (if forward then secret_next else secret_prev) (hf_secret form)\<rparr>)
        | HfSource \<Rightarrow>
            if hf_auth form = PickIndependent \<and> hf_secret form = ChooseKey
            then Some (form\<lparr>hf_source := (if forward then source_next else source_prev) (hf_source form)\<rparr>)
            else None
        | _ \<Rightarrow> None)"

definition host_arrow :: "bool \<Rightarrow> bool \<Rightarrow> 't host_form \<Rightarrow> 't host_form" where
  "host_arrow forward ctrl form =
     (case host_choose forward form of
        Some f \<Rightarrow> f
      | None \<Rightarrow>
          if ctrl then form
          else if forward then form\<lparr>hf_cursor := min (hf_cursor form + 1) (host_focused_text_len form)\<rparr>
          else form\<lparr>hf_cursor := hf_cursor form - 1\<rparr>)"

definition host_plain_key :: "'t form_env \<Rightarrow> key_event \<Rightarrow> 't host_form \<Rightarrow> 't intent \<times> 't host_form" where
  "host_plain_key env key form =
     (let ctrl = ke_ctrl key
      in if is_ctrl (CHR ''c'') key then (IntentCancel, form)
         else case ke_code key of
           KeyEsc \<Rightarrow> (IntentCancel, form)
         | KeyChar c \<Rightarrow>
             if ctrl
             then (if c = CHR ''s'' then host_attempt_save (fe_splitter env) form
                   else if c = CHR ''a'' then (IntentContinue, form\<lparr>hf_cursor := 0\<rparr>)
                   else if c = CHR ''e'' then (IntentContinue, form\<lparr>hf_cursor := host_focused_text_len form\<rparr>)
                   else (IntentContinue, form))
             else (IntentContinue, host_edit_insert c form)
         | KeyTab \<Rightarrow> (IntentContinue, if ctrl then form else host_move_focus 1 form)
         | KeyDown \<Rightarrow> (IntentContinue, if ctrl then form else host_move_focus 1 form)
         | KeyBackTab \<Rightarrow> (IntentContinue, if ctrl then form else host_move_focus (- 1) form)
         | KeyUp \<Rightarrow> (IntentContinue, if ctrl then form else host_move_focus (- 1) form)
         | KeyEnter \<Rightarrow> host_enter env form
         | KeyLeft \<Rightarrow> (IntentContinue, host_arrow False ctrl form)
         | KeyRight \<Rightarrow> (IntentContinue, host_arrow True ctrl form)
         | KeyHome \<Rightarrow> (IntentContinue, form\<lparr>hf_cursor := 0\<rparr>)
         | KeyEnd \<Rightarrow> (IntentContinue, form\<lparr>hf_cursor := host_focused_text_len form\<rparr>)
         | KeyBackspace \<Rightarrow> (IntentContinue, host_edit_backspace form)
         | _ \<Rightarrow> (IntentContinue, form))"

definition host_form_on_key :: "'t form_env \<Rightarrow> key_event \<Rightarrow> 't host_form \<Rightarrow> 't intent \<times> 't host_form" where
  "host_form_on_key env key form0 =
     (if ke_kind key \<noteq> Press then (IntentContinue, form0)
      else
        (let form = form0\<lparr>hf_core_error := None\<rparr>
         in case host_modal_key env key form of
              Some f \<Rightarrow> (IntentContinue, f)
            | None \<Rightarrow> host_plain_key env key form))"

section \<open>The view of the form\<close>

definition host_cursor_target :: "'t host_form \<Rightarrow> (nat \<times> nat) option" where
  "host_cursor_target form =
     (if hf_focus form \<in> {HfName, HfHost, HfPort, HfSshArgs, HfUser, HfPassword}
      then Some (host_focus_idx form, min (hf_cursor form) (host_focused_text_len form))
      else None)"

definition host_form_title :: "'t host_form \<Rightarrow> string" where
  "host_form_title form = (if hf_editing form then '' edit host '' else '' add host '')"

definition host_body_rows :: nat where
  "host_body_rows =
     fold max
       [length (filter (\<lambda>f. host_field_reachable f a sec src) HOST_FIELD_ORDER).
          a \<leftarrow> [PickIndependent, PickReference 0], sec \<leftarrow> [ChooseNone, ChoosePassword, ChooseKey],
          src \<leftarrow> [SrcPath, SrcInline]] 0 + 2"

definition host_field_kind :: "'t host_form \<Rightarrow> host_field \<Rightarrow> field_kind" where
  "host_field_kind form f =
     (case f of
        HfPassword \<Rightarrow> FieldPassword
      | HfAuth \<Rightarrow> FieldSwitch
      | HfSecret \<Rightarrow> FieldSwitch
      | HfSource \<Rightarrow> FieldSwitch
      | HfIdentity \<Rightarrow> FieldTrigger
      | HfInlinePrivate \<Rightarrow> FieldMultiline
      | HfInlineCert \<Rightarrow> FieldMultiline
      | HfCredential \<Rightarrow> if hf_credential_names form = [] then FieldText else FieldTrigger
      | _ \<Rightarrow> FieldText)"

end
