(* ===== verification/Cred_Form.thy ===== *)
theory Cred_Form
  imports Host_Form
begin

text \<open>The form that adds and edits a credential (\<^verbatim>\<open>tui/wizard/cred.rs\<close>), without its drawing.\<close>

section \<open>Reachable fields and focus\<close>

definition cred_field_reachable :: "cred_field \<Rightarrow> secret_choice \<Rightarrow> source_choice \<Rightarrow> bool" where
  "cred_field_reachable f sec src =
     (case sec of
        ChooseNone \<Rightarrow> f \<notin> {CfIdentity, CfPassword, CfSource, CfInlinePrivate, CfInlineCert}
      | ChoosePassword \<Rightarrow> f \<notin> {CfIdentity, CfSource, CfInlinePrivate, CfInlineCert}
      | ChooseKey \<Rightarrow>
          (case src of
             SrcPath \<Rightarrow> f \<notin> {CfPassword, CfInlinePrivate, CfInlineCert}
           | SrcInline \<Rightarrow> f \<notin> {CfPassword, CfIdentity}))"

definition cred_reachable_here :: "'t cred_form \<Rightarrow> cred_field \<Rightarrow> bool" where
  "cred_reachable_here form f = cred_field_reachable f (crf_secret form) (crf_source form)"

definition cred_reachable_fields :: "'t cred_form \<Rightarrow> cred_field list" where
  "cred_reachable_fields form = filter (cred_reachable_here form) CRED_FIELD_ORDER"

definition cred_focus_idx :: "'t cred_form \<Rightarrow> nat" where
  "cred_focus_idx form =
     (case position (\<lambda>f. f = crf_focus form) (cred_reachable_fields form) of Some i \<Rightarrow> i | None \<Rightarrow> 0)"

definition cred_focused_text_len :: "'t cred_form \<Rightarrow> nat" where
  "cred_focused_text_len form =
     (case crf_focus form of
        CfName \<Rightarrow> length (crf_name form)
      | CfUser \<Rightarrow> length (crf_user form)
      | CfPassword \<Rightarrow> length (crf_password form)
      | _ \<Rightarrow> 0)"

definition cred_move_focus :: "int \<Rightarrow> 't cred_form \<Rightarrow> 't cred_form" where
  "cred_move_focus delta form =
     (let r = cred_reachable_fields form
      in if r = [] then form
         else
           (let f1 = form\<lparr>crf_focus := r ! wrap_cursor (cred_focus_idx form) delta (length r), crf_error := None\<rparr>
            in f1\<lparr>crf_cursor := cred_focused_text_len f1\<rparr>))"

definition cred_is_last_reachable :: "cred_field \<Rightarrow> 't cred_form \<Rightarrow> bool" where
  "cred_is_last_reachable f form \<longleftrightarrow>
     cred_reachable_fields form \<noteq> [] \<and> last (cred_reachable_fields form) = f"

section \<open>Opening the form\<close>

definition cred_form_new_add :: "'t cred_form" where
  "cred_form_new_add =
     (let form =
        \<lparr>crf_name = [], crf_user = [], crf_identity = [], crf_secret = ChooseNone, crf_source = SrcPath,
         crf_inline_private = [], crf_inline_cert = [], crf_password = [], crf_focus = CfName, crf_cursor = 0,
         crf_error = None, crf_core_error = None, crf_editing = False, crf_orig_id = None, crf_orig_key = None,
         crf_key_paste = None, crf_file_picker = None\<rparr>
      in form\<lparr>crf_cursor := cred_focused_text_len form\<rparr>)"

definition cred_form_new_edit :: "credential \<Rightarrow> 't cred_form" where
  "cred_form_new_edit c =
     (case prefill_secret (c_body c) of (sec, src, ident) \<Rightarrow>
       (let form =
          \<lparr>crf_name = c_name c, crf_user = b_user (c_body c), crf_identity = ident, crf_secret = sec, crf_source = src,
           crf_inline_private = [], crf_inline_cert = [], crf_password = [], crf_focus = CfName, crf_cursor = 0,
           crf_error = None, crf_core_error = None, crf_editing = True, crf_orig_id = Some (c_id c),
           crf_orig_key = b_key (c_body c), crf_key_paste = None, crf_file_picker = None\<rparr>
        in form\<lparr>crf_cursor := cred_focused_text_len form\<rparr>))"

definition cred_set_core_error :: "string \<Rightarrow> 't cred_form \<Rightarrow> 't cred_form" where
  "cred_set_core_error msg form = form\<lparr>crf_core_error := Some msg\<rparr>"

text \<open>The body the form stands for.\<close>

definition build_cred_body :: "'t cred_form \<Rightarrow> credential_body" where
  "build_cred_body form =
     (let user = trim (crf_user form)
      in case crf_secret form of
           ChoosePassword \<Rightarrow>
             (if crf_password form = [] then body_new user else with_password (crf_password form) (body_new user))
         | ChooseKey \<Rightarrow>
             key_body user (crf_source form) (crf_identity form) (crf_inline_private form) (crf_inline_cert form)
               (crf_orig_key form)
         | ChooseNone \<Rightarrow> body_new user)"

section \<open>Editing\<close>

definition cred_edit_text :: "(string \<Rightarrow> nat \<Rightarrow> string \<times> nat) \<Rightarrow> 't cred_form \<Rightarrow> 't cred_form" where
  "cred_edit_text f form =
     (case crf_focus form of
        CfName \<Rightarrow> (case f (crf_name form) (crf_cursor form) of (s, i) \<Rightarrow> form\<lparr>crf_name := s, crf_cursor := i\<rparr>)
      | CfUser \<Rightarrow> (case f (crf_user form) (crf_cursor form) of (s, i) \<Rightarrow> form\<lparr>crf_user := s, crf_cursor := i\<rparr>)
      | CfPassword \<Rightarrow>
          if crf_secret form = ChoosePassword
          then (case f (crf_password form) (crf_cursor form) of (s, i) \<Rightarrow> form\<lparr>crf_password := s, crf_cursor := i\<rparr>)
          else form
      | _ \<Rightarrow> form)"

definition cred_clear_field_error :: "'t cred_form \<Rightarrow> 't cred_form" where
  "cred_clear_field_error form =
     (if map_option cred_error_field (crf_error form) = Some (crf_focus form) then form\<lparr>crf_error := None\<rparr> else form)"

definition cred_edit_insert :: "char \<Rightarrow> 't cred_form \<Rightarrow> 't cred_form" where
  "cred_edit_insert c form = cred_clear_field_error (cred_edit_text (\<lambda>s i. insert_char_at s i c) form)"

definition cred_edit_backspace :: "'t cred_form \<Rightarrow> 't cred_form" where
  "cred_edit_backspace form = cred_clear_field_error (cred_edit_text backspace_at form)"

definition cred_attempt_save :: "'t cred_form \<Rightarrow> 't intent \<times> 't cred_form" where
  "cred_attempt_save form =
     (case validate_cred_form form of
        Inr _ \<Rightarrow> (IntentSaveCred, form)
      | Inl e \<Rightarrow> (IntentContinue, form\<lparr>crf_error := Some e, crf_focus := cred_error_field e\<rparr>))"

section \<open>Keys\<close>

definition cred_modal_key :: "'t form_env \<Rightarrow> key_event \<Rightarrow> 't cred_form \<Rightarrow> 't cred_form option" where
  "cred_modal_key env key form =
     (case crf_key_paste form of
        Some p \<Rightarrow>
          Some ((case paste_on_key (fe_textarea env) key p of
             (PasteDone t, _) \<Rightarrow>
               (let f1 = form\<lparr>crf_key_paste := None\<rparr>
                in if trim t = [] then f1
                   else case kp_kind p of PastePrivate \<Rightarrow> f1\<lparr>crf_inline_private := t\<rparr>
                                        | PasteCert \<Rightarrow> f1\<lparr>crf_inline_cert := t\<rparr>)
           | (PasteCancel, _) \<Rightarrow> form\<lparr>crf_key_paste := None\<rparr>
           | (PastePending, p') \<Rightarrow> form\<lparr>crf_key_paste := Some p'\<rparr>)\<lparr>crf_error := None\<rparr>)
      | None \<Rightarrow>
          (case crf_file_picker form of
             Some p \<Rightarrow>
               Some ((case file_picker_on_key (fe_source env) (browser_rank (fe_matcher env)) key p of
                  (FilePick path, _) \<Rightarrow> form\<lparr>crf_file_picker := None, crf_identity := path, crf_cursor := 0\<rparr>
                | (FileCancel, _) \<Rightarrow> form\<lparr>crf_file_picker := None\<rparr>
                | (FilePending, p') \<Rightarrow> form\<lparr>crf_file_picker := Some p'\<rparr>)\<lparr>crf_error := None\<rparr>)
           | None \<Rightarrow> None))"

definition cred_enter :: "'t form_env \<Rightarrow> 't cred_form \<Rightarrow> 't intent \<times> 't cred_form" where
  "cred_enter env form =
     (if crf_focus form = CfInlinePrivate \<and> cred_reachable_here form CfInlinePrivate
      then (IntentContinue,
            form\<lparr>crf_key_paste := Some (paste_new (fe_textarea env) PastePrivate (saved_line_count (crf_inline_private form))),
                 crf_error := None\<rparr>)
      else if crf_focus form = CfInlineCert \<and> cred_reachable_here form CfInlineCert
      then (IntentContinue,
            form\<lparr>crf_key_paste := Some (paste_new (fe_textarea env) PasteCert (saved_line_count (crf_inline_cert form))),
                 crf_error := None\<rparr>)
      else if crf_focus form = CfIdentity \<and> cred_reachable_here form CfIdentity
      then (IntentContinue,
            form\<lparr>crf_file_picker := Some (pick_private_key env (crf_identity form)), crf_error := None\<rparr>)
      else if cred_is_last_reachable (crf_focus form) form then cred_attempt_save form
      else (IntentContinue, cred_move_focus 1 form))"

definition cred_choose :: "bool \<Rightarrow> 't cred_form \<Rightarrow> 't cred_form option" where
  "cred_choose forward form =
     map_option (\<lambda>f. f\<lparr>crf_error := None\<rparr>)
       (case crf_focus form of
          CfSecretKind \<Rightarrow>
            Some (form\<lparr>crf_secret := (if forward then secret_next else secret_prev) (crf_secret form)\<rparr>)
        | CfSource \<Rightarrow>
            if crf_secret form = ChooseKey
            then Some (form\<lparr>crf_source := (if forward then source_next else source_prev) (crf_source form)\<rparr>)
            else None
        | _ \<Rightarrow> None)"

definition cred_arrow :: "bool \<Rightarrow> bool \<Rightarrow> 't cred_form \<Rightarrow> 't cred_form" where
  "cred_arrow forward ctrl form =
     (case cred_choose forward form of
        Some f \<Rightarrow> f
      | None \<Rightarrow>
          if ctrl then form
          else if forward then form\<lparr>crf_cursor := min (crf_cursor form + 1) (cred_focused_text_len form)\<rparr>
          else form\<lparr>crf_cursor := crf_cursor form - 1\<rparr>)"

text \<open>Unlike the host form, \<^verbatim>\<open>Tab\<close> and \<^verbatim>\<open>BackTab\<close> move the focus with control held, too.\<close>

definition cred_plain_key :: "'t form_env \<Rightarrow> key_event \<Rightarrow> 't cred_form \<Rightarrow> 't intent \<times> 't cred_form" where
  "cred_plain_key env key form =
     (let ctrl = ke_ctrl key
      in if is_ctrl (CHR ''c'') key then (IntentCancel, form)
         else case ke_code key of
           KeyEsc \<Rightarrow> (IntentCancel, form)
         | KeyChar c \<Rightarrow>
             if ctrl
             then (if c = CHR ''s'' then cred_attempt_save form
                   else if c = CHR ''a'' then (IntentContinue, form\<lparr>crf_cursor := 0\<rparr>)
                   else if c = CHR ''e'' then (IntentContinue, form\<lparr>crf_cursor := cred_focused_text_len form\<rparr>)
                   else (IntentContinue, form))
             else (IntentContinue, cred_edit_insert c form)
         | KeyTab \<Rightarrow> (IntentContinue, cred_move_focus 1 form)
         | KeyBackTab \<Rightarrow> (IntentContinue, cred_move_focus (- 1) form)
         | KeyDown \<Rightarrow> (IntentContinue, if ctrl then form else cred_move_focus 1 form)
         | KeyUp \<Rightarrow> (IntentContinue, if ctrl then form else cred_move_focus (- 1) form)
         | KeyEnter \<Rightarrow> cred_enter env form
         | KeyLeft \<Rightarrow> (IntentContinue, cred_arrow False ctrl form)
         | KeyRight \<Rightarrow> (IntentContinue, cred_arrow True ctrl form)
         | KeyHome \<Rightarrow> (IntentContinue, form\<lparr>crf_cursor := 0\<rparr>)
         | KeyEnd \<Rightarrow> (IntentContinue, form\<lparr>crf_cursor := cred_focused_text_len form\<rparr>)
         | KeyBackspace \<Rightarrow> (IntentContinue, cred_edit_backspace form)
         | _ \<Rightarrow> (IntentContinue, form))"

definition cred_form_on_key :: "'t form_env \<Rightarrow> key_event \<Rightarrow> 't cred_form \<Rightarrow> 't intent \<times> 't cred_form" where
  "cred_form_on_key env key form0 =
     (if ke_kind key \<noteq> Press then (IntentContinue, form0)
      else
        (let form = form0\<lparr>crf_core_error := None\<rparr>
         in case cred_modal_key env key form of
              Some f \<Rightarrow> (IntentContinue, f)
            | None \<Rightarrow> cred_plain_key env key form))"

section \<open>The view of the form\<close>

definition cred_cursor_target :: "'t cred_form \<Rightarrow> (nat \<times> nat) option" where
  "cred_cursor_target form =
     (if crf_focus form \<in> {CfName, CfUser, CfPassword}
      then Some (cred_focus_idx form, min (crf_cursor form) (cred_focused_text_len form))
      else None)"

definition cred_form_title :: "'t cred_form \<Rightarrow> string" where
  "cred_form_title form = (if crf_editing form then '' edit credential '' else '' add credential '')"

definition cred_body_rows :: nat where
  "cred_body_rows =
     fold max
       [length (filter (\<lambda>f. cred_field_reachable f sec src) CRED_FIELD_ORDER).
          sec \<leftarrow> [ChooseNone, ChoosePassword, ChooseKey], src \<leftarrow> [SrcPath, SrcInline]] 0 + 2"

definition cred_field_kind :: "cred_field \<Rightarrow> field_kind" where
  "cred_field_kind f =
     (case f of
        CfName \<Rightarrow> FieldText
      | CfUser \<Rightarrow> FieldText
      | CfPassword \<Rightarrow> FieldPassword
      | CfSecretKind \<Rightarrow> FieldSwitch
      | CfSource \<Rightarrow> FieldSwitch
      | CfIdentity \<Rightarrow> FieldTrigger
      | CfInlinePrivate \<Rightarrow> FieldMultiline
      | CfInlineCert \<Rightarrow> FieldMultiline)"

end
