(* ===== verification/Tui_Panels.thy ===== *)
theory Tui_Panels
  imports Wizard_Base Frecency
begin

text \<open>The panels of the shell, without their drawing: the host launcher (\<^verbatim>\<open>tui/launcher.rs\<close>), the
credential panel (\<^verbatim>\<open>tui/cred_panel.rs\<close>), the storage-mode view (\<^verbatim>\<open>tui/store.rs\<close>) and the settings
panel (\<^verbatim>\<open>tui/settings.rs\<close>).\<close>

section \<open>The launcher\<close>

record launcher_row =
  lr_host_idx :: nat
  lr_score :: nat

definition launcher_host_user :: "host \<Rightarrow> credential list \<Rightarrow> string" where
  "launcher_host_user h creds =
     (case h_auth h of
        AuthRef u \<Rightarrow>
          (case List.find (\<lambda>c. c_id c = u) creds of
             Some c \<Rightarrow> if b_user (c_body c) = [] then ''?'' else b_user (c_body c)
           | None \<Rightarrow> ''?'')
      | AuthInline body \<Rightarrow> if b_user body = [] then ''?'' else b_user body)"

definition host_search_fields :: "host \<Rightarrow> credential list \<Rightarrow> string list" where
  "host_search_fields h creds = [h_name h, launcher_host_user h creds, h_host h]"

definition rank_hosts :: "matcher \<Rightarrow> host list \<Rightarrow> credential list \<Rightarrow> frecency \<Rightarrow> string \<Rightarrow> launcher_row list" where
  "rank_hosts m hs creds frec query =
     (let rows = map (\<lambda>h. host_search_fields h creds) hs;
          order = rank_by_fields m rows (map (\<lambda>h. score frec (h_id h)) hs) query
      in if query = [] then map (\<lambda>i. \<lparr>lr_host_idx = i, lr_score = 0\<rparr>) order
         else map (\<lambda>i. \<lparr>lr_host_idx = i,
                        lr_score = (case best_field_score m (rows ! i) query of Some s \<Rightarrow> s | None \<Rightarrow> 0)\<rparr>) order)"

record launcher =
  la_query :: string
  la_selected :: nat
  la_ranked :: "launcher_row list"
  la_pending_connect :: "ulid option"

definition launcher_new :: "matcher \<Rightarrow> host list \<Rightarrow> credential list \<Rightarrow> frecency \<Rightarrow> launcher" where
  "launcher_new m hs creds frec =
     \<lparr>la_query = [], la_selected = 0, la_ranked = rank_hosts m hs creds frec [], la_pending_connect = None\<rparr>"

definition launcher_clamp :: "launcher \<Rightarrow> launcher" where
  "launcher_clamp l =
     (if la_ranked l = [] then l\<lparr>la_selected := 0\<rparr>
      else if length (la_ranked l) \<le> la_selected l then l\<lparr>la_selected := length (la_ranked l) - 1\<rparr>
      else l)"

definition launcher_recompute ::
  "matcher \<Rightarrow> host list \<Rightarrow> credential list \<Rightarrow> frecency \<Rightarrow> launcher \<Rightarrow> launcher" where
  "launcher_recompute m hs creds frec l =
     launcher_clamp (l\<lparr>la_ranked := rank_hosts m hs creds frec (la_query l)\<rparr>)"

definition launcher_move :: "int \<Rightarrow> launcher \<Rightarrow> launcher" where
  "launcher_move delta l =
     (if la_ranked l = [] then l
      else l\<lparr>la_selected := wrap_cursor (la_selected l) delta (length (la_ranked l))\<rparr>)"

definition selected_host :: "host list \<Rightarrow> launcher \<Rightarrow> host option" where
  "selected_host hs l = map_option (\<lambda>r. hs ! lr_host_idx r) (get_at (la_ranked l) (la_selected l))"

definition select_by_id :: "host list \<Rightarrow> ulid \<Rightarrow> launcher \<Rightarrow> bool \<times> launcher" where
  "select_by_id hs u l =
     (case position (\<lambda>r. h_id (hs ! lr_host_idx r) = u) (la_ranked l) of
        None \<Rightarrow> (False, l)
      | Some i \<Rightarrow> (True, l\<lparr>la_selected := i\<rparr>))"

definition launcher_on_key ::
  "matcher \<Rightarrow> host list \<Rightarrow> credential list \<Rightarrow> frecency \<Rightarrow> key_event \<Rightarrow> launcher \<Rightarrow> 't intent \<times> launcher" where
  "launcher_on_key m hs creds frec key l =
     (let re = launcher_recompute m hs creds frec
      in if ke_kind key \<noteq> Press then (IntentContinue, l)
         else if is_ctrl (CHR ''c'') key then (IntentQuit, l)
         else case ke_code key of
           KeyEsc \<Rightarrow> if la_query l = [] then (IntentQuit, l) else (IntentContinue, re (l\<lparr>la_query := []\<rparr>))
         | KeyEnter \<Rightarrow>
             (case selected_host hs l of
                Some h \<Rightarrow> (IntentConnect, l\<lparr>la_pending_connect := Some (h_id h)\<rparr>)
              | None \<Rightarrow> (IntentContinue, l))
         | KeyBackspace \<Rightarrow> (IntentContinue, re (l\<lparr>la_query := butlast (la_query l)\<rparr>))
         | KeyDown \<Rightarrow> (IntentContinue, if ke_ctrl key then l else launcher_move 1 l)
         | KeyUp \<Rightarrow> (IntentContinue, if ke_ctrl key then l else launcher_move (- 1) l)
         | KeyChar c \<Rightarrow>
             if ke_ctrl key
             then (IntentContinue,
                   if c = CHR ''n'' then launcher_move 1 l else if c = CHR ''p'' then launcher_move (- 1) l else l)
             else (IntentContinue, re (l\<lparr>la_query := la_query l @ [c]\<rparr>))
         | _ \<Rightarrow> (IntentContinue, l))"

section \<open>The credential panel\<close>

record cred_panel =
  cn_query :: string
  cn_selected :: nat
  cn_ranked :: "nat list"

definition cred_panel_new :: cred_panel where
  "cred_panel_new = \<lparr>cn_query = [], cn_selected = 0, cn_ranked = []\<rparr>"

definition cred_search_fields :: "credential \<Rightarrow> string list" where
  "cred_search_fields c = [c_name c, b_user (c_body c)]"

definition rank_credentials :: "matcher \<Rightarrow> credential list \<Rightarrow> string \<Rightarrow> nat list" where
  "rank_credentials m creds query =
     rank_by_fields m (map cred_search_fields creds) (replicate (length creds) (Finite 0 0)) query"

definition cred_panel_clamp :: "cred_panel \<Rightarrow> cred_panel" where
  "cred_panel_clamp p =
     (if cn_ranked p = [] then p\<lparr>cn_selected := 0\<rparr>
      else if length (cn_ranked p) \<le> cn_selected p then p\<lparr>cn_selected := length (cn_ranked p) - 1\<rparr>
      else p)"

definition cred_panel_recompute :: "matcher \<Rightarrow> credential list \<Rightarrow> cred_panel \<Rightarrow> cred_panel" where
  "cred_panel_recompute m creds p = cred_panel_clamp (p\<lparr>cn_ranked := rank_credentials m creds (cn_query p)\<rparr>)"

definition cred_panel_move :: "int \<Rightarrow> cred_panel \<Rightarrow> cred_panel" where
  "cred_panel_move delta p =
     (if cn_ranked p = [] then p
      else p\<lparr>cn_selected := wrap_cursor (cn_selected p) delta (length (cn_ranked p))\<rparr>)"

definition selected_credential :: "credential list \<Rightarrow> cred_panel \<Rightarrow> credential option" where
  "selected_credential creds p = Option.bind (get_at (cn_ranked p) (cn_selected p)) (get_at creds)"

definition cred_panel_on_key ::
  "matcher \<Rightarrow> credential list \<Rightarrow> key_event \<Rightarrow> cred_panel \<Rightarrow> 't intent \<times> cred_panel" where
  "cred_panel_on_key m creds key p =
     (if ke_kind key \<noteq> Press then (IntentContinue, p)
      else case ke_code key of
        KeyBackspace \<Rightarrow> (IntentContinue, cred_panel_recompute m creds (p\<lparr>cn_query := butlast (cn_query p)\<rparr>))
      | KeyDown \<Rightarrow> (IntentContinue, if ke_ctrl key then p else cred_panel_move 1 p)
      | KeyUp \<Rightarrow> (IntentContinue, if ke_ctrl key then p else cred_panel_move (- 1) p)
      | KeyChar c \<Rightarrow>
          if ke_ctrl key
          then (IntentContinue,
                if c = CHR ''n'' then cred_panel_move 1 p else if c = CHR ''p'' then cred_panel_move (- 1) p else p)
          else (IntentContinue, cred_panel_recompute m creds (p\<lparr>cn_query := cn_query p @ [c]\<rparr>))
      | _ \<Rightarrow> (IntentContinue, p))"

section \<open>The storage-mode view and the settings panel\<close>

datatype store_choice = PickKeyring | PickVault | PickPlaintext

definition STORE_CHOICES :: "store_choice list" where
  "STORE_CHOICES = [PickKeyring, PickVault, PickPlaintext]"

fun store_choice_label :: "store_choice \<Rightarrow> string" where
  "store_choice_label PickKeyring = ''keyring''"
| "store_choice_label PickVault = ''vault''"
| "store_choice_label PickPlaintext = ''plaintext''"

record store_view =
  sv_selected :: nat
  sv_status :: "string option"
  sv_active_label :: string

definition store_view_new :: "string option \<Rightarrow> store_view" where
  "store_view_new active =
     \<lparr>sv_selected = 0, sv_status = None,
      sv_active_label = (case active of Some l \<Rightarrow> l | None \<Rightarrow> ''undecided'')\<rparr>"

definition store_view_move :: "int \<Rightarrow> store_view \<Rightarrow> store_view" where
  "store_view_move delta v = v\<lparr>sv_selected := wrap_cursor (sv_selected v) delta (length STORE_CHOICES)\<rparr>"

definition store_view_body_rows :: nat where
  "store_view_body_rows = length STORE_CHOICES * 2 + 1"

definition selected_mode :: "store_view \<Rightarrow> store_choice option" where
  "selected_mode v = get_at STORE_CHOICES (sv_selected v)"

definition store_view_on_key :: "key_event \<Rightarrow> store_view \<Rightarrow> 't intent \<times> store_view" where
  "store_view_on_key key v =
     (if ke_kind key \<noteq> Press then (IntentContinue, v)
      else if is_ctrl (CHR ''c'') key then (IntentCancel, v)
      else case ke_code key of
        KeyEsc \<Rightarrow> (IntentCancel, v)
      | KeyUp \<Rightarrow> (IntentContinue, store_view_move (- 1) v)
      | KeyDown \<Rightarrow> (IntentContinue, store_view_move 1 v)
      | KeyEnter \<Rightarrow>
          (case selected_mode v of
             Some PickKeyring \<Rightarrow> IntentToKeyring
           | Some PickVault \<Rightarrow> IntentToVault
           | Some PickPlaintext \<Rightarrow> IntentToPlaintext
           | None \<Rightarrow> IntentContinue, v)
      | _ \<Rightarrow> (IntentContinue, v))"

definition settings_on_key :: "key_event \<Rightarrow> 't intent" where
  "settings_on_key key =
     (if ke_kind key = Press \<and> ke_code key = KeyEnter then IntentOpenOverlay StorePicker else IntentContinue)"

section \<open>Facts\<close>

text \<open>The rows of the launcher name hosts of the configuration, each at most once, and the cursor is on
one of them unless there is none.\<close>

definition launcher_ok :: "host list \<Rightarrow> launcher \<Rightarrow> bool" where
  "launcher_ok hs l \<longleftrightarrow>
     (\<forall>r\<in>set (la_ranked l). lr_host_idx r < length hs) \<and> distinct (map lr_host_idx (la_ranked l))
     \<and> (la_ranked l = [] \<and> la_selected l = 0 \<or> la_selected l < length (la_ranked l))"

lemma rank_hosts_idx: "map lr_host_idx (rank_hosts m hs creds frec query)
    = rank_by_fields m (map (\<lambda>h. host_search_fields h creds) hs) (map (\<lambda>h. score frec (h_id h)) hs) query"
  by (simp add: rank_hosts_def Let_def comp_def)

lemma rank_hosts_bounds: "r \<in> set (rank_hosts m hs creds frec query) \<Longrightarrow> lr_host_idx r < length hs"
proof -
  assume "r \<in> set (rank_hosts m hs creds frec query)"
  then have "lr_host_idx r \<in> set (map lr_host_idx (rank_hosts m hs creds frec query))" by simp
  then show ?thesis unfolding rank_hosts_idx by (auto dest: rank_bounds)
qed

lemma rank_hosts_distinct: "distinct (map lr_host_idx (rank_hosts m hs creds frec query))"
  unfolding rank_hosts_idx by (rule rank_distinct)

lemma launcher_recompute_ok: "launcher_ok hs (launcher_recompute m hs creds frec l)"
  using rank_hosts_bounds rank_hosts_distinct
  by (auto simp: launcher_recompute_def launcher_clamp_def launcher_ok_def)

lemma launcher_new_ok: "launcher_ok hs (launcher_new m hs creds frec)"
  using rank_hosts_bounds rank_hosts_distinct by (auto simp: launcher_new_def launcher_ok_def)

lemma launcher_move_ok: "launcher_ok hs l \<Longrightarrow> launcher_ok hs (launcher_move d l)"
  by (auto simp: launcher_ok_def launcher_move_def wrap_cursor_less)

lemma selected_host_in:
  assumes "launcher_ok hs l" "selected_host hs l = Some h"
  shows "h \<in> set hs"
  using assms by (auto simp: launcher_ok_def selected_host_def get_at_def split: if_splits)

lemma launcher_on_key_ok:
  assumes l: "launcher_ok hs l"
  shows "launcher_ok hs (snd (launcher_on_key m hs creds frec key l))"
proof -
  have pending: "launcher_ok hs (l\<lparr>la_pending_connect := x\<rparr>)" for x using l by (simp add: launcher_ok_def)
  show ?thesis unfolding launcher_on_key_def Let_def
    using l launcher_move_ok[OF l] launcher_recompute_ok[of hs] pending
    by (simp split: key_code.split option.split)
qed

definition cred_panel_ok :: "credential list \<Rightarrow> cred_panel \<Rightarrow> bool" where
  "cred_panel_ok creds p \<longleftrightarrow>
     (\<forall>i\<in>set (cn_ranked p). i < length creds) \<and> distinct (cn_ranked p)
     \<and> (cn_ranked p = [] \<and> cn_selected p = 0 \<or> cn_selected p < length (cn_ranked p))"

lemma cred_panel_recompute_ok: "cred_panel_ok creds (cred_panel_recompute m creds p)"
  using rank_distinct
  by (auto simp: cred_panel_recompute_def cred_panel_clamp_def cred_panel_ok_def rank_credentials_def dest: rank_bounds)

lemma cred_panel_move_ok: "cred_panel_ok creds p \<Longrightarrow> cred_panel_ok creds (cred_panel_move d p)"
  by (auto simp: cred_panel_ok_def cred_panel_move_def wrap_cursor_less)

lemma cred_panel_on_key_ok:
  assumes "cred_panel_ok creds p"
  shows "cred_panel_ok creds (snd (cred_panel_on_key m creds key p))"
  unfolding cred_panel_on_key_def using assms cred_panel_move_ok[OF assms] cred_panel_recompute_ok
  by (simp split: key_code.split)

lemma selected_mode_of:
  "sv_selected v < 3 \<Longrightarrow> \<exists>c. selected_mode v = Some c"
  by (simp add: selected_mode_def get_at_def STORE_CHOICES_def)

lemma store_view_on_key_ok:
  assumes "sv_selected v < 3"
  shows "sv_selected (snd (store_view_on_key key v)) < 3"
proof -
  have "sv_selected (store_view_move d v) < 3" for d
    using wrap_cursor_less[of "length STORE_CHOICES"] by (simp add: store_view_move_def STORE_CHOICES_def numeral_3_eq_3)
  then show ?thesis unfolding store_view_on_key_def using assms by (simp split: key_code.split option.split store_choice.split)
qed

end
