(* ===== verification/Tui_App.thy ===== *)
theory Tui_App
  imports Cred_Form Tui_Panels Transfer_Loop Cli_Main
begin

text \<open>The state of the terminal interface and its keys (\<^verbatim>\<open>tui/app.rs\<close>): the layers that a key passes
(help, transfer screen, global keys, overlay, panel), the overlays, and the way a command line selects
the first screen (\<^verbatim>\<open>tui/mod.rs\<close>).  No function here does I/O: what a key asks for is its intent.\<close>

section \<open>Help\<close>

datatype help_context =
    HelpLauncher tab | HelpSftp | HelpWizardForm | HelpFilePicker | HelpStorePicker | HelpQueueManager

record help_state =
  hs_context :: help_context
  hs_scroll :: nat

text \<open>How many lines the help of a context has; only their number matters for scrolling.\<close>

definition help_line_count :: "help_context \<Rightarrow> nat" where
  "help_line_count ctx =
     (case ctx of
        HelpLauncher t \<Rightarrow> 8 + (if t = TabSettings then 0 else 3)
      | HelpSftp \<Rightarrow> 13
      | HelpWizardForm \<Rightarrow> 10
      | HelpFilePicker \<Rightarrow> 7
      | HelpStorePicker \<Rightarrow> 4
      | HelpQueueManager \<Rightarrow> 8) + 3"

section \<open>The state\<close>

record 't tui_app =
  ap_should_quit :: bool
  ap_config :: sshrack_config
  ap_config_path :: "string option"
  ap_frecency :: frecency
  ap_credential_names :: "(ulid \<times> string) list"
  ap_active_tab :: tab
  ap_overlay :: "'t shell_overlay option"
  ap_launcher :: launcher
  ap_cred_panel :: cred_panel
  ap_store_view :: "store_view option"
  ap_status :: status_line
  ap_pending_connect :: "ulid option"
  ap_pending_delete :: "ulid option"
  ap_pending_delete_cred :: "string option"
  ap_help :: "help_state option"
  ap_transfer :: transfer_app
  ap_transfer_key :: "key_artifact option"
  ap_pending_transfer_host :: "(host \<times> string option) option"

definition credential_name_table :: "sshrack_config \<Rightarrow> (ulid \<times> string) list" where
  "credential_name_table cfg = map (\<lambda>c. (c_id c, c_name c)) (credentials cfg)"

definition no_transfer :: transfer_app where
  "no_transfer = \<lparr>ta_transfer = None, ta_worker = False, ta_remote_search = False, ta_pending_cancel = False,
     ta_pending_advance = False, ta_sent = [], ta_launched = [], ta_next_search = 0\<rparr>"

definition app_new ::
  "matcher \<Rightarrow> sshrack_config \<Rightarrow> string option \<Rightarrow> frecency \<Rightarrow> (ulid \<times> string) list \<Rightarrow> 't tui_app" where
  "app_new m cfg path frec names =
     \<lparr>ap_should_quit = False, ap_config = cfg, ap_config_path = path, ap_frecency = frec,
      ap_credential_names = names, ap_active_tab = TabHosts, ap_overlay = None,
      ap_launcher = launcher_new m (hosts cfg) (credentials cfg) frec,
      ap_cred_panel = cred_panel_recompute m (credentials cfg) cred_panel_new,
      ap_store_view = None, ap_status = status_empty, ap_pending_connect = None, ap_pending_delete = None,
      ap_pending_delete_cred = None, ap_help = None, ap_transfer = no_transfer, ap_transfer_key = None,
      ap_pending_transfer_host = None\<rparr>"

definition recompute_panels :: "matcher \<Rightarrow> 't tui_app \<Rightarrow> 't tui_app" where
  "recompute_panels m app =
     app\<lparr>ap_launcher := launcher_recompute m (hosts (ap_config app)) (credentials (ap_config app)) (ap_frecency app)
            (ap_launcher app),
         ap_cred_panel := cred_panel_recompute m (credentials (ap_config app)) (ap_cred_panel app)\<rparr>"

definition set_config :: "sshrack_config \<Rightarrow> 't tui_app \<Rightarrow> 't tui_app" where
  "set_config cfg app = app\<lparr>ap_credential_names := credential_name_table cfg, ap_config := cfg\<rparr>"

definition set_app_status :: "string \<Rightarrow> 't tui_app \<Rightarrow> 't tui_app" where
  "set_app_status msg app = app\<lparr>ap_status := status_info msg\<rparr>"

text \<open>The text of an error is its \<^verbatim>\<open>Display\<close>, an argument.\<close>

definition report_failure :: "(sshrack_error \<Rightarrow> string) \<Rightarrow> sshrack_error \<Rightarrow> 't tui_app \<Rightarrow> 't tui_app" where
  "report_failure show_error e app = app\<lparr>ap_status := status_error (show_error e)\<rparr>"

definition app_close_transfer :: "'t tui_app \<Rightarrow> 't tui_app" where
  "app_close_transfer app = app\<lparr>ap_transfer := close_transfer (ap_transfer app), ap_transfer_key := None\<rparr>"

section \<open>Opening and closing\<close>

definition credential_name_list :: "'t tui_app \<Rightarrow> string list" where
  "credential_name_list app = map c_name (credentials (ap_config app))"

definition open_host_wizard_add :: "'t tui_app \<Rightarrow> 't tui_app" where
  "open_host_wizard_add app =
     app\<lparr>ap_overlay := Some (HostWizard (host_form_new_add (credential_name_list app)))\<rparr>"

definition open_host_wizard_edit :: "ulid \<Rightarrow> 't tui_app \<Rightarrow> bool \<times> 't tui_app" where
  "open_host_wizard_edit u app =
     (case find_host_by_id (ap_config app) u of
        None \<Rightarrow> (False, app)
      | Some h \<Rightarrow>
          (True, app\<lparr>ap_overlay := Some (HostWizard (host_form_new_edit h (credential_name_list app)
             (Option.bind (credential_id (h_auth h))
                (\<lambda>c. map_option c_name (find_credential_by_id (ap_config app) c)))))\<rparr>))"

definition close_host_wizard :: "matcher \<Rightarrow> ulid option \<Rightarrow> 't tui_app \<Rightarrow> 't tui_app" where
  "close_host_wizard m saved app =
     (let a1 = recompute_panels m (app\<lparr>ap_overlay := None\<rparr>); hs = hosts (ap_config a1)
      in case saved of
           None \<Rightarrow> a1
         | Some u \<Rightarrow>
             (case select_by_id hs u (ap_launcher a1) of
                (True, l) \<Rightarrow> a1\<lparr>ap_launcher := l\<rparr>
              | (False, l) \<Rightarrow>
                  a1\<lparr>ap_launcher := snd (select_by_id hs u
                    (launcher_recompute m hs (credentials (ap_config a1)) (ap_frecency a1) (l\<lparr>la_query := []\<rparr>)))\<rparr>))"

definition open_cred_wizard_add :: "'t tui_app \<Rightarrow> 't tui_app" where
  "open_cred_wizard_add app = app\<lparr>ap_overlay := Some (CredWizard cred_form_new_add)\<rparr>"

definition open_cred_wizard_edit :: "string \<Rightarrow> 't tui_app \<Rightarrow> bool \<times> 't tui_app" where
  "open_cred_wizard_edit name app =
     (case find_credential_by_name (ap_config app) name of
        None \<Rightarrow> (False, app)
      | Some c \<Rightarrow> (True, app\<lparr>ap_overlay := Some (CredWizard (cred_form_new_edit c))\<rparr>))"

definition close_cred_wizard :: "matcher \<Rightarrow> 't tui_app \<Rightarrow> 't tui_app" where
  "close_cred_wizard m app = recompute_panels m (app\<lparr>ap_overlay := None\<rparr>)"

definition close_overlay :: "matcher \<Rightarrow> 't tui_app \<Rightarrow> 't tui_app" where
  "close_overlay m app = recompute_panels m (app\<lparr>ap_overlay := None\<rparr>)"

definition open_host_wizard_edit_by_name :: "string \<Rightarrow> 't tui_app \<Rightarrow> bool \<times> 't tui_app" where
  "open_host_wizard_edit_by_name name app =
     (case find_host_by_name (ap_config app) name of
        None \<Rightarrow> (False, app) | Some h \<Rightarrow> open_host_wizard_edit (h_id h) app)"

definition current_store_mode_label :: "'t tui_app \<Rightarrow> string" where
  "current_store_mode_label app =
     (case store (ap_config app) of
        Some StoreKeyring \<Rightarrow> ''keyring''
      | Some (StoreVault _) \<Rightarrow> ''vault''
      | Some StorePlaintext \<Rightarrow> ''plaintext''
      | None \<Rightarrow> ''undecided'')"

definition open_store_view :: "'t tui_app \<Rightarrow> 't tui_app" where
  "open_store_view app = app\<lparr>ap_store_view := Some (store_view_new (Some (current_store_mode_label app)))\<rparr>"

definition open_store_picker :: "'t tui_app \<Rightarrow> 't intent \<times> 't tui_app" where
  "open_store_picker app =
     (IntentOpenOverlay StorePicker, (open_store_view app)\<lparr>ap_overlay := Some StorePicker\<rparr>)"

definition close_store_view :: "matcher \<Rightarrow> 't tui_app \<Rightarrow> 't tui_app" where
  "close_store_view m app = recompute_panels m (app\<lparr>ap_store_view := None\<rparr>)"

section \<open>The first screen\<close>

datatype entry_mode =
    EntryLauncher | EntryHostWizard "string option" | EntryCredWizard "string option" | EntryTransfer

definition target_tab :: "entry_mode \<Rightarrow> tab" where
  "target_tab mode = (case mode of EntryCredWizard _ \<Rightarrow> TabCredentials | _ \<Rightarrow> TabHosts)"

definition entry_mode_from_cmd :: "command option \<Rightarrow> entry_mode" where
  "entry_mode_from_cmd cmd =
     (case cmd of
        None \<Rightarrow> EntryLauncher
      | Some c \<Rightarrow>
          (case c of
             CmdHost (HostAdd _) \<Rightarrow> EntryHostWizard None
           | CmdHost (HostEdit fl) \<Rightarrow> EntryHostWizard (he_name fl)
           | CmdCred (CredAdd _) \<Rightarrow> EntryCredWizard None
           | CmdCred (CredEdit fl) \<Rightarrow> EntryCredWizard (cg_name fl)
           | CmdSftp _ _ \<Rightarrow> EntryTransfer
           | _ \<Rightarrow> EntryLauncher))"

definition select_host_by_name :: "string \<Rightarrow> 't tui_app \<Rightarrow> 't tui_app" where
  "select_host_by_name name app =
     (case position (\<lambda>r. case get_at (hosts (ap_config app)) (lr_host_idx r) of
             Some h \<Rightarrow> h_name h = name | None \<Rightarrow> False) (la_ranked (ap_launcher app)) of
        Some i \<Rightarrow> app\<lparr>ap_launcher := (ap_launcher app)\<lparr>la_selected := i\<rparr>\<rparr>
      | None \<Rightarrow> app)"

definition select_cred_by_name :: "string \<Rightarrow> 't tui_app \<Rightarrow> 't tui_app" where
  "select_cred_by_name name app =
     (case position (\<lambda>i. case get_at (credentials (ap_config app)) i of
             Some c \<Rightarrow> c_name c = name | None \<Rightarrow> False) (cn_ranked (ap_cred_panel app)) of
        Some i \<Rightarrow> app\<lparr>ap_cred_panel := (ap_cred_panel app)\<lparr>cn_selected := i\<rparr>\<rparr>
      | None \<Rightarrow> app)"

definition quoted :: "string \<Rightarrow> string" where
  "quoted s = [CHR 39] @ s @ [CHR 39]"

definition apply_entry_mode :: "entry_mode \<Rightarrow> 't tui_app \<Rightarrow> 't tui_app" where
  "apply_entry_mode mode app0 =
     (let app = app0\<lparr>ap_active_tab := target_tab mode\<rparr>
      in case mode of
           EntryLauncher \<Rightarrow> app
         | EntryHostWizard None \<Rightarrow> open_host_wizard_add app
         | EntryHostWizard (Some name) \<Rightarrow>
             (case open_host_wizard_edit_by_name name app of
                (False, a) \<Rightarrow> a\<lparr>ap_status := status_error (''host '' @ quoted name @ '' not found'')\<rparr>
              | (True, a) \<Rightarrow> select_host_by_name name a)
         | EntryCredWizard None \<Rightarrow> open_cred_wizard_add app
         | EntryCredWizard (Some name) \<Rightarrow>
             (case open_cred_wizard_edit name app of
                (False, a) \<Rightarrow> a\<lparr>ap_status := status_error (''credential '' @ quoted name @ '' not found'')\<rparr>
              | (True, a) \<Rightarrow> select_cred_by_name name a)
         | EntryTransfer \<Rightarrow> app)"

definition resolve_transfer_target ::
  "similarity \<Rightarrow> ulid \<Rightarrow> command option \<Rightarrow> sshrack_config \<Rightarrow> connect_options \<Rightarrow>
   sshrack_error + (host \<times> string option) option" where
  "resolve_transfer_target jw fresh cmd cfg base =
     (case cmd of
        Some (CmdSftp opts name) \<Rightarrow>
          (let merged = overlay opts base
           in and_then
                (case co_credential merged of
                   None \<Rightarrow> Inr None
                 | Some cname \<Rightarrow>
                     (case find_credential_by_name cfg cname of
                        Some c \<Rightarrow> Inr (Some (c_id c))
                      | None \<Rightarrow> Inl (credential_not_found jw cfg cname)))
                (\<lambda>cred. and_then
                   (resolve_target jw fresh cfg name
                      \<lparr>ro_credential = cred, ro_port = co_port merged, ro_user = co_user merged,
                       ro_identity = co_identity merged\<rparr>)
                   (\<lambda>rt. Inr (Some (rt_host rt,
                      case rt_target_user rt of Some u \<Rightarrow> Some u | None \<Rightarrow> co_user merged)))))
      | _ \<Rightarrow> Inr None)"

definition auto_default_store_mode :: "bool \<Rightarrow> bool \<Rightarrow> secret_store option" where
  "auto_default_store_mode undecided keyring_available =
     (if undecided \<and> keyring_available then Some StoreKeyring else None)"

section \<open>Keys\<close>

record 't app_env =
  ae_form :: "'t form_env"
  ae_local_home :: "string option"

abbreviation ae_matcher :: "'t app_env \<Rightarrow> matcher" where
  "ae_matcher env \<equiv> fe_matcher (ae_form env)"

definition current_help_context :: "'t tui_app \<Rightarrow> help_context" where
  "current_help_context app =
     (case ta_transfer (ap_transfer app) of
        Some sc \<Rightarrow> if sc_queue_overlay sc \<noteq> None then HelpQueueManager else HelpSftp
      | None \<Rightarrow>
          (case ap_overlay app of
             Some (HostWizard f) \<Rightarrow> if hf_file_picker f \<noteq> None then HelpFilePicker else HelpWizardForm
           | Some (CredWizard f) \<Rightarrow> if crf_file_picker f \<noteq> None then HelpFilePicker else HelpWizardForm
           | Some StorePicker \<Rightarrow> HelpStorePicker
           | None \<Rightarrow> HelpLauncher (ap_active_tab app)))"

text \<open>The help is modal: the new help state for a key while it is open.\<close>

definition help_on_key :: "key_event \<Rightarrow> help_state \<Rightarrow> help_state option" where
  "help_on_key key h =
     (let m = help_line_count (hs_context h);
          scrolled = (\<lambda>d. Some (h\<lparr>hs_scroll := min (min (hs_scroll h + d) 65535) m\<rparr>));
          back = (\<lambda>d. Some (h\<lparr>hs_scroll := hs_scroll h - d\<rparr>))
      in if ke_kind key \<noteq> Press then Some h
         else if is_ctrl (CHR ''c'') key then None
         else if \<not> no_mods key then Some h
         else case ke_code key of
           KeyF n \<Rightarrow> if n = 1 then None else Some h
         | KeyEsc \<Rightarrow> None
         | KeyChar c \<Rightarrow>
             if c = CHR ''q'' then None else if c = CHR ''j'' then scrolled 1
             else if c = CHR ''k'' then back 1 else Some h
         | KeyDown \<Rightarrow> scrolled 1
         | KeyUp \<Rightarrow> back 1
         | KeyPageDown \<Rightarrow> scrolled 5
         | KeyPageUp \<Rightarrow> back 5
         | _ \<Rightarrow> Some h)"

definition app_route_transfer ::
  "'t app_env \<Rightarrow> key_event \<Rightarrow> transfer_screen \<Rightarrow> 't tui_app \<Rightarrow> 't intent \<times> 't tui_app" where
  "app_route_transfer env key sc app =
     (case route_transfer (browser_rank (ae_matcher env)) (ae_local_home env) key sc (ap_transfer app) of
        (RouteContinue, t) \<Rightarrow> (IntentContinue, app\<lparr>ap_transfer := t\<rparr>)
      | (RouteClose, t) \<Rightarrow> (IntentCloseTransfer, app\<lparr>ap_transfer := t\<rparr>))"

text \<open>The overlay was taken out of the state; it goes back unless the intent ends it.\<close>

definition ends_form :: "'t intent \<Rightarrow> bool" where
  "ends_form out = (case out of IntentCancel \<Rightarrow> True | IntentCloseOverlay \<Rightarrow> True | _ \<Rightarrow> False)"

definition ends_picker :: "'t intent \<Rightarrow> bool" where
  "ends_picker out =
     (case out of
        IntentToKeyring \<Rightarrow> True | IntentToVault \<Rightarrow> True | IntentToPlaintext \<Rightarrow> True
      | IntentCancel \<Rightarrow> True | IntentCloseOverlay \<Rightarrow> True | _ \<Rightarrow> False)"

definition route_overlay ::
  "'t app_env \<Rightarrow> key_event \<Rightarrow> 't shell_overlay \<Rightarrow> 't tui_app \<Rightarrow> 't intent \<times> 't tui_app" where
  "route_overlay env key ov app0 =
     (let app = app0\<lparr>ap_overlay := None\<rparr>
      in case ov of
           HostWizard form \<Rightarrow>
             (case host_form_on_key (ae_form env) key form of
                (out, f) \<Rightarrow>
                  (out, if ends_form out then app
                        else app\<lparr>ap_overlay := Some (HostWizard f)\<rparr>))
         | CredWizard form \<Rightarrow>
             (case cred_form_on_key (ae_form env) key form of
                (out, f) \<Rightarrow>
                  (out, if ends_form out then app
                        else app\<lparr>ap_overlay := Some (CredWizard f)\<rparr>))
         | StorePicker \<Rightarrow>
             (case ap_store_view app of
                None \<Rightarrow> (IntentCloseOverlay, app)
              | Some v \<Rightarrow>
                  (case store_view_on_key key v of
                     (out, v') \<Rightarrow>
                       (let a1 = app\<lparr>ap_store_view := Some v'\<rparr>
                        in (out, if ends_picker out then a1 else a1\<lparr>ap_overlay := Some StorePicker\<rparr>)))))"

definition open_add_overlay :: "'t tui_app \<Rightarrow> 't intent \<times> 't tui_app" where
  "open_add_overlay app =
     (case ap_active_tab app of
        TabHosts \<Rightarrow>
          (let ov = HostWizard (host_form_new_add (credential_name_list app))
           in (IntentOpenOverlay ov, app\<lparr>ap_overlay := Some ov\<rparr>))
      | TabCredentials \<Rightarrow>
          (let ov = CredWizard cred_form_new_add in (IntentOpenOverlay ov, app\<lparr>ap_overlay := Some ov\<rparr>))
      | TabSettings \<Rightarrow> (IntentContinue, app))"

definition opened_overlay :: "'t tui_app \<Rightarrow> 't intent \<times> 't tui_app" where
  "opened_overlay app =
     (case ap_overlay app of Some ov \<Rightarrow> (IntentOpenOverlay ov, app) | None \<Rightarrow> (IntentContinue, app))"

definition open_edit_overlay :: "'t tui_app \<Rightarrow> 't intent \<times> 't tui_app" where
  "open_edit_overlay app =
     (case ap_active_tab app of
        TabHosts \<Rightarrow>
          (case selected_host (hosts (ap_config app)) (ap_launcher app) of
             Some h \<Rightarrow> opened_overlay (snd (open_host_wizard_edit (h_id h) app))
           | None \<Rightarrow> (IntentContinue, app\<lparr>ap_status := status_error ''no host selected to edit''\<rparr>))
      | TabCredentials \<Rightarrow>
          (case selected_credential (credentials (ap_config app)) (ap_cred_panel app) of
             Some c \<Rightarrow> opened_overlay (snd (open_cred_wizard_edit (c_name c) app))
           | None \<Rightarrow> (IntentContinue, app\<lparr>ap_status := status_error ''no credential selected to edit''\<rparr>))
      | TabSettings \<Rightarrow> (IntentContinue, app))"

definition begin_delete :: "'t tui_app \<Rightarrow> 't intent \<times> 't tui_app" where
  "begin_delete app =
     (case ap_active_tab app of
        TabHosts \<Rightarrow>
          (case selected_host (hosts (ap_config app)) (ap_launcher app) of
             Some h \<Rightarrow> (IntentDeleteHost, app\<lparr>ap_pending_delete := Some (h_id h)\<rparr>)
           | None \<Rightarrow> (IntentContinue, app\<lparr>ap_status := status_error ''no host selected to delete''\<rparr>))
      | TabCredentials \<Rightarrow>
          (case selected_credential (credentials (ap_config app)) (ap_cred_panel app) of
             Some c \<Rightarrow> (IntentDeleteCred, app\<lparr>ap_pending_delete_cred := Some (c_name c)\<rparr>)
           | None \<Rightarrow> (IntentContinue, app\<lparr>ap_status := status_error ''no credential selected to delete''\<rparr>))
      | TabSettings \<Rightarrow> (IntentContinue, app))"

definition app_launcher_key :: "matcher \<Rightarrow> key_event \<Rightarrow> 't tui_app \<Rightarrow> 't intent \<times> 't tui_app" where
  "app_launcher_key m key app =
     (case launcher_on_key m (hosts (ap_config app)) (credentials (ap_config app)) (ap_frecency app) key (ap_launcher app) of
        (out, l) \<Rightarrow> (out, app\<lparr>ap_launcher := l\<rparr>))"

definition primary_action :: "matcher \<Rightarrow> 't tui_app \<Rightarrow> 't intent \<times> 't tui_app" where
  "primary_action m app =
     (case ap_active_tab app of
        TabHosts \<Rightarrow>
          (case app_launcher_key m (press KeyEnter) app of
             (out, a) \<Rightarrow>
               (let a1 = a\<lparr>ap_pending_connect := la_pending_connect (ap_launcher a)\<rparr>
                in (out, if (case out of IntentContinue \<Rightarrow> True | _ \<Rightarrow> False) \<and> ap_pending_connect a1 = None
                         then a1\<lparr>ap_status := status_info ''no host selected''\<rparr> else a1)))
      | TabCredentials \<Rightarrow> open_edit_overlay app
      | TabSettings \<Rightarrow> open_store_picker app)"

definition route_active_panel_key :: "matcher \<Rightarrow> key_event \<Rightarrow> 't tui_app \<Rightarrow> 't intent \<times> 't tui_app" where
  "route_active_panel_key m key app =
     (case ap_active_tab app of
        TabHosts \<Rightarrow>
          (case app_launcher_key m key app of
             (out, a) \<Rightarrow> (out, case out of IntentQuit \<Rightarrow> a\<lparr>ap_should_quit := True\<rparr> | _ \<Rightarrow> a))
      | TabCredentials \<Rightarrow>
          (case cred_panel_on_key m (credentials (ap_config app)) key (ap_cred_panel app) of
             (out, p) \<Rightarrow> (out, app\<lparr>ap_cred_panel := p\<rparr>))
      | TabSettings \<Rightarrow> (settings_on_key key, app))"

definition active_panel_query :: "'t tui_app \<Rightarrow> string" where
  "active_panel_query app =
     (case ap_active_tab app of
        TabHosts \<Rightarrow> la_query (ap_launcher app) | TabCredentials \<Rightarrow> cn_query (ap_cred_panel app) | TabSettings \<Rightarrow> [])"

definition clear_active_panel_query :: "matcher \<Rightarrow> 't tui_app \<Rightarrow> 't tui_app" where
  "clear_active_panel_query m app =
     (case ap_active_tab app of
        TabHosts \<Rightarrow>
          app\<lparr>ap_launcher := launcher_recompute m (hosts (ap_config app)) (credentials (ap_config app)) (ap_frecency app)
                 ((ap_launcher app)\<lparr>la_query := []\<rparr>)\<rparr>
      | TabCredentials \<Rightarrow>
          app\<lparr>ap_cred_panel := cred_panel_recompute m (credentials (ap_config app)) ((ap_cred_panel app)\<lparr>cn_query := []\<rparr>)\<rparr>
      | TabSettings \<Rightarrow> app)"

definition route_panel :: "matcher \<Rightarrow> key_event \<Rightarrow> 't tui_app \<Rightarrow> 't intent \<times> 't tui_app" where
  "route_panel m key app =
     (if ke_kind key \<noteq> Press then (IntentContinue, app)
      else case tab_key_decision key of
        TabCycle d \<Rightarrow>
          (let t = (if 0 < d then tab_next (ap_active_tab app) else tab_prev (ap_active_tab app))
           in (IntentSwitchTab t, app\<lparr>ap_active_tab := t\<rparr>))
      | TabNone \<Rightarrow>
          if ke_ctrl key \<and> ke_code key = KeyChar (CHR ''a'') then open_add_overlay app
          else if ke_ctrl key \<and> ke_code key = KeyChar (CHR ''e'') then open_edit_overlay app
          else if ke_ctrl key \<and> ke_code key = KeyChar (CHR ''d'') then begin_delete app
          else if ke_code key = KeyEsc \<and> no_mods key
          then (if active_panel_query app = [] then (IntentQuit, app\<lparr>ap_should_quit := True\<rparr>)
                else (IntentContinue, clear_active_panel_query m app))
          else if ke_code key = KeyEnter \<and> no_mods key then primary_action m app
          else route_active_panel_key m key app)"

definition app_on_key :: "'t app_env \<Rightarrow> key_event \<Rightarrow> 't tui_app \<Rightarrow> 't intent \<times> 't tui_app" where
  "app_on_key env key app =
     (case ap_help app of
        Some h \<Rightarrow> (IntentContinue, app\<lparr>ap_help := help_on_key key h\<rparr>)
      | None \<Rightarrow>
          if ke_kind key = Press \<and> no_mods key \<and> ke_code key = KeyF 1
          then (IntentContinue,
                app\<lparr>ap_help := Some \<lparr>hs_context = current_help_context app, hs_scroll = 0\<rparr>\<rparr>)
          else case ta_transfer (ap_transfer app) of
            Some sc \<Rightarrow> app_route_transfer env key sc app
          | None \<Rightarrow>
              if ke_kind key = Press \<and> is_ctrl (CHR ''c'') key \<and> ap_overlay app = None
              then (IntentQuit, app\<lparr>ap_should_quit := True\<rparr>)
              else if ke_kind key = Press \<and> is_ctrl (CHR ''t'') key \<and> ap_overlay app = None
                      \<and> ap_active_tab app = TabHosts
              then (case selected_host (hosts (ap_config app)) (ap_launcher app) of
                      Some h \<Rightarrow> (IntentOpenTransfer, app\<lparr>ap_pending_transfer_host := Some (h, None)\<rparr>)
                    | None \<Rightarrow> (IntentContinue, app))
              else case ap_overlay app of
                Some ov \<Rightarrow> route_overlay env key ov app
              | None \<Rightarrow> route_panel (ae_matcher env) key (app\<lparr>ap_status := status_empty\<rparr>))"

end
