(* ===== verification/Tui_Prompt.thy ===== *)
theory Tui_Prompt
  imports Tui_Keys Errors
begin

text \<open>The popups of the terminal interface (\<^verbatim>\<open>tui/prompt.rs\<close>), without their drawing.  A popup polls
for events until one decides it; what the polls bring is a list.  A popup that is still undecided at the
end of the list has not returned: its result is \<^term>\<open>None\<close>, and otherwise its answer and the events it
has left.\<close>

datatype tui_event = EventIdle | EventKey key_event | EventOther | EventFail io_error

section \<open>Decisions\<close>

datatype popup_answer = AnswerYes | AnswerNo | AnswerPending

definition confirm_from_key :: "key_code \<Rightarrow> popup_answer" where
  "confirm_from_key code =
     (case code of
        KeyChar c \<Rightarrow>
          if c = CHR ''y'' \<or> c = CHR ''Y'' then AnswerYes
          else if c = CHR ''n'' \<or> c = CHR ''N'' then AnswerNo else AnswerPending
      | KeyEsc \<Rightarrow> AnswerNo
      | _ \<Rightarrow> AnswerPending)"

datatype store_pick = StorePickKeyring | StorePickVault | StorePickPlaintext

definition STORE_PICK_ORDER :: "store_pick list" where
  "STORE_PICK_ORDER = [StorePickKeyring, StorePickVault, StorePickPlaintext]"

datatype store_pick_action = PickUp | PickDown | PickConfirm | PickCancel | PickOther

definition store_pick_action_from_key :: "key_event \<Rightarrow> store_pick_action" where
  "store_pick_action_from_key key =
     (if is_ctrl (CHR ''c'') key then PickCancel
      else case ke_code key of
        KeyUp \<Rightarrow> PickUp
      | KeyDown \<Rightarrow> PickDown
      | KeyEnter \<Rightarrow> PickConfirm
      | KeyEsc \<Rightarrow> PickCancel
      | _ \<Rightarrow> PickOther)"

datatype key_decision = DecideChar char | DecideBackspace | DecideSubmit | DecideCancel | DecideOther

definition decision_of_key :: "key_event \<Rightarrow> key_decision" where
  "decision_of_key key =
     (if is_ctrl (CHR ''c'') key then DecideCancel
      else if \<not> no_mods key then DecideOther
      else case ke_code key of
        KeyChar ch \<Rightarrow> DecideChar ch
      | KeyEnter \<Rightarrow> DecideSubmit
      | KeyBackspace \<Rightarrow> DecideBackspace
      | KeyEsc \<Rightarrow> DecideCancel
      | _ \<Rightarrow> DecideOther)"

text \<open>The next decision, and the events after it.\<close>

fun read_decision_key :: "tui_event list \<Rightarrow> ((sshrack_error + key_decision) \<times> tui_event list) option" where
  "read_decision_key [] = None"
| "read_decision_key (e # es) =
     (case e of
        EventIdle \<Rightarrow> read_decision_key es
      | EventOther \<Rightarrow> read_decision_key es
      | EventFail io \<Rightarrow> Some (Inl (from_prompt_io io), es)
      | EventKey key \<Rightarrow> if ke_kind key \<noteq> Press then read_decision_key es else Some (Inr (decision_of_key key), es))"

lemma read_decision_key_shorter:
  "read_decision_key es = Some (d, r) \<Longrightarrow> length r < length es"
  by (induction es) (auto split: tui_event.splits if_splits)

section \<open>Passphrases\<close>

function prompt_password :: "string \<Rightarrow> tui_event list \<Rightarrow> ((sshrack_error + string) \<times> tui_event list) option" where
  "prompt_password buffer es =
     (case read_decision_key es of
        None \<Rightarrow> None
      | Some (Inl e, r) \<Rightarrow> Some (Inl e, r)
      | Some (Inr (DecideChar ch), r) \<Rightarrow> prompt_password (buffer @ [ch]) r
      | Some (Inr DecideBackspace, r) \<Rightarrow> prompt_password (butlast buffer) r
      | Some (Inr DecideSubmit, r) \<Rightarrow> if buffer = [] then prompt_password buffer r else Some (Inr buffer, r)
      | Some (Inr DecideCancel, r) \<Rightarrow> Some (Inl Interrupted, r)
      | Some (Inr DecideOther, r) \<Rightarrow> prompt_password buffer r)"
  by pat_completeness auto
termination by (relation "measure (length \<circ> snd)") (auto dest: read_decision_key_shorter)

declare prompt_password.simps [simp del]

text \<open>The second entry: \<^term>\<open>None\<close> inside the result is a mismatch.\<close>

function confirm_entry ::
  "string \<Rightarrow> string \<Rightarrow> tui_event list \<Rightarrow> ((sshrack_error + string option) \<times> tui_event list) option" where
  "confirm_entry first second es =
     (case read_decision_key es of
        None \<Rightarrow> None
      | Some (Inl e, r) \<Rightarrow> Some (Inl e, r)
      | Some (Inr (DecideChar ch), r) \<Rightarrow> confirm_entry first (second @ [ch]) r
      | Some (Inr DecideBackspace, r) \<Rightarrow> confirm_entry first (butlast second) r
      | Some (Inr DecideSubmit, r) \<Rightarrow> Some (Inr (if second = first then Some second else None), r)
      | Some (Inr DecideCancel, r) \<Rightarrow> Some (Inl Interrupted, r)
      | Some (Inr DecideOther, r) \<Rightarrow> confirm_entry first second r)"
  by pat_completeness auto
termination by (relation "measure (length \<circ> snd \<circ> snd)") (auto dest: read_decision_key_shorter)

declare confirm_entry.simps [simp del]

lemma prompt_password_shorter:
  "prompt_password buffer es = Some (x, r) \<Longrightarrow> length r < length es"
proof (induction es arbitrary: buffer rule: measure_induct_rule[where f = length])
  case (less es)
  have k: "read_decision_key es = Some (d, r1) \<Longrightarrow> prompt_password b r1 = Some (x, r) \<Longrightarrow> length r < length es" for d r1 b
    using less(1)[of r1 b] read_decision_key_shorter[of es d r1] by simp
  show ?case using less(2)
    by (subst (asm) prompt_password.simps)
      (auto split: option.splits sum.splits key_decision.splits if_splits dest: k read_decision_key_shorter)
qed

lemma confirm_entry_shorter:
  "confirm_entry first second es = Some (x, r) \<Longrightarrow> length r < length es"
proof (induction es arbitrary: second rule: measure_induct_rule[where f = length])
  case (less es)
  have k: "read_decision_key es = Some (d, r1) \<Longrightarrow> confirm_entry first b r1 = Some (x, r) \<Longrightarrow> length r < length es" for d r1 b
    using less(1)[of r1 b] read_decision_key_shorter[of es d r1] by simp
  show ?case using less(2)
    by (subst (asm) confirm_entry.simps)
      (auto split: option.splits sum.splits key_decision.splits if_splits dest: k read_decision_key_shorter)
qed

function prompt_password_confirm ::
  "tui_event list \<Rightarrow> ((sshrack_error + string) \<times> tui_event list) option" where
  "prompt_password_confirm es =
     (case prompt_password [] es of
        None \<Rightarrow> None
      | Some (Inl e, r) \<Rightarrow> Some (Inl e, r)
      | Some (Inr first, r) \<Rightarrow>
          (case confirm_entry first [] r of
             None \<Rightarrow> None
           | Some (Inl e, r2) \<Rightarrow> Some (Inl e, r2)
           | Some (Inr (Some p), r2) \<Rightarrow> Some (Inr p, r2)
           | Some (Inr None, r2) \<Rightarrow> prompt_password_confirm r2))"
  by pat_completeness auto
termination
  by (relation "measure length") (auto dest!: prompt_password_shorter confirm_entry_shorter)

declare prompt_password_confirm.simps [simp del]

section \<open>Questions\<close>

text \<open>The event that fails may be the drawing of the popup, too.\<close>

fun confirm_popup :: "tui_event list \<Rightarrow> ((sshrack_error + bool) \<times> tui_event list) option" where
  "confirm_popup [] = None"
| "confirm_popup (e # es) =
     (case e of
        EventIdle \<Rightarrow> confirm_popup es
      | EventOther \<Rightarrow> confirm_popup es
      | EventFail io \<Rightarrow> Some (Inl (from_prompt_io io), es)
      | EventKey key \<Rightarrow>
          if ke_kind key \<noteq> Press then confirm_popup es
          else if is_ctrl (CHR ''c'') key then Some (Inl Interrupted, es)
          else case confirm_from_key (ke_code key) of
            AnswerYes \<Rightarrow> Some (Inr True, es)
          | AnswerNo \<Rightarrow> Some (Inr False, es)
          | AnswerPending \<Rightarrow> confirm_popup es)"

fun store_pick_popup ::
  "nat \<Rightarrow> tui_event list \<Rightarrow> ((sshrack_error + store_pick option) \<times> tui_event list) option" where
  "store_pick_popup cursor [] = None"
| "store_pick_popup cursor (e # es) =
     (case e of
        EventIdle \<Rightarrow> store_pick_popup cursor es
      | EventOther \<Rightarrow> store_pick_popup cursor es
      | EventFail io \<Rightarrow> Some (Inl (from_prompt_io io), es)
      | EventKey key \<Rightarrow>
          if ke_kind key \<noteq> Press then store_pick_popup cursor es
          else let len = length STORE_PICK_ORDER
               in case store_pick_action_from_key key of
                    PickUp \<Rightarrow> store_pick_popup ((cursor + len - 1) mod len) es
                  | PickDown \<Rightarrow> store_pick_popup ((cursor + 1) mod len) es
                  | PickConfirm \<Rightarrow>
                      Some (Inr (if cursor < len then Some (STORE_PICK_ORDER ! cursor) else None), es)
                  | PickCancel \<Rightarrow> Some (Inr None, es)
                  | PickOther \<Rightarrow> store_pick_popup cursor es)"

section \<open>The provider and the host-key question\<close>

text \<open>The handle is weak: with the terminal gone each question is an interruption.\<close>

definition upgraded :: "bool \<Rightarrow> ((sshrack_error + 'a) \<times> tui_event list) option \<Rightarrow> tui_event list
    \<Rightarrow> ((sshrack_error + 'a) \<times> tui_event list) option" where
  "upgraded alive answer es = (if alive then answer else Some (Inl Interrupted, es))"

definition tui_passphrase :: "bool \<Rightarrow> tui_event list \<Rightarrow> ((sshrack_error + string) \<times> tui_event list) option" where
  "tui_passphrase alive es = upgraded alive (prompt_password [] es) es"

definition tui_passphrase_confirm :: "bool \<Rightarrow> tui_event list \<Rightarrow> ((sshrack_error + string) \<times> tui_event list) option" where
  "tui_passphrase_confirm alive es = upgraded alive (prompt_password_confirm es) es"

definition tui_confirm :: "bool \<Rightarrow> tui_event list \<Rightarrow> ((sshrack_error + bool) \<times> tui_event list) option" where
  "tui_confirm alive es = upgraded alive (confirm_popup es) es"

definition prompt_store_pick :: "bool \<Rightarrow> tui_event list \<Rightarrow> ((sshrack_error + store_pick option) \<times> tui_event list) option" where
  "prompt_store_pick alive es = upgraded alive (store_pick_popup 0 es) es"

text \<open>The closure that answers a host-key question: an interruption declines and sets the flag, any other
error only declines.\<close>

definition host_key_closure :: "sshrack_error + bool \<Rightarrow> bool \<Rightarrow> bool \<times> bool" where
  "host_key_closure answer flag =
     (case answer of Inr d \<Rightarrow> (d, flag) | Inl e \<Rightarrow> (False, flag \<or> e = Interrupted))"

definition host_key_confirm :: "bool \<Rightarrow> tui_event list \<Rightarrow> (bool \<times> bool) option" where
  "host_key_confirm alive es = map_option (\<lambda>(a, _). host_key_closure a False) (tui_confirm alive es)"

section \<open>Facts\<close>

text \<open>What is typed up to the point where a popup returns.\<close>

lemma prompt_password_nonempty:
  "prompt_password buffer es = Some (Inr p, r) \<Longrightarrow> p \<noteq> []"
proof (induction es arbitrary: buffer rule: measure_induct_rule[where f = length])
  case (less es)
  have k: "read_decision_key es = Some (d, r1) \<Longrightarrow> prompt_password b r1 = Some (Inr p, r) \<Longrightarrow> p \<noteq> []" for d r1 b
    using less(1)[of r1 b] read_decision_key_shorter[of es d r1] by simp
  show ?case using less(2)
    by (subst (asm) prompt_password.simps)
      (auto split: option.splits sum.splits key_decision.splits if_splits dest: k)
qed

lemma confirm_entry_match:
  "confirm_entry first second es = Some (Inr (Some p), r) \<Longrightarrow> p = first"
proof (induction es arbitrary: second rule: measure_induct_rule[where f = length])
  case (less es)
  have k: "read_decision_key es = Some (d, r1) \<Longrightarrow> confirm_entry first b r1 = Some (Inr (Some p), r) \<Longrightarrow> p = first" for d r1 b
    using less(1)[of r1 b] read_decision_key_shorter[of es d r1] by simp
  show ?case using less(2)
    by (subst (asm) confirm_entry.simps)
      (auto split: option.splits sum.splits key_decision.splits if_splits dest: k)
qed

text \<open>A new passphrase was typed twice: one popup gave it and the next one confirmed it.\<close>

lemma prompt_password_confirm_twice:
  "prompt_password_confirm es = Some (Inr p, r) \<Longrightarrow>
     p \<noteq> [] \<and> (\<exists>es1 r1. prompt_password [] es1 = Some (Inr p, r1) \<and> confirm_entry p [] r1 = Some (Inr (Some p), r))"
proof (induction es rule: prompt_password_confirm.induct)
  case (1 es)
  show ?case
  proof (cases "prompt_password [] es")
    case None then show ?thesis using 1(2) by (simp add: prompt_password_confirm.simps)
  next
    case (Some a)
    obtain first r1 where a: "a = (Inr first, r1)"
      using 1(2) Some by (cases a) (auto simp: prompt_password_confirm.simps split: sum.splits)
    obtain second r2 where c: "confirm_entry first [] r1 = Some (Inr second, r2)"
      using 1(2) Some a by (auto simp: prompt_password_confirm.simps split: option.splits sum.splits)
    show ?thesis
    proof (cases second)
      case None
      then have "prompt_password_confirm es = prompt_password_confirm r2"
        using Some a c by (simp add: prompt_password_confirm.simps)
      then show ?thesis using 1 Some a c None by auto
    next
      case (Some q)
      then have "p = q" "r2 = r" using 1(2) \<open>prompt_password [] es = Some a\<close> a c by (auto simp: prompt_password_confirm.simps)
      then show ?thesis using confirm_entry_match prompt_password_nonempty \<open>prompt_password [] es = Some a\<close> a c Some by blast
    qed
  qed
qed

lemma store_pick_in_order: "store_pick_popup c es = Some (Inr (Some p), r) \<Longrightarrow> p \<in> set STORE_PICK_ORDER"
  by (induction c es rule: store_pick_popup.induct)
    (auto simp: Let_def split: tui_event.splits if_splits store_pick_action.splits)

end
