(* ===== verification/Tui_Persist.thy ===== *)
theory Tui_Persist
  imports Tui_App Tui_Prompt Store_Cmd Cli_Cred
begin

text \<open>What the terminal interface writes (\<^verbatim>\<open>tui/persist.rs\<close>): saving and deleting hosts and
credentials, switching the storage mode, and reloading.  Each operation works on the state of the
interface and on the world and the files of the process.  The popups it opens are the passphrase
provider of the environment and the result of the store popup; the keyring is the backend argument.\<close>

record persist_env =
  pe_cli :: cli_env
  pe_similarity :: similarity
  pe_splitter :: splitter
  pe_matcher :: matcher
  pe_fresh :: ulid
  pe_store_pick :: "sshrack_error + store_pick option"
  pe_show_error :: "sshrack_error \<Rightarrow> string"

section \<open>Sealing what the form collected\<close>

definition opt_plain :: "secret option \<Rightarrow> bool" where
  "opt_plain s = (case s of Some (Plain _) \<Rightarrow> True | _ \<Rightarrow> False)"

definition body_has_plaintext_secret :: "credential_body \<Rightarrow> bool" where
  "body_has_plaintext_secret body \<longleftrightarrow>
     opt_plain (b_password body)
     \<or> (case b_key body of
          Some (KeyInline ik) \<Rightarrow> opt_plain (ik_private_key ik) \<or> opt_plain (ik_certificate ik)
        | _ \<Rightarrow> False)"

definition seal_fresh_secret ::
  "crates \<Rightarrow> 'b backend \<Rightarrow> persist_env \<Rightarrow> owner_kind \<Rightarrow> ulid \<Rightarrow> sshrack_config \<Rightarrow> credential_body \<Rightarrow> 'b world \<Rightarrow>
   (sshrack_error + credential_body) \<times> 'b world" where
  "seal_fresh_secret X be env k u cfg body w =
     (if \<not> body_has_plaintext_secret body then (Inr body, w)
      else if store cfg = None then (Inl StoreModeNotDecided, w)
      else
        (let ce = pe_cli env
         in case ensure_unlocked_vault_key X (ce_vault ce) cfg (passphrase_from (ce_passphrase_env ce))
                   (ce_provider ce) w of
              (Inl e, w1) \<Rightarrow> (Inl e, w1)
            | (Inr vk, w1) \<Rightarrow> seal_body X be body k u cfg vk w1))"

section \<open>Writing and reloading\<close>

text \<open>The file is the source of truth: the configuration is saved and read back.\<close>

definition save_and_load ::
  "persist_env \<Rightarrow> string \<Rightarrow> sshrack_config \<Rightarrow> files \<Rightarrow> (sshrack_error + sshrack_config) \<times> files" where
  "save_and_load env path cfg fs =
     (case config_save (ce_toml (pe_cli env)) (ce_os (pe_cli env)) path cfg fs of
        (Inl e, fs1) \<Rightarrow> (Inl e, fs1)
      | (Inr _, fs1) \<Rightarrow> (config_load (ce_toml (pe_cli env)) path fs1, fs1))"

definition install_config ::
  "persist_env \<Rightarrow> sshrack_config \<Rightarrow> 't tui_app \<Rightarrow> 'b cli_state \<Rightarrow> (sshrack_error + unit) \<times> 't tui_app \<times> 'b cli_state" where
  "install_config env cfg app st =
     (case ap_config_path app of
        None \<Rightarrow> (Inr (), set_config cfg app, st)
      | Some path \<Rightarrow>
          (case save_and_load env path cfg (cs_files st) of
             (Inl e, fs) \<Rightarrow> (Inl e, app, st\<lparr>cs_files := fs\<rparr>)
           | (Inr loaded, fs) \<Rightarrow> (Inr (), set_config loaded app, st\<lparr>cs_files := fs\<rparr>)))"

definition persist_and_reload ::
  "persist_env \<Rightarrow> 't tui_app \<Rightarrow> 'b cli_state \<Rightarrow> (sshrack_error + unit) \<times> 't tui_app \<times> 'b cli_state" where
  "persist_and_reload env app st =
     (case ap_config_path app of
        None \<Rightarrow> (Inr (), app, st)
      | Some _ \<Rightarrow> install_config env (ap_config app) app st)"

section \<open>Hosts\<close>

definition resolve_form_credential ::
  "sshrack_config \<Rightarrow> 't host_form \<Rightarrow> sshrack_error + ulid option" where
  "resolve_form_credential cfg form =
     (case selected_credential_name form of
        None \<Rightarrow> Inr None
      | Some name \<Rightarrow>
          (case find_credential_by_name cfg name of
             Some c \<Rightarrow> Inr (Some (c_id c))
           | None \<Rightarrow> Inl (CredentialNotFound name (DidYouMean None))))"

definition host_target_id :: "ulid \<Rightarrow> 't host_form \<Rightarrow> sshrack_error + ulid" where
  "host_target_id fresh form =
     (if hf_editing form then ok_or (MissingRequiredField ''orig_id (edit mode)'') (hf_orig_id form)
      else Inr fresh)"

text \<open>An edit with a blank password field keeps the password and the marker of the host.\<close>

definition keep_host_password ::
  "sshrack_config \<Rightarrow> 't host_form \<Rightarrow> ulid \<Rightarrow> auth \<Rightarrow> sshrack_error + auth" where
  "keep_host_password cfg form u a =
     (case a of
        AuthInline body \<Rightarrow>
          (if hf_editing form \<and> hf_secret form = ChoosePassword \<and> hf_password form = [] \<and> b_password body = None
           then (case find_host_by_id cfg u of
                   None \<Rightarrow> Inl (HostNotFound u (DidYouMean None))
                 | Some orig \<Rightarrow>
                     (case inline_body (h_auth orig) of
                        Some ob \<Rightarrow> Inr (AuthInline (body\<lparr>b_password := b_password ob, b_keyring := b_keyring ob\<rparr>))
                      | None \<Rightarrow> Inr a))
           else Inr a)
      | AuthRef _ \<Rightarrow> Inr a)"

definition seal_form_auth ::
  "crates \<Rightarrow> 'b backend \<Rightarrow> persist_env \<Rightarrow> ulid \<Rightarrow> sshrack_config \<Rightarrow> auth \<Rightarrow> 'b world \<Rightarrow>
   (sshrack_error + auth) \<times> 'b world" where
  "seal_form_auth X be env u cfg a w =
     (case a of
        AuthRef _ \<Rightarrow> (Inr a, w)
      | AuthInline body \<Rightarrow>
          (if body_has_plaintext_secret body
           then (case seal_fresh_secret X be env OwnerHost u cfg body w of
                   (Inl e, w1) \<Rightarrow> (Inl e, w1)
                 | (Inr b, w1) \<Rightarrow> (Inr (AuthInline b), w1))
           else (Inr a, w)))"

definition edited_config ::
  "sshrack_config \<Rightarrow> ulid \<Rightarrow> string \<Rightarrow> string \<Rightarrow> 16 word \<Rightarrow> string option \<Rightarrow> auth \<Rightarrow> sshrack_error + sshrack_config" where
  "edited_config cfg u name addr port args a =
     (case find_host_by_id cfg u of
        None \<Rightarrow> Inl (HostNotFound u (DidYouMean None))
      | Some orig \<Rightarrow>
          and_then (if h_name orig \<noteq> name then validate_rename cfg (h_name orig) name else Inr ())
            (\<lambda>_. Inr (replace_host_by_id u (finalize_host u name addr port args a) cfg)))"

definition added_config ::
  "splitter \<Rightarrow> sshrack_config \<Rightarrow> ulid \<Rightarrow> string \<Rightarrow> string \<Rightarrow> 16 word \<Rightarrow> string option \<Rightarrow> auth \<Rightarrow>
   sshrack_error + sshrack_config" where
  "added_config sh cfg u name addr port args a =
     and_then (validate_no_duplicate cfg name False) (\<lambda>_. add_host sh cfg u name addr port args a)"

text \<open>The new configuration of a host save, before it is written.\<close>

definition host_save_config ::
  "crates \<Rightarrow> 'b backend \<Rightarrow> persist_env \<Rightarrow> sshrack_config \<Rightarrow> 't host_form \<Rightarrow> 'b world \<Rightarrow>
   (sshrack_error + (ulid \<times> sshrack_config)) \<times> 'b world" where
  "host_save_config X be env cfg form w =
     (case and_then (resolve_form_credential cfg form) (\<lambda>rc.
             and_then (host_target_id (pe_fresh env) form) (\<lambda>u.
             and_then (keep_host_password cfg form u (host_form_auth form rc)) (\<lambda>a. Inr (u, a)))) of
        Inl e \<Rightarrow> (Inl e, w)
      | Inr (u, a) \<Rightarrow>
          (case seal_form_auth X be env u cfg a w of
             (Inl e, w1) \<Rightarrow> (Inl e, w1)
           | (Inr sealed, w1) \<Rightarrow>
               (let name = trim (hf_name form); addr = trim (hf_host_addr form);
                    port = parsed_port form; args = form_ssh_args form
                in (and_then (if hf_editing form then edited_config cfg u name addr port args sealed
                              else added_config (pe_splitter env) cfg u name addr port args sealed)
                      (\<lambda>cfg'. Inr (u, cfg')), w1))))"

definition persist_host_save ::
  "crates \<Rightarrow> 'b backend \<Rightarrow> persist_env \<Rightarrow> 't tui_app \<Rightarrow> 'b cli_state \<Rightarrow>
   (sshrack_error + ulid option) \<times> 't tui_app \<times> 'b cli_state" where
  "persist_host_save X be env app st =
     (case ap_overlay app of
        Some (HostWizard form) \<Rightarrow>
          (case host_save_config X be env (ap_config app) form (cs_world st) of
             (Inl e, w) \<Rightarrow> (Inl e, app, st\<lparr>cs_world := w\<rparr>)
           | (Inr (u, cfg), w) \<Rightarrow>
               (case install_config env cfg app (st\<lparr>cs_world := w\<rparr>) of
                  (Inl e, a, s) \<Rightarrow> (Inl e, a, s)
                | (Inr _, a, s) \<Rightarrow> (Inr (Some u), a, s)))
      | _ \<Rightarrow> (Inr None, app, st))"

text \<open>Deleting writes first and ranks the panels again when it succeeded.\<close>

definition install_and_rank ::
  "persist_env \<Rightarrow> sshrack_config \<Rightarrow> 't tui_app \<Rightarrow> 'b cli_state \<Rightarrow> (sshrack_error + unit) \<times> 't tui_app \<times> 'b cli_state" where
  "install_and_rank env cfg app st =
     (case install_config env cfg app st of
        (Inl e, a, s) \<Rightarrow> (Inl e, a, s)
      | (Inr _, a, s) \<Rightarrow> (Inr (), recompute_panels (pe_matcher env) a, s))"

definition persist_host_delete ::
  "'b backend \<Rightarrow> persist_env \<Rightarrow> string \<Rightarrow> 't tui_app \<Rightarrow> 'b cli_state \<Rightarrow>
   (sshrack_error + unit) \<times> 't tui_app \<times> 'b cli_state" where
  "persist_host_delete be env name app st =
     (case delete_host_with_secret (pe_similarity env) be (ap_config app) name (w_backend (cs_world st)) of
        (r, b) \<Rightarrow>
          (let st1 = st\<lparr>cs_world := (cs_world st)\<lparr>w_backend := b\<rparr>\<rparr>
           in case r of Inl e \<Rightarrow> (Inl e, app, st1) | Inr cfg \<Rightarrow> install_and_rank env cfg app st1))"

section \<open>Credentials\<close>

definition persist_cred_delete ::
  "'b backend \<Rightarrow> persist_env \<Rightarrow> string \<Rightarrow> 't tui_app \<Rightarrow> 'b cli_state \<Rightarrow>
   (sshrack_error + unit) \<times> 't tui_app \<times> 'b cli_state" where
  "persist_cred_delete be env name app st =
     (case delete_credential_with_secret (pe_similarity env) be (ap_config app) name (w_backend (cs_world st)) of
        (r, b) \<Rightarrow>
          (let st1 = st\<lparr>cs_world := (cs_world st)\<lparr>w_backend := b\<rparr>\<rparr>
           in case r of Inl e \<Rightarrow> (Inl e, app, st1) | Inr cfg \<Rightarrow> install_and_rank env cfg app st1))"

text \<open>The id and the body before sealing.  An edit with a blank password field keeps the password of the
body, but not its keyring marker.\<close>

definition cred_save_body ::
  "similarity \<Rightarrow> ulid \<Rightarrow> sshrack_config \<Rightarrow> 't cred_form \<Rightarrow> sshrack_error + (ulid \<times> credential_body)" where
  "cred_save_body jw fresh cfg form =
     (let name = trim (crf_name form); body = build_cred_body form
      in if crf_editing form
         then and_then (ok_or (MissingRequiredField ''orig_id (cred edit mode)'') (crf_orig_id form)) (\<lambda>u.
                case find_credential_by_id cfg u of
                  None \<Rightarrow> Inl (credential_not_found jw cfg u)
                | Some orig \<Rightarrow>
                    (let kept = (if crf_secret form = ChoosePassword \<and> crf_password form = [] \<and> b_password body = None
                                 then body\<lparr>b_password := b_password (c_body orig)\<rparr> else body)
                     in and_then (if c_name orig \<noteq> name then validate_rename_credential cfg (c_name orig) name
                                  else Inr ())
                          (\<lambda>_. Inr (u, kept))))
         else and_then (validate_no_duplicate_credential cfg name False) (\<lambda>_. Inr (fresh, body)))"

definition cred_save_config ::
  "crates \<Rightarrow> 'b backend \<Rightarrow> persist_env \<Rightarrow> sshrack_config \<Rightarrow> 't cred_form \<Rightarrow> 'b world \<Rightarrow>
   (sshrack_error + sshrack_config) \<times> 'b world" where
  "cred_save_config X be env cfg form w =
     (case cred_save_body (pe_similarity env) (pe_fresh env) cfg form of
        Inl e \<Rightarrow> (Inl e, w)
      | Inr (u, body) \<Rightarrow>
          (case seal_fresh_secret X be env OwnerCredential u cfg body w of
             (Inl e, w1) \<Rightarrow> (Inl e, w1)
           | (Inr sealed, w1) \<Rightarrow>
               (let name = trim (crf_name form)
                in (if crf_editing form
                    then Inr (replace_credential_by_id u \<lparr>c_id = u, c_name = name, c_body = sealed\<rparr> cfg)
                    else add_credential cfg u name sealed, w1))))"

definition persist_cred_save ::
  "crates \<Rightarrow> 'b backend \<Rightarrow> persist_env \<Rightarrow> 't tui_app \<Rightarrow> 'b cli_state \<Rightarrow>
   (sshrack_error + unit) \<times> 't tui_app \<times> 'b cli_state" where
  "persist_cred_save X be env app st =
     (case ap_overlay app of
        Some (CredWizard form) \<Rightarrow>
          (case cred_save_config X be env (ap_config app) form (cs_world st) of
             (Inl e, w) \<Rightarrow> (Inl e, app, st\<lparr>cs_world := w\<rparr>)
           | (Inr cfg, w) \<Rightarrow> install_config env cfg app (st\<lparr>cs_world := w\<rparr>))
      | _ \<Rightarrow> (Inr (), app, st))"

section \<open>Switching the storage mode\<close>

datatype switch_target = ToKeyring | ToVault | ToPlaintext

definition map_store_pick :: "store_pick \<Rightarrow> switch_target" where
  "map_store_pick p =
     (case p of StorePickKeyring \<Rightarrow> ToKeyring | StorePickVault \<Rightarrow> ToVault | StorePickPlaintext \<Rightarrow> ToPlaintext)"

fun target_label :: "switch_target \<Rightarrow> string" where
  "target_label ToKeyring = ''keyring''"
| "target_label ToVault = ''vault''"
| "target_label ToPlaintext = ''plaintext''"

definition set_store_status :: "string \<Rightarrow> 't tui_app \<Rightarrow> 't tui_app" where
  "set_store_status msg app =
     app\<lparr>ap_store_view := map_option (\<lambda>v. v\<lparr>sv_status := Some msg\<rparr>) (ap_store_view app)\<rparr>"

definition already_there :: "switch_target \<Rightarrow> sshrack_config \<Rightarrow> bool" where
  "already_there target cfg =
     (case target of ToKeyring \<Rightarrow> is_keyring cfg | ToVault \<Rightarrow> is_vault cfg | ToPlaintext \<Rightarrow> is_plaintext cfg)"

text \<open>The key of the vault that is left, when one is.\<close>

definition vault_source_key ::
  "crates \<Rightarrow> cli_env \<Rightarrow> sshrack_config \<Rightarrow> 'b world \<Rightarrow> (sshrack_error + vault_key option) \<times> 'b world" where
  "vault_source_key X ce cfg w =
     (if is_vault cfg
      then ensure_unlocked_vault_key X (ce_vault ce) cfg (passphrase_from (ce_passphrase_env ce)) (ce_provider ce) w
      else (Inr None, w))"

text \<open>The migration changes the configuration of the interface in place, also when it fails.\<close>

definition migrate_in_place ::
  "crates \<Rightarrow> 'b backend \<Rightarrow> persist_env \<Rightarrow> secret_store \<Rightarrow> 't tui_app \<Rightarrow> 'b cli_state \<Rightarrow>
   (sshrack_error + bool) \<times> 't tui_app \<times> 'b cli_state" where
  "migrate_in_place X be env target app st =
     (case vault_source_key X (pe_cli env) (ap_config app) (cs_world st) of
        (Inl e, w1) \<Rightarrow> (Inl e, app, st\<lparr>cs_world := w1\<rparr>)
      | (Inr sk, w1) \<Rightarrow>
          (case migrate X be target sk None (ap_config app) (clear_default_cache (ce_vault (pe_cli env)) w1) of
             (Inl e, cfg, w2) \<Rightarrow> (Inl e, app\<lparr>ap_config := cfg\<rparr>, st\<lparr>cs_world := w2\<rparr>)
           | (Inr _, cfg, w2) \<Rightarrow>
               (case persist_and_reload env (app\<lparr>ap_config := cfg\<lparr>store := Some target\<rparr>\<rparr>) (st\<lparr>cs_world := w2\<rparr>) of
                  (Inl e, a, s) \<Rightarrow> (Inl e, a, s)
                | (Inr _, a, s) \<Rightarrow> (Inr True, a, s))))"

definition enable_in_place ::
  "crates \<Rightarrow> 'b backend \<Rightarrow> persist_env \<Rightarrow> 't tui_app \<Rightarrow> 'b cli_state \<Rightarrow>
   (sshrack_error + bool) \<times> 't tui_app \<times> 'b cli_state" where
  "enable_in_place X be env app st =
     (case pp_passphrase_confirm (ce_provider (pe_cli env)) of
        Inl e \<Rightarrow> (Inl e, app, st)
      | Inr p \<Rightarrow>
          (case enable X be p None (ap_config app) (clear_default_cache (ce_vault (pe_cli env)) (cs_world st)) of
             (Inl e, cfg, w) \<Rightarrow> (Inl e, app\<lparr>ap_config := cfg\<rparr>, st\<lparr>cs_world := w\<rparr>)
           | (Inr _, cfg, w) \<Rightarrow>
               (case persist_and_reload env (app\<lparr>ap_config := cfg\<rparr>) (st\<lparr>cs_world := w\<rparr>) of
                  (Inl e, a, s) \<Rightarrow> (Inl e, a, s)
                | (Inr _, a, s) \<Rightarrow> (Inr True, a, s))))"

definition plaintext_warning :: string where
  "plaintext_warning = ''Switching to plaintext mode stores every password in the'' @ [LF]
     @ ''clear in config.toml. Anyone who reads the file gets every'' @ [LF] @ ''password. Continue?''"

definition persist_store_switch ::
  "crates \<Rightarrow> 'b backend \<Rightarrow> persist_env \<Rightarrow> switch_target \<Rightarrow> 't tui_app \<Rightarrow> 'b cli_state \<Rightarrow>
   (sshrack_error + bool) \<times> 't tui_app \<times> 'b cli_state" where
  "persist_store_switch X be env target app st =
     (let cfg = ap_config app;
          refuse = (\<lambda>msg s. (Inr False, set_store_status msg app, s));
          on_world = (\<lambda>w. st\<lparr>cs_world := w\<rparr>)
      in if already_there target cfg then refuse (''already in '' @ target_label target @ '' mode'') st
         else
           (let (ok, w1) = (if is_keyring cfg then probe_backend be (cs_world st) else (True, cs_world st))
            in if \<not> ok then refuse ''keyring unavailable; cannot read keyring entries to migrate'' (on_world w1)
               else case target of
                 ToKeyring \<Rightarrow>
                   (case probe_backend be w1 of
                      (up, w2) \<Rightarrow>
                        if \<not> up then refuse ''OS keyring unavailable; cannot migrate'' (on_world w2)
                        else migrate_in_place X be env StoreKeyring app (on_world w2))
               | ToVault \<Rightarrow> enable_in_place X be env app (on_world w1)
               | ToPlaintext \<Rightarrow>
                   (case pp_confirm (ce_provider (pe_cli env)) plaintext_warning of
                      Inl e \<Rightarrow> (Inl e, app, on_world w1)
                    | Inr False \<Rightarrow> refuse ''plaintext switch declined'' (on_world w1)
                    | Inr True \<Rightarrow> migrate_in_place X be env StorePlaintext app (on_world w1))))"

section \<open>Saving a credential from the form\<close>

definition on_cred_form :: "('t cred_form \<Rightarrow> 't cred_form) \<Rightarrow> 't tui_app \<Rightarrow> 't tui_app" where
  "on_cred_form f app =
     (case ap_overlay app of Some (CredWizard form) \<Rightarrow> app\<lparr>ap_overlay := Some (CredWizard (f form))\<rparr> | _ \<Rightarrow> app)"

definition recover_store_mode_and_retry ::
  "crates \<Rightarrow> 'b backend \<Rightarrow> persist_env \<Rightarrow> 't tui_app \<Rightarrow> 'b cli_state \<Rightarrow>
   (sshrack_error + bool) \<times> 't tui_app \<times> 'b cli_state" where
  "recover_store_mode_and_retry X be env app st =
     (case pe_store_pick env of
        Inl e \<Rightarrow> (Inl e, app, st)
      | Inr None \<Rightarrow> (Inr False, on_cred_form (cred_set_core_error ''store selection cancelled'') app, st)
      | Inr (Some p) \<Rightarrow>
          (case persist_store_switch X be env (map_store_pick p) app st of
             (Inl e, a, s) \<Rightarrow> (Inl e, a, s)
           | (Inr True, a, s) \<Rightarrow>
               (case persist_cred_save X be env a s of
                  (Inl e, a2, s2) \<Rightarrow> (Inl e, a2, s2)
                | (Inr _, a2, s2) \<Rightarrow> (Inr True, a2, s2))
           | (Inr False, a, s) \<Rightarrow>
               (Inr False, on_cred_form (cred_set_core_error
                  (''could not switch store mode (unavailable or declined); ''
                    @ ''switch via the Settings tab'')) a, s)))"

definition credential_saved :: "persist_env \<Rightarrow> 't tui_app \<Rightarrow> 't tui_app" where
  "credential_saved env app = close_cred_wizard (pe_matcher env) (set_app_status ''credential saved'' app)"

definition fulfill_save_cred ::
  "crates \<Rightarrow> 'b backend \<Rightarrow> persist_env \<Rightarrow> 't tui_app \<Rightarrow> 'b cli_state \<Rightarrow> 't tui_app \<times> 'b cli_state" where
  "fulfill_save_cred X be env app st =
     (let show_in_form = (\<lambda>msg a. on_cred_form (cred_set_core_error msg) a)
      in case persist_cred_save X be env app st of
           (Inr _, a, s) \<Rightarrow> (credential_saved env a, s)
         | (Inl StoreModeNotDecided, a, s) \<Rightarrow>
             (case recover_store_mode_and_retry X be env a s of
                (Inr True, a2, s2) \<Rightarrow> (credential_saved env a2, s2)
              | (Inr False, a2, s2) \<Rightarrow> (a2, s2)
              | (Inl e, a2, s2) \<Rightarrow>
                  (show_in_form (if e = Interrupted then ''cancelled'' else pe_show_error env e) a2, s2))
         | (Inl e, a, s) \<Rightarrow>
             (show_in_form (if e = Interrupted then ''vault unlock cancelled'' else pe_show_error env e) a, s))"

end
