(* ===== verification/Tui_Connect.thy ===== *)
theory Tui_Connect
  imports Tui_Persist
begin

text \<open>What the terminal interface does before it hands a connection back (\<^verbatim>\<open>tui/connect.rs\<close>) and how
it opens a file-transfer session (\<^verbatim>\<open>tui/transfer/open.rs\<close>).  The environment of a tick is that of
the connecting commands with the answers of the popups; the state is the interface and the state of the
process.\<close>

record 't tui_env =
  tn_run :: run_env
  tn_app :: "'t app_env"
  tn_store_pick :: "sshrack_error + store_pick option"
  tn_show_error :: "sshrack_error \<Rightarrow> string"
  tn_tick :: tick_env
  tn_current_dir :: "io_error + string"
  tn_spawn_error :: "string option"

abbreviation tn_cmd :: "'t tui_env \<Rightarrow> cmd_env" where
  "tn_cmd env \<equiv> re_cmd (tn_run env)"

abbreviation tn_cli :: "'t tui_env \<Rightarrow> cli_env" where
  "tn_cli env \<equiv> cm_cli (tn_cmd env)"

abbreviation tn_matcher :: "'t tui_env \<Rightarrow> matcher" where
  "tn_matcher env \<equiv> ae_matcher (tn_app env)"

definition tn_persist :: "'t tui_env \<Rightarrow> persist_env" where
  "tn_persist env =
     \<lparr>pe_cli = tn_cli env, pe_similarity = cm_similarity (tn_cmd env), pe_splitter = cm_splitter (tn_cmd env),
      pe_matcher = tn_matcher env, pe_fresh = cm_fresh (tn_cmd env), pe_store_pick = tn_store_pick env,
      pe_show_error = tn_show_error env\<rparr>"

section \<open>Connecting\<close>

text \<open>The vault is unlocked and the authentication of the host resolved.\<close>

definition tui_auth ::
  "crates \<Rightarrow> 'b backend \<Rightarrow> 't tui_env \<Rightarrow> sshrack_config \<Rightarrow> host \<Rightarrow> 'b world \<Rightarrow> (sshrack_error + resolved_auth) \<times> 'b world" where
  "tui_auth X be env cfg h w =
     (let ce = tn_cli env
      in case ensure_unlocked_vault_key X (ce_vault ce) cfg (passphrase_from (ce_passphrase_env ce)) (ce_provider ce) w of
           (Inl e, w1) \<Rightarrow> (Inl e, w1)
         | (Inr key, w1) \<Rightarrow> (resolve X (cm_similarity (tn_cmd env)) h cfg key be (w_backend w1), w1))"

definition no_overrides :: overrides where
  "no_overrides = \<lparr>ov_user = None, ov_port = None, ov_identity = None, ov_credential = None\<rparr>"

text \<open>The use is recorded in the table of the interface, and saved when there is a data directory.\<close>

definition tui_record_use :: "'t tui_env \<Rightarrow> ulid \<Rightarrow> frecency \<Rightarrow> files \<Rightarrow> frecency \<times> files" where
  "tui_record_use env u frec fs =
     (let f = record_at frec u (re_now (tn_run env))
      in (f, case cm_data_dir (tn_cmd env) of
               None \<Rightarrow> fs
             | Some dir \<Rightarrow> snd (frecency_save (cm_frecency_toml (tn_cmd env)) (re_os (tn_run env)) dir f fs)))"

text \<open>The question about an unknown host key is a popup; its state is the flag of an interruption.\<close>

definition tui_host_key_flow :: "'t tui_env \<Rightarrow> host \<Rightarrow> files \<Rightarrow> (sshrack_error + unit) \<times> bool \<times> files" where
  "tui_host_key_flow env h fs =
     run_host_key_flow (re_hostkey (tn_run env)) (h_host h) (h_port h) True False
       (\<lambda>msg flag. host_key_closure (pp_confirm (ce_provider (tn_cli env)) msg) flag) False fs"

definition connect_host ::
  "crates \<Rightarrow> 'b backend \<Rightarrow> 't tui_env \<Rightarrow> ulid \<Rightarrow> 't tui_app \<Rightarrow> 'b run_state \<Rightarrow>
   (sshrack_error + connect_request) \<times> 't tui_app \<times> 'b run_state" where
  "connect_host X be env u app st =
     (case find_host_by_id (ap_config app) u of
        None \<Rightarrow> (Inl (HostNotFound u (DidYouMean None)), app, st)
      | Some h \<Rightarrow>
          (case tui_auth X be env (ap_config app) h (rs_world st) of
             (Inl e, w) \<Rightarrow> (Inl e, app, st\<lparr>rs_world := w\<rparr>)
           | (Inr au, w) \<Rightarrow>
               (case materialize_inline_key (re_os (tn_run env)) au (rs_temp st) of
                  (Inl e, _, ts) \<Rightarrow> (Inl e, app, st\<lparr>rs_world := w, rs_temp := ts\<rparr>)
                | (Inr art, au1, ts) \<Rightarrow>
                    (case tui_host_key_flow env h (ts_files ts) of
                       (r, interrupted, fs) \<Rightarrow>
                         (let ts1 = ts\<lparr>ts_files := fs\<rparr>;
                              give_up = (\<lambda>e. (Inl e, app,
                                st\<lparr>rs_world := w, rs_temp := drop_artifact (re_os (tn_run env)) art ts1\<rparr>))
                          in case r of
                               Inl e \<Rightarrow> give_up e
                             | Inr _ \<Rightarrow>
                                 if interrupted then give_up Interrupted
                                 else
                                   (let (frec, fs') = tui_record_use env (h_id h) (ap_frecency app) fs
                                    in (Inr \<lparr>cq_argv = ssh_build (cm_splitter (tn_cmd env)) au1 h no_overrides [],
                                             cq_source = ra_password au1, cq_key_artifact = art\<rparr>,
                                        app\<lparr>ap_frecency := frec\<rparr>,
                                        st\<lparr>rs_world := w, rs_temp := ts1\<lparr>ts_files := fs'\<rparr>\<rparr>)))))))"

section \<open>Opening a transfer session\<close>

definition remote_title :: "string \<Rightarrow> string \<Rightarrow> string \<Rightarrow> string" where
  "remote_title name user addr = (if name = [] \<or> name = addr then user @ ''@'' @ addr else name)"

definition transfer_user :: "string option \<Rightarrow> string \<Rightarrow> string" where
  "transfer_user override_user resolved_user = (case override_user of Some u \<Rightarrow> u | None \<Rightarrow> resolved_user)"

text \<open>The screen as it is shown before the worker has connected.\<close>

definition opened_screen :: "tick_env \<Rightarrow> string \<Rightarrow> string \<Rightarrow> transfer_screen" where
  "opened_screen tick cwd title =
     (let sc = on_pane LocalSide (set_loading True)
                 (on_pane RemoteSide (set_loading True) ((screen_new cwd ''/'')\<lparr>sc_remote_title := title\<rparr>))
      in case te_navigate tick cwd of
           Inr es \<Rightarrow> on_pane LocalSide (\<lambda>p. set_loading False (pane_set_entries (te_rank tick) es p)) sc
         | Inl msg \<Rightarrow>
             set_status (status_error (''local list failed: '' @ msg)) (on_pane LocalSide (set_loading False) sc))"

definition start_worker :: "'t tui_env \<Rightarrow> sshrack_error + string" where
  "start_worker env =
     and_then (map_err SelfExe (re_self_exe (tn_run env))) (\<lambda>_.
     and_then (case tn_spawn_error env of Some d \<Rightarrow> Inl (SftpOpenFailed d) | None \<Rightarrow> Inr ()) (\<lambda>_.
       map_err Io (tn_current_dir env)))"

definition open_transfer ::
  "crates \<Rightarrow> 'b backend \<Rightarrow> 't tui_env \<Rightarrow> host \<Rightarrow> string option \<Rightarrow> 't tui_app \<Rightarrow> 'b run_state \<Rightarrow>
   (sshrack_error + unit) \<times> 't tui_app \<times> 'b run_state" where
  "open_transfer X be env h user app st =
     (case tui_auth X be env (ap_config app) h (rs_world st) of
        (Inl e, w) \<Rightarrow> (Inl e, app, st\<lparr>rs_world := w\<rparr>)
      | (Inr au, w) \<Rightarrow>
          (case materialize_inline_key (re_os (tn_run env)) au (rs_temp st) of
             (Inl e, _, ts) \<Rightarrow> (Inl e, app, st\<lparr>rs_world := w, rs_temp := ts\<rparr>)
           | (Inr art, au1, ts) \<Rightarrow>
               (case start_worker env of
                  Inl e \<Rightarrow> (Inl e, app, st\<lparr>rs_world := w, rs_temp := drop_artifact (re_os (tn_run env)) art ts\<rparr>)
                | Inr cwd \<Rightarrow>
                    (Inr (),
                     app\<lparr>ap_transfer := (ap_transfer app)\<lparr>ta_worker := True,
                            ta_transfer := Some (opened_screen (tn_tick env) cwd
                              (remote_title (h_name h) (transfer_user user (ra_user au1)) (h_host h)))\<rparr>,
                         ap_transfer_key := art\<rparr>,
                     st\<lparr>rs_world := w,
                        rs_temp := drop_artifact (re_os (tn_run env)) (ap_transfer_key app) ts\<rparr>))))"

end
