(* ===== verification/Tui_Loop.thy ===== *)
theory Tui_Loop
  imports Tui_Connect
begin

text \<open>The event loop (\<^verbatim>\<open>tui/run_loop.rs\<close>) and the entry of the terminal interface
(\<^verbatim>\<open>tui/mod.rs\<close>).  A tick has an environment and what its poll brought; the loop runs over a list of
ticks and has no result when the list ends before it returns.  Drawing is not modelled, so the borrow of the
terminal is not either.\<close>

section \<open>Carrying out an intent\<close>

text \<open>After an intent the tick goes on to drain the worker, goes to the next tick at once, or the loop returns.\<close>

datatype flow = FlowDrain | FlowSkip | FlowReturn "connect_request option"

text \<open>Operations on the world and the files, run on the state of the process.\<close>

definition on_process ::
  "('t tui_app \<Rightarrow> 'b cli_state \<Rightarrow> 'r \<times> 't tui_app \<times> 'b cli_state) \<Rightarrow> 't tui_app \<Rightarrow> 'b run_state \<Rightarrow>
   'r \<times> 't tui_app \<times> 'b run_state" where
  "on_process f app st =
     (case f app \<lparr>cs_world = rs_world st, cs_files = ts_files (rs_temp st)\<rparr> of
        (r, a, s) \<Rightarrow>
          (r, a, st\<lparr>rs_world := cs_world s, rs_temp := (rs_temp st)\<lparr>ts_files := cs_files s\<rparr>\<rparr>))"

definition report_unless_cancelled :: "'t tui_env \<Rightarrow> sshrack_error \<Rightarrow> 't tui_app \<Rightarrow> 't tui_app" where
  "report_unless_cancelled env e app =
     (if e = Interrupted then app else report_failure (tn_show_error env) e app)"

definition start_connect ::
  "crates \<Rightarrow> 'b backend \<Rightarrow> 't tui_env \<Rightarrow> 't tui_app \<Rightarrow> 'b run_state \<Rightarrow> flow \<times> 't tui_app \<times> 'b run_state" where
  "start_connect X be env app st =
     (case la_pending_connect (ap_launcher app) of
        None \<Rightarrow> (FlowSkip, app, st)
      | Some u \<Rightarrow>
          (case connect_host X be env u (app\<lparr>ap_launcher := (ap_launcher app)\<lparr>la_pending_connect := None\<rparr>\<rparr>) st of
             (Inr req, a, s) \<Rightarrow> (FlowReturn (Some req), a, s)
           | (Inl e, a, s) \<Rightarrow> (FlowDrain, report_unless_cancelled env e a, s)))"

definition on_host_form :: "('t host_form \<Rightarrow> 't host_form) \<Rightarrow> 't tui_app \<Rightarrow> 't tui_app" where
  "on_host_form f app =
     (case ap_overlay app of Some (HostWizard form) \<Rightarrow> app\<lparr>ap_overlay := Some (HostWizard (f form))\<rparr> | _ \<Rightarrow> app)"

definition save_host_intent ::
  "crates \<Rightarrow> 'b backend \<Rightarrow> 't tui_env \<Rightarrow> 't tui_app \<Rightarrow> 'b run_state \<Rightarrow> 't tui_app \<times> 'b run_state" where
  "save_host_intent X be env app st =
     (case on_process (persist_host_save X be (tn_persist env)) app st of
        (Inr saved, a, s) \<Rightarrow> (close_host_wizard (tn_matcher env) saved (set_app_status ''host saved'' a), s)
      | (Inl e, a, s) \<Rightarrow> (on_host_form (host_set_core_error (tn_show_error env e)) a, s))"

definition save_cred_intent ::
  "crates \<Rightarrow> 'b backend \<Rightarrow> 't tui_env \<Rightarrow> 't tui_app \<Rightarrow> 'b run_state \<Rightarrow> 't tui_app \<times> 'b run_state" where
  "save_cred_intent X be env app st =
     snd (on_process (\<lambda>a s. ((), fulfill_save_cred X be (tn_persist env) a s)) app st)"

definition switch_intent ::
  "crates \<Rightarrow> 'b backend \<Rightarrow> 't tui_env \<Rightarrow> switch_target \<Rightarrow> 't tui_app \<Rightarrow> 'b run_state \<Rightarrow> 't tui_app \<times> 'b run_state" where
  "switch_intent X be env target app st =
     (case on_process (persist_store_switch X be (tn_persist env) target) app st of
        (Inr True, a, s) \<Rightarrow>
          (set_app_status (''switched to '' @ target_label target @ '' mode'')
             ((close_store_view (tn_matcher env) a)\<lparr>ap_overlay := None\<rparr>), s)
      | (Inr False, a, s) \<Rightarrow> (a, s)
      | (Inl e, a, s) \<Rightarrow> (if e = Interrupted then a else set_store_status (tn_show_error env e) a, s))"

text \<open>A removal asks first; a refusal and a cancelled popup close what is open.\<close>

definition confirmed_removal ::
  "'t tui_env \<Rightarrow> string \<Rightarrow> string \<Rightarrow>
   ('t tui_app \<Rightarrow> 'b cli_state \<Rightarrow> (sshrack_error + unit) \<times> 't tui_app \<times> 'b cli_state) \<Rightarrow>
   't tui_app \<Rightarrow> 'b run_state \<Rightarrow> 't tui_app \<times> 'b run_state" where
  "confirmed_removal env kind name act app st =
     (case pp_confirm (ce_provider (tn_cli env)) (''Remove '' @ kind @ '' '' @ quoted name @ ''?'') of
        Inr True \<Rightarrow>
          (case on_process act app st of
             (Inr _, a, s) \<Rightarrow> (set_app_status (''removed '' @ quoted name) (a\<lparr>ap_overlay := None\<rparr>), s)
           | (Inl e, a, s) \<Rightarrow> (report_failure (tn_show_error env) e a, s))
      | Inr False \<Rightarrow> (app\<lparr>ap_overlay := None\<rparr>, st)
      | Inl e \<Rightarrow>
          (if e = Interrupted then app\<lparr>ap_overlay := None\<rparr> else report_failure (tn_show_error env) e app, st))"

definition delete_host_intent ::
  "'b backend \<Rightarrow> 't tui_env \<Rightarrow> 't tui_app \<Rightarrow> 'b run_state \<Rightarrow> flow \<times> 't tui_app \<times> 'b run_state" where
  "delete_host_intent be env app st =
     (case ap_pending_delete app of
        None \<Rightarrow> (FlowSkip, app, st)
      | Some u \<Rightarrow>
          (let name = (case find_host_by_id (ap_config app) u of Some h \<Rightarrow> h_name h | None \<Rightarrow> u)
           in (FlowDrain, confirmed_removal env ''host'' name (persist_host_delete be (tn_persist env) name)
                (app\<lparr>ap_pending_delete := None\<rparr>) st)))"

definition delete_cred_intent ::
  "'b backend \<Rightarrow> 't tui_env \<Rightarrow> 't tui_app \<Rightarrow> 'b run_state \<Rightarrow> flow \<times> 't tui_app \<times> 'b run_state" where
  "delete_cred_intent be env app st =
     (case ap_pending_delete_cred app of
        None \<Rightarrow> (FlowSkip, app, st)
      | Some name \<Rightarrow>
          (FlowDrain, confirmed_removal env ''credential'' name (persist_cred_delete be (tn_persist env) name)
             (app\<lparr>ap_pending_delete_cred := None\<rparr>) st))"

text \<open>The transfer target that waits, from a key or from the command line.\<close>

definition open_pending ::
  "crates \<Rightarrow> 'b backend \<Rightarrow> 't tui_env \<Rightarrow> host \<times> string option \<Rightarrow> 't tui_app \<Rightarrow> 'b run_state \<Rightarrow> 't tui_app \<times> 'b run_state" where
  "open_pending X be env target app st =
     (case open_transfer X be env (fst target) (snd target) (app\<lparr>ap_pending_transfer_host := None\<rparr>) st of
        (Inr _, a, s) \<Rightarrow> (a, s)
      | (Inl e, a, s) \<Rightarrow> (report_unless_cancelled env e a, s))"

definition close_transfer_intent :: "'t tui_env \<Rightarrow> 't tui_app \<Rightarrow> 'b run_state \<Rightarrow> 't tui_app \<times> 'b run_state" where
  "close_transfer_intent env app st =
     (app_close_transfer app,
      st\<lparr>rs_temp := drop_artifact (re_os (tn_run env)) (ap_transfer_key app) (rs_temp st)\<rparr>)"

definition handle_intent ::
  "crates \<Rightarrow> 'b backend \<Rightarrow> 't tui_env \<Rightarrow> 't intent \<Rightarrow> 't tui_app \<Rightarrow> 'b run_state \<Rightarrow> flow \<times> 't tui_app \<times> 'b run_state" where
  "handle_intent X be env out app st =
     (case out of
        IntentQuit \<Rightarrow> (FlowReturn None, app, st)
      | IntentConnect \<Rightarrow> start_connect X be env app st
      | IntentSaveHost \<Rightarrow> (FlowDrain, save_host_intent X be env app st)
      | IntentSaveCred \<Rightarrow> (FlowDrain, save_cred_intent X be env app st)
      | IntentCancel \<Rightarrow> (FlowDrain, close_overlay (tn_matcher env) app, st)
      | IntentToKeyring \<Rightarrow> (FlowDrain, switch_intent X be env ToKeyring app st)
      | IntentToVault \<Rightarrow> (FlowDrain, switch_intent X be env ToVault app st)
      | IntentToPlaintext \<Rightarrow> (FlowDrain, switch_intent X be env ToPlaintext app st)
      | IntentDeleteHost \<Rightarrow> delete_host_intent be env app st
      | IntentDeleteCred \<Rightarrow> delete_cred_intent be env app st
      | IntentOpenTransfer \<Rightarrow>
          (case ap_pending_transfer_host app of
             None \<Rightarrow> (FlowSkip, app, st)
           | Some target \<Rightarrow> (FlowDrain, open_pending X be env target app st))
      | IntentCloseTransfer \<Rightarrow> (FlowDrain, close_transfer_intent env app st)
      | _ \<Rightarrow> (FlowDrain, app, st))"

section \<open>The loop\<close>

datatype tick_result = TickNext | TickReturn "connect_request option"

definition drain_tick :: "'t tui_env \<Rightarrow> 't tui_app \<Rightarrow> 't tui_app" where
  "drain_tick env app =
     (if ta_worker (ap_transfer app)
      then app\<lparr>ap_transfer := drain_transfer_events (tn_tick env) (ap_transfer app)\<rparr> else app)"

definition end_tick :: "'t tui_env \<Rightarrow> 't tui_app \<times> 'b run_state \<Rightarrow> tick_result \<times> 't tui_app \<times> 'b run_state" where
  "end_tick env s =
     (let a = drain_tick env (fst s) in (if ap_should_quit a then TickReturn None else TickNext, a, snd s))"

definition spin :: "'t tui_app \<Rightarrow> 't tui_app" where
  "spin app = app\<lparr>ap_transfer := on_screen advance_spinner (ap_transfer app)\<rparr>"

definition tui_tick ::
  "crates \<Rightarrow> 'b backend \<Rightarrow> 't tui_env \<Rightarrow> tui_event \<Rightarrow> 't tui_app \<times> 'b run_state \<Rightarrow>
   tick_result \<times> 't tui_app \<times> 'b run_state" where
  "tui_tick X be env ev s =
     (let app = spin (fst s); st = snd s
      in case ev of
           EventFail _ \<Rightarrow> (TickNext, app, st)
         | EventKey key \<Rightarrow>
             (case app_on_key (tn_app env) key app of
                (out, a) \<Rightarrow>
                  (case handle_intent X be env out a st of
                     (FlowReturn r, s') \<Rightarrow> (TickReturn r, s')
                   | (FlowSkip, s') \<Rightarrow> (TickNext, s')
                   | (FlowDrain, s') \<Rightarrow> end_tick env s'))
         | _ \<Rightarrow> end_tick env (app, st))"

fun tui_ticks ::
  "crates \<Rightarrow> 'b backend \<Rightarrow> ('t tui_env \<times> tui_event) list \<Rightarrow> 't tui_app \<times> 'b run_state \<Rightarrow>
   (connect_request option \<times> 't tui_app \<times> 'b run_state) option" where
  "tui_ticks X be [] s = None"
| "tui_ticks X be ((env, ev) # rest) s =
     (case tui_tick X be env ev s of
        (TickReturn r, s') \<Rightarrow> Some (r, s')
      | (TickNext, s') \<Rightarrow> tui_ticks X be rest s')"

text \<open>The first tick opens the transfer screen of the command line before it polls.\<close>

definition first_tick ::
  "crates \<Rightarrow> 'b backend \<Rightarrow> 't tui_env \<Rightarrow> 't tui_app \<times> 'b run_state \<Rightarrow> 't tui_app \<times> 'b run_state" where
  "first_tick X be env s =
     (case ap_pending_transfer_host (fst s) of
        None \<Rightarrow> s | Some target \<Rightarrow> open_pending X be env target (fst s) (snd s))"

definition run_loop ::
  "crates \<Rightarrow> 'b backend \<Rightarrow> ('t tui_env \<times> tui_event) list \<Rightarrow> 't tui_app \<times> 'b run_state \<Rightarrow>
   (connect_request option \<times> 't tui_app \<times> 'b run_state) option" where
  "run_loop X be ticks s =
     (case ticks of [] \<Rightarrow> None | (env, _) # _ \<Rightarrow> tui_ticks X be ticks (first_tick X be env s))"

section \<open>The entry\<close>

text \<open>An undecided configuration becomes a keyring one when the keyring answers; a failure to save that is
ignored.\<close>

definition adopt_keyring ::
  "'b backend \<Rightarrow> run_env \<Rightarrow> sshrack_config \<Rightarrow> 'b run_state \<Rightarrow> sshrack_config \<times> 'b run_state" where
  "adopt_keyring be env cfg st =
     (case probe_backend be (rs_world st) of
        (up, w) \<Rightarrow>
          (case auto_default_store_mode (store cfg = None) up of
             None \<Rightarrow> (cfg, st\<lparr>rs_world := w\<rparr>)
           | Some mode \<Rightarrow>
               (let c = cfg\<lparr>store := Some mode\<rparr>; fs = ts_files (rs_temp st)
                in (c, st\<lparr>rs_world := w, rs_temp := (rs_temp st)\<lparr>ts_files :=
                     (case re_config_path env of
                        None \<Rightarrow> fs
                      | Some p \<Rightarrow> snd (config_save (ce_toml (cm_cli (re_cmd env))) (re_os env) p c fs))\<rparr>\<rparr>))))"

definition load_frecency :: "run_env \<Rightarrow> files \<Rightarrow> frecency" where
  "load_frecency env fs =
     (case cm_data_dir (re_cmd env) of
        None \<Rightarrow> Map.empty
      | Some dir \<Rightarrow>
          (case frecency_load (cm_frecency_toml (re_cmd env)) (cm_ulid_parse (re_cmd env)) (cm_keys (re_cmd env)) dir fs of
             Inr f \<Rightarrow> f | Inl _ \<Rightarrow> Map.empty))"

text \<open>The interface as the loop starts with it.\<close>

definition tui_start ::
  "'b backend \<Rightarrow> run_env \<Rightarrow> matcher \<Rightarrow> cli \<Rightarrow> 'b run_state \<Rightarrow> (sshrack_error + 't tui_app) \<times> 'b run_state" where
  "tui_start be env m c st =
     (case (case re_config_path env of
              None \<Rightarrow> Inr default_config
            | Some p \<Rightarrow> config_load (ce_toml (cm_cli (re_cmd env))) p (ts_files (rs_temp st))) of
        Inl e \<Rightarrow> (Inl e, st)
      | Inr cfg0 \<Rightarrow>
          (case adopt_keyring be env cfg0 st of
             (cfg, st1) \<Rightarrow>
               (map_sum id
                  (\<lambda>target. apply_entry_mode (entry_mode_from_cmd (cl_cmd c))
                     ((app_new m cfg (re_config_path env) (load_frecency env (ts_files (rs_temp st1)))
                        (credential_name_table cfg))\<lparr>ap_pending_transfer_host := target\<rparr>))
                  (resolve_transfer_target (cm_similarity (re_cmd env)) (cm_fresh (re_cmd env)) (cl_cmd c) cfg
                     (cl_connect_opts c)), st1)))"

text \<open>When the loop has returned, the interface is dropped and the key of an open transfer with it.\<close>

definition tui_run ::
  "crates \<Rightarrow> 'b backend \<Rightarrow> run_env \<Rightarrow> matcher \<Rightarrow> cli \<Rightarrow> sshrack_error option \<Rightarrow> ('t tui_env \<times> tui_event) list \<Rightarrow>
   'b run_state \<Rightarrow> ((sshrack_error + connect_request option) \<times> 'b run_state) option" where
  "tui_run X be env m c enter_error ticks st =
     (case tui_start be env m c st of
        (Inl e, st1) \<Rightarrow> Some (Inl e, st1)
      | (Inr app, st1) \<Rightarrow>
          (case enter_error of
             Some e \<Rightarrow> Some (Inl e, st1)
           | None \<Rightarrow>
               map_option (\<lambda>(req, app', st').
                   (Inr req, st'\<lparr>rs_temp := drop_artifact (re_os env) (ap_transfer_key app') (rs_temp st')\<rparr>))
                 (run_loop X be ticks (app, st1))))"

end
