(* ===== verification/Form_Props.thy ===== *)
theory Form_Props
  imports Cred_Form
begin

text \<open>What the keys of the two forms keep: the focus is on a field that is shown, at most one popup is open
and on the row it belongs to, an error is the error of the focused field, and a save is asked for only by
a form that validates.\<close>

section \<open>Moving the focus\<close>

text \<open>A ring of fields of which some are shown.  The two forms are instances.\<close>

locale focus_ring =
  fixes order :: "'f list" and reach :: "'s \<Rightarrow> 'f \<Rightarrow> bool" and start :: 'f
  assumes order_distinct: "distinct order" and start_shown: "start \<in> set order" "reach s start"
begin

lemma ring_not_empty: "filter (reach s) order \<noteq> []"
  using start_shown by (auto simp: filter_empty_conv)

lemma ring_at: "i < length (filter (reach s) order) \<Longrightarrow> reach s (filter (reach s) order ! i)"
  using nth_mem by fastforce

lemma ring_moved: "reach s (filter (reach s) order ! wrap_cursor i d (length (filter (reach s) order)))"
  by (rule ring_at, rule wrap_cursor_less) (use ring_not_empty in simp)

text \<open>The place of a shown field, and moving there and back.\<close>

lemma ring_position:
  assumes "i < length (filter (reach s) order)"
  shows "position (\<lambda>f. f = filter (reach s) order ! i) (filter (reach s) order) = Some i"
proof -
  let ?xs = "filter (reach s) order"
  have "\<exists>x\<in>set ?xs. x = ?xs ! i" using nth_mem[OF assms] by blast
  then obtain j where j: "position (\<lambda>f. f = ?xs ! i) ?xs = Some j"
    using position_None[of "\<lambda>f. f = ?xs ! i" ?xs] by (cases "position (\<lambda>f. f = ?xs ! i) ?xs") blast+
  then have "j < length ?xs" "?xs ! j = ?xs ! i" using position_Some[OF j] by auto
  then have "j = i" using assms order_distinct nth_eq_iff_index_eq[of ?xs j i] distinct_filter by blast
  then show ?thesis using j by simp
qed

end

interpretation hring: focus_ring HOST_FIELD_ORDER host_reachable_here HfName
  by unfold_locales
    (auto simp: HOST_FIELD_ORDER_def host_reachable_here_def host_field_reachable_def
      split: auth_pick.split secret_choice.split source_choice.split)

interpretation cring: focus_ring CRED_FIELD_ORDER cred_reachable_here CfName
  by unfold_locales
    (auto simp: CRED_FIELD_ORDER_def cred_reachable_here_def cred_field_reachable_def
      split: secret_choice.split source_choice.split)

lemma host_move_focus_eq:
  "\<exists>i c. host_move_focus d f = f\<lparr>hf_focus := host_reachable_fields f ! wrap_cursor i d (length (host_reachable_fields f)),
     hf_error := None, hf_cursor := c\<rparr>"
  using hring.ring_not_empty[of f] by (auto simp: host_move_focus_def host_reachable_fields_def Let_def)

lemma cred_move_focus_eq:
  "\<exists>i c. cred_move_focus d f = f\<lparr>crf_focus := cred_reachable_fields f ! wrap_cursor i d (length (cred_reachable_fields f)),
     crf_error := None, crf_cursor := c\<rparr>"
  using cring.ring_not_empty[of f] by (auto simp: cred_move_focus_def cred_reachable_fields_def Let_def)

section \<open>The host form\<close>

definition host_base_ok :: "'t host_form \<Rightarrow> bool" where
  "host_base_ok f \<longleftrightarrow>
     host_reachable_here f (hf_focus f)
     \<and> (\<forall>i. hf_auth f = PickReference i \<longrightarrow> i < max 1 (length (hf_credential_names f)))
     \<and> (\<forall>e. hf_error f = Some e \<longrightarrow> hf_focus f = host_error_field e)
     \<and> list_all char_is_ascii_digit (hf_port f)"

definition host_plain :: "'t host_form \<Rightarrow> bool" where
  "host_plain f \<longleftrightarrow> hf_cred_picker f = None \<and> hf_key_paste f = None \<and> hf_file_picker f = None"

definition paste_row :: "paste_kind \<Rightarrow> host_field" where
  "paste_row k = (case k of PastePrivate \<Rightarrow> HfInlinePrivate | PasteCert \<Rightarrow> HfInlineCert)"

definition cred_picker_ok :: "string list \<Rightarrow> cred_picker \<Rightarrow> bool" where
  "cred_picker_ok names p \<longleftrightarrow> cp_names p = names \<and> list_all (\<lambda>i. i < length names) (cp_ranked p)"

text \<open>At most one popup, on the row it was opened from.\<close>

definition host_modal_ok :: "'t host_form \<Rightarrow> bool" where
  "host_modal_ok f \<longleftrightarrow>
     (case hf_cred_picker f of
        Some p \<Rightarrow> hf_key_paste f = None \<and> hf_file_picker f = None \<and> hf_focus f = HfCredential
                  \<and> cred_picker_ok (hf_credential_names f) p
      | None \<Rightarrow>
          (case hf_key_paste f of
             Some p \<Rightarrow> hf_file_picker f = None \<and> hf_focus f = paste_row (kp_kind p)
           | None \<Rightarrow> hf_file_picker f \<noteq> None \<longrightarrow> hf_focus f = HfIdentity))"

definition host_form_ok :: "'t host_form \<Rightarrow> bool" where
  "host_form_ok f \<longleftrightarrow> host_base_ok f \<and> host_modal_ok f"

text \<open>What the form is about does not change while it is open.\<close>

definition same_subject :: "'t host_form \<Rightarrow> 't host_form \<Rightarrow> bool" where
  "same_subject f g \<longleftrightarrow>
     hf_editing g = hf_editing f \<and> hf_orig_id g = hf_orig_id f \<and> hf_orig_key g = hf_orig_key f
     \<and> hf_credential_names g = hf_credential_names f"

lemma same_subject_refl [simp]: "same_subject f f"
  by (simp add: same_subject_def)

lemma plain_modal_ok: "host_plain f \<Longrightarrow> host_modal_ok f"
  by (simp add: host_plain_def host_modal_ok_def)

lemmas host_ok_defs = host_base_ok_def host_plain_def same_subject_def host_reachable_here_def

text \<open>When a row is shown.\<close>

lemma shown_rows [simp]:
  "host_field_reachable HfName a sec src" "host_field_reachable HfHost a sec src"
  "host_field_reachable HfSshArgs a sec src" "host_field_reachable HfAuth a sec src"
  "host_field_reachable HfCredential a sec src \<longleftrightarrow> (\<exists>i. a = PickReference i)"
  "host_field_reachable HfSecret a sec src \<longleftrightarrow> a = PickIndependent"
  "host_field_reachable HfSource a sec src \<longleftrightarrow> a = PickIndependent \<and> sec = ChooseKey"
  by (auto simp: host_field_reachable_def split: auth_pick.splits secret_choice.splits source_choice.splits)

text \<open>A step of the form without a popup.\<close>

definition host_step_ok :: "'t host_form \<Rightarrow> 't host_form \<Rightarrow> bool" where
  "host_step_ok f g \<longleftrightarrow> host_base_ok g \<and> host_plain g \<and> same_subject f g"

lemma move_focus_step: "host_base_ok f \<Longrightarrow> host_plain f \<Longrightarrow> host_step_ok f (host_move_focus d f)"
proof -
  assume a: "host_base_ok f" "host_plain f"
  obtain i c where m: "host_move_focus d f = f\<lparr>hf_focus := host_reachable_fields f
      ! wrap_cursor i d (length (host_reachable_fields f)), hf_error := None, hf_cursor := c\<rparr>"
    using host_move_focus_eq by blast
  have "host_reachable_here f (host_reachable_fields f ! wrap_cursor i d (length (host_reachable_fields f)))"
    using hring.ring_moved[of f i d] by (simp add: host_reachable_fields_def)
  then show ?thesis using a unfolding m by (simp add: host_step_ok_def host_ok_defs)
qed

lemma error_field_shown: "host_reachable_here f (host_error_field e)"
  by (cases e) (simp_all add: host_error_field_def host_reachable_here_def)

lemma attempt_save_step:
  assumes "host_base_ok f" "host_plain f" "host_attempt_save sh f = (out, g)"
  shows "host_step_ok f g \<and> (out = IntentContinue \<or> out = IntentSaveHost \<and> g = f \<and> validate_host_form sh f = Inr ())"
proof (cases "validate_host_form sh f")
  case (Inl e)
  then have "out = IntentContinue" "g = f\<lparr>hf_error := Some e, hf_focus := host_error_field e\<rparr>"
    using assms(3) by (auto simp: host_attempt_save_def)
  then show ?thesis using assms(1,2) error_field_shown[of f e] by (simp add: host_step_ok_def host_ok_defs)
next
  case (Inr u)
  then show ?thesis using assms by (auto simp: host_attempt_save_def host_step_ok_def)
qed

lemma insert_digits:
  "list_all P s \<Longrightarrow> P c \<Longrightarrow> list_all P (fst (insert_char_at s i c))"
  by (auto simp: insert_char_at_spec list_all_iff dest: in_set_takeD in_set_dropD)

lemma backspace_digits: "list_all P s \<Longrightarrow> list_all P (fst (backspace_at s i))"
  using backspace_at_spec[of i s]
  by (cases "i = 0") (auto simp: list_all_iff backspace_at_def[of s 0] dest: in_set_takeD in_set_dropD)

lemma edit_text_step:
  assumes "host_base_ok f" "host_plain f"
    and "hf_focus f = HfPort \<Longrightarrow> list_all char_is_ascii_digit (fst (h (hf_port f) (hf_cursor f)))"
  shows "host_step_ok f (host_clear_field_error (host_edit_text h f))"
  using assms
  by (cases "hf_focus f")
    (auto simp: host_edit_text_def host_clear_field_error_def host_step_ok_def host_ok_defs split: prod.split)

lemma clear_error_step: "host_base_ok f \<Longrightarrow> host_plain f \<Longrightarrow> host_step_ok f (host_clear_field_error f)"
  by (simp add: host_clear_field_error_def host_step_ok_def host_ok_defs)

lemma insert_step: "host_base_ok f \<Longrightarrow> host_plain f \<Longrightarrow> host_step_ok f (host_edit_insert c f)"
  unfolding host_edit_insert_def
  by (auto intro!: edit_text_step insert_digits clear_error_step) (simp_all add: host_base_ok_def)

lemma backspace_step: "host_base_ok f \<Longrightarrow> host_plain f \<Longrightarrow> host_step_ok f (host_edit_backspace f)"
  unfolding host_edit_backspace_def by (rule edit_text_step) (auto simp: host_base_ok_def intro!: backspace_digits)

lemma cycle_auth_ok:
  "hf_auth (host_cycle_auth d f) = PickReference i \<Longrightarrow> i < max 1 (length (hf_credential_names f))"
  by (auto simp: host_cycle_auth_def Let_def split: auth_kind.splits if_splits)

lemma choose_step:
  assumes "host_base_ok f" "host_plain f" "host_choose fw f = Some g"
  shows "host_step_ok f g"
proof (cases "hf_focus f")
  case HfAuth
  then have g: "g = (host_cycle_auth (if fw then 1 else - 1) f)\<lparr>hf_error := None\<rparr>"
    using assms(3) by (simp add: host_choose_def)
  obtain a where a: "host_cycle_auth (if fw then 1 else - 1) f = f\<lparr>hf_auth := a\<rparr>"
    by (simp add: host_cycle_auth_def Let_def)
  then have "\<And>i. a = PickReference i \<Longrightarrow> i < max 1 (length (hf_credential_names f))"
    using cycle_auth_ok[of "if fw then 1 else - 1" f] by simp
  then show ?thesis using assms(1,2) HfAuth unfolding g a by (simp add: host_step_ok_def host_ok_defs)
next
  case HfCredential
  then obtain i where i: "hf_auth f = PickReference i" using assms(1) by (auto simp: host_ok_defs)
  let ?n = "length (hf_credential_names f)"
  show ?thesis
  proof (cases "hf_credential_names f = []")
    case True
    then have "g = f\<lparr>hf_error := None\<rparr>"
      using assms(3) HfCredential i by (simp add: host_choose_def host_cycle_credential_def)
    then show ?thesis using assms(1,2) by (simp add: host_step_ok_def host_ok_defs)
  next
    case False
    then have "wrap_cursor i (if fw then 1 else - 1) ?n < ?n" using wrap_cursor_less by simp
    moreover have "g = f\<lparr>hf_auth := PickReference (wrap_cursor i (if fw then 1 else - 1) ?n), hf_error := None\<rparr>"
      using assms(3) HfCredential i False by (simp add: host_choose_def host_cycle_credential_def)
    ultimately show ?thesis
      using assms(1,2) HfCredential by (simp add: host_step_ok_def host_ok_defs less_max_iff_disj)
  qed
next
  case HfSecret
  then show ?thesis using assms by (auto simp: host_choose_def host_step_ok_def host_ok_defs)
next
  case HfSource
  then show ?thesis using assms by (auto simp: host_choose_def host_step_ok_def host_ok_defs split: if_splits)
qed (use assms in \<open>simp_all add: host_choose_def\<close>)

lemma cursor_step: "host_base_ok f \<Longrightarrow> host_plain f \<Longrightarrow> host_step_ok f (f\<lparr>hf_cursor := c\<rparr>)"
  by (simp add: host_step_ok_def host_ok_defs)

lemma same_step: "host_base_ok f \<Longrightarrow> host_plain f \<Longrightarrow> host_step_ok f f"
  by (simp add: host_step_ok_def)

lemma arrow_step: "host_base_ok f \<Longrightarrow> host_plain f \<Longrightarrow> host_step_ok f (host_arrow fw ctrl f)"
  by (auto simp: host_arrow_def intro: cursor_step same_step choose_step split: option.split)

lemma enter_fields:
  assumes "host_base_ok f" "host_plain f"
  shows "host_form_ok (f\<lparr>hf_error := None\<rparr>)"
    and "cred_picker_ok (hf_credential_names f) p \<Longrightarrow> hf_focus f = HfCredential \<Longrightarrow>
           host_form_ok (f\<lparr>hf_cred_picker := Some p, hf_error := None\<rparr>)"
    and "hf_focus f = paste_row (kp_kind q) \<Longrightarrow> host_form_ok (f\<lparr>hf_key_paste := Some q, hf_error := None\<rparr>)"
    and "hf_focus f = HfIdentity \<Longrightarrow> host_form_ok (f\<lparr>hf_file_picker := Some r, hf_error := None\<rparr>)"
  using assms by (simp_all add: host_form_ok_def host_modal_ok_def host_ok_defs)

lemma cred_picker_new_ok: "cred_picker_ok names (cred_picker_new m names init)"
  by (auto simp: cred_picker_ok_def cred_picker_new_def cred_picker_rank_def Let_def list_all_iff dest: rank_bounds)

lemma cred_picker_recompute_ok:
  "cp_names p = names \<Longrightarrow> cred_picker_ok names (cred_picker_recompute m p)"
  by (auto simp: cred_picker_ok_def cred_picker_recompute_def cred_picker_clamp_def cred_picker_rank_def list_all_iff
      dest: rank_bounds)

lemma cred_picker_key_ok:
  assumes "cred_picker_ok names p" "cred_picker_on_key m key p = (out, p')"
  shows "cred_picker_ok names p'" and "out = PickerSelected i \<Longrightarrow> i < length names"
proof -
  have move: "cred_picker_ok names (cred_picker_move d p)" for d
    using assms(1) by (simp add: cred_picker_ok_def cred_picker_move_def)
  have n: "cp_names p = names" using assms(1) by (simp add: cred_picker_ok_def)
  show "cred_picker_ok names p'"
    using assms move n cred_picker_recompute_ok
    by (auto simp: cred_picker_on_key_def split: key_code.splits if_splits option.splits)
  show "i < length names" if "out = PickerSelected i"
    using assms that
    by (auto simp: cred_picker_on_key_def cred_picker_ok_def cred_picker_selected_def get_at_def list_all_iff
        split: key_code.splits if_splits option.splits)
qed

lemma paste_key_kind: "paste_on_key tx key p = (out, p') \<Longrightarrow> kp_kind p' = kp_kind p"
  by (auto simp: paste_on_key_def Let_def split: if_splits)

text \<open>The intents of a form, and what a save says about it.\<close>

definition host_answer_ok :: "splitter \<Rightarrow> 't intent \<Rightarrow> 't host_form \<Rightarrow> bool" where
  "host_answer_ok sh out g \<longleftrightarrow>
     out = IntentContinue \<or> out = IntentCancel \<and> host_plain g
     \<or> out = IntentSaveHost \<and> host_plain g \<and> validate_host_form sh g = Inr ()"

lemma step_form_ok: "host_step_ok f g \<Longrightarrow> host_form_ok g \<and> same_subject f g"
  by (simp add: host_step_ok_def host_form_ok_def plain_modal_ok)

lemma enter_ok:
  assumes "host_base_ok f" "host_plain f" "host_enter env f = (out, g)"
  shows "host_form_ok g \<and> same_subject f g \<and> host_answer_ok (fe_splitter env) out g"
proof -
  note e = enter_fields[OF assms(1,2)]
  have shown: "host_reachable_here f (hf_focus f)" using assms(1) by (simp add: host_base_ok_def)
  have opens: "host_form_ok h \<Longrightarrow> same_subject f h \<Longrightarrow> host_enter env f = (IntentContinue, h) \<Longrightarrow> ?thesis" for h
    using assms(3) by (simp add: host_answer_ok_def)
  have other: ?thesis
    if "host_enter env f = (if host_is_last_reachable (hf_focus f) f then host_attempt_save (fe_splitter env) f
          else (IntentContinue, host_move_focus 1 f))"
  proof (cases "host_is_last_reachable (hf_focus f) f")
    case True
    then have "host_attempt_save (fe_splitter env) f = (out, g)" using that assms(3) by simp
    from attempt_save_step[OF assms(1,2) this] show ?thesis
      using step_form_ok by (auto simp: host_answer_ok_def host_step_ok_def)
  next
    case False
    then show ?thesis
      using that assms(3) step_form_ok[OF move_focus_step[OF assms(1,2)]] by (auto simp: host_answer_ok_def)
  qed
  show ?thesis
  proof (cases "hf_focus f")
    case HfCredential
    then show ?thesis
      using e(1) e(2)[OF cred_picker_new_ok HfCredential]
      by (intro opens) (auto simp: host_enter_def same_subject_def)
  next
    case HfInlinePrivate
    then show ?thesis
      using shown e(3)[of "paste_new (fe_textarea env) PastePrivate (saved_line_count (hf_inline_private f))"]
      by (intro opens) (auto simp: host_enter_def same_subject_def paste_row_def paste_new_def)
  next
    case HfInlineCert
    then show ?thesis
      using shown e(3)[of "paste_new (fe_textarea env) PasteCert (saved_line_count (hf_inline_cert f))"]
      by (intro opens) (auto simp: host_enter_def same_subject_def paste_row_def paste_new_def)
  next
    case HfIdentity
    then show ?thesis
      using shown e(4) by (intro opens) (auto simp: host_enter_def same_subject_def)
  qed (rule other, simp add: host_enter_def)+
qed

lemma plain_key_ok:
  assumes "host_base_ok f" "host_plain f" "host_plain_key env key f = (out, g)"
  shows "host_form_ok g \<and> same_subject f g \<and> host_answer_ok (fe_splitter env) out g"
proof -
  note steps = same_step[OF assms(1,2)] cursor_step[OF assms(1,2)] move_focus_step[OF assms(1,2)]
    insert_step[OF assms(1,2)] backspace_step[OF assms(1,2)] arrow_step[OF assms(1,2)]
  have steps_if: "host_step_ok f (if c then f else host_move_focus d f)" for c d using steps by simp
  have fin: ?thesis if "host_step_ok f h" "host_plain_key env key f = (IntentContinue, h)" for h
    using that assms(3) step_form_ok[OF that(1)] by (simp add: host_answer_ok_def)
  have stop: ?thesis if "host_plain_key env key f = (IntentCancel, f)"
    using that assms(2,3) step_form_ok[OF steps(1)] by (simp add: host_answer_ok_def)
  have saved: ?thesis if "host_plain_key env key f = host_attempt_save (fe_splitter env) f"
    using attempt_save_step[OF assms(1,2) that[unfolded assms(3), symmetric]] step_form_ok
    by (auto simp: host_answer_ok_def host_step_ok_def)
  note k = host_plain_key_def Let_def
  show ?thesis
  proof (cases "is_ctrl (CHR ''c'') key")
    case True
    then show ?thesis by (intro stop) (simp add: k)
  next
    case False
    show ?thesis
    proof (cases "ke_code key")
      case (KeyChar c)
      consider "\<not> ke_ctrl key" | "ke_ctrl key" "c = CHR ''s''" | "ke_ctrl key" "c = CHR ''a''" | "ke_ctrl key" "c = CHR ''e''"
        | "ke_ctrl key" "c \<noteq> CHR ''s''" "c \<noteq> CHR ''a''" "c \<noteq> CHR ''e''" by blast
      then show ?thesis
        by cases (rule fin[OF steps(4)] saved fin[OF steps(2)] fin[OF steps(1)], simp add: k False KeyChar)+
    next
      case KeyEsc
      then show ?thesis by (intro stop) (simp add: k False)
    next
      case KeyEnter
      then have "host_enter env f = (out, g)" using assms(3) False by (simp add: k)
      then show ?thesis using enter_ok[OF assms(1,2)] by blast
    next
      case KeyTab then show ?thesis by (intro fin[OF steps_if]) (simp add: k False)
    next
      case KeyDown then show ?thesis by (intro fin[OF steps_if]) (simp add: k False)
    next
      case KeyBackTab then show ?thesis by (intro fin[OF steps_if]) (simp add: k False)
    next
      case KeyUp then show ?thesis by (intro fin[OF steps_if]) (simp add: k False)
    next
      case KeyLeft then show ?thesis by (intro fin[OF steps(6)]) (simp add: k False)
    next
      case KeyRight then show ?thesis by (intro fin[OF steps(6)]) (simp add: k False)
    next
      case KeyHome then show ?thesis by (intro fin[OF steps(2)]) (simp add: k False)
    next
      case KeyEnd then show ?thesis by (intro fin[OF steps(2)]) (simp add: k False)
    next
      case KeyBackspace then show ?thesis by (intro fin[OF steps(5)]) (simp add: k False)
    qed (rule fin[OF steps(1)], simp add: k False)+
  qed
qed

lemma modal_plain: "host_modal_key env key f = None \<Longrightarrow> host_plain f"
  by (auto simp: host_modal_key_def host_plain_def split: option.splits prod.splits)

text \<open>A key taken by a popup: the popup stays, or it is closed and may have written its row.\<close>

lemma modal_key_ok:
  assumes ok: "host_form_ok f" and m: "host_modal_key env key f = Some g"
  shows "host_form_ok g \<and> same_subject f g"
proof -
  consider (on_cred) p where "hf_cred_picker f = Some p"
    | (on_paste) p where "hf_cred_picker f = None" "hf_key_paste f = Some p"
    | (on_file) p where "hf_cred_picker f = None" "hf_key_paste f = None" "hf_file_picker f = Some p"
    using m by (auto simp: host_modal_key_def split: option.splits)
  then show ?thesis
  proof cases
    case on_cred
    obtain out p' where k: "cred_picker_on_key (fe_matcher env) key p = (out, p')" by fastforce
    have p: "cred_picker_ok (hf_credential_names f) p" "hf_focus f = HfCredential" "hf_key_paste f = None"
      "hf_file_picker f = None"
      using ok on_cred by (auto simp: host_form_ok_def host_modal_ok_def)
    show ?thesis
      using ok m on_cred p cred_picker_key_ok[OF p(1) k]
      by (cases out)
        (auto simp: host_modal_key_def k host_form_ok_def host_modal_ok_def host_ok_defs less_max_iff_disj)
  next
    case on_paste
    obtain out p' where k: "paste_on_key (fe_textarea env) key p = (out, p')" by fastforce
    show ?thesis
      using ok m on_paste paste_key_kind[OF k]
      by (cases out)
        (auto simp: host_modal_key_def k host_form_ok_def host_modal_ok_def host_ok_defs Let_def split: paste_kind.splits if_splits)
  next
    case on_file
    obtain out p' where k: "file_picker_on_key (fe_source env) (browser_rank (fe_matcher env)) key p = (out, p')"
      by fastforce
    show ?thesis
      using ok m on_file by (cases out) (auto simp: host_modal_key_def k host_form_ok_def host_modal_ok_def host_ok_defs)
  qed
qed

lemma host_key_ok:
  assumes "host_form_ok f" "host_form_on_key env key f = (out, g)"
  shows "host_form_ok g \<and> same_subject f g \<and> host_answer_ok (fe_splitter env) out g"
proof (cases "ke_kind key = Press")
  case True
  let ?f = "f\<lparr>hf_core_error := None\<rparr>"
  have ok: "host_form_ok ?f"
    using assms(1) by (simp add: host_form_ok_def host_modal_ok_def host_ok_defs cong: option.case_cong)
  have same: "same_subject f g = same_subject ?f g" by (simp add: same_subject_def)
  show ?thesis
  proof (cases "host_modal_key env key ?f")
    case None
    then have "host_plain_key env key ?f = (out, g)" using assms(2) True by (simp add: host_form_on_key_def)
    then show ?thesis
      using plain_key_ok[OF _ modal_plain[OF None]] ok same by (auto simp: host_form_ok_def)
  next
    case (Some h)
    then have "out = IntentContinue" "g = h" using assms(2) True by (simp_all add: host_form_on_key_def)
    then show ?thesis using modal_key_ok[OF ok Some] same by (simp add: host_answer_ok_def)
  qed
next
  case False
  then show ?thesis using assms by (auto simp: host_form_on_key_def host_answer_ok_def)
qed

lemma show_nat_digits: "list_all char_is_ascii_digit (show_nat n)"
proof (induction n rule: show_nat.induct)
  case (1 n)
  have d: "char_is_ascii_digit (char_of (48 + k))" if "k < 10" for k :: nat
    using that by (simp add: char_is_ascii_digit_def Let_def)
  show ?case
    using 1 d[of n] d[of "n mod 10"] by (subst show_nat.simps) (auto simp: list_all_iff)
qed

lemma new_add_ok: "host_form_ok (host_form_new_add names)"
  by (simp add: host_form_new_add_def Let_def host_form_ok_def host_modal_ok_def host_ok_defs host_field_reachable_def)

lemma new_edit_ok: "host_form_ok (host_form_new_edit h names referenced)"
proof -
  have r: "host_field_reachable HfName a sec src" for a sec src
    by (simp add: host_field_reachable_def split: auth_pick.split secret_choice.split source_choice.split)
  have i: "(case Option.bind referenced (\<lambda>n. position (\<lambda>x. x = n) names) of Some i \<Rightarrow> i | None \<Rightarrow> 0) < max 1 (length names)"
    by (auto simp: less_max_iff_disj dest: position_Some split: option.split bind_splits)
  show ?thesis
    using r i show_nat_digits
    by (auto simp: host_form_new_edit_def Let_def host_form_ok_def host_modal_ok_def host_ok_defs split: auth.split prod.split)
qed

lemma host_keys_ok:
  "host_form_ok f \<Longrightarrow> host_form_ok (fold (\<lambda>k f. snd (host_form_on_key env k f)) ks f)
     \<and> same_subject f (fold (\<lambda>k f. snd (host_form_on_key env k f)) ks f)"
proof (induction ks arbitrary: f)
  case (Cons k ks)
  obtain out g where k: "host_form_on_key env k f = (out, g)" by fastforce
  show ?case using Cons.IH[of g] host_key_ok[OF Cons.prems k] by (auto simp: k same_subject_def)
qed simp

section \<open>Properties\<close>

text \<open>C11: the host form is coherent whatever is typed. From a new or a prefilled form, any sequence of keys
leaves the focus on a row that is shown, a chosen credential that is one of the list (with an empty list, where
the reference can still be chosen, its first position), the port free of anything but digits, the error on the
focused row, and at most one popup, on the row that opened it; the host being edited stays the same. A save is asked for only when the form validates and no popup is open, and a popup
lets no key cancel the form.\<close>

theorem host_form_coherent:
  assumes "f0 = host_form_new_add names \<or> f0 = host_form_new_edit h names referenced"
    and "f = fold (\<lambda>k f. snd (host_form_on_key env k f)) ks f0" "host_form_on_key env key f = (out, g)"
  shows "host_form_ok f
    \<and> (\<forall>i. hf_auth f = PickReference i \<longrightarrow> i < length (hf_credential_names f) \<or> hf_credential_names f = [] \<and> i = 0)
    \<and> hf_editing f = hf_editing f0 \<and> hf_orig_id f = hf_orig_id f0 \<and> hf_orig_key f = hf_orig_key f0
    \<and> (out = IntentSaveHost \<longrightarrow> host_plain g \<and> validate_host_form (fe_splitter env) g = Inr ())
    \<and> (out = IntentCancel \<longrightarrow> host_plain g)
    \<and> (out = IntentContinue \<or> out = IntentSaveHost \<or> out = IntentCancel)"
proof -
  have "host_form_ok f0" using assms(1) new_add_ok new_edit_ok by blast
  then have f: "host_form_ok f" "same_subject f0 f" using host_keys_ok assms(2) by auto
  have "i < length (hf_credential_names f) \<or> hf_credential_names f = [] \<and> i = 0" if "hf_auth f = PickReference i" for i
    using f(1) that
    by (cases "hf_credential_names f") (auto simp: host_form_ok_def host_base_ok_def)
  then show ?thesis using f host_key_ok[OF f(1) assms(3)] unfolding same_subject_def host_answer_ok_def by auto
qed

definition demo_no_matcher :: matcher where
  "demo_no_matcher = \<lparr>mt_score = (\<lambda>_ _. None), mt_indices = (\<lambda>_ _. None)\<rparr>"

definition demo_form_env :: "unit form_env" where
  "demo_form_env = \<lparr>fe_matcher = demo_no_matcher, fe_source = \<lparr>ds_list = (\<lambda>_. Inr []), ds_classify = (\<lambda>_. KindNotFound), ds_home = None\<rparr>,
     fe_textarea = \<lparr>tx_default = (), tx_input = (\<lambda>_ t. t), tx_lines = (\<lambda>_. [])\<rparr>, fe_splitter = (\<lambda>_. Some [])\<rparr>"

definition demo_typed :: "key_event list" where
  "demo_typed = map press [KeyChar (CHR ''w''), KeyTab, KeyChar (CHR ''h''), KeyTab, KeyChar (CHR ''x''), KeyTab]"

theorem host_form_coherent_witness:
  "let f = fold (\<lambda>k f. snd (host_form_on_key demo_form_env k f)) demo_typed (host_form_new_add [''ops'']);
       r = host_form_on_key demo_form_env (press_ctrl (CHR ''s'')) f
   in fst r = IntentSaveHost \<and> hf_port f = [] \<and> hf_focus f = HfAuth
      \<and> validate_host_form (fe_splitter demo_form_env) (snd r) = Inr ()"
proof -
  let ?f = "fold (\<lambda>k f. snd (host_form_on_key demo_form_env k f)) demo_typed (host_form_new_add [''ops''])"
  have v: "case fst (host_form_on_key demo_form_env (press_ctrl (CHR ''s'')) ?f) of IntentSaveHost \<Rightarrow> True | _ \<Rightarrow> False"
    "hf_port ?f = [] \<and> hf_focus ?f = HfAuth" by code_simp+
  obtain g where r: "host_form_on_key demo_form_env (press_ctrl (CHR ''s'')) ?f = (IntentSaveHost, g)"
    using v(1) by (cases "host_form_on_key demo_form_env (press_ctrl (CHR ''s'')) ?f") (auto split: intent.splits)
  show ?thesis using v(2) host_form_coherent[OF disjI1[OF refl] refl r] by (simp add: r)
qed

end
