(* ===== verification/Tui_Config.thy ===== *)
theory Tui_Config
  imports Tui_Loop Connect_Props
begin

text \<open>The configuration the terminal interface holds: what saving, deleting and switching do to it in memory
and on disk.  Each operation keeps ids and names unique and the table of names in step.\<close>

section \<open>Writing and reloading\<close>

definition writable_at :: "persist_env \<Rightarrow> string \<Rightarrow> files \<Rightarrow> bool" where
  "writable_at env path fs \<longleftrightarrow>
     toml_ok (ce_toml (pe_cli env)) \<and> os_removes (ce_os (pe_cli env))
     \<and> (\<exists>d n. path = d @ CHR ''/'' # n \<and> plain_dir d \<and> plain_name n)
     \<and> fs (atomic_temp_path (ce_os (pe_cli env)) path) = None"

definition disk_free :: "persist_env \<Rightarrow> 't tui_app \<Rightarrow> files \<Rightarrow> bool" where
  "disk_free env app fs \<longleftrightarrow> (\<forall>path. ap_config_path app = Some path \<longrightarrow> writable_at env path fs)"

lemma save_and_load_ok:
  assumes "writable_at env path fs" "save_and_load env path cfg fs = (r, fs')"
  shows "r = Inl e \<Longrightarrow> fs' = fs" and "r = Inr c \<Longrightarrow> c = cfg \<and> config_load (ce_toml (pe_cli env)) path fs' = Inr cfg"
    and "writable_at env path fs'"
proof -
  let ?tm = "ce_toml (pe_cli env)" and ?os = "ce_os (pe_cli env)"
  obtain d n where p: "path = d @ CHR ''/'' # n" "plain_dir d" "plain_name n" using assms(1) by (auto simp: writable_at_def)
  obtain r1 fs1 where s: "config_save ?tm ?os path cfg fs = (r1, fs1)" by fastforce
  note o = config_save_outcome[OF _ _ p(2,3), of ?tm ?os fs cfg r1 fs1]
  have pre: "toml_ok ?tm" "os_removes ?os" "fs (atomic_temp_path ?os (d @ CHR ''/'' # n)) = None"
    "config_save ?tm ?os (d @ CHR ''/'' # n) cfg fs = (r1, fs1)" using assms(1) s p(1) by (auto simp: writable_at_def)
  have t: "atomic_temp_path ?os path \<noteq> path" using temp_path_other[OF p(2,3)] p(1) by simp
  have f: "fs' = fs1" using assms(2) s by (auto simp: save_and_load_def split: sum.splits)
  have k: "r1 = Inr () \<Longrightarrow> config_load ?tm path fs1 = Inr cfg \<and> (\<exists>bs. fs1 = fs(path \<mapsto> \<lparr>fe_mode = MODE_PRIVATE, fe_bytes = bs\<rparr>))"
    using o(2,3)[OF pre] p(1) by simp
  have l: "\<exists>e. r1 = Inl e \<and> r = Inl e \<and> fs1 = fs \<or> r1 = Inr () \<and> r = Inr cfg"
    using assms(2) s o(1)[OF pre] k by (cases r1) (auto simp: save_and_load_def)
  show "fs' = fs" if "r = Inl e" using l f that by auto
  show "c = cfg \<and> config_load ?tm path fs' = Inr cfg" if "r = Inr c" using l f k that by auto
  show "writable_at env path fs'" using l f k t assms(1) by (auto simp: writable_at_def)
qed

lemma install_config_ok:
  assumes "disk_free env app (cs_files st)" "install_config env cfg app st = (r, a, s)"
  shows "r = Inl e \<Longrightarrow> a = app \<and> cs_files s = cs_files st"
    and "r = Inr () \<Longrightarrow> a = set_config cfg app
           \<and> (\<forall>path. ap_config_path app = Some path \<longrightarrow> config_load (ce_toml (pe_cli env)) path (cs_files s) = Inr cfg)"
    and "disk_free env a (cs_files s)" and "cs_world s = cs_world st"
proof -
  have "(case r of Inl e \<Rightarrow> a = app \<and> cs_files s = cs_files st
     | Inr _ \<Rightarrow> a = set_config cfg app
         \<and> (\<forall>path. ap_config_path app = Some path \<longrightarrow> config_load (ce_toml (pe_cli env)) path (cs_files s) = Inr cfg))
     \<and> disk_free env a (cs_files s) \<and> cs_world s = cs_world st"
  proof (cases "ap_config_path app")
    case None
    then have "r = Inr ()" "a = set_config cfg app" "s = st" using assms(2) by (simp_all add: install_config_def)
    then show ?thesis using None assms(1) by (simp add: disk_free_def set_config_def)
  next
    case (Some path)
    obtain r1 fs where sl: "save_and_load env path cfg (cs_files st) = (r1, fs)" by fastforce
    have w: "writable_at env path (cs_files st)" using assms(1) Some by (simp add: disk_free_def)
    note k = save_and_load_ok[OF w sl]
    show ?thesis
    proof (cases r1)
      case (Inl e)
      then have "r = Inl e" "a = app" "s = st\<lparr>cs_files := fs\<rparr>" using assms(2) Some sl by (simp_all add: install_config_def)
      then show ?thesis using k(1)[OF Inl] assms(1) by simp
    next
      case (Inr c)
      then have "r = Inr ()" "a = set_config c app" "s = st\<lparr>cs_files := fs\<rparr>"
        using assms(2) Some sl by (simp_all add: install_config_def)
      then show ?thesis using k(2)[OF Inr] k(3) Some by (simp add: disk_free_def set_config_def)
    qed
  qed
  then show "r = Inl e \<Longrightarrow> a = app \<and> cs_files s = cs_files st"
    "r = Inr () \<Longrightarrow> a = set_config cfg app
       \<and> (\<forall>path. ap_config_path app = Some path \<longrightarrow> config_load (ce_toml (pe_cli env)) path (cs_files s) = Inr cfg)"
    "disk_free env a (cs_files s)" "cs_world s = cs_world st" by auto
qed

section \<open>Lists with keys\<close>

definition keyed :: "('a \<Rightarrow> ulid) \<Rightarrow> ('a \<Rightarrow> string) \<Rightarrow> 'a list \<Rightarrow> bool" where
  "keyed k n xs \<longleftrightarrow> distinct (map k xs) \<and> distinct (map n xs) \<and> list_all ulid_ok (map k xs)"

lemma keyed_append:
  "keyed k n xs \<Longrightarrow> k x \<notin> k ` set xs \<Longrightarrow> n x \<notin> n ` set xs \<Longrightarrow> ulid_ok (k x) \<Longrightarrow> keyed k n (xs @ [x])"
  by (auto simp: keyed_def)

lemma keyed_filter: "keyed k n xs \<Longrightarrow> keyed k n (filter P xs)"
  by (auto simp: keyed_def distinct_map list_all_iff inj_on_def)

lemma keyed_same: "map k ys = map k xs \<Longrightarrow> map n ys = map n xs \<Longrightarrow> keyed k n ys = keyed k n xs"
  by (simp add: keyed_def)

text \<open>The entry with the same id is replaced; its name is new or was its own.\<close>

lemma keyed_replace:
  assumes "keyed k n xs" "position (\<lambda>y. k y = k x) xs = Some i" "\<And>y. y \<in> set xs \<Longrightarrow> n y = n x \<Longrightarrow> k y = k x"
  shows "keyed k n (xs[i := x])"
proof -
  have i: "i < length xs" "k (xs ! i) = k x" using position_Some[OF assms(2)] by auto
  have other: "k (xs ! j) \<noteq> k x" if "j < length xs" "j \<noteq> i" for j
    using assms(1) that i nth_eq_iff_index_eq[of "map k xs" j i] by (auto simp: keyed_def)
  have "n (xs ! j) \<noteq> n x" if "j < length xs" "j \<noteq> i" for j
    using other[OF that] assms(3)[of "xs ! j"] that by auto
  then have "distinct (map k (xs[i := x]))" "distinct (map n (xs[i := x]))"
    using distinct_update_key[of k xs i x] distinct_update_key[of n xs i x] assms(1) i other by (auto simp: keyed_def)
  moreover have "map k (xs[i := x]) = map k xs" using i by (simp add: map_update list_update_same_conv)
  ultimately show ?thesis using assms(1) by (simp add: keyed_def)
qed

definition registries_ok :: "sshrack_config \<Rightarrow> bool" where
  "registries_ok cfg \<longleftrightarrow> keyed h_id h_name (hosts cfg) \<and> keyed c_id c_name (credentials cfg)"

definition config_ids :: "sshrack_config \<Rightarrow> ulid set" where
  "config_ids cfg = h_id ` set (hosts cfg) \<union> c_id ` set (credentials cfg)"

lemma config_wf_keys: "config_wf cfg \<Longrightarrow> registries_ok cfg"
  by (auto simp: registries_ok_def config_wf_def keyed_def list_all_iff host_wf_def credential_wf_def)

section \<open>Saving\<close>

text \<open>What a host save does to the configuration: one entry is added or replaced.\<close>

lemma host_save_cases:
  assumes "host_save_config X be env cfg form w = (Inr (u, cfg'), w')"
  obtains a where "cfg' = replace_host_by_id u (finalize_host u (trim (hf_name form)) (trim (hf_host_addr form))
        (parsed_port form) (form_ssh_args form) a) cfg"
      "hf_editing form" "hf_orig_id form = Some u"
      "\<exists>orig. find_host_by_id cfg u = Some orig \<and> (h_name orig \<noteq> trim (hf_name form) \<longrightarrow>
         validate_rename cfg (h_name orig) (trim (hf_name form)) = Inr ())"
      "\<exists>rc a0. resolve_form_credential cfg form = Inr rc
         \<and> keep_host_password cfg form u (host_form_auth form rc) = Inr a0 \<and> seal_form_auth X be env u cfg a0 w = (Inr a, w')"
    | a where "cfg' = append_host \<lparr>h_id = u, h_name = trim (hf_name form), h_host = trim (hf_host_addr form),
        h_port = parsed_port form, h_ssh_args = normalize_ssh_args (form_ssh_args form), h_auth = a\<rparr> cfg"
      "\<not> hf_editing form" "u = pe_fresh env" "find_host_by_name cfg (trim (hf_name form)) = None"
      "\<exists>rc a0. resolve_form_credential cfg form = Inr rc
         \<and> keep_host_password cfg form u (host_form_auth form rc) = Inr a0 \<and> seal_form_auth X be env u cfg a0 w = (Inr a, w')"
proof -
  obtain rc a0 a where a0: "host_target_id (pe_fresh env) form = Inr u"
    "resolve_form_credential cfg form = Inr rc" "keep_host_password cfg form u (host_form_auth form rc) = Inr a0"
    "seal_form_auth X be env u cfg a0 w = (Inr a, w')"
    "(if hf_editing form
      then edited_config cfg u (trim (hf_name form)) (trim (hf_host_addr form)) (parsed_port form) (form_ssh_args form) a
      else added_config (pe_splitter env) cfg u (trim (hf_name form)) (trim (hf_host_addr form)) (parsed_port form)
        (form_ssh_args form) a) = Inr cfg'"
    using assms
    by (auto simp: host_save_config_def Let_def and_then_Inr split: sum.splits prod.splits)
  have s0: "\<exists>rc a0. resolve_form_credential cfg form = Inr rc
     \<and> keep_host_password cfg form u (host_form_auth form rc) = Inr a0 \<and> seal_form_auth X be env u cfg a0 w = (Inr a, w')"
    using a0 by blast
  show thesis
  proof (cases "hf_editing form")
    case True
    then show thesis
      using a0 s0
      by (intro that(1)[of a]) (auto simp: edited_config_def host_target_id_def and_then_Inr ok_or_Inr split: option.splits if_splits)
  next
    case False
    then show thesis
      using a0 s0
      by (intro that(2)[of a])
        (auto simp: added_config_def host_target_id_def and_then_Inr add_host_ok validate_no_duplicate_iff)
  qed
qed

lemma host_save_keys:
  assumes "host_save_config X be env cfg form w = (Inr (u, cfg'), w')" "registries_ok cfg"
    and "ulid_ok (pe_fresh env)" "pe_fresh env \<notin> config_ids cfg"
  shows "registries_ok cfg'" and "credentials cfg' = credentials cfg" and "store cfg' = store cfg"
proof -
  from assms(1) have "registries_ok cfg' \<and> credentials cfg' = credentials cfg \<and> store cfg' = store cfg"
  proof (cases rule: host_save_cases)
    case (1 a)
    then obtain orig where o: "find_host_by_id cfg u = Some orig"
      "h_name orig \<noteq> trim (hf_name form) \<longrightarrow> validate_rename cfg (h_name orig) (trim (hf_name form)) = Inr ()" by blast
    have orig: "orig \<in> set (hosts cfg)" "h_id orig = u"
      using o(1) find_Some_sat[of _ "hosts cfg" orig] by (auto simp: find_host_by_id_def)
    have inj: "inj_on h_name (set (hosts cfg))" using assms(2) by (simp add: registries_ok_def keyed_def distinct_map)
    have free: "h_id y = u" if "y \<in> set (hosts cfg)" "h_name y = trim (hf_name form)" for y
    proof (cases "h_name orig = trim (hf_name form)")
      case True
      then show ?thesis using that orig inj by (metis inj_on_eq_iff)
    next
      case False
      then show ?thesis using that o(2) rename_free[of cfg orig _ y] orig inj by (metis inj_on_eq_iff is_ok_iff)
    qed
    obtain i where i: "position (\<lambda>x. h_id x = u) (hosts cfg) = Some i"
      using orig by (cases "position (\<lambda>x. h_id x = u) (hosts cfg)") (auto simp: position_None)
    show ?thesis
      using 1(1) assms(2) i free
        keyed_replace[of h_id h_name "hosts cfg" "finalize_host u (trim (hf_name form)) (trim (hf_host_addr form))
          (parsed_port form) (form_ssh_args form) a" i]
      by (simp add: replace_host_by_id_def registries_ok_def finalize_host_def)
  next
    case (2 a)
    then have "trim (hf_name form) \<notin> h_name ` set (hosts cfg)" using hreg.lookup_None_iff[of cfg] by simp
    then show ?thesis
      using 2 assms(2-4) by (auto simp: registries_ok_def append_host_def config_ids_def intro!: keyed_append)
  qed
  then show "registries_ok cfg'" "credentials cfg' = credentials cfg" "store cfg' = store cfg" by auto
qed

lemma cred_save_keys:
  assumes "cred_save_config X be env cfg form w = (Inr cfg', w')" "registries_ok cfg"
    and "ulid_ok (pe_fresh env)" "pe_fresh env \<notin> config_ids cfg"
  shows "registries_ok cfg'" and "hosts cfg' = hosts cfg" and "store cfg' = store cfg"
proof -
  let ?name = "trim (crf_name form)"
  obtain u body sealed where b: "cred_save_body (pe_similarity env) (pe_fresh env) cfg form = Inr (u, body)"
    "(if crf_editing form then Inr (replace_credential_by_id u \<lparr>c_id = u, c_name = ?name, c_body = sealed\<rparr> cfg)
      else add_credential cfg u ?name sealed) = Inr cfg'"
    using assms(1) by (auto simp: cred_save_config_def Let_def split: sum.splits prod.splits)
  have "registries_ok cfg' \<and> hosts cfg' = hosts cfg \<and> store cfg' = store cfg"
  proof (cases "crf_editing form")
    case True
    then obtain orig where o: "find_credential_by_id cfg u = Some orig"
      "c_name orig \<noteq> ?name \<longrightarrow> validate_rename_credential cfg (c_name orig) ?name = Inr ()"
      using b(1) by (auto simp: cred_save_body_def Let_def and_then_Inr ok_or_Inr split: option.splits if_splits)
    have orig: "orig \<in> set (credentials cfg)" "c_id orig = u"
      using o(1) find_Some_sat[of _ "credentials cfg" orig] by (auto simp: find_credential_by_id_def)
    have inj: "inj_on c_name (set (credentials cfg))" using assms(2) by (simp add: registries_ok_def keyed_def distinct_map)
    have free: "c_id y = u" if "y \<in> set (credentials cfg)" "c_name y = ?name" for y
    proof (cases "c_name orig = ?name")
      case True
      then show ?thesis using that orig inj by (metis inj_on_eq_iff)
    next
      case False
      then show ?thesis using that o(2) rename_credential_free[of cfg orig _ y] orig inj by (metis inj_on_eq_iff is_ok_iff)
    qed
    obtain i where i: "position (\<lambda>x. c_id x = u) (credentials cfg) = Some i"
      using orig by (cases "position (\<lambda>x. c_id x = u) (credentials cfg)") (auto simp: position_None)
    show ?thesis
      using b(2) True assms(2) i free
        keyed_replace[of c_id c_name "credentials cfg" "\<lparr>c_id = u, c_name = ?name, c_body = sealed\<rparr>" i]
      by (auto simp: replace_credential_by_id_def registries_ok_def)
  next
    case False
    then have "u = pe_fresh env" "find_credential_by_name cfg ?name = None"
      using b(1) by (auto simp: cred_save_body_def Let_def and_then_Inr validate_no_duplicate_credential_iff)
    moreover have "cfg' = append_credential \<lparr>c_id = u, c_name = ?name, c_body = sealed\<rparr> cfg"
      using b(2) False by (simp add: add_credential_ok)
    moreover have "?name \<notin> c_name ` set (credentials cfg)" using creg.lookup_None_iff[of cfg] calculation(2) by simp
    ultimately show ?thesis
      using assms(2-4) by (auto simp: registries_ok_def append_credential_def config_ids_def intro!: keyed_append)
  qed
  then show "registries_ok cfg'" "hosts cfg' = hosts cfg" "store cfg' = store cfg" by auto
qed

section \<open>Migrating\<close>

lemma for_each_mut_map:
  assumes "\<And>x w r x' w'. step x w = (r, x', w') \<Longrightarrow> k x' = k x" "for_each_mut step xs w = (r, ys, w')"
  shows "map k ys = map k xs"
  using assms(2)
proof (induction xs arbitrary: w r ys w')
  case (Cons x xs)
  obtain r1 x1 w1 where s: "step x w = (r1, x1, w1)" by (cases "step x w") auto
  obtain r2 ys1 w2 where t: "for_each_mut step xs w1 = (r2, ys1, w2)" by (cases "for_each_mut step xs w1") auto
  show ?case
    using Cons.prems Cons.IH[OF t] assms(1)[OF s] s t by (cases r1; cases r2) auto
qed simp

lemma migrate_keys:
  assumes "migrate X be target sk tk cfg w = (r, cfg', w')"
  shows "map h_id (hosts cfg') = map h_id (hosts cfg)" "map h_name (hosts cfg') = map h_name (hosts cfg)"
    "map c_id (credentials cfg') = map c_id (credentials cfg)" "map c_name (credentials cfg') = map c_name (credentials cfg)"
proof -
  let ?c = "migrate_credential_step X be target sk tk" and ?h = "migrate_host_step X be target sk tk"
  have c: "c_id x' = c_id x \<and> c_name x' = c_name x" if "?c x w = (r, x', w')" for x w r x' w'
    using that by (auto simp: migrate_credential_step_def split: prod.splits)
  have h: "h_id x' = h_id x \<and> h_name x' = h_name x" if "?h x w = (r, x', w')" for x w r x' w'
    using that by (auto simp: migrate_host_step_def split: prod.splits auth.splits)
  obtain r1 cs w1 where m: "for_each_mut ?c (credentials cfg) w = (r1, cs, w1)" by (cases "for_each_mut ?c (credentials cfg) w") auto
  obtain r2 hs w2 where n: "for_each_mut ?h (hosts cfg) w1 = (r2, hs, w2)" by (cases "for_each_mut ?h (hosts cfg) w1") auto
  have cs: "map c_id cs = map c_id (credentials cfg)" "map c_name cs = map c_name (credentials cfg)"
    using for_each_mut_map[OF _ m, of c_id] for_each_mut_map[OF _ m, of c_name] c by blast+
  have hs: "map h_id hs = map h_id (hosts cfg)" "map h_name hs = map h_name (hosts cfg)"
    using for_each_mut_map[OF _ n, of h_id] for_each_mut_map[OF _ n, of h_name] h by blast+
  have "cfg' = cfg\<lparr>credentials := cs\<rparr> \<or> cfg' = cfg\<lparr>credentials := cs, hosts := hs\<rparr>"
    using assms m n by (auto simp: migrate_def split: sum.splits)
  then show "map h_id (hosts cfg') = map h_id (hosts cfg)" "map h_name (hosts cfg') = map h_name (hosts cfg)"
    "map c_id (credentials cfg') = map c_id (credentials cfg)" "map c_name (credentials cfg') = map c_name (credentials cfg)"
    using cs hs by auto
qed

text \<open>A configuration with the same entries but for their secrets.\<close>

definition same_keys :: "sshrack_config \<Rightarrow> sshrack_config \<Rightarrow> bool" where
  "same_keys cfg cfg' \<longleftrightarrow>
     map h_id (hosts cfg') = map h_id (hosts cfg) \<and> map h_name (hosts cfg') = map h_name (hosts cfg)
     \<and> map c_id (credentials cfg') = map c_id (credentials cfg) \<and> map c_name (credentials cfg') = map c_name (credentials cfg)"

lemma same_keys_refl [simp]: "same_keys cfg cfg"
  by (simp add: same_keys_def)

lemma same_keys_ok: "same_keys cfg cfg' \<Longrightarrow> registries_ok cfg' = registries_ok cfg"
  by (simp add: same_keys_def registries_ok_def keyed_def)

lemma same_keys_table: "same_keys cfg cfg' \<Longrightarrow> credential_name_table cfg' = credential_name_table cfg"
proof -
  have z: "credential_name_table c = zip (map c_id (credentials c)) (map c_name (credentials c))" for c
    by (simp add: credential_name_table_def zip_map1 zip_map2 zip_same_conv_map)
  show ?thesis if "same_keys cfg cfg'" using that by (simp add: z same_keys_def)
qed

lemma same_keys_length:
  "same_keys cfg cfg' \<Longrightarrow> length (hosts cfg') = length (hosts cfg) \<and> length (credentials cfg') = length (credentials cfg)"
  unfolding same_keys_def by (metis length_map)

lemma same_keys_ids: "same_keys cfg cfg' \<Longrightarrow> config_ids cfg' = config_ids cfg"
  unfolding same_keys_def config_ids_def by (metis set_map)

lemma migrate_same: "migrate X be target sk tk cfg w = (r, cfg', w') \<Longrightarrow> same_keys cfg cfg'"
  using migrate_keys[of X be target sk tk cfg w r cfg' w'] by (simp add: same_keys_def)

lemma enable_same: "enable X be pass ttl cfg w = (r, cfg', w') \<Longrightarrow> same_keys cfg cfg'"
  by (auto simp: enable_def Let_def split: option.splits sum.splits prod.splits dest!: migrate_same)
     (simp_all add: same_keys_def)

section \<open>The operations of the interface\<close>

text \<open>What an operation needs and gives back: the keys, the path and a file that can be written.\<close>

definition ui_data :: "'t tui_app \<Rightarrow> bool" where
  "ui_data app \<longleftrightarrow> registries_ok (ap_config app) \<and> ap_credential_names app = credential_name_table (ap_config app)"

definition keyed_state :: "persist_env \<Rightarrow> 't tui_app \<Rightarrow> files \<Rightarrow> bool" where
  "keyed_state env app fs \<longleftrightarrow>
     ui_data app \<and> disk_free env app fs
     \<and> ulid_ok (pe_fresh env) \<and> pe_fresh env \<notin> config_ids (ap_config app)"

definition keys_kept :: "persist_env \<Rightarrow> 't tui_app \<Rightarrow> 't tui_app \<Rightarrow> files \<Rightarrow> bool" where
  "keys_kept env app a fs \<longleftrightarrow>
     ui_data a \<and> ap_config_path a = ap_config_path app \<and> disk_free env a fs"

lemma keyed_state_registries: "keyed_state env app fs \<Longrightarrow> registries_ok (ap_config app)"
  by (simp add: keyed_state_def ui_data_def)

lemma keys_kept_same:
  "keyed_state env app fs \<Longrightarrow> ap_config a = ap_config app \<Longrightarrow> ap_config_path a = ap_config_path app
   \<Longrightarrow> ap_credential_names a = ap_credential_names app \<Longrightarrow> keys_kept env app a fs"
  by (simp add: keyed_state_def keys_kept_def disk_free_def ui_data_def)

lemma set_config_simps [simp]:
  "ap_config (set_config cfg app) = cfg" "ap_config_path (set_config cfg app) = ap_config_path app"
  "ap_overlay (set_config cfg app) = ap_overlay app" "ap_store_view (set_config cfg app) = ap_store_view app"
  "ap_launcher (set_config cfg app) = ap_launcher app" "ap_cred_panel (set_config cfg app) = ap_cred_panel app"
  "ap_credential_names (set_config cfg app) = credential_name_table cfg" "ap_status (set_config cfg app) = ap_status app"
  by (simp_all add: set_config_def)

lemma recompute_panels_simps [simp]:
  "ap_config (recompute_panels m app) = ap_config app" "ap_config_path (recompute_panels m app) = ap_config_path app"
  "ap_overlay (recompute_panels m app) = ap_overlay app" "ap_store_view (recompute_panels m app) = ap_store_view app"
  "ap_credential_names (recompute_panels m app) = ap_credential_names app"
  by (simp_all add: recompute_panels_def)

lemma install_keys:
  assumes "keyed_state env app (cs_files st)" "registries_ok cfg" "install_config env cfg app st = (r, a, s)"
  shows "keys_kept env app a (cs_files s)"
proof -
  have d: "disk_free env app (cs_files st)" using assms(1) by (simp add: keyed_state_def)
  note k = install_config_ok[OF d assms(3)]
  show ?thesis using k assms(1,2) by (cases r) (auto simp: keys_kept_def keyed_state_def ui_data_def)
qed

lemma host_save_op:
  assumes "keyed_state env app (cs_files st)" "persist_host_save X be env app st = (r, a, s)"
  shows "keys_kept env app a (cs_files s)"
proof (cases "\<exists>form. ap_overlay app = Some (HostWizard form)")
  case True
  then obtain form where f: "ap_overlay app = Some (HostWizard form)" by blast
  obtain r1 w where h: "host_save_config X be env (ap_config app) form (cs_world st) = (r1, w)" by fastforce
  show ?thesis
  proof (cases r1)
    case (Inl e)
    then show ?thesis using assms f h by (auto simp: persist_host_save_def intro: keys_kept_same)
  next
    case (Inr p)
    obtain u cfg where p: "p = (u, cfg)" by fastforce
    obtain r2 a2 s2 where i: "install_config env cfg app (st\<lparr>cs_world := w\<rparr>) = (r2, a2, s2)"
      by (cases "install_config env cfg app (st\<lparr>cs_world := w\<rparr>)") auto
    have "registries_ok cfg"
      using host_save_keys(1)[OF h[unfolded Inr p]] assms(1) by (simp add: keyed_state_def ui_data_def)
    then have "keys_kept env app a2 (cs_files s2)" using install_keys[OF _ _ i] assms(1) by simp
    moreover have "a = a2" "s = s2" using assms(2) f h i Inr p by (auto simp: persist_host_save_def split: sum.splits)
    ultimately show ?thesis by simp
  qed
next
  case False
  then have "a = app" "s = st"
    using assms(2) by (auto simp: persist_host_save_def split: option.splits shell_overlay.splits)
  then show ?thesis using assms(1) by (simp add: keys_kept_same)
qed

lemma cred_save_op:
  assumes "keyed_state env app (cs_files st)" "persist_cred_save X be env app st = (r, a, s)"
  shows "keys_kept env app a (cs_files s)"
proof (cases "\<exists>form. ap_overlay app = Some (CredWizard form)")
  case True
  then obtain form where f: "ap_overlay app = Some (CredWizard form)" by blast
  obtain r1 w where h: "cred_save_config X be env (ap_config app) form (cs_world st) = (r1, w)" by fastforce
  show ?thesis
  proof (cases r1)
    case (Inl e)
    then show ?thesis using assms f h by (auto simp: persist_cred_save_def intro: keys_kept_same)
  next
    case (Inr cfg)
    then have "install_config env cfg app (st\<lparr>cs_world := w\<rparr>) = (r, a, s)"
      using assms(2) f h by (simp add: persist_cred_save_def)
    moreover have "registries_ok cfg"
      using cred_save_keys(1)[OF h[unfolded Inr]] assms(1) by (simp add: keyed_state_def ui_data_def)
    ultimately show ?thesis using install_keys[of env app "st\<lparr>cs_world := w\<rparr>" cfg r a s] assms(1) by simp
  qed
next
  case False
  then have "a = app" "s = st"
    using assms(2) by (auto simp: persist_cred_save_def split: option.splits shell_overlay.splits)
  then show ?thesis using assms(1) by (simp add: keys_kept_same)
qed

lemma drop_keys: "registries_ok cfg \<Longrightarrow> registries_ok (drop_host n cfg)" "registries_ok cfg \<Longrightarrow> registries_ok (drop_credential n cfg)"
  by (simp_all add: registries_ok_def drop_host_def drop_credential_def keyed_filter)

lemma install_rank_keys:
  assumes "keyed_state env app (cs_files st)" "registries_ok cfg" "install_and_rank env cfg app st = (r, a, s)"
  shows "keys_kept env app a (cs_files s)"
proof -
  obtain r1 a1 s1 where i: "install_config env cfg app st = (r1, a1, s1)" by (cases "install_config env cfg app st") auto
  show ?thesis
    using install_keys[OF assms(1,2) i] assms(3) i
    by (cases r1) (auto simp: install_and_rank_def keys_kept_def disk_free_def ui_data_def)
qed

lemma delete_ops:
  assumes "keyed_state env app (cs_files st)"
  shows "persist_host_delete be env name app st = (r, a, s) \<Longrightarrow> keys_kept env app a (cs_files s)"
    and "persist_cred_delete be env name app st = (r, a, s) \<Longrightarrow> keys_kept env app a (cs_files s)"
proof -
  have reg: "registries_ok (ap_config app)" using assms by (rule keyed_state_registries)
  have k: "keyed_state env app (cs_files (st\<lparr>cs_world := w\<rparr>))" for w using assms by simp
  show "keys_kept env app a (cs_files s)" if d: "persist_host_delete be env name app st = (r, a, s)"
  proof (cases "find_host_by_name (ap_config app) name")
    case None
    then show ?thesis
      using d assms by (auto simp: persist_host_delete_def delete_host_with_secret_def intro: keys_kept_same)
  next
    case (Some h)
    then have "\<exists>b. install_and_rank env (drop_host name (ap_config app)) app (st\<lparr>cs_world := b\<rparr>) = (r, a, s)"
      using d by (auto simp: persist_host_delete_def delete_host_with_secret_def remove_host_ok Let_def)
    then show ?thesis using install_rank_keys[OF k drop_keys(1)[OF reg]] by blast
  qed
  show "keys_kept env app a (cs_files s)" if d: "persist_cred_delete be env name app st = (r, a, s)"
  proof (cases "find_credential_by_name (ap_config app) name")
    case None
    then show ?thesis
      using d assms by (auto simp: persist_cred_delete_def delete_credential_with_secret_def intro: keys_kept_same)
  next
    case (Some h)
    then have "\<exists>b. install_and_rank env (drop_credential name (ap_config app)) app (st\<lparr>cs_world := b\<rparr>) = (r, a, s)"
      using d by (auto simp: persist_cred_delete_def delete_credential_with_secret_def remove_credential_ok Let_def)
    then show ?thesis using install_rank_keys[OF k drop_keys(2)[OF reg]] by blast
  qed
qed

text \<open>A switch keeps the ids and the names also when it fails half way.\<close>

definition names_agree :: "'t tui_app \<Rightarrow> bool" where
  "names_agree app \<longleftrightarrow> ap_credential_names app = credential_name_table (ap_config app)"

definition switched_ok :: "persist_env \<Rightarrow> 't tui_app \<Rightarrow> 't tui_app \<Rightarrow> files \<Rightarrow> bool" where
  "switched_ok env app a fs \<longleftrightarrow>
     same_keys (ap_config app) (ap_config a) \<and> ap_config_path a = ap_config_path app \<and> disk_free env a fs
     \<and> (names_agree app \<longrightarrow> names_agree a) \<and> ap_launcher a = ap_launcher app \<and> ap_cred_panel a = ap_cred_panel app
     \<and> ap_overlay a = ap_overlay app \<and> ap_status a = ap_status app
     \<and> map_option sv_selected (ap_store_view a) = map_option sv_selected (ap_store_view app)"

lemma switched_refl: "disk_free env app fs \<Longrightarrow> switched_ok env app app fs"
  by (simp add: switched_ok_def)

lemma switched_config:
  "disk_free env app fs \<Longrightarrow> same_keys (ap_config app) cfg \<Longrightarrow> switched_ok env app (app\<lparr>ap_config := cfg\<rparr>) fs"
  by (simp add: switched_ok_def names_agree_def same_keys_table disk_free_def)

lemma switched_store: "same_keys c (cfg\<lparr>store := x\<rparr>) = same_keys c cfg"
  by (simp add: same_keys_def)

lemma switched_trans:
  "switched_ok env app b fs \<Longrightarrow> switched_ok env b a fs' \<Longrightarrow> switched_ok env app a fs'"
  by (auto simp: switched_ok_def same_keys_def)

lemma set_store_status_simps [simp]:
  "ap_config (set_store_status msg app) = ap_config app" "ap_config_path (set_store_status msg app) = ap_config_path app"
  "ap_overlay (set_store_status msg app) = ap_overlay app" "ap_launcher (set_store_status msg app) = ap_launcher app"
  "ap_cred_panel (set_store_status msg app) = ap_cred_panel app"
  "ap_credential_names (set_store_status msg app) = ap_credential_names app"
  "ap_status (set_store_status msg app) = ap_status app"
  "map_option sv_selected (ap_store_view (set_store_status msg app)) = map_option sv_selected (ap_store_view app)"
  by (simp_all add: set_store_status_def option.map_comp comp_def)

lemma reload_op:
  assumes "disk_free env app (cs_files st)" "persist_and_reload env app st = (r, a, s)"
  shows "switched_ok env app a (cs_files s)" and "r = Inl e \<Longrightarrow> cs_files s = cs_files st"
proof -
  have "switched_ok env app a (cs_files s) \<and> (\<forall>e. r = Inl e \<longrightarrow> cs_files s = cs_files st)"
  proof (cases "ap_config_path app")
    case None
    then show ?thesis using assms by (auto simp: persist_and_reload_def switched_refl)
  next
    case (Some path)
    then have i: "install_config env (ap_config app) app st = (r, a, s)" using assms(2) by (simp add: persist_and_reload_def)
    note k = install_config_ok[OF assms(1) i]
    show ?thesis
    proof (cases r)
      case (Inl e)
      then show ?thesis using k(1)[OF Inl] assms(1) by (simp add: switched_refl)
    next
      case (Inr u)
      then have "a = set_config (ap_config app) app" using k(2) by simp
      then show ?thesis using k(3) Inr by (simp add: switched_ok_def names_agree_def)
    qed
  qed
  then show "switched_ok env app a (cs_files s)" "r = Inl e \<Longrightarrow> cs_files s = cs_files st" by auto
qed

text \<open>The end of both switches: the new configuration is in place and is written.\<close>

lemma switched_reload:
  assumes "disk_free env app (cs_files st)" "same_keys (ap_config app) cfg"
    "persist_and_reload env (app\<lparr>ap_config := cfg\<rparr>) st = (r, a, s)"
  shows "switched_ok env app a (cs_files s)" and "r = Inl e \<Longrightarrow> cs_files s = cs_files st"
proof -
  have d: "disk_free env (app\<lparr>ap_config := cfg\<rparr>) (cs_files st)" using assms(1) by (simp add: disk_free_def)
  show "switched_ok env app a (cs_files s)"
    using switched_trans[OF switched_config[OF assms(1,2)] reload_op(1)[OF d assms(3)]] .
  show "r = Inl e \<Longrightarrow> cs_files s = cs_files st" using reload_op(2)[OF d assms(3)] .
qed

lemma migrate_in_place_op:
  assumes "disk_free env app (cs_files st)" "migrate_in_place X be env target app st = (r, a, s)"
  shows "switched_ok env app a (cs_files s)" and "r = Inl e \<Longrightarrow> cs_files s = cs_files st"
proof -
  obtain r1 w1 where v: "vault_source_key X (pe_cli env) (ap_config app) (cs_world st) = (r1, w1)" by fastforce
  have "switched_ok env app a (cs_files s) \<and> (\<forall>e. r = Inl e \<longrightarrow> cs_files s = cs_files st)"
  proof (cases r1)
    case (Inl e)
    then have "a = app" "s = st\<lparr>cs_world := w1\<rparr>" using assms(2) v by (auto simp: migrate_in_place_def)
    then show ?thesis using assms(1) by (simp add: switched_refl)
  next
    case (Inr sk)
    obtain r2 cfg w2 where m: "migrate X be target sk None (ap_config app) (clear_default_cache (ce_vault (pe_cli env)) w1)
        = (r2, cfg, w2)"
      by (cases "migrate X be target sk None (ap_config app) (clear_default_cache (ce_vault (pe_cli env)) w1)") auto
    note same = migrate_same[OF m]
    show ?thesis
    proof (cases r2)
      case (Inl e)
      then have "a = app\<lparr>ap_config := cfg\<rparr>" "s = st\<lparr>cs_world := w2\<rparr>"
        using assms(2) v m \<open>r1 = Inr sk\<close> by (auto simp: migrate_in_place_def)
      then show ?thesis using switched_config[OF _ same] assms(1) by simp
    next
      case (Inr n)
      let ?c = "cfg\<lparr>store := Some target\<rparr>" and ?st = "st\<lparr>cs_world := w2\<rparr>"
      obtain r3 a3 s3 where p: "persist_and_reload env (app\<lparr>ap_config := ?c\<rparr>) ?st = (r3, a3, s3)"
        by (cases "persist_and_reload env (app\<lparr>ap_config := ?c\<rparr>) ?st") auto
      have "disk_free env app (cs_files ?st)" "same_keys (ap_config app) ?c" using assms(1) same by (simp_all add: switched_store)
      note k = switched_reload[OF this p]
      have "a = a3" "s = s3" "\<And>e. r = Inl e \<Longrightarrow> r3 = Inl e"
        using assms(2) v m \<open>r1 = Inr sk\<close> Inr p by (auto simp: migrate_in_place_def split: sum.splits)
      then show ?thesis using k by auto
    qed
  qed
  then show "switched_ok env app a (cs_files s)" "r = Inl e \<Longrightarrow> cs_files s = cs_files st" by auto
qed

lemma enable_in_place_op:
  assumes "disk_free env app (cs_files st)" "enable_in_place X be env app st = (r, a, s)"
  shows "switched_ok env app a (cs_files s)" and "r = Inl e \<Longrightarrow> cs_files s = cs_files st"
proof -
  have "switched_ok env app a (cs_files s) \<and> (\<forall>e. r = Inl e \<longrightarrow> cs_files s = cs_files st)"
  proof (cases "pp_passphrase_confirm (ce_provider (pe_cli env))")
    case (Inl e)
    then have "a = app" "s = st" using assms(2) by (auto simp: enable_in_place_def)
    then show ?thesis using assms(1) by (simp add: switched_refl)
  next
    case (Inr p)
    let ?w = "clear_default_cache (ce_vault (pe_cli env)) (cs_world st)"
    obtain r2 cfg w2 where m: "enable X be p None (ap_config app) ?w = (r2, cfg, w2)"
      by (cases "enable X be p None (ap_config app) ?w") auto
    note same = enable_same[OF m]
    show ?thesis
    proof (cases r2)
      case (Inl e)
      then have "a = app\<lparr>ap_config := cfg\<rparr>" "s = st\<lparr>cs_world := w2\<rparr>"
        using assms(2) Inr m by (auto simp: enable_in_place_def)
      then show ?thesis using switched_config[OF _ same] assms(1) by simp
    next
      case k: (Inr key)
      let ?st = "st\<lparr>cs_world := w2\<rparr>"
      obtain r3 a3 s3 where q: "persist_and_reload env (app\<lparr>ap_config := cfg\<rparr>) ?st = (r3, a3, s3)"
        by (cases "persist_and_reload env (app\<lparr>ap_config := cfg\<rparr>) ?st") auto
      have "disk_free env app (cs_files ?st)" using assms(1) by simp
      note o = switched_reload[OF this same q]
      have "a = a3" "s = s3" "\<And>e. r = Inl e \<Longrightarrow> r3 = Inl e"
        using assms(2) Inr m k q by (auto simp: enable_in_place_def split: sum.splits)
      then show ?thesis using o by auto
    qed
  qed
  then show "switched_ok env app a (cs_files s)" "r = Inl e \<Longrightarrow> cs_files s = cs_files st" by auto
qed

text \<open>A switch: every refusal is a status, every failure leaves the files as they were.\<close>

lemma switch_op:
  assumes "disk_free env app (cs_files st)" "persist_store_switch X be env target app st = (r, a, s)"
  shows "switched_ok env app a (cs_files s)" and "r \<noteq> Inr True \<Longrightarrow> cs_files s = cs_files st"
proof -
  have refused: "switched_ok env app (set_store_status msg app) (cs_files (st\<lparr>cs_world := w\<rparr>))" for msg w
    using assms(1) by (simp add: switched_ok_def names_agree_def disk_free_def)
  have mip: "switched_ok env app a (cs_files s) \<and> (\<forall>e. r = Inl e \<longrightarrow> cs_files s = cs_files st) \<and> r \<noteq> Inr False"
    if "migrate_in_place X be env m app (st\<lparr>cs_world := w\<rparr>) = (r, a, s)" for m w
  proof -
    have d: "disk_free env app (cs_files (st\<lparr>cs_world := w\<rparr>))" using assms(1) by simp
    have "r \<noteq> Inr False" using that by (auto simp: migrate_in_place_def split: prod.splits sum.splits)
    then show ?thesis using migrate_in_place_op[OF d that] by auto
  qed
  have eip: "switched_ok env app a (cs_files s) \<and> (\<forall>e. r = Inl e \<longrightarrow> cs_files s = cs_files st) \<and> r \<noteq> Inr False"
    if "enable_in_place X be env app (st\<lparr>cs_world := w\<rparr>) = (r, a, s)" for w
  proof -
    have d: "disk_free env app (cs_files (st\<lparr>cs_world := w\<rparr>))" using assms(1) by simp
    have "r \<noteq> Inr False" using that by (auto simp: enable_in_place_def split: prod.splits sum.splits)
    then show ?thesis using enable_in_place_op[OF d that] by auto
  qed
  let ?done = "switched_ok env app a (cs_files s) \<and> (r \<noteq> Inr True \<longrightarrow> cs_files s = cs_files st)"
  have fin: ?done
    if "switched_ok env app a (cs_files s) \<and> (\<forall>e. r = Inl e \<longrightarrow> cs_files s = cs_files st) \<and> r \<noteq> Inr False"
    using that by (cases r) auto
  obtain ok w1 where o: "(if is_keyring (ap_config app) then probe_backend be (cs_world st) else (True, cs_world st)) = (ok, w1)"
    by fastforce
  obtain up w2 where p: "probe_backend be w1 = (up, w2)" by fastforce
  have ?done
  proof (cases "already_there target (ap_config app) \<or> \<not> ok")
    case True
    then show ?thesis
      using assms(2) o refused refused[of _ "cs_world st"] by (auto simp: persist_store_switch_def Let_def split: if_splits)
  next
    case False
    then show ?thesis
    proof (cases target)
      case ToKeyring
      then show ?thesis
        using assms(2) o p False refused fin mip by (auto simp: persist_store_switch_def Let_def split: if_splits)
    next
      case ToVault
      then show ?thesis using assms(2) o False fin eip by (simp add: persist_store_switch_def Let_def)
    next
      case ToPlaintext
      then show ?thesis
      proof (cases "pp_confirm (ce_provider (pe_cli env)) plaintext_warning")
        case (Inl e)
        then have "a = app" "s = st\<lparr>cs_world := w1\<rparr>"
          using assms(2) o False ToPlaintext by (simp_all add: persist_store_switch_def Let_def)
        then show ?thesis using assms(1) by (simp add: switched_refl)
      next
        case (Inr b)
        then show ?thesis
          using assms(2) o False ToPlaintext refused fin mip
          by (cases b) (auto simp: persist_store_switch_def Let_def)
      qed
    qed
  qed
  then show "switched_ok env app a (cs_files s)" "r \<noteq> Inr True \<Longrightarrow> cs_files s = cs_files st" by auto
qed

section \<open>The state after an operation\<close>

lemma host_save_shape:
  assumes "disk_free env app (cs_files st)" "persist_host_save X be env app st = (r, a, s)"
  shows "a = app \<or> (\<exists>cfg u. r = Inr u \<and> a = set_config cfg app)"
proof -
  have i: "a2 = app \<or> (\<exists>u. r2 = Inr u) \<and> a2 = set_config cfg app"
    if "install_config env cfg app (st\<lparr>cs_world := w\<rparr>) = (r2, a2, s2)" for cfg w r2 a2 s2
  proof -
    have "disk_free env app (cs_files (st\<lparr>cs_world := w\<rparr>))" using assms(1) by simp
    note k = install_config_ok[OF this that]
    show ?thesis using k(1,2) by (cases r2) auto
  qed
  show ?thesis
    using assms(2) i
    by (auto simp: persist_host_save_def split: option.splits shell_overlay.splits sum.splits prod.splits dest!: i)
qed

lemma cred_save_shape:
  assumes "disk_free env app (cs_files st)" "persist_cred_save X be env app st = (r, a, s)"
  shows "a = app \<or> r = Inr () \<and> (\<exists>cfg. a = set_config cfg app)" and "r = Inl e \<Longrightarrow> cs_files s = cs_files st"
proof -
  have i: "(a = app \<or> r = Inr () \<and> a = set_config cfg app) \<and> (\<forall>e. r = Inl e \<longrightarrow> cs_files s = cs_files st)"
    if "install_config env cfg app (st\<lparr>cs_world := w\<rparr>) = (r, a, s)" for cfg w
  proof -
    have "disk_free env app (cs_files (st\<lparr>cs_world := w\<rparr>))" using assms(1) by simp
    note k = install_config_ok[OF this that]
    show ?thesis using k(1,2) by (cases r) auto
  qed
  have "(a = app \<or> r = Inr () \<and> (\<exists>cfg. a = set_config cfg app)) \<and> (\<forall>e. r = Inl e \<longrightarrow> cs_files s = cs_files st)"
    using assms(2) i
    by (auto simp: persist_cred_save_def split: option.splits shell_overlay.splits sum.splits prod.splits dest!: i)
  then show "a = app \<or> r = Inr () \<and> (\<exists>cfg. a = set_config cfg app)" "r = Inl e \<Longrightarrow> cs_files s = cs_files st" by auto
qed

lemma install_rank_shape:
  assumes "disk_free env app (cs_files st)" "install_and_rank env cfg app st = (r, a, s)"
  shows "a = app \<or> r = Inr () \<and> (\<exists>cfg. a = recompute_panels (pe_matcher env) (set_config cfg app))"
proof -
  obtain r1 a1 s1 where i: "install_config env cfg app st = (r1, a1, s1)" by (cases "install_config env cfg app st") auto
  note k = install_config_ok[OF assms(1) i]
  show ?thesis using k(1,2) assms(2) i by (cases r1) (auto simp: install_and_rank_def)
qed

lemma delete_shape:
  assumes "disk_free env app (cs_files st)"
  shows "persist_host_delete be env name app st = (r, a, s) \<Longrightarrow>
      a = app \<or> r = Inr () \<and> (\<exists>cfg. a = recompute_panels (pe_matcher env) (set_config cfg app))"
    and "persist_cred_delete be env name app st = (r, a, s) \<Longrightarrow>
      a = app \<or> r = Inr () \<and> (\<exists>cfg. a = recompute_panels (pe_matcher env) (set_config cfg app))"
proof -
  have d: "disk_free env app (cs_files (st\<lparr>cs_world := w\<rparr>))" for w using assms by simp
  show "a = app \<or> r = Inr () \<and> (\<exists>cfg. a = recompute_panels (pe_matcher env) (set_config cfg app))"
    if "persist_host_delete be env name app st = (r, a, s)"
    using that install_rank_shape[OF d] by (auto simp: persist_host_delete_def Let_def split: prod.splits sum.splits)
  show "a = app \<or> r = Inr () \<and> (\<exists>cfg. a = recompute_panels (pe_matcher env) (set_config cfg app))"
    if "persist_cred_delete be env name app st = (r, a, s)"
    using that install_rank_shape[OF d] by (auto simp: persist_cred_delete_def Let_def split: prod.splits sum.splits)
qed

end
