(* ===== verification/Tui_Invariant.thy ===== *)
theory Tui_Invariant
  imports Tui_Config Form_Props Transfer_Props
begin

text \<open>The invariant of the running interface: the data, the rows of the panels and the overlays, kept by
every tick of the event loop.\<close>

section \<open>The invariant\<close>

definition ui_panels :: "'t tui_app \<Rightarrow> bool" where
  "ui_panels app \<longleftrightarrow> launcher_ok (hosts (ap_config app)) (ap_launcher app)
     \<and> cred_panel_ok (credentials (ap_config app)) (ap_cred_panel app)"

definition ui_modal :: "'t tui_app \<Rightarrow> bool" where
  "ui_modal app \<longleftrightarrow> (\<forall>n. map_option sv_selected (ap_store_view app) = Some n \<longrightarrow> n < 3)
     \<and> (\<forall>f. ap_overlay app = Some (HostWizard f) \<longrightarrow> host_form_ok f)"

definition ui_ok :: "'t tui_app \<Rightarrow> bool" where
  "ui_ok app \<longleftrightarrow> ui_data app \<and> ui_panels app \<and> ui_modal app"

text \<open>Changes of the state that keep it.\<close>

definition same_data :: "'t tui_app \<Rightarrow> 't tui_app \<Rightarrow> bool" where
  "same_data app a \<longleftrightarrow> ap_config a = ap_config app \<and> ap_config_path a = ap_config_path app
     \<and> ap_credential_names a = ap_credential_names app"

lemma same_data_refl [simp]: "same_data app app"
  by (simp add: same_data_def)

lemma same_data_trans: "same_data app b \<Longrightarrow> same_data b a \<Longrightarrow> same_data app a"
  by (simp add: same_data_def)

lemma same_data_ok: "same_data app a \<Longrightarrow> ui_data a = ui_data app"
  by (simp add: same_data_def ui_data_def)

lemma ui_panels_cong:
  "ap_config a = ap_config app \<Longrightarrow> ap_launcher a = ap_launcher app \<Longrightarrow> ap_cred_panel a = ap_cred_panel app
   \<Longrightarrow> ui_panels a = ui_panels app"
  by (simp add: ui_panels_def)

lemma recompute_panels_ok [simp]: "ui_panels (recompute_panels m app)"
  by (simp add: ui_panels_def recompute_panels_def launcher_recompute_ok cred_panel_recompute_ok)

lemma ui_modal_closed: "ap_overlay a = None \<Longrightarrow> ap_store_view a = ap_store_view app \<Longrightarrow> ui_modal app \<Longrightarrow> ui_modal a"
  by (simp add: ui_modal_def)

text \<open>A key moves between states with the same data.\<close>

definition key_step :: "'t tui_app \<Rightarrow> 't tui_app \<Rightarrow> bool" where
  "key_step app a \<longleftrightarrow> same_data app a \<and> (ui_panels app \<longrightarrow> ui_panels a) \<and> (ui_modal app \<longrightarrow> ui_modal a)"

lemma key_step_kept: "key_step app a \<Longrightarrow> ui_ok app \<Longrightarrow> ui_ok a"
  unfolding key_step_def ui_ok_def using same_data_ok by blast

lemma key_step_refl [simp]: "key_step app app"
  by (simp add: key_step_def)

lemma key_step_trans: "key_step app b \<Longrightarrow> key_step b a \<Longrightarrow> key_step app a"
  by (auto simp: key_step_def intro: same_data_trans)

text \<open>Fields the invariant does not read.\<close>

lemma key_step_fields [simp]:
  "key_step app (app\<lparr>ap_status := x1\<rparr>)" "key_step app (app\<lparr>ap_should_quit := x2\<rparr>)"
  "key_step app (app\<lparr>ap_help := x3\<rparr>)" "key_step app (app\<lparr>ap_transfer := x4\<rparr>)"
  "key_step app (app\<lparr>ap_pending_delete := x5\<rparr>)" "key_step app (app\<lparr>ap_pending_delete_cred := x6\<rparr>)"
  "key_step app (app\<lparr>ap_pending_transfer_host := x7\<rparr>)" "key_step app (app\<lparr>ap_active_tab := x8\<rparr>)"
  "key_step app (app\<lparr>ap_pending_connect := x9\<rparr>)" "key_step app (app\<lparr>ap_frecency := x10\<rparr>)"
  "key_step app (app\<lparr>ap_transfer_key := x11\<rparr>)" "key_step app (app\<lparr>ap_overlay := None\<rparr>)"
  by (simp_all add: key_step_def same_data_def ui_panels_def ui_modal_def)

lemma key_step_launcher:
  "(launcher_ok (hosts (ap_config app)) (ap_launcher app) \<Longrightarrow> launcher_ok (hosts (ap_config app)) l)
   \<Longrightarrow> key_step app (app\<lparr>ap_launcher := l\<rparr>)"
  by (simp add: key_step_def same_data_def ui_panels_def ui_modal_def)

lemma key_step_panel:
  "(cred_panel_ok (credentials (ap_config app)) (ap_cred_panel app) \<Longrightarrow> cred_panel_ok (credentials (ap_config app)) p)
   \<Longrightarrow> key_step app (app\<lparr>ap_cred_panel := p\<rparr>)"
  by (simp add: key_step_def same_data_def ui_panels_def ui_modal_def)

lemma key_step_overlay:
  "(ui_modal app \<Longrightarrow> case ov of HostWizard f \<Rightarrow> host_form_ok f | _ \<Rightarrow> True) \<Longrightarrow> key_step app (app\<lparr>ap_overlay := Some ov\<rparr>)"
  by (auto simp: key_step_def same_data_def ui_panels_def ui_modal_def split: shell_overlay.splits)

lemma key_step_view:
  "(ui_modal app \<Longrightarrow> sv_selected v < 3) \<Longrightarrow> key_step app (app\<lparr>ap_store_view := Some v\<rparr>)"
  by (auto simp: key_step_def same_data_def ui_panels_def ui_modal_def)

lemma key_step_recompute [simp]: "key_step app (recompute_panels m app)"
  by (simp add: key_step_def same_data_def ui_modal_def)

section \<open>Keys\<close>

lemma route_overlay_step:
  fixes app :: "'t tui_app"
  assumes o: "ap_overlay app = Some ov"
  shows "key_step app (snd (route_overlay env key ov app))"
proof (cases ov)
  case (HostWizard f)
  obtain out g where k: "host_form_on_key (ae_form env) key f = (out, g)" by fastforce
  have g: "host_form_ok g" if "ui_modal app"
    using host_key_ok[OF _ k] that o HostWizard by (simp add: ui_modal_def)
  then have "key_step app (app\<lparr>ap_overlay := Some (HostWizard g)\<rparr>)" by (intro key_step_overlay) simp
  then show ?thesis using HostWizard k by (simp add: route_overlay_def Let_def)
next
  case (CredWizard f)
  obtain out g where k: "cred_form_on_key (ae_form env) key f = (out, g)" by fastforce
  have "key_step app (app\<lparr>ap_overlay := Some (CredWizard g)\<rparr>)" by (intro key_step_overlay) simp
  then show ?thesis using CredWizard k by (simp add: route_overlay_def Let_def)
next
  case StorePicker
  show ?thesis
  proof (cases "ap_store_view app")
    case None
    then show ?thesis using StorePicker by (simp add: route_overlay_def Let_def)
  next
    case (Some v)
    let ?v = "snd (store_view_on_key key v :: 't intent \<times> store_view)"
    let ?b = "app\<lparr>ap_overlay := None, ap_store_view := Some ?v\<rparr>"
    have v: "key_step (app\<lparr>ap_overlay := None\<rparr>) ?b"
    proof (rule key_step_view)
      assume "ui_modal (app\<lparr>ap_overlay := None\<rparr>)"
      then show "sv_selected ?v < 3" using store_view_on_key_ok[of v key] Some by (simp add: ui_modal_def)
    qed
    have b: "key_step app ?b" using key_step_trans[OF key_step_fields(12) v] .
    have "key_step ?b (?b\<lparr>ap_overlay := Some StorePicker\<rparr>)" by (rule key_step_overlay) simp
    then have "key_step app (?b\<lparr>ap_overlay := Some StorePicker\<rparr>)" by (rule key_step_trans[OF b])
    then show ?thesis using b StorePicker Some by (simp add: route_overlay_def Let_def case_prod_beta)
  qed
qed

lemma open_host_edit_step: "key_step app (snd (open_host_wizard_edit u app))"
  by (auto simp: open_host_wizard_edit_def new_edit_ok intro: key_step_overlay split: option.splits)

lemma open_cred_edit_step: "key_step app (snd (open_cred_wizard_edit u app))"
  by (auto simp: open_cred_wizard_edit_def intro: key_step_overlay split: option.splits)

lemma opened_overlay_step: "key_step b app \<Longrightarrow> key_step b (snd (opened_overlay app))"
  by (simp add: opened_overlay_def split: option.splits)

lemma open_edit_step: "key_step app (snd (open_edit_overlay app))"
  by (simp add: open_edit_overlay_def opened_overlay_step open_host_edit_step open_cred_edit_step split: tab.split option.split)

lemma open_add_step: "key_step app (snd (open_add_overlay app))"
  by (auto simp: open_add_overlay_def Let_def new_add_ok intro: key_step_overlay split: tab.split)

lemma begin_delete_step: "key_step app (snd (begin_delete app))"
  by (simp add: begin_delete_def split: tab.split option.split)

lemma store_picker_step: "key_step app (snd (open_store_picker app))"
proof -
  let ?a = "open_store_view app"
  have "key_step app ?a" by (auto simp: open_store_view_def store_view_new_def intro: key_step_view)
  moreover have "key_step ?a (?a\<lparr>ap_overlay := Some StorePicker\<rparr>)" by (intro key_step_overlay) simp
  ultimately show ?thesis unfolding open_store_picker_def using key_step_trans by (simp, blast)
qed

lemma launcher_key_step: "key_step app (snd (app_launcher_key m key app))"
  by (simp add: app_launcher_key_def case_prod_beta key_step_launcher launcher_on_key_ok)

lemma cred_panel_key_step:
  "key_step app (app\<lparr>ap_cred_panel := snd (cred_panel_on_key m (credentials (ap_config app)) key (ap_cred_panel app))\<rparr>)"
  by (rule key_step_panel) (rule cred_panel_on_key_ok)

lemma primary_step: "key_step app (snd (primary_action m app))"
proof (cases "ap_active_tab app")
  case TabHosts
  obtain out a where k: "app_launcher_key m (press KeyEnter) app = (out, a)" by fastforce
  have a: "key_step app a" using launcher_key_step[of app m "press KeyEnter"] k by simp
  let ?b = "\<lambda>x. a\<lparr>ap_pending_connect := x\<rparr>"
  have b: "key_step app (?b x)" for x using key_step_trans[OF a key_step_fields(9)] .
  have "key_step app (?b x\<lparr>ap_status := y\<rparr>)" for x y using key_step_trans[OF b key_step_fields(1)] .
  then show ?thesis using TabHosts k b by (simp add: primary_action_def Let_def)
qed (simp_all add: primary_action_def open_edit_step store_picker_step)

lemma active_key_step: "key_step app (snd (route_active_panel_key m key app))"
proof (cases "ap_active_tab app")
  case TabHosts
  obtain out a where k: "app_launcher_key m key app = (out, a)" by fastforce
  have a: "key_step app a" using launcher_key_step[of app m key] k by simp
  show ?thesis
    using TabHosts k a key_step_trans[OF a key_step_fields(2)] by (simp add: route_active_panel_key_def split: intent.split)
next
  case TabCredentials
  then show ?thesis using cred_panel_key_step by (simp add: route_active_panel_key_def case_prod_beta)
qed (simp add: route_active_panel_key_def)

lemma clear_query_step: "key_step app (clear_active_panel_query m app)"
  by (auto simp: clear_active_panel_query_def launcher_recompute_ok cred_panel_recompute_ok
      intro: key_step_launcher key_step_panel split: tab.split)

lemma route_panel_step: "key_step app (snd (route_panel m key app))"
  by (simp add: route_panel_def Let_def open_add_step open_edit_step begin_delete_step clear_query_step primary_step
      active_key_step split: tab_key.split)

lemma transfer_key_step: "key_step app (snd (app_route_transfer env key sc app))"
  by (simp add: app_route_transfer_def split: prod.split route_outcome.split)

lemma on_key_step: "key_step app (snd (app_on_key env key app))"
proof -
  have panel: "key_step app (snd (route_panel m key (app\<lparr>ap_status := x\<rparr>)))" for m x
    using key_step_trans[OF key_step_fields(1) route_panel_step] .
  show ?thesis
    by (simp add: app_on_key_def panel transfer_key_step route_overlay_step split: option.split)
qed

section \<open>Operations\<close>

definition tick_kept :: "'t tui_app \<Rightarrow> 't tui_app \<Rightarrow> bool" where
  "tick_kept app a \<longleftrightarrow> ui_ok a \<and> ap_config_path a = ap_config_path app"

definition tick_ready :: "'t tui_env \<Rightarrow> 't tui_app \<times> 'b run_state \<Rightarrow> bool" where
  "tick_ready env s \<longleftrightarrow>
     disk_free (tn_persist env) (fst s) (ts_files (rs_temp (snd s)))
     \<and> ulid_ok (cm_fresh (tn_cmd env)) \<and> cm_fresh (tn_cmd env) \<notin> config_ids (ap_config (fst s))"

lemma kept_step: "tick_kept app a \<Longrightarrow> key_step a b \<Longrightarrow> tick_kept app b"
  using key_step_kept[of a b] by (simp add: tick_kept_def key_step_def same_data_def)

lemma tick_kept_refl: "ui_ok app \<Longrightarrow> tick_kept app app"
  by (simp add: tick_kept_def)

lemma ready_state: "tick_ready env (app, st) \<Longrightarrow> ui_ok app \<Longrightarrow> keyed_state (tn_persist env) app (ts_files (rs_temp st))"
  by (simp add: tick_ready_def keyed_state_def ui_ok_def tn_persist_def)

lemma ready_step: "tick_ready env (app, st) \<Longrightarrow> same_data app a \<Longrightarrow> tick_ready env (a, st)"
  by (simp add: tick_ready_def disk_free_def same_data_def)

lemma switched_ui: "switched_ok env app a fs \<Longrightarrow> ui_ok app \<Longrightarrow> tick_kept app a"
  using same_keys_ok same_keys_length
  by (auto simp: switched_ok_def tick_kept_def ui_ok_def ui_data_def names_agree_def ui_panels_def launcher_ok_def
      cred_panel_ok_def ui_modal_def)

lemma select_by_id_ok: "launcher_ok hs l \<Longrightarrow> launcher_ok hs (snd (select_by_id hs u l))"
  by (auto simp: select_by_id_def launcher_ok_def split: option.split dest: position_Some)

lemma close_host_wizard_kept:
  assumes "ui_data a" "ui_modal a"
  shows "ui_ok (close_host_wizard m saved a)" "ap_config_path (close_host_wizard m saved a) = ap_config_path a"
proof -
  let ?b = "recompute_panels m (a\<lparr>ap_overlay := None\<rparr>)"
  have b: "ui_ok ?b" "ap_config_path ?b = ap_config_path a"
    using assms by (auto simp: ui_ok_def ui_data_def intro: ui_modal_closed)
  have l: "key_step ?b (?b\<lparr>ap_launcher := l\<rparr>)" if "launcher_ok (hosts (ap_config ?b)) l" for l
    using that by (intro key_step_launcher) simp
  have "key_step ?b (close_host_wizard m saved a)"
  proof (cases saved)
    case (Some u)
    let ?hs = "hosts (ap_config ?b)"
    obtain found l where s: "select_by_id ?hs u (ap_launcher ?b) = (found, l)" by fastforce
    have "launcher_ok ?hs (ap_launcher ?b)" using b(1) by (simp add: ui_ok_def ui_panels_def)
    then have "launcher_ok ?hs l" using select_by_id_ok s by (metis snd_conv)
    then show ?thesis
      using Some s l select_by_id_ok[OF launcher_recompute_ok] by (cases found) (simp_all add: close_host_wizard_def Let_def)
  qed (simp add: close_host_wizard_def)
  then show "ui_ok (close_host_wizard m saved a)" "ap_config_path (close_host_wizard m saved a) = ap_config_path a"
    using b key_step_kept[of ?b] by (simp_all add: key_step_def same_data_def)
qed

lemma recompute_closed:
  "ui_data a \<Longrightarrow> ui_modal a \<Longrightarrow> ui_ok (recompute_panels m (a\<lparr>ap_overlay := None\<rparr>))"
  by (auto simp: ui_ok_def ui_data_def intro: ui_modal_closed)

lemma host_error_step: "key_step app (on_host_form (host_set_core_error msg) app)"
proof -
  have "host_form_ok (host_set_core_error msg f)" if "host_form_ok f" for f :: "'t host_form"
    using that by (simp add: host_set_core_error_def host_form_ok_def host_modal_ok_def host_ok_defs cong: option.case_cong)
  then show ?thesis
    by (auto simp: on_host_form_def ui_modal_def intro!: key_step_overlay split: option.split shell_overlay.split)
qed

lemma cred_error_step: "key_step app (on_cred_form g app)"
  by (auto simp: on_cred_form_def intro!: key_step_overlay split: option.split shell_overlay.split)

lemma set_store_status_step: "key_step app (set_store_status msg app)"
  unfolding key_step_def same_data_def ui_panels_def ui_modal_def by simp

text \<open>Operations on the world and the files.\<close>

lemma on_process_result:
  assumes "on_process f app st = (r, a, s)"
  obtains t where "f app \<lparr>cs_world = rs_world st, cs_files = ts_files (rs_temp st)\<rparr> = (r, a, t)"
    "s = st\<lparr>rs_world := cs_world t, rs_temp := (rs_temp st)\<lparr>ts_files := cs_files t\<rparr>\<rparr>"
  using assms by (auto simp: on_process_def split: prod.splits)

lemma modal_config: "ui_modal (set_config cfg app) = ui_modal app" "ui_modal (app\<lparr>ap_status := x\<rparr>) = ui_modal app"
  by (simp_all add: ui_modal_def)

lemma save_host_kept:
  assumes "ui_ok app" "tick_ready env (app, st)"
  shows "tick_kept app (fst (save_host_intent X be env app st))"
proof -
  obtain r a s where p: "on_process (persist_host_save X be (tn_persist env)) app st = (r, a, s)"
    by (cases "on_process (persist_host_save X be (tn_persist env)) app st") auto
  obtain t where o: "persist_host_save X be (tn_persist env) app \<lparr>cs_world = rs_world st, cs_files = ts_files (rs_temp st)\<rparr>
      = (r, a, t)" using on_process_result[OF p] by metis
  have k: "keys_kept (tn_persist env) app a (cs_files t)" using host_save_op[OF _ o] ready_state[OF assms(2,1)] by simp
  have sh: "a = app \<or> (\<exists>cfg u. r = Inr u \<and> a = set_config cfg app)"
    using host_save_shape[OF _ o] ready_state[OF assms(2,1)] by (simp add: keyed_state_def)
  show ?thesis
  proof (cases r)
    case (Inl e)
    then have "a = app" using sh by auto
    then show ?thesis
      using kept_step[OF tick_kept_refl[OF assms(1)] host_error_step] Inl p by (simp add: save_host_intent_def)
  next
    case (Inr saved)
    let ?b = "set_app_status ''host saved'' a"
    have "ui_data ?b" using k by (simp add: keys_kept_def set_app_status_def ui_data_def)
    moreover have "ui_modal ?b" using sh assms(1) by (auto simp: set_app_status_def modal_config ui_ok_def)
    ultimately show ?thesis
      using close_host_wizard_kept[of ?b "tn_matcher env" saved] k Inr p
      by (simp add: save_host_intent_def tick_kept_def keys_kept_def) (simp add: set_app_status_def)
  qed
qed

lemma credential_saved_kept:
  assumes "keys_kept env app a fs" "ui_modal a"
  shows "tick_kept app (credential_saved env a)"
  using assms recompute_closed[of "set_app_status ''credential saved'' a" "pe_matcher env"]
  by (simp add: tick_kept_def credential_saved_def close_cred_wizard_def keys_kept_def set_app_status_def ui_data_def modal_config)

lemma cred_save_kept:
  assumes "keyed_state env app (cs_files st)" "ui_ok app" "persist_cred_save X be env app st = (r, a, s)"
  shows "r = Inl e \<Longrightarrow> a = app" and "r = Inr () \<Longrightarrow> tick_kept app (credential_saved env a)"
proof -
  have sh: "a = app \<or> r = Inr () \<and> (\<exists>cfg. a = set_config cfg app)"
    using cred_save_shape(1)[OF _ assms(3)] assms(1) by (simp add: keyed_state_def)
  show "a = app" if "r = Inl e" using sh that by auto
  have "ui_modal a" using sh assms(2) by (auto simp: modal_config ui_ok_def)
  then show "tick_kept app (credential_saved env a)"
    using credential_saved_kept[OF cred_save_op[OF assms(1,3)]] by simp
qed

lemma switched_state:
  assumes "keyed_state env app fs" "switched_ok env app a fs'"
  shows "keyed_state env a fs'"
  using assms same_keys_ok same_keys_ids
  by (auto simp: keyed_state_def switched_ok_def ui_data_def names_agree_def)

lemma kept_trans: "tick_kept app b \<Longrightarrow> tick_kept b a \<Longrightarrow> tick_kept app a"
  by (simp add: tick_kept_def)

lemma recover_kept:
  assumes "keyed_state env app (cs_files st)" "ui_ok app" "recover_store_mode_and_retry X be env app st = (r, a, s)"
  shows "r \<noteq> Inr True \<Longrightarrow> tick_kept app a" and "r = Inr True \<Longrightarrow> tick_kept app (credential_saved env a)"
proof -
  have "if r = Inr True then tick_kept app (credential_saved env a) else tick_kept app a"
  proof (cases "\<exists>p. pe_store_pick env = Inr (Some p)")
    case False
    then have "r \<noteq> Inr True \<and> (a = app \<or> (\<exists>g. a = on_cred_form g app))"
      using assms(3) by (auto simp: recover_store_mode_and_retry_def split: sum.splits option.splits)
    then show ?thesis using tick_kept_refl[OF assms(2)] kept_step[OF tick_kept_refl[OF assms(2)] cred_error_step] by auto
  next
    case True
    then obtain p where p: "pe_store_pick env = Inr (Some p)" by blast
    obtain r1 b t where w: "persist_store_switch X be env (map_store_pick p) app st = (r1, b, t)"
      by (cases "persist_store_switch X be env (map_store_pick p) app st") auto
    have "disk_free env app (cs_files st)" using assms(1) by (simp add: keyed_state_def)
    then have sw: "switched_ok env app b (cs_files t)" by (rule switch_op(1)[OF _ w])
    have b: "tick_kept app b" by (rule switched_ui[OF sw assms(2)])
    then have ub: "ui_ok b" by (simp add: tick_kept_def)
    have kb: "keyed_state env b (cs_files t)" by (rule switched_state[OF assms(1) sw])
    show ?thesis
    proof (cases "r1 = Inr True")
      case True
      obtain r2 a2 s2 where c: "persist_cred_save X be env b t = (r2, a2, s2)" by (cases "persist_cred_save X be env b t") auto
      note k = cred_save_kept[OF kb ub c]
      have "a = a2" "r = (case r2 of Inl e \<Rightarrow> Inl e | Inr _ \<Rightarrow> Inr True)"
        using assms(3) p w True c by (auto simp: recover_store_mode_and_retry_def split: sum.splits)
      then show ?thesis using k b kept_trans[OF b] by (cases r2) auto
    next
      case False
      then have "r \<noteq> Inr True \<and> (a = b \<or> (\<exists>g. a = on_cred_form g b))"
        using assms(3) p w by (auto simp: recover_store_mode_and_retry_def split: sum.splits bool.splits)
      then show ?thesis using b kept_step[OF b cred_error_step] by auto
    qed
  qed
  then show "r \<noteq> Inr True \<Longrightarrow> tick_kept app a" "r = Inr True \<Longrightarrow> tick_kept app (credential_saved env a)"
    by (simp_all split: if_splits)
qed

lemma fulfill_kept:
  assumes "keyed_state env app (cs_files st)" "ui_ok app"
  shows "tick_kept app (fst (fulfill_save_cred X be env app st))"
proof -
  obtain r a s where c: "persist_cred_save X be env app st = (r, a, s)" by (cases "persist_cred_save X be env app st") auto
  note k = cred_save_kept[OF assms c]
  show ?thesis
  proof (cases r)
    case (Inr u)
    then show ?thesis using k(2) c by (simp add: fulfill_save_cred_def Let_def)
  next
    case (Inl e)
    then have a: "a = app" by (rule k(1))
    show ?thesis
    proof (cases "e = StoreModeNotDecided")
      case False
      then have "\<exists>g. fst (fulfill_save_cred X be env app st) = on_cred_form g app"
        using c Inl a by (cases e) (auto simp: fulfill_save_cred_def Let_def)
      then show ?thesis using kept_step[OF tick_kept_refl[OF assms(2)] cred_error_step] by auto
    next
      case True
      have f: "cs_files s = cs_files st"
        using cred_save_shape(2)[OF _ c] assms(1) Inl by (simp add: keyed_state_def)
      then have ks: "keyed_state env app (cs_files s)" using assms(1) by simp
      obtain r2 a2 s2 where v: "recover_store_mode_and_retry X be env app s = (r2, a2, s2)"
        by (cases "recover_store_mode_and_retry X be env app s") auto
      note q = recover_kept[OF ks assms(2) v]
      show ?thesis
        using q c Inl a True v kept_step[OF q(1) cred_error_step]
        by (cases r2) (auto simp: fulfill_save_cred_def Let_def split: bool.splits)
    qed
  qed
qed

section \<open>Intents\<close>

lemma save_cred_kept:
  assumes "ui_ok app" "tick_ready env (app, st)"
  shows "tick_kept app (fst (save_cred_intent X be env app st))"
proof -
  let ?st = "\<lparr>cs_world = rs_world st, cs_files = ts_files (rs_temp st)\<rparr>"
  have "keyed_state (tn_persist env) app (cs_files ?st)" using ready_state[OF assms(2,1)] by simp
  then show ?thesis
    using fulfill_kept[OF _ assms(1), of "tn_persist env" ?st X be]
    by (simp add: save_cred_intent_def on_process_def case_prod_beta)
qed

lemma switch_intent_kept:
  assumes "ui_ok app" "tick_ready env (app, st)"
  shows "tick_kept app (fst (switch_intent X be env target app st))"
proof -
  obtain r a s where p: "on_process (persist_store_switch X be (tn_persist env) target) app st = (r, a, s)"
    by (cases "on_process (persist_store_switch X be (tn_persist env) target) app st") auto
  obtain t where o: "persist_store_switch X be (tn_persist env) target app
      \<lparr>cs_world = rs_world st, cs_files = ts_files (rs_temp st)\<rparr> = (r, a, t)" using on_process_result[OF p] by metis
  have "switched_ok (tn_persist env) app a (cs_files t)"
    using switch_op(1)[OF _ o] ready_state[OF assms(2,1)] by (simp add: keyed_state_def)
  then have a: "tick_kept app a" by (rule switched_ui[OF _ assms(1)])
  have closed: "tick_kept app (set_app_status msg ((close_store_view m a)\<lparr>ap_overlay := None\<rparr>))" for msg m
  proof -
    let ?c = "a\<lparr>ap_store_view := None\<rparr>"
    have "key_step a ?c" by (auto simp: key_step_def same_data_def ui_modal_def ui_panels_def)
    then have "key_step a (close_store_view m a)" unfolding close_store_view_def by (rule key_step_trans[OF _ key_step_recompute])
    then have "key_step a ((close_store_view m a)\<lparr>ap_overlay := None\<rparr>)" by (rule key_step_trans[OF _ key_step_fields(12)])
    then show ?thesis unfolding set_app_status_def by (rule kept_step[OF a key_step_trans[OF _ key_step_fields(1)]])
  qed
  show ?thesis
    using p a closed kept_step[OF a set_store_status_step]
    by (auto simp: switch_intent_def split: sum.split bool.split)
qed

lemma removal_kept:
  assumes "ui_ok app" "tick_ready env (app, st)"
    and act: "\<And>r a t. act app \<lparr>cs_world = rs_world st, cs_files = ts_files (rs_temp st)\<rparr> = (r, a, t) \<Longrightarrow>
      keys_kept (tn_persist env) app a (cs_files t)
      \<and> (a = app \<or> r = Inr () \<and> (\<exists>cfg m. a = recompute_panels m (set_config cfg app)))"
  shows "tick_kept app (fst (confirmed_removal env kind name act app st))"
proof -
  have base: "tick_kept app (app\<lparr>ap_overlay := None\<rparr>)" "tick_kept app (report_failure sh e app)" for sh e
    unfolding report_failure_def by (rule kept_step[OF tick_kept_refl[OF assms(1)] key_step_fields(12)]
      kept_step[OF tick_kept_refl[OF assms(1)] key_step_fields(1)])+
  obtain r a s where p: "on_process act app st = (r, a, s)" by (cases "on_process act app st") auto
  obtain t where o: "act app \<lparr>cs_world = rs_world st, cs_files = ts_files (rs_temp st)\<rparr> = (r, a, t)"
    using on_process_result[OF p] by metis
  have a: "tick_kept app a"
    using act[OF o] assms(1) by (auto simp: tick_kept_def ui_ok_def keys_kept_def ui_modal_def)
  have "tick_kept app (report_failure sh e a)" "tick_kept app (set_app_status msg (a\<lparr>ap_overlay := None\<rparr>))" for sh e msg
    unfolding report_failure_def set_app_status_def
    by (rule kept_step[OF a key_step_fields(1)] kept_step[OF a key_step_trans[OF key_step_fields(12) key_step_fields(1)]])+
  then show ?thesis using base p by (auto simp: confirmed_removal_def split: sum.split bool.split)
qed

lemma delete_kept:
  assumes "ui_ok app" "tick_ready env (app, st)"
  shows "tick_kept app (fst (snd (delete_host_intent be env app st)))"
    "tick_kept app (fst (snd (delete_cred_intent be env app st)))"
proof -
  let ?st = "\<lparr>cs_world = rs_world st, cs_files = ts_files (rs_temp st)\<rparr>"
  have go: "tick_kept b (fst (confirmed_removal env kind name act b st))"
    if "ui_ok b" "tick_ready env (b, st)" "act = persist_host_delete be (tn_persist env) n \<or> act = persist_cred_delete be (tn_persist env) n"
    for b kind name act n
  proof (rule removal_kept[OF that(1,2)])
    fix r a t assume o: "act b ?st = (r, a, t)"
    have ks: "keyed_state (tn_persist env) b (cs_files ?st)" using ready_state[OF that(2,1)] by simp
    then have d: "disk_free (tn_persist env) b (cs_files ?st)" by (simp add: keyed_state_def)
    have "keys_kept (tn_persist env) b a (cs_files t)" using that(3) o delete_ops[OF ks] by auto
    moreover have "a = b \<or> r = Inr () \<and> (\<exists>cfg. a = recompute_panels (pe_matcher (tn_persist env)) (set_config cfg b))"
      using that(3)
    proof
      assume "act = persist_host_delete be (tn_persist env) n"
      with o have "persist_host_delete be (tn_persist env) n b ?st = (r, a, t)" by simp
      then show ?thesis by (rule delete_shape(1)[OF d])
    next
      assume "act = persist_cred_delete be (tn_persist env) n"
      with o have "persist_cred_delete be (tn_persist env) n b ?st = (r, a, t)" by simp
      then show ?thesis by (rule delete_shape(2)[OF d])
    qed
    ultimately show "keys_kept (tn_persist env) b a (cs_files t)
        \<and> (a = b \<or> r = Inr () \<and> (\<exists>cfg m. a = recompute_panels m (set_config cfg b)))" by auto
  qed
  have k: "tick_kept app (app\<lparr>ap_pending_delete := x\<rparr>)" "tick_kept app (app\<lparr>ap_pending_delete_cred := y\<rparr>)" for x y
    by (rule kept_step[OF tick_kept_refl[OF assms(1)] key_step_fields(5)] kept_step[OF tick_kept_refl[OF assms(1)] key_step_fields(6)])+
  have r: "tick_ready env (app\<lparr>ap_pending_delete := x\<rparr>, st)" "tick_ready env (app\<lparr>ap_pending_delete_cred := y\<rparr>, st)" for x y
    by (rule ready_step[OF assms(2)], simp add: same_data_def)+
  have u: "ui_ok (app\<lparr>ap_pending_delete := x\<rparr>)" "ui_ok (app\<lparr>ap_pending_delete_cred := y\<rparr>)" for x y
    using k by (simp_all add: tick_kept_def)
  have h: "tick_kept app (fst (confirmed_removal env kind n (persist_host_delete be (tn_persist env) n)
      (app\<lparr>ap_pending_delete := x\<rparr>) st))" for kind n x
    by (rule kept_trans[OF k(1) go[OF u(1) r(1) disjI1[OF refl]]])
  have c: "tick_kept app (fst (confirmed_removal env kind n (persist_cred_delete be (tn_persist env) n)
      (app\<lparr>ap_pending_delete_cred := x\<rparr>) st))" for kind n x
    by (rule kept_trans[OF k(2) go[OF u(2) r(2) disjI2[OF refl]]])
  show "tick_kept app (fst (snd (delete_host_intent be env app st)))"
    using h tick_kept_refl[OF assms(1)] by (simp add: delete_host_intent_def Let_def split: option.split)
  show "tick_kept app (fst (snd (delete_cred_intent be env app st)))"
    using c tick_kept_refl[OF assms(1)] by (simp add: delete_cred_intent_def split: option.split)
qed

lemma connect_host_step: "key_step app (fst (snd (connect_host X be env u app st)))"
  by (auto simp: connect_host_def Let_def split: option.split prod.split sum.split)

lemma connect_kept:
  assumes "ui_ok app"
  shows "tick_kept app (fst (snd (start_connect X be env app st)))"
proof -
  have l: "key_step app (app\<lparr>ap_launcher := (ap_launcher app)\<lparr>la_pending_connect := None\<rparr>\<rparr>)"
    by (rule key_step_launcher) (simp add: launcher_ok_def)
  have "key_step app (fst (snd (start_connect X be env app st)))"
  proof (cases "la_pending_connect (ap_launcher app)")
    case (Some u)
    let ?b = "app\<lparr>ap_launcher := (ap_launcher app)\<lparr>la_pending_connect := None\<rparr>\<rparr>"
    obtain r a s where c: "connect_host X be env u ?b st = (r, a, s)" by (cases "connect_host X be env u ?b st") auto
    have a: "key_step app a" using key_step_trans[OF l connect_host_step[of ?b X be env u st]] c by simp
    have "key_step app (report_unless_cancelled env e a)" for e
      using a key_step_trans[OF a key_step_fields(1)] by (simp add: report_unless_cancelled_def report_failure_def)
    then show ?thesis using Some c a by (simp add: start_connect_def split: sum.split)
  qed (simp add: start_connect_def)
  then show ?thesis by (rule kept_step[OF tick_kept_refl[OF assms]])
qed

lemma open_pending_step: "key_step app (fst (open_pending X be env target app st))"
proof -
  let ?b = "app\<lparr>ap_pending_transfer_host := None\<rparr>"
  obtain r a s where c: "open_transfer X be env (fst target) (snd target) ?b st = (r, a, s)"
    by (cases "open_transfer X be env (fst target) (snd target) ?b st") auto
  have t: "key_step ?b (?b\<lparr>ap_transfer := x, ap_transfer_key := y\<rparr>)" for x y
    by (rule key_step_trans[OF key_step_fields(4) key_step_fields(11)])
  have "a = ?b \<or> (\<exists>x y. a = ?b\<lparr>ap_transfer := x, ap_transfer_key := y\<rparr>)"
    using c by (auto simp: open_transfer_def split: prod.splits sum.splits)
  then have "key_step ?b a" using t by auto
  then have a: "key_step app a" by (rule key_step_trans[OF key_step_fields(7)])
  have "key_step app (report_unless_cancelled env e a)" for e
    using a key_step_trans[OF a key_step_fields(1)] by (simp add: report_unless_cancelled_def report_failure_def)
  then show ?thesis using c a by (simp add: open_pending_def split: sum.split)
qed

lemma handle_intent_kept:
  assumes "ui_ok app" "tick_ready env (app, st)"
  shows "tick_kept app (fst (snd (handle_intent X be env out app st)))"
proof -
  have closed: "tick_kept app (close_overlay (tn_matcher env) app)"
    unfolding close_overlay_def
    by (rule kept_step[OF tick_kept_refl[OF assms(1)] key_step_trans[OF key_step_fields(12) key_step_recompute]])
  have tr: "tick_kept app (app_close_transfer app)"
    unfolding app_close_transfer_def
    by (rule kept_step[OF tick_kept_refl[OF assms(1)] key_step_trans[OF key_step_fields(4) key_step_fields(11)]])
  have op: "tick_kept app (fst (open_pending X be env target app st))" for target
    by (rule kept_step[OF tick_kept_refl[OF assms(1)] open_pending_step])
  show ?thesis
    by (cases out)
      (simp_all add: handle_intent_def tick_kept_refl[OF assms(1)] connect_kept[OF assms(1)] save_host_kept[OF assms]
        save_cred_kept[OF assms] closed switch_intent_kept[OF assms] delete_kept[OF assms] op tr close_transfer_intent_def
        split: option.split)
qed

lemma tick_step:
  assumes "ui_ok app" "tick_ready env (app, st)" "tui_tick X be env ev (app, st) = (res, a, s)"
  shows "tick_kept app a"
proof -
  have sp: "key_step app (spin app)" unfolding spin_def by (rule key_step_fields(4))
  have dr: "key_step b (drain_tick env b)" for b by (simp add: drain_tick_def)
  have en: "tick_kept app (fst (snd (end_tick env (b, t))))" if "tick_kept app b" for b and t :: "'c run_state"
    using kept_step[OF that dr] by (simp add: end_tick_def Let_def)
  have spk: "tick_kept app (spin app)" by (rule kept_step[OF tick_kept_refl[OF assms(1)] sp])
  show ?thesis
  proof (cases "\<exists>key. ev = EventKey key")
    case True
    then obtain key where ev: "ev = EventKey key" by blast
    obtain out b where k: "app_on_key (tn_app env) key (spin app) = (out, b)" by fastforce
    have b: "key_step app b" using key_step_trans[OF sp on_key_step[of "spin app" "tn_app env" key]] k by simp
    have ub: "ui_ok b" by (rule key_step_kept[OF b assms(1)])
    have rb: "tick_ready env (b, st)" by (rule ready_step[OF assms(2)]) (use b in \<open>simp add: key_step_def\<close>)
    obtain fl c t where h: "handle_intent X be env out b st = (fl, c, t)" by (cases "handle_intent X be env out b st") auto
    have c: "tick_kept app c"
      using kept_trans[OF kept_step[OF tick_kept_refl[OF assms(1)] b] handle_intent_kept[OF ub rb, of X be out]] h by simp
    show ?thesis using assms(3) ev k h c en[OF c, of t] by (cases fl) (auto simp: tui_tick_def Let_def)
  next
    case False
    then show ?thesis using assms(3) spk en[OF spk, of st] by (cases ev) (auto simp: tui_tick_def Let_def)
  qed
qed

section \<open>From the start\<close>

lemma select_steps: "key_step app (select_host_by_name n app)" "key_step app (select_cred_by_name n app)"
proof -
  have h: "key_step app (app\<lparr>ap_launcher := (ap_launcher app)\<lparr>la_selected := i\<rparr>\<rparr>)"
    if "position P (la_ranked (ap_launcher app)) = Some i" for P i
    using position_Some[OF that] by (intro key_step_launcher) (auto simp: launcher_ok_def)
  have c: "key_step app (app\<lparr>ap_cred_panel := (ap_cred_panel app)\<lparr>cn_selected := i\<rparr>\<rparr>)"
    if "position P (cn_ranked (ap_cred_panel app)) = Some i" for P i
    using position_Some[OF that] by (intro key_step_panel) (auto simp: cred_panel_ok_def)
  show "key_step app (select_host_by_name n app)"
    unfolding select_host_by_name_def by (rule option.split[THEN iffD2]) (use h in simp)
  show "key_step app (select_cred_by_name n app)"
    unfolding select_cred_by_name_def by (rule option.split[THEN iffD2]) (use c in simp)
qed

lemma open_add_steps: "key_step app (open_host_wizard_add app)" "key_step app (open_cred_wizard_add app)"
  by (auto simp: open_host_wizard_add_def open_cred_wizard_add_def new_add_ok intro: key_step_overlay)

lemma edit_by_name_step: "key_step app (snd (open_host_wizard_edit_by_name n app))"
  by (simp add: open_host_wizard_edit_by_name_def open_host_edit_step split: option.split)

lemma entry_mode_step: "key_step app (apply_entry_mode mode app)"
proof -
  let ?b = "app\<lparr>ap_active_tab := target_tab mode\<rparr>"
  have tab: "key_step app ?b" by (rule key_step_fields(8))
  have wiz: "key_step app a" if "key_step ?b a" for a by (rule key_step_trans[OF tab that])
  show ?thesis
  proof (cases mode)
    case (EntryHostWizard n)
    show ?thesis
    proof (cases n)
      case (Some name)
      obtain found a where o: "open_host_wizard_edit_by_name name ?b = (found, a)" by fastforce
      have a: "key_step ?b a" using edit_by_name_step[of ?b name] o by simp
      show ?thesis
        using EntryHostWizard Some o wiz[OF key_step_trans[OF a select_steps(1)]] wiz[OF key_step_trans[OF a key_step_fields(1)]]
        by (cases found) (simp_all add: apply_entry_mode_def Let_def)
    qed (use EntryHostWizard wiz[OF open_add_steps(1)] in \<open>simp add: apply_entry_mode_def Let_def\<close>)
  next
    case (EntryCredWizard n)
    show ?thesis
    proof (cases n)
      case (Some name)
      obtain found a where o: "open_cred_wizard_edit name ?b = (found, a)" by fastforce
      have a: "key_step ?b a" using open_cred_edit_step[of ?b name] o by simp
      show ?thesis
        using EntryCredWizard Some o wiz[OF key_step_trans[OF a select_steps(2)]] wiz[OF key_step_trans[OF a key_step_fields(1)]]
        by (cases found) (simp_all add: apply_entry_mode_def Let_def)
    qed (use EntryCredWizard wiz[OF open_add_steps(2)] in \<open>simp add: apply_entry_mode_def Let_def\<close>)
  qed (use tab in \<open>simp_all add: apply_entry_mode_def Let_def\<close>)
qed

lemma app_new_ok: "registries_ok cfg \<Longrightarrow> ui_ok (app_new m cfg path frec (credential_name_table cfg))"
  by (simp add: app_new_def ui_ok_def ui_data_def ui_panels_def ui_modal_def launcher_new_ok cred_panel_recompute_ok)

lemma default_registries: "registries_ok default_config"
  by (simp add: default_config_def registries_ok_def keyed_def)

definition stored_registries_ok :: "run_env \<Rightarrow> 'b run_state \<Rightarrow> bool" where
  "stored_registries_ok env st \<longleftrightarrow>
     (\<forall>p cfg. re_config_path env = Some p
        \<longrightarrow> config_load (ce_toml (cm_cli (re_cmd env))) p (ts_files (rs_temp st)) = Inr cfg \<longrightarrow> registries_ok cfg)"

lemma tui_start_ok:
  assumes "tui_start be env m c st = (Inr app, st1)" "stored_registries_ok env st"
  shows "ui_ok app" "ap_config_path app = re_config_path env"
proof -
  obtain cfg0 where l: "(case re_config_path env of
              None \<Rightarrow> Inr default_config
            | Some p \<Rightarrow> config_load (ce_toml (cm_cli (re_cmd env))) p (ts_files (rs_temp st))) = Inr cfg0"
    using assms(1) by (auto simp: tui_start_def split: sum.splits)
  have r: "registries_ok cfg0"
    using l assms(2) default_registries by (auto simp: stored_registries_ok_def split: option.splits)
  obtain cfg st2 where k: "adopt_keyring be env cfg0 st = (cfg, st2)" by fastforce
  have "cfg = cfg0 \<or> (\<exists>x. cfg = cfg0\<lparr>store := x\<rparr>)"
    using k by (auto simp: adopt_keyring_def Let_def split: prod.splits option.splits)
  then have rc: "registries_ok cfg" using r by (auto simp: registries_ok_def)
  let ?new = "\<lambda>f. app_new m cfg (re_config_path env) f (credential_name_table cfg)"
  obtain f target where a: "app = apply_entry_mode (entry_mode_from_cmd (cl_cmd c)) ((?new f)\<lparr>ap_pending_transfer_host := target\<rparr>)"
    using assms(1) unfolding tui_start_def l sum.case k prod.case
    by (cases "resolve_transfer_target (cm_similarity (re_cmd env)) (cm_fresh (re_cmd env)) (cl_cmd c) cfg (cl_connect_opts c)")
      auto
  have s: "key_step (?new f) app" unfolding a by (rule key_step_trans[OF key_step_fields(7) entry_mode_step])
  show "ui_ok app" by (rule key_step_kept[OF s app_new_ok[OF rc]])
  show "ap_config_path app = re_config_path env" using s by (simp add: key_step_def same_data_def app_new_def)
qed

text \<open>The states the loop is in after some ticks; each tick finds a disk it can write to and a fresh id.\<close>

inductive ui_reaches ::
  "crates \<Rightarrow> 'b backend \<Rightarrow> run_env \<Rightarrow> matcher \<Rightarrow> cli \<Rightarrow> 'b run_state \<Rightarrow> 't tui_app \<times> 'b run_state \<Rightarrow> bool"
  for X be env m c st where
  entered: "tui_start be env m c st = (Inr app, st1) \<Longrightarrow> ui_reaches X be env m c st (first_tick X be t (app, st1))"
| ticked: "ui_reaches X be env m c st s \<Longrightarrow> tick_ready t s \<Longrightarrow> tui_tick X be t ev s = (res, s')
    \<Longrightarrow> ui_reaches X be env m c st s'"

lemma reached_ok:
  "ui_reaches X be env m c st s \<Longrightarrow> stored_registries_ok env st \<Longrightarrow> ui_ok (fst s) \<and> ap_config_path (fst s) = re_config_path env"
proof (induction rule: ui_reaches.induct)
  case (entered app st1 t)
  have s: "key_step app (fst (first_tick X be t (app, st1)))" by (simp add: first_tick_def open_pending_step split: option.split)
  show ?case
    using key_step_kept[OF s] s tui_start_ok[OF entered] by (simp add: key_step_def same_data_def)
next
  case (ticked s t ev res s')
  then show ?case using tick_step[of "fst s" t "snd s" X be ev res "fst s'" "snd s'"] by (simp add: tick_kept_def)
qed

section \<open>Properties\<close>

text \<open>C2: the interface keeps its invariant for as long as it runs.  Suppose the configuration file it starts
from, when there is one, holds unique ids and unique names of hosts and of credentials.  The loader does not check
this, and \<^verbatim>\<open>cred add --force\<close> of the command line can write a file in which a name is not unique; such
a start is left out.  Suppose also that each tick finds a free path for the temporary file of a save in a plain
directory, a serialiser that reads back what it prints, removals that work, and a fresh valid id that is not in use.
Then, whatever keys come, whatever the popups answer and whether saves, deletions, switches and connections
succeed, fail or are refused, in every state of the loop the ids and the names of hosts and of credentials are
unique, the table of credential names agrees with the configuration, every row of both lists is an existing entry,
shown once, and the cursor is on one of them or at the top of an empty list, the storage picker points at a mode and an open host form is coherent.\<close>

theorem interface_invariant:
  assumes "ui_reaches X be env m c st (app, s)" "stored_registries_ok env st"
  shows "let cfg = ap_config app
     in distinct (map h_id (hosts cfg)) \<and> distinct (map h_name (hosts cfg))
        \<and> distinct (map c_id (credentials cfg)) \<and> distinct (map c_name (credentials cfg))
        \<and> ap_credential_names app = map (\<lambda>c. (c_id c, c_name c)) (credentials cfg)
        \<and> launcher_ok (hosts cfg) (ap_launcher app) \<and> cred_panel_ok (credentials cfg) (ap_cred_panel app)
        \<and> (\<forall>v. ap_store_view app = Some v \<longrightarrow> sv_selected v < 3)
        \<and> (\<forall>f. ap_overlay app = Some (HostWizard f) \<longrightarrow> host_form_ok f)
        \<and> ap_config_path app = re_config_path env"
  using reached_ok[OF assms]
  by (auto simp: ui_ok_def ui_data_def ui_panels_def ui_modal_def registries_ok_def keyed_def credential_name_table_def)

definition demo_ui_run :: run_env where
  "demo_ui_run = (demo_run (exits 0))\<lparr>re_cmd := (demo_cmd (pair_toml default_config default_config))
     \<lparr>cm_cli := (store_env (pair_toml default_config default_config))\<lparr>ce_config := None, ce_default_config := None\<rparr>,
      cm_splitter := (\<lambda>_. Some [])\<rparr>\<rparr>"

definition demo_ui :: "unit tui_env" where
  "demo_ui = \<lparr>tn_run = demo_ui_run, tn_app = \<lparr>ae_form = demo_form_env, ae_local_home = None\<rparr>, tn_store_pick = Inr None,
     tn_show_error = (\<lambda>_. ''error''), tn_tick = demo_tick, tn_current_dir = Inr ''/home'', tn_spawn_error = None\<rparr>"

definition demo_launch :: cli where
  "demo_launch = \<lparr>cl_json = False, cl_connect_opts = no_options, cl_cmd = Some (CmdHost (HostAdd demo_add))\<rparr>"

definition demo_entered :: "unit tui_app \<times> fake_state run_state" where
  "demo_entered = (apply_entry_mode (EntryHostWizard None)
     (app_new demo_no_matcher (default_config\<lparr>store := Some StoreKeyring\<rparr>) None Map.empty []),
     demo_run_state\<lparr>rs_world := snd (probe_backend fake_backend demo_world)\<rparr>)"

lemma demo_enters: "tui_start fake_backend demo_ui_run demo_no_matcher demo_launch demo_run_state
    = (Inr (fst demo_entered), snd demo_entered)"
proof -
  have p: "fst (probe_backend fake_backend demo_world)" by code_simp
  have r: "rs_world demo_run_state = demo_world" by (simp add: demo_run_state_def)
  have path: "re_config_path demo_ui_run = None"
    by (simp add: re_config_path_def resolve_config_path_def demo_ui_run_def demo_cmd_def)
  have m: "entry_mode_from_cmd (cl_cmd demo_launch) = EntryHostWizard None"
    by (simp add: demo_launch_def entry_mode_from_cmd_def)
  have d: "load_frecency demo_ui_run fs = Map.empty" for fs
    by (simp add: load_frecency_def demo_ui_run_def demo_cmd_def)
  have c: "credential_name_table (default_config\<lparr>store := x\<rparr>) = []" "store default_config = None" for x
    by (simp_all add: credential_name_table_def default_config_def)
  have n: "(app_new mm cfg p f ns)\<lparr>ap_pending_transfer_host := None\<rparr> = app_new mm cfg p f ns" for mm cfg p f ns
    by (simp add: app_new_def)
  have t: "resolve_transfer_target jw u (cl_cmd demo_launch) cfg o1 = Inr None" for jw u cfg o1
    by (simp add: demo_launch_def resolve_transfer_target_def)
  have ad: "adopt_keyring fake_backend demo_ui_run default_config demo_run_state
      = (default_config\<lparr>store := Some StoreKeyring\<rparr>, snd demo_entered)"
    using p path by (simp add: adopt_keyring_def r case_prod_beta c auto_default_store_mode_def Let_def demo_entered_def)
  show ?thesis by (simp add: tui_start_def path ad m t d c n) (simp add: demo_entered_def)
qed

text \<open>Keys that only move within the interface.\<close>

fun quiet_keys :: "'t tui_env \<Rightarrow> key_event list \<Rightarrow> 't tui_app \<Rightarrow> 't tui_app option" where
  "quiet_keys env [] app = Some app"
| "quiet_keys env (k # ks) app =
     (case app_on_key (tn_app env) k (spin app) of
        (IntentContinue, a) \<Rightarrow> if ta_worker (ap_transfer a) then None else quiet_keys env ks a
      | _ \<Rightarrow> None)"

lemma quiet_reaches:
  assumes "ui_reaches X be env m c st (app, s)" "tick_ready t (app, s)" "quiet_keys t ks app = Some a"
  shows "ui_reaches X be env m c st (a, s) \<and> tick_ready t (a, s)"
  using assms
proof (induction ks arbitrary: app)
  case (Cons k ks)
  obtain b where b: "app_on_key (tn_app t) k (spin app) = (IntentContinue, b)" "\<not> ta_worker (ap_transfer b)"
    "quiet_keys t ks b = Some a"
    using Cons.prems(3) by (auto split: prod.splits intent.splits if_splits)
  have "fst (snd (tui_tick X be t (EventKey k) (app, s))) = b" "snd (snd (tui_tick X be t (EventKey k) (app, s))) = s"
    using b(1,2) by (simp_all add: tui_tick_def Let_def handle_intent_def end_tick_def drain_tick_def)
  then have r: "ui_reaches X be env m c st (b, s)" using ticked[OF Cons.prems(1,2)] by (metis prod.collapse)
  have "key_step app b"
    using key_step_trans[of app "spin app" b] on_key_step[of "spin app" "tn_app t" k] b(1) by (simp add: spin_def)
  then have "tick_ready t (b, s)" using ready_step[OF Cons.prems(2)] by (simp add: key_step_def)
  then show ?case using Cons.IH[OF r _ b(3)] by simp
qed simp

text \<open>The form of a new host is filled in and saved.\<close>

definition demo_filled :: "unit tui_app" where
  "demo_filled = (case quiet_keys demo_ui demo_typed (fst demo_entered) of Some a \<Rightarrow> a | None \<Rightarrow> undefined)"

definition demo_asked :: "unit intent \<times> unit tui_app" where
  "demo_asked = app_on_key (tn_app demo_ui) (press_ctrl (CHR ''s'')) (spin demo_filled)"

definition demo_saved :: "unit tui_app \<times> fake_state run_state" where
  "demo_saved = save_host_intent demo_crates fake_backend demo_ui (snd demo_asked) (snd demo_entered)"

text \<open>The form of a new host is filled in and saved.\<close>

theorem interface_invariant_witness:
  "\<exists>(app :: unit tui_app) s. ui_reaches demo_crates fake_backend demo_ui_run demo_no_matcher demo_launch demo_run_state (app, s)
     \<and> map h_name (hosts (ap_config app)) = [''w''] \<and> ap_overlay app = None
     \<and> launcher_ok (hosts (ap_config app)) (ap_launcher app)"
proof -
  let ?reach = "ui_reaches demo_crates fake_backend demo_ui_run demo_no_matcher demo_launch demo_run_state"
  have "ap_config_path (fst demo_entered) = None \<and> hosts (ap_config (fst demo_entered)) = []
      \<and> credentials (ap_config (fst demo_entered)) = []
      \<and> (case quiet_keys demo_ui demo_typed (fst demo_entered) of Some _ \<Rightarrow> True | None \<Rightarrow> False)
      \<and> (case fst demo_asked of IntentSaveHost \<Rightarrow> True | _ \<Rightarrow> False)
      \<and> map h_name (hosts (ap_config (fst demo_saved))) = [''w''] \<and> \<not> ta_worker (ap_transfer (fst demo_saved))
      \<and> (case ap_overlay (fst demo_saved) of None \<Rightarrow> True | _ \<Rightarrow> False)"
    by code_simp
  then have run: "ap_config_path (fst demo_entered) = None" "hosts (ap_config (fst demo_entered)) = []"
      "credentials (ap_config (fst demo_entered)) = []"
      "(case quiet_keys demo_ui demo_typed (fst demo_entered) of Some _ \<Rightarrow> True | None \<Rightarrow> False)"
      "(case fst demo_asked of IntentSaveHost \<Rightarrow> True | _ \<Rightarrow> False)"
      "map h_name (hosts (ap_config (fst demo_saved))) = [''w'']" "\<not> ta_worker (ap_transfer (fst demo_saved))"
      "(case ap_overlay (fst demo_saved) of None \<Rightarrow> True | _ \<Rightarrow> False)" by blast+
  have "?reach (first_tick demo_crates fake_backend demo_ui demo_entered)"
    using entered[OF demo_enters, of demo_crates demo_ui] by simp
  moreover have "ap_pending_transfer_host (fst demo_entered) = None"
    by (simp add: demo_entered_def apply_entry_mode_def open_host_wizard_add_def app_new_def Let_def)
  ultimately have e: "?reach (fst demo_entered, snd demo_entered)" by (simp add: first_tick_def)
  have "ulid_ok (cm_fresh (tn_cmd demo_ui))"
    by (simp add: demo_ui_def demo_ui_run_def demo_cmd_def ulid_ok_def demo_ids_def crockford_def)
  then have rd: "tick_ready demo_ui (fst demo_entered, snd demo_entered)"
    using run(1-3) by (simp add: tick_ready_def disk_free_def config_ids_def)
  have "quiet_keys demo_ui demo_typed (fst demo_entered) = Some demo_filled"
    using run(4) by (auto simp: demo_filled_def split: option.splits)
  note f = quiet_reaches[OF e rd this]
  have k: "app_on_key (tn_app demo_ui) (press_ctrl (CHR ''s'')) (spin demo_filled) = (IntentSaveHost, snd demo_asked)"
    using run(5) by (cases "fst demo_asked") (simp_all add: demo_asked_def[symmetric] prod_eq_iff)
  have "tui_tick demo_crates fake_backend demo_ui (EventKey (press_ctrl (CHR ''s''))) (demo_filled, snd demo_entered)
      = end_tick demo_ui demo_saved"
    by (simp add: tui_tick_def k handle_intent_def demo_saved_def)
  moreover have "snd (end_tick demo_ui demo_saved) = demo_saved"
    using run(7) by (simp add: end_tick_def drain_tick_def Let_def)
  ultimately have "?reach demo_saved"
    using ticked[OF conjunct1[OF f] conjunct2[OF f]] by (metis prod.collapse)
  then have "?reach (fst demo_saved, snd demo_saved)" by simp
  moreover have "stored_registries_ok demo_ui_run demo_run_state"
    by (simp add: stored_registries_ok_def re_config_path_def resolve_config_path_def demo_ui_run_def demo_cmd_def)
  ultimately have l: "launcher_ok (hosts (ap_config (fst demo_saved))) (ap_launcher (fst demo_saved))"
    using interface_invariant[of demo_crates fake_backend demo_ui_run demo_no_matcher demo_launch demo_run_state
      "fst demo_saved" "snd demo_saved"] by (simp add: Let_def)
  have o: "ap_overlay (fst demo_saved) = None" using run(8) by (simp split: option.splits)
  show ?thesis
  proof (rule exI[of _ "fst demo_saved"], rule exI[of _ "snd demo_saved"], intro conjI)
    show "?reach (fst demo_saved, snd demo_saved)" by fact
  qed (rule run(6) o l)+
qed

end
