(* ===== verification/Tui_Saves.thy ===== *)
theory Tui_Saves
  imports Tui_Invariant
begin

text \<open>What a save from a form stores, and the saves and switches that lose a secret.\<close>

section \<open>A successful save\<close>

lemma host_save_installs:
  assumes "disk_free env app (cs_files st)" "ap_overlay app = Some (HostWizard form)"
    "persist_host_save X be env app st = (Inr (Some u), a, s)"
  obtains cfg w where "host_save_config X be env (ap_config app) form (cs_world st) = (Inr (u, cfg), w)"
    "ap_config a = cfg" "cs_world s = w"
    "\<And>p. ap_config_path app = Some p \<Longrightarrow> config_load (ce_toml (pe_cli env)) p (cs_files s) = Inr cfg"
proof -
  obtain v cfg w where h: "host_save_config X be env (ap_config app) form (cs_world st) = (Inr (v, cfg), w)"
    using assms(2,3) by (auto simp: persist_host_save_def split: sum.splits prod.splits)
  obtain r2 a2 s2 where i: "install_config env cfg app (st\<lparr>cs_world := w\<rparr>) = (r2, a2, s2)"
    by (cases "install_config env cfg app (st\<lparr>cs_world := w\<rparr>)") auto
  have "r2 = Inr ()" "a = a2" "s = s2" "v = u"
    using assms(2,3) h i by (auto simp: persist_host_save_def split: sum.splits)
  moreover have "disk_free env app (cs_files (st\<lparr>cs_world := w\<rparr>))" using assms(1) by simp
  note k = install_config_ok[OF this i]
  ultimately show thesis using that[of cfg w] h k(2,4) by simp
qed

lemma cred_save_installs:
  assumes "disk_free env app (cs_files st)" "ap_overlay app = Some (CredWizard form)"
    "persist_cred_save X be env app st = (Inr (), a, s)"
  obtains cfg w where "cred_save_config X be env (ap_config app) form (cs_world st) = (Inr cfg, w)"
    "ap_config a = cfg" "cs_world s = w"
    "\<And>p. ap_config_path app = Some p \<Longrightarrow> config_load (ce_toml (pe_cli env)) p (cs_files s) = Inr cfg"
proof -
  obtain cfg w where h: "cred_save_config X be env (ap_config app) form (cs_world st) = (Inr cfg, w)"
    using assms(2,3) by (auto simp: persist_cred_save_def split: sum.splits prod.splits)
  then have i: "install_config env cfg app (st\<lparr>cs_world := w\<rparr>) = (Inr (), a, s)"
    using assms(2,3) by (simp add: persist_cred_save_def)
  have "disk_free env app (cs_files (st\<lparr>cs_world := w\<rparr>))" using assms(1) by simp
  note k = install_config_ok[OF this i]
  show thesis using that[of cfg w] h k(2,4) by simp
qed

text \<open>A save changes the hosts only.\<close>

lemma host_save_credentials:
  assumes "host_save_config X be env cfg form w = (Inr (u, cfg'), w')"
  shows "credentials cfg' = credentials cfg" "store cfg' = store cfg"
proof -
  from assms have "credentials cfg' = credentials cfg \<and> store cfg' = store cfg"
    by (cases rule: host_save_cases) (simp_all add: replace_host_by_id_def append_host_def split: option.splits)
  then show "credentials cfg' = credentials cfg" "store cfg' = store cfg" by auto
qed

text \<open>The entry that was replaced is found under its id.\<close>

lemma find_updated: "position P xs = Some i \<Longrightarrow> P c \<Longrightarrow> List.find P (xs[i := c]) = Some c"
proof (induction xs arbitrary: i)
  case (Cons x xs)
  then show ?case by (cases "P x") auto
qed simp

lemma replaced_credential_found:
  assumes "find_credential_by_id cfg u = Some c" "c_id c' = u"
  shows "find_credential_by_id (replace_credential_by_id u c' cfg) u = Some c'"
proof -
  obtain i where i: "position (\<lambda>x. c_id x = u) (credentials cfg) = Some i"
    using assms(1) find_Some_sat[of _ "credentials cfg" c]
    by (cases "position (\<lambda>x. c_id x = u) (credentials cfg)") (auto simp: position_None find_credential_by_id_def)
  then show ?thesis
    using find_updated[OF i, of c'] assms(2) by (simp add: replace_credential_by_id_def find_credential_by_id_def)
qed

section \<open>Sealing the body of a form\<close>

lemma form_body_fresh:
  assumes "hf_orig_key form = None"
  shows "fresh_body (build_inline_body form)" "body_wf (build_inline_body form)"
  using assms
  by (auto simp: build_inline_body_def fresh_body_def body_wf_def body_new_def key_body_def with_key_def with_inline_key_def
      with_password_def keep_inline_original_def inline_key_wf_def opt_encrypted_def
      split: secret_choice.splits source_choice.splits)

text \<open>What the fields of a form say, read off the fields alone: the user, or root; the password as typed; the
pasted key and its certificate as typed, when they are not blank and the pasted source is chosen; the trimmed path
when the path is chosen.\<close>

definition typed_view :: "'t host_form \<Rightarrow> plain_view" where
  "typed_view form =
     \<lparr>v_user = (if trim (hf_user form) = [] then ''root'' else hf_user form),
      v_password = (if hf_secret form = ChoosePassword \<and> hf_password form \<noteq> [] then Some (hf_password form) else None),
      v_private = (if hf_secret form = ChooseKey \<and> hf_source form = SrcInline \<and> trim (hf_inline_private form) \<noteq> []
                   then Some (hf_inline_private form) else None),
      v_certificate = (if hf_secret form = ChooseKey \<and> hf_source form = SrcInline \<and> trim (hf_inline_private form) \<noteq> []
                         \<and> trim (hf_inline_cert form) \<noteq> [] then Some (hf_inline_cert form) else None),
      v_path = (if hf_secret form = ChooseKey \<and> hf_source form = SrcPath \<and> trim (hf_identity form) \<noteq> []
                then Some (trim (hf_identity form)) else None)\<rparr>"

lemma built_as_typed:
  assumes "hf_orig_key form = None"
  shows "body_view X None (\<lambda>_. None) OwnerHost u (build_inline_body form) = typed_view form"
    and "carries_secret (build_inline_body form) \<longleftrightarrow>
           v_password (typed_view form) \<noteq> None \<or> v_private (typed_view form) \<noteq> None"
  using assms
  by (auto simp: build_inline_body_def body_new_def key_body_def with_key_def with_inline_key_def with_password_def
      keep_inline_original_def host_form_user_def typed_view_def body_view_def password_view_def private_view_def
      certificate_view_def key_path_of_def carries_secret_def split: secret_choice.splits source_choice.splits)

lemma trim_trim: "trim (trim s) = trim s"
proof -
  let ?P = char_is_whitespace
  have d: "dropWhile ?P (dropWhile ?P xs) = dropWhile ?P xs" for xs by (induction xs) auto
  have "trim_start (trim s) = trim s"
  proof (cases "trim s")
    case (Cons c r)
    define t where "t = dropWhile ?P s"
    have e: "trim s = rev (dropWhile ?P (rev t))" by (simp add: trim_def trim_start_def trim_end_def t_def)
    obtain w where "rev t = w @ dropWhile ?P (rev t)" using takeWhile_dropWhile_id[of ?P "rev t"] by metis
    then have "t = trim s @ rev w" unfolding e by (metis rev_append rev_rev_ident)
    then have "t = c # r @ rev w" using Cons by simp
    moreover have "dropWhile ?P t = t" by (simp add: t_def d)
    ultimately have e2: "dropWhile ?P (c # r @ rev w) = c # r @ rev w" by simp
    have "\<not> ?P c"
    proof
      assume "?P c"
      then have "dropWhile ?P (r @ rev w) = c # r @ rev w" using e2 by simp
      then show False using length_dropWhile_le[of ?P "r @ rev w"] by simp
    qed
    then show ?thesis using Cons by (simp add: trim_start_def)
  qed (simp add: trim_start_def)
  then have "trim (trim s) = trim_end (trim s)" unfolding trim_def[of "trim s"] by simp
  also have "\<dots> = trim s" by (simp add: trim_def trim_end_def d)
  finally show ?thesis .
qed

lemma typed_ssh_args:
  "normalize_ssh_args (form_ssh_args form) = (if trim (hf_ssh_args form) = [] then None else Some (trim (hf_ssh_args form)))"
  by (simp add: form_ssh_args_def normalize_ssh_args_def trim_trim)

lemma plaintext_secret_iff:
  assumes "fresh_body b" "body_wf b"
  shows "body_has_plaintext_secret b \<longleftrightarrow> carries_secret b"
proof -
  have p: "opt_plain h \<longleftrightarrow> h \<noteq> None" if "\<not> opt_encrypted h" for h
    using opt_plain_cases[OF that] by (auto simp: opt_plain_def)
  show ?thesis
    using assms p
    by (auto simp: fresh_body_def body_wf_def body_has_plaintext_secret_def carries_secret_def inline_key_wf_def
        split: option.splits key_source.splits)
qed

lemma seal_form_auth_ok:
  assumes "secret_backend be ent" "crates_ok X" "fresh_body b" "body_wf b"
    and free: "\<forall>slot\<in>owner_slots OwnerHost u. ent (w_backend w) slot = None"
    and "seal_form_auth X be env u cfg (AuthInline b) w = (Inr a, w')"
  shows "\<exists>b' vk. a = AuthInline b' \<and> (carries_secret b \<longrightarrow> opens X cfg vk \<and> body_sealed (mode_of cfg) b' \<and> store cfg \<noteq> None)
    \<and> body_view X vk (ent (w_backend w')) OwnerHost u b' = body_view X None (\<lambda>_. None) OwnerHost u b
    \<and> body_wf b' \<and> frame (owner_slots OwnerHost u) (ent (w_backend w)) (ent (w_backend w'))"
proof (cases "body_has_plaintext_secret b")
  case False
  then have ns: "\<not> carries_secret b" using plaintext_secret_iff[OF assms(3,4)] by simp
  then have "body_view X None (ent (w_backend w)) OwnerHost u b = body_view X None (\<lambda>_. None) OwnerHost u b"
    by (auto simp: body_view_def carries_secret_def password_view_def private_view_def certificate_view_def
        split: option.splits key_source.splits)
  then show ?thesis using assms(4,6) False ns by (auto simp: seal_form_auth_def)
next
  case True
  let ?ce = "pe_cli env"
  let ?un = "ensure_unlocked_vault_key X (ce_vault ?ce) cfg (passphrase_from (ce_passphrase_env ?ce)) (ce_provider ?ce) w"
  obtain b' where b': "seal_fresh_secret X be env OwnerHost u cfg b w = (Inr b', w')" "a = AuthInline b'"
    using assms(6) True by (auto simp: seal_form_auth_def split: sum.splits prod.splits)
  obtain r w1 where un: "?un = (r, w1)" by fastforce
  have st: "store cfg \<noteq> None" using b'(1) True by (cases "store cfg = None") (simp_all add: seal_fresh_secret_def)
  obtain vk where vk: "r = Inr vk" "seal_body X be b OwnerHost u cfg vk w1 = (Inr b', w')"
    using b'(1) True un st by (cases r) (auto simp: seal_fresh_secret_def Let_def)
  note k = ensure_unlocked_ok[OF un]
  have sl: "slots_ok (ent (w_backend w1)) OwnerHost u b"
    using free assms(3) k(1) by (auto simp: slots_ok_def owner_slots_def fresh_body_def split: option.splits key_source.splits)
  have before: "body_view X None (ent (w_backend w1)) OwnerHost u b = body_view X None (\<lambda>_. None) OwnerHost u b"
    using assms(3)
    by (auto simp: fresh_body_def body_view_def password_view_def private_view_def certificate_view_def
        split: option.splits key_source.splits)
  have "body_view X vk (ent (w_backend w')) OwnerHost u b' = body_view X None (ent (w_backend w1)) OwnerHost u b
      \<and> body_wf b' \<and> body_sealed (mode_of cfg) b' \<and> slots_ok (ent (w_backend w')) OwnerHost u b'
      \<and> frame (owner_slots OwnerHost u) (ent (w_backend w1)) (ent (w_backend w'))"
    using secret_backend.seal_body_inline_ok[OF assms(1,2,4,3) _ _ vk(2), of _ None]
      secret_backend.seal_body_no_inline_ok[OF assms(1,2,4,3) _ vk(2), of None] sl
    by (cases "\<exists>ik. b_key b = Some (KeyInline ik)") (auto simp: secret_backend.contents_def[OF assms(1)])
  then show ?thesis using k vk(1) b'(2) st before by auto
qed

section \<open>Properties\<close>

text \<open>C4: a new host is stored as it was typed.  When the form of a new host with its own authentication,
which has no key of an older entry, is saved with success, exactly one entry is appended, under the fresh id, with the
trimmed name and address, the typed port (22 when it is no port number) and the trimmed ssh arguments (none when
blank); every other entry and the storage mode are untouched and the file holds the configuration of the interface.
Read under a key that opens the vault, the stored body has the user that was typed (root when blank) and, of the kind
of authentication chosen, the password, the key path, or the pasted key with its certificate, each as typed, and
nothing else; a secret is stored in the representation of the mode in effect, which was decided, and no keyring
slot of another owner changed.  The keyring slots of the fresh id are empty before, the path for the temporary file of
the save is free, and the serialiser reads back what it prints.\<close>

theorem new_host_stored_as_typed:
  assumes "secret_backend be ent" "crates_ok X" "disk_free env app (cs_files st)"
    and "ap_overlay app = Some (HostWizard form)" "\<not> hf_editing form" "hf_auth form = PickIndependent" "hf_orig_key form = None"
    and "\<forall>slot\<in>owner_slots OwnerHost (pe_fresh env). ent (w_backend (cs_world st)) slot = None"
    and "persist_host_save X be env app st = (Inr (Some u), a, s)"
  shows "\<exists>h b vk. ap_config a = (ap_config app)\<lparr>hosts := hosts (ap_config app) @ [h]\<rparr>
    \<and> (\<forall>p. ap_config_path app = Some p \<longrightarrow> config_load (ce_toml (pe_cli env)) p (cs_files s) = Inr (ap_config a))
    \<and> u = pe_fresh env \<and> h_id h = u \<and> h_name h = trim (hf_name form) \<and> h_host h = trim (hf_host_addr form)
    \<and> h_port h = (case parse_unsigned 16 (trim (hf_port form)) of Some p \<Rightarrow> of_nat p | None \<Rightarrow> 22)
    \<and> h_ssh_args h = (if trim (hf_ssh_args form) = [] then None else Some (trim (hf_ssh_args form)))
    \<and> h_auth h = AuthInline b
    \<and> body_view X vk (ent (w_backend (cs_world s))) OwnerHost u b = typed_view form
    \<and> (v_password (typed_view form) \<noteq> None \<or> v_private (typed_view form) \<noteq> None \<longrightarrow>
         opens X (ap_config app) vk \<and> body_sealed (mode_of (ap_config app)) b \<and> store (ap_config app) \<noteq> None)
    \<and> frame (owner_slots OwnerHost u) (ent (w_backend (cs_world st))) (ent (w_backend (cs_world s)))"
proof -
  obtain cfg w where h: "host_save_config X be env (ap_config app) form (cs_world st) = (Inr (u, cfg), w)"
    "ap_config a = cfg" "cs_world s = w"
    "\<And>p. ap_config_path app = Some p \<Longrightarrow> config_load (ce_toml (pe_cli env)) p (cs_files s) = Inr cfg"
    using host_save_installs[OF assms(3,4,9)] by metis
  from h(1) show ?thesis
  proof (cases rule: host_save_cases)
    case (1 x)
    then show ?thesis using assms(5) by simp
  next
    case (2 x)
    then obtain rc a0 where k: "keep_host_password (ap_config app) form u (host_form_auth form rc) = Inr a0"
      "seal_form_auth X be env u (ap_config app) a0 (cs_world st) = (Inr x, w)" by blast
    have a0: "a0 = AuthInline (build_inline_body form)"
      using k(1) assms(5,6) by (simp add: host_form_auth_def keep_host_password_def)
    note f = form_body_fresh[OF assms(7)]
    have slots: "\<forall>slot\<in>owner_slots OwnerHost u. ent (w_backend (cs_world st)) slot = None" using assms(8) 2(3) by simp
    obtain b' vk where b: "x = AuthInline b'"
      "carries_secret (build_inline_body form) \<longrightarrow> opens X (ap_config app) vk \<and> body_sealed (mode_of (ap_config app)) b' \<and> store (ap_config app) \<noteq> None"
      "body_view X vk (ent (w_backend w)) OwnerHost u b' = body_view X None (\<lambda>_. None) OwnerHost u (build_inline_body form)"
      "frame (owner_slots OwnerHost u) (ent (w_backend (cs_world st))) (ent (w_backend w))"
      using seal_form_auth_ok[OF assms(1,2) f slots k(2)[unfolded a0]] by blast
    show ?thesis using 2(1,3) b h by (intro exI[of _ "\<lparr>h_id = u, h_name = trim (hf_name form), h_host = trim (hf_host_addr form),
        h_port = parsed_port form, h_ssh_args = normalize_ssh_args (form_ssh_args form), h_auth = x\<rparr>"] exI[of _ b'] exI[of _ vk])
      (simp add: append_host_def built_as_typed[OF assms(7)] typed_ssh_args parsed_port_def)
  qed
qed

definition demo_new_form :: "unit host_form" where
  "demo_new_form = (host_form_new_add [])\<lparr>hf_name := ''w'', hf_host_addr := ''h'', hf_user := ''ops'',
     hf_secret := ChoosePassword, hf_password := ''pw'', hf_ssh_args := '' -4 ''\<rparr>"

definition demo_persist :: "toml \<Rightarrow> persist_env" where
  "demo_persist tm = \<lparr>pe_cli = store_env tm, pe_similarity = (\<lambda>_ _. 0), pe_splitter = (\<lambda>_. Some []),
     pe_matcher = demo_no_matcher, pe_fresh = demo_ids ! 1, pe_store_pick = Inr None, pe_show_error = (\<lambda>_. ''error'')\<rparr>"

definition demo_with_overlay :: "sshrack_config \<Rightarrow> unit shell_overlay \<Rightarrow> unit tui_app" where
  "demo_with_overlay cfg ov = (app_new demo_no_matcher cfg (Some ''/etc/c.toml'') Map.empty [])\<lparr>ap_overlay := Some ov\<rparr>"

lemma demo_disk_writable:
  assumes "ap_config_path app = Some ''/etc/c.toml''"
  shows "disk_free (demo_persist (pair_toml c d)) app (cs_files (store_state w))"
proof -
  have "plain_dir ''/etc''" "plain_name ''c.toml''" by (simp_all add: plain_dir_def plain_name_def)
  then have "\<exists>d n. ''/etc/c.toml'' = d @ CHR ''/'' # n \<and> plain_dir d \<and> plain_name n"
    by (intro exI[of _ "''/etc''"] exI[of _ "''c.toml''"]) simp
  moreover have "os_removes demo_os" by (rule demo_os_removes)
  moreover have "atomic_temp_path demo_os ''/etc/c.toml'' \<noteq> ''/etc/c.toml''" by code_simp
  ultimately show ?thesis
    using assms by (simp add: disk_free_def writable_at_def demo_persist_def store_env_def pair_toml_ok store_state_def)
qed

lemma demo_disk_free: "disk_free (demo_persist (pair_toml c d)) (demo_with_overlay cfg ov) (cs_files (store_state w))"
  by (rule demo_disk_writable) (simp add: demo_with_overlay_def app_new_def)

definition demo_keyring_config :: sshrack_config where
  "demo_keyring_config = default_config\<lparr>store := Some StoreKeyring\<rparr>"

definition demo_stored :: host where
  "demo_stored = \<lparr>h_id = demo_ids ! 1, h_name = ''w'', h_host = ''h'', h_port = 22, h_ssh_args = None,
     h_auth = AuthInline ((body_new ''ops'')\<lparr>b_keyring := True\<rparr>)\<rparr>"

definition demo_save_env :: persist_env where
  "demo_save_env = demo_persist (pair_toml demo_keyring_config
     (demo_keyring_config\<lparr>hosts := [demo_stored\<lparr>h_ssh_args := Some ''-4''\<rparr>]\<rparr>))"

theorem new_host_stored_as_typed_witness:
  "let app = demo_with_overlay demo_keyring_config (HostWizard demo_new_form);
       r = persist_host_save demo_crates fake_backend demo_save_env app (store_state demo_world)
   in fst r = Inr (Some (demo_ids ! 1))
      \<and> (\<exists>h b. hosts (ap_config (fst (snd r))) = [h] \<and> h_ssh_args h = Some ''-4'' \<and> h_auth h = AuthInline b
           \<and> b_password b = None \<and> password_view demo_crates None (fake_view (w_backend (cs_world (snd (snd r))))) OwnerHost (demo_ids ! 1) b
               = Some ''pw'')"
proof -
  let ?app = "demo_with_overlay demo_keyring_config (HostWizard demo_new_form)"
  have "fst (persist_host_save demo_crates fake_backend demo_save_env ?app (store_state demo_world)) = Inr (Some (demo_ids ! 1))"
    by code_simp
  then obtain a s where r: "persist_host_save demo_crates fake_backend demo_save_env ?app (store_state demo_world)
      = (Inr (Some (demo_ids ! 1)), a, s)" by (metis prod.collapse)
  have o: "ap_overlay ?app = Some (HostWizard demo_new_form)" by (simp add: demo_with_overlay_def)
  have f: "\<not> hf_editing demo_new_form" "hf_auth demo_new_form = PickIndependent" "hf_orig_key demo_new_form = None"
    by (simp_all add: demo_new_form_def host_form_new_add_def Let_def)
  have d: "disk_free demo_save_env ?app (cs_files (store_state demo_world))"
    unfolding demo_save_env_def by (rule demo_disk_free)
  have free: "\<forall>slot\<in>owner_slots OwnerHost (pe_fresh demo_save_env). fake_view (w_backend (cs_world (store_state demo_world))) slot = None"
    by code_simp
  note w = new_host_stored_as_typed[OF fake.secret_backend_axioms demo_crates_ok d o f free r]
  have c: "v_password (typed_view demo_new_form) = Some ''pw''" "trim (hf_ssh_args demo_new_form) = ''-4''"
    by code_simp+
  have m: "mode_of (ap_config ?app) = StoreKeyring" "hosts (ap_config ?app) = []"
    by (simp_all add: mode_of_def demo_with_overlay_def app_new_def demo_keyring_config_def default_config_def)
  obtain h b vk where h: "hosts (ap_config a) = [h]" "h_auth h = AuthInline b" "body_sealed StoreKeyring b" "h_ssh_args h = Some ''-4''"
    "body_view demo_crates vk (fake_view (w_backend (cs_world s))) OwnerHost (demo_ids ! 1) b = typed_view demo_new_form"
    using w c m by auto
  then have v: "password_view demo_crates vk (fake_view (w_backend (cs_world s))) OwnerHost (demo_ids ! 1) b = Some ''pw''"
    using c(1) by (metis body_view_def plain_view.select_convs(2))
  moreover have "b_password b = None" using h(3) by (simp add: body_sealed_def)
  ultimately show ?thesis using h(1,2,4) by (auto simp: r password_view_def split: if_splits)
qed

text \<open>C34: editing a credential in keyring mode forgets its password. When the form of a credential whose
password is in the keyring is saved with the password field left blank, which for a host keeps the password,
the stored body has neither a password nor the marker, in the interface and in the file, so nothing reads
the entry any more; the entry itself stays in the keyring.\<close>

theorem credential_edit_forgets_password:
  assumes "disk_free env app (cs_files st)" "ap_overlay app = Some (CredWizard form)"
    and "crf_editing form" "crf_orig_id form = Some u" "find_credential_by_id (ap_config app) u = Some c"
    and "b_keyring (c_body c)" "body_wf (c_body c)" "crf_secret form = ChoosePassword" "crf_password form = []"
    and "persist_cred_save X be env app st = (Inr (), a, s)"
  shows "\<exists>c'. find_credential_by_id (ap_config a) u = Some c' \<and> c_body c' = body_new (trim (crf_user form))
    \<and> password_view X key m OwnerCredential u (c_body c') = None \<and> w_backend (cs_world s) = w_backend (cs_world st)
    \<and> (\<forall>p. ap_config_path app = Some p \<longrightarrow> config_load (ce_toml (pe_cli env)) p (cs_files s) = Inr (ap_config a))"
proof -
  obtain cfg w where h: "cred_save_config X be env (ap_config app) form (cs_world st) = (Inr cfg, w)"
    "ap_config a = cfg" "cs_world s = w"
    "\<And>p. ap_config_path app = Some p \<Longrightarrow> config_load (ce_toml (pe_cli env)) p (cs_files s) = Inr cfg"
    using cred_save_installs[OF assms(1,2,10)] by metis
  let ?b = "body_new (trim (crf_user form))"
  have pw: "b_password (c_body c) = None" using assms(6,7) by (simp add: body_wf_def)
  obtain v b where "cred_save_body (pe_similarity env) (pe_fresh env) (ap_config app) form = Inr (v, b)"
    using h(1) by (auto simp: cred_save_config_def split: sum.splits)
  then have "cred_save_body (pe_similarity env) (pe_fresh env) (ap_config app) form = Inr (u, ?b)"
    using assms(3-5,8,9) pw by (auto simp: cred_save_body_def Let_def build_cred_body_def body_new_def and_then_Inr)
  moreover have "\<not> body_has_plaintext_secret ?b" by (simp add: body_has_plaintext_secret_def body_new_def opt_plain_def)
  ultimately have "cfg = replace_credential_by_id u \<lparr>c_id = u, c_name = trim (crf_name form), c_body = ?b\<rparr> (ap_config app)"
    "w = cs_world st"
    using h(1) assms(3) by (auto simp: cred_save_config_def seal_fresh_secret_def Let_def)
  moreover have "find_credential_by_id (replace_credential_by_id u \<lparr>c_id = u, c_name = trim (crf_name form), c_body = ?b\<rparr> (ap_config app)) u
      = Some \<lparr>c_id = u, c_name = trim (crf_name form), c_body = ?b\<rparr>"
    using assms(5) by (rule replaced_credential_found) simp
  ultimately show ?thesis using h(2-4) by (auto simp: password_view_def body_new_def)
qed

text \<open>C35: a host that refers to a credential, saved when there are none, becomes a root login.  With an empty
list of credentials a reference can be chosen, and the form of a new host with an acceptable name, address and ssh
arguments then passes validation: with no popup open the save key asks for the save.  A save that reports success
stores an inline body with the user typed before, or root, and no secret, in the interface and in the file.\<close>

theorem reference_without_credentials_saves_root:
  assumes "disk_free env app (cs_files st)" "ap_overlay app = Some (HostWizard form)" "\<not> hf_editing form"
    and "hf_auth form = PickReference i" "hf_credential_names form = []"
    and "trim (hf_name form) \<noteq> []" "is_ok (validate_name_chars (trim (hf_name form)))" "trim (hf_host_addr form) \<noteq> []"
    and "is_ok (validate_ssh_args (fe_splitter fe) (hf_ssh_args form))"
  shows "validate_host_form (fe_splitter fe) form = Inr ()
    \<and> (host_plain form \<longrightarrow> fst (host_form_on_key fe (press_ctrl (CHR ''s'')) form) = IntentSaveHost)
    \<and> (\<forall>u a s. persist_host_save X be env app st = (Inr (Some u), a, s) \<longrightarrow>
         (\<exists>h. ap_config a = append_host h (ap_config app)
            \<and> h_auth h = AuthInline (body_new (if trim (hf_user form) = [] then ''root'' else hf_user form))
            \<and> (\<forall>p. ap_config_path app = Some p \<longrightarrow> config_load (ce_toml (pe_cli env)) p (cs_files s) = Inr (ap_config a))))"
proof -
  have v: "validate_host_form (fe_splitter fe) form = Inr ()" using assms(6-9) by (simp add: validate_host_form_def)
  moreover have "validate_host_form (fe_splitter fe) (form\<lparr>hf_core_error := None\<rparr>) = Inr ()"
    using assms(6-9) by (simp add: validate_host_form_def)
  ultimately have k: "host_plain form \<longrightarrow> fst (host_form_on_key fe (press_ctrl (CHR ''s'')) form) = IntentSaveHost"
    by (simp add: host_form_on_key_def host_plain_def host_modal_key_def host_plain_key_def host_attempt_save_def press_ctrl_def
        is_ctrl_def Let_def)
  have "\<exists>h. ap_config a = append_host h (ap_config app) \<and> h_auth h = AuthInline (body_new (host_form_user form))
    \<and> (\<forall>p. ap_config_path app = Some p \<longrightarrow> config_load (ce_toml (pe_cli env)) p (cs_files s) = Inr (ap_config a))"
    if save: "persist_host_save X be env app st = (Inr (Some u), a, s)" for u a s
  proof -
    obtain cfg w where h: "host_save_config X be env (ap_config app) form (cs_world st) = (Inr (u, cfg), w)"
      "ap_config a = cfg" "cs_world s = w"
      "\<And>p. ap_config_path app = Some p \<Longrightarrow> config_load (ce_toml (pe_cli env)) p (cs_files s) = Inr cfg"
      using host_save_installs[OF assms(1,2) save] by metis
    from h(1) show ?thesis
    proof (cases rule: host_save_cases)
      case (2 x)
      have "resolve_form_credential (ap_config app) form = Inr None"
        using assms(4,5) by (simp add: resolve_form_credential_def selected_credential_name_def get_at_def)
      then have "x = AuthInline (body_new (host_form_user form))"
        using 2(5) assms(3,4)
        by (auto simp: host_form_auth_def keep_host_password_def seal_form_auth_def body_has_plaintext_secret_def body_new_def
            opt_plain_def)
      then show ?thesis using 2(1) h by auto
    qed (use assms(3) in simp)
  qed
  then show ?thesis using v k unfolding host_form_user_def by blast
qed

definition demo_kept_credential :: "bool \<Rightarrow> sshrack_config" where
  "demo_kept_credential marked = demo_keyring_config\<lparr>credentials :=
     [\<lparr>c_id = demo_ids ! 0, c_name = ''ops'', c_body = (body_new ''ops'')\<lparr>b_keyring := marked\<rparr>\<rparr>]\<rparr>"

definition demo_edit_form :: "unit cred_form" where
  "demo_edit_form = cred_form_new_edit (hd (credentials (demo_kept_credential True)))"

text \<open>The form is opened and saved without a change.\<close>

theorem credential_edit_forgets_password_witness:
  "let app = demo_with_overlay (demo_kept_credential True) (CredWizard demo_edit_form);
       env = demo_persist (pair_toml (demo_kept_credential True) (demo_kept_credential False));
       r = persist_cred_save demo_crates fake_backend env app (store_state demo_world)
   in fst r = Inr () \<and> b_keyring (c_body (hd (credentials (ap_config app))))
      \<and> (\<exists>c'. find_credential_by_id (ap_config (fst (snd r))) (demo_ids ! 0) = Some c' \<and> \<not> b_keyring (c_body c'))"
proof -
  let ?app = "demo_with_overlay (demo_kept_credential True) (CredWizard demo_edit_form)"
  let ?env = "demo_persist (pair_toml (demo_kept_credential True) (demo_kept_credential False))"
  let ?c = "hd (credentials (demo_kept_credential True))"
  have "fst (persist_cred_save demo_crates fake_backend ?env ?app (store_state demo_world)) = Inr ()" by code_simp
  then obtain a s where r: "persist_cred_save demo_crates fake_backend ?env ?app (store_state demo_world) = (Inr (), a, s)"
    by (metis prod.collapse)
  have o: "ap_overlay ?app = Some (CredWizard demo_edit_form)" by (simp add: demo_with_overlay_def)
  have c: "find_credential_by_id (ap_config ?app) (demo_ids ! 0) = Some ?c"
    by (simp add: demo_with_overlay_def app_new_def demo_kept_credential_def find_credential_by_id_def)
  have k: "b_keyring (c_body ?c)" "body_wf (c_body ?c)"
    by (simp_all add: demo_kept_credential_def body_wf_def body_new_def)
  have f: "crf_editing demo_edit_form" "crf_orig_id demo_edit_form = Some (demo_ids ! 0)"
    "crf_secret demo_edit_form = ChoosePassword" "crf_password demo_edit_form = []"
    by (simp_all add: demo_edit_form_def demo_kept_credential_def cred_form_new_edit_def prefill_secret_def secret_kind_of_def
        body_new_def Let_def)
  have "credentials (ap_config ?app) = [?c]" by (simp add: demo_with_overlay_def app_new_def demo_kept_credential_def)
  moreover obtain c' where "find_credential_by_id (ap_config a) (demo_ids ! 0) = Some c'"
    "c_body c' = body_new (trim (crf_user demo_edit_form))"
    using credential_edit_forgets_password[OF demo_disk_free o f(1,2) c k f(3,4) r] by blast
  ultimately show ?thesis using k(1) by (auto simp: r body_new_def)
qed

text \<open>The keys of a new host that refers to a credential there is not.\<close>

definition demo_reference_form :: "unit host_form" where
  "demo_reference_form = fold (\<lambda>k f. snd (host_form_on_key demo_form_env k f)) (demo_typed @ [press KeyRight])
     (host_form_new_add [])"

definition demo_rooted :: sshrack_config where
  "demo_rooted = demo_keyring_config\<lparr>hosts := [demo_stored\<lparr>h_auth := AuthInline (body_new ''root'')\<rparr>]\<rparr>"

theorem reference_without_credentials_saves_root_witness:
  "let app = demo_with_overlay demo_keyring_config (HostWizard demo_reference_form);
       r = persist_host_save demo_crates fake_backend (demo_persist (pair_toml demo_keyring_config demo_rooted)) app
             (store_state demo_world)
   in fst (host_form_on_key demo_form_env (press_ctrl (CHR ''s'')) demo_reference_form) = IntentSaveHost
      \<and> hf_auth demo_reference_form = PickReference 0
      \<and> (\<exists>h. hosts (ap_config (fst (snd r))) = [h] \<and> h_auth h = AuthInline (body_new ''root''))"
proof -
  let ?app = "demo_with_overlay demo_keyring_config (HostWizard demo_reference_form)"
  let ?env = "demo_persist (pair_toml demo_keyring_config demo_rooted)"
  have v: "hf_auth demo_reference_form = PickReference 0 \<and> \<not> hf_editing demo_reference_form
     \<and> hf_credential_names demo_reference_form = [] \<and> trim (hf_user demo_reference_form) = []
     \<and> trim (hf_name demo_reference_form) \<noteq> [] \<and> is_ok (validate_name_chars (trim (hf_name demo_reference_form)))
     \<and> trim (hf_host_addr demo_reference_form) \<noteq> []
     \<and> is_ok (validate_ssh_args (fe_splitter demo_form_env) (hf_ssh_args demo_reference_form))
     \<and> fst (persist_host_save demo_crates fake_backend ?env ?app (store_state demo_world)) = Inr (Some (demo_ids ! 1))
     \<and> (case hf_cred_picker demo_reference_form of None \<Rightarrow> True | _ \<Rightarrow> False)
     \<and> (case hf_key_paste demo_reference_form of None \<Rightarrow> True | _ \<Rightarrow> False)
     \<and> (case hf_file_picker demo_reference_form of None \<Rightarrow> True | _ \<Rightarrow> False)"
    by code_simp
  then obtain a s where r: "persist_host_save demo_crates fake_backend ?env ?app (store_state demo_world)
      = (Inr (Some (demo_ids ! 1)), a, s)" by (metis prod.collapse)
  have f: "\<not> hf_editing demo_reference_form" "hf_auth demo_reference_form = PickReference 0" "hf_credential_names demo_reference_form = []"
    "trim (hf_name demo_reference_form) \<noteq> []" "is_ok (validate_name_chars (trim (hf_name demo_reference_form)))"
    "trim (hf_host_addr demo_reference_form) \<noteq> []" "trim (hf_user demo_reference_form) = []"
    "is_ok (validate_ssh_args (fe_splitter demo_form_env) (hf_ssh_args demo_reference_form))" using v by blast+
  have p: "host_plain demo_reference_form" using v by (auto simp: host_plain_def split: option.splits)
  have o: "ap_overlay ?app = Some (HostWizard demo_reference_form)" by (simp add: demo_with_overlay_def)
  have "hosts (ap_config ?app) = []"
    by (simp add: demo_with_overlay_def app_new_def demo_keyring_config_def default_config_def)
  moreover note w = reference_without_credentials_saves_root[where X = demo_crates and be = fake_backend and env = ?env
      and st = "store_state demo_world" and app = ?app and fe = demo_form_env, OF demo_disk_free o f(1-6,8)]
  have "\<exists>h. ap_config a = append_host h (ap_config ?app) \<and> h_auth h = AuthInline (body_new ''root'')"
    using w r f(7) by auto
  ultimately show ?thesis using w p f(2) by (auto simp: Let_def r append_host_def)
qed

text \<open>C33: a failed switch destroys a pasted key with the next save. When a switch from plain text to the
keyring fails on writing the key of the first credential, the file is untouched, but the interface keeps the
half-migrated configuration, in which that key is already taken out. The next save of a host, which has
nothing to do with the credential, writes it: the key is gone from the file and was never in the keyring.\<close>

theorem failed_switch_destroys_key:
  assumes "disk_free env app (cs_files st)" "is_plaintext (ap_config app)" "credentials (ap_config app) = c # cs"
    and "b_password (c_body c) = None" "\<not> b_keyring (c_body c)" "b_key (c_body c) = Some (KeyInline ik)"
    and "ik_private_key ik = Some (Plain p)" "ik_certificate ik = None"
    and "bk_available be (w_backend (cs_world st)) = (True, b0)"
    and "\<And>k v b. \<exists>e b'. bk_set_at be k v b = (Inl e, b')"
    and "persist_store_switch X be env ToKeyring app st = (r, a, s)"
    and "disk_free env2 (a\<lparr>ap_overlay := Some (HostWizard form)\<rparr>) (cs_files s)" "ap_config_path app = Some path"
    and "persist_host_save X be2 env2 (a\<lparr>ap_overlay := Some (HostWizard form)\<rparr>) s = (Inr (Some u), a2, s2)"
  shows "(\<exists>e. r = Inl e) \<and> cs_files s = cs_files st \<and> store (ap_config a) = Some StorePlaintext
    \<and> (\<exists>cfg c'. config_load (ce_toml (pe_cli env2)) path (cs_files s2) = Inr cfg \<and> credentials cfg = c' # cs
         \<and> c_id c' = c_id c \<and> b_key (c_body c') = Some (KeyInline (ik\<lparr>ik_private_key := None\<rparr>)))"
proof -
  let ?cfg = "ap_config app"
  have pl: "store ?cfg = Some StorePlaintext" "\<not> is_keyring ?cfg" "\<not> is_vault ?cfg"
    using assms(2) by (auto simp: is_plaintext_def is_keyring_def is_vault_def split: option.splits secret_store.splits)
  let ?w = "clear_default_cache (ce_vault (pe_cli env)) ((cs_world st)\<lparr>w_backend := b0\<rparr>)"
  let ?c' = "c\<lparr>c_body := (c_body c)\<lparr>b_key := Some (KeyInline (ik\<lparr>ik_private_key := None, ik_certificate := None\<rparr>))\<rparr>\<rparr>"
  let ?ow = "owner_credential (c_id c) (c_name c)"
  obtain e0 b1 where set: "bk_set_at be (inline_slot_key ?ow InlinePrivate) p (w_backend ?w) = (Inl e0, b1)"
    using assms(10) by metis
  obtain e w1 where step: "migrate_credential_step X be StoreKeyring None None c ?w = (Inl e, ?c', w1)"
    using assms(4-8) set
    by (cases "bk_get be (inline_slot_key ?ow InlineCertificate) (w_backend ?w)")
      (auto simp: migrate_credential_step_def migrate_body_def migrate_body_password_def extract_plain_def
        migrate_body_inline_key_def extract_inline_text_def put_slot_def set_at_w_def Let_def)
  have "migrate X be StoreKeyring None None ?cfg ?w = (Inl e, ?cfg\<lparr>credentials := ?c' # cs\<rparr>, w1)"
    using assms(3) step by (simp add: migrate_def)
  then have r: "r = Inl e" "ap_config a = ?cfg\<lparr>credentials := ?c' # cs\<rparr>" "ap_config_path a = ap_config_path app"
    "cs_files s = cs_files st"
    using assms(9,11) pl
    by (auto simp: persist_store_switch_def already_there_def probe_backend_def migrate_in_place_def vault_source_key_def Let_def)
  obtain cfg w where h: "host_save_config X be2 env2 (ap_config a) form (cs_world s) = (Inr (u, cfg), w)"
    "\<And>p. ap_config_path a = Some p \<Longrightarrow> config_load (ce_toml (pe_cli env2)) p (cs_files s2) = Inr cfg"
    by (rule host_save_installs[OF assms(12) _ assms(14), of form]) auto
  have "ik\<lparr>ik_private_key := None, ik_certificate := None\<rparr> = ik\<lparr>ik_private_key := None\<rparr>" using assms(8) by simp
  moreover have "credentials cfg = ?c' # cs" using host_save_credentials(1)[OF h(1)] r(2) by simp
  ultimately show ?thesis using h(2) r assms(13) pl(1) by auto
qed

definition demo_refusing :: "fake_state backend" where
  "demo_refusing = fake_backend\<lparr>bk_set_at := (\<lambda>_ _ b. (Inl (KeyringIo ''denied''), b))\<rparr>"

definition demo_pasted :: "string option \<Rightarrow> host list \<Rightarrow> sshrack_config" where
  "demo_pasted key hs = default_config\<lparr>store := Some StorePlaintext, hosts := hs, credentials :=
     [\<lparr>c_id = demo_ids ! 0, c_name = ''ci'', c_body = (body_new ''ci'')\<lparr>b_key := Some (KeyInline
        \<lparr>ik_private_key = map_option Plain key, ik_certificate = None, ik_keyring = False\<rparr>)\<rparr>\<rparr>]\<rparr>"

definition demo_plain_form :: "unit host_form" where
  "demo_plain_form = (host_form_new_add [])\<lparr>hf_name := ''w'', hf_host_addr := ''h''\<rparr>"

definition demo_switched :: "(sshrack_error + bool) \<times> unit tui_app \<times> fake_state cli_state" where
  "demo_switched = persist_store_switch demo_crates demo_refusing
     (demo_persist (pair_toml (demo_pasted (Some ''KEY'') []) default_config)) ToKeyring
     (demo_with_overlay (demo_pasted (Some ''KEY'') []) StorePicker) (store_state demo_world)"

definition demo_next_save :: "(sshrack_error + ulid option) \<times> unit tui_app \<times> fake_state cli_state" where
  "demo_next_save = persist_host_save demo_crates fake_backend
     (demo_persist (pair_toml (demo_pasted (Some ''KEY'') [])
        (demo_pasted None [demo_stored\<lparr>h_auth := AuthInline (body_new ''root'')\<rparr>])))
     ((fst (snd demo_switched))\<lparr>ap_overlay := Some (HostWizard demo_plain_form)\<rparr>) (snd (snd demo_switched))"

theorem failed_switch_destroys_key_witness:
  "(\<exists>e. fst demo_switched = Inl e) \<and> fst demo_next_save = Inr (Some (demo_ids ! 1))
   \<and> (\<exists>cfg ik. config_load (pair_toml (demo_pasted (Some ''KEY'') [])
          (demo_pasted None [demo_stored\<lparr>h_auth := AuthInline (body_new ''root'')\<rparr>])) ''/etc/c.toml''
        (cs_files (snd (snd demo_next_save))) = Inr cfg
      \<and> b_key (c_body (hd (credentials cfg))) = Some (KeyInline ik) \<and> ik_private_key ik = None)"
proof -
  let ?tm = "pair_toml (demo_pasted (Some ''KEY'') []) (demo_pasted None [demo_stored\<lparr>h_auth := AuthInline (body_new ''root'')\<rparr>])"
  let ?app = "demo_with_overlay (demo_pasted (Some ''KEY'') []) StorePicker"
  let ?c = "hd (credentials (demo_pasted (Some ''KEY'') []))"
  let ?ik = "\<lparr>ik_private_key = Some (Plain ''KEY''), ik_certificate = None, ik_keyring = False\<rparr>"
  have n: "fst demo_next_save = Inr (Some (demo_ids ! 1))" by code_simp
  obtain r a s where sw: "demo_switched = (r, a, s)" by (cases demo_switched) auto
  obtain a2 s2 where sv: "demo_next_save = (Inr (Some (demo_ids ! 1)), a2, s2)" using n by (metis prod.collapse)
  note run = sw[unfolded demo_switched_def] sv[unfolded demo_next_save_def sw fst_conv snd_conv]
  have c: "is_plaintext (ap_config ?app)" "credentials (ap_config ?app) = ?c # []" "b_password (c_body ?c) = None"
    "\<not> b_keyring (c_body ?c)" "b_key (c_body ?c) = Some (KeyInline ?ik)" "ik_private_key ?ik = Some (Plain ''KEY'')"
    "ik_certificate ?ik = None" "ap_config_path ?app = Some ''/etc/c.toml''"
    by (simp_all add: demo_with_overlay_def app_new_def demo_pasted_def is_plaintext_def body_new_def)
  have b: "bk_available demo_refusing (w_backend (cs_world (store_state demo_world))) = (True, w_backend demo_world)"
    by (simp add: demo_refusing_def fake_backend_def store_state_def demo_world_def)
  have f: "\<exists>e b'. bk_set_at demo_refusing k v x = (Inl e, b')" for k v x by (simp add: demo_refusing_def)
  have "(case fst demo_switched of Inl _ \<Rightarrow> True | _ \<Rightarrow> False)" by code_simp
  then have "r \<noteq> Inr True" unfolding sw by auto
  then have "cs_files s = cs_files (store_state demo_world)" "ap_config_path a = Some ''/etc/c.toml''"
    using switch_op[OF demo_disk_free run(1)] c(8) by (auto simp: switched_ok_def)
  then have "disk_free (demo_persist ?tm) (a\<lparr>ap_overlay := Some (HostWizard demo_plain_form)\<rparr>) (cs_files s)"
    using demo_disk_writable[of "a\<lparr>ap_overlay := Some (HostWizard demo_plain_form)\<rparr>"] by simp
  from failed_switch_destroys_key[OF demo_disk_free c(1-7) b f run(1) this c(8) run(2)]
  show ?thesis unfolding sw sv by (auto simp: demo_persist_def store_env_def)
qed

text \<open>What a switch leaves in the view of the picker: a refusal its text, everything else nothing.\<close>

definition switch_refusals :: "switch_target \<Rightarrow> string set" where
  "switch_refusals target =
     {''already in '' @ target_label target @ '' mode'', ''keyring unavailable; cannot read keyring entries to migrate'',
      ''OS keyring unavailable; cannot migrate'', ''plaintext switch declined''}"

definition picked_target :: "store_view \<Rightarrow> switch_target" where
  "picked_target v = (case selected_mode v of
     Some PickKeyring \<Rightarrow> ToKeyring | Some PickVault \<Rightarrow> ToVault | _ \<Rightarrow> ToPlaintext)"

lemma install_view: "install_config env cfg app st = (r, a, s) \<Longrightarrow> ap_store_view a = ap_store_view app"
  by (auto simp: install_config_def set_config_def Let_def split: prod.splits sum.splits option.splits)

lemma reload_view: "persist_and_reload env app st = (r, a, s) \<Longrightarrow> ap_store_view a = ap_store_view app"
  by (auto simp: persist_and_reload_def dest: install_view split: option.splits)

lemma migrate_view: "migrate_in_place X be env m app st = (r, a, s) \<Longrightarrow> r \<noteq> Inr False \<and> ap_store_view a = ap_store_view app"
  by (auto simp: migrate_in_place_def dest!: reload_view split: prod.splits sum.splits)

lemma enable_view: "enable_in_place X be env app st = (r, a, s) \<Longrightarrow> r \<noteq> Inr False \<and> ap_store_view a = ap_store_view app"
  by (auto simp: enable_in_place_def Let_def dest!: reload_view split: prod.splits sum.splits)

lemma switch_view:
  assumes "persist_store_switch X be env target app st = (r, a, s)"
  shows "if r = Inr False then \<exists>msg \<in> switch_refusals target. a = set_store_status msg app
    else ap_store_view a = ap_store_view app"
  using assms
  by (cases target)
    (auto simp: persist_store_switch_def switch_refusals_def Let_def dest: migrate_view enable_view
      split: prod.splits sum.splits if_splits bool.splits)

text \<open>C36: the picker of the storage mode closes whatever comes of the choice.  When Enter is pressed in it, the
tick ends with the picker closed.  When the switch to the selected mode succeeds, the status line says so and the view
is dropped.  When it is refused (the mode is in effect already, the keyring is down, the plain-text warning was
declined) or fails, the status line is what it was and only the view of the picker, which is not open any more, gets
the text: of the refusal or of the error; an interrupted question leaves no text at all.  The disk is one a save can
write to.\<close>

theorem refused_switch_closes_picker:
  assumes "ap_help app = None" "ta_transfer (ap_transfer app) = None" "ap_overlay app = Some StorePicker"
    and "ap_store_view app = Some v" "sv_selected v < 3"
    and "disk_free (tn_persist env) app (ts_files (rs_temp st))"
    and "tui_tick X be env (EventKey (press KeyEnter)) (app, st) = (res, a, s)"
    and "on_process (persist_store_switch X be (tn_persist env) (picked_target v)) ((spin app)\<lparr>ap_overlay := None\<rparr>) st = (r, b, t)"
  shows "ap_overlay a = None
    \<and> (case r of
         Inr True \<Rightarrow> ap_status a = status_info (''switched to '' @ target_label (picked_target v) @ '' mode'') \<and> ap_store_view a = None
       | Inr False \<Rightarrow> ap_status a = ap_status app
           \<and> (\<exists>msg \<in> switch_refusals (picked_target v). ap_store_view a = Some (v\<lparr>sv_status := Some msg\<rparr>))
       | Inl e \<Rightarrow> ap_status a = ap_status app
           \<and> ap_store_view a = Some (if e = Interrupted then v else v\<lparr>sv_status := Some (tn_show_error env e)\<rparr>))"
proof -
  let ?b = "(spin app)\<lparr>ap_overlay := None\<rparr>" and ?target = "picked_target v"
  have b: "(spin app)\<lparr>ap_overlay := None, ap_store_view := Some v\<rparr> = ?b" "ap_store_view ?b = Some v"
    using assms(4) by (simp_all add: spin_def)
  let ?b1 = "(spin app)\<lparr>ap_overlay := None, ap_store_view := Some v\<rparr>"
  obtain out where k1: "app_on_key (tn_app env) (press KeyEnter) (spin app) = (out, ?b1)"
    "handle_intent X be env out ?b1 st = (FlowDrain, switch_intent X be env ?target ?b1 st)"
  proof -
    obtain c where "selected_mode v = Some c" using selected_mode_of[OF assms(5)] by blast
    then show thesis
      using assms(1-4) that[of "case c of PickKeyring \<Rightarrow> IntentToKeyring | PickVault \<Rightarrow> IntentToVault | PickPlaintext \<Rightarrow> IntentToPlaintext"]
      by (cases c) (simp_all add: app_on_key_def spin_def on_screen_def route_overlay_def store_view_on_key_def ends_picker_def
          handle_intent_def is_ctrl_def no_mods_def press_def picked_target_def Let_def)
  qed
  note k = k1[unfolded b(1)]
  obtain t0 where o: "persist_store_switch X be (tn_persist env) ?target ?b
      \<lparr>cs_world = rs_world st, cs_files = ts_files (rs_temp st)\<rparr> = (r, b, t0)" using on_process_result[OF assms(8)] by metis
  have "disk_free (tn_persist env) ?b (ts_files (rs_temp st))" using assms(6) by (simp add: disk_free_def spin_def)
  then have "switched_ok (tn_persist env) ?b b (cs_files t0)" using switch_op(1)[OF _ o] by simp
  then have c: "ap_overlay b = None" "ap_status b = ap_status app" by (auto simp: switched_ok_def spin_def)
  let ?f = "fst (switch_intent X be env ?target ?b st)"
  have "a = drain_tick env ?f" using assms(7) k by (simp add: tui_tick_def Let_def end_tick_def)
  then have a: "ap_overlay a = ap_overlay ?f" "ap_status a = ap_status ?f" "ap_store_view a = ap_store_view ?f"
    by (simp_all add: drain_tick_def)
  note i = switch_intent_def assms(8) set_app_status_def close_store_view_def set_store_status_def recompute_panels_def
  have "ap_overlay ?f = None" using c(1) by (auto simp: i split: sum.split bool.split)
  moreover have "r = Inr True \<Longrightarrow> ap_status ?f = status_info (''switched to '' @ target_label ?target @ '' mode'') \<and> ap_store_view ?f = None"
    by (simp add: i)
  moreover have "r = Inr False \<Longrightarrow> ap_status ?f = ap_status app
      \<and> (\<exists>msg \<in> switch_refusals ?target. ap_store_view ?f = Some (v\<lparr>sv_status := Some msg\<rparr>))"
    using c(2) switch_view[OF o] b(2) by (auto simp: i)
  moreover have "r = Inl e \<Longrightarrow> ap_status ?f = ap_status app
      \<and> ap_store_view ?f = Some (if e = Interrupted then v else v\<lparr>sv_status := Some (tn_show_error env e)\<rparr>)" for e
    using c(2) switch_view[OF o] b(2) by (auto simp: i)
  ultimately show ?thesis unfolding a by (auto split: sum.split bool.split)
qed

definition demo_picking :: "unit tui_app" where
  "demo_picking = (app_new demo_no_matcher demo_keyring_config None Map.empty [])
     \<lparr>ap_overlay := Some StorePicker, ap_store_view := Some (store_view_new (Some ''keyring''))\<rparr>"

text \<open>The mode in effect is chosen again: the text goes to a view nobody sees.\<close>

theorem refused_switch_closes_picker_witness:
  "let a = fst (snd (tui_tick demo_crates fake_backend demo_ui (EventKey (press KeyEnter)) (demo_picking, demo_run_state)))
   in ap_overlay a = None \<and> ap_status a = status_empty
      \<and> (\<exists>msg \<in> switch_refusals ToKeyring. ap_store_view a = Some ((store_view_new (Some ''keyring''))\<lparr>sv_status := Some msg\<rparr>))"
proof -
  let ?v = "store_view_new (Some ''keyring'')"
  obtain res a s where t: "tui_tick demo_crates fake_backend demo_ui (EventKey (press KeyEnter)) (demo_picking, demo_run_state)
      = (res, a, s)"
    by (cases "tui_tick demo_crates fake_backend demo_ui (EventKey (press KeyEnter)) (demo_picking, demo_run_state)") auto
  have p: "ap_help demo_picking = None" "ta_transfer (ap_transfer demo_picking) = None" "ap_overlay demo_picking = Some StorePicker"
    "ap_store_view demo_picking = Some ?v" "sv_selected ?v < 3"
    "disk_free (tn_persist demo_ui) demo_picking (ts_files (rs_temp demo_run_state))" "ap_status demo_picking = status_empty"
    by (simp_all add: demo_picking_def app_new_def no_transfer_def store_view_new_def disk_free_def)
  have k: "picked_target ?v = ToKeyring"
    by (simp add: picked_target_def store_view_new_def selected_mode_def STORE_CHOICES_def get_at_def)
  have there: "already_there ToKeyring (ap_config ((spin demo_picking)\<lparr>ap_overlay := None\<rparr>))"
    by (simp add: already_there_def demo_picking_def app_new_def demo_keyring_config_def is_keyring_def spin_def)
  obtain b u where "on_process (persist_store_switch demo_crates fake_backend (tn_persist demo_ui) (picked_target ?v))
      ((spin demo_picking)\<lparr>ap_overlay := None\<rparr>) demo_run_state = (Inr False, b, u)"
    unfolding k using there by (simp add: on_process_def persist_store_switch_def Let_def)
  from refused_switch_closes_picker[OF p(1-6) t this] show ?thesis using p(7) k by (simp add: t)
qed

section \<open>The flags of an sftp command\<close>

text \<open>For a configured host only the user of the flags reaches the session: the host is the saved one, whatever
port and identity were given.\<close>

lemma sftp_keeps_saved_host:
  assumes "find_host_by_name cfg name = Some h" "co_credential (overlay opts base) = None"
  shows "resolve_transfer_target jw fresh (Some (CmdSftp opts name)) cfg base = Inr (Some (h, co_user (overlay opts base)))"
  using assms by (simp add: resolve_transfer_target_def Let_def resolve_target_def with_overrides_def)

end
