(* ===== verification/Tui_Same.thy ===== *)
theory Tui_Same
  imports Tui_Invariant
begin

text \<open>The interface and the connect command reach the same launch.\<close>

lemma known_flow:
  assumes "known_hosts_path hk = Some kh" "is_known hk h port kh fs = Inr True"
  shows "run_host_key_flow hk h port tty acc confirm t fs = (Inr (), t, fs)"
  using assms by (simp add: run_host_key_flow_def hostkey_classify_def)

lemma auth_codes:
  "connect_auth X be (tn_run env) cfg h w =
     (case tui_auth X be env cfg h w of
        (Inr au, w1) \<Rightarrow> (Inr au, w1) | (Inl e, w1) \<Rightarrow> (fst (connect_auth X be (tn_run env) cfg h w), w1))"
  and auth_fails: "tui_auth X be env cfg h w = (Inl e, w1) \<Longrightarrow>
     \<exists>code \<in> {EXIT_NOT_FOUND, EXIT_STORE, EXIT_CONNECT}. connect_auth X be (tn_run env) cfg h w = (Inl code, w1)"
  by (auto simp: connect_auth_def tui_auth_def unlock_vault_key_def Let_def
      split: prod.splits sum.splits sshrack_error.splits)

text \<open>Which host is meant, and that nothing is asked: its key is known, and the table of uses that the
interface loaded at its start is still the one on disk.\<close>

definition same_start :: "'t tui_env \<Rightarrow> resolved_auth \<Rightarrow> host \<Rightarrow> 't tui_app \<Rightarrow> 'b run_state \<Rightarrow> bool" where
  "same_start env au h app st \<longleftrightarrow>
     (case materialize_inline_key (re_os (tn_run env)) au (rs_temp st) of
        (_, _, ts) \<Rightarrow>
          (\<exists>kh. known_hosts_path (re_hostkey (tn_run env)) = Some kh
             \<and> is_known (re_hostkey (tn_run env)) (h_host h) (h_port h) kh (ts_files ts) = Inr True)
          \<and> load_frecency (tn_run env) (ts_files ts) = ap_frecency app)"

lemma same_use:
  assumes "load_frecency (tn_run env) fs = frec" "\<not> rt_ephemeral rt" "rt_host rt = h"
  shows "record_use (tn_run env) rt fs = snd (tui_record_use env (h_id h) frec fs)"
  using assms by (auto simp: record_use_def tui_record_use_def load_frecency_def Let_def split: option.splits)

lemma same_target:
  assumes "find_host_by_name cfg (h_name h) = Some h"
  shows "connect_target env cfg no_options (h_name h) = Inr (None, \<lparr>rt_host = h, rt_target_user = None, rt_ephemeral = False\<rparr>)"
  using assms
  by (simp add: connect_target_def no_options_def resolve_credential_name_def resolve_target_def with_overrides_def)

section \<open>Properties\<close>

text \<open>C7: connecting from the interface is the connect command.  Take a configured host that its id and its name
both find, a configuration in memory that is the one the command would load, and, once a pasted key is staged, a
host that is in known_hosts and a table of uses on disk that is the one in memory.  Then the request the interface
hands back and the launch that follows give exactly the exit code and the final state of connect with the name of
the host; when the interface reports an error instead, the command ends in the state the interface is left in with
one of the error codes: not found, store or connect.\<close>

theorem interface_connects_like_command:
  assumes "load_or_default (tn_run env) (ts_files (rs_temp st)) = Inr (ap_config app)"
    and "find_host_by_id (ap_config app) u = Some h" "find_host_by_name (ap_config app) (h_name h) = Some h"
    and "\<And>au w. tui_auth X be env (ap_config app) h (rs_world st) = (Inr au, w) \<Longrightarrow> same_start env au h app st"
    and "connect_host X be env u app st = (r, a, s)"
  shows "case r of
      Inr req \<Rightarrow> connect_run X be (tn_run env) no_options [h_name h] st = after_tui (tn_run env) (Inr (Some req)) s
    | Inl _ \<Rightarrow> \<exists>code \<in> {EXIT_NOT_FOUND, EXIT_STORE, EXIT_CONNECT}.
        connect_run X be (tn_run env) no_options [h_name h] st = (code, s)"
proof -
  let ?env = "tn_run env" and ?rt = "\<lparr>rt_host = h, rt_target_user = None, rt_ephemeral = False\<rparr>"
  have run: "connect_run X be ?env no_options [h_name h] st =
      (case connect_auth X be ?env (ap_config app) h (rs_world st) of
                  (Inl code, w) \<Rightarrow> (code, st\<lparr>rs_world := w\<rparr>)
                | (Inr au, w) \<Rightarrow>
                    (case materialize_inline_key (re_os ?env) au (rs_temp st) of
                       (Inl _, _, ts) \<Rightarrow> (EXIT_CONNECT, st\<lparr>rs_world := w, rs_temp := ts\<rparr>)
                     | (Inr art, au1, ts) \<Rightarrow>
                         drop_key ?env art (connect_staged ?env no_options None ?rt au1 [] (st\<lparr>rs_world := w, rs_temp := ts\<rparr>))))"
    by (simp add: connect_run_def assms(1) same_target[OF assms(3)])
  obtain r1 w where t: "tui_auth X be env (ap_config app) h (rs_world st) = (r1, w)" by fastforce
  show ?thesis
  proof (cases r1)
    case (Inl e)
    then have "r = Inl e" "s = st\<lparr>rs_world := w\<rparr>" using assms(2,5) t by (simp_all add: connect_host_def)
    moreover obtain code where c: "connect_auth X be ?env (ap_config app) h (rs_world st) = (Inl code, w)"
      "code \<in> {EXIT_NOT_FOUND, EXIT_STORE, EXIT_CONNECT}"
      using auth_fails t Inl by blast
    ultimately have "connect_run X be ?env no_options [h_name h] st = (code, s)" using run by simp
    then show ?thesis using c(2) \<open>r = Inl e\<close> by auto
  next
    case (Inr au)
    have ca: "connect_auth X be ?env (ap_config app) h (rs_world st) = (Inr au, w)"
      using auth_codes[of X be env "ap_config app" h "rs_world st"] t Inr by simp
    obtain art au1 ts where m: "materialize_inline_key (re_os ?env) au (rs_temp st) = (art, au1, ts)"
      by (cases "materialize_inline_key (re_os ?env) au (rs_temp st)") auto
    show ?thesis
    proof (cases art)
      case e: (Inl e)
      then show ?thesis using assms(2,5) t Inr m run ca by (auto simp: connect_host_def)
    next
      case k: (Inr key)
      obtain kh where kh: "known_hosts_path (re_hostkey ?env) = Some kh"
        "is_known (re_hostkey ?env) (h_host h) (h_port h) kh (ts_files ts) = Inr True"
        "load_frecency ?env (ts_files ts) = ap_frecency app"
        using assms(4)[OF t[unfolded Inr]] m by (auto simp: same_start_def)
      let ?fs = "snd (tui_record_use env (h_id h) (ap_frecency app) (ts_files ts))"
      let ?argv = "ssh_build (cm_splitter (tn_cmd env)) au1 h no_overrides []"
      obtain frec fs' where ru: "tui_record_use env (h_id h) (ap_frecency app) (ts_files ts) = (frec, fs')" by fastforce
      have i: "r = Inr \<lparr>cq_argv = ?argv, cq_source = ra_password au1, cq_key_artifact = key\<rparr>"
        "s = st\<lparr>rs_world := w, rs_temp := ts\<lparr>ts_files := ?fs\<rparr>\<rparr>"
        using assms(2,5) t Inr m k
        by (simp_all add: connect_host_def tui_host_key_flow_def Let_def ru known_flow[OF kh(1,2)])
      have o: "ssh_overrides no_options None ?rt = no_overrides"
        by (simp add: ssh_overrides_def no_options_def no_overrides_def)
      have u: "record_use ?env ?rt (ts_files ts) = ?fs" by (rule same_use) (simp_all add: kh(3))
      have hk: "host_key_step ?env b (h_host h) (h_port h) (st\<lparr>rs_world := w, rs_temp := ts\<rparr>)
          = (True, st\<lparr>rs_world := w, rs_temp := ts\<rparr>)" for b
        by (simp add: host_key_step_def known_flow[OF kh(1,2)])
      have "connect_staged ?env no_options None ?rt au1 [] (st\<lparr>rs_world := w, rs_temp := ts\<rparr>)
          = launch_step ?env ?argv (ra_password au1) s"
        using hk u o i(2) by (simp add: connect_staged_def no_options_def opt_or_def Let_def)
      then show ?thesis using run ca m k i(1) by (simp add: after_tui_def)
    qed
  qed
qed

definition demo_conn :: "unit tui_env" where
  "demo_conn = demo_ui\<lparr>tn_run := demo_run (exits 3)\<rparr>"

definition demo_conn_app :: "unit tui_app" where
  "demo_conn_app = app_new demo_no_matcher demo_cfg (Some ''/etc/c.toml'') Map.empty []"

lemma demo_tui_auth: "tui_auth demo_crates fake_backend demo_conn demo_cfg demo_web demo_world
    = (Inr \<lparr>ra_user = ''ops'', ra_key_path = None, ra_password = SourceNone,
            ra_inline_key = Some \<lparr>im_private = ''KEY'', im_certificate = None\<rparr>\<rparr>, demo_world)"
proof -
  have "is_vault demo_cfg = False" by (simp add: is_vault_def demo_cfg_def demo_creds_def)
  moreover have "resolve demo_crates (\<lambda>_ _. 0) demo_web demo_cfg None fake_backend (w_backend demo_world)
      = Inr \<lparr>ra_user = ''ops'', ra_key_path = None, ra_password = SourceNone,
              ra_inline_key = Some \<lparr>im_private = ''KEY'', im_certificate = None\<rparr>\<rparr>" by code_simp
  ultimately show ?thesis
    by (simp add: tui_auth_def ensure_unlocked_vault_key_def demo_conn_def demo_run_def demo_cmd_def Let_def)
qed

theorem interface_connects_like_command_witness:
  "let r = connect_host demo_crates fake_backend demo_conn (demo_ids ! 1) demo_conn_app demo_run_state
   in \<exists>req. fst r = Inr req \<and> fst (after_tui (tn_run demo_conn) (Inr (Some req)) (snd (snd r))) = 3"
proof -
  let ?env = "tn_run demo_conn"
  let ?au = "\<lparr>ra_user = ''ops'', ra_key_path = None, ra_password = SourceNone,
            ra_inline_key = Some \<lparr>im_private = ''KEY'', im_certificate = None\<rparr>\<rparr>"
  let ?art = "\<lparr>ka_private = ''/tmp/sshrack-key-7-5.pem'', ka_cert = None\<rparr>"
  have env: "?env = demo_run (exits 3)" by (simp add: demo_conn_def)
  have cfg: "ap_config demo_conn_app = demo_cfg" by (simp add: demo_conn_app_def app_new_def)
  have os: "re_os ?env = demo_os" by (simp add: env re_os_def demo_run_def demo_cmd_def store_env_def)
  have w: "rs_world demo_run_state = demo_world" by (simp add: demo_run_state_def)
  have h: "find_host_by_id demo_cfg (demo_ids ! 1) = Some demo_web" "find_host_by_name demo_cfg (h_name demo_web) = Some demo_web"
    by (simp_all add: demo_cfg_def demo_creds_def find_host_by_id_def find_host_by_name_def demo_web_def)
  obtain au1 ts where m: "materialize_inline_key demo_os ?au (rs_temp demo_run_state) = (Inr (Some ?art), au1, ts)"
    using demo_key by (metis prod.collapse)
  then have k: "key_artifact_write demo_os ''KEY'' None (rs_temp demo_run_state) = (Inr ?art, ts)"
    by (auto simp: materialize_inline_key_def Let_def split: sum.splits prod.splits)
  have kh: "ts_files ts ''/h/.ssh/known_hosts'' \<noteq> None"
    using key.acquire_frame[OF k, of "''/h/.ssh/known_hosts''"] by (simp add: ka_paths_def demo_run_state_def)
  have known: "known_hosts_path (re_hostkey ?env) = Some ''/h/.ssh/known_hosts''"
    "is_known (re_hostkey ?env) (h_host demo_web) (h_port demo_web) ''/h/.ssh/known_hosts'' (ts_files ts) = Inr True"
    using kh by (auto simp: known_hosts_path_def is_known_def env demo_run_def demo_hostkey_def)
  have ss: "same_start demo_conn au demo_web demo_conn_app demo_run_state"
    if "tui_auth demo_crates fake_backend demo_conn (ap_config demo_conn_app) demo_web (rs_world demo_run_state) = (Inr au, v)" for au v
  proof -
    have "au = ?au" using that by (simp add: cfg w demo_tui_auth)
    moreover have "load_frecency ?env (ts_files ts) = ap_frecency demo_conn_app"
      by (simp add: env load_frecency_def demo_run_def demo_cmd_def demo_conn_app_def app_new_def)
    ultimately show ?thesis using known by (auto simp: same_start_def os m)
  qed
  obtain r a s where c: "connect_host demo_crates fake_backend demo_conn (demo_ids ! 1) demo_conn_app demo_run_state = (r, a, s)"
    by (cases "connect_host demo_crates fake_backend demo_conn (demo_ids ! 1) demo_conn_app demo_run_state") auto
  have ld: "load_or_default ?env (ts_files (rs_temp demo_run_state)) = Inr (ap_config demo_conn_app)"
    unfolding env cfg by (rule demo_load)
  note eq = interface_connects_like_command[OF ld _ _ ss c, unfolded cfg, OF h]
  obtain frec fs' where ru: "tui_record_use demo_conn (h_id demo_web) Map.empty (ts_files ts) = (frec, fs')" by fastforce
  have "ap_frecency demo_conn_app = Map.empty" by (simp add: demo_conn_app_def app_new_def)
  then have "\<exists>req. r = Inr req"
    using c by (auto simp: connect_host_def cfg h(1) w demo_tui_auth os m tui_host_key_flow_def known_flow[OF known] ru
        simp del: One_nat_def)
  then show ?thesis using eq demo_connects[of 3] c by (auto simp: env demo_web_def)
qed

end
