(* ===== verification/Spec2Isabelle.thy ===== *)
theory Spec2Isabelle
  imports Sftp_Argv Scp Target Prompt Cli_Facts Cli_Main Connect_Props Pane_Props Find_Props Tui_Loop Form_Props Tui_Saves Tui_Same
begin

text \<open>A verification development for sshrack, an SSH connection manager.

\<^bold>\<open>The program.\<close>  sshrack keeps a registry of hosts and credentials in a TOML file, keeps their secrets in one of
three places (in the file, in the file under a vault passphrase, in the keyring of the operating system) and
starts ssh, scp and sftp with the right login, key and password.  The library crate
(\<^verbatim>\<open>crates/sshrack-core/src\<close>) has the data model, the vault, the resolution of targets and the connections; the
binary (\<^verbatim>\<open>src\<close>) has the commands and the terminal interface.  A password reaches ssh through an askpass helper:
ssh starts sshrack again, with an environment that tells the copy where the password is.

\<^bold>\<open>Conventions.\<close>  Paths are written relative to the two source directories.  A struct is a record, an enum a
datatype with the source's constructors, a \<^verbatim>\<open>Result\<close> a sum with the error on the left, a machine integer that can
wrap a word; a \<^verbatim>\<open>usize\<close> that cannot reach its bound is a natural number.  A string is a list of characters,
bytes and Unicode scalars are not told apart.  Effects are passed explicitly: files are a map from paths to
contents and modes, with the failures of the operating system as an argument; the keyring, the key cache and
the random draws are the \<^verbatim>\<open>world\<close>; a run of a command is a function from its state to an exit code and a state.
Third-party code is an argument with its documented behaviour as a named hypothesis: the cipher and the key
derivation (\<^verbatim>\<open>crates_ok\<close>), the keyring (\<^verbatim>\<open>secret_backend\<close>, \<^verbatim>\<open>reliable_backend\<close>, \<^verbatim>\<open>probed_backend\<close>), the TOML
library (\<^verbatim>\<open>toml_ok\<close>), the shell splitter, the fuzzy matcher and the similarity, the text area, ssh-keygen,
ssh-keyscan and the child processes.  Fresh ids, times and answers of the user are arguments.

\<^bold>\<open>Foundations.\<close>  \<^verbatim>\<open>Prelude\<close> has the rule collections and the facts on sums, options and lists; \<^verbatim>\<open>Rust_Text\<close>,
\<^verbatim>\<open>Rust_Net\<close>, \<^verbatim>\<open>Rust_Sort\<close> and \<^verbatim>\<open>Rust_Float\<close> model the parts of the standard library the source calls (string
methods, address parsing, stable sorting, double precision); \<^verbatim>\<open>Errors\<close> is \<^verbatim>\<open>error.rs\<close>, \<^verbatim>\<open>Ids\<close> is \<^verbatim>\<open>id.rs\<close> with the
accounts of the keyring slots, \<^verbatim>\<open>Schema\<close> is \<^verbatim>\<open>config/schema.rs\<close>.

\<^bold>\<open>Secrets.\<close>  \<^verbatim>\<open>Secret_Backend\<close> is \<^verbatim>\<open>secret/mod.rs\<close> and \<^verbatim>\<open>secret/keyring.rs\<close>: the backend's contract as locales,
interpreted on the in-memory double and on the keyring.  \<^verbatim>\<open>Vault_Crypto\<close> is \<^verbatim>\<open>vault/crypto.rs\<close> and
\<^verbatim>\<open>vault/cache.rs\<close>, \<^verbatim>\<open>Vault_Transform\<close> is \<^verbatim>\<open>vault/transform.rs\<close> (finalising, decrypting all, switching the
mode), \<^verbatim>\<open>Vault\<close> is \<^verbatim>\<open>vault/mod.rs\<close> (unlocking, enabling, sealing).  \<^verbatim>\<open>Vault_Facts\<close>, \<^verbatim>\<open>Vault_Migrate\<close> and
\<^verbatim>\<open>Vault_Decrypt\<close> have their specification: the plain-text view of a configuration, of which a switch is a
refinement, with the invariant that ties bodies to keyring slots.

\<^bold>\<open>Registry and targets.\<close>  \<^verbatim>\<open>Sshargs\<close>, \<^verbatim>\<open>Suggest\<close>, \<^verbatim>\<open>Host\<close> and \<^verbatim>\<open>Credential\<close> are the files of these names;
\<^verbatim>\<open>Manage\<close> states both tables as one interface (a registry of named entries) and interprets it on them,
\<^verbatim>\<open>Manage_Secrets\<close> has what edits, removals and copies do to secrets, \<^verbatim>\<open>Target\<close> the decision table of a
connect target, \<^verbatim>\<open>Frecency\<close> the usage scores with their file.

\<^bold>\<open>Files and connections.\<close>  \<^verbatim>\<open>Temp_Files\<close> is \<^verbatim>\<open>fsutil.rs\<close>, \<^verbatim>\<open>tempfile_registry.rs\<close> and \<^verbatim>\<open>sweep.rs\<close>;
\<^verbatim>\<open>Config_Store\<close> is \<^verbatim>\<open>config/store.rs\<close> and \<^verbatim>\<open>config/path.rs\<close>; \<^verbatim>\<open>Connect\<close>, \<^verbatim>\<open>Connect_Files\<close> and \<^verbatim>\<open>Scp\<close> are
\<^verbatim>\<open>connect\<close> without sftp; \<^verbatim>\<open>Askpass\<close> is the helper; \<^verbatim>\<open>Hostkey\<close> the host-key pre-flight; \<^verbatim>\<open>Dir_Source\<close> and
\<^verbatim>\<open>Path_Find\<close> the listings and the find across directories.  \<^verbatim>\<open>Sftp_Argv\<close>, \<^verbatim>\<open>Sftp_Parse\<close>, \<^verbatim>\<open>Sftp_Proto\<close> and
\<^verbatim>\<open>Sftp_Worker\<close> are \<^verbatim>\<open>connect/sftp\<close>, with \<^verbatim>\<open>Worker_Facts\<close> and \<^verbatim>\<open>Worker_Props\<close> for the worker thread.

\<^bold>\<open>Commands.\<close>  \<^verbatim>\<open>Prompt\<close>, \<^verbatim>\<open>Output\<close>, \<^verbatim>\<open>Cli_Shared\<close>, \<^verbatim>\<open>Cli_Host\<close>, \<^verbatim>\<open>Cli_Cred\<close>, \<^verbatim>\<open>Store_Cmd\<close>, \<^verbatim>\<open>Cli_Connect\<close> and
\<^verbatim>\<open>Cli_Main\<close> are \<^verbatim>\<open>cli\<close>, \<^verbatim>\<open>shared\<close> and \<^verbatim>\<open>main.rs\<close>; \<^verbatim>\<open>Cli_Facts\<close>, \<^verbatim>\<open>Store_Facts\<close>, \<^verbatim>\<open>Store_Props\<close> and
\<^verbatim>\<open>Connect_Props\<close> have what holds of a whole command: the configuration on disk stays well formed, switching and
rekeying keep the secrets, a connection leaves no temporary file (but the password file when its child cannot be
started) and starts no child before the host keys are accepted.

\<^bold>\<open>Terminal interface.\<close>  \<^verbatim>\<open>Tui_Keys\<close> (keys, tabs, \<^verbatim>\<open>tui/fit.rs\<close>), \<^verbatim>\<open>Panel_Rank\<close> (\<^verbatim>\<open>tui/panel.rs\<close>), \<^verbatim>\<open>Browser_Core\<close>,
\<^verbatim>\<open>Wizard_Pickers\<close> (key paste, credential and file picker), \<^verbatim>\<open>Wizard_Base\<close>, \<^verbatim>\<open>Host_Form\<close>, \<^verbatim>\<open>Cred_Form\<close>
(\<^verbatim>\<open>tui/wizard\<close>), \<^verbatim>\<open>Tui_Panels\<close> (launcher, credential panel, storage view, settings), \<^verbatim>\<open>Tui_App\<close> (\<^verbatim>\<open>tui/app.rs\<close>, the
layers a key passes), \<^verbatim>\<open>Tui_Prompt\<close> (the popups as functions of the events they read), \<^verbatim>\<open>Tui_Persist\<close>
(\<^verbatim>\<open>tui/persist.rs\<close>), \<^verbatim>\<open>Tui_Connect\<close> (\<^verbatim>\<open>tui/connect.rs\<close>, \<^verbatim>\<open>tui/transfer/open.rs\<close>), \<^verbatim>\<open>Tui_Loop\<close>
(\<^verbatim>\<open>tui/run_loop.rs\<close>, \<^verbatim>\<open>tui/mod.rs\<close>).  The transfer screen is \<^verbatim>\<open>Ledger\<close>, \<^verbatim>\<open>Transfer_Queue\<close>,
\<^verbatim>\<open>Transfer_Screen\<close> and \<^verbatim>\<open>Transfer_Loop\<close>.  A key is a function from the state of the interface to a state and an
intent; the event loop carries the intent out on the state of the process and then drains what the worker
sent.  \<^verbatim>\<open>Transfer_System\<close> puts the screen and the worker beside each other as two threads over two channels, a
step relation with reachability; \<^verbatim>\<open>Transfer_Props\<close> and \<^verbatim>\<open>Pane_Props\<close> rest on its invariant.  \<^verbatim>\<open>Form_Props\<close>
has the invariant of the forms (the focus ring as a locale, interpreted on both), \<^verbatim>\<open>Tui_Config\<close> what the
operations of \<^verbatim>\<open>tui/persist.rs\<close> do to the configuration, \<^verbatim>\<open>Tui_Invariant\<close> the invariant of the running
interface over the states the loop reaches from a stored configuration with unique ids and names, \<^verbatim>\<open>Tui_Saves\<close> what a save stores and which saves and switches lose
a secret, \<^verbatim>\<open>Tui_Same\<close> that the interface connects as the command does.

\<^bold>\<open>Bounds and fuel.\<close>  A loop that waits for the outside runs over the list of what it will see and has no result
when the list ends first: the handshake of a session and the progress of a transfer over their polls, a popup
over its events, the event loop over its ticks.  The statements about them hold for every list.  The tree walk
of the find is bounded by the depth of the pattern; its termination is proved against an arbitrary source.
Nothing else needs fuel: the remaining recursion is structural or has a measure.

\<^bold>\<open>Not modelled.\<close>  Drawing (\<^verbatim>\<open>tui/transfer/render*.rs\<close>, \<^verbatim>\<open>tui/shell.rs\<close>, \<^verbatim>\<open>tui/theme.rs\<close> and the draw functions of
the other files): it writes to a terminal with a third-party library, keeps no state and needs characters
outside Latin-1.  The set-up and restoring of the terminal, the clap declarations, the serde derivations and
the \<^verbatim>\<open>Display\<close> texts, which are data for libraries.  The threads that drain standard error and the mutexes
around the search results and the registry of temporary files: each is used by one owner at a time.  What an sftp
process writes to a local destination: each poll is told the size the file system reports, and the worker's own
removal of the destination is modelled.  The tests.\<close>

end
